(* ===== verification/Prelude.thy ===== *)
theory Prelude
  imports Complex_Main "HOL-Library.Multiset" "HOL-Library.Sublist"
begin

text \<open>
  The shared base of the development: the result type of operations that may throw, the
  loops and the transaction that the storage code is written with, text (the UTF-8 bytes of
  a JavaScript string), the stable sort behind ORDER BY and \<open>Array.prototype.sort\<close>,
  decimal printing, and the lemmas about them that the components share.
\<close>

named_theorems op_simps \<open>unfolding rules of the state-and-error operations\<close>
named_theorems keeps_intro \<open>introduction rules: an operation keeps a state predicate\<close>

section \<open>Operations that change a state and may throw\<close>

text \<open>
  A JavaScript function that mutates the database and may throw is a function from the
  state to the outcome and the state that is left behind. A thrown error does not undo what
  was done before it, so the state is returned in both cases.
  \<open>Thrown m\<close> is \<open>throw new Error(m)\<close>; \<open>Constraint k\<close> is the error that
  sql.js raises when a statement violates a constraint of the schema; \<open>SqlError m\<close> is
  any other error of the SQL engine; \<open>IoError m\<close> is the rejection of a file operation.
\<close>

datatype err = Thrown string | Constraint string | SqlError string | IoError string

type_synonym ('s, 'a) op = "'s \<Rightarrow> (err + 'a) \<times> 's"

definition ret :: "'a \<Rightarrow> ('s, 'a) op" where
  "ret a s = (Inr a, s)"

definition throw :: "err \<Rightarrow> ('s, 'a) op" where
  "throw e s = (Inl e, s)"

definition and_then :: "('s, 'a) op \<Rightarrow> ('a \<Rightarrow> ('s, 'b) op) \<Rightarrow> ('s, 'b) op" where
  "and_then m k s = (case m s of (Inl e, s') \<Rightarrow> (Inl e, s') | (Inr a, s') \<Rightarrow> k a s')"

definition reading :: "('s \<Rightarrow> ('s, 'a) op) \<Rightarrow> ('s, 'a) op" where
  "reading k s = k s s"

definition modify :: "('s \<Rightarrow> 's) \<Rightarrow> ('s, unit) op" where
  "modify f s = (Inr (), f s)"

definition guard_else :: "bool \<Rightarrow> err \<Rightarrow> ('s, 'a) op \<Rightarrow> ('s, 'a) op" where
  "guard_else c e m = (if c then m else throw e)"

text \<open>\<open>for (const x of xs) body(x)\<close>, with an accumulator for the variables it updates.\<close>

fun for_acc :: "'x list \<Rightarrow> 'b \<Rightarrow> ('x \<Rightarrow> 'b \<Rightarrow> ('s, 'b) op) \<Rightarrow> ('s, 'b) op" where
  "for_acc [] b f = ret b"
| "for_acc (x # xs) b f = and_then (f x b) (\<lambda>b'. for_acc xs b' f)"

definition for_each :: "'x list \<Rightarrow> ('x \<Rightarrow> ('s, unit) op) \<Rightarrow> ('s, unit) op" where
  "for_each xs f = for_acc xs () (\<lambda>x _. f x)"

text \<open>
  \<open>BEGIN; try { body; COMMIT } catch { ROLLBACK; throw }\<close>. The argument \<open>rb\<close> says
  whether ROLLBACK itself fails (and with which message); the code then throws an error of
  its own, and what the failed rollback left behind is the state at the failure.
\<close>

definition in_transaction :: "string \<Rightarrow> string option \<Rightarrow> ('s, 'a) op \<Rightarrow> ('s, 'a) op" where
  "in_transaction critical rb body s =
     (case body s of
        (Inr a, s') \<Rightarrow> (Inr a, s')
      | (Inl e, s') \<Rightarrow> (case rb of None \<Rightarrow> (Inl e, s) | Some m \<Rightarrow> (Inl (Thrown critical), s')))"

lemma ret_apply [op_simps]: "ret a s = (Inr a, s)"
  by (simp add: ret_def)

lemma throw_apply [op_simps]: "throw e s = (Inl e, s)"
  by (simp add: throw_def)

lemma modify_apply [op_simps]: "modify f s = (Inr (), f s)"
  by (simp add: modify_def)

lemma reading_apply [op_simps]: "reading k s = k s s"
  by (simp add: reading_def)

lemma and_then_apply [op_simps]:
  "and_then m k s = (case fst (m s) of Inl e \<Rightarrow> (Inl e, snd (m s)) | Inr a \<Rightarrow> k a (snd (m s)))"
  by (simp add: and_then_def split: prod.split sum.split)

lemma guard_else_apply [op_simps]:
  "guard_else c e m s = (if c then m s else (Inl e, s))"
  by (simp add: guard_else_def throw_def)

lemma for_each_Nil [op_simps]: "for_each [] f s = (Inr (), s)"
  by (simp add: for_each_def ret_def)

lemma for_each_Cons [op_simps]:
  "for_each (x # xs) f s = and_then (f x) (\<lambda>_. for_each xs f) s"
  by (simp add: for_each_def and_then_def split: prod.split sum.split)

lemma for_each_append:
  "for_each (xs @ ys) f s = and_then (for_each xs f) (\<lambda>_. for_each ys f) s"
  by (induction xs arbitrary: s) (auto simp: op_simps split: sum.split)

text \<open>A loop that computes a value for every element and stops at the first error.\<close>

fun collect :: "('a \<Rightarrow> err + 'b) \<Rightarrow> 'a list \<Rightarrow> err + 'b list" where
  "collect f [] = Inr []"
| "collect f (x # xs) =
     (case f x of Inl e \<Rightarrow> Inl e
      | Inr y \<Rightarrow> (case collect f xs of Inl e \<Rightarrow> Inl e | Inr ys \<Rightarrow> Inr (y # ys)))"

lemma collect_ok: "collect f xs = Inr ys \<Longrightarrow> list_all2 (\<lambda>x y. f x = Inr y) xs ys"
  by (induction xs arbitrary: ys) (auto split: sum.splits)

text \<open>A computed outcome as an operation that does not change the state.\<close>

definition outcome :: "err + 'a \<Rightarrow> ('s, 'a) op" where
  "outcome r s = (r, s)"

lemma outcome_apply [op_simps]: "outcome r s = (r, s)"
  by (simp add: outcome_def)

subsection \<open>Predicates kept by operations\<close>

text \<open>
  \<open>keeps P m\<close>: whatever the outcome, the state after \<open>m\<close> satisfies \<open>P\<close> if the state
  before did. The rules below follow the shape of an operation, so that an operation keeps
  what its statements keep.
\<close>

definition keeps :: "('s \<Rightarrow> bool) \<Rightarrow> ('s, 'a) op \<Rightarrow> bool" where
  "keeps P m \<longleftrightarrow> (\<forall>s. P s \<longrightarrow> P (snd (m s)))"

lemma keepsI: "(\<And>s. P s \<Longrightarrow> P (snd (m s))) \<Longrightarrow> keeps P m"
  by (simp add: keeps_def)

lemma keepsD: "keeps P m \<Longrightarrow> P s \<Longrightarrow> P (snd (m s))"
  by (simp add: keeps_def)

lemma keeps_ret [keeps_intro]: "keeps P (ret a)"
  by (simp add: keeps_def ret_def)

lemma keeps_throw [keeps_intro]: "keeps P (throw e)"
  by (simp add: keeps_def throw_def)

lemma keeps_outcome [keeps_intro]: "keeps P (outcome r)"
  by (simp add: keeps_def outcome_def)

lemma keeps_and_then [keeps_intro]:
  "keeps P m \<Longrightarrow> (\<And>a. keeps P (k a)) \<Longrightarrow> keeps P (and_then m k)"
  by (auto simp: keeps_def and_then_apply split: sum.split)

lemma keeps_reading [keeps_intro]: "(\<And>s. keeps P (k s)) \<Longrightarrow> keeps P (reading k)"
  by (simp add: keeps_def reading_def)

lemma keeps_guard_else [keeps_intro]:
  "keeps P m \<Longrightarrow> keeps P (guard_else c e m)"
  by (simp add: guard_else_def keeps_throw)

lemma keeps_if [keeps_intro]: "keeps P m \<Longrightarrow> keeps P m' \<Longrightarrow> keeps P (if c then m else m')"
  by simp

lemma keeps_case_option [keeps_intro]:
  "keeps P m \<Longrightarrow> (\<And>x. keeps P (k x)) \<Longrightarrow> keeps P (case v of None \<Rightarrow> m | Some x \<Rightarrow> k x)"
  by (simp split: option.split)

lemma keeps_case_sum [keeps_intro]:
  "(\<And>x. keeps P (h x)) \<Longrightarrow> (\<And>x. keeps P (k x)) \<Longrightarrow>
   keeps P (case v of Inl x \<Rightarrow> h x | Inr x \<Rightarrow> k x)"
  by (simp split: sum.split)

lemma keeps_case_prod [keeps_intro]:
  "(\<And>x y. keeps P (k x y)) \<Longrightarrow> keeps P (case v of (x, y) \<Rightarrow> k x y)"
  by (simp split: prod.split)

lemma keeps_let [keeps_intro]: "(\<And>x. keeps P (k x)) \<Longrightarrow> keeps P (let x = v in k x)"
  by (simp add: Let_def)

lemma keeps_for_acc [keeps_intro]:
  "(\<And>x b. keeps P (f x b)) \<Longrightarrow> keeps P (for_acc xs b f)"
  by (induction xs arbitrary: b) (auto intro!: keeps_intro)

lemma keeps_for_each [keeps_intro]: "(\<And>x. keeps P (f x)) \<Longrightarrow> keeps P (for_each xs f)"
  by (simp add: for_each_def keeps_for_acc)

lemma keeps_in_transaction [keeps_intro]:
  assumes "keeps P m"
  shows "keeps P (in_transaction c rb m)"
proof (rule keepsI)
  fix s assume s: "P s"
  obtain r s' where m: "m s = (r, s')" by force
  from keepsD [OF assms s] m have "P s'" by simp
  with s m show "P (snd (in_transaction c rb m s))"
    by (simp add: in_transaction_def split: sum.split option.split)
qed

text \<open>With a working ROLLBACK, a transaction that throws leaves the state as it was.\<close>

lemma in_transaction_atomic:
  "fst (in_transaction c None body s) = Inl e \<Longrightarrow> snd (in_transaction c None body s) = s"
  by (auto simp: in_transaction_def split: prod.splits sum.splits)

lemma in_transaction_ok:
  "fst (in_transaction c rb body s) = Inr a \<longleftrightarrow> fst (body s) = Inr a"
  by (auto simp: in_transaction_def split: prod.splits sum.splits option.splits)

lemma in_transaction_ok_state:
  "fst (body s) = Inr a \<Longrightarrow> in_transaction c rb body s = (Inr a, snd (body s))"
  by (auto simp: in_transaction_def split: prod.splits sum.splits)

section \<open>Text\<close>

text \<open>
  A \<open>string\<close> of the model holds the UTF-8 bytes of the JavaScript string. Equality,
  concatenation, prefixes and emptiness are the same in both readings, and the byte order is
  SQLite's BINARY collation of TEXT. ASCII literals are written as they are; \<open>utf8\<close>
  encodes other code points of the basic plane.
\<close>

definition byte :: "nat \<Rightarrow> char" where
  "byte n = char_of n"

fun utf8_point :: "nat \<Rightarrow> string" where
  "utf8_point c =
     (if c < 0x80 then [byte c]
      else if c < 0x800 then [byte (0xC0 + c div 0x40), byte (0x80 + c mod 0x40)]
      else [byte (0xE0 + c div 0x1000), byte (0x80 + (c div 0x40) mod 0x40), byte (0x80 + c mod 0x40)])"

definition utf8 :: "nat list \<Rightarrow> string" where
  "utf8 cs = concat (map utf8_point cs)"

subsection \<open>Binary collation\<close>

fun str_le :: "string \<Rightarrow> string \<Rightarrow> bool" where
  "str_le [] ys = True"
| "str_le (x # xs) [] = False"
| "str_le (x # xs) (y # ys) =
     (if x = y then str_le xs ys else (of_char x :: nat) < of_char y)"

definition str_lt :: "string \<Rightarrow> string \<Rightarrow> bool" where
  "str_lt x y \<longleftrightarrow> x \<noteq> y \<and> str_le x y"

lemma str_le_refl [simp]: "str_le x x"
  by (induction x) auto

lemma of_char_nat_eq: "(of_char x :: nat) = of_char y \<longleftrightarrow> x = y"
  by (metis char_of_char)

lemma of_char_nat_neq: "x \<noteq> y \<Longrightarrow> \<not> (of_char y :: nat) < of_char x \<Longrightarrow> (of_char x :: nat) < of_char y"
  using of_char_nat_eq [of x y] by linarith

lemma str_le_total: "str_le x y \<or> str_le y x"
proof (induction x y rule: str_le.induct)
  case (3 x xs y ys)
  then show ?case by (cases "x = y") (auto dest: of_char_nat_neq)
qed auto

lemma str_le_antisym: "str_le x y \<Longrightarrow> str_le y x \<Longrightarrow> x = y"
  by (induction x y rule: str_le.induct) (auto split: if_splits elim: str_le.elims)

lemma str_le_trans: "str_le x y \<Longrightarrow> str_le y z \<Longrightarrow> str_le x z"
proof (induction x y arbitrary: z rule: str_le.induct)
  case (3 x xs y ys)
  then show ?case by (cases z) (auto split: if_splits)
qed auto

lemma not_str_lt: "\<not> str_lt x y \<longleftrightarrow> str_le y x"
  using str_le_antisym str_le_total by (auto simp: str_lt_def)

subsection \<open>trim\<close>

text \<open>The white space and line terminators that \<open>String.prototype.trim\<close> removes.\<close>

definition ws_seqs :: "string list" where
  "ws_seqs = map (\<lambda>c. utf8_point c)
     [9, 10, 11, 12, 13, 32, 0xA0, 0x1680, 0x2000, 0x2001, 0x2002, 0x2003, 0x2004, 0x2005,
      0x2006, 0x2007, 0x2008, 0x2009, 0x200A, 0x2028, 0x2029, 0x202F, 0x205F, 0x3000, 0xFEFF]"

lemma ws_seqs_nonempty: "w \<in> set ws_seqs \<Longrightarrow> w \<noteq> []"
  by (auto simp: ws_seqs_def)

function strip_with :: "string list \<Rightarrow> string \<Rightarrow> string" where
  "strip_with ws s =
     (case find (\<lambda>w. w \<noteq> [] \<and> prefix w s) ws of
        None \<Rightarrow> s | Some w \<Rightarrow> strip_with ws (drop (length w) s))"
  by pat_completeness auto
termination
  by (relation "measure (\<lambda>(ws, s). length s)") (auto simp: find_Some_iff prefix_def)

declare strip_with.simps [simp del]

definition trim_start :: "string \<Rightarrow> string" where
  "trim_start s = strip_with ws_seqs s"

definition trim_end :: "string \<Rightarrow> string" where
  "trim_end s = rev (strip_with (map rev ws_seqs) (rev s))"

definition trim :: "string \<Rightarrow> string" where
  "trim s = trim_end (trim_start s)"

lemma strip_with_suffix: "suffix (strip_with ws s) s"
proof (induction ws s rule: strip_with.induct)
  case (1 ws s)
  show ?case
  proof (cases "find (\<lambda>w. w \<noteq> [] \<and> prefix w s) ws")
    case None
    then show ?thesis by (simp add: strip_with.simps [of ws s])
  next
    case (Some w)
    with "1.IH" have "suffix (strip_with ws (drop (length w) s)) (drop (length w) s)" by blast
    with Some show ?thesis
      by (simp add: strip_with.simps [of ws s] suffix_drop suffix_order.order_trans
          [OF _ suffix_drop])
  qed
qed

lemma strip_with_clean: "w \<in> set ws \<Longrightarrow> w \<noteq> [] \<Longrightarrow> \<not> prefix w (strip_with ws s)"
proof (induction ws s rule: strip_with.induct)
  case (1 ws s)
  show ?case
  proof (cases "find (\<lambda>w. w \<noteq> [] \<and> prefix w s) ws")
    case None
    with "1.prems" have "\<not> prefix w s" by (auto simp: find_None_iff)
    with None show ?thesis by (simp add: strip_with.simps [of ws s])
  next
    case (Some w')
    with 1 show ?thesis by (simp add: strip_with.simps [of ws s])
  qed
qed

lemma strip_with_id: "(\<And>w. w \<in> set ws \<Longrightarrow> w \<noteq> [] \<Longrightarrow> \<not> prefix w s) \<Longrightarrow> strip_with ws s = s"
  by (subst strip_with.simps) (auto simp: find_Some_iff split: option.split)

lemma trim_start_clean: "w \<in> set ws_seqs \<Longrightarrow> \<not> prefix w (trim_start s)"
  by (simp add: trim_start_def strip_with_clean ws_seqs_nonempty)

lemma trim_end_clean: "w \<in> set ws_seqs \<Longrightarrow> \<not> suffix w (trim_end s)"
  using strip_with_clean [of "rev w" "map rev ws_seqs" "rev s"]
  by (auto simp: trim_end_def suffix_to_prefix ws_seqs_nonempty)

lemma trim_end_prefix: "prefix (trim_end s) s"
  using strip_with_suffix [of "map rev ws_seqs" "rev s"]
  by (simp add: trim_end_def suffix_to_prefix)

lemma trim_clean_start: "w \<in> set ws_seqs \<Longrightarrow> \<not> prefix w (trim s)"
  using prefix_order.order_trans [OF _ trim_end_prefix] trim_start_clean
  unfolding trim_def by blast

lemma trim_idem [simp]: "trim (trim s) = trim s"
proof -
  have "trim_start (trim s) = trim s"
    unfolding trim_start_def [of "trim s"] by (rule strip_with_id) (simp add: trim_clean_start)
  moreover have "trim_end (trim s) = trim s"
    unfolding trim_end_def [of "trim s"]
    using trim_end_clean [of _ "trim_start s"]
    by (subst strip_with_id) (auto simp: trim_def suffix_to_prefix)
  ultimately show ?thesis by (simp add: trim_def [of "trim s"])
qed

text \<open>Text that starts and ends with a graphic ASCII character has nothing to trim.\<close>

definition graphic :: "char \<Rightarrow> bool" where
  "graphic c \<longleftrightarrow> 33 \<le> (of_char c :: nat) \<and> (of_char c :: nat) \<le> 126"

lemma ws_seqs_not_graphic: "w \<in> set ws_seqs \<Longrightarrow> \<not> graphic (hd w) \<and> \<not> graphic (last w)"
  by (auto simp: ws_seqs_def graphic_def byte_def)

lemma trim_graphic: "s \<noteq> [] \<Longrightarrow> graphic (hd s) \<Longrightarrow> graphic (last s) \<Longrightarrow> trim s = s"
proof -
  assume s: "s \<noteq> []" "graphic (hd s)" "graphic (last s)"
  have clean: "\<not> prefix w s \<and> \<not> suffix w s" if "w \<in> set ws_seqs" for w
    using ws_seqs_not_graphic [OF that] ws_seqs_nonempty [OF that] s
    by (auto simp: prefix_def suffix_def)
  have "trim_start s = s"
    unfolding trim_start_def by (rule strip_with_id) (simp add: clean)
  moreover have "trim_end s = s"
    unfolding trim_end_def by (subst strip_with_id) (auto simp: clean suffix_to_prefix [symmetric])
  ultimately show ?thesis by (simp add: trim_def)
qed

lemma trim_Nil [simp]: "trim [] = []"
proof -
  have "strip_with ws [] = []" for ws by (rule strip_with_id) auto
  then show ?thesis by (simp add: trim_def trim_start_def trim_end_def)
qed


subsection \<open>Searching, replacing, splitting\<close>

definition starts_with :: "string \<Rightarrow> string \<Rightarrow> bool" where
  "starts_with s p \<longleftrightarrow> prefix p s"

definition ends_with :: "string \<Rightarrow> string \<Rightarrow> bool" where
  "ends_with s p \<longleftrightarrow> suffix p s"

fun str_includes :: "string \<Rightarrow> string \<Rightarrow> bool" where
  "str_includes [] p = (p = [])"
| "str_includes (c # s) p = (prefix p (c # s) \<or> str_includes s p)"

text \<open>\<open>s.replaceAll(p, r)\<close> for a non-empty literal pattern \<open>p\<close>.\<close>

function replace_all :: "string \<Rightarrow> string \<Rightarrow> string \<Rightarrow> string" where
  "replace_all p r [] = []"
| "replace_all p r (c # s) =
     (if p \<noteq> [] \<and> prefix p (c # s) then r @ replace_all p r (drop (length p) (c # s))
      else c # replace_all p r s)"
  by pat_completeness auto
termination
  by (relation "measure (\<lambda>(p, r, s). length s)") (auto simp: prefix_def)

text \<open>\<open>s.split(c)\<close> for a single character: one part more than there are separators.\<close>

fun split_on :: "char \<Rightarrow> string \<Rightarrow> string list" where
  "split_on c [] = [[]]"
| "split_on c (x # s) =
     (if x = c then [] # split_on c s
      else (case split_on c s of [] \<Rightarrow> [[x]] | p # ps \<Rightarrow> (x # p) # ps))"

fun join_with :: "string \<Rightarrow> string list \<Rightarrow> string" where
  "join_with sep [] = []"
| "join_with sep [x] = x"
| "join_with sep (x # y # xs) = x @ sep @ join_with sep (y # xs)"

lemma split_on_nonempty [simp]: "split_on c s \<noteq> []"
  by (induction s) (auto split: list.split)

lemma join_split: "join_with [c] (split_on c s) = s"
proof (induction s)
  case (Cons x s)
  then show ?case
    by (cases "split_on c s"; cases "tl (split_on c s)") auto
qed simp

lemma split_on_parts: "p \<in> set (split_on c s) \<Longrightarrow> c \<notin> set p"
  by (induction s arbitrary: p) (auto split: list.splits if_splits)

lemma split_on_no_sep: "c \<notin> set s \<Longrightarrow> split_on c s = [s]"
  by (induction s) auto

lemma split_on_append_sep: "c \<notin> set p \<Longrightarrow> split_on c (p @ c # s) = p # split_on c s"
  by (induction p) auto

subsection \<open>Decimal printing\<close>

definition digit :: "nat \<Rightarrow> char" where
  "digit n = byte (48 + n)"

fun show_nat :: "nat \<Rightarrow> string" where
  "show_nat n = (if n < 10 then [digit n] else show_nat (n div 10) @ [digit (n mod 10)])"

declare show_nat.simps [simp del]

definition show_int :: "int \<Rightarrow> string" where
  "show_int i = (if i < 0 then CHR ''-'' # show_nat (nat (- i)) else show_nat (nat i))"

definition pad_start :: "nat \<Rightarrow> char \<Rightarrow> string \<Rightarrow> string" where
  "pad_start n c s = replicate (n - length s) c @ s"

definition pad2 :: "int \<Rightarrow> string" where
  "pad2 i = pad_start 2 (CHR ''0'') (show_int i)"

definition is_digit :: "char \<Rightarrow> bool" where
  "is_digit c \<longleftrightarrow> 48 \<le> (of_char c :: nat) \<and> (of_char c :: nat) \<le> 57"

definition digit_val :: "char \<Rightarrow> nat" where
  "digit_val c = of_char c - 48"

definition read_nat :: "string \<Rightarrow> nat" where
  "read_nat s = foldl (\<lambda>n c. 10 * n + digit_val c) 0 s"

lemma of_char_digit: "n < 10 \<Longrightarrow> (of_char (digit n) :: nat) = 48 + n"
  by (simp add: digit_def byte_def)

lemma digit_val_digit [simp]: "n < 10 \<Longrightarrow> digit_val (digit n) = n"
  by (simp add: digit_val_def of_char_digit)

lemma is_digit_digit [simp]: "n < 10 \<Longrightarrow> is_digit (digit n)"
  by (simp add: is_digit_def of_char_digit)

lemma read_nat_snoc [simp]: "read_nat (s @ [c]) = 10 * read_nat s + digit_val c"
  by (simp add: read_nat_def)

lemma read_show_nat [simp]: "read_nat (show_nat n) = n"
proof (induction n rule: show_nat.induct)
  case (1 n)
  show ?case
  proof (cases "n < 10")
    case True
    then show ?thesis by (simp add: show_nat.simps [of n]) (simp add: read_nat_def)
  next
    case False
    with 1 show ?thesis by (simp add: show_nat.simps [of n])
  qed
qed

lemma show_nat_inj [simp]: "show_nat m = show_nat n \<longleftrightarrow> m = n"
  by (metis read_show_nat)

lemma show_nat_digits: "c \<in> set (show_nat n) \<Longrightarrow> is_digit c"
proof (induction n rule: show_nat.induct)
  case (1 n)
  then show ?case by (cases "n < 10") (auto simp: show_nat.simps [of n])
qed

lemma show_nat_not_Nil [simp]: "show_nat n \<noteq> []"
  by (subst show_nat.simps) simp

lemma show_nat_no_minus: "CHR ''-'' \<notin> set (show_nat n)"
  using show_nat_digits [of "CHR ''-''" n] by (auto simp: is_digit_def)

lemma show_int_inj [simp]: "show_int i = show_int j \<longleftrightarrow> i = j"
proof
  assume eq: "show_int i = show_int j"
  have minus: "show_nat (nat k) \<noteq> CHR ''-'' # t" for k t
    using show_nat_no_minus [of "nat k"] by (metis list.set_intros(1))
  from eq show "i = j"
    using minus minus [symmetric] by (auto simp: show_int_def split: if_splits)
qed simp

lemma show_nat_length_1: "n < 10 \<Longrightarrow> length (show_nat n) = 1"
  by (simp add: show_nat.simps [of n])

lemma show_nat_length_2: "10 \<le> n \<Longrightarrow> n < 100 \<Longrightarrow> length (show_nat n) = 2"
  by (simp add: show_nat.simps [of n] show_nat_length_1)

lemma pad2_length: "0 \<le> i \<Longrightarrow> i < 100 \<Longrightarrow> length (pad2 i) = 2"
  using show_nat_length_1 [of "nat i"] show_nat_length_2 [of "nat i"]
  by (cases "i < 10") (auto simp: pad2_def pad_start_def show_int_def)

lemma digit_val_zero: "digit_val (CHR ''0'') = 0"
  by (simp add: digit_val_def)

lemma foldl_zeros: "foldl (\<lambda>n c. 10 * n + digit_val c) 0 (replicate k (CHR ''0'')) = 0"
  by (induction k) (simp_all add: digit_val_zero)

lemma read_nat_zeros: "read_nat (replicate k (CHR ''0'') @ s) = read_nat s"
  by (simp add: read_nat_def foldl_zeros)

lemma read_pad2: "0 \<le> i \<Longrightarrow> read_nat (pad2 i) = nat i"
  by (simp add: pad2_def pad_start_def show_int_def read_nat_zeros)

lemma pad2_inj: "0 \<le> i \<Longrightarrow> 0 \<le> j \<Longrightarrow> pad2 i = pad2 j \<longleftrightarrow> i = j"
  by (metis read_pad2 eq_nat_nat_iff)

section \<open>Stable sorting\<close>

text \<open>
  ORDER BY and \<open>Array.prototype.sort\<close>, for a comparison \<open>le\<close> ("may come before").
  JavaScript's sort is stable. SQL leaves the order of rows with equal keys open; the model
  keeps them in table order, which is one of the allowed results. The lemmas that components
  use only say that the result is a permutation and sorted.
\<close>

fun ins_by :: "('a \<Rightarrow> 'a \<Rightarrow> bool) \<Rightarrow> 'a \<Rightarrow> 'a list \<Rightarrow> 'a list" where
  "ins_by le x [] = [x]"
| "ins_by le x (y # ys) = (if le x y then x # y # ys else y # ins_by le x ys)"

definition order_by :: "('a \<Rightarrow> 'a \<Rightarrow> bool) \<Rightarrow> 'a list \<Rightarrow> 'a list" where
  "order_by le xs = foldr (ins_by le) xs []"

lemma mset_ins_by [simp]: "mset (ins_by le x xs) = add_mset x (mset xs)"
  by (induction xs) auto

lemma mset_order_by [simp]: "mset (order_by le xs) = mset xs"
  by (induction xs) (auto simp: order_by_def)

lemma set_order_by [simp]: "set (order_by le xs) = set xs"
  by (metis mset_order_by set_mset_mset)

lemma length_order_by [simp]: "length (order_by le xs) = length xs"
  by (metis mset_order_by size_mset)

lemma distinct_order_by [simp]: "distinct (order_by le xs) \<longleftrightarrow> distinct xs"
  by (metis mset_order_by mset_eq_imp_distinct_iff)

lemma set_ins_by [simp]: "set (ins_by le x xs) = insert x (set xs)"
  by (induction xs) auto

lemma sorted_ins_by:
  assumes total: "\<And>x y. le x y \<or> le y x" and trans: "\<And>x y z. le x y \<Longrightarrow> le y z \<Longrightarrow> le x z"
  shows "sorted_wrt le xs \<Longrightarrow> sorted_wrt le (ins_by le x xs)"
proof (induction xs)
  case (Cons y ys)
  then show ?case using total [of x y] trans by (auto split: if_splits)
qed simp

lemma sorted_order_by:
  assumes "\<And>x y. le x y \<or> le y x" and "\<And>x y z. le x y \<Longrightarrow> le y z \<Longrightarrow> le x z"
  shows "sorted_wrt le (order_by le xs)"
  by (induction xs) (auto simp: order_by_def intro: sorted_ins_by [OF assms])

text \<open>For a total order, sorting and selecting rows commute.\<close>

lemma filter_ins_by_other: "\<not> P x \<Longrightarrow> filter P (ins_by le x xs) = filter P xs"
  by (induction xs) auto

lemma filter_ins_by:
  assumes "\<And>x y z. le x y \<Longrightarrow> le y z \<Longrightarrow> le x z" and "P x"
  shows "sorted_wrt le xs \<Longrightarrow> filter P (ins_by le x xs) = ins_by le x (filter P xs)"
proof (induction xs)
  case (Cons y ys)
  have "ins_by le x (filter P ys) = x # filter P ys" if "le x y"
    using Cons.prems assms(1) [OF that] by (cases "filter P ys") (auto dest: filter_eq_ConsD)
  with Cons assms(2) show ?case by auto
qed (use assms(2) in simp)

lemma filter_order_by:
  assumes "\<And>x y. le x y \<or> le y x" and "\<And>x y z. le x y \<Longrightarrow> le y z \<Longrightarrow> le x z"
  shows "filter P (order_by le xs) = order_by le (filter P xs)"
proof (induction xs)
  case (Cons x xs)
  have "sorted_wrt le (order_by le xs)" by (rule sorted_order_by [OF assms])
  with Cons filter_ins_by [of le P x, OF assms(2)] filter_ins_by_other [of P x le] show ?case
    by (cases "P x") (simp_all add: order_by_def)
qed (simp add: order_by_def)

text \<open>Sorting does not mind a change of the rows that the order does not see.\<close>

lemma ins_by_map: "\<forall>x y. le (g x) (g y) = le x y \<Longrightarrow> ins_by le (g x) (map g xs) = map g (ins_by le x xs)"
  by (induction xs) auto

lemma order_by_map: "\<forall>x y. le (g x) (g y) = le x y \<Longrightarrow> order_by le (map g xs) = map g (order_by le xs)"
proof (induction xs)
  case (Cons x xs)
  then show ?case using ins_by_map [OF Cons.prems, of x "order_by le xs"] by (simp add: order_by_def)
qed (simp add: order_by_def)

text \<open>The first match in a sorted list comes before every other match.\<close>

lemma find_sorted_least:
  "sorted_wrt le xs \<Longrightarrow> (\<And>x. le x x) \<Longrightarrow> find P xs = Some x \<Longrightarrow> y \<in> set xs \<Longrightarrow> P y \<Longrightarrow> le x y"
  by (induction xs) (auto split: if_splits)

text \<open>A key order: by \<open>key\<close> under \<open>str_le\<close>, ascending and descending.\<close>

definition asc :: "('a \<Rightarrow> string) \<Rightarrow> 'a \<Rightarrow> 'a \<Rightarrow> bool" where
  "asc key x y = str_le (key x) (key y)"

definition desc :: "('a \<Rightarrow> string) \<Rightarrow> 'a \<Rightarrow> 'a \<Rightarrow> bool" where
  "desc key x y = str_le (key y) (key x)"

text \<open>\<open>ORDER BY a, b\<close>: the second order decides where the first finds no difference.\<close>

definition then_by :: "('a \<Rightarrow> 'a \<Rightarrow> bool) \<Rightarrow> ('a \<Rightarrow> 'a \<Rightarrow> bool) \<Rightarrow> 'a \<Rightarrow> 'a \<Rightarrow> bool" where
  "then_by le1 le2 x y \<longleftrightarrow> le1 x y \<and> (le1 y x \<longrightarrow> le2 x y)"

lemma asc_total: "asc k x y \<or> asc k y x"
  by (simp add: asc_def str_le_total)

lemma asc_trans: "asc k x y \<Longrightarrow> asc k y z \<Longrightarrow> asc k x z"
  unfolding asc_def by (rule str_le_trans)

lemma desc_total: "desc k x y \<or> desc k y x"
  by (simp add: desc_def str_le_total)

lemma desc_trans: "desc k x y \<Longrightarrow> desc k y z \<Longrightarrow> desc k x z"
  unfolding desc_def by (rule str_le_trans)

lemma then_by_total:
  "(\<And>x y. a x y \<or> a y x) \<Longrightarrow> (\<And>x y. b x y \<or> b y x) \<Longrightarrow> then_by a b x y \<or> then_by a b y x"
  unfolding then_by_def by blast

lemma then_by_trans:
  assumes "\<And>x y z. a x y \<Longrightarrow> a y z \<Longrightarrow> a x z" "\<And>x y z. b x y \<Longrightarrow> b y z \<Longrightarrow> b x z"
  shows "then_by a b x y \<Longrightarrow> then_by a b y z \<Longrightarrow> then_by a b x z"
  using assms unfolding then_by_def by blast

lemmas order_laws = asc_total asc_trans desc_total desc_trans then_by_total then_by_trans

lemma filter_order_asc: "filter P (order_by (asc k) xs) = order_by (asc k) (filter P xs)"
  by (rule filter_order_by) (rule asc_total, rule asc_trans)

lemma filter_order_desc: "filter P (order_by (desc k) xs) = order_by (desc k) (filter P xs)"
  by (rule filter_order_by) (rule desc_total, rule desc_trans)

lemma filter_order_updated:
  "filter P (order_by (then_by (desc j) (desc k)) xs) = order_by (then_by (desc j) (desc k)) (filter P xs)"
proof (rule filter_order_by)
  show "then_by (desc j) (desc k) x y \<or> then_by (desc j) (desc k) y x" for x y
    by (rule then_by_total) (rule desc_total)+
  show "then_by (desc j) (desc k) x z" if "then_by (desc j) (desc k) x y" "then_by (desc j) (desc k) y z" for x y z
    using that by (rule then_by_trans [rotated 2]) (erule (1) desc_trans)+
qed

text \<open>\<open>Array.from(new Set(xs))\<close>: the first occurrence of every element, in order.\<close>

fun js_uniq :: "'a list \<Rightarrow> 'a list" where
  "js_uniq [] = []"
| "js_uniq (x # xs) = x # filter (\<lambda>y. y \<noteq> x) (js_uniq xs)"

lemma set_map_filter: "set (List.map_filter f xs) = {y. \<exists>x \<in> set xs. f x = Some y}"
  by (induction xs) (auto simp: List.map_filter_simps split: option.splits)

lemma set_js_uniq [simp]: "set (js_uniq xs) = set xs"
  by (induction xs) auto

lemma distinct_js_uniq [simp]: "distinct (js_uniq xs)"
  by (induction xs) auto

end
