(* ===== verification/JsValue.thy ===== *)
theory JsValue
  imports Prelude
begin

text \<open>
  JavaScript numbers and values. A number is a finite value, an infinity or NaN; finite values
  are rationals, so the rounding of double arithmetic is not modelled (every integer up to
  2^53 and every dyadic fraction the code stores is exact in both). A value of type
  \<open>unknown\<close> (an IPC argument, the result of \<open>JSON.parse\<close>) is a \<open>jsval\<close>.
\<close>

section \<open>Numbers\<close>

datatype jsnum = Fin rat | PosInf | NegInf | NaN

definition num :: "int \<Rightarrow> jsnum" where
  "num i = Fin (of_int i)"

fun is_finite :: "jsnum \<Rightarrow> bool" where
  "is_finite (Fin r) = True"
| "is_finite _ = False"

text \<open>Comparisons are false as soon as one side is NaN.\<close>

fun num_lt :: "jsnum \<Rightarrow> jsnum \<Rightarrow> bool" where
  "num_lt (Fin a) (Fin b) = (a < b)"
| "num_lt NaN _ = False"
| "num_lt _ NaN = False"
| "num_lt NegInf b = (b \<noteq> NegInf)"
| "num_lt a PosInf = (a \<noteq> PosInf)"
| "num_lt _ _ = False"

fun num_eq :: "jsnum \<Rightarrow> jsnum \<Rightarrow> bool" where
  "num_eq NaN _ = False"
| "num_eq a b = (a = b)"

definition num_le :: "jsnum \<Rightarrow> jsnum \<Rightarrow> bool" where
  "num_le a b \<longleftrightarrow> num_lt a b \<or> num_eq a b"

definition num_max :: "jsnum \<Rightarrow> jsnum \<Rightarrow> jsnum" where
  "num_max a b = (if a = NaN \<or> b = NaN then NaN else if num_lt a b then b else a)"

definition num_min :: "jsnum \<Rightarrow> jsnum \<Rightarrow> jsnum" where
  "num_min a b = (if a = NaN \<or> b = NaN then NaN else if num_lt b a then b else a)"

fun num_floor :: "jsnum \<Rightarrow> jsnum" where
  "num_floor (Fin r) = num \<lfloor>r\<rfloor>"
| "num_floor x = x"

text \<open>\<open>Math.round\<close> rounds halves up.\<close>

fun num_round :: "jsnum \<Rightarrow> jsnum" where
  "num_round (Fin r) = num \<lfloor>r + 1/2\<rfloor>"
| "num_round x = x"

fun num_neg :: "jsnum \<Rightarrow> jsnum" where
  "num_neg (Fin r) = Fin (- r)"
| "num_neg PosInf = NegInf"
| "num_neg NegInf = PosInf"
| "num_neg NaN = NaN"

fun num_add :: "jsnum \<Rightarrow> jsnum \<Rightarrow> jsnum" where
  "num_add (Fin a) (Fin b) = Fin (a + b)"
| "num_add NaN _ = NaN"
| "num_add _ NaN = NaN"
| "num_add PosInf b = (if b = NegInf then NaN else PosInf)"
| "num_add NegInf b = (if b = PosInf then NaN else NegInf)"
| "num_add _ b = b"

definition num_sub :: "jsnum \<Rightarrow> jsnum \<Rightarrow> jsnum" where
  "num_sub a b = num_add a (num_neg b)"

definition num_sign :: "jsnum \<Rightarrow> int" where
  "num_sign x = (case x of Fin r \<Rightarrow> (if r < 0 then - 1 else if r = 0 then 0 else 1)
                         | PosInf \<Rightarrow> 1 | NegInf \<Rightarrow> - 1 | NaN \<Rightarrow> 0)"

fun num_mul :: "jsnum \<Rightarrow> jsnum \<Rightarrow> jsnum" where
  "num_mul (Fin a) (Fin b) = Fin (a * b)"
| "num_mul NaN _ = NaN"
| "num_mul _ NaN = NaN"
| "num_mul a b =
     (let s = num_sign a * num_sign b in if s = 0 then NaN else if s > 0 then PosInf else NegInf)"

text \<open>Division by a positive finite number, the only division the code does.\<close>

fun num_div_pos :: "jsnum \<Rightarrow> rat \<Rightarrow> jsnum" where
  "num_div_pos (Fin a) b = Fin (a / b)"
| "num_div_pos x b = x"

text \<open>\<open>Math.max(0, Math.floor(x))\<close>, the code's usual reading of a count.\<close>

definition nonneg_floor :: "jsnum \<Rightarrow> jsnum" where
  "nonneg_floor x = num_max (num 0) (num_floor x)"

lemma num_inject [simp]: "num i = num j \<longleftrightarrow> i = j"
  by (simp add: num_def)

lemma is_finite_num [simp]: "is_finite (num i)"
  by (simp add: num_def)

lemma num_lt_num [simp]: "num_lt (num i) (num j) \<longleftrightarrow> i < j"
  by (simp add: num_def)

lemma num_eq_num [simp]: "num_eq (num i) (num j) \<longleftrightarrow> i = j"
  by (simp add: num_def)

lemma num_le_num [simp]: "num_le (num i) (num j) \<longleftrightarrow> i \<le> j"
  by (auto simp: num_le_def)

lemma num_not_NaN [simp]: "num i \<noteq> NaN" "NaN \<noteq> num i"
  by (simp_all add: num_def)

lemma num_add_num [simp]: "num_add (num i) (num j) = num (i + j)"
  by (simp add: num_def)

lemma num_mul_num [simp]: "num_mul (num i) (num j) = num (i * j)"
  by (simp add: num_def)

lemma num_neg_num [simp]: "num_neg (num i) = num (- i)"
  by (simp add: num_def)

lemma num_sub_num [simp]: "num_sub (num i) (num j) = num (i - j)"
  by (simp add: num_sub_def)

lemma num_floor_num [simp]: "num_floor (num i) = num i"
  by (simp add: num_def)

lemma num_max_num [simp]: "num_max (num i) (num j) = num (max i j)"
  by (simp add: num_max_def max_def)

lemma num_min_num [simp]: "num_min (num i) (num j) = num (min i j)"
  by (auto simp: num_min_def min_def)

lemma nonneg_floor_Fin [simp]: "nonneg_floor (Fin r) = num (max 0 \<lfloor>r\<rfloor>)"
  by (simp add: nonneg_floor_def)

lemma nonneg_floor_num [simp]: "nonneg_floor (num i) = num (max 0 i)"
  by (simp add: nonneg_floor_def)

lemma nonneg_floor_finite: "is_finite x \<Longrightarrow> \<exists>i \<ge> 0. nonneg_floor x = num i"
  by (cases x) (auto intro: exI [of _ "max 0 _"])

lemma nonneg_floor_cases:
  "nonneg_floor x = NaN \<or> nonneg_floor x = PosInf \<or> (\<exists>i \<ge> 0. nonneg_floor x = num i)"
  by (cases x) (auto simp: nonneg_floor_def num_max_def num_def)

lemma num_lt_irrefl [simp]: "\<not> num_lt x x"
  by (cases x) auto

lemma num_lt_trans: "num_lt x y \<Longrightarrow> num_lt y z \<Longrightarrow> num_lt x z"
  by (cases x; cases y; cases z) auto

lemma num_le_refl: "x \<noteq> NaN \<Longrightarrow> num_le x x"
  by (cases x) (auto simp: num_le_def)

lemma num_not_le: "x \<noteq> NaN \<Longrightarrow> y \<noteq> NaN \<Longrightarrow> \<not> num_le x y \<longleftrightarrow> num_lt y x"
  by (cases x; cases y) (auto simp: num_le_def)

lemma num_not_lt: "x \<noteq> NaN \<Longrightarrow> y \<noteq> NaN \<Longrightarrow> \<not> num_lt x y \<longleftrightarrow> num_le y x"
  by (cases x; cases y) (auto simp: num_le_def)

text \<open>Addition of numbers is a commutative monoid, so that the sums of a loop are the library's sums.\<close>

instantiation jsnum :: comm_monoid_add
begin

definition zero_jsnum :: jsnum where
  "zero_jsnum = Fin 0"

definition plus_jsnum :: "jsnum \<Rightarrow> jsnum \<Rightarrow> jsnum" where
  "plus_jsnum = num_add"

instance
proof
  fix a b c :: jsnum
  show "a + b + c = a + (b + c)"
    unfolding plus_jsnum_def by (cases a; cases b; cases c) auto
  show "a + b = b + a"
    unfolding plus_jsnum_def by (cases a; cases b) auto
  show "0 + a = a"
    unfolding plus_jsnum_def zero_jsnum_def by (cases a) auto
qed

end

lemma num_add_plus: "num_add a b = a + b"
  by (simp add: plus_jsnum_def)

lemma num_zero: "num 0 = 0"
  by (simp add: zero_jsnum_def num_def)

section \<open>Values\<close>

datatype jsval =
    Undef | Null | Bool bool | Num jsnum | Str string
  | Arr "jsval list" | Obj "(string \<times> jsval) list"

text \<open>\<open>v.k\<close> and \<open>v?.k\<close> for the named properties the code reads.\<close>

fun field :: "jsval \<Rightarrow> string \<Rightarrow> jsval" where
  "field (Obj kvs) k = (case map_of kvs k of None \<Rightarrow> Undef | Some v \<Rightarrow> v)"
| "field _ k = Undef"

fun truthy :: "jsval \<Rightarrow> bool" where
  "truthy Undef = False"
| "truthy Null = False"
| "truthy (Bool b) = b"
| "truthy (Num x) = (x \<noteq> NaN \<and> x \<noteq> num 0)"
| "truthy (Str s) = (s \<noteq> [])"
| "truthy _ = True"

text \<open>\<open>v && typeof v === "object"\<close>: an object or an array, not null.\<close>

fun is_object :: "jsval \<Rightarrow> bool" where
  "is_object (Arr _) = True"
| "is_object (Obj _) = True"
| "is_object _ = False"

text \<open>\<open>typeof v === "string"\<close> and \<open>typeof v === "number"\<close>, with the value.\<close>

fun str_of :: "jsval \<Rightarrow> string option" where
  "str_of (Str s) = Some s"
| "str_of _ = None"

fun num_of :: "jsval \<Rightarrow> jsnum option" where
  "num_of (Num x) = Some x"
| "num_of _ = None"

text \<open>\<open>Array.isArray(v) ? v : []\<close>.\<close>

fun arr_or_empty :: "jsval \<Rightarrow> jsval list" where
  "arr_or_empty (Arr xs) = xs"
| "arr_or_empty _ = []"

definition obj_or_empty :: "jsval \<Rightarrow> jsval" where
  "obj_or_empty v = (if is_object v then v else Obj [])"

definition str_or :: "string \<Rightarrow> jsval \<Rightarrow> string" where
  "str_or d v = (case str_of v of Some s \<Rightarrow> s | None \<Rightarrow> d)"

definition num_or :: "jsnum \<Rightarrow> jsval \<Rightarrow> jsnum" where
  "num_or d v = (case num_of v of Some x \<Rightarrow> x | None \<Rightarrow> d)"

lemma str_or_Str [simp]: "str_or d (Str s) = s"
  by (simp add: str_or_def)

lemma num_or_Num [simp]: "num_or d (Num x) = x"
  by (simp add: num_or_def)

text \<open>\<open>typeof v === "string" && v.trim() ? v.trim() : null\<close>.\<close>

definition trimmed :: "string \<Rightarrow> string option" where
  "trimmed s = (if trim s = [] then None else Some (trim s))"

definition trimmed_opt :: "string option \<Rightarrow> string option" where
  "trimmed_opt v = (case v of None \<Rightarrow> None | Some s \<Rightarrow> trimmed s)"

text \<open>
  \<open>JSON.parse(JSON.stringify(v))\<close>: undefined properties disappear, undefined array
  elements and the numbers that JSON cannot write become null. A TEXT column that holds
  \<open>JSON.stringify(v)\<close> and is only read through \<open>safeJsonParse\<close> is modelled by the
  value that is read back.
\<close>

fun jsonify :: "jsval \<Rightarrow> jsval" where
  "jsonify Undef = Null"
| "jsonify (Num x) = (if is_finite x then Num x else Null)"
| "jsonify (Arr xs) = Arr (map jsonify xs)"
| "jsonify (Obj kvs) =
     Obj (concat (map (\<lambda>kv. if snd kv = Undef then [] else [(fst kv, jsonify (snd kv))]) kvs))"
| "jsonify v = v"

lemma obj_or_empty_field: "\<not> is_object v \<Longrightarrow> field (obj_or_empty v) k = Undef"
  by (simp add: obj_or_empty_def)

lemma str_of_eq_Some [simp]: "str_of v = Some s \<longleftrightarrow> v = Str s"
  by (cases v) auto

lemma num_of_eq_Some [simp]: "num_of v = Some x \<longleftrightarrow> v = Num x"
  by (cases v) auto

lemma trimmed_nonempty: "trimmed s = Some t \<Longrightarrow> t \<noteq> [] \<and> trim t = t"
  by (auto simp: trimmed_def split: if_splits)

lemma jsonify_idem [simp]: "jsonify (jsonify v) = jsonify v"
proof (induction v rule: jsonify.induct)
  case (4 kvs)
  have ne: "jsonify x \<noteq> Undef" for x by (cases x) auto
  show ?case using 4
    by (induction kvs) (auto simp: ne)
qed auto

section \<open>Numbers and strings at the SQL boundary\<close>

text \<open>
  Binding a number to a statement: SQLite stores NaN as NULL. A NOT NULL column therefore
  rejects it, which is the \<open>None\<close> of \<open>bind_required\<close>.
\<close>

definition bind_num :: "jsnum \<Rightarrow> jsnum option" where
  "bind_num x = (if x = NaN then None else Some x)"

definition bind_num_opt :: "jsnum option \<Rightarrow> jsnum option" where
  "bind_num_opt v = (case v of None \<Rightarrow> None | Some x \<Rightarrow> bind_num x)"

text \<open>
  \<open>LIMIT n\<close>: SQLite stops with "datatype mismatch" unless the value is an integer; a
  negative limit is no limit.
\<close>

fun limit_rows :: "jsnum \<Rightarrow> 'a list \<Rightarrow> err + 'a list" where
  "limit_rows (Fin r) xs =
     (if r \<noteq> of_int \<lfloor>r\<rfloor> then Inl (SqlError ''datatype mismatch'')
      else if r < 0 then Inr xs else Inr (take (nat \<lfloor>r\<rfloor>) xs))"
| "limit_rows _ xs = Inl (SqlError ''datatype mismatch'')"

lemma limit_rows_num: "0 \<le> i \<Longrightarrow> limit_rows (num i) xs = Inr (take (nat i) xs)"
  by (simp add: num_def)

lemma limit_rows_length: "limit_rows (num i) xs = Inr ys \<Longrightarrow> 0 \<le> i \<Longrightarrow> length ys \<le> nat i"
  by (auto simp: limit_rows_num)

end
