(* ===== verification/DateTime.thy ===== *)
theory DateTime
  imports JsValue
begin

text \<open>
  The parts of JavaScript's \<open>Date\<close> that the code uses. A valid date is its time value, the
  milliseconds since 1970-01-01T00:00Z. The calendar is ECMAScript's: \<open>day_from_year\<close>,
  the year of a day, month and day of the month. Local time is the host's: a \<open>zone\<close> holds the
  two operations ECMAScript asks of it, \<open>LocalTime\<close> and \<open>UTC\<close>. The range check
  of a time value (\<open>TimeClip\<close>) is done where a date is printed, not in the setters.
\<close>

section \<open>The calendar\<close>

definition ms_per_day :: int where
  "ms_per_day = 86400000"

definition day_of :: "int \<Rightarrow> int" where
  "day_of t = t div ms_per_day"

definition time_within_day :: "int \<Rightarrow> int" where
  "time_within_day t = t mod ms_per_day"

text \<open>0 is Sunday; 1970-01-01 was a Thursday.\<close>

definition week_day :: "int \<Rightarrow> int" where
  "week_day t = (day_of t + 4) mod 7"

definition day_from_year :: "int \<Rightarrow> int" where
  "day_from_year y =
     365 * (y - 1970) + (y - 1969) div 4 - (y - 1901) div 100 + (y - 1601) div 400"

definition is_leap :: "int \<Rightarrow> bool" where
  "is_leap y \<longleftrightarrow> y mod 4 = 0 \<and> (y mod 100 \<noteq> 0 \<or> y mod 400 = 0)"

definition days_in_year :: "int \<Rightarrow> int" where
  "days_in_year y = (if is_leap y then 366 else 365)"

lemma int_div_bounds:
  fixes x k :: int
  assumes "0 < k"
  shows "k * (x div k) \<le> x" "x < k * (x div k) + k"
  using pos_mod_sign [OF assms, of x] pos_mod_bound [OF assms, of x] mult_div_mod_eq [of k x]
  by linarith+

lemma int_div_unique: "0 < k \<Longrightarrow> k * q \<le> x \<Longrightarrow> x < k * q + k \<Longrightarrow> x div k = (q :: int)"
  by (rule int_div_pos_eq [of _ _ _ "x - k * q"]) auto

lemma int_div_next:
  fixes x k :: int
  assumes "0 < k"
  shows "(x + 1) div k = x div k + (if k dvd x + 1 then 1 else 0)"
proof (cases "k dvd x + 1")
  case True
  then obtain q where q: "x + 1 = k * q" by blast
  with assms have "(x + 1) div k = q" by simp
  moreover from q assms have "x div k = q - 1"
    by (intro int_div_unique) (auto simp: algebra_simps)
  ultimately show ?thesis using True by simp
next
  case False
  have "x + 1 \<noteq> k * (x div k) + k"
  proof
    assume "x + 1 = k * (x div k) + k"
    then have "x + 1 = k * (x div k + 1)" by (simp add: algebra_simps)
    then have "k dvd x + 1" unfolding dvd_def by blast
    with False show False by simp
  qed
  then have "(x + 1) div k = x div k"
    using int_div_bounds [OF assms, of x] by (intro int_div_unique [OF assms]) linarith+
  with False show ?thesis by simp
qed

lemma day_from_year_Suc: "day_from_year (y + 1) = day_from_year y + days_in_year y"
proof -
  have 1: "(y + 1 - 1969) div 4 = (y - 1969) div 4 + (if 4 dvd y then 1 else 0)"
    using int_div_next [of 4 "y - 1969"] dvd_diff_left_iff [of 4 "1968 :: int" y]
    by (simp add: algebra_simps)
  have 2: "(y + 1 - 1901) div 100 = (y - 1901) div 100 + (if 100 dvd y then 1 else 0)"
    using int_div_next [of 100 "y - 1901"] dvd_diff_left_iff [of 100 "1900 :: int" y]
    by (simp add: algebra_simps)
  have 3: "(y + 1 - 1601) div 400 = (y - 1601) div 400 + (if 400 dvd y then 1 else 0)"
    using int_div_next [of 400 "y - 1601"] dvd_diff_left_iff [of 400 "1600 :: int" y]
    by (simp add: algebra_simps)
  have 4: "400 dvd y \<Longrightarrow> 100 dvd y" "100 dvd y \<Longrightarrow> 4 dvd y"
    by (auto elim: dvd_trans [rotated])
  have 5: "is_leap y \<longleftrightarrow> 4 dvd y \<and> (\<not> 100 dvd y \<or> 400 dvd y)"
    by (simp add: is_leap_def dvd_eq_mod_eq_0)
  show ?thesis
    unfolding day_from_year_def 1 2 3 days_in_year_def 5
    by (cases "4 dvd y"; cases "100 dvd y"; cases "400 dvd y") (use 4 in simp_all)
qed

lemma days_in_year_pos: "0 < days_in_year y"
  by (simp add: days_in_year_def)

lemma day_from_year_mono: "x \<le> y \<Longrightarrow> day_from_year x \<le> day_from_year y"
proof (induction y rule: int_ge_induct)
  case (step i)
  then show ?case using day_from_year_Suc [of i] days_in_year_pos [of i] by linarith
qed simp

lemma day_from_year_strict: "x < y \<Longrightarrow> day_from_year x < day_from_year y"
  using day_from_year_mono [of "x + 1" y] day_from_year_Suc [of x] days_in_year_pos [of x]
  by linarith

text \<open>The year of a day number: a lower bound, then the first year whose end is after it.\<close>

function year_up :: "int \<Rightarrow> int \<Rightarrow> int" where
  "year_up y d = (if day_from_year (y + 1) \<le> d then year_up (y + 1) d else y)"
  by pat_completeness auto
termination
  by (relation "measure (\<lambda>(y, d). nat (d - day_from_year y))")
     (simp_all add: day_from_year_Suc days_in_year_def split: if_splits)

declare year_up.simps [simp del]

definition year_guess :: "int \<Rightarrow> int" where
  "year_guess d = 1968 + (400 * d) div 146097"

definition year_of_day :: "int \<Rightarrow> int" where
  "year_of_day d = year_up (year_guess d) d"

lemma year_guess_le: "day_from_year (year_guess d) \<le> d"
proof -
  define n where "n = (400 * d) div 146097"
  define a where "a = (n - 1) div 4"
  define b where "b = (n + 67) div 100"
  define c where "c = (n + 367) div 400"
  have 1: "146097 * n \<le> 400 * d" unfolding n_def by (rule int_div_bounds) simp
  have 2: "4 * a \<le> n - 1" unfolding a_def by (rule int_div_bounds) simp
  have 3: "n + 67 < 100 * b + 100" unfolding b_def by (rule int_div_bounds) simp
  have 4: "400 * c \<le> n + 367" unfolding c_def by (rule int_div_bounds) simp
  have "400 * a \<le> 100 * n - 100" using 2 by linarith
  moreover have "4 * n - 128 \<le> 400 * b" using 3 by linarith
  ultimately have "400 * a - 400 * b + 400 * c \<le> 97 * n + 395" using 4 by linarith
  then have "400 * (365 * (n - 2) + a - b + c) \<le> 146097 * n" by (simp add: algebra_simps)
  from order_trans [OF this 1] have "365 * (n - 2) + a - b + c \<le> d"
    by (rule mult_left_le_imp_le) simp
  then show ?thesis
    by (simp add: day_from_year_def year_guess_def n_def a_def b_def c_def algebra_simps)
qed

lemma year_up_bounds:
  "day_from_year y \<le> d \<Longrightarrow>
   day_from_year (year_up y d) \<le> d \<and> d < day_from_year (year_up y d + 1)"
proof (induction y d rule: year_up.induct)
  case (1 y d)
  then show ?case by (cases "day_from_year (y + 1) \<le> d") (simp_all add: year_up.simps [of y d])
qed

lemma year_of_day_bounds:
  "day_from_year (year_of_day d) \<le> d" "d < day_from_year (year_of_day d + 1)"
  using year_up_bounds [OF year_guess_le] by (simp_all add: year_of_day_def)

lemma year_of_day_unique:
  assumes "day_from_year y \<le> d" "d < day_from_year (y + 1)"
  shows "year_of_day d = y"
proof (rule ccontr)
  assume "year_of_day d \<noteq> y"
  then consider "year_of_day d + 1 \<le> y" | "y + 1 \<le> year_of_day d" by linarith
  then show False
  proof cases
    case 1
    with assms(1) year_of_day_bounds(2) [of d] day_from_year_mono [of "year_of_day d + 1" y]
    show False by linarith
  next
    case 2
    with assms(2) year_of_day_bounds(1) [of d] day_from_year_mono [of "y + 1" "year_of_day d"]
    show False by linarith
  qed
qed

text \<open>Month (0 to 11) and day of the month (from 1) of a day of the year.\<close>

definition month_lengths :: "bool \<Rightarrow> int list" where
  "month_lengths leap = [31, if leap then 29 else 28, 31, 30, 31, 30, 31, 31, 30, 31, 30, 31]"

fun month_and_day :: "int \<Rightarrow> int list \<Rightarrow> int \<Rightarrow> int \<times> int" where
  "month_and_day m [] n = (m, n + 1)"
| "month_and_day m (l # ls) n = (if n < l then (m, n + 1) else month_and_day (m + 1) ls (n - l))"

definition civil :: "int \<Rightarrow> int \<times> int \<times> int" where
  "civil d = (let y = year_of_day d
              in (y, month_and_day 0 (month_lengths (is_leap y)) (d - day_from_year y)))"

definition year_of :: "int \<Rightarrow> int" where "year_of d = fst (civil d)"
definition month_of :: "int \<Rightarrow> int" where "month_of d = fst (snd (civil d))"
definition date_of :: "int \<Rightarrow> int" where "date_of d = snd (snd (civil d))"

lemma month_and_day_inj:
  assumes "\<forall>l \<in> set ls. 0 < l" and "0 \<le> n" and "0 \<le> n'"
  shows "month_and_day m ls n = month_and_day m ls n' \<longleftrightarrow> n = n'"
  using assms
proof (induction ls arbitrary: m n n')
  case (Cons l ls)
  have lower: "0 \<le> k \<Longrightarrow> m + 1 \<le> fst (month_and_day (m + 1) ls k)" for k
  proof -
    have "p \<le> fst (month_and_day p ls k)" for p k
      by (induction p ls k rule: month_and_day.induct) auto
    then show ?thesis by blast
  qed
  show ?case
  proof (cases "n < l"; cases "n' < l")
    assume "\<not> n < l" "\<not> n' < l"
    with Cons.prems Cons.IH [of "n - l" "n' - l" "m + 1"] show ?thesis by auto
  next
    assume "n < l" "\<not> n' < l"
    with lower [of "n' - l"] show ?thesis by (cases "month_and_day (m + 1) ls (n' - l)") auto
  next
    assume "\<not> n < l" "n' < l"
    with lower [of "n - l"] show ?thesis by (cases "month_and_day (m + 1) ls (n - l)") auto
  qed auto
qed auto

lemma civil_inj: "civil d = civil d' \<longleftrightarrow> d = d'"
proof
  assume eq: "civil d = civil d'"
  then have y: "year_of_day d = year_of_day d'" by (simp add: civil_def Let_def)
  have "\<forall>l \<in> set (month_lengths (is_leap (year_of_day d))). 0 < l"
    by (simp add: month_lengths_def)
  from month_and_day_inj [OF this] eq y year_of_day_bounds(1) [of d] year_of_day_bounds(1) [of d']
  have "d - day_from_year (year_of_day d) = d' - day_from_year (year_of_day d')"
    by (simp add: civil_def Let_def)
  with y show "d = d'" by simp
qed simp

lemma month_and_day_bounds:
  assumes "0 \<le> n" "n < sum_list ls" "\<forall>l \<in> set ls. l \<le> 31"
  shows "m \<le> fst (month_and_day m ls n) \<and> fst (month_and_day m ls n) < m + int (length ls)
    \<and> 1 \<le> snd (month_and_day m ls n) \<and> snd (month_and_day m ls n) \<le> 31"
  using assms
proof (induction ls arbitrary: m n)
  case (Cons l ls)
  show ?case
  proof (cases "n < l")
    case False
    with Cons.prems Cons.IH [of "n - l" "m + 1"] show ?thesis by auto
  qed (use Cons.prems in auto)
qed auto

lemma month_date_bounds:
  "0 \<le> month_of d" "month_of d \<le> 11" "1 \<le> date_of d" "date_of d \<le> 31"
proof -
  define y where "y = year_of_day d"
  define n where "n = d - day_from_year y"
  define ls where "ls = month_lengths (is_leap y)"
  have "sum_list ls = days_in_year y" "\<forall>l \<in> set ls. l \<le> 31" "length ls = 12"
    by (simp_all add: ls_def month_lengths_def days_in_year_def)
  moreover have "0 \<le> n" "n < days_in_year y"
    using year_of_day_bounds [of d] day_from_year_Suc [of y] by (simp_all add: n_def y_def)
  ultimately have "0 \<le> fst (month_and_day 0 ls n) \<and> fst (month_and_day 0 ls n) < 12
      \<and> 1 \<le> snd (month_and_day 0 ls n) \<and> snd (month_and_day 0 ls n) \<le> 31"
    using month_and_day_bounds [of n ls 0] by simp
  moreover have "civil d = (y, month_and_day 0 ls n)"
    by (simp add: civil_def Let_def y_def n_def ls_def)
  ultimately show "0 \<le> month_of d" "month_of d \<le> 11" "1 \<le> date_of d" "date_of d \<le> 31"
    by (simp_all add: month_of_def date_of_def)
qed

section \<open>Local time\<close>

text \<open>
  \<open>local_of\<close> is ECMAScript's \<open>LocalTime(t)\<close>, \<open>utc_of\<close> its \<open>UTC(t)\<close>:
  the host's time zone.
\<close>

record zone =
  local_of :: "int \<Rightarrow> int"
  utc_of :: "int \<Rightarrow> int"

definition get_day :: "zone \<Rightarrow> int \<Rightarrow> int" where
  "get_day z t = week_day (local_of z t)"

text \<open>\<open>d.setHours(h, m, 0, 0)\<close>.\<close>

definition set_hours :: "zone \<Rightarrow> int \<Rightarrow> int \<Rightarrow> int \<Rightarrow> int" where
  "set_hours z h m t = utc_of z (day_of (local_of z t) * ms_per_day + h * 3600000 + m * 60000)"

text \<open>\<open>Number\<close> to integer as \<open>ToIntegerOrInfinity\<close>: towards zero.\<close>

definition trunc :: "rat \<Rightarrow> int" where
  "trunc r = (if r < 0 then - \<lfloor>- r\<rfloor> else \<lfloor>r\<rfloor>)"

text \<open>
  \<open>d.setDate(d.getDate() + k)\<close>: the argument is truncated, the day of the month replaced
  and the time of the day kept.
\<close>

definition shift_date :: "zone \<Rightarrow> rat \<Rightarrow> int \<Rightarrow> int" where
  "shift_date z k t =
     (let l = local_of z t; dt = date_of (day_of l); dt' = trunc (of_int dt + k)
      in utc_of z ((day_of l + (dt' - dt)) * ms_per_day + time_within_day l))"

lemma trunc_of_int [simp]: "trunc (of_int i) = i"
  by (simp add: trunc_def)

lemma trunc_date [simp]: "trunc (of_int a + of_int b) = a + b"
  by (metis of_int_add trunc_of_int)

lemma shift_date_int:
  "shift_date z (of_int k) t =
     utc_of z ((day_of (local_of z t) + k) * ms_per_day + time_within_day (local_of z t))"
  by (simp add: shift_date_def Let_def)

text \<open>
  The law of a zone without changes of its offset: local time is a strictly increasing
  renaming of time values and \<open>utc_of\<close> undoes it. A zone with daylight saving time
  satisfies it only away from the changes.
\<close>

locale steady_zone =
  fixes z :: zone
  assumes local_utc: "local_of z (utc_of z x) = x"
    and local_mono: "s < t \<Longrightarrow> local_of z s < local_of z t"
begin

lemma local_less_iff: "local_of z s < local_of z t \<longleftrightarrow> s < t"
  by (metis local_mono linorder_neqE not_less_iff_gr_or_eq)

lemma local_le_iff: "local_of z s \<le> local_of z t \<longleftrightarrow> s \<le> t"
  by (meson local_less_iff not_less)

lemma utc_less_iff: "t < utc_of z x \<longleftrightarrow> local_of z t < x"
  using local_less_iff [of t "utc_of z x"] by (simp add: local_utc)

lemma utc_le_iff: "utc_of z x \<le> t \<longleftrightarrow> x \<le> local_of z t"
  using utc_less_iff [of t x] by linarith

end

text \<open>A fixed offset from UTC, such as Korean Standard Time.\<close>

definition fixed_zone :: "int \<Rightarrow> zone" where
  "fixed_zone off = \<lparr>local_of = (\<lambda>t. t + off), utc_of = (\<lambda>x. x - off)\<rparr>"

definition kst :: zone where
  "kst = fixed_zone (9 * 3600000)"

interpretation fixed: steady_zone "fixed_zone off" for off
  by unfold_locales (auto simp: fixed_zone_def)

lemma steady_kst: "steady_zone kst"
  unfolding kst_def by (rule fixed.steady_zone_axioms)

section \<open>Printing and parsing\<close>

definition pad3 :: "int \<Rightarrow> string" where
  "pad3 i = pad_start 3 (CHR ''0'') (show_int i)"

definition pad4 :: "int \<Rightarrow> string" where
  "pad4 i = pad_start 4 (CHR ''0'') (show_int i)"

definition iso_year :: "int \<Rightarrow> string" where
  "iso_year y =
     (if 0 \<le> y \<and> y \<le> 9999 then pad4 y
      else (if y < 0 then ''-'' else ''+'') @ pad_start 6 (CHR ''0'') (show_nat (nat \<bar>y\<bar>)))"

text \<open>\<open>Date.prototype.toISOString\<close> of a valid time value.\<close>

definition iso :: "int \<Rightarrow> string" where
  "iso t = (let d = day_of t; s = time_within_day t
     in iso_year (year_of d) @ ''-'' @ pad2 (month_of d + 1) @ ''-'' @ pad2 (date_of d) @ ''T''
        @ pad2 (s div 3600000) @ '':'' @ pad2 (s div 60000 mod 60) @ '':''
        @ pad2 (s div 1000 mod 60) @ ''.'' @ pad3 (s mod 1000) @ ''Z'')"

text \<open>
  \<open>new Date(x).toISOString()\<close> of a number: a value that is no time value (not finite, or
  more than 8.64e15 milliseconds away) makes \<open>toISOString\<close> throw a RangeError.
\<close>

fun iso_of_number :: "jsnum \<Rightarrow> err + string" where
  "iso_of_number (Fin r) =
     (if \<bar>r\<bar> \<le> 8640000000000000 then Inr (iso (trunc r)) else Inl (Thrown ''Invalid time value''))"
| "iso_of_number _ = Inl (Thrown ''Invalid time value'')"

text \<open>
  The host: its zone and \<open>Date.parse\<close>, which ECMAScript leaves to the implementation for
  most formats (\<open>None\<close> is an invalid date).
\<close>

record host =
  tz :: zone
  parse_date :: "string \<Rightarrow> int option"

text \<open>
  \<open>const d = s ? new Date(s) : new Date(); const r = Number.isNaN(d.getTime()) ? new Date() : d\<close>,
  the code's usual reading of an optional date; \<open>now\<close> is the current time.
\<close>

definition date_or_now :: "host \<Rightarrow> int \<Rightarrow> string option \<Rightarrow> int" where
  "date_or_now h now v =
     (case v of None \<Rightarrow> now
              | Some s \<Rightarrow> (if s = [] then now
                          else (case parse_date h s of None \<Rightarrow> now | Some t \<Rightarrow> t)))"

lemma iso_year_length: "0 \<le> y \<Longrightarrow> y \<le> 9999 \<Longrightarrow> iso_year y = pad4 y"
  by (simp add: iso_year_def)

end
