(* ===== verification/Period.thy ===== *)
theory Period
  imports DateTime
begin

text \<open>
  Reset periods: the daily and weekly keys under which the planner files completions
  (\<open>main/planner/period.ts\<close>), the weekly start of the loot report
  (\<open>resolveWeeklyStartLocal\<close> of \<open>domains/loot.ts\<close>), the countdown targets of the
  desktop renderer (\<open>renderer/src/planner/reset.ts\<close>) and the hour based keys of the web
  planner module (\<open>packages/modules/planner/lib/period.ts\<close>).
\<close>

section \<open>Reset times\<close>

text \<open>\<open>/^(\d{1,2}):(\d{2})$/\<close> and the two numbers it captures.\<close>

fun match_hhmm :: "string \<Rightarrow> (nat \<times> nat) option" where
  "match_hhmm [h, c, m, n] =
     (if is_digit h \<and> c = CHR '':'' \<and> is_digit m \<and> is_digit n
      then Some (read_nat [h], read_nat [m, n]) else None)"
| "match_hhmm [g, h, c, m, n] =
     (if is_digit g \<and> is_digit h \<and> c = CHR '':'' \<and> is_digit m \<and> is_digit n
      then Some (read_nat [g, h], read_nat [m, n]) else None)"
| "match_hhmm _ = None"

definition parse_hhmm :: "string \<Rightarrow> int \<times> int" where
  "parse_hhmm hhmm =
     (case match_hhmm (trim hhmm) of
        None \<Rightarrow> (9, 0)
      | Some (hour, minute) \<Rightarrow>
          (if hour > 23 \<or> minute > 59 then (9, 0) else (int hour, int minute)))"

text \<open>The renderer's copy also reports whether the text was valid.\<close>

definition renderer_parse_hhmm :: "string \<Rightarrow> bool \<times> int \<times> int" where
  "renderer_parse_hhmm hhmm =
     (case match_hhmm (trim hhmm) of
        None \<Rightarrow> (False, 9, 0)
      | Some (hour, minute) \<Rightarrow>
          (if hour > 23 \<or> minute > 59 then (False, 9, 0) else (True, int hour, int minute)))"

definition reset_offset :: "string \<Rightarrow> int" where
  "reset_offset hhmm = fst (parse_hhmm hhmm) * 3600000 + snd (parse_hhmm hhmm) * 60000"

lemma parse_hhmm_range:
  "0 \<le> fst (parse_hhmm s)" "fst (parse_hhmm s) \<le> 23"
  "0 \<le> snd (parse_hhmm s)" "snd (parse_hhmm s) \<le> 59"
  by (auto simp: parse_hhmm_def split: option.split)

lemma renderer_parse_hhmm_eq: "snd (renderer_parse_hhmm s) = parse_hhmm s"
  by (auto simp: parse_hhmm_def renderer_parse_hhmm_def split: option.split)

lemma reset_offset_range: "0 \<le> reset_offset s" "reset_offset s < ms_per_day"
  using parse_hhmm_range [of s] by (auto simp: reset_offset_def ms_per_day_def)

section \<open>Period keys of the main process\<close>

definition date_key :: "int \<Rightarrow> string" where
  "date_key d = show_int (year_of d) @ ''-'' @ pad2 (month_of d + 1) @ ''-'' @ pad2 (date_of d)"

definition format_local_date_key :: "zone \<Rightarrow> int \<Rightarrow> string" where
  "format_local_date_key z t = date_key (day_of (local_of z t))"

definition daily_period_key :: "zone \<Rightarrow> int \<Rightarrow> string \<Rightarrow> string" where
  "daily_period_key z now hhmm =
     (let (hour, minute) = parse_hhmm hhmm;
          start = set_hours z hour minute now;
          start' = (if now < start then shift_date z (- 1) start else start)
      in ''D:'' @ format_local_date_key z start')"

text \<open>\<open>Number.isFinite(d) ? Math.max(0, Math.min(6, d)) : 1\<close>.\<close>

fun clamp_reset_day :: "jsnum \<Rightarrow> rat" where
  "clamp_reset_day (Fin r) = max 0 (min 6 r)"
| "clamp_reset_day _ = 1"

definition rat_mod :: "rat \<Rightarrow> rat \<Rightarrow> rat" where
  "rat_mod a b = a - b * of_int \<lfloor>a / b\<rfloor>"

definition weekly_period_key :: "zone \<Rightarrow> int \<Rightarrow> string \<Rightarrow> jsnum \<Rightarrow> string" where
  "weekly_period_key z now hhmm weekly_reset_day =
     (let (hour, minute) = parse_hhmm hhmm;
          reset_day = clamp_reset_day weekly_reset_day;
          days_since_reset = rat_mod (of_int (get_day z now) - reset_day + 7) 7;
          start = set_hours z hour minute (shift_date z (- days_since_reset) now);
          start' = (if now < start then shift_date z (- 7) start else start)
      in ''W:'' @ format_local_date_key z start')"

text \<open>The loot report starts its week with the same steps, and keeps the date.\<close>

definition resolve_weekly_start_local :: "zone \<Rightarrow> int \<Rightarrow> string \<Rightarrow> jsnum \<Rightarrow> int" where
  "resolve_weekly_start_local z now hhmm weekly_reset_day =
     (let (hour, minute) = parse_hhmm hhmm;
          reset_day = clamp_reset_day weekly_reset_day;
          days_since_reset = rat_mod (of_int (get_day z now) - reset_day + 7) 7;
          start = set_hours z hour minute (shift_date z (- days_since_reset) now)
      in if now < start then shift_date z (- 7) start else start)"

section \<open>Countdown targets of the renderer\<close>

definition next_daily_reset_at :: "zone \<Rightarrow> int \<Rightarrow> string \<Rightarrow> int" where
  "next_daily_reset_at z now hhmm =
     (let (ok, hour, minute) = renderer_parse_hhmm hhmm;
          reset = set_hours z hour minute now
      in if now < reset then reset else shift_date z 1 reset)"

definition weekly_reset_start_at :: "zone \<Rightarrow> int \<Rightarrow> string \<Rightarrow> jsnum \<Rightarrow> int" where
  "weekly_reset_start_at z now hhmm weekly_reset_day =
     (let (ok, hour, minute) = renderer_parse_hhmm hhmm;
          reset_day = clamp_reset_day weekly_reset_day;
          days_since_reset = rat_mod (of_int (get_day z now) - reset_day + 7) 7;
          start = set_hours z hour minute (shift_date z (- days_since_reset) now)
      in if now < start then shift_date z (- 7) start else start)"

definition next_weekly_reset_at :: "zone \<Rightarrow> int \<Rightarrow> string \<Rightarrow> jsnum \<Rightarrow> int" where
  "next_weekly_reset_at z now hhmm weekly_reset_day =
     shift_date z 7 (weekly_reset_start_at z now hhmm weekly_reset_day)"

text \<open>\<open>formatCountdown\<close>: two units of the remaining time.\<close>

definition format_countdown :: "jsnum \<Rightarrow> string option" where
  "format_countdown ms =
     (case num_max (num 0) (num_floor (num_div_pos ms 1000)) of
        Fin r \<Rightarrow>
          (let s = \<lfloor>r\<rfloor>; m = s div 60; h = m div 60; d = h div 24; hh = h mod 24; mm = m mod 60
           in Some (if d > 0 then show_int d @ ''d '' @ show_int hh @ ''h''
                    else if h > 0 then show_int h @ ''h '' @ show_int mm @ ''m''
                    else show_int m @ ''m''))
      | _ \<Rightarrow> None)"

section \<open>Period keys of the web planner module\<close>

text \<open>\<open>d.setHours(d.getHours() - h)\<close> keeps minutes, seconds and milliseconds.\<close>

definition shift_hours :: "zone \<Rightarrow> int \<Rightarrow> int \<Rightarrow> int" where
  "shift_hours z k t = utc_of z (local_of z t + k * 3600000)"

definition get_daily_period_key :: "zone \<Rightarrow> int \<Rightarrow> int \<Rightarrow> string" where
  "get_daily_period_key z now reset_hour =
     format_local_date_key z (shift_hours z (- reset_hour) now)"

definition get_weekly_period_key :: "zone \<Rightarrow> int \<Rightarrow> int \<Rightarrow> int \<Rightarrow> string" where
  "get_weekly_period_key z now reset_day reset_hour =
     (let shifted = shift_hours z (- reset_hour) now;
          diff = (get_day z shifted - reset_day + 7) mod 7;
          shifted' = set_hours z 0 0 (shift_date z (of_int (- diff)) shifted)
      in format_local_date_key z shifted')"

definition get_next_daily_reset_at :: "zone \<Rightarrow> int \<Rightarrow> int \<Rightarrow> int" where
  "get_next_daily_reset_at z now reset_hour =
     (let next = set_hours z reset_hour 0 now
      in if next \<le> now then shift_date z 1 next else next)"

definition get_next_weekly_reset_at :: "zone \<Rightarrow> int \<Rightarrow> int \<Rightarrow> int \<Rightarrow> int" where
  "get_next_weekly_reset_at z now reset_day reset_hour =
     (let next = set_hours z reset_hour 0 now;
          day = get_day z next;
          diff = (reset_day - day + 7) mod 7;
          diff' = (if diff = 0 \<and> next \<le> now then 7 else diff)
      in shift_date z (of_int diff') next)"

section \<open>Lemmas\<close>

lemma date_key_inj [simp]: "date_key d = date_key d' \<longleftrightarrow> d = d'"
proof
  assume eq: "date_key d = date_key d'"
  note bounds = month_date_bounds [of d] month_date_bounds [of d']
  have len: "length (pad2 (month_of d + 1)) = length (pad2 (month_of d' + 1))"
    "length (pad2 (date_of d)) = length (pad2 (date_of d'))"
    using bounds by (simp_all add: pad2_length)
  from eq len have "show_int (year_of d) = show_int (year_of d')"
    "pad2 (month_of d + 1) = pad2 (month_of d' + 1)" "pad2 (date_of d) = pad2 (date_of d')"
    unfolding date_key_def by (auto simp: append_eq_append_conv)
  then have "year_of d = year_of d'" "month_of d = month_of d'" "date_of d = date_of d'"
    using bounds by (auto simp: pad2_inj)
  then have "civil d = civil d'"
    by (simp add: year_of_def month_of_def date_of_def prod_eq_iff)
  then show "d = d'" by (simp add: civil_inj)
qed simp

lemma day_of_add [simp]: "0 \<le> x \<Longrightarrow> x < ms_per_day \<Longrightarrow> day_of (d * ms_per_day + x) = d"
  by (simp add: day_of_def ms_per_day_def)

lemma time_of_add [simp]:
  "0 \<le> x \<Longrightarrow> x < ms_per_day \<Longrightarrow> time_within_day (d * ms_per_day + x) = x"
  by (simp add: time_within_day_def)

lemma day_time: "t = day_of t * ms_per_day + time_within_day t"
  by (simp add: day_of_def time_within_day_def)

lemma time_range: "0 \<le> time_within_day t" "time_within_day t < ms_per_day"
  by (simp_all add: time_within_day_def ms_per_day_def)

lemma day_of_le: "d * ms_per_day \<le> t \<longleftrightarrow> d \<le> day_of t"
  using int_div_bounds [of ms_per_day t]
  by (simp add: day_of_def ms_per_day_def) linarith

text \<open>The day whose reset was the last one, for the local time \<open>l\<close> and the reset offset.\<close>

definition reset_day_of :: "int \<Rightarrow> int \<Rightarrow> int" where
  "reset_day_of l offset = day_of (l - offset)"

definition week_start_day :: "int \<Rightarrow> int \<Rightarrow> int" where
  "week_start_day rd d = d - (d + 4 - rd) mod 7"

lemma day_of_unique: "d * ms_per_day \<le> t \<Longrightarrow> t < d * ms_per_day + ms_per_day \<Longrightarrow> day_of t = d"
  unfolding day_of_def by (rule int_div_unique) (auto simp: ms_per_day_def)

lemma reset_day_cases:
  assumes "0 \<le> off" "off < ms_per_day"
  shows "reset_day_of l off =
    (if l < day_of l * ms_per_day + off then day_of l - 1 else day_of l)"
proof -
  have l: "l = day_of l * ms_per_day + time_within_day l" by (rule day_time)
  have "(day_of l - 1) * ms_per_day = day_of l * ms_per_day - ms_per_day"
    by (simp add: left_diff_distrib)
  then show ?thesis
    using time_range [of l] assms l unfolding reset_day_of_def
    by (auto intro!: day_of_unique)
qed

lemma reset_day_iff:
  "reset_day_of l off = d \<longleftrightarrow> d * ms_per_day + off \<le> l \<and> l < (d + 1) * ms_per_day + off"
  using day_of_le [of d "l - off"] day_of_le [of "d + 1" "l - off"]
  unfolding reset_day_of_def by linarith

text \<open>The instant of the reset on local day \<open>d\<close>.\<close>

definition reset_at :: "zone \<Rightarrow> int \<Rightarrow> int \<Rightarrow> int" where
  "reset_at z offset d = utc_of z (d * ms_per_day + offset)"

lemma mod7_unique: "0 \<le> r \<Longrightarrow> r < 7 \<Longrightarrow> (x - r) mod 7 = 0 \<Longrightarrow> x mod 7 = (r :: int)"
  by presburger

lemma mod7_sub: "(x - x mod 7) mod 7 = (0 :: int)"
  by presburger

lemma mod7_pred: "(x - 1) mod 7 = (if x mod 7 = 0 then 6 else x mod 7 - (1 :: int))"
proof -
  define r where "r = x mod 7"
  have r: "0 \<le> r" "r < 7" unfolding r_def by (rule pos_mod_sign pos_mod_bound; simp)+
  have x: "(x - r) mod 7 = 0" unfolding r_def by (rule mod7_sub)
  have "(x - 1) mod 7 = (if r = 0 then 6 else r - 1)"
  proof (cases "r = 0")
    case True
    have eq: "x - 1 - 6 = (x - r) + (- 1) * 7" using True by simp
    have "(x - 1 - 6) mod 7 = 0" unfolding eq mod_mult_self1 by (rule x)
    then have "(x - 1) mod 7 = 6" by (rule mod7_unique [rotated 2]) simp_all
    with True show ?thesis by simp
  next
    case False
    have "x - 1 - (r - 1) = x - r" by simp
    then have "(x - 1 - (r - 1)) mod 7 = 0" using x by (simp only:)
    then have "(x - 1) mod 7 = r - 1" by (rule mod7_unique [rotated 2]) (use r False in linarith)+
    with False show ?thesis by simp
  qed
  then show ?thesis by (simp only: r_def)
qed

lemma week_start_day_eq:
  "week_start_day rd (if before then d - 1 else d) =
    (let s = (d + 4 - rd) mod 7 in if before \<and> s = 0 then d - 7 else d - s)"
proof -
  have "d - 1 + 4 - rd = d + 4 - rd - 1" by simp
  then show ?thesis
    by (simp only: week_start_day_def Let_def mod7_pred split: if_split) auto
qed

lemma week_start_day_props:
  "(week_start_day rd d + 4 - rd) mod 7 = 0" "week_start_day rd d \<le> d" "d < week_start_day rd d + 7"
proof -
  have "week_start_day rd d + 4 - rd = d + 4 - rd - (d + 4 - rd) mod 7"
    by (simp add: week_start_day_def)
  then show "(week_start_day rd d + 4 - rd) mod 7 = 0" by (simp only: mod7_sub)
  show "week_start_day rd d \<le> d" "d < week_start_day rd d + 7" by (simp_all add: week_start_day_def)
qed

lemma week_start_day_unique:
  assumes "w \<le> d" "d < w + 7" "(w + 4 - rd) mod 7 = 0"
  shows "week_start_day rd d = w"
proof -
  have "d + 4 - rd - (d - w) = w + 4 - rd" by simp
  with assms(3) have "(d + 4 - rd - (d - w)) mod 7 = 0" by (simp only:)
  then have "(d + 4 - rd) mod 7 = d - w" by (rule mod7_unique [rotated 2]) (use assms in linarith)+
  then show ?thesis by (simp add: week_start_day_def)
qed

lemma rat_mod_of_int: "rat_mod (of_int a) (of_int b) = of_int (a mod b)"
  by (simp add: rat_mod_def minus_mult_div_eq_mod [symmetric] floor_divide_of_int_eq)

lemma clamp_reset_day_num [simp]: "0 \<le> rd \<Longrightarrow> rd \<le> 6 \<Longrightarrow> clamp_reset_day (num rd) = of_int rd"
  by (simp add: num_def)

lemma days_since_int:
  assumes "0 \<le> rd" "rd \<le> 6"
  shows "rat_mod (of_int w - clamp_reset_day (num rd) + 7) 7 = of_int ((w - rd) mod 7)"
proof -
  have "rat_mod (of_int w - clamp_reset_day (num rd) + 7) 7 = rat_mod (of_int (w - rd + 7)) (of_int 7)"
    using assms by simp
  also have "\<dots> = of_int ((w - rd + 7) mod 7)" by (rule rat_mod_of_int)
  finally show ?thesis by simp
qed

lemma weekly_period_key_start:
  "weekly_period_key z now hhmm wd =
     ''W:'' @ format_local_date_key z (resolve_weekly_start_local z now hhmm wd)"
  by (simp add: weekly_period_key_def resolve_weekly_start_local_def Let_def split: prod.split)

lemma weekly_reset_start_at_eq:
  "weekly_reset_start_at z now hhmm wd = resolve_weekly_start_local z now hhmm wd"
  by (simp add: weekly_reset_start_at_def resolve_weekly_start_local_def Let_def case_prod_beta
      renderer_parse_hhmm_eq)

context steady_zone
begin

lemma reset_at_le: "reset_at z off d \<le> t \<longleftrightarrow> d * ms_per_day + off \<le> local_of z t"
  by (simp add: reset_at_def utc_le_iff)

lemma reset_at_gt: "t < reset_at z off d \<longleftrightarrow> local_of z t < d * ms_per_day + off"
  by (simp add: reset_at_def utc_less_iff)

lemma reset_day_of_iff:
  "reset_day_of (local_of z t) off = d \<longleftrightarrow> reset_at z off d \<le> t \<and> t < reset_at z off (d + 1)"
  by (simp add: reset_day_iff reset_at_le reset_at_gt)

lemma reset_at_local:
  assumes "0 \<le> off" "off < ms_per_day"
  shows "day_of (local_of z (reset_at z off d)) = d"
    "time_within_day (local_of z (reset_at z off d)) = off"
  using assms by (simp_all add: reset_at_def local_utc)

lemma shift_reset_at:
  assumes "0 \<le> off" "off < ms_per_day"
  shows "shift_date z (of_int k) (reset_at z off d) = reset_at z off (d + k)"
  by (simp add: shift_date_int reset_at_local [OF assms]) (simp add: reset_at_def)

lemma set_hours_reset:
  "set_hours z (fst (parse_hhmm hhmm)) (snd (parse_hhmm hhmm)) t =
     reset_at z (reset_offset hhmm) (day_of (local_of z t))"
  by (simp add: set_hours_def reset_at_def reset_offset_def add.assoc)

lemma shift_date_day:
  "day_of (local_of z (shift_date z (of_int k) t)) = day_of (local_of z t) + k"
  using time_range by (simp add: shift_date_int local_utc)

lemma daily_period_key_eq:
  "daily_period_key z now hhmm = ''D:'' @ date_key (reset_day_of (local_of z now) (reset_offset hhmm))"
  using shift_reset_at [OF reset_offset_range, of "- 1" hhmm]
  by (simp add: daily_period_key_def Let_def case_prod_beta set_hours_reset format_local_date_key_def
      reset_at_gt reset_day_cases [OF reset_offset_range] reset_at_local [OF reset_offset_range])

lemma weekly_start_eq:
  assumes "0 \<le> rd" "rd \<le> 6"
  shows "resolve_weekly_start_local z now hhmm (num rd) =
    reset_at z (reset_offset hhmm) (week_start_day rd (reset_day_of (local_of z now) (reset_offset hhmm)))"
proof -
  let ?l = "local_of z now" and ?off = "reset_offset hhmm"
  let ?s = "(day_of ?l + 4 - rd) mod 7"
  have since: "(get_day z now - rd) mod 7 = ?s"
    by (simp add: get_day_def week_day_def mod_diff_left_eq)
  have start: "set_hours z (fst (parse_hhmm hhmm)) (snd (parse_hhmm hhmm))
      (shift_date z (- of_int ?s) now) = reset_at z ?off (day_of ?l - ?s)"
    using shift_date_day [of "- ?s" now] by (simp add: set_hours_reset)
  have s: "0 \<le> ?s" "?s < 7" by simp_all
  have late: "now < reset_at z ?off (day_of ?l - ?s) \<longleftrightarrow> ?s = 0 \<and> ?l < day_of ?l * ms_per_day + ?off"
  proof (cases "?s = 0")
    case False
    with s have "(day_of ?l - ?s) * ms_per_day + ?off \<le> ?l"
      using day_time [of ?l] time_range [of ?l] reset_offset_range [of hhmm]
      by (simp add: ms_per_day_def)
    with False show ?thesis by (simp add: reset_at_gt)
  qed (simp add: reset_at_gt)
  have a_week_back: "shift_date z (- 7) (reset_at z ?off (day_of ?l - ?s)) = reset_at z ?off (day_of ?l - ?s - 7)"
    using shift_reset_at [OF reset_offset_range, of "- 7"] by simp
  show ?thesis
    unfolding resolve_weekly_start_local_def Let_def case_prod_beta days_since_int [OF assms] since
      start late a_week_back reset_day_cases [OF reset_offset_range] week_start_day_eq
    by simp
qed

lemma weekly_period_key_eq:
  assumes "0 \<le> rd" "rd \<le> 6"
  shows "weekly_period_key z now hhmm (num rd) =
    ''W:'' @ date_key (week_start_day rd (reset_day_of (local_of z now) (reset_offset hhmm)))"
  by (simp add: weekly_period_key_start weekly_start_eq [OF assms] format_local_date_key_def
      reset_at_local [OF reset_offset_range])

lemma next_daily_reset_at_eq:
  "next_daily_reset_at z now hhmm =
     reset_at z (reset_offset hhmm) (reset_day_of (local_of z now) (reset_offset hhmm) + 1)"
  using shift_reset_at [OF reset_offset_range, of 1 hhmm]
  by (simp add: next_daily_reset_at_def Let_def case_prod_beta renderer_parse_hhmm_eq
      set_hours_reset reset_at_gt reset_day_cases [OF reset_offset_range])

lemma next_weekly_reset_at_eq:
  assumes "0 \<le> rd" "rd \<le> 6"
  shows "next_weekly_reset_at z now hhmm (num rd) = reset_at z (reset_offset hhmm)
    (week_start_day rd (reset_day_of (local_of z now) (reset_offset hhmm)) + 7)"
  using shift_reset_at [OF reset_offset_range, of 7 hhmm]
  by (simp add: next_weekly_reset_at_def weekly_reset_start_at_eq weekly_start_eq [OF assms])

subsection \<open>The web planner module\<close>

lemma hour_offset_range:
  "0 \<le> h \<Longrightarrow> h \<le> 23 \<Longrightarrow> 0 \<le> h * 3600000" "0 \<le> h \<Longrightarrow> h \<le> 23 \<Longrightarrow> h * 3600000 < ms_per_day"
  by (simp_all add: ms_per_day_def)

lemma get_daily_period_key_eq:
  "get_daily_period_key z now h = date_key (reset_day_of (local_of z now) (h * 3600000))"
  by (simp add: get_daily_period_key_def format_local_date_key_def shift_hours_def local_utc
      reset_day_of_def)

lemma set_hours_zero: "set_hours z h 0 t = reset_at z (h * 3600000) (day_of (local_of z t))"
  by (simp add: set_hours_def reset_at_def)

lemma reset_day_of_reset_at: "reset_day_of (local_of z (reset_at z off d)) off = d"
  by (simp add: reset_day_of_def reset_at_def local_utc day_of_def ms_per_day_def)

lemma get_weekly_period_key_eq:
  "get_weekly_period_key z now rd h =
     date_key (week_start_day rd (reset_day_of (local_of z now) (h * 3600000)))"
proof -
  let ?s = "shift_hours z (- h) now"
  have day: "day_of (local_of z ?s) = reset_day_of (local_of z now) (h * 3600000)"
    by (simp add: shift_hours_def local_utc reset_day_of_def)
  have diff: "(get_day z ?s - rd + 7) mod 7 = (day_of (local_of z ?s) + 4 - rd) mod 7"
    by (simp add: get_day_def week_day_def mod_diff_left_eq)
  show ?thesis
    unfolding get_weekly_period_key_def Let_def diff format_local_date_key_def
    using shift_date_day [of "- ((day_of (local_of z ?s) + 4 - rd) mod 7)" ?s]
      reset_at_local [of 0]
    by (simp add: set_hours_zero day week_start_day_def ms_per_day_def)
qed

lemma get_next_daily_reset_at_eq:
  assumes "0 \<le> h" "h \<le> 23"
  shows "get_next_daily_reset_at z now h =
    reset_at z (h * 3600000) (reset_day_of (local_of z now) (h * 3600000) + 1)"
  using shift_reset_at [OF hour_offset_range [OF assms], of 1]
  by (simp add: get_next_daily_reset_at_def Let_def set_hours_zero reset_at_le not_less
      reset_day_cases [OF hour_offset_range [OF assms]])

lemma get_next_weekly_reset_at_eq:
  assumes "0 \<le> h" "h \<le> 23"
  shows "get_next_weekly_reset_at z now rd h = reset_at z (h * 3600000)
    (week_start_day rd (reset_day_of (local_of z now) (h * 3600000)) + 7)"
proof -
  note off = hour_offset_range [OF assms]
  define d where "d = day_of (local_of z now)"
  define x where "x = d + 4 - rd"
  define r where "r = x mod 7"
  define late where "late \<longleftrightarrow> local_of z now < d * ms_per_day + h * 3600000"
  have r: "0 \<le> r" "r < 7" unfolding r_def by (rule pos_mod_sign pos_mod_bound; simp)+
  have "get_day z (set_hours z h 0 now) = (d + 4) mod 7"
    by (simp add: set_hours_zero get_day_def week_day_def reset_at_local [OF off] d_def)
  then have "(rd - get_day z (set_hours z h 0 now) + 7) mod 7 = (rd - (d + 4)) mod 7"
    by (simp only: mod_add_self2 mod_diff_right_eq)
  also have "rd - (d + 4) = - x" by (simp add: x_def)
  also have "(- x) mod 7 = (if r = 0 then 0 else 7 - r)"
    unfolding r_def by (rule zmod_zminus1_eq_if)
  finally have diff: "(rd - get_day z (set_hours z h 0 now) + 7) mod 7 = (if r = 0 then 0 else 7 - r)" .
  have W: "week_start_day rd (reset_day_of (local_of z now) (h * 3600000)) =
      (if late \<and> r = 0 then d - 7 else d - r)"
    using week_start_day_eq [of rd late d]
    unfolding reset_day_cases [OF off] late_def [symmetric] d_def [symmetric] r_def x_def Let_def .
  have "get_next_weekly_reset_at z now rd h = reset_at z (h * 3600000)
      (d + (if (if r = 0 then 0 else 7 - r) = 0 \<and> \<not> late then 7 else if r = 0 then 0 else 7 - r))"
    unfolding get_next_weekly_reset_at_def Let_def diff
    unfolding set_hours_zero shift_reset_at [OF off]
    by (simp add: reset_at_le late_def d_def not_less)
  also have "d + (if (if r = 0 then 0 else 7 - r) = 0 \<and> \<not> late then 7 else if r = 0 then 0 else 7 - r)
      = (if late \<and> r = 0 then d - 7 else d - r) + 7"
    using r by (cases late; cases "r = 0") simp_all
  finally show ?thesis by (simp only: W)
qed

subsection \<open>The same period, for any clock of resets\<close>

text \<open>Two instants have the same reset day when no reset lies between them.\<close>

lemma same_reset_day:
  "reset_day_of (local_of z s) off = reset_day_of (local_of z t) off \<longleftrightarrow>
   (\<exists>d. reset_at z off d \<le> s \<and> s < reset_at z off (d + 1) \<and> reset_at z off d \<le> t \<and> t < reset_at z off (d + 1))"
  using reset_day_of_iff by metis

lemma reset_at_mono: "d \<le> d' \<Longrightarrow> reset_at z off d \<le> reset_at z off d'"
  by (simp add: reset_at_le) (simp add: reset_at_def local_utc mult_right_mono ms_per_day_def)

lemma week_day_range:
  "reset_at z off w \<le> t \<and> t < reset_at z off (w + 7) \<longleftrightarrow>
   w \<le> reset_day_of (local_of z t) off \<and> reset_day_of (local_of z t) off < w + 7"
proof -
  let ?d = "reset_day_of (local_of z t) off"
  have d: "reset_at z off ?d \<le> t" "t < reset_at z off (?d + 1)"
    using reset_day_of_iff [of t off ?d] by simp_all
  show ?thesis
  proof
    assume "reset_at z off w \<le> t \<and> t < reset_at z off (w + 7)"
    with d have "reset_at z off w < reset_at z off (?d + 1)" "reset_at z off ?d < reset_at z off (w + 7)"
      by linarith+
    then have "\<not> ?d + 1 \<le> w" "\<not> w + 7 \<le> ?d" using reset_at_mono [of "?d + 1" w off]
      reset_at_mono [of "w + 7" ?d off] by linarith+
    then show "w \<le> ?d \<and> ?d < w + 7" by linarith
  next
    assume "w \<le> ?d \<and> ?d < w + 7"
    then show "reset_at z off w \<le> t \<and> t < reset_at z off (w + 7)"
      using d reset_at_mono [of w ?d off] reset_at_mono [of "?d + 1" "w + 7" off] by linarith
  qed
qed

lemma same_week:
  "week_start_day rd (reset_day_of (local_of z s) off) = week_start_day rd (reset_day_of (local_of z t) off)
   \<longleftrightarrow> (\<exists>w. (w + 4 - rd) mod 7 = 0 \<and> reset_at z off w \<le> s \<and> s < reset_at z off (w + 7)
         \<and> reset_at z off w \<le> t \<and> t < reset_at z off (w + 7))"
  (is "?W s = ?W t \<longleftrightarrow> ?R")
proof
  assume eq: "?W s = ?W t"
  have "reset_at z off (?W x) \<le> x \<and> x < reset_at z off (?W x + 7)" for x
    using week_start_day_props(2,3) week_day_range by blast
  from this [of s, unfolded eq] this [of t] week_start_day_props(1) [of rd "reset_day_of (local_of z t) off"]
  show ?R by (intro exI [of _ "?W t"] conjI) simp_all
next
  assume ?R
  then obtain w where w: "(w + 4 - rd) mod 7 = 0" and s: "reset_at z off w \<le> s" "s < reset_at z off (w + 7)"
    and t: "reset_at z off w \<le> t" "t < reset_at z off (w + 7)" by (elim exE conjE)
  from s week_day_range [of off w s] w have "?W s = w" by (intro week_start_day_unique) simp_all
  moreover from t week_day_range [of off w t] w have "?W t = w"
    by (intro week_start_day_unique) simp_all
  ultimately show "?W s = ?W t" by (simp only:)
qed

lemma same_week_start:
  assumes "reset_at z off (week_start_day rd d) \<le> t" "t < reset_at z off (week_start_day rd d + 7)"
  shows "week_start_day rd (reset_day_of (local_of z t) off) = week_start_day rd d"
  using week_day_range [of off "week_start_day rd d" t] assms
  by (intro week_start_day_unique week_start_day_props) simp_all

lemma week_of:
  "reset_at z off (week_start_day rd (reset_day_of (local_of z t) off)) \<le> t"
  "t < reset_at z off (week_start_day rd (reset_day_of (local_of z t) off) + 7)"
  using week_day_range [of off "week_start_day rd (reset_day_of (local_of z t) off)" t]
    week_start_day_props(2,3) by blast+

end

section \<open>Properties\<close>

text \<open>
  C13. Two moments are filed under the same daily key exactly when no daily reset lies between
  them: some day's reset is at or before both, and the next day's is after both.
\<close>

theorem daily_period_key_iff:
  assumes "steady_zone z"
  shows "daily_period_key z s hhmm = daily_period_key z t hhmm \<longleftrightarrow>
    (\<exists>d. reset_at z (reset_offset hhmm) d \<le> s \<and> s < reset_at z (reset_offset hhmm) (d + 1)
       \<and> reset_at z (reset_offset hhmm) d \<le> t \<and> t < reset_at z (reset_offset hhmm) (d + 1))"
  by (simp add: steady_zone.daily_period_key_eq [OF assms] steady_zone.same_reset_day [OF assms])

theorem daily_period_key_iff_witness:
  "daily_period_key kst 0 ''09:00'' = daily_period_key kst 1 ''09:00'' \<longleftrightarrow>
    (\<exists>d. reset_at kst (reset_offset ''09:00'') d \<le> 0 \<and> 0 < reset_at kst (reset_offset ''09:00'') (d + 1)
       \<and> reset_at kst (reset_offset ''09:00'') d \<le> 1 \<and> 1 < reset_at kst (reset_offset ''09:00'') (d + 1))"
  by (rule daily_period_key_iff [OF steady_kst])

text \<open>
  C14. With a reset day from Sunday (0) to Saturday (6), two moments share a weekly key exactly
  when both lie in the same week between two resets on that day of the week.
\<close>

theorem weekly_period_key_iff:
  assumes "steady_zone z" and "0 \<le> rd" and "rd \<le> 6"
  shows "weekly_period_key z s hhmm (num rd) = weekly_period_key z t hhmm (num rd) \<longleftrightarrow>
    (\<exists>w. (w + 4 - rd) mod 7 = 0
       \<and> reset_at z (reset_offset hhmm) w \<le> s \<and> s < reset_at z (reset_offset hhmm) (w + 7)
       \<and> reset_at z (reset_offset hhmm) w \<le> t \<and> t < reset_at z (reset_offset hhmm) (w + 7))"
  by (simp add: steady_zone.weekly_period_key_eq [OF assms] steady_zone.same_week [OF assms(1)])

theorem weekly_period_key_iff_witness:
  "weekly_period_key kst 0 ''09:00'' (num 1) = weekly_period_key kst 5 ''09:00'' (num 1) \<longleftrightarrow>
    (\<exists>w. (w + 4 - 1) mod 7 = 0
       \<and> reset_at kst (reset_offset ''09:00'') w \<le> 0 \<and> 0 < reset_at kst (reset_offset ''09:00'') (w + 7)
       \<and> reset_at kst (reset_offset ''09:00'') w \<le> 5 \<and> 5 < reset_at kst (reset_offset ''09:00'') (w + 7))"
  by (rule weekly_period_key_iff [OF steady_kst]) simp_all

text \<open>
  C15. In a zone with a constant offset, the renderer's countdown to the next daily reset agrees with the main process:
  the target is in the future, the daily key stays the same until it, and changes at it. In a zone with daylight saving
  time the two can disagree, as the lemma \<open>countdown_misses_reset_after_gap\<close> below shows.
\<close>

theorem next_daily_reset_changes_key:
  assumes "steady_zone z"
  shows "now < next_daily_reset_at z now hhmm
    \<and> (\<forall>t \<in> {now..<next_daily_reset_at z now hhmm}.
         daily_period_key z t hhmm = daily_period_key z now hhmm)
    \<and> daily_period_key z (next_daily_reset_at z now hhmm) hhmm \<noteq> daily_period_key z now hhmm"
proof -
  let ?off = "reset_offset hhmm"
  let ?d = "reset_day_of (local_of z now) ?off"
  note eqs = steady_zone.daily_period_key_eq [OF assms] steady_zone.next_daily_reset_at_eq [OF assms]
  note day = steady_zone.reset_day_of_iff [OF assms]
  have now: "reset_at z ?off ?d \<le> now" "now < reset_at z ?off (?d + 1)"
    using day [of now ?off ?d] by simp_all
  have keep: "reset_day_of (local_of z t) ?off = ?d" if "now \<le> t" "t < reset_at z ?off (?d + 1)" for t
    using day [of t ?off ?d] now that by simp
  note next_day = steady_zone.reset_day_of_reset_at [OF assms]
  show ?thesis using now by (simp add: eqs next_day) (intro ballI keep; simp)
qed

theorem next_daily_reset_changes_key_witness:
  "0 < next_daily_reset_at kst 0 ''09:00''
    \<and> daily_period_key kst (next_daily_reset_at kst 0 ''09:00'') ''09:00'' \<noteq> daily_period_key kst 0 ''09:00''"
  using next_daily_reset_changes_key [OF steady_kst, of 0 "''09:00''"] by blast

text \<open>
  Without a constant offset the agreement is lost. In the zone below the clocks go from 02:00 to 03:00 on the first day,
  so a reset at 02:30 falls into the gap on that day and is moved to 03:30. At noon of that day \<open>nextDailyResetAt\<close> adds a
  day to this moved reset and announces 03:30 of the next day, while the daily key changes an hour earlier, at 02:30.
\<close>

definition spring_zone :: zone where
  "spring_zone = \<lparr>local_of = (\<lambda>t. if t < 2 * 3600000 then t else t + 3600000),
     utc_of = (\<lambda>l. if l < 3 * 3600000 then l else l - 3600000)\<rparr>"

lemma half_past_two: "parse_hhmm ''02:30'' = (2, 30)"
  by (simp add: parse_hhmm_def trim_graphic graphic_def is_digit_def read_nat_def digit_val_def)

lemma countdown_misses_reset_after_gap:
  "next_daily_reset_at spring_zone (12 * 3600000) ''02:30'' = ms_per_day + 2 * 3600000 + 30 * 60000"
  "daily_period_key spring_zone (12 * 3600000) ''02:30'' = ''D:'' @ date_key 0"
  "daily_period_key spring_zone (ms_per_day + 3600000 + 30 * 60000) ''02:30'' = ''D:'' @ date_key 1"
  using shift_date_int [of spring_zone 1] half_past_two
  by (simp_all add: next_daily_reset_at_def daily_period_key_def Let_def case_prod_beta renderer_parse_hhmm_eq
      set_hours_def spring_zone_def format_local_date_key_def day_of_def time_within_day_def ms_per_day_def)

text \<open>
  C16. The loot report and the planner mean the same week. In a zone with a constant offset the report starts at the weekly
  reset that started the planner's week: it lies on the reset day at the reset time, at or before now; every moment from
  it until now has the planner's weekly key of now, and every moment before it has another one.
\<close>

theorem report_week_is_planner_week:
  assumes "steady_zone z" and "0 \<le> rd" and "rd \<le> 6"
  shows "resolve_weekly_start_local z now hhmm (num rd) \<le> now
    \<and> (\<exists>w. (w + 4 - rd) mod 7 = 0 \<and> resolve_weekly_start_local z now hhmm (num rd) = reset_at z (reset_offset hhmm) w)
    \<and> (\<forall>t \<in> {resolve_weekly_start_local z now hhmm (num rd)..now}.
         weekly_period_key z t hhmm (num rd) = weekly_period_key z now hhmm (num rd))
    \<and> (\<forall>t < resolve_weekly_start_local z now hhmm (num rd).
         weekly_period_key z t hhmm (num rd) \<noteq> weekly_period_key z now hhmm (num rd))"
proof -
  let ?off = "reset_offset hhmm"
  let ?W = "\<lambda>t. week_start_day rd (reset_day_of (local_of z t) ?off)"
  note w = steady_zone.week_of [OF assms(1), where off = ?off and rd = rd and t = now]
  have same_week: "?W t = ?W now" if "reset_at z ?off (?W now) \<le> t" "t \<le> now" for t
    using that w by (intro steady_zone.same_week_start [OF assms(1)]) linarith+
  have other_week: "?W t \<noteq> ?W now" if "t < reset_at z ?off (?W now)" for t
    using that steady_zone.week_of(1) [OF assms(1), of ?off rd t] by (intro notI) simp
  note eqs = steady_zone.weekly_start_eq [OF assms] steady_zone.weekly_period_key_eq [OF assms]
  have "(?W now + 4 - rd) mod 7 = 0" by (rule week_start_day_props(1))
  moreover have "\<forall>t \<in> {reset_at z ?off (?W now)..now}. ''W:'' @ date_key (?W t) = ''W:'' @ date_key (?W now)"
    by (intro ballI) (simp only: atLeastAtMost_iff same_week)
  moreover have "\<forall>t < reset_at z ?off (?W now). ''W:'' @ date_key (?W t) \<noteq> ''W:'' @ date_key (?W now)"
    by (intro allI impI) (simp only: append_same_eq same_append_eq date_key_inj other_week not_False_eq_True)
  ultimately show ?thesis unfolding eqs by (intro conjI w(1) exI [of _ "?W now"] refl)
qed

theorem report_week_is_planner_week_witness:
  "resolve_weekly_start_local kst 1000 ''09:00'' (num 1) \<le> 1000"
proof -
  have day: "(0 :: int) \<le> 1" "(1 :: int) \<le> 6" by simp_all
  from report_week_is_planner_week [OF steady_kst day, of 1000 "''09:00''"] show ?thesis by (elim conjE)
qed

text \<open>
  The web planner's weekly countdown agrees with its weekly key: for a reset hour from 0 to 23
  the target is in the future, the key stays the same until it and changes at it.
\<close>

theorem web_weekly_reset_changes_key:
  assumes "steady_zone z" and "0 \<le> h" and "h \<le> 23"
  shows "now < get_next_weekly_reset_at z now rd h
    \<and> (\<forall>t \<in> {now..<get_next_weekly_reset_at z now rd h}.
         get_weekly_period_key z t rd h = get_weekly_period_key z now rd h)
    \<and> get_weekly_period_key z (get_next_weekly_reset_at z now rd h) rd h \<noteq> get_weekly_period_key z now rd h"
proof -
  let ?off = "h * 3600000"
  let ?W = "\<lambda>t. week_start_day rd (reset_day_of (local_of z t) ?off)"
  note eqs = steady_zone.get_weekly_period_key_eq [OF assms(1)]
    steady_zone.get_next_weekly_reset_at_eq [OF assms]
  note w = steady_zone.week_of [OF assms(1), where off = ?off and rd = rd and t = now]
  have keep: "?W t = ?W now" if "now \<le> t" "t < reset_at z ?off (?W now + 7)" for t
    using that w by (intro steady_zone.same_week_start [OF assms(1)]) linarith+
  have "?W (reset_at z ?off (?W now + 7)) \<noteq> ?W now"
    using week_start_day_props(3) [of "?W now + 7" rd]
    unfolding steady_zone.reset_day_of_reset_at [OF assms(1)] by linarith
  with w(2) show ?thesis by (simp add: eqs) (intro ballI keep; simp)
qed

theorem web_weekly_reset_changes_key_witness:
  "0 < get_next_weekly_reset_at kst 0 1 6
    \<and> get_weekly_period_key kst (get_next_weekly_reset_at kst 0 1 6) 1 6 \<noteq> get_weekly_period_key kst 0 1 6"
proof -
  have h: "(0 :: int) \<le> 6" "(6 :: int) \<le> 23" by simp_all
  from web_weekly_reset_changes_key [OF steady_kst h, of 0 1] show ?thesis by (elim conjE) (rule conjI)
qed

end
