(* ===== verification/Schema.thy ===== *)
theory Schema
  imports Period
begin

text \<open>
  The SQLite database of the desktop app, as \<open>main/storage/schema.ts\<close> declares it: one
  record per table row, the database as one record of tables, and the statements that the code
  runs. A table is the list of its rows in insertion order. Every statement checks what the
  schema declares: primary keys and UNIQUE, the CHECK lists (by the datatypes), and foreign keys
  with their ON DELETE actions. Foreign keys are only enforced while the connection's
  \<open>foreign_keys\<close> pragma is on, which is a field of the state.
\<close>

section \<open>Rows\<close>

datatype notice_source = NOTICE | UPDATE

datatype template_type = DAILY | WEEKLY | CHARGE

datatype watch_op = OpLt | OpLe | OpGt | OpGe

datatype cost_kind = KINAH | ITEM

record notice_item_row =
  ni_id :: string
  ni_source :: notice_source
  ni_external_id :: string
  ni_url :: string
  ni_title :: string
  ni_published_at :: "string option"
  ni_created_at :: string
  ni_updated_at :: string

record notice_snapshot_row =
  ns_id :: string
  ns_notice_item_id :: string
  ns_fetched_at :: string
  ns_content_hash :: string
  ns_normalized_text :: string

record notice_diff_row =
  nd_id :: string
  nd_notice_item_id :: string
  nd_from_snapshot_id :: string
  nd_to_snapshot_id :: string
  nd_diff_json :: jsval
  nd_created_at :: string

record app_setting_row =
  st_key :: string
  st_value :: string

record app_character_row =
  ch_id :: string
  ch_name :: string
  ch_server :: "string option"
  ch_class :: "string option"
  ch_created_at :: string
  ch_updated_at :: string

record build_score_row =
  bs_character_id :: string
  bs_data_json :: jsval
  bs_updated_at :: string

record build_score_preset_row =
  bp_id :: string
  bp_character_id :: string
  bp_name :: string
  bp_description :: "string option"
  bp_stats_json :: jsval
  bp_created_at :: string
  bp_updated_at :: string

record planner_settings_row =
  ps_id :: string
  ps_daily_reset_hhmm :: string
  ps_weekly_reset_day :: jsnum
  ps_updated_at :: string

record planner_template_row =
  pt_id :: string
  pt_title :: string
  pt_type :: template_type
  pt_estimate_minutes :: jsnum
  pt_recharge_hours :: "jsnum option"
  pt_max_stacks :: "jsnum option"
  pt_created_at :: string
  pt_updated_at :: string

record planner_assignment_row =
  pa_id :: string
  pa_character_id :: string
  pa_template_id :: string
  pa_enabled :: bool
  pa_target_count :: "jsnum option"
  pa_created_at :: string
  pa_updated_at :: string

record planner_completion_row =
  pc_id :: string
  pc_character_id :: string
  pc_template_id :: string
  pc_period_key :: string
  pc_completed_at :: string

record planner_charge_use_row =
  pu_id :: string
  pu_character_id :: string
  pu_template_id :: string
  pu_used_at :: string

record planner_duration_row =
  pd_id :: string
  pd_character_id :: string
  pd_template_id :: "string option"
  pd_started_at :: string
  pd_ended_at :: string
  pd_seconds :: jsnum

record economy_item_row =
  ei_id :: string
  ei_name :: string
  ei_category :: "string option"
  ei_note :: "string option"
  ei_created_at :: string
  ei_updated_at :: string

record economy_price_row =
  ep_id :: string
  ep_server :: string
  ep_item_id :: string
  ep_price :: jsnum
  ep_recorded_at :: string
  ep_created_at :: string
  ep_updated_at :: string

record economy_price_watch_row =
  ew_id :: string
  ew_server :: string
  ew_item_id :: string
  ew_op :: watch_op
  ew_threshold :: jsnum
  ew_active :: bool
  ew_created_at :: string
  ew_updated_at :: string

record economy_alert_event_row =
  ea_id :: string
  ea_server :: string
  ea_item_id :: string
  ea_item_name :: string
  ea_op :: watch_op
  ea_threshold :: jsnum
  ea_price :: jsnum
  ea_triggered_at :: string
  ea_read_at :: "string option"

record loot_run_row =
  lr_id :: string
  lr_character_id :: string
  lr_server :: "string option"
  lr_content :: string
  lr_role :: "string option"
  lr_power_bracket :: "string option"
  lr_started_at :: "string option"
  lr_ended_at :: "string option"
  lr_seconds :: jsnum
  lr_created_at :: string
  lr_updated_at :: string

record loot_run_drop_row =
  ld_id :: string
  ld_run_id :: string
  ld_item_id :: "string option"
  ld_item_name :: string
  ld_qty :: jsnum
  ld_note :: "string option"
  ld_created_at :: string
  ld_updated_at :: string

record loot_run_cost_row =
  lc_id :: string
  lc_run_id :: string
  lc_kind :: cost_kind
  lc_item_id :: "string option"
  lc_item_name :: "string option"
  lc_qty :: jsnum
  lc_kinah :: jsnum
  lc_note :: "string option"
  lc_created_at :: string
  lc_updated_at :: string

section \<open>The database\<close>

text \<open>
  \<open>foreign_keys\<close> is the pragma of the open connection. \<open>export_keeps_pragmas\<close>
  describes the SQL library: whether \<open>Database.export\<close> leaves the connection's pragmas as
  they are. sql.js documents that it does not: it closes and reopens the database.
\<close>

record db =
  notice_item :: "notice_item_row list"
  notice_snapshot :: "notice_snapshot_row list"
  notice_diff :: "notice_diff_row list"
  app_setting :: "app_setting_row list"
  app_character :: "app_character_row list"
  build_score :: "build_score_row list"
  build_score_preset :: "build_score_preset_row list"
  planner_settings :: "planner_settings_row list"
  planner_template :: "planner_template_row list"
  planner_assignment :: "planner_assignment_row list"
  planner_completion :: "planner_completion_row list"
  planner_charge_use :: "planner_charge_use_row list"
  planner_duration :: "planner_duration_row list"
  economy_item :: "economy_item_row list"
  economy_price :: "economy_price_row list"
  economy_price_watch :: "economy_price_watch_row list"
  economy_alert_event :: "economy_alert_event_row list"
  loot_run :: "loot_run_row list"
  loot_run_drop :: "loot_run_drop_row list"
  loot_run_cost :: "loot_run_cost_row list"
  foreign_keys :: bool
  export_keeps_pragmas :: bool

text \<open>A fresh connection to a new file, after the schema script.\<close>

definition empty_db :: "bool \<Rightarrow> db" where
  "empty_db keeps_pragmas = \<lparr>
     notice_item = [],
     notice_snapshot = [],
     notice_diff = [],
     app_setting = [],
     app_character = [],
     build_score = [],
     build_score_preset = [],
     planner_settings = [],
     planner_template = [],
     planner_assignment = [],
     planner_completion = [],
     planner_charge_use = [],
     planner_duration = [],
     economy_item = [],
     economy_price = [],
     economy_price_watch = [],
     economy_alert_event = [],
     loot_run = [],
     loot_run_drop = [],
     loot_run_cost = [],
     foreign_keys = False, export_keeps_pragmas = keeps_pragmas\<rparr>"

section \<open>Keys and references\<close>

text \<open>Two rows clash when they agree on a primary key or on the columns of a UNIQUE constraint.\<close>

definition clash_notice_item :: "notice_item_row \<Rightarrow> notice_item_row \<Rightarrow> bool" where
  "clash_notice_item x y \<longleftrightarrow> ni_id x = ni_id y \<or> (ni_source x = ni_source y \<and> ni_external_id x = ni_external_id y)"

definition clash_notice_snapshot :: "notice_snapshot_row \<Rightarrow> notice_snapshot_row \<Rightarrow> bool" where
  "clash_notice_snapshot x y \<longleftrightarrow> ns_id x = ns_id y \<or> (ns_notice_item_id x = ns_notice_item_id y \<and> ns_content_hash x = ns_content_hash y)"

definition clash_notice_diff :: "notice_diff_row \<Rightarrow> notice_diff_row \<Rightarrow> bool" where
  "clash_notice_diff x y \<longleftrightarrow> nd_id x = nd_id y \<or> (nd_from_snapshot_id x = nd_from_snapshot_id y \<and> nd_to_snapshot_id x = nd_to_snapshot_id y)"

definition clash_app_setting :: "app_setting_row \<Rightarrow> app_setting_row \<Rightarrow> bool" where
  "clash_app_setting x y \<longleftrightarrow> st_key x = st_key y"

definition clash_app_character :: "app_character_row \<Rightarrow> app_character_row \<Rightarrow> bool" where
  "clash_app_character x y \<longleftrightarrow> ch_id x = ch_id y"

definition clash_build_score :: "build_score_row \<Rightarrow> build_score_row \<Rightarrow> bool" where
  "clash_build_score x y \<longleftrightarrow> bs_character_id x = bs_character_id y"

definition clash_build_score_preset :: "build_score_preset_row \<Rightarrow> build_score_preset_row \<Rightarrow> bool" where
  "clash_build_score_preset x y \<longleftrightarrow> bp_id x = bp_id y"

definition clash_planner_settings :: "planner_settings_row \<Rightarrow> planner_settings_row \<Rightarrow> bool" where
  "clash_planner_settings x y \<longleftrightarrow> ps_id x = ps_id y"

definition clash_planner_template :: "planner_template_row \<Rightarrow> planner_template_row \<Rightarrow> bool" where
  "clash_planner_template x y \<longleftrightarrow> pt_id x = pt_id y"

definition clash_planner_assignment :: "planner_assignment_row \<Rightarrow> planner_assignment_row \<Rightarrow> bool" where
  "clash_planner_assignment x y \<longleftrightarrow> pa_id x = pa_id y \<or> (pa_character_id x = pa_character_id y \<and> pa_template_id x = pa_template_id y)"

definition clash_planner_completion :: "planner_completion_row \<Rightarrow> planner_completion_row \<Rightarrow> bool" where
  "clash_planner_completion x y \<longleftrightarrow> pc_id x = pc_id y \<or> (pc_character_id x = pc_character_id y \<and> pc_template_id x = pc_template_id y \<and> pc_period_key x = pc_period_key y)"

definition clash_planner_charge_use :: "planner_charge_use_row \<Rightarrow> planner_charge_use_row \<Rightarrow> bool" where
  "clash_planner_charge_use x y \<longleftrightarrow> pu_id x = pu_id y"

definition clash_planner_duration :: "planner_duration_row \<Rightarrow> planner_duration_row \<Rightarrow> bool" where
  "clash_planner_duration x y \<longleftrightarrow> pd_id x = pd_id y"

definition clash_economy_item :: "economy_item_row \<Rightarrow> economy_item_row \<Rightarrow> bool" where
  "clash_economy_item x y \<longleftrightarrow> ei_id x = ei_id y \<or> ei_name x = ei_name y"

definition clash_economy_price :: "economy_price_row \<Rightarrow> economy_price_row \<Rightarrow> bool" where
  "clash_economy_price x y \<longleftrightarrow> ep_id x = ep_id y"

definition clash_economy_price_watch :: "economy_price_watch_row \<Rightarrow> economy_price_watch_row \<Rightarrow> bool" where
  "clash_economy_price_watch x y \<longleftrightarrow> ew_id x = ew_id y"

definition clash_economy_alert_event :: "economy_alert_event_row \<Rightarrow> economy_alert_event_row \<Rightarrow> bool" where
  "clash_economy_alert_event x y \<longleftrightarrow> ea_id x = ea_id y"

definition clash_loot_run :: "loot_run_row \<Rightarrow> loot_run_row \<Rightarrow> bool" where
  "clash_loot_run x y \<longleftrightarrow> lr_id x = lr_id y"

definition clash_loot_run_drop :: "loot_run_drop_row \<Rightarrow> loot_run_drop_row \<Rightarrow> bool" where
  "clash_loot_run_drop x y \<longleftrightarrow> ld_id x = ld_id y"

definition clash_loot_run_cost :: "loot_run_cost_row \<Rightarrow> loot_run_cost_row \<Rightarrow> bool" where
  "clash_loot_run_cost x y \<longleftrightarrow> lc_id x = lc_id y"

text \<open>The parent rows that a row names exist.\<close>

definition has_id :: "('r \<Rightarrow> string) \<Rightarrow> string \<Rightarrow> 'r list \<Rightarrow> bool" where
  "has_id key i t \<longleftrightarrow> list_ex (\<lambda>r. key r = i) t"

definition has_id_opt :: "('r \<Rightarrow> string) \<Rightarrow> string option \<Rightarrow> 'r list \<Rightarrow> bool" where
  "has_id_opt key v t \<longleftrightarrow> (case v of None \<Rightarrow> True | Some i \<Rightarrow> has_id key i t)"

definition refs_notice_item :: "db \<Rightarrow> notice_item_row \<Rightarrow> bool" where
  "refs_notice_item d x \<longleftrightarrow> True"

definition refs_notice_snapshot :: "db \<Rightarrow> notice_snapshot_row \<Rightarrow> bool" where
  "refs_notice_snapshot d x \<longleftrightarrow> has_id ni_id (ns_notice_item_id x) (notice_item d)"

definition refs_notice_diff :: "db \<Rightarrow> notice_diff_row \<Rightarrow> bool" where
  "refs_notice_diff d x \<longleftrightarrow> has_id ni_id (nd_notice_item_id x) (notice_item d) \<and> has_id ns_id (nd_from_snapshot_id x) (notice_snapshot d) \<and> has_id ns_id (nd_to_snapshot_id x) (notice_snapshot d)"

definition refs_app_setting :: "db \<Rightarrow> app_setting_row \<Rightarrow> bool" where
  "refs_app_setting d x \<longleftrightarrow> True"

definition refs_app_character :: "db \<Rightarrow> app_character_row \<Rightarrow> bool" where
  "refs_app_character d x \<longleftrightarrow> True"

definition refs_build_score :: "db \<Rightarrow> build_score_row \<Rightarrow> bool" where
  "refs_build_score d x \<longleftrightarrow> has_id ch_id (bs_character_id x) (app_character d)"

definition refs_build_score_preset :: "db \<Rightarrow> build_score_preset_row \<Rightarrow> bool" where
  "refs_build_score_preset d x \<longleftrightarrow> has_id ch_id (bp_character_id x) (app_character d)"

definition refs_planner_settings :: "db \<Rightarrow> planner_settings_row \<Rightarrow> bool" where
  "refs_planner_settings d x \<longleftrightarrow> True"

definition refs_planner_template :: "db \<Rightarrow> planner_template_row \<Rightarrow> bool" where
  "refs_planner_template d x \<longleftrightarrow> True"

definition refs_planner_assignment :: "db \<Rightarrow> planner_assignment_row \<Rightarrow> bool" where
  "refs_planner_assignment d x \<longleftrightarrow> has_id ch_id (pa_character_id x) (app_character d) \<and> has_id pt_id (pa_template_id x) (planner_template d)"

definition refs_planner_completion :: "db \<Rightarrow> planner_completion_row \<Rightarrow> bool" where
  "refs_planner_completion d x \<longleftrightarrow> has_id ch_id (pc_character_id x) (app_character d) \<and> has_id pt_id (pc_template_id x) (planner_template d)"

definition refs_planner_charge_use :: "db \<Rightarrow> planner_charge_use_row \<Rightarrow> bool" where
  "refs_planner_charge_use d x \<longleftrightarrow> has_id ch_id (pu_character_id x) (app_character d) \<and> has_id pt_id (pu_template_id x) (planner_template d)"

definition refs_planner_duration :: "db \<Rightarrow> planner_duration_row \<Rightarrow> bool" where
  "refs_planner_duration d x \<longleftrightarrow> has_id ch_id (pd_character_id x) (app_character d) \<and> has_id_opt pt_id (pd_template_id x) (planner_template d)"

definition refs_economy_item :: "db \<Rightarrow> economy_item_row \<Rightarrow> bool" where
  "refs_economy_item d x \<longleftrightarrow> True"

definition refs_economy_price :: "db \<Rightarrow> economy_price_row \<Rightarrow> bool" where
  "refs_economy_price d x \<longleftrightarrow> has_id ei_id (ep_item_id x) (economy_item d)"

definition refs_economy_price_watch :: "db \<Rightarrow> economy_price_watch_row \<Rightarrow> bool" where
  "refs_economy_price_watch d x \<longleftrightarrow> has_id ei_id (ew_item_id x) (economy_item d)"

definition refs_economy_alert_event :: "db \<Rightarrow> economy_alert_event_row \<Rightarrow> bool" where
  "refs_economy_alert_event d x \<longleftrightarrow> has_id ei_id (ea_item_id x) (economy_item d)"

definition refs_loot_run :: "db \<Rightarrow> loot_run_row \<Rightarrow> bool" where
  "refs_loot_run d x \<longleftrightarrow> has_id ch_id (lr_character_id x) (app_character d)"

definition refs_loot_run_drop :: "db \<Rightarrow> loot_run_drop_row \<Rightarrow> bool" where
  "refs_loot_run_drop d x \<longleftrightarrow> has_id lr_id (ld_run_id x) (loot_run d) \<and> has_id_opt ei_id (ld_item_id x) (economy_item d)"

definition refs_loot_run_cost :: "db \<Rightarrow> loot_run_cost_row \<Rightarrow> bool" where
  "refs_loot_run_cost d x \<longleftrightarrow> has_id lr_id (lc_run_id x) (loot_run d) \<and> has_id_opt ei_id (lc_item_id x) (economy_item d)"

section \<open>Statements\<close>

text \<open>
  DELETE. While foreign keys are enforced, the rows that name a deleted row go with it (ON
  DELETE CASCADE) or forget it (ON DELETE SET NULL).
\<close>

definition drop_where :: "('r \<Rightarrow> bool) \<Rightarrow> 'r list \<Rightarrow> 'r list" where
  "drop_where P t = filter (\<lambda>r. \<not> P r) t"

definition forget :: "(('v option \<Rightarrow> 'v option) \<Rightarrow> 'r \<Rightarrow> 'r) \<Rightarrow> ('v \<Rightarrow> bool) \<Rightarrow> 'r list \<Rightarrow> 'r list" where
  "forget upd gone t =
     map (upd (\<lambda>v. case v of None \<Rightarrow> None | Some i \<Rightarrow> if gone i then None else Some i)) t"

definition ids_where :: "('r \<Rightarrow> string) \<Rightarrow> ('r \<Rightarrow> bool) \<Rightarrow> 'r list \<Rightarrow> string \<Rightarrow> bool" where
  "ids_where key P t i \<longleftrightarrow> list_ex (\<lambda>r. P r \<and> key r = i) t"

definition delete_notice_diff :: "(notice_diff_row \<Rightarrow> bool) \<Rightarrow> db \<Rightarrow> db" where
  "delete_notice_diff P d = d\<lparr>notice_diff := drop_where P (notice_diff d)\<rparr>"

definition delete_app_setting :: "(app_setting_row \<Rightarrow> bool) \<Rightarrow> db \<Rightarrow> db" where
  "delete_app_setting P d = d\<lparr>app_setting := drop_where P (app_setting d)\<rparr>"

definition delete_build_score :: "(build_score_row \<Rightarrow> bool) \<Rightarrow> db \<Rightarrow> db" where
  "delete_build_score P d = d\<lparr>build_score := drop_where P (build_score d)\<rparr>"

definition delete_build_score_preset :: "(build_score_preset_row \<Rightarrow> bool) \<Rightarrow> db \<Rightarrow> db" where
  "delete_build_score_preset P d = d\<lparr>build_score_preset := drop_where P (build_score_preset d)\<rparr>"

definition delete_planner_settings :: "(planner_settings_row \<Rightarrow> bool) \<Rightarrow> db \<Rightarrow> db" where
  "delete_planner_settings P d = d\<lparr>planner_settings := drop_where P (planner_settings d)\<rparr>"

definition delete_planner_assignment :: "(planner_assignment_row \<Rightarrow> bool) \<Rightarrow> db \<Rightarrow> db" where
  "delete_planner_assignment P d = d\<lparr>planner_assignment := drop_where P (planner_assignment d)\<rparr>"

definition delete_planner_completion :: "(planner_completion_row \<Rightarrow> bool) \<Rightarrow> db \<Rightarrow> db" where
  "delete_planner_completion P d = d\<lparr>planner_completion := drop_where P (planner_completion d)\<rparr>"

definition delete_planner_charge_use :: "(planner_charge_use_row \<Rightarrow> bool) \<Rightarrow> db \<Rightarrow> db" where
  "delete_planner_charge_use P d = d\<lparr>planner_charge_use := drop_where P (planner_charge_use d)\<rparr>"

definition delete_planner_duration :: "(planner_duration_row \<Rightarrow> bool) \<Rightarrow> db \<Rightarrow> db" where
  "delete_planner_duration P d = d\<lparr>planner_duration := drop_where P (planner_duration d)\<rparr>"

definition delete_economy_price :: "(economy_price_row \<Rightarrow> bool) \<Rightarrow> db \<Rightarrow> db" where
  "delete_economy_price P d = d\<lparr>economy_price := drop_where P (economy_price d)\<rparr>"

definition delete_economy_price_watch :: "(economy_price_watch_row \<Rightarrow> bool) \<Rightarrow> db \<Rightarrow> db" where
  "delete_economy_price_watch P d = d\<lparr>economy_price_watch := drop_where P (economy_price_watch d)\<rparr>"

definition delete_economy_alert_event :: "(economy_alert_event_row \<Rightarrow> bool) \<Rightarrow> db \<Rightarrow> db" where
  "delete_economy_alert_event P d = d\<lparr>economy_alert_event := drop_where P (economy_alert_event d)\<rparr>"

definition delete_loot_run_drop :: "(loot_run_drop_row \<Rightarrow> bool) \<Rightarrow> db \<Rightarrow> db" where
  "delete_loot_run_drop P d = d\<lparr>loot_run_drop := drop_where P (loot_run_drop d)\<rparr>"

definition delete_loot_run_cost :: "(loot_run_cost_row \<Rightarrow> bool) \<Rightarrow> db \<Rightarrow> db" where
  "delete_loot_run_cost P d = d\<lparr>loot_run_cost := drop_where P (loot_run_cost d)\<rparr>"

definition delete_loot_run :: "(loot_run_row \<Rightarrow> bool) \<Rightarrow> db \<Rightarrow> db" where
  "delete_loot_run P d =
     (let gone = ids_where lr_id P (loot_run d); d1 = d\<lparr>loot_run := drop_where P (loot_run d)\<rparr>
      in if foreign_keys d then d1
           \<lparr>loot_run_drop := drop_where (\<lambda>r. gone (ld_run_id r)) (loot_run_drop d),
            loot_run_cost := drop_where (\<lambda>r. gone (lc_run_id r)) (loot_run_cost d)\<rparr> else d1)"

definition delete_app_character :: "(app_character_row \<Rightarrow> bool) \<Rightarrow> db \<Rightarrow> db" where
  "delete_app_character P d =
     (let gone = ids_where ch_id P (app_character d); d1 = d\<lparr>app_character := drop_where P (app_character d)\<rparr>
      in if foreign_keys d then delete_loot_run (\<lambda>r. gone (lr_character_id r)) (d1
           \<lparr>build_score := drop_where (\<lambda>r. gone (bs_character_id r)) (build_score d),
            build_score_preset := drop_where (\<lambda>r. gone (bp_character_id r)) (build_score_preset d),
            planner_assignment := drop_where (\<lambda>r. gone (pa_character_id r)) (planner_assignment d),
            planner_completion := drop_where (\<lambda>r. gone (pc_character_id r)) (planner_completion d),
            planner_charge_use := drop_where (\<lambda>r. gone (pu_character_id r)) (planner_charge_use d),
            planner_duration := drop_where (\<lambda>r. gone (pd_character_id r)) (planner_duration d)\<rparr>) else d1)"

definition delete_planner_template :: "(planner_template_row \<Rightarrow> bool) \<Rightarrow> db \<Rightarrow> db" where
  "delete_planner_template P d =
     (let gone = ids_where pt_id P (planner_template d); d1 = d\<lparr>planner_template := drop_where P (planner_template d)\<rparr>
      in if foreign_keys d then d1
           \<lparr>planner_assignment := drop_where (\<lambda>r. gone (pa_template_id r)) (planner_assignment d),
            planner_completion := drop_where (\<lambda>r. gone (pc_template_id r)) (planner_completion d),
            planner_charge_use := drop_where (\<lambda>r. gone (pu_template_id r)) (planner_charge_use d),
            planner_duration := forget pd_template_id_update gone (planner_duration d)\<rparr> else d1)"

definition delete_economy_item :: "(economy_item_row \<Rightarrow> bool) \<Rightarrow> db \<Rightarrow> db" where
  "delete_economy_item P d =
     (let gone = ids_where ei_id P (economy_item d); d1 = d\<lparr>economy_item := drop_where P (economy_item d)\<rparr>
      in if foreign_keys d then d1
           \<lparr>economy_price := drop_where (\<lambda>r. gone (ep_item_id r)) (economy_price d),
            economy_price_watch := drop_where (\<lambda>r. gone (ew_item_id r)) (economy_price_watch d),
            economy_alert_event := drop_where (\<lambda>r. gone (ea_item_id r)) (economy_alert_event d),
            loot_run_drop := forget ld_item_id_update gone (loot_run_drop d),
            loot_run_cost := forget lc_item_id_update gone (loot_run_cost d)\<rparr> else d1)"

text \<open>
  INSERT, with its conflict clause: plain INSERT fails on a clash, INSERT OR IGNORE skips the
  row, INSERT OR REPLACE deletes the rows it clashes with (their ON DELETE actions included).
\<close>

datatype on_conflict = Abort | Ignore | Replace

definition insert_into ::
  "('r \<Rightarrow> 'r \<Rightarrow> bool) \<Rightarrow> (db \<Rightarrow> 'r \<Rightarrow> bool) \<Rightarrow> (db \<Rightarrow> 'r list) \<Rightarrow>
   (('r list \<Rightarrow> 'r list) \<Rightarrow> db \<Rightarrow> db) \<Rightarrow> (('r \<Rightarrow> bool) \<Rightarrow> db \<Rightarrow> db) \<Rightarrow>
   on_conflict \<Rightarrow> 'r \<Rightarrow> (db, unit) op" where
  "insert_into clash refs get put del mode r d =
     (let clashes = list_ex (\<lambda>x. clash x r) (get d)
      in if clashes \<and> mode = Abort then (Inl (Constraint ''UNIQUE''), d)
         else if clashes \<and> mode = Ignore then (Inr (), d)
         else (let d1 = (if clashes then del (\<lambda>x. clash x r) d else d)
               in if foreign_keys d \<and> \<not> refs d1 r then (Inl (Constraint ''FOREIGN KEY''), d)
                  else (Inr (), put (\<lambda>t. t @ [r]) d1)))"

definition insert_notice_item :: "notice_item_row \<Rightarrow> (db, unit) op" where
  "insert_notice_item = insert_into clash_notice_item refs_notice_item notice_item notice_item_update (\<lambda>_ d. d) Abort"

definition insert_notice_snapshot :: "notice_snapshot_row \<Rightarrow> (db, unit) op" where
  "insert_notice_snapshot = insert_into clash_notice_snapshot refs_notice_snapshot notice_snapshot notice_snapshot_update (\<lambda>_ d. d) Abort"

definition insert_notice_diff :: "on_conflict \<Rightarrow> notice_diff_row \<Rightarrow> (db, unit) op" where
  "insert_notice_diff = insert_into clash_notice_diff refs_notice_diff notice_diff notice_diff_update delete_notice_diff"

definition insert_app_setting :: "on_conflict \<Rightarrow> app_setting_row \<Rightarrow> (db, unit) op" where
  "insert_app_setting = insert_into clash_app_setting refs_app_setting app_setting app_setting_update delete_app_setting"

definition insert_app_character :: "on_conflict \<Rightarrow> app_character_row \<Rightarrow> (db, unit) op" where
  "insert_app_character = insert_into clash_app_character refs_app_character app_character app_character_update delete_app_character"

definition insert_build_score :: "on_conflict \<Rightarrow> build_score_row \<Rightarrow> (db, unit) op" where
  "insert_build_score = insert_into clash_build_score refs_build_score build_score build_score_update delete_build_score"

definition insert_build_score_preset :: "on_conflict \<Rightarrow> build_score_preset_row \<Rightarrow> (db, unit) op" where
  "insert_build_score_preset = insert_into clash_build_score_preset refs_build_score_preset build_score_preset build_score_preset_update delete_build_score_preset"

definition insert_planner_settings :: "on_conflict \<Rightarrow> planner_settings_row \<Rightarrow> (db, unit) op" where
  "insert_planner_settings = insert_into clash_planner_settings refs_planner_settings planner_settings planner_settings_update delete_planner_settings"

definition insert_planner_template :: "on_conflict \<Rightarrow> planner_template_row \<Rightarrow> (db, unit) op" where
  "insert_planner_template = insert_into clash_planner_template refs_planner_template planner_template planner_template_update delete_planner_template"

definition insert_planner_assignment :: "on_conflict \<Rightarrow> planner_assignment_row \<Rightarrow> (db, unit) op" where
  "insert_planner_assignment = insert_into clash_planner_assignment refs_planner_assignment planner_assignment planner_assignment_update delete_planner_assignment"

definition insert_planner_completion :: "on_conflict \<Rightarrow> planner_completion_row \<Rightarrow> (db, unit) op" where
  "insert_planner_completion = insert_into clash_planner_completion refs_planner_completion planner_completion planner_completion_update delete_planner_completion"

definition insert_planner_charge_use :: "on_conflict \<Rightarrow> planner_charge_use_row \<Rightarrow> (db, unit) op" where
  "insert_planner_charge_use = insert_into clash_planner_charge_use refs_planner_charge_use planner_charge_use planner_charge_use_update delete_planner_charge_use"

definition insert_planner_duration :: "on_conflict \<Rightarrow> planner_duration_row \<Rightarrow> (db, unit) op" where
  "insert_planner_duration = insert_into clash_planner_duration refs_planner_duration planner_duration planner_duration_update delete_planner_duration"

definition insert_economy_item :: "on_conflict \<Rightarrow> economy_item_row \<Rightarrow> (db, unit) op" where
  "insert_economy_item = insert_into clash_economy_item refs_economy_item economy_item economy_item_update delete_economy_item"

definition insert_economy_price :: "on_conflict \<Rightarrow> economy_price_row \<Rightarrow> (db, unit) op" where
  "insert_economy_price = insert_into clash_economy_price refs_economy_price economy_price economy_price_update delete_economy_price"

definition insert_economy_price_watch :: "on_conflict \<Rightarrow> economy_price_watch_row \<Rightarrow> (db, unit) op" where
  "insert_economy_price_watch = insert_into clash_economy_price_watch refs_economy_price_watch economy_price_watch economy_price_watch_update delete_economy_price_watch"

definition insert_economy_alert_event :: "on_conflict \<Rightarrow> economy_alert_event_row \<Rightarrow> (db, unit) op" where
  "insert_economy_alert_event = insert_into clash_economy_alert_event refs_economy_alert_event economy_alert_event economy_alert_event_update delete_economy_alert_event"

definition insert_loot_run :: "on_conflict \<Rightarrow> loot_run_row \<Rightarrow> (db, unit) op" where
  "insert_loot_run = insert_into clash_loot_run refs_loot_run loot_run loot_run_update delete_loot_run"

definition insert_loot_run_drop :: "on_conflict \<Rightarrow> loot_run_drop_row \<Rightarrow> (db, unit) op" where
  "insert_loot_run_drop = insert_into clash_loot_run_drop refs_loot_run_drop loot_run_drop loot_run_drop_update delete_loot_run_drop"

definition insert_loot_run_cost :: "on_conflict \<Rightarrow> loot_run_cost_row \<Rightarrow> (db, unit) op" where
  "insert_loot_run_cost = insert_into clash_loot_run_cost refs_loot_run_cost loot_run_cost loot_run_cost_update delete_loot_run_cost"

text \<open>UPDATE of columns that no constraint mentions.\<close>

definition update_where :: "('r \<Rightarrow> bool) \<Rightarrow> ('r \<Rightarrow> 'r) \<Rightarrow> 'r list \<Rightarrow> 'r list" where
  "update_where P f t = map (\<lambda>r. if P r then f r else r) t"

text \<open>UPDATE of \<open>economy_item.name\<close>, which is UNIQUE.\<close>

definition update_economy_item ::
  "string \<Rightarrow> (economy_item_row \<Rightarrow> economy_item_row) \<Rightarrow> (db, unit) op" where
  "update_economy_item i f d =
     (let rows = economy_item d; new = map f (filter (\<lambda>r. ei_id r = i) rows)
      in if list_ex (\<lambda>x. ei_id x \<noteq> i \<and> list_ex (\<lambda>n. ei_name n = ei_name x) new) rows
         then (Inl (Constraint ''UNIQUE''), d)
         else (Inr (), d\<lparr>economy_item := update_where (\<lambda>r. ei_id r = i) f rows\<rparr>))"

text \<open>What \<open>persist\<close> does to the connection: \<open>export\<close> may reset the pragmas.\<close>

definition export_effect :: "db \<Rightarrow> db" where
  "export_effect d = d\<lparr>foreign_keys := foreign_keys d \<and> export_keeps_pragmas d\<rparr>"

definition persist :: "(db, unit) op" where
  "persist = modify export_effect"

section \<open>Invariants of the schema\<close>

definition uniq :: "('r \<Rightarrow> 'r \<Rightarrow> bool) \<Rightarrow> 'r list \<Rightarrow> bool" where
  "uniq clash t \<longleftrightarrow> sorted_wrt (\<lambda>x y. \<not> clash x y) t"

text \<open>Primary keys and UNIQUE constraints hold in every table.\<close>

definition keys_ok :: "db \<Rightarrow> bool" where
  "keys_ok d \<longleftrightarrow>
     uniq clash_notice_item (notice_item d)
     \<and> uniq clash_notice_snapshot (notice_snapshot d)
     \<and> uniq clash_notice_diff (notice_diff d)
     \<and> uniq clash_app_setting (app_setting d)
     \<and> uniq clash_app_character (app_character d)
     \<and> uniq clash_build_score (build_score d)
     \<and> uniq clash_build_score_preset (build_score_preset d)
     \<and> uniq clash_planner_settings (planner_settings d)
     \<and> uniq clash_planner_template (planner_template d)
     \<and> uniq clash_planner_assignment (planner_assignment d)
     \<and> uniq clash_planner_completion (planner_completion d)
     \<and> uniq clash_planner_charge_use (planner_charge_use d)
     \<and> uniq clash_planner_duration (planner_duration d)
     \<and> uniq clash_economy_item (economy_item d)
     \<and> uniq clash_economy_price (economy_price d)
     \<and> uniq clash_economy_price_watch (economy_price_watch d)
     \<and> uniq clash_economy_alert_event (economy_alert_event d)
     \<and> uniq clash_loot_run (loot_run d)
     \<and> uniq clash_loot_run_drop (loot_run_drop d)
     \<and> uniq clash_loot_run_cost (loot_run_cost d)"

text \<open>Every foreign key names an existing row.\<close>

definition refs_ok :: "db \<Rightarrow> bool" where
  "refs_ok d \<longleftrightarrow>
     list_all (refs_notice_snapshot d) (notice_snapshot d)
     \<and> list_all (refs_notice_diff d) (notice_diff d)
     \<and> list_all (refs_build_score d) (build_score d)
     \<and> list_all (refs_build_score_preset d) (build_score_preset d)
     \<and> list_all (refs_planner_assignment d) (planner_assignment d)
     \<and> list_all (refs_planner_completion d) (planner_completion d)
     \<and> list_all (refs_planner_charge_use d) (planner_charge_use d)
     \<and> list_all (refs_planner_duration d) (planner_duration d)
     \<and> list_all (refs_economy_price d) (economy_price d)
     \<and> list_all (refs_economy_price_watch d) (economy_price_watch d)
     \<and> list_all (refs_economy_alert_event d) (economy_alert_event d)
     \<and> list_all (refs_loot_run d) (loot_run d)
     \<and> list_all (refs_loot_run_drop d) (loot_run_drop d)
     \<and> list_all (refs_loot_run_cost d) (loot_run_cost d)"

definition enforced_refs :: "db \<Rightarrow> bool" where
  "enforced_refs d \<longleftrightarrow> (foreign_keys d \<longrightarrow> refs_ok d)"

end
