(* ===== verification/Statements.thy ===== *)
theory Statements
  imports Schema
begin

text \<open>
  The statements that the storage code runs, as one inductive predicate, and the interface
  \<open>db_invariant\<close> of a property that every one of them keeps. The domain theories prove
  inside this interface that their operations are built from these statements only; the
  interpretations at the end give them two invariants at once: the keys of every table stay
  unique, and enforced foreign keys never dangle.
\<close>

section \<open>Statements\<close>

inductive stmt :: "(db, unit) op \<Rightarrow> bool" where
  ins_notice_item: "stmt (insert_notice_item r0)"
| ins_notice_snapshot: "stmt (insert_notice_snapshot r1)"
| ins_notice_diff: "stmt (insert_notice_diff m r2)"
| ins_app_setting: "stmt (insert_app_setting m r3)"
| ins_app_character: "stmt (insert_app_character m r4)"
| ins_build_score: "stmt (insert_build_score m r5)"
| ins_build_score_preset: "stmt (insert_build_score_preset m r6)"
| ins_planner_settings: "stmt (insert_planner_settings m r7)"
| ins_planner_template: "stmt (insert_planner_template m r8)"
| ins_planner_assignment: "stmt (insert_planner_assignment m r9)"
| ins_planner_completion: "stmt (insert_planner_completion m r10)"
| ins_planner_charge_use: "stmt (insert_planner_charge_use m r11)"
| ins_planner_duration: "stmt (insert_planner_duration m r12)"
| ins_economy_item: "stmt (insert_economy_item m r13)"
| ins_economy_price: "stmt (insert_economy_price m r14)"
| ins_economy_price_watch: "stmt (insert_economy_price_watch m r15)"
| ins_economy_alert_event: "stmt (insert_economy_alert_event m r16)"
| ins_loot_run: "stmt (insert_loot_run m r17)"
| ins_loot_run_drop: "stmt (insert_loot_run_drop m r18)"
| ins_loot_run_cost: "stmt (insert_loot_run_cost m r19)"
| del_notice_diff: "stmt (modify (delete_notice_diff P2))"
| del_app_setting: "stmt (modify (delete_app_setting P3))"
| del_app_character: "stmt (modify (delete_app_character P4))"
| del_build_score: "stmt (modify (delete_build_score P5))"
| del_build_score_preset: "stmt (modify (delete_build_score_preset P6))"
| del_planner_settings: "(\<And>r. P7 r \<Longrightarrow> ps_id r \<noteq> ''default'') \<Longrightarrow> stmt (modify (delete_planner_settings P7))"
| del_planner_template: "stmt (modify (delete_planner_template P8))"
| del_planner_assignment: "stmt (modify (delete_planner_assignment P9))"
| del_planner_completion: "stmt (modify (delete_planner_completion P10))"
| del_planner_charge_use: "stmt (modify (delete_planner_charge_use P11))"
| del_planner_duration: "stmt (modify (delete_planner_duration P12))"
| del_economy_item: "stmt (modify (delete_economy_item P13))"
| del_economy_price: "stmt (modify (delete_economy_price P14))"
| del_economy_price_watch: "stmt (modify (delete_economy_price_watch P15))"
| del_economy_alert_event: "stmt (modify (delete_economy_alert_event P16))"
| del_loot_run: "stmt (modify (delete_loot_run P17))"
| del_loot_run_drop: "stmt (modify (delete_loot_run_drop P18))"
| del_loot_run_cost: "stmt (modify (delete_loot_run_cost P19))"
| upd_app_setting: "(\<And>r. st_key (f3 r) = st_key r) \<Longrightarrow>
     stmt (modify (app_setting_update (update_where P3 f3)))"
| upd_app_character: "(\<And>r. ch_id (f4 r) = ch_id r) \<Longrightarrow>
     stmt (modify (app_character_update (update_where P4 f4)))"
| upd_build_score: "(\<And>r. bs_character_id (f5 r) = bs_character_id r) \<Longrightarrow>
     stmt (modify (build_score_update (update_where P5 f5)))"
| upd_build_score_preset: "(\<And>r. bp_id (f6 r) = bp_id r) \<Longrightarrow> (\<And>r. bp_character_id (f6 r) = bp_character_id r) \<Longrightarrow>
     stmt (modify (build_score_preset_update (update_where P6 f6)))"
| upd_planner_settings: "(\<And>r. ps_id (f7 r) = ps_id r) \<Longrightarrow>
     stmt (modify (planner_settings_update (update_where P7 f7)))"
| upd_planner_template: "(\<And>r. pt_id (f8 r) = pt_id r) \<Longrightarrow>
     stmt (modify (planner_template_update (update_where P8 f8)))"
| upd_economy_item: "(\<And>r. ei_id (f13 r) = ei_id r) \<Longrightarrow> (\<And>r. ei_name (f13 r) = ei_name r) \<Longrightarrow>
     stmt (modify (economy_item_update (update_where P13 f13)))"
| upd_economy_price_watch: "(\<And>r. ew_id (f15 r) = ew_id r) \<Longrightarrow> (\<And>r. ew_item_id (f15 r) = ew_item_id r) \<Longrightarrow>
     stmt (modify (economy_price_watch_update (update_where P15 f15)))"
| upd_economy_alert_event: "(\<And>r. ea_id (f16 r) = ea_id r) \<Longrightarrow> (\<And>r. ea_item_id (f16 r) = ea_item_id r) \<Longrightarrow>
     stmt (modify (economy_alert_event_update (update_where P16 f16)))"
| upd_notice_item: "(\<And>r. ni_id (f0 r) = ni_id r) \<Longrightarrow> (\<And>r. ni_source (f0 r) = ni_source r) \<Longrightarrow> (\<And>r. ni_external_id (f0 r) = ni_external_id r) \<Longrightarrow>
     stmt (modify (notice_item_update (update_where P0 f0)))"
| upd_notice_diff: "(\<And>r. nd_id (f2 r) = nd_id r) \<Longrightarrow> (\<And>r. nd_notice_item_id (f2 r) = nd_notice_item_id r) \<Longrightarrow> (\<And>r. nd_from_snapshot_id (f2 r) = nd_from_snapshot_id r) \<Longrightarrow> (\<And>r. nd_to_snapshot_id (f2 r) = nd_to_snapshot_id r) \<Longrightarrow>
     stmt (modify (notice_diff_update (update_where P2 f2)))"
| rename_economy_item: "(\<And>r. ei_id (g r) = ei_id r) \<Longrightarrow> stmt (update_economy_item i g)"
| export_file: "stmt persist"

text \<open>
  An invariant of the database: a property that every statement keeps, whatever its outcome. Only
  the import of a backup also deletes the default settings; a property that is kept even then is
  a \<open>replace_invariant\<close>.
\<close>

locale db_invariant =
  fixes I :: "db \<Rightarrow> bool"
  assumes stmt_keeps: "stmt m \<Longrightarrow> keeps I m"
begin

lemmas statements_keep [keeps_intro] = stmt.intros [THEN stmt_keeps]

end

locale replace_invariant = db_invariant +
  assumes clear_settings_keeps [keeps_intro]: "keeps I (modify (delete_planner_settings P))"

section \<open>What a statement does to a table\<close>

lemma uniq_drop: "uniq c t \<Longrightarrow> uniq c (drop_where P t)"
  by (simp add: uniq_def drop_where_def sorted_wrt_filter)

lemma uniq_snoc: "uniq c (t @ [r]) \<longleftrightarrow> uniq c t \<and> (\<forall>x \<in> set t. \<not> c x r)"
  by (simp add: uniq_def sorted_wrt_append)

lemma uniq_map: "(\<And>x y. c (f x) (f y) = c x y) \<Longrightarrow> uniq c (map f t) = uniq c t"
  by (simp add: uniq_def sorted_wrt_map)

lemma uniq_update:
  "(\<And>x y. c (f x) y = c x y) \<Longrightarrow> (\<And>x y. c x (f y) = c x y) \<Longrightarrow>
   uniq c (update_where P f t) = uniq c t"
  unfolding update_where_def by (rule uniq_map) auto

lemma uniq_forget:
  "(\<And>g x y. c (upd g x) (upd g y) = c x y) \<Longrightarrow> uniq c (forget upd gone t) = uniq c t"
  unfolding forget_def by (rule uniq_map)

lemma set_drop_where [simp]: "set (drop_where P t) = {x \<in> set t. \<not> P x}"
  by (auto simp: drop_where_def)

lemma list_all_drop: "list_all Q t \<Longrightarrow> list_all Q (drop_where P t)"
  by (auto simp: list_all_iff)

lemma has_id_iff: "has_id key i t \<longleftrightarrow> (\<exists>r \<in> set t. key r = i)"
  by (auto simp: has_id_def list_ex_iff)

lemma has_id_snoc: "has_id key i (t @ [r]) \<longleftrightarrow> has_id key i t \<or> key r = i"
  by (auto simp: has_id_iff)

lemma has_id_opt_snoc: "has_id_opt key v t \<Longrightarrow> has_id_opt key v (t @ [r])"
  by (auto simp: has_id_opt_def has_id_snoc split: option.splits)

lemma has_id_drop:
  "has_id key i t \<Longrightarrow> \<not> ids_where key P t i \<Longrightarrow> has_id key i (drop_where P t)"
  by (auto simp: has_id_iff ids_where_def list_ex_iff)

lemma has_id_opt_drop:
  "has_id_opt key v t \<Longrightarrow> (\<And>i. v = Some i \<Longrightarrow> \<not> ids_where key P t i) \<Longrightarrow>
   has_id_opt key v (drop_where P t)"
  by (auto simp: has_id_opt_def has_id_drop split: option.splits)

lemma has_id_update: "(\<And>r. key (f r) = key r) \<Longrightarrow> has_id key i (update_where P f t) = has_id key i t"
  by (auto simp: has_id_iff update_where_def)

lemma has_id_opt_update:
  "(\<And>r. key (f r) = key r) \<Longrightarrow> has_id_opt key v (update_where P f t) = has_id_opt key v t"
  by (simp add: has_id_opt_def has_id_update split: option.split)

lemma list_all_update:
  "(\<And>r. Q (f r) = Q r) \<Longrightarrow> list_all Q (update_where P f t) = list_all Q t"
  by (induction t) (auto simp: update_where_def)

text \<open>
  INSERT keeps a property that the deletions of its conflict clause keep and that a row without
  a clash, with the parents it names, can join.
\<close>

lemma keeps_insert_into:
  assumes put: "\<And>d. I d \<Longrightarrow> \<forall>x \<in> set (get d). \<not> clash x r \<Longrightarrow> foreign_keys d \<longrightarrow> refs d r \<Longrightarrow>
                     I (put (\<lambda>t. t @ [r]) d)"
    and del: "\<And>P d. I d \<Longrightarrow> I (del P d)"
    and gone: "\<And>P d. get (del P d) = drop_where P (get d)"
    and pragma: "\<And>P d. foreign_keys (del P d) = foreign_keys d"
  shows "keeps I (insert_into clash refs get put del m r)"
proof (rule keepsI)
  fix d assume d: "I d"
  define d' where "d' = (if list_ex (\<lambda>x. clash x r) (get d) then del (\<lambda>x. clash x r) d else d)"
  have d': "I d'" "foreign_keys d' = foreign_keys d" using d del by (simp_all add: d'_def pragma)
  have "\<forall>x \<in> set (get d'). \<not> clash x r" by (auto simp: d'_def gone list_ex_iff)
  then have "foreign_keys d \<longrightarrow> refs d' r \<Longrightarrow> I (put (\<lambda>t. t @ [r]) d')"
    using put [OF d'(1)] d'(2) by simp
  with d show "I (snd (insert_into clash refs get put del m r d))"
    by (auto simp: insert_into_def Let_def d'_def)
qed

lemma keeps_insert_abort:
  assumes put: "\<And>d. I d \<Longrightarrow> \<forall>x \<in> set (get d). \<not> clash x r \<Longrightarrow> foreign_keys d \<longrightarrow> refs d r \<Longrightarrow>
                     I (put (\<lambda>t. t @ [r]) d)"
  shows "keeps I (insert_into clash refs get put del Abort r)"
  by (rule keepsI) (auto simp: insert_into_def Let_def list_ex_iff intro: put)

lemmas clash_defs =
  clash_notice_item_def clash_notice_snapshot_def clash_notice_diff_def clash_app_setting_def
  clash_app_character_def clash_build_score_def clash_build_score_preset_def
  clash_planner_settings_def clash_planner_template_def clash_planner_assignment_def
  clash_planner_completion_def clash_planner_charge_use_def clash_planner_duration_def
  clash_economy_item_def clash_economy_price_def clash_economy_price_watch_def
  clash_economy_alert_event_def clash_loot_run_def clash_loot_run_drop_def
  clash_loot_run_cost_def

lemmas refs_defs =
  refs_notice_item_def refs_notice_snapshot_def refs_notice_diff_def refs_app_setting_def
  refs_app_character_def refs_build_score_def refs_build_score_preset_def
  refs_planner_settings_def refs_planner_template_def refs_planner_assignment_def
  refs_planner_completion_def refs_planner_charge_use_def refs_planner_duration_def
  refs_economy_item_def refs_economy_price_def refs_economy_price_watch_def
  refs_economy_alert_event_def refs_loot_run_def refs_loot_run_drop_def refs_loot_run_cost_def

lemmas delete_defs =
  delete_notice_diff_def delete_app_setting_def delete_app_character_def delete_build_score_def
  delete_build_score_preset_def delete_planner_settings_def delete_planner_template_def
  delete_planner_assignment_def delete_planner_completion_def delete_planner_charge_use_def
  delete_planner_duration_def delete_economy_item_def delete_economy_price_def
  delete_economy_price_watch_def delete_economy_alert_event_def delete_loot_run_def
  delete_loot_run_drop_def delete_loot_run_cost_def

lemmas insert_defs =
  insert_notice_item_def insert_notice_snapshot_def insert_notice_diff_def
  insert_app_setting_def insert_app_character_def insert_build_score_def
  insert_build_score_preset_def insert_planner_settings_def insert_planner_template_def
  insert_planner_assignment_def insert_planner_completion_def insert_planner_charge_use_def
  insert_planner_duration_def insert_economy_item_def insert_economy_price_def
  insert_economy_price_watch_def insert_economy_alert_event_def insert_loot_run_def
  insert_loot_run_drop_def insert_loot_run_cost_def

lemma delete_frames [simp]:
  "notice_diff (delete_notice_diff P2 d) = drop_where P2 (notice_diff d)"
  "foreign_keys (delete_notice_diff P2 d) = foreign_keys d"
  "app_setting (delete_app_setting P3 d) = drop_where P3 (app_setting d)"
  "foreign_keys (delete_app_setting P3 d) = foreign_keys d"
  "app_character (delete_app_character P4 d) = drop_where P4 (app_character d)"
  "foreign_keys (delete_app_character P4 d) = foreign_keys d"
  "build_score (delete_build_score P5 d) = drop_where P5 (build_score d)"
  "foreign_keys (delete_build_score P5 d) = foreign_keys d"
  "build_score_preset (delete_build_score_preset P6 d) = drop_where P6 (build_score_preset d)"
  "foreign_keys (delete_build_score_preset P6 d) = foreign_keys d"
  "planner_settings (delete_planner_settings P7 d) = drop_where P7 (planner_settings d)"
  "foreign_keys (delete_planner_settings P7 d) = foreign_keys d"
  "planner_template (delete_planner_template P8 d) = drop_where P8 (planner_template d)"
  "foreign_keys (delete_planner_template P8 d) = foreign_keys d"
  "planner_assignment (delete_planner_assignment P9 d) = drop_where P9 (planner_assignment d)"
  "foreign_keys (delete_planner_assignment P9 d) = foreign_keys d"
  "planner_completion (delete_planner_completion P10 d) = drop_where P10 (planner_completion d)"
  "foreign_keys (delete_planner_completion P10 d) = foreign_keys d"
  "planner_charge_use (delete_planner_charge_use P11 d) = drop_where P11 (planner_charge_use d)"
  "foreign_keys (delete_planner_charge_use P11 d) = foreign_keys d"
  "planner_duration (delete_planner_duration P12 d) = drop_where P12 (planner_duration d)"
  "foreign_keys (delete_planner_duration P12 d) = foreign_keys d"
  "economy_item (delete_economy_item P13 d) = drop_where P13 (economy_item d)"
  "foreign_keys (delete_economy_item P13 d) = foreign_keys d"
  "economy_price (delete_economy_price P14 d) = drop_where P14 (economy_price d)"
  "foreign_keys (delete_economy_price P14 d) = foreign_keys d"
  "economy_price_watch (delete_economy_price_watch P15 d) = drop_where P15 (economy_price_watch d)"
  "foreign_keys (delete_economy_price_watch P15 d) = foreign_keys d"
  "economy_alert_event (delete_economy_alert_event P16 d) = drop_where P16 (economy_alert_event d)"
  "foreign_keys (delete_economy_alert_event P16 d) = foreign_keys d"
  "loot_run (delete_loot_run P17 d) = drop_where P17 (loot_run d)"
  "foreign_keys (delete_loot_run P17 d) = foreign_keys d"
  "loot_run_drop (delete_loot_run_drop P18 d) = drop_where P18 (loot_run_drop d)"
  "foreign_keys (delete_loot_run_drop P18 d) = foreign_keys d"
  "loot_run_cost (delete_loot_run_cost P19 d) = drop_where P19 (loot_run_cost d)"
  "foreign_keys (delete_loot_run_cost P19 d) = foreign_keys d"
  by (simp_all add: delete_defs Let_def)

text \<open>The outcomes of INSERT.\<close>

lemma insert_into_ok:
  "\<forall>x \<in> set (get d). \<not> clash x r \<Longrightarrow> foreign_keys d \<longrightarrow> refs d r \<Longrightarrow>
   insert_into clash refs get put del m r d = (Inr (), put (\<lambda>t. t @ [r]) d)"
  by (auto simp: insert_into_def Let_def list_ex_iff)

lemma insert_into_clash:
  "x \<in> set (get d) \<Longrightarrow> clash x r \<Longrightarrow>
   insert_into clash refs get put del Abort r d = (Inl (Constraint ''UNIQUE''), d)"
  by (auto simp: insert_into_def Let_def list_ex_iff)

lemma insert_into_ignore:
  "x \<in> set (get d) \<Longrightarrow> clash x r \<Longrightarrow> insert_into clash refs get put del Ignore r d = (Inr (), d)"
  by (auto simp: insert_into_def Let_def list_ex_iff)

lemma insert_into_dangling:
  "\<forall>x \<in> set (get d). \<not> clash x r \<Longrightarrow> foreign_keys d \<Longrightarrow> \<not> refs d r \<Longrightarrow>
   insert_into clash refs get put del m r d = (Inl (Constraint ''FOREIGN KEY''), d)"
  by (auto simp: insert_into_def Let_def list_ex_iff)

lemma insert_into_done:
  "insert_into clash refs get put del Abort r d = (Inr u, d') \<Longrightarrow>
   d' = put (\<lambda>t. t @ [r]) d \<and> (\<forall>x \<in> set (get d). \<not> clash x r) \<and> (foreign_keys d \<longrightarrow> refs d r)"
  by (auto simp: insert_into_def Let_def list_ex_iff split: if_splits)

text \<open>
  INSERT ... SELECT is one statement: it inserts a row for each selected one, and a failure undoes
  the rows it has inserted.
\<close>

definition insert_select :: "'x list \<Rightarrow> ('x \<Rightarrow> (db, unit) op) \<Rightarrow> (db, unit) op" where
  "insert_select xs f = in_transaction [] None (for_each xs f)"

lemma keeps_insert_select [keeps_intro]: "(\<And>x. keeps P (f x)) \<Longrightarrow> keeps P (insert_select xs f)"
  unfolding insert_select_def by (intro keeps_intro)

text \<open>A NOT NULL column rejects NaN, which SQLite stores as NULL.\<close>

definition not_null :: "jsnum \<Rightarrow> (db, 'a) op \<Rightarrow> (db, 'a) op" where
  "not_null x m = guard_else (x \<noteq> NaN) (Constraint ''NOT NULL'') m"

lemma not_null_apply [op_simps]:
  "not_null x m d = (if x = NaN then (Inl (Constraint ''NOT NULL''), d) else m d)"
  by (simp add: not_null_def guard_else_apply)

lemma keeps_not_null [keeps_intro]: "keeps P m \<Longrightarrow> keeps P (not_null x m)"
  unfolding not_null_def by (rule keeps_guard_else)

section \<open>Keys stay unique\<close>

lemma keys_delete:
  "keys_ok d \<Longrightarrow> keys_ok (delete_notice_diff P2 d)"
  "keys_ok d \<Longrightarrow> keys_ok (delete_app_setting P3 d)"
  "keys_ok d \<Longrightarrow> keys_ok (delete_app_character P4 d)"
  "keys_ok d \<Longrightarrow> keys_ok (delete_build_score P5 d)"
  "keys_ok d \<Longrightarrow> keys_ok (delete_build_score_preset P6 d)"
  "keys_ok d \<Longrightarrow> keys_ok (delete_planner_settings P7 d)"
  "keys_ok d \<Longrightarrow> keys_ok (delete_planner_template P8 d)"
  "keys_ok d \<Longrightarrow> keys_ok (delete_planner_assignment P9 d)"
  "keys_ok d \<Longrightarrow> keys_ok (delete_planner_completion P10 d)"
  "keys_ok d \<Longrightarrow> keys_ok (delete_planner_charge_use P11 d)"
  "keys_ok d \<Longrightarrow> keys_ok (delete_planner_duration P12 d)"
  "keys_ok d \<Longrightarrow> keys_ok (delete_economy_item P13 d)"
  "keys_ok d \<Longrightarrow> keys_ok (delete_economy_price P14 d)"
  "keys_ok d \<Longrightarrow> keys_ok (delete_economy_price_watch P15 d)"
  "keys_ok d \<Longrightarrow> keys_ok (delete_economy_alert_event P16 d)"
  "keys_ok d \<Longrightarrow> keys_ok (delete_loot_run P17 d)"
  "keys_ok d \<Longrightarrow> keys_ok (delete_loot_run_drop P18 d)"
  "keys_ok d \<Longrightarrow> keys_ok (delete_loot_run_cost P19 d)"
  by (simp_all add: keys_ok_def delete_defs Let_def uniq_drop uniq_forget clash_defs)

lemma uniq_rename:
  assumes "uniq clash_economy_item t" "\<And>r. ei_id (g r) = ei_id r"
    and "\<not> list_ex (\<lambda>x. ei_id x \<noteq> i \<and> list_ex (\<lambda>n. ei_name n = ei_name x)
                              (map g (filter (\<lambda>r. ei_id r = i) t))) t"
  shows "uniq clash_economy_item (update_where (\<lambda>r. ei_id r = i) g t)"
  using assms(1) unfolding uniq_def update_where_def sorted_wrt_map
  by (rule sorted_wrt_mono_rel [rotated])
    (use assms(2,3) in \<open>auto simp: clash_economy_item_def list_ex_iff\<close>, metis+)

lemma stmt_keeps_keys: "stmt m \<Longrightarrow> keeps keys_ok m"
  apply (induction rule: stmt.induct)
  apply (unfold insert_defs)
  apply ((rule keeps_insert_abort keeps_insert_into;
          (erule keys_delete | simp add: keys_ok_def uniq_snoc))+)[20]
  apply ((rule keepsI; simp add: modify_apply keys_delete)+)[18]
  apply ((rule keepsI; simp add: modify_apply keys_ok_def uniq_update clash_defs)+)[11]
  subgoal by (rule keepsI) (simp add: update_economy_item_def Let_def keys_ok_def uniq_rename)
  subgoal by (rule keepsI) (simp add: persist_def modify_apply export_effect_def keys_ok_def)
  done

interpretation keys: replace_invariant keys_ok
  by unfold_locales (rule stmt_keeps_keys, assumption, rule keepsI, simp add: modify_apply keys_delete)

section \<open>Enforced references never dangle\<close>


lemma list_all_forget:
  "list_all Q t \<Longrightarrow>
   (\<And>r. Q r \<Longrightarrow> Q' (upd (\<lambda>v. case v of None \<Rightarrow> None | Some i \<Rightarrow> if gone i then None else Some i) r)) \<Longrightarrow>
   list_all Q' (forget upd gone t)"
  by (auto simp: list_all_iff forget_def)

lemma has_id_opt_forget:
  "has_id_opt key v t \<Longrightarrow>
   has_id_opt key (case v of None \<Rightarrow> None | Some i \<Rightarrow> if ids_where key P t i then None else Some i)
     (drop_where P t)"
  by (auto simp: has_id_opt_def has_id_drop split: option.split)

lemma list_all_drop_imp:
  "list_all Q t \<Longrightarrow> (\<And>r. Q r \<Longrightarrow> \<not> P r \<Longrightarrow> Q' r) \<Longrightarrow> list_all Q' (drop_where P t)"
  by (auto simp: list_all_iff)

lemma list_all_imp: "list_all Q t \<Longrightarrow> (\<And>r. Q r \<Longrightarrow> Q' r) \<Longrightarrow> list_all Q' t"
  by (auto simp: list_all_iff)

lemma list_all_mono: "list_all Q t \<Longrightarrow> (\<And>r. Q r \<Longrightarrow> Q' r) \<Longrightarrow> list_all Q' t"
  by (auto simp: list_all_iff)

lemmas refs_abs = refs_defs [abs_def]

lemma refs_delete:
  "enforced_refs d \<Longrightarrow> enforced_refs (delete_notice_diff P2 d)"
  "enforced_refs d \<Longrightarrow> enforced_refs (delete_app_setting P3 d)"
  "enforced_refs d \<Longrightarrow> enforced_refs (delete_app_character P4 d)"
  "enforced_refs d \<Longrightarrow> enforced_refs (delete_build_score P5 d)"
  "enforced_refs d \<Longrightarrow> enforced_refs (delete_build_score_preset P6 d)"
  "enforced_refs d \<Longrightarrow> enforced_refs (delete_planner_settings P7 d)"
  "enforced_refs d \<Longrightarrow> enforced_refs (delete_planner_template P8 d)"
  "enforced_refs d \<Longrightarrow> enforced_refs (delete_planner_assignment P9 d)"
  "enforced_refs d \<Longrightarrow> enforced_refs (delete_planner_completion P10 d)"
  "enforced_refs d \<Longrightarrow> enforced_refs (delete_planner_charge_use P11 d)"
  "enforced_refs d \<Longrightarrow> enforced_refs (delete_planner_duration P12 d)"
  "enforced_refs d \<Longrightarrow> enforced_refs (delete_economy_item P13 d)"
  "enforced_refs d \<Longrightarrow> enforced_refs (delete_economy_price P14 d)"
  "enforced_refs d \<Longrightarrow> enforced_refs (delete_economy_price_watch P15 d)"
  "enforced_refs d \<Longrightarrow> enforced_refs (delete_economy_alert_event P16 d)"
  "enforced_refs d \<Longrightarrow> enforced_refs (delete_loot_run P17 d)"
  "enforced_refs d \<Longrightarrow> enforced_refs (delete_loot_run_drop P18 d)"
  "enforced_refs d \<Longrightarrow> enforced_refs (delete_loot_run_cost P19 d)"
  by (auto simp: enforced_refs_def refs_ok_def delete_defs Let_def refs_abs list_all_drop
      elim!: list_all_drop_imp list_all_forget
      intro: has_id_drop has_id_opt_drop has_id_opt_forget)

lemma stmt_keeps_refs: "stmt m \<Longrightarrow> keeps enforced_refs m"
  apply (induction rule: stmt.induct)
  apply (unfold insert_defs)
  apply ((rule keeps_insert_abort keeps_insert_into;
          (erule refs_delete | auto simp: enforced_refs_def refs_ok_def refs_abs has_id_snoc
             elim!: list_all_mono intro: has_id_opt_snoc))+)[20]
  apply ((rule keepsI; simp add: modify_apply refs_delete)+)[18]
  apply ((rule keepsI; simp add: modify_apply enforced_refs_def refs_ok_def refs_abs
           has_id_update has_id_opt_update list_all_update)+)[11]
  subgoal by (rule keepsI) (simp add: update_economy_item_def Let_def enforced_refs_def refs_ok_def
                refs_abs has_id_update has_id_opt_update)
  subgoal by (rule keepsI) (simp add: persist_def modify_apply export_effect_def enforced_refs_def
                refs_ok_def refs_abs)
  done

interpretation refs: replace_invariant enforced_refs
  by unfold_locales (rule stmt_keeps_refs, assumption, rule keepsI, simp add: modify_apply refs_delete)

section \<open>The default settings stay\<close>

definition has_default :: "db \<Rightarrow> bool" where
  "has_default d \<longleftrightarrow> has_id ps_id ''default'' (planner_settings d)"

lemma has_id_drop_other:
  "has_id key i t \<Longrightarrow> (\<And>r. P r \<Longrightarrow> key r \<noteq> i) \<Longrightarrow> has_id key i (drop_where P t)"
  by (auto simp: has_id_iff)

lemma insert_keeps_table:
  assumes "\<And>P d. get (del P d) = get d" "\<And>g d. get (put g d) = get d"
  shows "get (snd (insert_into clash refs tab put del m r d)) = get d"
  using assms by (cases m) (auto simp: insert_into_def Let_def)

lemma insert_settings_keeps_default: "keeps has_default (insert_planner_settings m r)"
proof (rule keepsI)
  fix d assume "has_default d"
  then show "has_default (snd (insert_planner_settings m r d))"
    by (cases m) (auto simp: has_default_def insert_planner_settings_def insert_into_def Let_def
      has_id_iff delete_planner_settings_def refs_planner_settings_def clash_planner_settings_def)
qed

lemma keeps_default: "(\<And>d. planner_settings (snd (m d)) = planner_settings d) \<Longrightarrow> keeps has_default m"
  by (simp add: keeps_def has_default_def)

lemma insert_keeps_default:
  assumes "\<And>P d. planner_settings (del P d) = planner_settings d"
    and "\<And>g d. planner_settings (put g d) = planner_settings d"
  shows "keeps has_default (insert_into clash refs tab put del m r)"
  by (rule keeps_default) (rule insert_keeps_table [of planner_settings, OF assms])

lemma stmt_keeps_default: "stmt m \<Longrightarrow> keeps has_default m"
  apply (induction rule: stmt.induct)
  apply (unfold insert_defs)
  apply ((rule insert_settings_keeps_default [unfolded insert_planner_settings_def] |
          rule insert_keeps_default; simp add: delete_defs Let_def; fail)+)[20]
  apply ((rule keeps_default; simp add: modify_apply delete_defs Let_def; fail) |
         (rule keepsI; simp add: modify_apply has_default_def has_id_drop_other has_id_update; fail))+
  apply (auto intro!: keeps_default simp: update_economy_item_def Let_def persist_def modify_apply export_effect_def)
  done

interpretation default_settings: db_invariant has_default
  by unfold_locales (rule stmt_keeps_default)

end
