(* ===== verification/Characters.thy ===== *)
theory Characters
  imports Statements
begin

text \<open>
  Application settings (\<open>main/storage/domains/appSettings.ts\<close>), characters
  (\<open>domains/characters.ts\<close>) and the opening of the database
  (\<open>main/storage/db.ts\<close>). Fresh ids and the current time are arguments: \<open>uid\<close> is
  the UUID that \<open>randomUUID\<close> returns, \<open>now\<close> the ISO text of the clock.
\<close>

section \<open>Settings\<close>

definition get_setting :: "string \<Rightarrow> db \<Rightarrow> string option" where
  "get_setting key d = map_option st_value (find (\<lambda>r. st_key r = key) (app_setting d))"

text \<open>\<open>INSERT ... ON CONFLICT(key) DO UPDATE SET value\<close>, or DELETE for null.\<close>

definition set_setting :: "string \<Rightarrow> string option \<Rightarrow> (db, unit) op" where
  "set_setting key value =
     (case value of
        None \<Rightarrow> modify (delete_app_setting (\<lambda>r. st_key r = key))
      | Some v \<Rightarrow> reading (\<lambda>d.
          if list_ex (\<lambda>r. st_key r = key) (app_setting d)
          then modify (app_setting_update (update_where (\<lambda>r. st_key r = key) (st_value_update (\<lambda>_. v))))
          else insert_app_setting Abort \<lparr>st_key = key, st_value = v\<rparr>))"

definition get_active_character_id :: "db \<Rightarrow> string option" where
  "get_active_character_id d = get_setting ''activeCharacterId'' d"

definition set_active_character_id :: "string option \<Rightarrow> (db, unit) op" where
  "set_active_character_id character_id = set_setting ''activeCharacterId'' character_id"

section \<open>Characters\<close>

text \<open>\<open>v ? String(v) : null\<close> reads an empty text as null.\<close>

definition non_empty :: "string option \<Rightarrow> string option" where
  "non_empty v = (case v of None \<Rightarrow> None | Some s \<Rightarrow> if s = [] then None else Some s)"

lemma non_empty_Some [simp]: "non_empty v = Some i \<longleftrightarrow> v = Some i \<and> i \<noteq> []"
  by (auto simp: non_empty_def split: option.splits if_splits)

lemma non_empty_None [simp]: "non_empty v = None \<longleftrightarrow> v = None \<or> v = Some []"
  by (auto simp: non_empty_def split: option.splits)

definition read_character :: "app_character_row \<Rightarrow> app_character_row" where
  "read_character r = r\<lparr>ch_server := non_empty (ch_server r), ch_class := non_empty (ch_class r)\<rparr>"

definition list_characters :: "db \<Rightarrow> app_character_row list" where
  "list_characters d =
     map read_character
       (order_by (then_by (desc ch_updated_at) (desc ch_created_at)) (app_character d))"

definition get_character :: "string \<Rightarrow> db \<Rightarrow> app_character_row option" where
  "get_character character_id d =
     map_option read_character (find (\<lambda>r. ch_id r = character_id) (app_character d))"

definition assignment_for :: "string \<Rightarrow> string \<Rightarrow> string \<Rightarrow> string \<Rightarrow> planner_assignment_row" where
  "assignment_for i c t now =
     \<lparr>pa_id = i, pa_character_id = c, pa_template_id = t, pa_enabled = True, pa_target_count = None,
      pa_created_at = now, pa_updated_at = now\<rparr>"

text \<open>A new character is assigned every existing template.\<close>

definition create_character ::
  "string \<Rightarrow> string \<Rightarrow> string \<Rightarrow> string option \<Rightarrow> string option \<Rightarrow> (db, string) op" where
  "create_character uid now name server cls =
     and_then (insert_app_character Abort
       \<lparr>ch_id = uid, ch_name = name, ch_server = server, ch_class = cls,
        ch_created_at = now, ch_updated_at = now\<rparr>) (\<lambda>_.
     and_then (reading (\<lambda>d. insert_select (planner_template d) (\<lambda>t.
       insert_planner_assignment Ignore
         (assignment_for (''assign:'' @ uid @ '':'' @ pt_id t) uid (pt_id t) now)))) (\<lambda>_.
     ret uid))"

definition update_character ::
  "string \<Rightarrow> string \<Rightarrow> string \<Rightarrow> string option \<Rightarrow> string option \<Rightarrow> (db, unit) op" where
  "update_character now uid name server cls =
     modify (app_character_update (update_where (\<lambda>r. ch_id r = uid)
       (\<lambda>r. r\<lparr>ch_name := name, ch_server := server, ch_class := cls, ch_updated_at := now\<rparr>)))"

definition delete_character :: "string \<Rightarrow> (db, unit) op" where
  "delete_character character_id = modify (delete_app_character (\<lambda>r. ch_id r = character_id))"

section \<open>Opening the database\<close>

definition default_settings_row :: "string \<Rightarrow> planner_settings_row" where
  "default_settings_row now =
     \<lparr>ps_id = ''default'', ps_daily_reset_hhmm = ''09:00'', ps_weekly_reset_day = num 1,
      ps_updated_at = now\<rparr>"

definition ensure_defaults :: "string \<Rightarrow> (db, unit) op" where
  "ensure_defaults now = insert_planner_settings Ignore (default_settings_row now)"

text \<open>The schema script only creates what is missing, so it does not change existing tables.\<close>

definition init_db :: "string \<Rightarrow> (db, unit) op" where
  "init_db now = and_then (modify (foreign_keys_update (\<lambda>_. True))) (\<lambda>_. ensure_defaults now)"

definition open_desktop_db :: "string \<Rightarrow> (db, unit) op" where
  "open_desktop_db now = and_then (init_db now) (\<lambda>_. persist)"

section \<open>Laws of the settings\<close>

lemma find_update_where:
  "(\<And>r. key (f r) = key r) \<Longrightarrow>
   find (\<lambda>r. key r = k) (update_where (\<lambda>r. key r = k') f t) =
     map_option (\<lambda>r. if k = k' then f r else r) (find (\<lambda>r. key r = k) t)"
  by (induction t) (auto simp: update_where_def)

lemma find_update_any:
  "(\<And>r. P (f r) = P r) \<Longrightarrow>
   find P (update_where Q f t) = map_option (\<lambda>r. if Q r then f r else r) (find P t)"
  by (induction t) (auto simp: update_where_def)

lemma find_drop_where:
  "find (\<lambda>r. key r = k) (drop_where (\<lambda>r. key r = k') t) =
     (if k = k' then None else find (\<lambda>r. key r = k) t)"
  by (induction t) (auto simp: drop_where_def)

lemma find_append: "find P (xs @ ys) = (case find P xs of None \<Rightarrow> find P ys | Some x \<Rightarrow> Some x)"
  by (induction xs) auto

lemma find_None: "find P t = None \<longleftrightarrow> (\<forall>x \<in> set t. \<not> P x)"
  by (auto simp: find_None_iff)

lemma find_is_Some: "x \<in> set t \<Longrightarrow> P x \<Longrightarrow> \<exists>y. find P t = Some y"
  using find_None [of P t] by (cases "find P t") auto

lemma find_SomeD: "find P t = Some x \<Longrightarrow> x \<in> set t \<and> P x"
  by (auto simp: find_Some_iff)

lemma refs_app_setting_True [simp]: "refs_app_setting d x"
  by (simp add: refs_app_setting_def)

lemma get_set_setting:
  "get_setting k (snd (set_setting k' v d)) = (if k = k' then v else get_setting k d)"
proof (cases v)
  case None
  then show ?thesis
    by (simp add: set_setting_def modify_apply get_setting_def find_drop_where)
next
  case (Some w)
  show ?thesis
  proof (cases "list_ex (\<lambda>r. st_key r = k') (app_setting d)")
    case True
    then obtain r where r: "find (\<lambda>r. st_key r = k') (app_setting d) = Some r"
      by (auto simp: list_ex_iff dest: find_is_Some)
    with True Some show ?thesis
      by (cases "find (\<lambda>r. st_key r = k) (app_setting d)")
        (auto simp: set_setting_def reading_apply modify_apply get_setting_def find_update_where)
  next
    case False
    then have none: "find (\<lambda>r. st_key r = k') (app_setting d) = None"
      by (auto simp: list_ex_iff find_None)
    have ins: "insert_app_setting Abort \<lparr>st_key = k', st_value = w\<rparr> d =
        (Inr (), d\<lparr>app_setting := app_setting d @ [\<lparr>st_key = k', st_value = w\<rparr>]\<rparr>)"
      unfolding insert_app_setting_def using False
      by (subst insert_into_ok) (auto simp: clash_app_setting_def list_ex_iff)
    show ?thesis
      using False Some none
      by (auto simp: set_setting_def reading_apply ins get_setting_def find_append split: option.split)
  qed
qed

lemma set_setting_never_fails: "fst (set_setting k v d) = Inr ()"
  by (auto simp: set_setting_def modify_apply reading_apply insert_app_setting_def
      insert_into_ok clash_app_setting_def list_ex_iff split: option.split)


section \<open>Automatic assignments\<close>

definition assigned :: "db \<Rightarrow> string \<Rightarrow> string \<Rightarrow> bool" where
  "assigned d c t \<longleftrightarrow>
     list_ex (\<lambda>a. pa_character_id a = c \<and> pa_template_id a = t) (planner_assignment d)"

text \<open>Every character has an assignment of every template.\<close>

definition fully_assigned :: "db \<Rightarrow> bool" where
  "fully_assigned d \<longleftrightarrow>
     list_all (\<lambda>c. list_all (\<lambda>t. assigned d (ch_id c) (pt_id t)) (planner_template d)) (app_character d)"

lemma assigned_iff:
  "assigned d c t \<longleftrightarrow> (\<exists>a \<in> set (planner_assignment d). pa_character_id a = c \<and> pa_template_id a = t)"
  by (auto simp: assigned_def list_ex_iff)

lemma fully_assigned_iff:
  "fully_assigned d \<longleftrightarrow>
     (\<forall>c \<in> set (app_character d). \<forall>t \<in> set (planner_template d). assigned d (ch_id c) (pt_id t))"
  by (auto simp: fully_assigned_def list_all_iff)

text \<open>
  A run of INSERT OR IGNORE over pairs. An id that is already taken belongs to the same pair, so
  afterwards every pair has an assignment; nothing else changes.
\<close>

lemma assign_one:
  assumes ids: "\<forall>a \<in> set (planner_assignment d). pa_id a = i \<longrightarrow> pa_character_id a = c \<and> pa_template_id a = t"
    and fk: "foreign_keys d \<longrightarrow> has_id ch_id c (app_character d) \<and> has_id pt_id t (planner_template d)"
  shows "insert_planner_assignment Ignore (assignment_for i c t now) d =
    (Inr (), d\<lparr>planner_assignment := planner_assignment d @
       (if assigned d c t then [] else [assignment_for i c t now])\<rparr>)"
proof (cases "assigned d c t")
  case True
  then obtain a where "a \<in> set (planner_assignment d)" "clash_planner_assignment a (assignment_for i c t now)"
    by (auto simp: assigned_iff clash_planner_assignment_def assignment_for_def)
  then show ?thesis
    using True by (simp add: insert_planner_assignment_def insert_into_ignore)
next
  case False
  then have "\<forall>a \<in> set (planner_assignment d). \<not> clash_planner_assignment a (assignment_for i c t now)"
    using ids by (auto simp: assigned_iff clash_planner_assignment_def assignment_for_def)
  then show ?thesis
    using False fk
    by (simp add: insert_planner_assignment_def insert_into_ok refs_planner_assignment_def assignment_for_def)
qed

lemma assign_many:
  assumes "\<forall>x \<in> set xs. \<forall>y \<in> set xs. i x = i y \<longrightarrow> c x = c y \<and> t x = t y"
    and "\<forall>a \<in> set (planner_assignment d). \<forall>x \<in> set xs.
           pa_id a = i x \<longrightarrow> pa_character_id a = c x \<and> pa_template_id a = t x"
    and "foreign_keys d \<longrightarrow> (\<forall>x \<in> set xs. has_id ch_id (c x) (app_character d) \<and>
           has_id pt_id (t x) (planner_template d))"
  shows "\<exists>new. for_each xs (\<lambda>x. insert_planner_assignment Ignore (assignment_for (i x) (c x) (t x) now)) d =
             (Inr (), d\<lparr>planner_assignment := planner_assignment d @ new\<rparr>)
           \<and> (\<forall>x \<in> set xs. assigned (d\<lparr>planner_assignment := planner_assignment d @ new\<rparr>) (c x) (t x))
           \<and> set new \<subseteq> (\<lambda>x. assignment_for (i x) (c x) (t x) now) ` set xs"
  using assms
proof (induction xs arbitrary: d)
  case Nil
  then show ?case by (intro exI [of _ "[]"]) (simp add: for_each_Nil)
next
  case (Cons x xs)
  define n where "n = (if assigned d (c x) (t x) then [] else [assignment_for (i x) (c x) (t x) now])"
  define d1 where "d1 = d\<lparr>planner_assignment := planner_assignment d @ n\<rparr>"
  have one: "insert_planner_assignment Ignore (assignment_for (i x) (c x) (t x) now) d = (Inr (), d1)"
    unfolding d1_def n_def
  proof (rule assign_one)
    show "\<forall>a \<in> set (planner_assignment d).
        pa_id a = i x \<longrightarrow> pa_character_id a = c x \<and> pa_template_id a = t x"
      using Cons.prems(2) by (meson list.set_intros(1))
    show "foreign_keys d \<longrightarrow> has_id ch_id (c x) (app_character d) \<and> has_id pt_id (t x) (planner_template d)"
      using Cons.prems(3) by (meson list.set_intros(1))
  qed
  have p1: "\<forall>x \<in> set xs. \<forall>y \<in> set xs. i x = i y \<longrightarrow> c x = c y \<and> t x = t y"
    using Cons.prems(1) by (meson list.set_intros(2))
  have p3: "foreign_keys d1 \<longrightarrow> (\<forall>x \<in> set xs. has_id ch_id (c x) (app_character d1) \<and>
      has_id pt_id (t x) (planner_template d1))"
    using Cons.prems(3) by (simp add: d1_def)
  have p2: "\<forall>a \<in> set (planner_assignment d1). \<forall>y \<in> set xs.
      pa_id a = i y \<longrightarrow> pa_character_id a = c y \<and> pa_template_id a = t y"
  proof (intro ballI impI)
    fix a y assume a: "a \<in> set (planner_assignment d1)" and y: "y \<in> set xs" and eq: "pa_id a = i y"
    show "pa_character_id a = c y \<and> pa_template_id a = t y"
    proof (cases "a \<in> set (planner_assignment d)")
      case True
      then show ?thesis using Cons.prems(2) y eq by (meson list.set_intros(2))
    next
      case False
      then have "a = assignment_for (i x) (c x) (t x) now"
        using a by (simp add: d1_def n_def split: if_splits)
      moreover from this eq have "i x = i y" by (simp add: assignment_for_def)
      then have "c x = c y \<and> t x = t y"
        using Cons.prems(1) y by (meson list.set_intros)
      ultimately show ?thesis by (simp add: assignment_for_def)
    qed
  qed
  from Cons.IH [OF p1 p2 p3] obtain new where new:
    "for_each xs (\<lambda>x. insert_planner_assignment Ignore (assignment_for (i x) (c x) (t x) now)) d1 =
       (Inr (), d1\<lparr>planner_assignment := planner_assignment d1 @ new\<rparr>)"
    "\<forall>y \<in> set xs. assigned (d1\<lparr>planner_assignment := planner_assignment d1 @ new\<rparr>) (c y) (t y)"
    "set new \<subseteq> (\<lambda>x. assignment_for (i x) (c x) (t x) now) ` set xs" by blast
  have "assigned (d\<lparr>planner_assignment := planner_assignment d @ n @ new\<rparr>) (c x) (t x)"
    by (auto simp: assigned_iff n_def assignment_for_def)
  moreover have "set (n @ new) \<subseteq> (\<lambda>x. assignment_for (i x) (c x) (t x) now) ` set (x # xs)"
    using new(3) by (auto simp: n_def)
  ultimately show ?case
    using new(1,2) by (intro exI [of _ "n @ new"]) (simp add: for_each_Cons and_then_apply one d1_def)
qed


section \<open>Invariants\<close>

context db_invariant
begin

lemma set_setting_keeps [keeps_intro]: "keeps I (set_setting k v)"
  unfolding set_setting_def by (intro keeps_intro) simp

lemma set_active_character_id_keeps [keeps_intro]: "keeps I (set_active_character_id c)"
  unfolding set_active_character_id_def by (intro keeps_intro)

lemma create_character_keeps [keeps_intro]: "keeps I (create_character uid now name server cls)"
  unfolding create_character_def by (intro keeps_intro)

lemma update_character_keeps [keeps_intro]: "keeps I (update_character now uid name server cls)"
  unfolding update_character_def by (intro keeps_intro) simp

lemma delete_character_keeps [keeps_intro]: "keeps I (delete_character c)"
  unfolding delete_character_def by (intro keeps_intro)

lemma ensure_defaults_keeps [keeps_intro]: "keeps I (ensure_defaults now)"
  unfolding ensure_defaults_def by (intro keeps_intro)

end

section \<open>Creating a character\<close>

definition new_character ::
  "string \<Rightarrow> string \<Rightarrow> string \<Rightarrow> string option \<Rightarrow> string option \<Rightarrow> app_character_row" where
  "new_character uid now name server cls =
     \<lparr>ch_id = uid, ch_name = name, ch_server = server, ch_class = cls,
      ch_created_at = now, ch_updated_at = now\<rparr>"

definition unused_character_id :: "string \<Rightarrow> db \<Rightarrow> bool" where
  "unused_character_id uid d \<longleftrightarrow>
     list_all (\<lambda>c. ch_id c \<noteq> uid) (app_character d)
     \<and> list_all (\<lambda>a. \<not> prefix (''assign:'' @ uid @ '':'') (pa_id a)) (planner_assignment d)"

lemma insert_character_fresh:
  assumes "\<forall>c \<in> set (app_character d). ch_id c \<noteq> ch_id r"
  shows "insert_app_character m r d = (Inr (), d\<lparr>app_character := app_character d @ [r]\<rparr>)"
  unfolding insert_app_character_def using assms
  by (subst insert_into_ok) (auto simp: clash_app_character_def refs_app_character_def)

lemma create_character_result:
  assumes "unused_character_id uid d"
  shows "\<exists>new. create_character uid now name server cls d =
             (Inr uid, d\<lparr>app_character := app_character d @ [new_character uid now name server cls],
                         planner_assignment := planner_assignment d @ new\<rparr>)
           \<and> (\<forall>t \<in> set (planner_template d).
                 assigned (d\<lparr>planner_assignment := planner_assignment d @ new\<rparr>) uid (pt_id t))
           \<and> (\<forall>a \<in> set new. pa_character_id a = uid)"
proof -
  define d1 where "d1 = d\<lparr>app_character := app_character d @ [new_character uid now name server cls]\<rparr>"
  have ins: "insert_app_character Abort (new_character uid now name server cls) d = (Inr (), d1)"
    unfolding d1_def using assms
    by (intro insert_character_fresh) (auto simp: unused_character_id_def list_all_iff new_character_def)
  have "\<exists>new. for_each (planner_template d1) (\<lambda>t. insert_planner_assignment Ignore
             (assignment_for ((\<lambda>t. ''assign:'' @ uid @ '':'' @ pt_id t) t) ((\<lambda>t. uid) t) (pt_id t) now)) d1 =
             (Inr (), d1\<lparr>planner_assignment := planner_assignment d1 @ new\<rparr>)
           \<and> (\<forall>t \<in> set (planner_template d1).
                 assigned (d1\<lparr>planner_assignment := planner_assignment d1 @ new\<rparr>) ((\<lambda>t. uid) t) (pt_id t))
           \<and> set new \<subseteq> (\<lambda>t. assignment_for ((\<lambda>t. ''assign:'' @ uid @ '':'' @ pt_id t) t) ((\<lambda>t. uid) t) (pt_id t) now)
                 ` set (planner_template d1)"
  proof (rule assign_many)
    show "\<forall>a \<in> set (planner_assignment d1). \<forall>x \<in> set (planner_template d1).
        pa_id a = ''assign:'' @ uid @ '':'' @ pt_id x \<longrightarrow> pa_character_id a = uid \<and> pa_template_id a = pt_id x"
      using assms by (auto simp: unused_character_id_def list_all_iff d1_def prefix_def)
  qed (auto simp: d1_def has_id_iff new_character_def)
  then obtain new where new:
    "for_each (planner_template d1) (\<lambda>t. insert_planner_assignment Ignore
       (assignment_for (''assign:'' @ uid @ '':'' @ pt_id t) uid (pt_id t) now)) d1 =
       (Inr (), d1\<lparr>planner_assignment := planner_assignment d1 @ new\<rparr>)"
    "\<forall>t \<in> set (planner_template d1). assigned (d1\<lparr>planner_assignment := planner_assignment d1 @ new\<rparr>) uid (pt_id t)"
    "set new \<subseteq> (\<lambda>t. assignment_for (''assign:'' @ uid @ '':'' @ pt_id t) uid (pt_id t) now) ` set (planner_template d1)"
    by blast
  have "create_character uid now name server cls d =
      (Inr uid, d1\<lparr>planner_assignment := planner_assignment d1 @ new\<rparr>)"
    using ins new(1)
    by (simp add: create_character_def and_then_apply reading_apply insert_select_def
        in_transaction_def ret_apply new_character_def)
  with new(2,3) show ?thesis
    by (intro exI [of _ new]) (auto simp: d1_def assigned_def assignment_for_def)
qed

text \<open>
  A character created under an unused id is stored as it was given, and every character
  still has an assignment of every template.
\<close>

theorem create_character_assigns:
  assumes "unused_character_id uid d" and "fully_assigned d"
  shows "\<exists>d'. create_character uid now name server cls d = (Inr uid, d')
      \<and> get_character uid d' = Some (read_character (new_character uid now name server cls))
      \<and> fully_assigned d' \<and> planner_template d' = planner_template d"
proof -
  obtain new where new: "create_character uid now name server cls d =
      (Inr uid, d\<lparr>app_character := app_character d @ [new_character uid now name server cls],
                  planner_assignment := planner_assignment d @ new\<rparr>)"
    "\<forall>t \<in> set (planner_template d).
        assigned (d\<lparr>planner_assignment := planner_assignment d @ new\<rparr>) uid (pt_id t)"
    using create_character_result [OF assms(1)] by blast
  have "find (\<lambda>c. ch_id c = uid) (app_character d) = None"
    using assms(1) by (auto simp: unused_character_id_def list_all_iff find_None)
  moreover have "fully_assigned (d\<lparr>app_character := app_character d @ [new_character uid now name server cls],
      planner_assignment := planner_assignment d @ new\<rparr>)"
    using new(2) assms(2) by (auto simp: fully_assigned_def assigned_def new_character_def list_all_iff)
  ultimately show ?thesis
    using new(1) by (simp add: get_character_def find_append new_character_def)
qed


text \<open>A small database for concrete runs: one character and two templates.\<close>

definition sample_template :: "string \<Rightarrow> template_type \<Rightarrow> string \<Rightarrow> planner_template_row" where
  "sample_template i ty title =
     \<lparr>pt_id = i, pt_title = title, pt_type = ty, pt_estimate_minutes = num 10, pt_recharge_hours = Some (num 8),
      pt_max_stacks = Some (num 3), pt_created_at = ''2026-01-01'', pt_updated_at = ''2026-01-01''\<rparr>"

definition sample_db :: db where
  "sample_db = (empty_db False)\<lparr>
     foreign_keys := True,
     app_character := [new_character ''c1'' ''2026-01-01'' ''Ari'' (Some ''Siel'') None],
     planner_template := [sample_template ''t1'' DAILY ''Daily'', sample_template ''t2'' CHARGE ''Charge''],
     planner_assignment := [assignment_for ''a1'' ''c1'' ''t1'' ''2026-01-01'',
                            assignment_for ''a2'' ''c1'' ''t2'' ''2026-01-01'']\<rparr>"

lemmas sample_defs = sample_db_def sample_template_def new_character_def assignment_for_def empty_db_def

lemma sample_fully_assigned: "fully_assigned sample_db" "unused_character_id ''c2'' sample_db"
  by (simp_all add: fully_assigned_def assigned_def unused_character_id_def sample_defs)

theorem create_character_assigns_witness:
  "\<exists>d'. create_character ''c2'' ''2026-01-02'' ''Bo'' None None sample_db = (Inr ''c2'', d')
      \<and> get_character ''c2'' d' = Some (read_character (new_character ''c2'' ''2026-01-02'' ''Bo'' None None))
      \<and> fully_assigned d' \<and> planner_template d' = planner_template sample_db"
  by (rule create_character_assigns [OF sample_fully_assigned(2,1)])

section \<open>Deleting a character\<close>

text \<open>The tables with a row that belongs to a character.\<close>

definition mentions_character :: "string \<Rightarrow> db \<Rightarrow> bool" where
  "mentions_character c d \<longleftrightarrow>
     has_id ch_id c (app_character d) \<or> has_id bs_character_id c (build_score d)
     \<or> has_id bp_character_id c (build_score_preset d) \<or> has_id pa_character_id c (planner_assignment d)
     \<or> has_id pc_character_id c (planner_completion d) \<or> has_id pu_character_id c (planner_charge_use d)
     \<or> has_id pd_character_id c (planner_duration d) \<or> has_id lr_character_id c (loot_run d)"

lemma parent_exists:
  "has_id f c t \<Longrightarrow> list_all Q t \<Longrightarrow> (\<And>x. Q x \<Longrightarrow> has_id k (f x) T) \<Longrightarrow> has_id k c T"
  by (auto simp: has_id_iff list_all_iff)

lemma mentioned_character_exists:
  assumes "refs_ok d" and "mentions_character c d"
  shows "has_id ch_id c (app_character d)"
  using assms unfolding mentions_character_def refs_ok_def refs_abs
  by (elim conjE disjE) (erule parent_exists, assumption, blast | assumption)+

text \<open>
  C20. With enforced foreign keys, deleting a character leaves nothing of it behind, and every
  reference that is left names an existing row.
\<close>

theorem delete_character_leaves_nothing:
  assumes "foreign_keys d" and "refs_ok d"
  shows "\<not> mentions_character c (snd (delete_character c d)) \<and> refs_ok (snd (delete_character c d))"
proof
  let ?d = "snd (delete_character c d)"
  have fk: "foreign_keys ?d" using assms(1) by (simp add: delete_character_def modify_apply)
  have "enforced_refs d" using assms(2) by (simp add: enforced_refs_def)
  then have "enforced_refs ?d" by (rule keepsD [OF refs.delete_character_keeps])
  with fk show ok: "refs_ok ?d" by (simp add: enforced_refs_def)
  have none: "\<not> has_id ch_id c (app_character ?d)"
    by (simp add: delete_character_def modify_apply has_id_iff)
  with ok show "\<not> mentions_character c ?d" using mentioned_character_exists by blast
qed

theorem delete_character_leaves_nothing_witness:
  "\<not> mentions_character ''c1'' (snd (delete_character ''c1'' sample_db))
   \<and> refs_ok (snd (delete_character ''c1'' sample_db))"
  by (rule delete_character_leaves_nothing)
    (simp_all add: refs_ok_def refs_abs has_id_def sample_defs)

text \<open>
  What the app really runs: \<open>openDesktopDb\<close> switches foreign keys on and then persists,
  and an export that resets the pragmas switches them off again.
\<close>

lemma init_db_result:
  "init_db now d =
     (Inr (), d\<lparr>planner_settings := planner_settings d @ (if has_default d then [] else [default_settings_row now]),
                foreign_keys := True\<rparr>)"
proof (cases "has_default d")
  case True
  then obtain x where "x \<in> set (planner_settings d)" "clash_planner_settings x (default_settings_row now)"
    by (auto simp: has_default_def has_id_iff clash_planner_settings_def default_settings_row_def)
  with True show ?thesis
    by (simp add: init_db_def ensure_defaults_def insert_planner_settings_def and_then_apply modify_apply
        insert_into_ignore)
next
  case False
  then have "\<forall>x \<in> set (planner_settings d). \<not> clash_planner_settings x (default_settings_row now)"
    by (auto simp: has_default_def has_id_iff clash_planner_settings_def default_settings_row_def)
  with False show ?thesis
    by (simp add: init_db_def ensure_defaults_def insert_planner_settings_def and_then_apply modify_apply
        insert_into_ok refs_planner_settings_def)
qed

lemma open_desktop_db_result:
  "open_desktop_db now d =
     (Inr (), d\<lparr>planner_settings := planner_settings d @ (if has_default d then [] else [default_settings_row now]),
                foreign_keys := export_keeps_pragmas d\<rparr>)"
  by (simp add: open_desktop_db_def and_then_apply init_db_result persist_def modify_apply export_effect_def)

text \<open>
  C21. When the export resets the pragmas, the cascades of the schema never run in an opened database:
  deleting a character removes its own row and nothing else.
\<close>

theorem opened_db_never_cascades:
  assumes "\<not> export_keeps_pragmas d"
  shows "delete_character c (snd (open_desktop_db now d)) =
    (Inr (), (snd (open_desktop_db now d))
       \<lparr>app_character := filter (\<lambda>r. ch_id r \<noteq> c) (app_character d)\<rparr>)"
  using assms
  by (simp add: open_desktop_db_result delete_character_def modify_apply delete_app_character_def
      Let_def drop_where_def)

theorem opened_db_never_cascades_witness:
  "delete_character ''c1'' (snd (open_desktop_db ''2026-01-02'' sample_db)) =
    (Inr (), (snd (open_desktop_db ''2026-01-02'' sample_db))
       \<lparr>app_character := filter (\<lambda>r. ch_id r \<noteq> ''c1'') (app_character sample_db)\<rparr>)"
  by (rule opened_db_never_cascades) (simp add: sample_defs)

end
