(* ===== verification/IsoOrder.thy ===== *)
theory IsoOrder
  imports DateTime
begin

text \<open>
  The storage code keeps instants as the text of \<open>toISOString\<close> and compares them as text.
  This theory shows that the order of the texts is the order of the instants, for the years 0
  to 9999 that ISO dates write with four digits.
\<close>

section \<open>The order of text\<close>

lemma str_lt_Cons: "str_lt (x # xs) (y # ys) \<longleftrightarrow>
    (if x = y then str_lt xs ys else (of_char x :: nat) < of_char y)"
  by (simp add: str_lt_def)

lemma str_lt_prefix: "str_lt x y \<Longrightarrow> str_lt (a @ x) (a @ y)"
  by (induction a) (auto simp: str_lt_Cons)

lemma str_lt_same_length:
  "length a = length b \<Longrightarrow> str_lt a b \<Longrightarrow> str_lt (a @ x) (b @ y)"
  by (induction a b rule: list_induct2) (auto simp: str_lt_Cons str_lt_def [of "[]"] split: if_splits)

lemma read_nat_Cons: "read_nat (c # s) = digit_val c * 10 ^ length s + read_nat s"
proof (induction s rule: rev_induct)
  case (snoc x s)
  have "read_nat (c # s @ [x]) = 10 * read_nat (c # s) + digit_val x"
    using read_nat_snoc [of "c # s" x] by simp
  with snoc show ?case by (simp add: algebra_simps)
qed (simp add: read_nat_def)

lemma digit_val_less: "is_digit c \<Longrightarrow> digit_val c < 10"
  by (auto simp: is_digit_def digit_val_def)

lemma digit_val_order:
  "is_digit c \<Longrightarrow> is_digit c' \<Longrightarrow> digit_val c < digit_val c' \<Longrightarrow> (of_char c :: nat) < of_char c'"
  by (auto simp: is_digit_def digit_val_def)

lemma digit_val_inj: "is_digit c \<Longrightarrow> is_digit c' \<Longrightarrow> digit_val c = digit_val c' \<Longrightarrow> c = c'"
proof -
  assume "is_digit c" "is_digit c'" "digit_val c = digit_val c'"
  then have "(of_char c :: nat) = of_char c'" unfolding is_digit_def digit_val_def by linarith
  then show "c = c'" using of_char_nat_eq by blast
qed

lemma read_nat_less: "\<forall>c \<in> set s. is_digit c \<Longrightarrow> read_nat s < 10 ^ length s"
proof (induction s)
  case (Cons c s)
  then have "digit_val c \<le> 9" "read_nat s < 10 ^ length s" using digit_val_less [of c] by auto
  then have "digit_val c * 10 ^ length s + read_nat s < 9 * 10 ^ length s + 10 ^ length s"
    by (intro add_le_less_mono mult_right_mono) auto
  then show ?case by (simp add: read_nat_Cons)
qed (simp add: read_nat_def)

lemma digits_order:
  "length a = length b \<Longrightarrow> \<forall>c \<in> set a. is_digit c \<Longrightarrow> \<forall>c \<in> set b. is_digit c \<Longrightarrow>
   read_nat a < read_nat b \<Longrightarrow> str_lt a b"
proof (induction a b rule: list_induct2)
  case (Cons x xs y ys)
  show ?case
  proof (cases "digit_val x = digit_val y")
    case True
    with Cons.prems have "x = y" by (intro digit_val_inj) auto
    with Cons show ?thesis by (auto simp: str_lt_Cons read_nat_Cons)
  next
    case False
    have "digit_val x < digit_val y"
    proof (rule ccontr)
      assume "\<not> digit_val x < digit_val y"
      with False have "Suc (digit_val y) \<le> digit_val x" by simp
      then have "Suc (digit_val y) * 10 ^ length ys \<le> digit_val x * 10 ^ length ys"
        by (rule mult_right_mono) simp
      then show False
        using read_nat_less [of ys] Cons.prems Cons.hyps by (simp add: read_nat_Cons)
    qed
    with Cons.prems have "(of_char x :: nat) < of_char y" by (intro digit_val_order) auto
    with False show ?thesis by (auto simp: str_lt_Cons)
  qed
qed (simp add: read_nat_def)

lemma show_nat_length_le: "n < 10 ^ k \<Longrightarrow> 0 < k \<Longrightarrow> length (show_nat n) \<le> k"
proof (induction k arbitrary: n)
  case (Suc k)
  show ?case
  proof (cases "n < 10")
    case True
    then show ?thesis by (simp add: show_nat_length_1)
  next
    case False
    with Suc.prems have "0 < k" by (cases k) auto
    moreover have "n div 10 < 10 ^ k" using Suc.prems by (simp add: less_mult_imp_div_less mult.commute)
    ultimately show ?thesis using Suc.IH [of "n div 10"] False by (simp add: show_nat.simps [of n])
  qed
qed simp

lemma padded:
  assumes "0 \<le> i" "i < 10 ^ k" "0 < k"
  shows "length (pad_start k (CHR ''0'') (show_int i)) = k"
    and "\<forall>c \<in> set (pad_start k (CHR ''0'') (show_int i)). is_digit c"
    and "read_nat (pad_start k (CHR ''0'') (show_int i)) = nat i"
proof -
  have "nat i < 10 ^ k" using assms by (simp add: nat_less_iff)
  then show "length (pad_start k (CHR ''0'') (show_int i)) = k"
    using show_nat_length_le [of "nat i" k] assms by (simp add: pad_start_def show_int_def)
  have "is_digit (CHR ''0'')" by (simp add: is_digit_def)
  then show "\<forall>c \<in> set (pad_start k (CHR ''0'') (show_int i)). is_digit c"
    using assms by (auto simp: pad_start_def show_int_def show_nat_digits)
  show "read_nat (pad_start k (CHR ''0'') (show_int i)) = nat i"
    using assms by (simp add: pad_start_def show_int_def read_nat_zeros)
qed

lemma padded_order:
  assumes "0 \<le> i" "i < j" "j < 10 ^ k" "0 < k"
  shows "str_lt (pad_start k (CHR ''0'') (show_int i)) (pad_start k (CHR ''0'') (show_int j))"
  using padded [of i k] padded [of j k] assms by (intro digits_order) auto

section \<open>The order of the calendar\<close>

lemma month_and_day_order:
  "0 \<le> n \<Longrightarrow> n < n' \<Longrightarrow> month_and_day m ls n = (a, b) \<Longrightarrow> month_and_day m ls n' = (a', b') \<Longrightarrow>
   a < a' \<or> (a = a' \<and> b < b')"
proof (induction ls arbitrary: m n n')
  case (Cons l ls)
  have lower: "p \<le> fst (month_and_day p ls k)" for p k
    by (induction p ls k rule: month_and_day.induct) auto
  show ?case
  proof (cases "n < l")
    case True
    then show ?thesis
      using Cons.prems lower [of "m + 1" "n' - l"] by (cases "n' < l") auto
  next
    case False
    then show ?thesis using Cons.prems Cons.IH [of "n - l" "n' - l" "m + 1"] by auto
  qed
qed auto

lemma year_of_day_mono: "d \<le> d' \<Longrightarrow> year_of_day d \<le> year_of_day d'"
proof (rule ccontr)
  assume le: "d \<le> d'" and "\<not> year_of_day d \<le> year_of_day d'"
  then have "year_of_day d' + 1 \<le> year_of_day d" by simp
  from day_from_year_mono [OF this] year_of_day_bounds(2) [of d'] year_of_day_bounds(1) [of d] le
  show False by linarith
qed

lemma civil_order:
  assumes "d < d'"
  shows "year_of d < year_of d' \<or> (year_of d = year_of d' \<and>
    (month_of d < month_of d' \<or> (month_of d = month_of d' \<and> date_of d < date_of d')))"
proof (cases "year_of_day d = year_of_day d'")
  case True
  define y where "y = year_of_day d"
  have "0 \<le> d - day_from_year y" "d - day_from_year y < d' - day_from_year y"
    using assms year_of_day_bounds(1) [of d] by (simp_all add: y_def)
  from month_and_day_order [OF this, of 0 "month_lengths (is_leap y)"]
  show ?thesis
    using True by (auto simp: year_of_def month_of_def date_of_def civil_def Let_def y_def
        intro: prod.collapse)
next
  case False
  with assms year_of_day_mono [of d d'] show ?thesis
    by (simp add: year_of_def civil_def Let_def)
qed

section \<open>The order of ISO dates\<close>

definition four_digit_year :: "int \<Rightarrow> bool" where
  "four_digit_year t \<longleftrightarrow> 0 \<le> year_of (day_of t) \<and> year_of (day_of t) \<le> 9999"

definition iso_time :: "int \<Rightarrow> string" where
  "iso_time s = pad2 (s div 3600000) @ '':'' @ pad2 (s div 60000 mod 60) @ '':''
     @ pad2 (s div 1000 mod 60) @ ''.'' @ pad3 (s mod 1000) @ ''Z''"

definition iso_date :: "int \<Rightarrow> string" where
  "iso_date d = pad4 (year_of d) @ ''-'' @ pad2 (month_of d + 1) @ ''-'' @ pad2 (date_of d) @ ''T''"

lemma iso_split: "four_digit_year t \<Longrightarrow> iso t = iso_date (day_of t) @ iso_time (time_within_day t)"
  by (simp add: iso_def iso_year_def iso_date_def iso_time_def four_digit_year_def Let_def)

lemma pad_lengths:
  "0 \<le> i \<Longrightarrow> i \<le> 99 \<Longrightarrow> length (pad2 i) = 2" "0 \<le> i \<Longrightarrow> i \<le> 999 \<Longrightarrow> length (pad3 i) = 3"
  "0 \<le> i \<Longrightarrow> i \<le> 9999 \<Longrightarrow> length (pad4 i) = 4"
  using padded(1) [of i 2] padded(1) [of i 3] padded(1) [of i 4]
  by (simp_all add: pad2_def pad3_def pad4_def)

lemma pad_orders:
  "0 \<le> i \<Longrightarrow> i < j \<Longrightarrow> j \<le> 99 \<Longrightarrow> str_lt (pad2 i) (pad2 j)"
  "0 \<le> i \<Longrightarrow> i < j \<Longrightarrow> j \<le> 999 \<Longrightarrow> str_lt (pad3 i) (pad3 j)"
  "0 \<le> i \<Longrightarrow> i < j \<Longrightarrow> j \<le> 9999 \<Longrightarrow> str_lt (pad4 i) (pad4 j)"
  using padded_order [of i j 2] padded_order [of i j 3] padded_order [of i j 4]
  by (simp_all add: pad2_def pad3_def pad4_def)

text \<open>A field that is smaller decides, a field that is equal is a common prefix.\<close>

lemma field_less: "str_lt a b \<Longrightarrow> length a = length b \<Longrightarrow> str_lt (a @ x) (b @ y)"
  by (rule str_lt_same_length)

lemma iso_date_less:
  assumes "d < d'" "0 \<le> year_of d" "year_of d' \<le> 9999"
  shows "str_lt (iso_date d @ x) (iso_date d' @ y)"
proof -
  consider (year) "year_of d < year_of d'"
    | (month) "year_of d = year_of d'" "month_of d < month_of d'"
    | (day) "year_of d = year_of d'" "month_of d = month_of d'" "date_of d < date_of d'"
    using civil_order [OF assms(1)] by blast
  then show ?thesis
  proof cases
    case year
    then show ?thesis using assms
      by (simp add: iso_date_def) (intro field_less pad_orders, simp_all add: pad_lengths)
  next
    case month
    then show ?thesis using month_date_bounds(1,2) [of d] month_date_bounds(1,2) [of d']
      by (simp add: iso_date_def)
        (intro str_lt_prefix, simp add: str_lt_Cons,
         intro field_less pad_orders, simp_all add: pad_lengths)
  next
    case day
    then show ?thesis using month_date_bounds(3,4) [of d] month_date_bounds(3,4) [of d']
      by (simp add: iso_date_def)
        (intro str_lt_prefix, simp add: str_lt_Cons, intro str_lt_prefix, simp add: str_lt_Cons,
         intro field_less pad_orders, simp_all add: pad_lengths)
  qed
qed


lemma div_mod_order:
  assumes "0 < k" "x < (y :: int)"
  shows "x div k < y div k \<or> (x div k = y div k \<and> x mod k < y mod k)"
proof (cases "x div k = y div k")
  case True
  have "x mod k = x - k * (x div k)" "y mod k = y - k * (y div k)"
    by (simp_all only: minus_mult_div_eq_mod)
  then have "x mod k = x - k * (y div k)" "y mod k = y - k * (y div k)"
    unfolding True by simp_all
  with assms(2) True show ?thesis by linarith
next
  case False
  have "x div k \<le> y div k" using assms by (intro zdiv_mono1) simp_all
  with False show ?thesis by linarith
qed

text \<open>The four fields of the time of day, most significant first.\<close>

lemma time_fields:
  assumes "s < s'" "0 \<le> s"
  shows "s div 3600000 < s' div 3600000
    \<or> (s div 3600000 = s' div 3600000 \<and> (s div 60000 mod 60 < s' div 60000 mod 60
    \<or> (s div 60000 mod 60 = s' div 60000 mod 60 \<and> (s div 1000 mod 60 < s' div 1000 mod 60
    \<or> (s div 1000 mod 60 = s' div 1000 mod 60 \<and> s mod 1000 < s' mod (1000 :: int))))))"
proof -
  have lex: "x < y \<Longrightarrow> x div k < y div k \<or> (x div k = y div k \<and> x mod k < y mod k)"
    if "0 < k" for x y k :: int
    by (rule div_mod_order [OF that])
  have d1: "x div 1000 div 60 = x div 60000" "x div 60000 div 60 = x div 3600000" for x :: int
    by (simp_all only: zdiv_zmult2_eq [of 60, symmetric]) simp_all
  define a a' where "a = s div 1000" and "a' = s' div 1000"
  define b b' where "b = s div 60000" and "b' = s' div 60000"
  define c c' where "c = s div 3600000" and "c' = s' div 3600000"
  have ab: "a div 60 = b" "a' div 60 = b'" "b div 60 = c" "b' div 60 = c'"
    by (simp_all only: a_def a'_def b_def b'_def c_def c'_def d1)
  have "a < a' \<or> (a = a' \<and> s mod 1000 < s' mod 1000)"
    unfolding a_def a'_def using assms(1) by (intro lex) simp_all
  moreover have "a < a' \<Longrightarrow> b < b' \<or> (b = b' \<and> a mod 60 < a' mod 60)"
    using lex [of 60 a a'] by (simp add: ab)
  moreover have "b < b' \<Longrightarrow> c < c' \<or> (c = c' \<and> b mod 60 < b' mod 60)"
    using lex [of 60 b b'] by (simp add: ab)
  moreover have "a = a' \<Longrightarrow> b = b'" "b = b' \<Longrightarrow> c = c'" using ab by metis+
  ultimately have "c < c' \<or> (c = c' \<and> (b mod 60 < b' mod 60 \<or> (b mod 60 = b' mod 60 \<and>
      (a mod 60 < a' mod 60 \<or> (a mod 60 = a' mod 60 \<and> s mod 1000 < s' mod 1000)))))"
    by metis
  then show ?thesis unfolding a_def a'_def b_def b'_def c_def c'_def .
qed

lemma iso_time_less:
  assumes "s < s'" "0 \<le> s" "s' < ms_per_day"
  shows "str_lt (iso_time s) (iso_time s')"
proof -
  define h h' where "h = s div 3600000" and "h' = s' div 3600000"
  define m m' where "m = s div 60000 mod 60" and "m' = s' div 60000 mod 60"
  define c c' where "c = s div 1000 mod 60" and "c' = s' div 1000 mod 60"
  define f f' where "f = s mod 1000" and "f' = s' mod 1000"
  have h: "0 \<le> h" "h \<le> 99" "0 \<le> h'" "h' \<le> 99"
    using assms zdiv_mono1 [of s 86399999 3600000] zdiv_mono1 [of s' 86399999 3600000]
    by (simp_all add: h_def h'_def ms_per_day_def pos_imp_zdiv_nonneg_iff)
  have m: "0 \<le> m" "m \<le> 99" "0 \<le> m'" "m' \<le> 99"
    using pos_mod_bound [of 60 "s div 60000"] pos_mod_bound [of 60 "s' div 60000"]
    by (simp_all add: m_def m'_def)
  have c: "0 \<le> c" "c \<le> 99" "0 \<le> c'" "c' \<le> 99"
    using pos_mod_bound [of 60 "s div 1000"] pos_mod_bound [of 60 "s' div 1000"]
    by (simp_all add: c_def c'_def)
  have f: "0 \<le> f" "f \<le> 999" "0 \<le> f'" "f' \<le> 999"
    using pos_mod_bound [of 1000 s] pos_mod_bound [of 1000 s'] by (simp_all add: f_def f'_def)
  have shape: "iso_time s = pad2 h @ '':'' @ pad2 m @ '':'' @ pad2 c @ ''.'' @ pad3 f @ ''Z''"
    "iso_time s' = pad2 h' @ '':'' @ pad2 m' @ '':'' @ pad2 c' @ ''.'' @ pad3 f' @ ''Z''"
    by (simp_all add: iso_time_def h_def h'_def m_def m'_def c_def c'_def f_def f'_def)
  consider "h < h'" | "h = h'" "m < m'" | "h = h'" "m = m'" "c < c'"
    | "h = h'" "m = m'" "c = c'" "f < f'"
    using time_fields [OF assms(1,2)]
    unfolding h_def h'_def m_def m'_def c_def c'_def f_def f'_def by blast
  then show ?thesis
  proof cases
    case 1
    with h show ?thesis unfolding shape
      by (intro field_less pad_orders) (simp_all add: pad_lengths)
  next
    case 2
    with m show ?thesis unfolding shape
      by simp (intro str_lt_prefix, simp add: str_lt_Cons, intro field_less pad_orders,
        simp_all add: pad_lengths)
  next
    case 3
    with c show ?thesis unfolding shape
      by simp (intro str_lt_prefix, simp add: str_lt_Cons, intro str_lt_prefix,
        simp add: str_lt_Cons, intro field_less pad_orders, simp_all add: pad_lengths)
  next
    case 4
    with f show ?thesis unfolding shape
      by simp (intro str_lt_prefix, simp add: str_lt_Cons, intro str_lt_prefix,
        simp add: str_lt_Cons, intro str_lt_prefix, simp add: str_lt_Cons,
        intro field_less pad_orders, simp_all add: pad_lengths)
  qed
qed

lemma iso_less:
  assumes "s < t" "four_digit_year s" "four_digit_year t"
  shows "str_lt (iso s) (iso t)"
proof -
  have le: "day_of s \<le> day_of t" using assms(1) by (simp add: day_of_def zdiv_mono1 ms_per_day_def)
  have shape: "iso s = iso_date (day_of s) @ iso_time (time_within_day s)"
    "iso t = iso_date (day_of t) @ iso_time (time_within_day t)"
    using assms by (simp_all add: iso_split)
  show ?thesis
  proof (cases "day_of s < day_of t")
    case True
    then show ?thesis unfolding shape
      using assms by (intro iso_date_less) (simp_all add: four_digit_year_def)
  next
    case False
    with le have day: "day_of s = day_of t" by simp
    have "time_within_day s < time_within_day t"
      using assms(1) day unfolding day_of_def time_within_day_def
      by (simp add: minus_div_mult_eq_mod [symmetric])
    then have "str_lt (iso_time (time_within_day s)) (iso_time (time_within_day t))"
      by (rule iso_time_less) (simp_all add: time_within_day_def ms_per_day_def)
    then show ?thesis unfolding shape day by (rule str_lt_prefix)
  qed
qed

theorem iso_less_iff:
  assumes "four_digit_year s" "four_digit_year t"
  shows "str_lt (iso s) (iso t) \<longleftrightarrow> s < t"
  using iso_less [of s t] iso_less [of t s] assms str_le_antisym
  by (cases s t rule: linorder_cases) (auto simp: str_lt_def)

lemma iso_le_iff:
  assumes "four_digit_year s" "four_digit_year t"
  shows "str_le (iso s) (iso t) \<longleftrightarrow> s \<le> t"
  using iso_less_iff [OF assms(2,1)] not_str_lt [of "iso t" "iso s"] by (simp add: not_less)

lemma iso_inj:
  assumes "four_digit_year s" "four_digit_year t" "iso s = iso t"
  shows "s = t"
  using iso_less_iff [OF assms(1,2)] iso_less_iff [OF assms(2,1)] assms(3)
  by (simp add: str_lt_def)

lemma day_from_year_le: "0 \<le> d \<Longrightarrow> d < 2932897 \<Longrightarrow> 0 \<le> year_of d \<and> year_of d \<le> 9999"
proof -
  assume d: "0 \<le> d" "d < 2932897"
  have "year_of_day 0 \<le> year_of_day d" "year_of_day d \<le> year_of_day 2932896"
    using d by (intro year_of_day_mono; simp)+
  moreover have "year_of_day 0 = 1970"
    by (rule year_of_day_unique) (simp_all add: day_from_year_def)
  moreover have "year_of_day 2932896 = 9999"
    by (rule year_of_day_unique) (simp_all add: day_from_year_def)
  ultimately show ?thesis by (simp add: year_of_def civil_def Let_def)
qed

text \<open>The instants from 1970 to 9999.\<close>

lemma four_digit_yearI:
  assumes "0 \<le> t" "t < 253402300800000"
  shows "four_digit_year t"
  unfolding four_digit_year_def
proof (rule day_from_year_le)
  show "0 \<le> day_of t" using assms by (simp add: day_of_def ms_per_day_def pos_imp_zdiv_nonneg_iff)
  have "day_of t \<le> 253402300799999 div ms_per_day"
    unfolding day_of_def using assms by (intro zdiv_mono1) (simp_all add: ms_per_day_def)
  then show "day_of t < 2932897" by (simp add: ms_per_day_def)
qed


text \<open>Conversely, a four-digit year bounds the instant, so that it is a valid time value.\<close>

lemma four_digit_year_range:
  assumes "four_digit_year t"
  shows "- 63000000000000 \<le> t \<and> t < 253402300800000"
proof -
  define d where "d = day_of t"
  have y: "0 \<le> year_of_day d" "year_of_day d + 1 \<le> 10000"
    using assms by (simp_all add: four_digit_year_def d_def year_of_def civil_def Let_def)
  have "day_from_year 0 \<le> d" "d < day_from_year 10000"
    using year_of_day_bounds [of d] day_from_year_mono [OF y(1)] day_from_year_mono [OF y(2)] by linarith+
  then have "- 719528 \<le> d" "d \<le> 2932896" by (simp_all add: day_from_year_def)
  moreover have "86400000 * d \<le> t" "t < 86400000 * d + 86400000"
    using int_div_bounds [of 86400000 t] by (simp_all add: d_def day_of_def ms_per_day_def)
  ultimately show ?thesis by simp
qed

lemma iso_of_num: "\<bar>x\<bar> \<le> 8640000000000000 \<Longrightarrow> iso_of_number (num x) = Inr (iso x)"
  by (simp add: num_def)

lemma four_digit_between:
  "four_digit_year a \<Longrightarrow> four_digit_year b \<Longrightarrow> a \<le> x \<Longrightarrow> x \<le> b \<Longrightarrow> four_digit_year x"
proof -
  assume ab: "four_digit_year a" "four_digit_year b" and x: "a \<le> x" "x \<le> b"
  have "day_of a \<le> day_of x" "day_of x \<le> day_of b"
    unfolding day_of_def using x by (intro zdiv_mono1; simp add: ms_per_day_def)+
  then have "year_of_day (day_of a) \<le> year_of_day (day_of x)" "year_of_day (day_of x) \<le> year_of_day (day_of b)"
    by (auto intro: year_of_day_mono)
  with ab show ?thesis by (simp add: four_digit_year_def year_of_def civil_def Let_def)
qed


section \<open>Reading ISO dates\<close>

text \<open>
  \<open>Date.parse\<close> on the format that \<open>toISOString\<close> writes, the only format that
  ECMAScript fixes.
\<close>

definition day_of_civil :: "int \<Rightarrow> int \<Rightarrow> int \<Rightarrow> int" where
  "day_of_civil y m d = day_from_year y + sum_list (take (nat m) (month_lengths (is_leap y))) + (d - 1)"

definition parse_iso :: "string \<Rightarrow> int option" where
  "parse_iso s =
     (if length s \<noteq> 24 then None
      else let part = (\<lambda>i n. int (read_nat (take n (drop i s)))) in
        Some (day_of_civil (part 0 4) (part 5 2 - 1) (part 8 2) * ms_per_day
              + part 11 2 * 3600000 + part 14 2 * 60000 + part 17 2 * 1000 + part 20 3))"

lemma month_and_day_sum:
  "0 \<le> n \<Longrightarrow> month_and_day m ls n = (a, b) \<Longrightarrow>
   m \<le> a \<and> n = sum_list (take (nat (a - m)) ls) + (b - 1)"
proof (induction ls arbitrary: m n)
  case (Cons l ls)
  show ?case
  proof (cases "n < l")
    case False
    with Cons.prems Cons.IH [of "n - l" "m + 1"]
    have *: "m + 1 \<le> a" "n - l = sum_list (take (nat (a - (m + 1))) ls) + (b - 1)" by auto
    moreover have "nat (a - m) = Suc (nat (a - (m + 1)))" using *(1) by simp
    ultimately show ?thesis by simp
  qed (use Cons.prems in auto)
qed auto

lemma day_of_civil_civil: "day_of_civil (year_of d) (month_of d) (date_of d) = d"
proof -
  define y where "y = year_of_day d"
  obtain m b where md: "month_and_day 0 (month_lengths (is_leap y)) (d - day_from_year y) = (m, b)" by force
  have "0 \<le> d - day_from_year y" using year_of_day_bounds(1) [of d] by (simp add: y_def)
  from month_and_day_sum [OF this md]
  have "d = day_from_year y + sum_list (take (nat m) (month_lengths (is_leap y))) + (b - 1)" by simp
  moreover have "year_of d = y" "month_of d = m" "date_of d = b"
    using md by (simp_all add: year_of_def month_of_def date_of_def civil_def Let_def y_def)
  ultimately show ?thesis by (simp add: day_of_civil_def)
qed

lemma time_sum:
  "s div 3600000 * 3600000 + s div 60000 mod 60 * 60000 + s div 1000 mod 60 * 1000 + s mod 1000 = (s :: int)"
proof -
  have "s div 1000 = s div 60000 * 60 + s div 1000 mod 60"
    using div_mult_mod_eq [of "s div 1000" 60] zdiv_zmult2_eq [of 60 s 1000] by simp
  moreover have "s div 60000 = s div 3600000 * 60 + s div 60000 mod 60"
    using div_mult_mod_eq [of "s div 60000" 60] zdiv_zmult2_eq [of 60 s 60000] by simp
  moreover have "s = s div 1000 * 1000 + s mod 1000" by simp
  ultimately show ?thesis by linarith
qed

lemma read_pads:
  "0 \<le> i \<Longrightarrow> i \<le> 99 \<Longrightarrow> int (read_nat (pad2 i)) = i"
  "0 \<le> i \<Longrightarrow> i \<le> 999 \<Longrightarrow> int (read_nat (pad3 i)) = i"
  "0 \<le> i \<Longrightarrow> i \<le> 9999 \<Longrightarrow> int (read_nat (pad4 i)) = i"
  using padded(3) [of i 2] padded(3) [of i 3] padded(3) [of i 4]
  by (simp_all add: pad2_def pad3_def pad4_def)

theorem parse_iso_iso:
  assumes "four_digit_year t"
  shows "parse_iso (iso t) = Some t"
proof -
  define d s where "d = day_of t" and "s = time_within_day t"
  define y m b where "y = year_of d" and "m = month_of d + 1" and "b = date_of d"
  define h n c f where "h = s div 3600000" and "n = s div 60000 mod 60" and "c = s div 1000 mod 60"
    and "f = s mod 1000"
  have s: "0 \<le> s" "s \<le> 86399999" by (simp_all add: s_def time_within_day_def ms_per_day_def)
  have r: "0 \<le> y" "y \<le> 9999" "0 \<le> m" "m \<le> 99" "0 \<le> b" "b \<le> 99"
    using assms month_date_bounds [of d] by (simp_all add: four_digit_year_def y_def m_def b_def d_def)
  have q: "0 \<le> h" "h \<le> 99" "0 \<le> n" "n \<le> 99" "0 \<le> c" "c \<le> 99" "0 \<le> f" "f \<le> 999"
    using s zdiv_mono1 [of s 86399999 3600000] pos_mod_bound [of 60 "s div 60000"]
      pos_mod_bound [of 60 "s div 1000"] pos_mod_bound [of 1000 s]
    by (simp_all add: h_def n_def c_def f_def pos_imp_zdiv_nonneg_iff)
  have shape: "iso t = pad4 y @ ''-'' @ pad2 m @ ''-'' @ pad2 b @ ''T'' @ pad2 h @ '':'' @ pad2 n @ '':''
      @ pad2 c @ ''.'' @ pad3 f @ ''Z''"
    using iso_split [OF assms]
    by (simp add: iso_date_def iso_time_def y_def m_def b_def h_def n_def c_def f_def d_def s_def)
  note len = pad_lengths(1) [OF r(3,4)] pad_lengths(1) [OF r(5,6)] pad_lengths(3) [OF r(1,2)]
    pad_lengths(1) [OF q(1,2)] pad_lengths(1) [OF q(3,4)] pad_lengths(1) [OF q(5,6)] pad_lengths(2) [OF q(7,8)]
  have "parse_iso (iso t) = Some (day_of_civil y (m - 1) b * ms_per_day
      + h * 3600000 + n * 60000 + c * 1000 + f)"
    unfolding parse_iso_def Let_def shape using r q by (simp add: len read_pads)
  also have "day_of_civil y (m - 1) b = d" by (simp add: y_def m_def b_def day_of_civil_civil)
  also have "d * ms_per_day + h * 3600000 + n * 60000 + c * 1000 + f = d * ms_per_day + s"
    using time_sum [of s] by (simp add: h_def n_def c_def f_def)
  also have "\<dots> = t" by (simp add: d_def s_def day_of_def time_within_day_def)
  finally show ?thesis .
qed

end
