(* ===== verification/Planner.thy ===== *)
theory Planner
  imports Characters IsoOrder
begin

text \<open>
  The planner of the desktop app (\<open>main/storage/domains/planner.ts\<close>): reset settings,
  task templates, the daily, weekly and charge lists of a character, completions, charge uses and
  measured durations. Fresh ids and clock readings are arguments; a loop that needs several takes
  them by the position of the loop.
\<close>

section \<open>Settings\<close>

record settings =
  se_daily_reset_hhmm :: string
  se_weekly_reset_day :: jsnum
  se_updated_at :: string

datatype settings_scope = DefaultScope | ServerScope

record settings_bundle =
  sb_default :: settings
  sb_server :: "(string \<times> settings) option"
  sb_effective :: settings
  sb_effective_scope :: settings_scope

definition normalize_server_name :: "string option \<Rightarrow> string option" where
  "normalize_server_name server = trimmed_opt server"

definition planner_settings_id_for_server :: "string \<Rightarrow> string" where
  "planner_settings_id_for_server server = ''server:'' @ server"

definition read_planner_settings_by_id :: "string \<Rightarrow> db \<Rightarrow> settings option" where
  "read_planner_settings_by_id i d =
     map_option (\<lambda>r. \<lparr>se_daily_reset_hhmm = ps_daily_reset_hhmm r,
                        se_weekly_reset_day = ps_weekly_reset_day r,
                        se_updated_at = ps_updated_at r\<rparr>)
       (find (\<lambda>r. ps_id r = i) (planner_settings d))"

definition get_planner_settings :: "string \<Rightarrow> (db, settings) op" where
  "get_planner_settings now = reading (\<lambda>d.
     case read_planner_settings_by_id ''default'' d of
       Some s \<Rightarrow> ret s
     | None \<Rightarrow> and_then (insert_planner_settings Ignore (default_settings_row now)) (\<lambda>_.
         ret \<lparr>se_daily_reset_hhmm = ''09:00'', se_weekly_reset_day = num 1, se_updated_at = now\<rparr>))"

definition get_planner_settings_bundle :: "string \<Rightarrow> string option \<Rightarrow> (db, settings_bundle) op" where
  "get_planner_settings_bundle now server =
     and_then (get_planner_settings now) (\<lambda>base. reading (\<lambda>d. ret
       (let only_default = \<lparr>sb_default = base, sb_server = None, sb_effective = base,
                            sb_effective_scope = DefaultScope\<rparr>
        in case normalize_server_name server of
             None \<Rightarrow> only_default
           | Some s \<Rightarrow>
               (case read_planner_settings_by_id (planner_settings_id_for_server s) d of
                  None \<Rightarrow> only_default
                | Some row \<Rightarrow> \<lparr>sb_default = base, sb_server = Some (s, row), sb_effective = row,
                                 sb_effective_scope = ServerScope\<rparr>))))"

definition get_planner_settings_effective ::
  "string \<Rightarrow> string option \<Rightarrow> (db, settings \<times> settings_scope) op" where
  "get_planner_settings_effective now server =
     and_then (get_planner_settings_bundle now server) (\<lambda>b.
       ret (sb_effective b, sb_effective_scope b))"

text \<open>\<open>INSERT ... ON CONFLICT(id) DO UPDATE\<close> of a settings row.\<close>

definition save_planner_settings :: "string \<Rightarrow> string \<Rightarrow> jsnum \<Rightarrow> string \<Rightarrow> (db, unit) op" where
  "save_planner_settings i hhmm day now =
     not_null day (reading (\<lambda>d.
       if list_ex (\<lambda>r. ps_id r = i) (planner_settings d)
       then modify (planner_settings_update (update_where (\<lambda>r. ps_id r = i)
              (\<lambda>r. r\<lparr>ps_daily_reset_hhmm := hhmm, ps_weekly_reset_day := day, ps_updated_at := now\<rparr>)))
       else insert_planner_settings Abort
              \<lparr>ps_id = i, ps_daily_reset_hhmm = hhmm, ps_weekly_reset_day = day, ps_updated_at = now\<rparr>))"

definition set_planner_settings_default :: "string \<Rightarrow> string \<Rightarrow> jsnum \<Rightarrow> (db, unit) op" where
  "set_planner_settings_default now hhmm day = save_planner_settings ''default'' hhmm day now"

definition set_planner_settings :: "string \<Rightarrow> string \<Rightarrow> jsnum \<Rightarrow> (db, unit) op" where
  "set_planner_settings now hhmm day = set_planner_settings_default now hhmm day"

definition set_planner_settings_for_server ::
  "string \<Rightarrow> string \<Rightarrow> string \<Rightarrow> jsnum \<Rightarrow> (db, unit) op" where
  "set_planner_settings_for_server now server hhmm day =
     (case normalize_server_name (Some server) of
        None \<Rightarrow> ret ()
      | Some s \<Rightarrow> save_planner_settings (planner_settings_id_for_server s) hhmm day now)"

definition clear_planner_settings_for_server :: "string \<Rightarrow> (db, unit) op" where
  "clear_planner_settings_for_server server =
     (case normalize_server_name (Some server) of
        None \<Rightarrow> ret ()
      | Some s \<Rightarrow> modify (delete_planner_settings (\<lambda>r. ps_id r = planner_settings_id_for_server s)))"

section \<open>Templates\<close>

fun type_name :: "template_type \<Rightarrow> string" where
  "type_name DAILY = ''DAILY''"
| "type_name WEEKLY = ''WEEKLY''"
| "type_name CHARGE = ''CHARGE''"

definition list_planner_templates :: "db \<Rightarrow> planner_template_row list" where
  "list_planner_templates d =
     order_by (then_by (asc (\<lambda>r. type_name (pt_type r))) (asc pt_title)) (planner_template d)"

text \<open>The charge columns are only kept for CHARGE templates.\<close>

definition charge_column :: "template_type \<Rightarrow> jsnum option \<Rightarrow> jsnum option" where
  "charge_column ty v = (if ty = CHARGE then bind_num_opt v else None)"

definition estimate_column :: "jsnum option \<Rightarrow> jsnum" where
  "estimate_column v = nonneg_floor (case v of None \<Rightarrow> num 0 | Some x \<Rightarrow> x)"

definition create_planner_template ::
  "string \<Rightarrow> string \<Rightarrow> string \<Rightarrow> template_type \<Rightarrow> jsnum option \<Rightarrow> jsnum option \<Rightarrow> jsnum option \<Rightarrow>
   (db, string) op" where
  "create_planner_template uid now title ty estimate_minutes recharge_hours max_stacks =
     and_then (not_null (estimate_column estimate_minutes) (insert_planner_template Abort
       \<lparr>pt_id = uid, pt_title = title, pt_type = ty,
        pt_estimate_minutes = estimate_column estimate_minutes,
        pt_recharge_hours = charge_column ty recharge_hours,
        pt_max_stacks = charge_column ty max_stacks,
        pt_created_at = now, pt_updated_at = now\<rparr>)) (\<lambda>_.
     and_then (reading (\<lambda>d. insert_select (app_character d) (\<lambda>c.
       insert_planner_assignment Ignore
         (assignment_for (''assign:'' @ uid @ '':'' @ ch_id c) (ch_id c) uid now)))) (\<lambda>_.
     ret uid))"

definition update_planner_template ::
  "string \<Rightarrow> string \<Rightarrow> string \<Rightarrow> template_type \<Rightarrow> jsnum option \<Rightarrow> jsnum option \<Rightarrow> jsnum option \<Rightarrow>
   (db, unit) op" where
  "update_planner_template now uid title ty estimate_minutes recharge_hours max_stacks =
     reading (\<lambda>d.
       if estimate_column estimate_minutes = NaN \<and> has_id pt_id uid (planner_template d)
       then throw (Constraint ''NOT NULL'')
       else modify (planner_template_update (update_where (\<lambda>r. pt_id r = uid)
         (\<lambda>r. r\<lparr>pt_title := title, pt_type := ty,
                 pt_estimate_minutes := estimate_column estimate_minutes,
                 pt_recharge_hours := charge_column ty recharge_hours,
                 pt_max_stacks := charge_column ty max_stacks, pt_updated_at := now\<rparr>))))"

definition delete_planner_template_by_id :: "string \<Rightarrow> (db, unit) op" where
  "delete_planner_template_by_id template_id =
     modify (delete_planner_template (\<lambda>r. pt_id r = template_id))"

section \<open>Presets\<close>

record preset_template =
  pr_title :: string
  pr_type :: template_type
  pr_estimate_minutes :: jsnum
  pr_recharge_hours :: "jsnum option"
  pr_max_stacks :: "jsnum option"

definition template_type_of :: "jsval \<Rightarrow> template_type option" where
  "template_type_of v =
     (if v = Str ''DAILY'' then Some DAILY else if v = Str ''WEEKLY'' then Some WEEKLY
      else if v = Str ''CHARGE'' then Some CHARGE else None)"

text \<open>One entry of the preset: skipped unless it is an object with a title and a known type.\<close>

definition normalize_preset_template :: "jsval \<Rightarrow> preset_template option" where
  "normalize_preset_template raw =
     (if \<not> is_object raw then None
      else let title = trim (str_or [] (field raw ''title'')) in
        if title = [] then None
        else case template_type_of (field raw ''type'') of
          None \<Rightarrow> None
        | Some ty \<Rightarrow> Some
            \<lparr>pr_title = title, pr_type = ty,
             pr_estimate_minutes =
               (case num_of (field raw ''estimateMinutes'') of Some x \<Rightarrow> nonneg_floor x | None \<Rightarrow> num 0),
             pr_recharge_hours = (if ty = CHARGE then num_of (field raw ''rechargeHours'') else None),
             pr_max_stacks = (if ty = CHARGE then num_of (field raw ''maxStacks'') else None)\<rparr>)"

text \<open>
  \<open>`${type}:${title.trim().toLowerCase()}`\<close>; \<open>lower\<close> is
  \<open>String.prototype.toLowerCase\<close>, whose Unicode tables the model leaves open.
\<close>

definition make_key :: "(string \<Rightarrow> string) \<Rightarrow> template_type \<Rightarrow> string \<Rightarrow> string" where
  "make_key lower ty title = type_name ty @ '':'' @ lower (trim title)"

text \<open>The loop carries the keys seen, the number created and the number skipped.\<close>

definition preset_step ::
  "(string \<Rightarrow> string) \<Rightarrow> (nat \<Rightarrow> string) \<Rightarrow> (nat \<Rightarrow> string) \<Rightarrow> nat \<times> preset_template \<Rightarrow>
   string list \<times> nat \<times> nat \<Rightarrow> (db, string list \<times> nat \<times> nat) op" where
  "preset_step lower ids nows = (\<lambda>(i, t) (keys, created, skipped).
     let key = make_key lower (pr_type t) (pr_title t) in
     if key \<in> set keys then ret (keys, created, skipped + 1)
     else and_then (create_planner_template (ids i) (nows i) (pr_title t) (pr_type t)
            (Some (pr_estimate_minutes t)) (pr_recharge_hours t) (pr_max_stacks t)) (\<lambda>_.
          ret (key # keys, created + 1, skipped)))"

definition apply_planner_preset ::
  "(string \<Rightarrow> string) \<Rightarrow> (nat \<Rightarrow> string) \<Rightarrow> (nat \<Rightarrow> string) \<Rightarrow> string \<Rightarrow> jsval list \<Rightarrow>
   (db, nat \<times> nat) op" where
  "apply_planner_preset lower ids nows mode templates =
     (let normalized = List.map_filter normalize_preset_template templates in
      and_then (if mode = ''replace'' then modify (delete_planner_template (\<lambda>_. True)) else ret ()) (\<lambda>_.
      reading (\<lambda>d.
        let existing = map (\<lambda>r. make_key lower (pt_type r) (pt_title r)) (planner_template d) in
        and_then (for_acc (enumerate 0 normalized) (existing, 0, 0) (preset_step lower ids nows))
          (\<lambda>(keys, created, skipped). ret (created, skipped)))))"


section \<open>The overview\<close>

record checklist_item =
  ck_template_id :: string
  ck_title :: string
  ck_type :: template_type
  ck_estimate_minutes :: jsnum
  ck_completed :: bool

record charge_item =
  cg_template_id :: string
  cg_title :: string
  cg_recharge_hours :: jsnum
  cg_max_stacks :: jsnum
  cg_used_count_in_window :: nat
  cg_available :: jsnum
  cg_next_recharge_at :: "string option"

record overview =
  ov_now :: string
  ov_daily_key :: string
  ov_weekly_key :: string
  ov_daily_reset_hhmm :: string
  ov_weekly_reset_day :: jsnum
  ov_character :: app_character_row
  ov_daily :: "checklist_item list"
  ov_weekly :: "checklist_item list"
  ov_charges :: "charge_item list"

text \<open>The templates with an enabled assignment of the character, by type and title.\<close>

definition assigned_templates :: "string \<Rightarrow> db \<Rightarrow> planner_template_row list" where
  "assigned_templates c d =
     order_by (then_by (asc (\<lambda>t. type_name (pt_type t))) (asc pt_title))
       (concat (map (\<lambda>a. filter (\<lambda>t. pt_id t = pa_template_id a) (planner_template d))
         (filter (\<lambda>a. pa_character_id a = c \<and> pa_enabled a) (planner_assignment d))))"

text \<open>The templates that the character has completed in the period \<open>key\<close>.\<close>

definition done_in_period :: "string \<Rightarrow> string \<Rightarrow> db \<Rightarrow> string list" where
  "done_in_period c key d =
     map pc_template_id (filter (\<lambda>r. pc_character_id r = c \<and> pc_period_key r = key) (planner_completion d))"

definition checklist_item_of :: "string list \<Rightarrow> planner_template_row \<Rightarrow> checklist_item" where
  "checklist_item_of finished t =
     \<lparr>ck_template_id = pt_id t, ck_title = pt_title t, ck_type = pt_type t,
      ck_estimate_minutes = pt_estimate_minutes t, ck_completed = (pt_id t \<in> set finished)\<rparr>"

definition num_or_zero :: "jsnum option \<Rightarrow> jsnum" where
  "num_or_zero v = (case v of None \<Rightarrow> num 0 | Some x \<Rightarrow> x)"

definition window_ms :: "jsnum \<Rightarrow> jsnum" where
  "window_ms recharge_hours = num_mul (num_mul (num_mul recharge_hours (num 60)) (num 60)) (num 1000)"

text \<open>The uses of a charge that are later than the cutoff, oldest first.\<close>

definition uses_after :: "string \<Rightarrow> string \<Rightarrow> string \<Rightarrow> db \<Rightarrow> string list" where
  "uses_after c t cutoff d =
     order_by (\<lambda>x y. str_le x y)
       (map pu_used_at (filter (\<lambda>r. pu_character_id r = c \<and> pu_template_id r = t
          \<and> str_lt cutoff (pu_used_at r)) (planner_charge_use d)))"

text \<open>\<open>new Date(new Date(s).getTime() + ms).toISOString()\<close>.\<close>

definition recharge_at :: "host \<Rightarrow> string \<Rightarrow> jsnum \<Rightarrow> err + string" where
  "recharge_at h used_at ms =
     iso_of_number (num_add (case parse_date h used_at of None \<Rightarrow> NaN | Some t \<Rightarrow> num t) ms)"

definition charge_item_of :: "host \<Rightarrow> int \<Rightarrow> string \<Rightarrow> db \<Rightarrow> planner_template_row \<Rightarrow> err + charge_item" where
  "charge_item_of h now c d t =
     (let recharge_hours = num_or_zero (pt_recharge_hours t);
          max_stacks = num_or_zero (pt_max_stacks t);
          ms = window_ms recharge_hours
      in case iso_of_number (num_sub (num now) ms) of
           Inl e \<Rightarrow> Inl e
         | Inr cutoff \<Rightarrow>
             (let uses = uses_after c (pt_id t) cutoff d;
                  available = num_max (num 0) (num_sub max_stacks (num (int (length uses))));
                  item = (\<lambda>next. \<lparr>cg_template_id = pt_id t, cg_title = pt_title t,
                     cg_recharge_hours = recharge_hours, cg_max_stacks = max_stacks,
                     cg_used_count_in_window = length uses, cg_available = available,
                     cg_next_recharge_at = next\<rparr>)
              in case uses of
                   [] \<Rightarrow> Inr (item None)
                 | first # _ \<Rightarrow>
                     (if num_le max_stacks available then Inr (item None)
                      else case recharge_at h first ms of
                             Inl e \<Rightarrow> Inl e
                           | Inr next \<Rightarrow> Inr (item (Some next)))))"

definition get_planner_overview :: "host \<Rightarrow> int \<Rightarrow> string \<Rightarrow> string option \<Rightarrow> (db, overview) op" where
  "get_planner_overview h clock character_id now_iso =
     (let now = date_or_now h clock now_iso in
      reading (\<lambda>d. case get_character character_id d of
        None \<Rightarrow> throw (Thrown ''character_not_found'')
      | Some character \<Rightarrow>
          and_then (get_planner_settings_effective (iso clock) (ch_server character)) (\<lambda>(settings, scope).
          let daily_key = daily_period_key (tz h) now (se_daily_reset_hhmm settings);
              weekly_key = weekly_period_key (tz h) now (se_daily_reset_hhmm settings)
                             (se_weekly_reset_day settings) in
          reading (\<lambda>d.
            let rows = assigned_templates character_id d in
            and_then (outcome (collect (charge_item_of h now character_id d)
                (filter (\<lambda>t. pt_type t = CHARGE) rows))) (\<lambda>charges.
            ret \<lparr>ov_now = iso now, ov_daily_key = daily_key, ov_weekly_key = weekly_key,
                 ov_daily_reset_hhmm = se_daily_reset_hhmm settings,
                 ov_weekly_reset_day = se_weekly_reset_day settings,
                 ov_character = character,
                 ov_daily = map (checklist_item_of (done_in_period character_id daily_key d))
                   (filter (\<lambda>t. pt_type t = DAILY) rows),
                 ov_weekly = map (checklist_item_of (done_in_period character_id weekly_key d))
                   (filter (\<lambda>t. pt_type t = WEEKLY) rows),
                 ov_charges = charges\<rparr>)))))"

section \<open>Completions, charge uses and durations\<close>

definition set_planner_completion ::
  "host \<Rightarrow> int \<Rightarrow> string \<Rightarrow> string \<Rightarrow> string \<Rightarrow> string \<Rightarrow> bool \<Rightarrow> string option \<Rightarrow> (db, unit) op" where
  "set_planner_completion h clock uid c t key completed at_iso =
     (let at_resolved = iso (date_or_now h clock at_iso) in
      if \<not> completed
      then modify (delete_planner_completion (\<lambda>r.
             pc_character_id r = c \<and> pc_template_id r = t \<and> pc_period_key r = key))
      else insert_planner_completion Ignore
             \<lparr>pc_id = uid, pc_character_id = c, pc_template_id = t, pc_period_key = key,
              pc_completed_at = at_resolved\<rparr>)"

definition use_charge :: "host \<Rightarrow> int \<Rightarrow> string \<Rightarrow> string \<Rightarrow> string \<Rightarrow> string option \<Rightarrow> (db, string) op" where
  "use_charge h clock uid c t used_at_iso =
     and_then (insert_planner_charge_use Abort
       \<lparr>pu_id = uid, pu_character_id = c, pu_template_id = t,
        pu_used_at = iso (date_or_now h clock used_at_iso)\<rparr>) (\<lambda>_. ret uid)"

definition undo_charge :: "string \<Rightarrow> string \<Rightarrow> (db, string option) op" where
  "undo_charge c t = reading (\<lambda>d.
     case order_by (desc pu_used_at)
            (filter (\<lambda>r. pu_character_id r = c \<and> pu_template_id r = t) (planner_charge_use d)) of
       [] \<Rightarrow> ret None
     | row # _ \<Rightarrow>
         if pu_id row = [] then ret None
         else and_then (modify (delete_planner_charge_use (\<lambda>r. pu_id r = pu_id row))) (\<lambda>_.
                ret (Some (pu_id row))))"

definition add_planner_duration ::
  "host \<Rightarrow> string \<Rightarrow> string \<Rightarrow> string \<Rightarrow> string \<Rightarrow> string \<Rightarrow> jsnum \<Rightarrow> (db, string) op" where
  "add_planner_duration h uid c t started_at ended_at seconds =
     (case (parse_date h started_at, parse_date h ended_at) of
        (Some s, Some e) \<Rightarrow>
          (let sec = num_max (num 1) (num_floor seconds) in
           and_then (not_null sec (insert_planner_duration Abort
             \<lparr>pd_id = uid, pd_character_id = c, pd_template_id = Some t,
              pd_started_at = iso s, pd_ended_at = iso e, pd_seconds = sec\<rparr>)) (\<lambda>_. ret uid))
      | _ \<Rightarrow> throw (Thrown ''bad_request''))"

definition planner_duration_limit :: "jsnum option \<Rightarrow> jsnum" where
  "planner_duration_limit limit =
     num_max (num 1) (num_min (num 200)
       (num_floor (case limit of None \<Rightarrow> num 50 | Some x \<Rightarrow> x)))"

definition list_planner_durations :: "string \<Rightarrow> jsnum option \<Rightarrow> db \<Rightarrow> err + planner_duration_row list" where
  "list_planner_durations c limit d =
     limit_rows (planner_duration_limit limit)
       (order_by (desc pd_ended_at)
          (filter (\<lambda>r. pd_character_id r = c \<and> pd_template_id r \<noteq> None) (planner_duration d)))"

definition delete_planner_duration_by_id :: "string \<Rightarrow> string \<Rightarrow> (db, unit) op" where
  "delete_planner_duration_by_id uid c =
     modify (delete_planner_duration (\<lambda>r. pd_id r = uid \<and> pd_character_id r = c))"

record duration_stat =
  ds_template_id :: string
  ds_count :: nat
  ds_total_seconds :: jsnum
  ds_avg_seconds :: jsnum

definition num_sum :: "jsnum list \<Rightarrow> jsnum" where
  "num_sum xs = foldl num_add (num 0) xs"

definition duration_stat_of :: "planner_duration_row list \<Rightarrow> string \<Rightarrow> duration_stat" where
  "duration_stat_of rows t =
     (let secs = map pd_seconds (filter (\<lambda>r. pd_template_id r = Some t) rows)
      in \<lparr>ds_template_id = t, ds_count = length secs, ds_total_seconds = num_sum secs,
          ds_avg_seconds = num_div_pos (num_sum secs) (of_nat (length secs))\<rparr>)"

definition get_planner_duration_stats :: "string \<Rightarrow> string option \<Rightarrow> db \<Rightarrow> duration_stat list" where
  "get_planner_duration_stats c since d =
     (let rows = filter (\<lambda>r. pd_character_id r = c \<and> pd_template_id r \<noteq> None
                   \<and> (case non_empty since of None \<Rightarrow> True | Some s \<Rightarrow> str_le s (pd_ended_at r)))
                 (planner_duration d);
          groups = map (duration_stat_of rows) (js_uniq (List.map_filter pd_template_id rows))
      in map (\<lambda>s. s\<lparr>ds_avg_seconds := num_round (ds_avg_seconds s)\<rparr>)
           (order_by (then_by (\<lambda>x y. num_le (ds_total_seconds y) (ds_total_seconds x))
                              (\<lambda>x y. num_le (ds_avg_seconds y) (ds_avg_seconds x))) groups))"

section \<open>Invariants\<close>

context db_invariant
begin

lemma get_planner_settings_keeps [keeps_intro]: "keeps I (get_planner_settings now)"
  unfolding get_planner_settings_def by (intro keeps_intro)

lemma get_planner_settings_effective_keeps [keeps_intro]: "keeps I (get_planner_settings_effective now s)"
  unfolding get_planner_settings_effective_def get_planner_settings_bundle_def by (intro keeps_intro)

lemma save_planner_settings_keeps [keeps_intro]: "keeps I (save_planner_settings i hhmm day now)"
  unfolding save_planner_settings_def by (intro keeps_intro) simp

lemma set_planner_settings_default_keeps [keeps_intro]: "keeps I (set_planner_settings_default now hhmm day)"
  unfolding set_planner_settings_default_def by (intro keeps_intro)

lemma set_planner_settings_keeps [keeps_intro]: "keeps I (set_planner_settings now hhmm day)"
  unfolding set_planner_settings_def set_planner_settings_default_def by (intro keeps_intro)

lemma set_planner_settings_for_server_keeps [keeps_intro]:
  "keeps I (set_planner_settings_for_server now server hhmm day)"
  unfolding set_planner_settings_for_server_def by (intro keeps_intro)

lemma clear_planner_settings_for_server_keeps [keeps_intro]:
  "keeps I (clear_planner_settings_for_server server)"
  unfolding clear_planner_settings_for_server_def
  by (intro keeps_intro) (simp add: planner_settings_id_for_server_def)

lemma create_planner_template_keeps [keeps_intro]:
  "keeps I (create_planner_template uid now title ty e r m)"
  unfolding create_planner_template_def by (intro keeps_intro)

lemma update_planner_template_keeps [keeps_intro]:
  "keeps I (update_planner_template now uid title ty e r m)"
  unfolding update_planner_template_def by (intro keeps_intro) simp

lemma delete_planner_template_by_id_keeps [keeps_intro]: "keeps I (delete_planner_template_by_id t)"
  unfolding delete_planner_template_by_id_def by (intro keeps_intro)

lemma preset_step_keeps [keeps_intro]: "keeps I (preset_step lower ids nows x b)"
  by (cases x; cases b) (auto simp: preset_step_def Let_def intro!: keeps_intro)

lemma apply_planner_preset_keeps [keeps_intro]:
  "keeps I (apply_planner_preset lower ids nows mode templates)"
  unfolding apply_planner_preset_def by (intro keeps_intro)

lemma get_planner_overview_keeps [keeps_intro]: "keeps I (get_planner_overview h clock c now_iso)"
  unfolding get_planner_overview_def by (intro keeps_intro)

lemma set_planner_completion_keeps [keeps_intro]:
  "keeps I (set_planner_completion h clock uid c t key completed at_iso)"
  unfolding set_planner_completion_def by (intro keeps_intro)

lemma use_charge_keeps [keeps_intro]: "keeps I (use_charge h clock uid c t used_at)"
  unfolding use_charge_def by (intro keeps_intro)

lemma undo_charge_keeps [keeps_intro]: "keeps I (undo_charge c t)"
  unfolding undo_charge_def by (auto intro!: keeps_intro split: list.split)

lemma add_planner_duration_keeps [keeps_intro]:
  "keeps I (add_planner_duration h uid c t started ended seconds)"
  unfolding add_planner_duration_def by (intro keeps_intro)

lemma delete_planner_duration_by_id_keeps [keeps_intro]: "keeps I (delete_planner_duration_by_id uid c)"
  unfolding delete_planner_duration_by_id_def by (intro keeps_intro)

end

end
