(* ===== verification/PlannerFacts.thy ===== *)
theory PlannerFacts
  imports Planner
begin

text \<open>What the planner promises: lemmas and properties of the operations of \<open>Planner\<close>.\<close>

section \<open>Settings\<close>

lemma read_settings_saved:
  "day \<noteq> NaN \<Longrightarrow>
   read_planner_settings_by_id i (snd (save_planner_settings j hhmm day now d)) =
     (if i = j then Some \<lparr>se_daily_reset_hhmm = hhmm, se_weekly_reset_day = day, se_updated_at = now\<rparr>
      else read_planner_settings_by_id i d)"
proof (cases "list_ex (\<lambda>r. ps_id r = j) (planner_settings d)")
  case True
  assume "day \<noteq> NaN"
  moreover from True obtain r where "find (\<lambda>r. ps_id r = j) (planner_settings d) = Some r"
    by (auto simp: list_ex_iff dest: find_is_Some)
  ultimately show ?thesis
    using True
    by (cases "find (\<lambda>r. ps_id r = i) (planner_settings d)")
      (auto simp: save_planner_settings_def not_null_apply reading_apply modify_apply
        read_planner_settings_by_id_def find_update_where)
next
  case False
  assume nn: "day \<noteq> NaN"
  define r where "r = \<lparr>ps_id = j, ps_daily_reset_hhmm = hhmm, ps_weekly_reset_day = day, ps_updated_at = now\<rparr>"
  have ins: "insert_planner_settings Abort r d = (Inr (), d\<lparr>planner_settings := planner_settings d @ [r]\<rparr>)"
    unfolding insert_planner_settings_def using False
    by (subst insert_into_ok)
      (auto simp: clash_planner_settings_def refs_planner_settings_def r_def list_ex_iff)
  from False have "find (\<lambda>r. ps_id r = j) (planner_settings d) = None"
    by (auto simp: list_ex_iff find_None)
  with nn False ins show ?thesis
    by (auto simp: save_planner_settings_def not_null_apply reading_apply r_def
        read_planner_settings_by_id_def find_append split: option.split)
qed

lemma settings_effective:
  "read_planner_settings_by_id ''default'' d \<noteq> None \<Longrightarrow>
   get_planner_settings_effective now server d =
     (Inr (case normalize_server_name server of
             None \<Rightarrow> (the (read_planner_settings_by_id ''default'' d), DefaultScope)
           | Some s \<Rightarrow> (case read_planner_settings_by_id (planner_settings_id_for_server s) d of
                          None \<Rightarrow> (the (read_planner_settings_by_id ''default'' d), DefaultScope)
                        | Some row \<Rightarrow> (row, ServerScope))), d)"
  by (auto simp: get_planner_settings_effective_def get_planner_settings_bundle_def
      get_planner_settings_def and_then_apply reading_apply ret_apply Let_def split: option.splits)

lemma server_id_not_default [simp]:
  "planner_settings_id_for_server s \<noteq> ''default''" "''default'' \<noteq> planner_settings_id_for_server s"
  by (simp_all add: planner_settings_id_for_server_def)

lemma server_id_inj [simp]:
  "planner_settings_id_for_server s = planner_settings_id_for_server t \<longleftrightarrow> s = t"
  by (simp add: planner_settings_id_for_server_def)

text \<open>
  Settings saved for a server are the effective ones of every spelling of that server's name
  with other white space around it, and of no other server; clearing them brings the
  default back.
\<close>

theorem server_settings_override:
  assumes "read_planner_settings_by_id ''default'' d = Some base"
    and "normalize_server_name (Some server) = Some s" and "day \<noteq> NaN"
    and "d1 = snd (set_planner_settings_for_server now server hhmm day d)"
  shows "fst (get_planner_settings_effective t (Some server) d1) =
           Inr (\<lparr>se_daily_reset_hhmm = hhmm, se_weekly_reset_day = day, se_updated_at = now\<rparr>, ServerScope)
    \<and> (normalize_server_name other \<noteq> Some s \<longrightarrow>
         get_planner_settings_effective t other d1 =
           (fst (get_planner_settings_effective t other d), d1))
    \<and> fst (get_planner_settings_effective t (Some server)
            (snd (clear_planner_settings_for_server server d1))) = Inr (base, DefaultScope)"
proof -
  have read: "read_planner_settings_by_id i d1 =
      (if i = planner_settings_id_for_server s
       then Some \<lparr>se_daily_reset_hhmm = hhmm, se_weekly_reset_day = day, se_updated_at = now\<rparr>
       else read_planner_settings_by_id i d)" for i
    using assms(2) read_settings_saved [OF assms(3)]
    by (simp add: assms(4) set_planner_settings_for_server_def)
  define d2 where "d2 = snd (clear_planner_settings_for_server server d1)"
  have cleared: "read_planner_settings_by_id i d2 =
      (if i = planner_settings_id_for_server s then None else read_planner_settings_by_id i d1)" for i
    using assms(2)
    by (simp add: d2_def clear_planner_settings_for_server_def modify_apply
        read_planner_settings_by_id_def find_drop_where)
  have default: "read_planner_settings_by_id ''default'' d1 = Some base"
    by (simp add: read assms(1))
  have default2: "read_planner_settings_by_id ''default'' d2 = Some base"
    by (simp add: cleared default)
  have "fst (get_planner_settings_effective t (Some server) d1) =
      Inr (\<lparr>se_daily_reset_hhmm = hhmm, se_weekly_reset_day = day, se_updated_at = now\<rparr>, ServerScope)"
    by (simp add: settings_effective assms(1,2) read)
  moreover have "get_planner_settings_effective t other d1 =
      (fst (get_planner_settings_effective t other d), d1)" if "normalize_server_name other \<noteq> Some s"
    using that by (auto simp: settings_effective assms(1) read split: option.split)
  moreover have "fst (get_planner_settings_effective t (Some server) d2) = Inr (base, DefaultScope)"
    by (simp add: settings_effective assms(1,2) read cleared)
  ultimately show ?thesis unfolding d2_def by blast
qed

theorem server_settings_override_witness:
  "fst (get_planner_settings_effective ''now'' (Some ''Siel'')
     (snd (set_planner_settings_for_server ''then'' ''Siel'' ''05:00'' (num 3)
        (snd (ensure_defaults ''now'' (empty_db True)))))) =
   Inr (\<lparr>se_daily_reset_hhmm = ''05:00'', se_weekly_reset_day = num 3, se_updated_at = ''then''\<rparr>, ServerScope)"
proof -
  have base: "read_planner_settings_by_id ''default'' (snd (ensure_defaults ''now'' (empty_db True))) =
      Some \<lparr>se_daily_reset_hhmm = ''09:00'', se_weekly_reset_day = num 1, se_updated_at = ''now''\<rparr>"
    by code_simp
  have "normalize_server_name (Some ''Siel'') = Some ''Siel''"
  proof -
    have "trim ''Siel'' = ''Siel''" by (rule trim_graphic) (simp_all add: graphic_def)
    then show ?thesis by (simp add: normalize_server_name_def trimmed_opt_def trimmed_def)
  qed
  from server_settings_override [OF base this _ refl, of "num 3" "''now''" "''then''" "''05:00''" None]
  show ?thesis by simp
qed


section \<open>The overview\<close>

lemma get_planner_settings_state:
  "\<exists>rows. snd (get_planner_settings now d) = d\<lparr>planner_settings := rows\<rparr>"
proof (cases "read_planner_settings_by_id ''default'' d")
  case None
  then have "\<forall>r \<in> set (planner_settings d). ps_id r \<noteq> ''default''"
    by (auto simp: read_planner_settings_by_id_def find_None)
  then have "insert_planner_settings Ignore (default_settings_row now) d =
      (Inr (), d\<lparr>planner_settings := planner_settings d @ [default_settings_row now]\<rparr>)"
    unfolding insert_planner_settings_def
    by (subst insert_into_ok)
      (auto simp: clash_planner_settings_def default_settings_row_def refs_planner_settings_def)
  with None show ?thesis
    by (auto simp: get_planner_settings_def reading_apply and_then_apply ret_apply)
next
  case (Some r)
  then show ?thesis
    by (intro exI [of _ "planner_settings d"]) (simp add: get_planner_settings_def reading_apply ret_apply)
qed

lemma settings_effective_state:
  assumes "get_planner_settings_effective now server d = (r, d')"
  shows "\<exists>rows. d' = d\<lparr>planner_settings := rows\<rparr>"
proof -
  have "d' = snd (get_planner_settings now d)"
    using assms
    by (auto simp: get_planner_settings_effective_def get_planner_settings_bundle_def and_then_apply
        reading_apply ret_apply split: sum.splits)
  then show ?thesis by (simp add: get_planner_settings_state)
qed

text \<open>What a successful overview is made of.\<close>

lemma overview_parts:
  assumes "get_planner_overview h clock c now_iso d = (Inr ov, d')"
  shows "\<exists>rows. d' = d\<lparr>planner_settings := rows\<rparr>"
    and "ov_daily ov = map (checklist_item_of (done_in_period c (ov_daily_key ov) d))
           (filter (\<lambda>t. pt_type t = DAILY) (assigned_templates c d))"
    and "ov_weekly ov = map (checklist_item_of (done_in_period c (ov_weekly_key ov) d))
           (filter (\<lambda>t. pt_type t = WEEKLY) (assigned_templates c d))"
    and "collect (charge_item_of h (date_or_now h clock now_iso) c d)
           (filter (\<lambda>t. pt_type t = CHARGE) (assigned_templates c d)) = Inr (ov_charges ov)"
    and "ov_now ov = iso (date_or_now h clock now_iso)"
proof -
  from assms obtain character where ch: "get_character c d = Some character"
    by (auto simp: get_planner_overview_def Let_def reading_apply throw_apply split: option.splits)
  obtain r d1 where se: "get_planner_settings_effective (iso clock) (ch_server character) d = (r, d1)"
    by force
  from settings_effective_state [OF this] obtain rows where d1: "d1 = d\<lparr>planner_settings := rows\<rparr>" by blast
  have uses: "uses_after c t k (d\<lparr>planner_settings := rows\<rparr>) = uses_after c t k d" for t k
    by (simp add: uses_after_def)
  have "charge_item_of h n c (d\<lparr>planner_settings := rows\<rparr>) t = charge_item_of h n c d t" for n t
    unfolding charge_item_of_def uses ..
  then have frame: "assigned_templates c (d\<lparr>planner_settings := rows\<rparr>) = assigned_templates c d"
    "done_in_period c k (d\<lparr>planner_settings := rows\<rparr>) = done_in_period c k d"
    "charge_item_of h n c (d\<lparr>planner_settings := rows\<rparr>) = charge_item_of h n c d" for k n
    by (simp_all add: assigned_templates_def done_in_period_def fun_eq_iff)
  from assms ch se obtain settings scope where
    r: "r = Inr (settings, scope)"
    by (auto simp: get_planner_overview_def Let_def reading_apply and_then_apply split: sum.splits)
  note parts = assms [unfolded get_planner_overview_def Let_def reading_apply ch option.case
      and_then_apply se r fst_conv snd_conv sum.case case_prod_conv outcome_apply ret_apply d1 frame]
  from parts show "\<exists>rows. d' = d\<lparr>planner_settings := rows\<rparr>"
    "ov_daily ov = map (checklist_item_of (done_in_period c (ov_daily_key ov) d))
           (filter (\<lambda>t. pt_type t = DAILY) (assigned_templates c d))"
    "ov_weekly ov = map (checklist_item_of (done_in_period c (ov_weekly_key ov) d))
           (filter (\<lambda>t. pt_type t = WEEKLY) (assigned_templates c d))"
    "collect (charge_item_of h (date_or_now h clock now_iso) c d)
           (filter (\<lambda>t. pt_type t = CHARGE) (assigned_templates c d)) = Inr (ov_charges ov)"
    "ov_now ov = iso (date_or_now h clock now_iso)"
    by (auto split: sum.splits)
qed

text \<open>An overview succeeds when its charges can be computed.\<close>

lemma overview_ok:
  assumes "get_character c d = Some ch"
    and "get_planner_settings_effective (iso clock) (ch_server ch) d = (Inr (se, sc), d1)"
    and "collect (charge_item_of h (date_or_now h clock now_iso) c d)
           (filter (\<lambda>t. pt_type t = CHARGE) (assigned_templates c d)) = Inr cs"
  shows "\<exists>ov. get_planner_overview h clock c now_iso d = (Inr ov, d1)
    \<and> ov_daily_key ov = daily_period_key (tz h) (date_or_now h clock now_iso) (se_daily_reset_hhmm se)
    \<and> ov_charges ov = cs"
proof -
  from settings_effective_state [OF assms(2)] obtain rows where d1: "d1 = d\<lparr>planner_settings := rows\<rparr>" by blast
  have uses: "uses_after c t k (d\<lparr>planner_settings := rows\<rparr>) = uses_after c t k d" for t k
    by (simp add: uses_after_def)
  have "charge_item_of h n c (d\<lparr>planner_settings := rows\<rparr>) t = charge_item_of h n c d t" for n t
    unfolding charge_item_of_def uses ..
  then have frame: "assigned_templates c d1 = assigned_templates c d"
    "charge_item_of h n c d1 = charge_item_of h n c d" for n
    by (simp_all add: d1 assigned_templates_def fun_eq_iff)
  show ?thesis
    unfolding get_planner_overview_def Let_def reading_apply assms(1,2) option.case
      and_then_apply fst_conv snd_conv sum.case case_prod_conv outcome_apply ret_apply frame assms(3)
    by simp
qed

text \<open>What a character has done in a period, after a completion is set for the period \<open>key\<close>.\<close>

lemma done_after_completion:
  assumes "set_planner_completion h clock uid c t key completed at_iso d = (Inr (), d1)"
    and "\<forall>r \<in> set (planner_completion d). pc_id r \<noteq> uid"
  shows "x \<in> set (done_in_period c k d1) \<longleftrightarrow>
    (if x = t \<and> k = key then completed else x \<in> set (done_in_period c k d))"
proof (cases completed)
  case False
  then show ?thesis using assms(1)
    by (auto simp: set_planner_completion_def modify_apply Let_def done_in_period_def delete_planner_completion_def)
next
  case True
  define r where "r = \<lparr>pc_id = uid, pc_character_id = c, pc_template_id = t, pc_period_key = key,
      pc_completed_at = iso (date_or_now h clock at_iso)\<rparr>"
  from True assms(1) have ins: "insert_planner_completion Ignore r d = (Inr (), d1)"
    by (simp add: set_planner_completion_def Let_def r_def)
  show ?thesis
  proof (cases "t \<in> set (done_in_period c key d)")
    case in_period: True
    then obtain y where "y \<in> set (planner_completion d)" "clash_planner_completion y r"
      by (auto simp: done_in_period_def clash_planner_completion_def r_def)
    with ins have "d1 = d" by (simp add: insert_planner_completion_def insert_into_ignore)
    with in_period True show ?thesis by auto
  next
    case False
    then have "\<forall>y \<in> set (planner_completion d). \<not> clash_planner_completion y r"
      using assms(2) by (auto simp: done_in_period_def clash_planner_completion_def r_def)
    with ins have "planner_completion d1 = planner_completion d @ [r]"
      by (auto simp: insert_planner_completion_def insert_into_def Let_def list_ex_iff split: if_splits)
    with True show ?thesis by (auto simp: done_in_period_def r_def)
  qed
qed

text \<open>
  C17. Ticking and unticking: after \<open>setPlannerCompletion\<close> the overview marks that task as asked in the list, daily or
  weekly, that shows the period it was set for, and every other task, of either list, as it was done in its own period
  before. The id drawn for the completion is fresh.
\<close>

theorem completion_shows_in_overview:
  assumes "set_planner_completion h clock uid c t key completed at_iso d = (Inr (), d1)"
    and "\<forall>r \<in> set (planner_completion d). pc_id r \<noteq> uid"
    and "get_planner_overview h clock' c now_iso d1 = (Inr ov, d2)"
  shows "(\<forall>item \<in> set (ov_daily ov). ck_completed item \<longleftrightarrow>
      (if ck_template_id item = t \<and> ov_daily_key ov = key then completed
       else ck_template_id item \<in> set (done_in_period c (ov_daily_key ov) d)))
    \<and> (\<forall>item \<in> set (ov_weekly ov). ck_completed item \<longleftrightarrow>
      (if ck_template_id item = t \<and> ov_weekly_key ov = key then completed
       else ck_template_id item \<in> set (done_in_period c (ov_weekly_key ov) d)))"
  unfolding overview_parts(2,3) [OF assms(3)]
  by (auto simp: checklist_item_of_def done_after_completion [OF assms(1,2)])

definition sample_host :: host where
  "sample_host = \<lparr>tz = kst, parse_date = (\<lambda>_. None)\<rparr>"

definition daily_db :: db where
  "daily_db = (empty_db True)\<lparr>
     foreign_keys := True,
     app_character := [new_character ''c1'' ''2026-01-01'' ''Ari'' None None],
     planner_settings := [default_settings_row ''2026-01-01''],
     planner_template := [sample_template ''t1'' DAILY ''Daily''],
     planner_assignment := [assignment_for ''a1'' ''c1'' ''t1'' ''2026-01-01'']\<rparr>"

definition sample_key :: string where
  "sample_key = daily_period_key kst 0 ''09:00''"

lemma sample_set_completion:
  "set_planner_completion sample_host 0 ''u1'' ''c1'' ''t1'' sample_key True None daily_db =
     (Inr (), daily_db\<lparr>planner_completion :=
        [\<lparr>pc_id = ''u1'', pc_character_id = ''c1'', pc_template_id = ''t1'', pc_period_key = sample_key,
          pc_completed_at = iso 0\<rparr>]\<rparr>)"
  by (simp add: set_planner_completion_def insert_planner_completion_def insert_into_def daily_db_def
      empty_db_def refs_planner_completion_def has_id_def sample_template_def new_character_def
      date_or_now_def)

lemma sample_overview:
  assumes "d = daily_db\<lparr>planner_completion := rows\<rparr>"
  shows "\<exists>ov d2. get_planner_overview sample_host 0 ''c1'' None d = (Inr ov, d2)
    \<and> ov_daily_key ov = sample_key \<and> map ck_template_id (ov_daily ov) = [''t1'']"
proof -
  let ?ch = "new_character ''c1'' ''2026-01-01'' ''Ari'' None None"
  let ?se = "\<lparr>se_daily_reset_hhmm = ''09:00'', se_weekly_reset_day = num 1, se_updated_at = ''2026-01-01''\<rparr>"
  have c1: "get_character ''c1'' d = Some ?ch"
    by (simp add: assms daily_db_def get_character_def new_character_def read_character_def non_empty_def)
  have c2: "get_planner_settings_effective (iso 0) (ch_server ?ch) d = (Inr (?se, DefaultScope), d)"
    by (subst settings_effective)
      (simp_all add: assms daily_db_def read_planner_settings_by_id_def default_settings_row_def
        normalize_server_name_def trimmed_opt_def new_character_def)
  have t: "assigned_templates ''c1'' d = [sample_template ''t1'' DAILY ''Daily'']"
    by (simp add: assms daily_db_def assigned_templates_def order_by_def sample_template_def assignment_for_def)
  have c3: "collect (charge_item_of sample_host (date_or_now sample_host 0 None) ''c1'' d)
      (filter (\<lambda>t. pt_type t = CHARGE) (assigned_templates ''c1'' d)) = Inr []"
    by (simp add: t sample_template_def)
  from overview_ok [OF c1 c2 c3] obtain ov where ov:
    "get_planner_overview sample_host 0 ''c1'' None d = (Inr ov, d)" "ov_daily_key ov = sample_key"
    by (auto simp: date_or_now_def sample_host_def sample_key_def)
  have "map ck_template_id (ov_daily ov) = [''t1'']"
    using overview_parts(2) [OF ov(1)] t by (simp add: sample_template_def checklist_item_of_def)
  with ov show ?thesis by (intro exI conjI)
qed

theorem completion_shows_in_overview_witness:
  "\<exists>ov d1 d2. set_planner_completion sample_host 0 ''u1'' ''c1'' ''t1'' sample_key True None daily_db = (Inr (), d1)
    \<and> get_planner_overview sample_host 0 ''c1'' None d1 = (Inr ov, d2)
    \<and> (\<exists>item \<in> set (ov_daily ov). ck_template_id item = ''t1'' \<and> ck_completed item)"
proof -
  obtain d1 where d1: "set_planner_completion sample_host 0 ''u1'' ''c1'' ''t1'' sample_key True None daily_db = (Inr (), d1)"
    "\<exists>rows. d1 = daily_db\<lparr>planner_completion := rows\<rparr>"
    by (rule that [OF sample_set_completion]) (rule exI, rule refl)
  from d1(2) obtain rows where "d1 = daily_db\<lparr>planner_completion := rows\<rparr>" by (elim exE)
  from sample_overview [OF this] obtain ov d2 where
    ov: "get_planner_overview sample_host 0 ''c1'' None d1 = (Inr ov, d2)"
    "ov_daily_key ov = sample_key" "map ck_template_id (ov_daily ov) = [''t1'']" by (elim exE conjE)
  obtain item where item: "item \<in> set (ov_daily ov)" "ck_template_id item = ''t1''"
    using ov(3) by (cases "ov_daily ov") simp_all
  have "\<forall>r \<in> set (planner_completion daily_db). pc_id r \<noteq> ''u1''" by (simp add: daily_db_def empty_db_def)
  from completion_shows_in_overview [OF d1(1) this ov(1), THEN conjunct1, THEN bspec, OF item(1)] item(2) ov(2)
  have "ck_completed item" by simp
  with d1(1) ov(1) item show ?thesis by (intro exI conjI bexI)
qed

end
