(* ===== verification/Charges.thy ===== *)
theory Charges
  imports PlannerFacts
begin

text \<open>
  The charge counters of the overview over time: which uses count, when a spent charge comes
  back, and undoing a use.
\<close>

section \<open>Counting the uses in the window\<close>

definition uses_of :: "string \<Rightarrow> string \<Rightarrow> db \<Rightarrow> planner_charge_use_row list" where
  "uses_of c t d = filter (\<lambda>r. pu_character_id r = c \<and> pu_template_id r = t) (planner_charge_use d)"

text \<open>\<open>used_at r\<close> is the instant of a stored use.\<close>

definition instants :: "(planner_charge_use_row \<Rightarrow> int) \<Rightarrow> db \<Rightarrow> bool" where
  "instants used_at d \<longleftrightarrow>
     list_all (\<lambda>r. four_digit_year (used_at r) \<and> pu_used_at r = iso (used_at r)) (planner_charge_use d)"

definition in_window :: "(planner_charge_use_row \<Rightarrow> int) \<Rightarrow> int \<Rightarrow> string \<Rightarrow> string \<Rightarrow> db \<Rightarrow> planner_charge_use_row list" where
  "in_window used_at start c t d = filter (\<lambda>r. start < used_at r) (uses_of c t d)"

definition hours_ms :: "int \<Rightarrow> int" where
  "hours_ms k = k * 60 * 60 * 1000"

lemma window_ms_num [simp]: "window_ms (num k) = num (hours_ms k)"
  by (simp add: window_ms_def hours_ms_def)

lemma uses_after_eq:
  assumes "instants u d" "four_digit_year start"
  shows "uses_after c t (iso start) d = order_by str_le (map (\<lambda>r. iso (u r)) (in_window u start c t d))"
proof -
  have f1: "filter (\<lambda>r. pu_character_id r = c \<and> pu_template_id r = t \<and> str_lt (iso start) (pu_used_at r)) (planner_charge_use d)
      = in_window u start c t d"
    using assms unfolding in_window_def uses_of_def filter_filter
    by (intro filter_cong) (auto simp: instants_def list_all_iff iso_less_iff)
  have f2: "map pu_used_at (in_window u start c t d) = map (\<lambda>r. iso (u r)) (in_window u start c t d)"
    using assms(1) by (auto simp: instants_def list_all_iff in_window_def uses_of_def)
  show ?thesis unfolding uses_after_def f1 f2 ..
qed

text \<open>The first entry of a sorted list is its least one.\<close>

lemma first_of_order_by:
  "order_by str_le xs = y # ys \<Longrightarrow> y \<in> set xs \<and> (\<forall>x \<in> set xs. str_le y x)"
proof -
  assume eq: "order_by str_le xs = y # ys"
  have "sorted_wrt str_le (order_by str_le xs)"
    by (rule sorted_order_by) (use str_le_total str_le_trans in blast)+
  with eq have "\<forall>x \<in> set (order_by str_le xs). str_le y x" "y \<in> set (order_by str_le xs)" by auto
  then show ?thesis by simp
qed

text \<open>What \<open>charge_item_of\<close> computes, over instants.\<close>

lemma charge_item_cases:
  assumes u: "instants u d" and start: "four_digit_year (n - hours_ms k)"
    and rh: "pt_recharge_hours tpl = Some (num k)"
    and parse: "\<forall>t. four_digit_year t \<longrightarrow> parse_date h (iso t) = Some t"
    and ms: "0 \<le> hours_ms k" "hours_ms k \<le> 1000000000000000"
    and rows_def: "rows = in_window u (n - hours_ms k) c (pt_id tpl) d"
  shows "\<exists>item. charge_item_of h n c d tpl = Inr item
    \<and> cg_used_count_in_window item = length rows
    \<and> cg_available item = num_max (num 0) (num_sub (num_or_zero (pt_max_stacks tpl)) (num (int (length rows))))
    \<and> (case cg_next_recharge_at item of None \<Rightarrow> True
        | Some s \<Rightarrow> \<exists>first \<in> set rows. (\<forall>r \<in> set rows. u first \<le> u r) \<and> s = iso (u first + hours_ms k))
    \<and> (cg_next_recharge_at item = None \<longleftrightarrow>
         rows = [] \<or> num_le (num_or_zero (pt_max_stacks tpl)) (cg_available item))"
proof -
  let ?ms = "hours_ms k"
  have four: "four_digit_year (u r)" if "r \<in> set rows" for r
    using u that by (auto simp: rows_def in_window_def uses_of_def instants_def list_all_iff)
  have cut: "iso_of_number (num (n - ?ms)) = Inr (iso (n - ?ms))"
    using four_digit_year_range [OF start] by (intro iso_of_num) linarith
  have uses: "uses_after c (pt_id tpl) (iso (n - ?ms)) d = order_by str_le (map (\<lambda>r. iso (u r)) rows)"
    unfolding rows_def by (rule uses_after_eq [OF u start])
  show ?thesis
  proof (cases "order_by str_le (map (\<lambda>r. iso (u r)) rows)")
    case Nil
    then have "rows = []" by (metis length_order_by list.size(3) length_map length_0_conv)
    then show ?thesis
      using Nil by (simp add: charge_item_of_def rh num_or_zero_def [of "Some _"] cut uses Let_def)
  next
    case (Cons y ys)
    from first_of_order_by [OF this] obtain first where first: "first \<in> set rows" "y = iso (u first)"
      "\<forall>r \<in> set rows. str_le (iso (u first)) (iso (u r))" by auto
    then have least: "\<forall>r \<in> set rows. u first \<le> u r" using four by (simp add: iso_le_iff)
    have "recharge_at h y (num ?ms) = iso_of_number (num (u first + ?ms))"
      using parse [rule_format, OF four [OF first(1)]] by (simp add: recharge_at_def first(2))
    also have "\<dots> = Inr (iso (u first + ?ms))"
      using four_digit_year_range [OF four [OF first(1)]] ms by (intro iso_of_num) linarith
    finally have next_at: "recharge_at h y (num ?ms) = Inr (iso (u first + ?ms))" .
    have "length (order_by str_le (map (\<lambda>r. iso (u r)) rows)) = length rows" by simp
    then have len: "Suc (length ys) = length rows" using Cons by simp
    show ?thesis
      using first(1) least len
      by (auto simp: charge_item_of_def rh num_or_zero_def [of "Some _"] cut uses Cons next_at Let_def len
          simp flip: of_nat_Suc)
  qed
qed


lemma four_digit_start:
  assumes "four_digit_year (now - hours_ms k)" and "instants u d" and "r \<in> set (in_window u (now - hours_ms k) c t d)"
    and "now \<le> n" and "n \<le> u r + hours_ms k"
  shows "four_digit_year (n - hours_ms k)"
proof (rule four_digit_between)
  show "four_digit_year (now - hours_ms k)" by (rule assms(1))
  show "four_digit_year (u r)"
    using assms(2,3) by (auto simp: instants_def list_all_iff in_window_def uses_of_def)
qed (use assms in linarith)+

text \<open>Until the first use leaves the window the uses in it stay the same; then there are fewer.\<close>

lemma window_unchanged:
  assumes "\<forall>r \<in> set (in_window u (now - w) c t d). f \<le> u r" "now \<le> n" "n < f + w"
  shows "in_window u (n - w) c t d = in_window u (now - w) c t d"
proof -
  have "n - w < u r" if "r \<in> set (uses_of c t d)" "now - w < u r" for r
  proof -
    have "f \<le> u r" using that assms(1) by (simp add: in_window_def)
    with assms(3) show ?thesis by simp
  qed
  with assms(2) show ?thesis by (auto simp: in_window_def intro!: filter_cong)
qed

lemma window_shrinks:
  assumes "first \<in> set (in_window u (now - w) c t d)"
  shows "length (in_window u (u first) c t d) < length (in_window u (now - w) c t d)"
proof -
  have "now - w < u first" using assms by (simp add: in_window_def)
  then have eq: "in_window u (u first) c t d = filter (\<lambda>r. u first < u r) (in_window u (now - w) c t d)"
    by (auto simp: in_window_def intro!: filter_cong)
  show ?thesis unfolding eq using assms by (rule length_filter_less) simp
qed

text \<open>
  C5. A spent charge comes back exactly at the instant that the overview announces: until then
  the count of used charges stays what it is, and at that instant it is smaller. (The uses
  are stored as ISO dates; \<open>Date.parse\<close> reads an ISO date back, as ECMAScript requires.)
\<close>

theorem charge_comes_back:
  assumes u: "instants u d"
    and parse: "\<forall>t. four_digit_year t \<longrightarrow> parse_date h (iso t) = Some t"
    and rh: "pt_recharge_hours tpl = Some (num k)" and k: "0 \<le> k" "k \<le> 100000000"
    and start: "four_digit_year (now - hours_ms k)"
    and item: "charge_item_of h now c d tpl = Inr item" "cg_next_recharge_at item = Some s"
  shows "\<exists>again. s = iso again \<and> now < again
    \<and> (\<forall>n \<in> {now..<again}. \<exists>item'. charge_item_of h n c d tpl = Inr item'
         \<and> cg_used_count_in_window item' = cg_used_count_in_window item)
    \<and> (\<exists>item'. charge_item_of h again c d tpl = Inr item'
         \<and> cg_used_count_in_window item' < cg_used_count_in_window item)"
proof -
  define rows where "rows m = in_window u (m - hours_ms k) c (pt_id tpl) d" for m
  have ms: "0 \<le> hours_ms k" "hours_ms k \<le> 1000000000000000" using k by (simp_all add: hours_ms_def)
  note counted = charge_item_cases [OF u _ rh parse ms]
  have "\<exists>first \<in> set (rows now). (\<forall>r \<in> set (rows now). u first \<le> u r) \<and> s = iso (u first + hours_ms k)"
    "cg_used_count_in_window item = length (rows now)"
    using counted [OF start rows_def] item by auto
  then obtain first where first: "first \<in> set (rows now)" "\<forall>r \<in> set (rows now). u first \<le> u r"
    "s = iso (u first + hours_ms k)" and used: "cg_used_count_in_window item = length (rows now)" by blast
  define again where "again = u first + hours_ms k"
  have later: "now < again" using first(1) by (simp add: rows_def in_window_def again_def)
  have counts: "\<exists>item'. charge_item_of h n c d tpl = Inr item' \<and> cg_used_count_in_window item' = length (rows n)"
    if "now \<le> n" "n \<le> again" for n
  proof -
    have "four_digit_year (n - hours_ms k)"
      using first(1) that unfolding rows_def again_def by (intro four_digit_start [OF start u])
    from counted [OF this rows_def] show ?thesis by blast
  qed
  have same: "rows n = rows now" if "now \<le> n" "n < again" for n
    using window_unchanged [OF first(2) [unfolded rows_def] that(1)] that(2) by (simp add: rows_def again_def)
  have "length (rows again) < length (rows now)"
    using window_shrinks [OF first(1) [unfolded rows_def]] by (simp add: rows_def again_def)
  moreover from later have "now \<le> again" "again \<le> again" by simp_all
  from counts [OF this] obtain item' where "charge_item_of h again c d tpl = Inr item'"
    "cg_used_count_in_window item' = length (rows again)" by (elim exE conjE)
  ultimately have "\<exists>item'. charge_item_of h again c d tpl = Inr item'
      \<and> cg_used_count_in_window item' < cg_used_count_in_window item"
    unfolding used by (intro exI [of _ item']) simp
  moreover have "\<forall>n \<in> {now..<again}. \<exists>item'. charge_item_of h n c d tpl = Inr item'
      \<and> cg_used_count_in_window item' = cg_used_count_in_window item"
  proof
    fix n assume n: "n \<in> {now..<again}"
    then have le: "now \<le> n" "n \<le> again" "n < again" by simp_all
    from counts [OF le(1,2)] show "\<exists>item'. charge_item_of h n c d tpl = Inr item'
        \<and> cg_used_count_in_window item' = cg_used_count_in_window item"
      unfolding same [OF le(1,3)] used .
  qed
  moreover have "s = iso again" using first(3) by (simp add: again_def)
  ultimately show ?thesis using later by blast
qed


definition iso_host :: host where
  "iso_host = \<lparr>tz = kst, parse_date = parse_iso\<rparr>"

definition charge_db :: db where
  "charge_db = sample_db\<lparr>planner_charge_use :=
     [\<lparr>pu_id = ''u1'', pu_character_id = ''c1'', pu_template_id = ''t2'', pu_used_at = iso 100000000\<rparr>,
      \<lparr>pu_id = ''u2'', pu_character_id = ''c1'', pu_template_id = ''t2'', pu_used_at = iso 100005000\<rparr>]\<rparr>"

definition charge_instant :: "planner_charge_use_row \<Rightarrow> int" where
  "charge_instant r = (if pu_id r = ''u1'' then 100000000 else 100005000)"

lemma charge_db_instants: "instants charge_instant charge_db"
  by (simp add: instants_def charge_db_def charge_instant_def four_digit_yearI)

theorem charge_comes_back_witness:
  "\<exists>item s again. charge_item_of iso_host 100010000 ''c1'' charge_db (sample_template ''t2'' CHARGE ''Charge'') = Inr item
    \<and> cg_next_recharge_at item = Some s \<and> s = iso again \<and> 100010000 < again"
proof -
  let ?tpl = "sample_template ''t2'' CHARGE ''Charge''"
  have parse: "\<forall>t. four_digit_year t \<longrightarrow> parse_date iso_host (iso t) = Some t"
    by (simp add: iso_host_def parse_iso_iso)
  have rh: "pt_recharge_hours ?tpl = Some (num 8)" by (simp add: sample_template_def)
  have start: "four_digit_year (100010000 - hours_ms 8)" by (rule four_digit_yearI) (simp_all add: hours_ms_def)
  have ms: "0 \<le> hours_ms 8" "hours_ms 8 \<le> 1000000000000000" by (simp_all add: hours_ms_def)
  define rows where "rows = in_window charge_instant (100010000 - hours_ms 8) ''c1'' (pt_id ?tpl) charge_db"
  have two: "length rows = 2"
    by (simp add: rows_def in_window_def uses_of_def charge_db_def charge_instant_def hours_ms_def sample_template_def)
  from charge_item_cases [OF charge_db_instants start rh parse ms rows_def] obtain item where
    item: "charge_item_of iso_host 100010000 ''c1'' charge_db ?tpl = Inr item"
    "cg_available item = num_max (num 0) (num_sub (num_or_zero (pt_max_stacks ?tpl)) (num (int (length rows))))"
    "cg_next_recharge_at item = None \<longleftrightarrow>
       rows = [] \<or> num_le (num_or_zero (pt_max_stacks ?tpl)) (cg_available item)" by (elim exE conjE)
  have "cg_next_recharge_at item \<noteq> None"
  proof -
    have max: "num_or_zero (pt_max_stacks ?tpl) = num 3" by (simp add: num_or_zero_def sample_template_def)
    have "cg_available item = num 1" unfolding item(2) max two by simp
    then have "\<not> num_le (num_or_zero (pt_max_stacks ?tpl)) (cg_available item)" by (simp only: max num_le_num)
    moreover have "rows \<noteq> []" using two by (metis list.size(3) zero_neq_numeral)
    ultimately show ?thesis unfolding item(3) by blast
  qed
  then obtain s where s: "cg_next_recharge_at item = Some s" by (cases "cg_next_recharge_at item") simp_all
  have k: "(0 :: int) \<le> 8" "(8 :: int) \<le> 100000000" by simp_all
  from charge_comes_back [OF charge_db_instants parse rh k start item(1) s]
  obtain again where "s = iso again" "100010000 < again" by (elim exE conjE)
  with item(1) s show ?thesis by (intro exI conjI)
qed


section \<open>Undoing a use\<close>

lemma first_desc:
  "order_by (desc key) xs = y # ys \<Longrightarrow> y \<in> set xs \<and> (\<forall>x \<in> set xs. str_le (key x) (key y))"
proof -
  assume eq: "order_by (desc key) xs = y # ys"
  have "sorted_wrt (desc key) (order_by (desc key) xs)"
    by (rule sorted_order_by, rule desc_total, erule desc_trans, assumption)
  with eq have "\<forall>x \<in> set (order_by (desc key) xs). str_le (key x) (key y)"
    "y \<in> set (order_by (desc key) xs)" by (auto simp: desc_def)
  then show ?thesis by simp
qed

definition new_use :: "string \<Rightarrow> string \<Rightarrow> string \<Rightarrow> int \<Rightarrow> planner_charge_use_row" where
  "new_use uid c t at_ms = \<lparr>pu_id = uid, pu_character_id = c, pu_template_id = t, pu_used_at = iso at_ms\<rparr>"

lemma use_charge_result:
  assumes "\<forall>r \<in> set (planner_charge_use d). pu_id r \<noteq> uid"
    and "foreign_keys d \<longrightarrow> has_id ch_id c (app_character d) \<and> has_id pt_id t (planner_template d)"
  shows "use_charge h clock uid c t at_iso d =
    (Inr uid, d\<lparr>planner_charge_use := planner_charge_use d @ [new_use uid c t (date_or_now h clock at_iso)]\<rparr>)"
  using assms
  by (simp add: use_charge_def and_then_apply ret_apply insert_planner_charge_use_def insert_into_ok
      clash_planner_charge_use_def refs_planner_charge_use_def new_use_def)

text \<open>
  C18. Undo takes back exactly the last use: a use that is later than the recorded ones, followed
  by an undo, leaves the database as it was.
\<close>

theorem undo_reverts_use_charge:
  assumes u: "instants u d" and uid: "uid \<noteq> []" "\<forall>r \<in> set (planner_charge_use d). pu_id r \<noteq> uid"
    and fk: "foreign_keys d \<longrightarrow> has_id ch_id c (app_character d) \<and> has_id pt_id t (planner_template d)"
    and later: "four_digit_year (date_or_now h clock at_iso)"
      "\<forall>r \<in> set (uses_of c t d). u r < date_or_now h clock at_iso"
  shows "fst (use_charge h clock uid c t at_iso d) = Inr uid
    \<and> undo_charge c t (snd (use_charge h clock uid c t at_iso d)) = (Inr (Some uid), d)"
proof -
  let ?at = "date_or_now h clock at_iso"
  let ?new = "new_use uid c t ?at"
  define d1 where "d1 = d\<lparr>planner_charge_use := planner_charge_use d @ [?new]\<rparr>"
  have use: "use_charge h clock uid c t at_iso d = (Inr uid, d1)"
    using use_charge_result [OF uid(2) fk] by (simp add: d1_def)
  have rows: "filter (\<lambda>r. pu_character_id r = c \<and> pu_template_id r = t) (planner_charge_use d1) =
      uses_of c t d @ [?new]"
    by (simp add: d1_def uses_of_def new_use_def)
  have "order_by (desc pu_used_at) (uses_of c t d @ [?new]) \<noteq> []"
    by (metis length_order_by snoc_eq_iff_butlast length_0_conv)
  then obtain y ys where y: "order_by (desc pu_used_at) (uses_of c t d @ [?new]) = y # ys"
    by (meson neq_Nil_conv)
  have "y = ?new"
  proof (rule ccontr)
    assume "y \<noteq> ?new"
    with first_desc [OF y] have old: "y \<in> set (uses_of c t d)" and le: "str_le (iso ?at) (pu_used_at y)"
      by (auto simp: new_use_def)
    have "four_digit_year (u y)" "pu_used_at y = iso (u y)"
      using u old by (auto simp: instants_def uses_of_def list_all_iff)
    with le later(1) have "?at \<le> u y" by (simp add: iso_le_iff)
    with later(2) old show False by fastforce
  qed
  with y have "undo_charge c t d1 =
      (Inr (Some uid), d1\<lparr>planner_charge_use := drop_where (\<lambda>r. pu_id r = uid) (planner_charge_use d1)\<rparr>)"
    using uid(1) by (simp add: undo_charge_def reading_apply rows and_then_apply modify_apply ret_apply
        delete_planner_charge_use_def new_use_def)
  moreover have "drop_where (\<lambda>r. pu_id r = uid) (planner_charge_use d1) = planner_charge_use d"
    using uid(2) by (simp add: d1_def drop_where_def new_use_def)
  ultimately show ?thesis using use by (simp add: d1_def)
qed

theorem undo_reverts_use_charge_witness:
  "undo_charge ''c1'' ''t2'' (snd (use_charge iso_host 100010000 ''u3'' ''c1'' ''t2'' None charge_db)) =
     (Inr (Some ''u3''), charge_db)"
proof -
  have "\<forall>r \<in> set (planner_charge_use charge_db). pu_id r \<noteq> ''u3''" by (simp add: charge_db_def)
  moreover have "foreign_keys charge_db \<longrightarrow>
      has_id ch_id ''c1'' (app_character charge_db) \<and> has_id pt_id ''t2'' (planner_template charge_db)"
    by (simp add: charge_db_def sample_defs has_id_def)
  moreover have "four_digit_year (date_or_now iso_host 100010000 None)"
    by (simp add: date_or_now_def four_digit_yearI)
  moreover have "\<forall>r \<in> set (uses_of ''c1'' ''t2'' charge_db). charge_instant r < date_or_now iso_host 100010000 None"
    by (simp add: uses_of_def charge_db_def charge_instant_def date_or_now_def)
  ultimately show ?thesis
    using undo_reverts_use_charge [OF charge_db_instants, of "''u3''" "''c1''" "''t2''" iso_host 100010000 None]
    by simp
qed

end
