(* ===== verification/Presets.thy ===== *)
theory Presets
  imports Charges
begin

text \<open>Task templates and template presets: automatic assignment, merging, idempotence.\<close>

section \<open>Creating a template\<close>

definition unused_template_id :: "string \<Rightarrow> db \<Rightarrow> bool" where
  "unused_template_id uid d \<longleftrightarrow>
     list_all (\<lambda>t. pt_id t \<noteq> uid) (planner_template d)
     \<and> list_all (\<lambda>a. \<not> prefix (''assign:'' @ uid @ '':'') (pa_id a)) (planner_assignment d)"

definition new_template ::
  "string \<Rightarrow> string \<Rightarrow> string \<Rightarrow> template_type \<Rightarrow> jsnum option \<Rightarrow> jsnum option \<Rightarrow> jsnum option \<Rightarrow>
   planner_template_row" where
  "new_template uid now title ty e rh ms =
     \<lparr>pt_id = uid, pt_title = title, pt_type = ty, pt_estimate_minutes = estimate_column e,
      pt_recharge_hours = charge_column ty rh, pt_max_stacks = charge_column ty ms,
      pt_created_at = now, pt_updated_at = now\<rparr>"

lemma create_planner_template_result:
  assumes "unused_template_id uid d" and "estimate_column e \<noteq> NaN"
  shows "\<exists>new. create_planner_template uid now title ty e rh ms d =
             (Inr uid, d\<lparr>planner_template := planner_template d @ [new_template uid now title ty e rh ms],
                         planner_assignment := planner_assignment d @ new\<rparr>)
           \<and> (\<forall>c \<in> set (app_character d).
                 assigned (d\<lparr>planner_assignment := planner_assignment d @ new\<rparr>) (ch_id c) uid)
           \<and> (\<forall>a \<in> set new. pa_template_id a = uid)"
proof -
  define d1 where "d1 = d\<lparr>planner_template := planner_template d @ [new_template uid now title ty e rh ms]\<rparr>"
  have ins: "insert_planner_template Abort (new_template uid now title ty e rh ms) d = (Inr (), d1)"
    unfolding d1_def insert_planner_template_def using assms(1)
    by (subst insert_into_ok)
      (auto simp: unused_template_id_def list_all_iff clash_planner_template_def refs_planner_template_def
        new_template_def)
  have "\<exists>new. for_each (app_character d1) (\<lambda>c. insert_planner_assignment Ignore
             (assignment_for ((\<lambda>c. ''assign:'' @ uid @ '':'' @ ch_id c) c) (ch_id c) ((\<lambda>c. uid) c) now)) d1 =
             (Inr (), d1\<lparr>planner_assignment := planner_assignment d1 @ new\<rparr>)
           \<and> (\<forall>c \<in> set (app_character d1).
                 assigned (d1\<lparr>planner_assignment := planner_assignment d1 @ new\<rparr>) (ch_id c) ((\<lambda>c. uid) c))
           \<and> set new \<subseteq> (\<lambda>c. assignment_for ((\<lambda>c. ''assign:'' @ uid @ '':'' @ ch_id c) c) (ch_id c) ((\<lambda>c. uid) c) now)
                 ` set (app_character d1)"
  proof (rule assign_many)
    show "\<forall>a \<in> set (planner_assignment d1). \<forall>x \<in> set (app_character d1).
        pa_id a = ''assign:'' @ uid @ '':'' @ ch_id x \<longrightarrow> pa_character_id a = ch_id x \<and> pa_template_id a = uid"
      using assms(1) by (auto simp: unused_template_id_def list_all_iff d1_def prefix_def)
  qed (auto simp: d1_def has_id_iff new_template_def)
  then obtain new where new:
    "for_each (app_character d1) (\<lambda>c. insert_planner_assignment Ignore
       (assignment_for (''assign:'' @ uid @ '':'' @ ch_id c) (ch_id c) uid now)) d1 =
       (Inr (), d1\<lparr>planner_assignment := planner_assignment d1 @ new\<rparr>)"
    "\<forall>c \<in> set (app_character d1). assigned (d1\<lparr>planner_assignment := planner_assignment d1 @ new\<rparr>) (ch_id c) uid"
    "set new \<subseteq> (\<lambda>c. assignment_for (''assign:'' @ uid @ '':'' @ ch_id c) (ch_id c) uid now) ` set (app_character d1)"
    by blast
  have "create_planner_template uid now title ty e rh ms d =
      (Inr uid, d1\<lparr>planner_assignment := planner_assignment d1 @ new\<rparr>)"
    using ins new(1) assms(2)
    by (simp add: create_planner_template_def and_then_apply not_null_apply reading_apply
        insert_select_def in_transaction_def ret_apply new_template_def)
  with new(2,3) show ?thesis
    by (intro exI [of _ new]) (auto simp: d1_def assigned_def assignment_for_def)
qed

text \<open>
  A new template under an unused id reaches the checklist of every character: it is stored,
  and every character has an assignment of every template afterwards.
\<close>

theorem create_planner_template_assigns:
  assumes "unused_template_id uid d" and "estimate_column e \<noteq> NaN" and "fully_assigned d"
  shows "\<exists>d'. create_planner_template uid now title ty e rh ms d = (Inr uid, d')
      \<and> planner_template d' = planner_template d @ [new_template uid now title ty e rh ms]
      \<and> fully_assigned d' \<and> app_character d' = app_character d"
proof -
  obtain new where new: "create_planner_template uid now title ty e rh ms d =
      (Inr uid, d\<lparr>planner_template := planner_template d @ [new_template uid now title ty e rh ms],
                  planner_assignment := planner_assignment d @ new\<rparr>)"
    "\<forall>c \<in> set (app_character d).
        assigned (d\<lparr>planner_assignment := planner_assignment d @ new\<rparr>) (ch_id c) uid"
    using create_planner_template_result [OF assms(1,2)] by blast
  have "fully_assigned (d\<lparr>planner_template := planner_template d @ [new_template uid now title ty e rh ms],
      planner_assignment := planner_assignment d @ new\<rparr>)"
    using new(2) assms(3) by (auto simp: fully_assigned_def assigned_def new_template_def list_all_iff)
  with new(1) show ?thesis by simp
qed

theorem create_planner_template_assigns_witness:
  "\<exists>d'. create_planner_template ''t3'' ''2026-01-02'' ''Raid'' WEEKLY None (Some (num 1)) None sample_db = (Inr ''t3'', d')
      \<and> planner_template d' = planner_template sample_db
           @ [new_template ''t3'' ''2026-01-02'' ''Raid'' WEEKLY None (Some (num 1)) None]
      \<and> fully_assigned d' \<and> app_character d' = app_character sample_db"
  by (rule create_planner_template_assigns [OF _ _ sample_fully_assigned(1)])
    (simp_all add: unused_template_id_def estimate_column_def sample_defs)

section \<open>Presets\<close>

definition template_keys :: "(string \<Rightarrow> string) \<Rightarrow> db \<Rightarrow> string list" where
  "template_keys lower d = map (\<lambda>r. make_key lower (pt_type r) (pt_title r)) (planner_template d)"

definition preset_key :: "(string \<Rightarrow> string) \<Rightarrow> preset_template \<Rightarrow> string" where
  "preset_key lower t = make_key lower (pr_type t) (pr_title t)"

lemma insert_assignment_templates:
  "keeps (\<lambda>d. planner_template d = ts) (insert_planner_assignment m r)"
  by (rule keepsI) (auto simp: insert_planner_assignment_def insert_into_def delete_planner_assignment_def Let_def)

lemma create_template_appends:
  assumes "create_planner_template uid now title ty e rh ms d = (Inr i, d1)"
  shows "planner_template d1 = planner_template d @ [new_template uid now title ty e rh ms]"
proof -
  let ?r = "new_template uid now title ty e rh ms"
  from assms obtain d2 where ins: "insert_planner_template Abort ?r d = (Inr (), d2)"
    and rest: "d1 = snd (insert_select (app_character d2) (\<lambda>c. insert_planner_assignment Ignore
        (assignment_for (''assign:'' @ uid @ '':'' @ ch_id c) (ch_id c) uid now)) d2)"
    by (cases "insert_planner_template Abort ?r d")
      (auto simp: create_planner_template_def and_then_apply not_null_apply reading_apply ret_apply
        new_template_def split: if_splits sum.splits)
  have "planner_template d2 = planner_template d @ [?r]"
    using ins by (auto simp: insert_planner_template_def insert_into_def Let_def split: if_splits)
  moreover have "keeps (\<lambda>d. planner_template d = planner_template d2)
      (insert_select (app_character d2) (\<lambda>c. insert_planner_assignment Ignore
        (assignment_for (''assign:'' @ uid @ '':'' @ ch_id c) (ch_id c) uid now)))"
    by (intro keeps_intro insert_assignment_templates)
  from keepsD [OF this refl] have "planner_template d1 = planner_template d2" by (simp add: rest)
  ultimately show ?thesis by simp
qed

text \<open>When every key is known, the loop skips everything.\<close>

lemma preset_loop_skips:
  "\<forall>t \<in> set ts. preset_key lower t \<in> set keys \<Longrightarrow>
   for_acc (enumerate k ts) (keys, created, skipped) (preset_step lower ids nows) d =
     (Inr (keys, created, skipped + length ts), d)"
proof (induction ts arbitrary: k skipped)
  case (Cons t ts)
  then show ?case
    by (simp add: and_then_apply preset_step_def preset_key_def ret_apply)
qed (simp add: ret_apply)

text \<open>What a successful run of the loop has done.\<close>

lemma preset_loop:
  "for_acc (enumerate k ts) (keys, created, skipped) (preset_step lower ids nows) d =
     (Inr (keys', created', skipped'), d1) \<Longrightarrow>
   set keys = set (template_keys lower d) \<Longrightarrow>
   set keys' = set (template_keys lower d1) \<and> set (map (preset_key lower) ts) \<subseteq> set keys'
   \<and> created' + skipped' = created + skipped + length ts
   \<and> (\<exists>rows. planner_template d1 = planner_template d @ rows \<and> created' = created + length rows
        \<and> distinct (map (\<lambda>r. make_key lower (pt_type r) (pt_title r)) rows)
        \<and> set (map (\<lambda>r. make_key lower (pt_type r) (pt_title r)) rows) \<inter> set keys = {})"
proof (induction ts arbitrary: k keys created skipped d)
  case Nil
  then show ?case by (simp add: ret_apply)
next
  case (Cons t ts)
  show ?case
  proof (cases "preset_key lower t \<in> set keys")
    case True
    with Cons.prems(1) have
      "for_acc (enumerate (Suc k) ts) (keys, created, skipped + 1) (preset_step lower ids nows) d =
         (Inr (keys', created', skipped'), d1)"
      by (simp add: and_then_apply preset_step_def preset_key_def ret_apply)
    from Cons.IH [OF this Cons.prems(2)] True Cons.prems(2) show ?thesis
      by (auto simp: template_keys_def)
  next
    case False
    let ?c = "create_planner_template (ids k) (nows k) (pr_title t) (pr_type t)
      (Some (pr_estimate_minutes t)) (pr_recharge_hours t) (pr_max_stacks t)"
    from Cons.prems(1) False obtain i d2 where c: "?c d = (Inr i, d2)"
      and rest: "for_acc (enumerate (Suc k) ts) (preset_key lower t # keys, created + 1, skipped)
         (preset_step lower ids nows) d2 = (Inr (keys', created', skipped'), d1)"
      by (cases "?c d") (auto simp: and_then_apply preset_step_def preset_key_def ret_apply Let_def split: sum.splits)
    let ?r = "new_template (ids k) (nows k) (pr_title t) (pr_type t)
      (Some (pr_estimate_minutes t)) (pr_recharge_hours t) (pr_max_stacks t)"
    have d2: "planner_template d2 = planner_template d @ [?r]" by (rule create_template_appends [OF c])
    have key: "make_key lower (pt_type ?r) (pt_title ?r) = preset_key lower t"
      by (simp add: new_template_def preset_key_def)
    have "set (preset_key lower t # keys) = set (template_keys lower d2)"
      using Cons.prems(2) by (auto simp: template_keys_def d2 key)
    from Cons.IH [OF rest this] obtain rows where IH:
      "set keys' = set (template_keys lower d1)" "set (map (preset_key lower) ts) \<subseteq> set keys'"
      "created' + skipped' = created + 1 + skipped + length ts"
      "planner_template d1 = planner_template d2 @ rows" "created' = created + 1 + length rows"
      "distinct (map (\<lambda>r. make_key lower (pt_type r) (pt_title r)) rows)"
      "set (map (\<lambda>r. make_key lower (pt_type r) (pt_title r)) rows) \<inter> set (preset_key lower t # keys) = {}"
      by blast
    have "preset_key lower t \<in> set keys'" using IH(1,4) by (auto simp: template_keys_def d2 key)
    then show ?thesis
      using IH d2 key False by (intro conjI exI [of _ "?r # rows"]) auto
  qed
qed

text \<open>Templates of the same type and, without blanks and in lower case, the same title have the same key.\<close>

lemma same_title:
  "pt_type r = pt_type t \<and> lower (trim (pt_title r)) = lower (trim (pt_title t)) \<Longrightarrow>
   make_key lower (pt_type r) (pt_title r) = make_key lower (pt_type t) (pt_title t)"
  by (simp add: make_key_def)

lemma distinct_titles:
  "distinct (map (\<lambda>r. make_key lower (pt_type r) (pt_title r)) rows) \<Longrightarrow>
   distinct (map (\<lambda>r. (pt_type r, lower (trim (pt_title r)))) rows)"
  by (induction rows) (auto simp: make_key_def)

text \<open>
  C19. A preset is applied once: afterwards, merging the same preset again creates nothing and
  changes nothing. Every valid entry is counted as created or skipped, the templates that
  existed stay (unless the mode is replace), no two of the new ones have the same type and title, and none of them has
  those of a template that stayed, where titles are compared without surrounding blanks and in lower case.
\<close>

theorem apply_planner_preset_idempotent:
  assumes "apply_planner_preset lower ids nows mode templates d = (Inr (created, skipped), d1)"
  shows "created + skipped = length (List.map_filter normalize_preset_template templates)
    \<and> apply_planner_preset lower ids' nows' ''merge'' templates d1 = (Inr (0, created + skipped), d1)
    \<and> (\<exists>rows. planner_template d1 = (if mode = ''replace'' then [] else planner_template d) @ rows
         \<and> length rows = created
         \<and> distinct (map (\<lambda>r. (pt_type r, lower (trim (pt_title r)))) rows)
         \<and> (\<forall>r \<in> set rows. \<forall>t \<in> (if mode = ''replace'' then {} else set (planner_template d)).
              \<not> (pt_type r = pt_type t \<and> lower (trim (pt_title r)) = lower (trim (pt_title t)))))"
proof -
  define ts where "ts = List.map_filter normalize_preset_template templates"
  define d0 where "d0 = (if mode = ''replace'' then delete_planner_template (\<lambda>_. True) d else d)"
  have d0: "planner_template d0 = (if mode = ''replace'' then [] else planner_template d)"
    by (simp add: d0_def drop_where_def)
  obtain res d' where loop:
    "for_acc (enumerate 0 ts) (template_keys lower d0, 0, 0) (preset_step lower ids nows) d0 = (res, d')"
    by force
  have "apply_planner_preset lower ids nows mode templates d =
      and_then (for_acc (enumerate 0 ts) (template_keys lower d0, 0, 0) (preset_step lower ids nows))
        (\<lambda>(keys, created, skipped). ret (created, skipped)) d0"
    by (simp add: apply_planner_preset_def Let_def ts_def d0_def and_then_apply modify_apply reading_apply
        ret_apply template_keys_def del: delete_frames)
  with assms loop obtain keys' where
    "for_acc (enumerate 0 ts) (template_keys lower d0, 0, 0) (preset_step lower ids nows) d0 =
       (Inr (keys', created, skipped), d1)"
    by (auto simp: and_then_apply ret_apply split: sum.splits)
  from preset_loop [OF this refl] have known: "\<forall>t \<in> set ts. preset_key lower t \<in> set (template_keys lower d1)"
    and count: "created + skipped = length ts"
    and "\<exists>rows. planner_template d1 = planner_template d0 @ rows \<and> created = length rows
        \<and> distinct (map (\<lambda>r. make_key lower (pt_type r) (pt_title r)) rows)
        \<and> set (map (\<lambda>r. make_key lower (pt_type r) (pt_title r)) rows) \<inter> set (template_keys lower d0) = {}"
    by auto
  then obtain rows where rows: "planner_template d1 = planner_template d0 @ rows" "created = length rows"
    and new: "distinct (map (\<lambda>r. make_key lower (pt_type r) (pt_title r)) rows)"
    and other: "set (map (\<lambda>r. make_key lower (pt_type r) (pt_title r)) rows) \<inter> set (template_keys lower d0) = {}"
    by blast
  have "apply_planner_preset lower ids' nows' ''merge'' templates d1 = (Inr (0, length ts), d1)"
    using preset_loop_skips [OF known, of 0 0 0 ids' nows' d1]
    by (simp add: apply_planner_preset_def Let_def ts_def and_then_apply reading_apply ret_apply template_keys_def)
  moreover have "\<not> (pt_type r = pt_type t \<and> lower (trim (pt_title r)) = lower (trim (pt_title t)))"
    if "r \<in> set rows" "t \<in> set (planner_template d0)" for r t
    using same_title [of r t lower] other that by (auto simp: template_keys_def)
  ultimately show ?thesis
    using count rows distinct_titles [OF new] unfolding d0
    by (intro conjI exI [of _ rows] ballI) (auto simp: ts_def split: if_splits)
qed


definition sample_preset :: "jsval list" where
  "sample_preset = [Obj [(''title'', Str ''Raid''), (''type'', Str ''WEEKLY'')], Null]"

theorem apply_planner_preset_idempotent_witness:
  "\<exists>created skipped d1. apply_planner_preset (\<lambda>s. s) (\<lambda>_. ''t9'') (\<lambda>_. ''now'') ''merge'' sample_preset (empty_db True) =
       (Inr (created, skipped), d1)
     \<and> apply_planner_preset (\<lambda>s. s) (\<lambda>_. ''t10'') (\<lambda>_. ''now'') ''merge'' sample_preset d1 =
       (Inr (0, created + skipped), d1)"
proof -
  have "trim ''Raid'' = ''Raid''" by (rule trim_graphic) (simp_all add: graphic_def)
  then have ts: "List.map_filter normalize_preset_template sample_preset =
      [\<lparr>pr_title = ''Raid'', pr_type = WEEKLY, pr_estimate_minutes = num 0, pr_recharge_hours = None,
        pr_max_stacks = None\<rparr>]"
    by (simp add: sample_preset_def List.map_filter_simps normalize_preset_template_def str_or_def
        template_type_of_def Let_def)
  have "unused_template_id ''t9'' (empty_db True)" by (simp add: unused_template_id_def empty_db_def)
  from create_planner_template_result [OF this, of "Some (num 0)"]
  obtain new where "create_planner_template ''t9'' ''now'' ''Raid'' WEEKLY (Some (num 0)) None None (empty_db True) =
      (Inr ''t9'', (empty_db True)
         \<lparr>planner_template := planner_template (empty_db True) @
            [new_template ''t9'' ''now'' ''Raid'' WEEKLY (Some (num 0)) None None],
          planner_assignment := planner_assignment (empty_db True) @ new\<rparr>)"
    by (force simp: estimate_column_def)
  then have "\<exists>d1. apply_planner_preset (\<lambda>s. s) (\<lambda>_. ''t9'') (\<lambda>_. ''now'') ''merge'' sample_preset (empty_db True) =
      (Inr (1, 0), d1)"
    by (simp add: apply_planner_preset_def ts and_then_apply ret_apply reading_apply preset_step_def empty_db_def)
  then obtain d1 where run: "apply_planner_preset (\<lambda>s. s) (\<lambda>_. ''t9'') (\<lambda>_. ''now'') ''merge'' sample_preset (empty_db True) =
      (Inr (1, 0), d1)" by blast
  from apply_planner_preset_idempotent [OF this, of "\<lambda>_. ''t10''" "\<lambda>_. ''now''"]
  have "apply_planner_preset (\<lambda>s. s) (\<lambda>_. ''t10'') (\<lambda>_. ''now'') ''merge'' sample_preset d1 =
      (Inr (0, 1 + 0), d1)" by (elim conjE)
  with run show ?thesis by (intro exI conjI)
qed

end
