(* ===== verification/BuildScore.thy ===== *)
theory BuildScore
  imports Presets "HOL-Library.AList"
begin

text \<open>
  The build score calculator's storage (\<open>main/storage/domains/buildScore.ts\<close>): reading a
  state or a list of stats from untrusted JSON, the state of each character, and its presets.
  Object keys are unique in a \<open>jsval\<close>, as they are in JavaScript.
\<close>

section \<open>Reading untrusted states\<close>

datatype score_unit = Flat | Percent

record score_stat =
  sc_id :: string
  sc_label :: string
  sc_unit :: score_unit
  sc_enabled :: bool
  sc_weight :: jsnum

record score_set =
  sl_name :: string
  sl_values :: "(string \<times> jsnum) list"

record score_state =
  ss_updated_at :: string
  ss_stats :: "score_stat list"
  ss_set_a :: score_set
  ss_set_b :: score_set

definition set_a_name :: string where "set_a_name = utf8 [0xc138, 0xd305, 0x20, 0x41]"

definition set_b_name :: string where "set_b_name = utf8 [0xc138, 0xd305, 0x20, 0x42]"

definition default_build_score_state :: "string \<Rightarrow> score_state" where
  "default_build_score_state now = \<lparr>ss_updated_at = now, ss_stats =
     [\<lparr>sc_id = ''builtin:power'', sc_label = utf8 [0xc704, 0xb825],
       sc_unit = Flat, sc_enabled = True, sc_weight = num 1\<rparr>,
      \<lparr>sc_id = ''builtin:combatSpeed'', sc_label = utf8 [0xc804, 0xd22c, 0x20, 0xc18d, 0xb3c4],
       sc_unit = Percent, sc_enabled = True, sc_weight = num 1\<rparr>,
      \<lparr>sc_id = ''builtin:pveAmp'', sc_label = utf8 [0x50, 0x76, 0x45, 0x20, 0xd53c, 0xd574, 0x20, 0xc99d, 0xd3ed],
       sc_unit = Percent, sc_enabled = True, sc_weight = num 1\<rparr>,
      \<lparr>sc_id = ''builtin:pvpAmp'', sc_label = utf8 [0x50, 0x76, 0x50, 0x20, 0xd53c, 0xd574, 0x20, 0xc99d, 0xd3ed],
       sc_unit = Percent, sc_enabled = False, sc_weight = num 1\<rparr>,
      \<lparr>sc_id = ''builtin:crit'', sc_label = utf8 [0xce58, 0xba85, 0xd0c0],
       sc_unit = Flat, sc_enabled = False, sc_weight = num 1\<rparr>,
      \<lparr>sc_id = ''builtin:critDmgAmp'', sc_label = utf8 [0xce58, 0xba85, 0xd0c0, 0x20, 0xd53c, 0xd574, 0x20, 0xc99d, 0xd3ed],
       sc_unit = Percent, sc_enabled = False, sc_weight = num 1\<rparr>,
      \<lparr>sc_id = ''builtin:double'', sc_label = utf8 [0xac15, 0xd0c0],
       sc_unit = Percent, sc_enabled = False, sc_weight = num 1\<rparr>,
      \<lparr>sc_id = ''builtin:perfect'', sc_label = utf8 [0xc644, 0xbcbd],
       sc_unit = Percent, sc_enabled = False, sc_weight = num 1\<rparr>,
      \<lparr>sc_id = ''builtin:accuracy'', sc_label = utf8 [0xba85, 0xc911],
       sc_unit = Percent, sc_enabled = False, sc_weight = num 1\<rparr>,
      \<lparr>sc_id = ''builtin:evasion'', sc_label = utf8 [0xd68c, 0xd53c],
       sc_unit = Percent, sc_enabled = False, sc_weight = num 1\<rparr>,
      \<lparr>sc_id = ''builtin:block'', sc_label = utf8 [0xb9c9, 0xae30],
       sc_unit = Percent, sc_enabled = False, sc_weight = num 1\<rparr>,
      \<lparr>sc_id = ''builtin:ccHit'', sc_label = utf8 [0xc0c1, 0xd0dc, 0xc774, 0xc0c1, 0x20, 0xc801, 0xc911],
       sc_unit = Percent, sc_enabled = False, sc_weight = num 1\<rparr>,
      \<lparr>sc_id = ''builtin:ccResist'', sc_label = utf8 [0xc0c1, 0xd0dc, 0xc774, 0xc0c1, 0x20, 0xc800, 0xd56d],
       sc_unit = Percent, sc_enabled = False, sc_weight = num 1\<rparr>,
      \<lparr>sc_id = ''builtin:hp'', sc_label = utf8 [0xc0dd, 0xba85, 0xb825],
       sc_unit = Flat, sc_enabled = False, sc_weight = num 1\<rparr>,
      \<lparr>sc_id = ''builtin:defense'', sc_label = utf8 [0xbc29, 0xc5b4, 0xb825],
       sc_unit = Percent, sc_enabled = False, sc_weight = num 1\<rparr>],
     ss_set_a = \<lparr>sl_name = set_a_name, sl_values = []\<rparr>,
     ss_set_b = \<lparr>sl_name = set_b_name, sl_values = []\<rparr>\<rparr>"

definition as_build_score_unit :: "jsval \<Rightarrow> score_unit" where
  "as_build_score_unit v = (if v = Str ''percent'' then Percent else Flat)"

definition as_stat :: "jsval \<Rightarrow> score_stat option" where
  "as_stat s =
     (if \<not> is_object s then None
      else case (non_empty (str_of (field s ''id'')), non_empty (str_of (field s ''label''))) of
        (Some i, Some l) \<Rightarrow> Some \<lparr>sc_id = i, sc_label = l, sc_unit = as_build_score_unit (field s ''unit''),
          sc_enabled = truthy (field s ''enabled''),
          sc_weight = (case num_of (field s ''weight'') of
            Some x \<Rightarrow> (if is_finite x then x else num 0) | None \<Rightarrow> num 0)\<rparr>
      | _ \<Rightarrow> None)"

text \<open>One entry that is no stat makes the whole list invalid.\<close>

fun all_stats :: "jsval list \<Rightarrow> score_stat list option" where
  "all_stats [] = Some []"
| "all_stats (v # vs) =
     (case as_stat v of None \<Rightarrow> None
      | Some s \<Rightarrow> (case all_stats vs of None \<Rightarrow> None | Some ss \<Rightarrow> Some (s # ss)))"

fun as_build_score_stats :: "jsval \<Rightarrow> score_stat list option" where
  "as_build_score_stats (Arr vs) = all_stats vs"
| "as_build_score_stats _ = None"

text \<open>\<open>Object.entries\<close>; an array has its indices as keys.\<close>

fun own_entries :: "jsval \<Rightarrow> (string \<times> jsval) list" where
  "own_entries (Obj kvs) = kvs"
| "own_entries (Arr vs) = map (\<lambda>(i, v). (show_nat i, v)) (enumerate 0 vs)"
| "own_entries _ = []"

text \<open>\<open>values[k] = v\<close> on a plain object; a number assigned to \<open>__proto__\<close> is ignored.\<close>

definition assign_value :: "(string \<times> jsnum) list \<Rightarrow> string \<times> jsval \<Rightarrow> (string \<times> jsnum) list" where
  "assign_value values kv =
     (case num_of (snd kv) of
        Some x \<Rightarrow> (if is_finite x \<and> fst kv \<noteq> ''__proto__'' then AList.update (fst kv) x values else values)
      | None \<Rightarrow> values)"

definition as_build_score_set :: "jsval \<Rightarrow> string \<Rightarrow> score_set option" where
  "as_build_score_set v fallback =
     (if \<not> is_object v then None
      else Some \<lparr>sl_name = (case trimmed_opt (str_of (field v ''name'')) of Some s \<Rightarrow> s | None \<Rightarrow> fallback),
                sl_values = foldl assign_value [] (own_entries (field v ''values''))\<rparr>)"

definition as_build_score_state :: "string \<Rightarrow> jsval \<Rightarrow> score_state option" where
  "as_build_score_state now v =
     (if \<not> is_object v \<or> field v ''version'' \<noteq> Num (num 1) then None
      else case (as_build_score_stats (field v ''stats''),
                 as_build_score_set (field v ''setA'') set_a_name,
                 as_build_score_set (field v ''setB'') set_b_name) of
        (Some stats, Some a, Some b) \<Rightarrow>
          Some \<lparr>ss_updated_at = str_or now (field v ''updatedAt''), ss_stats = stats, ss_set_a = a, ss_set_b = b\<rparr>
      | _ \<Rightarrow> None)"

section \<open>What is stored\<close>

definition stat_json :: "score_stat \<Rightarrow> jsval" where
  "stat_json s = Obj [(''id'', Str (sc_id s)), (''label'', Str (sc_label s)),
     (''unit'', Str (case sc_unit s of Flat \<Rightarrow> ''flat'' | Percent \<Rightarrow> ''percent'')),
     (''enabled'', Bool (sc_enabled s)), (''weight'', Num (sc_weight s))]"

definition set_json :: "score_set \<Rightarrow> jsval" where
  "set_json s = Obj [(''name'', Str (sl_name s)), (''values'', Obj (map (\<lambda>(k, x). (k, Num x)) (sl_values s)))]"

definition state_json :: "score_state \<Rightarrow> jsval" where
  "state_json st = Obj [(''version'', Num (num 1)), (''updatedAt'', Str (ss_updated_at st)),
     (''stats'', Arr (map stat_json (ss_stats st))), (''setA'', set_json (ss_set_a st)),
     (''setB'', set_json (ss_set_b st))]"

definition get_build_score :: "string \<Rightarrow> string \<Rightarrow> db \<Rightarrow> score_state" where
  "get_build_score now c d =
     (case find (\<lambda>r. bs_character_id r = c) (build_score d) of
        None \<Rightarrow> default_build_score_state now
      | Some row \<Rightarrow>
          (case as_build_score_state now (bs_data_json row) of
             None \<Rightarrow> default_build_score_state now | Some st \<Rightarrow> st))"

definition set_build_score :: "string \<Rightarrow> string \<Rightarrow> jsval \<Rightarrow> (db, unit) op" where
  "set_build_score now c raw =
     (case as_build_score_state now raw of
        None \<Rightarrow> throw (Thrown ''bad_build_score'')
      | Some parsed \<Rightarrow>
          (let json = jsonify (state_json (parsed\<lparr>ss_updated_at := now\<rparr>)) in reading (\<lambda>d.
           if list_ex (\<lambda>r. bs_character_id r = c) (build_score d)
           then modify (build_score_update (update_where (\<lambda>r. bs_character_id r = c)
                  (\<lambda>r. r\<lparr>bs_data_json := json, bs_updated_at := now\<rparr>)))
           else insert_build_score Abort
                  \<lparr>bs_character_id = c, bs_data_json = json, bs_updated_at = now\<rparr>)))"

definition delete_build_score_of :: "string \<Rightarrow> (db, unit) op" where
  "delete_build_score_of c = modify (delete_build_score (\<lambda>r. bs_character_id r = c))"

section \<open>Presets\<close>

record score_preset_item =
  si_id :: string
  si_name :: string
  si_description :: "string option"
  si_stat_count :: nat
  si_created_at :: string
  si_updated_at :: string

record score_preset =
  sp_id :: string
  sp_character_id :: string
  sp_name :: string
  sp_description :: "string option"
  sp_stats :: "score_stat list"
  sp_created_at :: string
  sp_updated_at :: string

definition stats_or_empty :: "jsval \<Rightarrow> score_stat list" where
  "stats_or_empty v = (case as_build_score_stats v of Some ss \<Rightarrow> ss | None \<Rightarrow> [])"

definition presets_of :: "string \<Rightarrow> db \<Rightarrow> build_score_preset_row list" where
  "presets_of c d = order_by (then_by (desc bp_updated_at) (desc bp_created_at))
     (filter (\<lambda>r. bp_character_id r = c) (build_score_preset d))"

definition list_build_score_presets :: "string \<Rightarrow> db \<Rightarrow> score_preset_item list" where
  "list_build_score_presets c d = map (\<lambda>r.
     \<lparr>si_id = bp_id r, si_name = bp_name r, si_description = bp_description r,
      si_stat_count = length (stats_or_empty (bp_stats_json r)),
      si_created_at = bp_created_at r, si_updated_at = bp_updated_at r\<rparr>) (presets_of c d)"

definition read_preset :: "build_score_preset_row \<Rightarrow> score_stat list \<Rightarrow> score_preset" where
  "read_preset r stats =
     \<lparr>sp_id = bp_id r, sp_character_id = bp_character_id r, sp_name = bp_name r,
      sp_description = bp_description r, sp_stats = stats,
      sp_created_at = bp_created_at r, sp_updated_at = bp_updated_at r\<rparr>"

definition list_build_score_presets_full :: "string \<Rightarrow> db \<Rightarrow> score_preset list" where
  "list_build_score_presets_full c d = List.map_filter (\<lambda>r.
     map_option (read_preset r) (as_build_score_stats (bp_stats_json r))) (presets_of c d)"

definition get_build_score_preset :: "string \<Rightarrow> db \<Rightarrow> score_preset option" where
  "get_build_score_preset preset_id d =
     (case find (\<lambda>r. bp_id r = preset_id) (build_score_preset d) of
        None \<Rightarrow> None
      | Some row \<Rightarrow> (if bp_id row = [] then None
                    else Some (read_preset row (stats_or_empty (bp_stats_json row)))))"

definition stats_json :: "score_stat list \<Rightarrow> jsval" where
  "stats_json stats = jsonify (Arr (map stat_json stats))"

definition store_preset ::
  "string \<Rightarrow> string \<Rightarrow> string \<Rightarrow> string option \<Rightarrow> score_stat list \<Rightarrow> string \<Rightarrow> string \<Rightarrow> (db, score_preset_item) op" where
  "store_preset uid c name description stats created updated =
     and_then (insert_build_score_preset Abort
       \<lparr>bp_id = uid, bp_character_id = c, bp_name = name, bp_description = description,
        bp_stats_json = stats_json stats, bp_created_at = created, bp_updated_at = updated\<rparr>) (\<lambda>_.
     ret \<lparr>si_id = uid, si_name = name, si_description = description, si_stat_count = length stats,
          si_created_at = created, si_updated_at = updated\<rparr>)"

definition create_build_score_preset ::
  "string \<Rightarrow> string \<Rightarrow> string \<Rightarrow> string \<Rightarrow> string option \<Rightarrow> jsval \<Rightarrow> (db, score_preset_item) op" where
  "create_build_score_preset uid now c name_in description state =
     (case as_build_score_state now state of
        None \<Rightarrow> throw (Thrown ''bad_build_score'')
      | Some parsed \<Rightarrow>
          (let name = trim name_in in
           guard_else (name \<noteq> []) (Thrown ''bad_request'')
             (store_preset uid c name (map_option trim description) (ss_stats parsed) now now)))"

definition create_build_score_preset_from_stats ::
  "string \<Rightarrow> string \<Rightarrow> string \<Rightarrow> string \<Rightarrow> string option \<Rightarrow> score_stat list \<Rightarrow> string option \<Rightarrow> string option \<Rightarrow>
   (db, score_preset_item) op" where
  "create_build_score_preset_from_stats uid now c name_in description stats created updated =
     (let name = trim name_in; created_at = (case created of Some s \<Rightarrow> s | None \<Rightarrow> now);
          updated_at = (case updated of Some s \<Rightarrow> s | None \<Rightarrow> created_at) in
      guard_else (name \<noteq> []) (Thrown ''bad_request'')
        (store_preset uid c name (map_option trim description) stats created_at updated_at))"

text \<open>
  The forms of an import: an array of presets, one preset, or an export with its name and stats at
  the top (which may nest a \<open>meta\<close> object beside them).
\<close>

definition import_items :: "jsval \<Rightarrow> jsval list" where
  "import_items payload =
     (case field payload ''presets'' of
        Arr vs \<Rightarrow> filter is_object vs
      | _ \<Rightarrow>
          if is_object (field payload ''preset'') then [field payload ''preset'']
          else if truthy (field payload ''name'') \<and> truthy (field payload ''stats'') then [payload]
          else [])"

definition imported_name :: "nat \<Rightarrow> string" where
  "imported_name n = utf8 [0xac00, 0xc838, 0xc628, 0x20, 0xd504, 0xb9ac, 0xc14b, 0x20, 0x28] @ show_nat n @ '')''"

definition import_step ::
  "(nat \<Rightarrow> string) \<Rightarrow> string \<Rightarrow> string \<Rightarrow> nat \<times> jsval \<Rightarrow> score_preset_item list \<Rightarrow> (db, score_preset_item list) op" where
  "import_step ids now c = (\<lambda>(i, it) created.
     let name = trim (str_or [] (field it ''name''));
         resolved = (if name = [] then imported_name (length created + 1) else name) in
     case as_build_score_stats (field it ''stats'') of
       None \<Rightarrow> ret created
     | Some stats \<Rightarrow>
         and_then (create_build_score_preset_from_stats (ids i) now c resolved (str_of (field it ''description''))
           stats (Some (str_or now (field it ''createdAt''))) (Some (str_or now (field it ''updatedAt'')))) (\<lambda>item.
         ret (created @ [item])))"

definition import_build_score_presets_from_json ::
  "(nat \<Rightarrow> string) \<Rightarrow> string \<Rightarrow> string \<Rightarrow> jsval \<Rightarrow> (db, score_preset_item list) op" where
  "import_build_score_presets_from_json ids now c payload =
     guard_else (is_object payload \<and> import_items payload \<noteq> []) (Thrown ''bad_request'')
       (for_acc (enumerate 0 (import_items payload)) [] (import_step ids now c))"

text \<open>A description that is not given (\<open>undefined\<close>) stays; one that is no text is removed.\<close>

definition update_build_score_preset ::
  "string \<Rightarrow> string \<Rightarrow> string option \<Rightarrow> jsval \<Rightarrow> (db, score_preset_item) op" where
  "update_build_score_preset now preset_id name_in description_in = reading (\<lambda>d.
     case get_build_score_preset preset_id d of
       None \<Rightarrow> throw (Thrown ''not_found'')
     | Some existing \<Rightarrow>
         (let name = (case name_in of None \<Rightarrow> sp_name existing | Some s \<Rightarrow> trim s);
              description = (if description_in = Undef then sp_description existing
                             else map_option trim (str_of description_in)) in
          guard_else (name \<noteq> []) (Thrown ''bad_request'') (
          and_then (modify (build_score_preset_update (update_where (\<lambda>r. bp_id r = preset_id)
            (\<lambda>r. r\<lparr>bp_name := name, bp_description := description, bp_updated_at := now\<rparr>)))) (\<lambda>_.
          ret \<lparr>si_id = preset_id, si_name = name, si_description = description,
               si_stat_count = length (sp_stats existing), si_created_at = sp_created_at existing,
               si_updated_at = now\<rparr>))))"

definition clone_build_score_preset ::
  "string \<Rightarrow> string \<Rightarrow> string \<Rightarrow> string option \<Rightarrow> (db, score_preset_item) op" where
  "clone_build_score_preset uid now preset_id new_name = reading (\<lambda>d.
     case get_build_score_preset preset_id d of
       None \<Rightarrow> throw (Thrown ''not_found'')
     | Some existing \<Rightarrow>
         store_preset uid (sp_character_id existing)
           (case trimmed_opt new_name of Some s \<Rightarrow> s | None \<Rightarrow> sp_name existing @ utf8 [0x20, 0x28, 0xbcf5, 0xc0ac, 0x29])
           (sp_description existing) (sp_stats existing) now now)"

definition delete_build_score_preset_by_id :: "string \<Rightarrow> (db, unit) op" where
  "delete_build_score_preset_by_id preset_id = modify (delete_build_score_preset (\<lambda>r. bp_id r = preset_id))"

section \<open>Invariants\<close>

context db_invariant
begin

lemma set_build_score_keeps [keeps_intro]: "keeps I (set_build_score now c raw)"
  unfolding set_build_score_def by (auto simp: Let_def intro!: keeps_intro)

lemma delete_build_score_of_keeps [keeps_intro]: "keeps I (delete_build_score_of c)"
  unfolding delete_build_score_of_def by (intro keeps_intro)

lemma store_preset_keeps [keeps_intro]: "keeps I (store_preset uid c name description stats created updated)"
  unfolding store_preset_def by (intro keeps_intro)

lemma create_build_score_preset_keeps [keeps_intro]:
  "keeps I (create_build_score_preset uid now c name description state)"
  unfolding create_build_score_preset_def by (auto simp: Let_def intro!: keeps_intro)

lemma create_build_score_preset_from_stats_keeps [keeps_intro]:
  "keeps I (create_build_score_preset_from_stats uid now c name description stats created updated)"
  unfolding create_build_score_preset_from_stats_def by (auto simp: Let_def intro!: keeps_intro)

lemma import_build_score_presets_from_json_keeps [keeps_intro]:
  "keeps I (import_build_score_presets_from_json ids now c payload)"
  unfolding import_build_score_presets_from_json_def import_step_def
  by (auto simp: Let_def intro!: keeps_intro)

lemma update_build_score_preset_keeps [keeps_intro]:
  "keeps I (update_build_score_preset now preset_id name description)"
  unfolding update_build_score_preset_def by (auto simp: Let_def intro!: keeps_intro)

lemma clone_build_score_preset_keeps [keeps_intro]: "keeps I (clone_build_score_preset uid now preset_id name)"
  unfolding clone_build_score_preset_def by (auto intro!: keeps_intro)

lemma delete_build_score_preset_by_id_keeps [keeps_intro]: "keeps I (delete_build_score_preset_by_id preset_id)"
  unfolding delete_build_score_preset_by_id_def by (intro keeps_intro)

end

end
