(* ===== verification/Economy.thy ===== *)
theory Economy
  imports Presets
begin

text \<open>
  Manual prices, price watches and alerts (\<open>main/storage/domains/economy.ts\<close>). Fresh ids
  and clock readings come from the supplies \<open>ids\<close> and \<open>clock\<close>, in the order in which
  the code asks for them.
\<close>

section \<open>Operators\<close>

definition as_op :: "jsval \<Rightarrow> watch_op option" where
  "as_op v = (if v = Str ''<'' then Some OpLt else if v = Str ''<='' then Some OpLe
     else if v = Str ''>'' then Some OpGt else if v = Str ''>='' then Some OpGe else None)"

fun compare_price :: "jsnum \<Rightarrow> watch_op \<Rightarrow> jsnum \<Rightarrow> bool" where
  "compare_price price OpLt threshold = num_lt price threshold"
| "compare_price price OpLe threshold = num_le price threshold"
| "compare_price price OpGt threshold = num_lt threshold price"
| "compare_price price OpGe threshold = num_le threshold price"

section \<open>Items\<close>

text \<open>\<open>typeof v === "number" && Number.isFinite(v) ? Math.max(1, Math.min(500, v)) : 100\<close>.\<close>

definition list_limit :: "jsnum option \<Rightarrow> jsnum" where
  "list_limit v = (case v of
     Some x \<Rightarrow> (if is_finite x then num_max (num 1) (num_min (num 500) x) else num 100)
   | None \<Rightarrow> num 100)"

text \<open>\<open>Number.isFinite(x) ? Math.max(0, Math.floor(x)) : 0\<close>.\<close>

definition finite_floor :: "jsnum \<Rightarrow> jsnum" where
  "finite_floor x = (if is_finite x then nonneg_floor x else num 0)"

text \<open>
  \<open>value LIKE pattern ESCAPE esc\<close> as SQLite evaluates it for a row. Its function \<open>like\<close> rejects a pattern of more than
  50000 bytes and an escape text that is not a single character, before it looks at the value. Then \<open>%\<close> stands for any
  text, \<open>_\<close> for one character (the bytes that continue it included), the escape character makes the next one literal,
  and ASCII letters match in either case. The escape texts of the source are ASCII.
\<close>

definition lower_ascii :: "char \<Rightarrow> char" where
  "lower_ascii c = (let n = (of_char c :: nat) in if 65 \<le> n \<and> n \<le> 90 then char_of (n + 32) else c)"

definition same_letter :: "char \<Rightarrow> char \<Rightarrow> bool" where
  "same_letter a b \<longleftrightarrow> lower_ascii a = lower_ascii b"

definition continues :: "char \<Rightarrow> bool" where
  "continues c \<longleftrightarrow> 128 \<le> (of_char c :: nat) \<and> (of_char c :: nat) < 192"

function like_match :: "char \<Rightarrow> string \<Rightarrow> string \<Rightarrow> bool" where
  "like_match e [] s = (s = [])"
| "like_match e (c # p) s =
     (if c = CHR ''%'' then like_match e p s \<or> (case s of [] \<Rightarrow> False | x # s' \<Rightarrow> like_match e (c # p) s')
      else if c = e then (case (p, s) of (l # p', x # s') \<Rightarrow> same_letter l x \<and> like_match e p' s' | _ \<Rightarrow> False)
      else (case s of
          [] \<Rightarrow> False
        | x # s' \<Rightarrow> if c = CHR ''_'' then like_match e p (dropWhile continues s')
                    else same_letter c x \<and> like_match e p s'))"
  by pat_completeness auto
termination
  by (relation "measure (\<lambda>(e, p, s). length p + length s)") (auto simp: less_Suc_eq_le le_SucI length_dropWhile_le)

definition like_escape_error :: err where
  "like_escape_error = SqlError ''ESCAPE expression must be a single character''"

definition sql_like :: "string \<Rightarrow> string \<Rightarrow> string \<Rightarrow> err + bool" where
  "sql_like pattern esc v =
     (if length pattern > 50000 then Inl (SqlError ''LIKE or GLOB pattern too complex'')
      else (case esc of [e] \<Rightarrow> Inr (like_match e pattern v) | _ \<Rightarrow> Inl like_escape_error))"

text \<open>\<open>WHERE\<close>: the rows for which the condition holds, or its first error.\<close>

fun where_rows :: "('r \<Rightarrow> err + bool) \<Rightarrow> 'r list \<Rightarrow> err + 'r list" where
  "where_rows f [] = Inr []"
| "where_rows f (r # rs) =
     (case f r of Inl e \<Rightarrow> Inl e | Inr b \<Rightarrow>
       (case where_rows f rs of Inl e \<Rightarrow> Inl e | Inr out \<Rightarrow> Inr (if b then r # out else out)))"

text \<open>
  The escape text of both searches. The source writes \<open>ESCAPE '\\\\'\<close> with four backslashes in a JavaScript string, so
  the SQL text has two of them between the quotes.
\<close>

definition escape_text :: string where
  "escape_text = [CHR 0x5C, CHR 0x5C]"

text \<open>\<open>replaceAll\<close> of one character by a text.\<close>

definition replace_char :: "char \<Rightarrow> string \<Rightarrow> string \<Rightarrow> string" where
  "replace_char c t s = concat (map (\<lambda>x. if x = c then t else [x]) s)"

definition item_pattern :: "string \<Rightarrow> string" where
  "item_pattern q = ''%'' @ replace_char (CHR ''_'') (CHR 0x5C # ''_'') (replace_char (CHR ''%'') (CHR 0x5C # ''%'') q) @ ''%''"

text \<open>The condition of an optional search text on a column.\<close>

definition search_where :: "string option \<Rightarrow> ('r \<Rightarrow> string) \<Rightarrow> 'r list \<Rightarrow> err + 'r list" where
  "search_where pattern column rows =
     (case pattern of None \<Rightarrow> Inr rows | Some p \<Rightarrow> where_rows (\<lambda>r. sql_like p escape_text (column r)) rows)"

definition list_economy_items :: "string option \<Rightarrow> jsnum option \<Rightarrow> db \<Rightarrow> err + economy_item_row list" where
  "list_economy_items q limit d =
     (case limit_rows (list_limit limit) ([] :: economy_item_row list) of
        Inl e \<Rightarrow> Inl e
      | Inr _ \<Rightarrow>
          (case search_where (map_option item_pattern (trimmed_opt q)) ei_name (economy_item d) of
             Inl e \<Rightarrow> Inl e
           | Inr found \<Rightarrow> limit_rows (list_limit limit) (order_by (asc ei_name) found)))"

text \<open>With this escape text the condition fails at the first row.\<close>

lemma sql_like_fails: "\<exists>m. sql_like p escape_text v = Inl (SqlError m)"
  by (simp add: sql_like_def escape_text_def like_escape_error_def)

lemma search_where_simps [simp]:
  "search_where None column rows = Inr rows" "search_where p column [] = Inr []"
  by (auto simp: search_where_def split: option.split)

lemma search_where_fails:
  assumes "rows \<noteq> []"
  shows "\<exists>m. search_where (Some p) column rows = Inl (SqlError m)"
proof (cases rows)
  case (Cons r rs)
  with sql_like_fails [of p "column r"] show ?thesis by (auto simp: search_where_def)
qed (use assms in simp)

text \<open>
  What the search would find with a single escape character: the texts that contain the search text, in which ASCII
  letters match in either case.
\<close>

definition plain :: "string \<Rightarrow> bool" where
  "plain t \<longleftrightarrow> (\<forall>c \<in> set t. c \<noteq> CHR ''%'' \<and> c \<noteq> CHR ''_'' \<and> c \<noteq> CHR 0x5C)"

lemma like_plain_prefix:
  "plain t \<Longrightarrow> like_match (CHR 0x5C) (t @ ''%'') s \<longleftrightarrow> (\<exists>m b. s = m @ b \<and> list_all2 same_letter t m)"
proof (induction t arbitrary: s)
  case Nil
  have "like_match (CHR 0x5C) ''%'' s" by (induction s) simp_all
  then show ?case by simp
next
  case (Cons c t)
  then have c: "c \<noteq> CHR ''%''" "c \<noteq> CHR ''_''" "c \<noteq> CHR 0x5C" and t: "plain t" by (simp_all add: plain_def)
  show ?case
  proof (cases s)
    case Nil
    with c show ?thesis by simp
  next
    case s: (Cons x s')
    have "like_match (CHR 0x5C) ((c # t) @ ''%'') s \<longleftrightarrow> same_letter c x \<and> like_match (CHR 0x5C) (t @ ''%'') s'"
      using c by (simp add: s)
    also have "\<dots> \<longleftrightarrow> (\<exists>m b. s = m @ b \<and> list_all2 same_letter (c # t) m)"
      unfolding Cons.IH [OF t] s list_all2_Cons1 by (metis append_Cons list.inject)
    finally show ?thesis .
  qed
qed

lemma like_finds_text:
  "plain t \<Longrightarrow> like_match (CHR 0x5C) (''%'' @ t @ ''%'') s \<longleftrightarrow>
     (\<exists>a m b. s = a @ m @ b \<and> list_all2 same_letter t m)"
proof (induction s)
  case Nil
  then show ?case using like_plain_prefix [of t "[]"] by simp
next
  case (Cons x s)
  have "(\<exists>a m b. x # s = a @ m @ b \<and> P m) \<longleftrightarrow> (\<exists>m b. x # s = m @ b \<and> P m) \<or> (\<exists>a m b. s = a @ m @ b \<and> P m)"
    (is "?L = ?R") for P :: "string \<Rightarrow> bool"
  proof
    assume ?R
    then show ?L
    proof (elim disjE exE conjE)
      fix m b assume "x # s = m @ b" "P m"
      then show ?L by (intro exI [of _ "[]"] exI [of _ m] exI [of _ b]) simp
    next
      fix a m b assume "s = a @ m @ b" "P m"
      then show ?L by (intro exI [of _ "x # a"] exI [of _ m] exI [of _ b]) simp
    qed
  qed (auto simp: Cons_eq_append_conv)
  then show ?case using Cons.IH [OF Cons.prems] like_plain_prefix [OF Cons.prems, of "x # s"]
    by (simp only: append_Cons append_Nil like_match.simps list.case) simp
qed

definition get_economy_item_by_id :: "string \<Rightarrow> db \<Rightarrow> economy_item_row option" where
  "get_economy_item_by_id item_id d =
     (case find (\<lambda>r. ei_id r = item_id) (economy_item d) of
        Some r \<Rightarrow> (if ei_id r = [] then None else Some r) | None \<Rightarrow> None)"

text \<open>\<open>a ?? b\<close> on nullable columns.\<close>

definition or_else :: "'a option \<Rightarrow> 'a option \<Rightarrow> 'a option" where
  "or_else a b = (case a of Some x \<Rightarrow> Some x | None \<Rightarrow> b)"

definition upsert_economy_item_by_name ::
  "string \<Rightarrow> string \<Rightarrow> string \<Rightarrow> string option \<Rightarrow> string option \<Rightarrow> (db, economy_item_row) op" where
  "upsert_economy_item_by_name uid now name_in category_in note_in =
     (let name = trim name_in; category = trimmed_opt category_in; note = trimmed_opt note_in in
      guard_else (name \<noteq> []) (Thrown ''bad_request'') (reading (\<lambda>d.
        let insert_new = (let row = \<lparr>ei_id = uid, ei_name = name, ei_category = category, ei_note = note,
                                     ei_created_at = now, ei_updated_at = now\<rparr>
                          in and_then (insert_economy_item Abort row) (\<lambda>_. ret row)) in
        case find (\<lambda>r. ei_name r = name) (economy_item d) of
          None \<Rightarrow> insert_new
        | Some existing \<Rightarrow>
            if ei_id existing = [] then insert_new
            else (let next_category = or_else category (ei_category existing);
                      next_note = or_else note (ei_note existing) in
                  and_then (modify (economy_item_update (update_where (\<lambda>r. ei_id r = ei_id existing)
                    (\<lambda>r. r\<lparr>ei_category := next_category, ei_note := next_note, ei_updated_at := now\<rparr>)))) (\<lambda>_.
                  ret (existing\<lparr>ei_category := next_category, ei_note := next_note, ei_updated_at := now\<rparr>))))))"

definition update_economy_item_by_id ::
  "string \<Rightarrow> string \<Rightarrow> string \<Rightarrow> string option \<Rightarrow> string option \<Rightarrow> (db, unit) op" where
  "update_economy_item_by_id now uid name_in category note =
     (let name = trim name_in in
      guard_else (uid \<noteq> [] \<and> name \<noteq> []) (Thrown ''bad_request'')
        (update_economy_item uid (\<lambda>r. r\<lparr>ei_name := name, ei_category := trimmed_opt category,
           ei_note := trimmed_opt note, ei_updated_at := now\<rparr>)))"

definition delete_economy_item_by_id :: "string \<Rightarrow> (db, unit) op" where
  "delete_economy_item_by_id item_id = modify (delete_economy_item (\<lambda>r. ei_id r = item_id))"

section \<open>Prices and the alerts they trigger\<close>

definition alert_for ::
  "string \<Rightarrow> string \<Rightarrow> string \<Rightarrow> string \<Rightarrow> jsnum \<Rightarrow> string \<Rightarrow> economy_price_watch_row \<Rightarrow>
   economy_alert_event_row" where
  "alert_for uid server item_id item_name price triggered_at w =
     \<lparr>ea_id = uid, ea_server = server, ea_item_id = item_id, ea_item_name = item_name,
      ea_op = ew_op w, ea_threshold = ew_threshold w, ea_price = price,
      ea_triggered_at = triggered_at, ea_read_at = None\<rparr>"

text \<open>The active watches of an item, newest first.\<close>

definition active_watches :: "string \<Rightarrow> string \<Rightarrow> db \<Rightarrow> economy_price_watch_row list" where
  "active_watches server item_id d =
     order_by (desc ew_created_at)
       (filter (\<lambda>w. ew_server w = server \<and> ew_item_id w = item_id \<and> ew_active w) (economy_price_watch d))"

definition trigger_watches_for_price ::
  "(nat \<Rightarrow> string) \<Rightarrow> string \<Rightarrow> string \<Rightarrow> string \<Rightarrow> jsnum \<Rightarrow> string \<Rightarrow>
   (db, economy_alert_event_row list) op" where
  "trigger_watches_for_price ids server item_id item_name price triggered_at = reading (\<lambda>d.
     for_acc (enumerate 0 (active_watches server item_id d)) [] (\<lambda>(i, w) triggered.
       if \<not> compare_price price (ew_op w) (ew_threshold w) then ret triggered
       else let event = alert_for (ids i) server item_id item_name price triggered_at w in
         and_then (insert_economy_alert_event Abort event) (\<lambda>_. ret (triggered @ [event]))))"

record price_result =
  pq_price_id :: string
  pq_item :: economy_item_row
  pq_triggered :: "economy_alert_event_row list"

definition add_economy_price ::
  "(nat \<Rightarrow> string) \<Rightarrow> (nat \<Rightarrow> string) \<Rightarrow> string \<Rightarrow> string \<Rightarrow> jsnum \<Rightarrow> string option \<Rightarrow> (db, price_result) op" where
  "add_economy_price ids clock server_in item_name price_in recorded_in =
     (let server = trim server_in in
      guard_else (server \<noteq> []) (Thrown ''bad_request'') (
      and_then (upsert_economy_item_by_name (ids 0) (clock 0) item_name None None) (\<lambda>item.
      let price = finite_floor price_in;
          recorded_at = (case non_empty recorded_in of Some s \<Rightarrow> s | None \<Rightarrow> clock 1);
          now = clock 2 in
      and_then (insert_economy_price Abort
        \<lparr>ep_id = ids 1, ep_server = server, ep_item_id = ei_id item, ep_price = price,
         ep_recorded_at = recorded_at, ep_created_at = now, ep_updated_at = now\<rparr>) (\<lambda>_.
      and_then (trigger_watches_for_price (\<lambda>i. ids (i + 2)) server (ei_id item) (ei_name item) price recorded_at)
        (\<lambda>triggered. ret \<lparr>pq_price_id = ids 1, pq_item = item, pq_triggered = triggered\<rparr>)))))"

definition newest_first :: "economy_price_row \<Rightarrow> economy_price_row \<Rightarrow> bool" where
  "newest_first = then_by (desc ep_recorded_at) (desc ep_created_at)"

definition list_economy_prices ::
  "string \<Rightarrow> string \<Rightarrow> jsnum option \<Rightarrow> db \<Rightarrow> err + economy_price_row list" where
  "list_economy_prices server_in item_id limit d =
     (let server = trim server_in in
      if server = [] \<or> item_id = [] then Inl (Thrown ''bad_request'')
      else limit_rows (list_limit limit)
        (order_by newest_first (filter (\<lambda>r. ep_server r = server \<and> ep_item_id r = item_id) (economy_price d))))"

text \<open>The newest price of every requested item that has one, as an association list.\<close>

definition keep_first_price :: "(string \<times> jsnum) list \<Rightarrow> economy_price_row \<Rightarrow> (string \<times> jsnum) list" where
  "keep_first_price out r =
     (if map_of out (ep_item_id r) \<noteq> None then out else out @ [(ep_item_id r, ep_price r)])"

definition get_latest_prices_by_item_id ::
  "string \<Rightarrow> string list \<Rightarrow> db \<Rightarrow> err + (string \<times> jsnum) list" where
  "get_latest_prices_by_item_id server_in item_ids d =
     (let server = trim server_in; ids = js_uniq (filter (\<lambda>i. i \<noteq> []) item_ids) in
      if server = [] then Inl (Thrown ''bad_request'')
      else if ids = [] then Inr []
      else Inr (foldl keep_first_price [] (order_by newest_first
          (filter (\<lambda>r. ep_server r = server \<and> ep_item_id r \<in> set ids) (economy_price d)))))"

section \<open>Watches\<close>

definition list_economy_watches ::
  "string \<Rightarrow> db \<Rightarrow> err + (economy_price_watch_row \<times> string) list" where
  "list_economy_watches server_in d =
     (let server = trim server_in in
      if server = [] then Inl (Thrown ''bad_request'')
      else Inr (order_by (asc snd) (concat (map (\<lambda>w.
        map (\<lambda>i. (w, ei_name i)) (filter (\<lambda>i. ei_id i = ew_item_id w) (economy_item d)))
        (filter (\<lambda>w. ew_server w = server) (economy_price_watch d))))))"

definition create_economy_watch ::
  "(nat \<Rightarrow> string) \<Rightarrow> (nat \<Rightarrow> string) \<Rightarrow> string \<Rightarrow> string \<Rightarrow> jsval \<Rightarrow> jsnum \<Rightarrow>
   (db, economy_price_watch_row) op" where
  "create_economy_watch ids clock server_in item_name op_in threshold_in =
     (let server = trim server_in in
      guard_else (server \<noteq> []) (Thrown ''bad_request'') (
      case as_op op_in of
        None \<Rightarrow> throw (Thrown ''bad_request'')
      | Some oper \<Rightarrow>
          and_then (upsert_economy_item_by_name (ids 0) (clock 0) item_name None None) (\<lambda>item.
          let row = \<lparr>ew_id = ids 1, ew_server = server, ew_item_id = ei_id item, ew_op = oper,
                     ew_threshold = finite_floor threshold_in, ew_active = True,
                     ew_created_at = clock 1, ew_updated_at = clock 1\<rparr> in
          and_then (insert_economy_price_watch Abort row) (\<lambda>_. ret row))))"

definition set_economy_watch_active :: "string \<Rightarrow> string \<Rightarrow> bool \<Rightarrow> (db, unit) op" where
  "set_economy_watch_active now uid active =
     guard_else (uid \<noteq> []) (Thrown ''bad_request'')
       (modify (economy_price_watch_update (update_where (\<lambda>r. ew_id r = uid)
         (\<lambda>r. r\<lparr>ew_active := active, ew_updated_at := now\<rparr>))))"

definition delete_economy_watch :: "string \<Rightarrow> (db, unit) op" where
  "delete_economy_watch watch_id = modify (delete_economy_price_watch (\<lambda>r. ew_id r = watch_id))"

section \<open>Alerts\<close>

definition list_economy_alert_events ::
  "string option \<Rightarrow> bool \<Rightarrow> jsnum option \<Rightarrow> db \<Rightarrow> err + economy_alert_event_row list" where
  "list_economy_alert_events server unread_only limit d =
     limit_rows (list_limit limit) (order_by (desc ea_triggered_at) (filter (\<lambda>r.
       (case trimmed_opt server of None \<Rightarrow> True | Some s \<Rightarrow> ea_server r = s)
       \<and> (unread_only \<longrightarrow> ea_read_at r = None)) (economy_alert_event d)))"

definition mark_economy_alert_read :: "string \<Rightarrow> string \<Rightarrow> (db, unit) op" where
  "mark_economy_alert_read now uid =
     guard_else (uid \<noteq> []) (Thrown ''bad_request'')
       (modify (economy_alert_event_update (update_where (\<lambda>r. ea_id r = uid)
         (\<lambda>r. r\<lparr>ea_read_at := Some now\<rparr>))))"

section \<open>Invariants\<close>

context db_invariant
begin

lemma upsert_economy_item_by_name_keeps [keeps_intro]:
  "keeps I (upsert_economy_item_by_name uid now name category note)"
  unfolding upsert_economy_item_by_name_def by (auto simp: Let_def intro!: keeps_intro)

lemma update_economy_item_by_id_keeps [keeps_intro]:
  "keeps I (update_economy_item_by_id now uid name category note)"
  unfolding update_economy_item_by_id_def by (auto simp: Let_def intro!: keeps_intro)

lemma delete_economy_item_by_id_keeps [keeps_intro]: "keeps I (delete_economy_item_by_id uid)"
  unfolding delete_economy_item_by_id_def by (intro keeps_intro)

lemma trigger_watches_for_price_keeps [keeps_intro]:
  "keeps I (trigger_watches_for_price ids server item name price at_time)"
  unfolding trigger_watches_for_price_def by (auto simp: Let_def intro!: keeps_intro)

lemma add_economy_price_keeps [keeps_intro]:
  "keeps I (add_economy_price ids clock server item price recorded)"
  unfolding add_economy_price_def by (auto simp: Let_def intro!: keeps_intro)

lemma create_economy_watch_keeps [keeps_intro]:
  "keeps I (create_economy_watch ids clock server item oper threshold)"
  unfolding create_economy_watch_def by (auto simp: Let_def intro!: keeps_intro)

lemma set_economy_watch_active_keeps [keeps_intro]: "keeps I (set_economy_watch_active now uid active)"
  unfolding set_economy_watch_active_def by (auto intro!: keeps_intro)

lemma delete_economy_watch_keeps [keeps_intro]: "keeps I (delete_economy_watch uid)"
  unfolding delete_economy_watch_def by (intro keeps_intro)

lemma mark_economy_alert_read_keeps [keeps_intro]: "keeps I (mark_economy_alert_read now uid)"
  unfolding mark_economy_alert_read_def by (auto intro!: keeps_intro)

end


section \<open>The newest price\<close>

lemma newest_first_order: "newest_first x y \<or> newest_first y x"
  "newest_first x y \<Longrightarrow> newest_first y z \<Longrightarrow> newest_first x z"
  unfolding newest_first_def
  by (rule then_by_total desc_total)+ (erule then_by_trans [rotated 2], assumption, (erule desc_trans, assumption)+)

lemma newest_first_refl [simp]: "newest_first x x"
  using newest_first_order(1) [of x x] by simp

lemma first_price:
  "map_of (foldl keep_first_price out rows) i =
   (case map_of out i of Some p \<Rightarrow> Some p
    | None \<Rightarrow> map_option ep_price (find (\<lambda>r. ep_item_id r = i) rows))"
proof (induction rows arbitrary: out)
  case (Cons r rows)
  then show ?case
    by (cases "map_of out (ep_item_id r)"; cases "ep_item_id r = i")
      (auto simp: keep_first_price_def map_of_append split: option.splits)
qed (simp split: option.split)

lemma newest_price:
  assumes "get_latest_prices_by_item_id server item_ids d = Inr out"
  shows "(map_of out i = Some p \<longrightarrow>
      (\<exists>r \<in> set (economy_price d). ep_server r = trim server \<and> ep_item_id r = i \<and> ep_price r = p
        \<and> (\<forall>r' \<in> set (economy_price d). ep_server r' = trim server \<and> ep_item_id r' = i \<longrightarrow> newest_first r r')))
    \<and> (map_of out i = None \<longleftrightarrow> i \<notin> set item_ids \<or> i = []
        \<or> (\<forall>r \<in> set (economy_price d). \<not> (ep_server r = trim server \<and> ep_item_id r = i)))"
proof -
  define ids where "ids = js_uniq (filter (\<lambda>i. i \<noteq> []) item_ids)"
  define rows where "rows = order_by newest_first
    (filter (\<lambda>r. ep_server r = trim server \<and> ep_item_id r \<in> set ids) (economy_price d))"
  have found: "map_of out i = map_option ep_price (find (\<lambda>r. ep_item_id r = i) rows)"
  proof (cases "ids = []")
    case True
    with assms have "out = []" by (auto simp: get_latest_prices_by_item_id_def Let_def ids_def split: if_splits)
    moreover have "rows = []" using True by (simp add: rows_def order_by_def)
    ultimately show ?thesis by simp
  next
    case False
    with assms show ?thesis
      by (auto simp: get_latest_prices_by_item_id_def Let_def ids_def [symmetric] rows_def [symmetric]
          first_price split: if_splits)
  qed
  have sorted: "sorted_wrt newest_first rows"
    unfolding rows_def by (rule sorted_order_by [OF newest_first_order])
  have set_rows: "r \<in> set rows \<longleftrightarrow> r \<in> set (economy_price d) \<and> ep_server r = trim server
      \<and> ep_item_id r \<in> set item_ids \<and> ep_item_id r \<noteq> []" for r
    by (auto simp: rows_def ids_def)
  show ?thesis
  proof (cases "find (\<lambda>r. ep_item_id r = i) rows")
    case None
    then have "map_of out i = None" "\<forall>r \<in> set rows. ep_item_id r \<noteq> i" using found by (simp_all add: find_None)
    then show ?thesis using set_rows by auto
  next
    case (Some r)
    from find_SomeD [OF Some] have r: "r \<in> set rows" "ep_item_id r = i" by auto
    moreover have "newest_first r r'" if "r' \<in> set (economy_price d)" "ep_server r' = trim server"
      "ep_item_id r' = i" for r'
      using find_sorted_least [OF sorted newest_first_refl Some] that r set_rows by auto
    ultimately show ?thesis using found Some set_rows by auto
  qed
qed

text \<open>
  The price that the report uses for an item is the price of a newest record of that item on the
  server; an item has no price exactly when it was not asked for or has no record there.
\<close>

theorem latest_price_is_newest:
  assumes "get_latest_prices_by_item_id server item_ids d = Inr out"
  shows "(map_of out i = Some p \<longrightarrow>
      (\<exists>r \<in> set (economy_price d). ep_server r = trim server \<and> ep_item_id r = i \<and> ep_price r = p
        \<and> (\<forall>r' \<in> set (economy_price d). ep_server r' = trim server \<and> ep_item_id r' = i \<longrightarrow> newest_first r r')))
    \<and> (map_of out i = None \<longleftrightarrow> i \<notin> set item_ids \<or> i = []
        \<or> (\<forall>r \<in> set (economy_price d). \<not> (ep_server r = trim server \<and> ep_item_id r = i)))"
  by (rule newest_price [OF assms])

section \<open>Triggered alerts\<close>

text \<open>The loop stores one alert per matching watch and returns the stored alerts.\<close>

lemma trigger_loop:
  "for_acc (enumerate k ws) acc (\<lambda>(i, w) triggered.
       if \<not> compare_price price (ew_op w) (ew_threshold w) then ret triggered
       else let event = alert_for (ids i) server item_id item_name price t w in
         and_then (insert_economy_alert_event Abort event) (\<lambda>_. ret (triggered @ [event]))) d = (Inr evs, d1) \<Longrightarrow>
   \<exists>new. evs = acc @ new \<and> d1 = d\<lparr>economy_alert_event := economy_alert_event d @ new\<rparr>
     \<and> map (\<lambda>a. (ea_op a, ea_threshold a)) new
         = map (\<lambda>w. (ew_op w, ew_threshold w)) (filter (\<lambda>w. compare_price price (ew_op w) (ew_threshold w)) ws)
     \<and> (\<forall>a \<in> set new. ea_server a = server \<and> ea_item_id a = item_id \<and> ea_item_name a = item_name
         \<and> ea_price a = price \<and> ea_read_at a = None)"
proof (induction ws arbitrary: k acc d)
  case Nil
  then show ?case by (intro exI [of _ "[]"]) (simp add: ret_apply)
next
  case (Cons w ws)
  show ?case
  proof (cases "compare_price price (ew_op w) (ew_threshold w)")
    case False
    with Cons show ?thesis by (simp add: and_then_apply ret_apply)
  next
    case True
    define a where "a = alert_for (ids k) server item_id item_name price t w"
    obtain r d2 where ins: "insert_economy_alert_event Abort a d = (r, d2)" by force
    with Cons.prems True have r: "r = Inr ()"
      by (cases r) (auto simp: and_then_apply Let_def a_def)
    with ins have d2: "d2 = d\<lparr>economy_alert_event := economy_alert_event d @ [a]\<rparr>"
      by (auto simp: insert_economy_alert_event_def insert_into_def Let_def split: if_splits)
    from Cons.prems True ins r obtain new where
      "evs = (acc @ [a]) @ new" "d1 = d2\<lparr>economy_alert_event := economy_alert_event d2 @ new\<rparr>"
      "map (\<lambda>a. (ea_op a, ea_threshold a)) new
         = map (\<lambda>w. (ew_op w, ew_threshold w)) (filter (\<lambda>w. compare_price price (ew_op w) (ew_threshold w)) ws)"
      "\<forall>a \<in> set new. ea_server a = server \<and> ea_item_id a = item_id \<and> ea_item_name a = item_name
         \<and> ea_price a = price \<and> ea_read_at a = None"
      using Cons.IH [of "Suc k" "acc @ [a]" d2]
      by (auto simp: and_then_apply ret_apply Let_def a_def)
    with True d2 show ?thesis
      by (intro exI [of _ "a # new"]) (auto simp: a_def alert_for_def)
  qed
qed

text \<open>Naming an item changes the items only.\<close>

lemma upsert_item_frame:
  assumes "\<And>f d. P d \<Longrightarrow> P (economy_item_update f d)"
  shows "keeps P (upsert_economy_item_by_name uid now name category note)"
proof -
  have "keeps P (insert_economy_item Abort r)" for r
    by (rule keepsI) (auto simp: insert_economy_item_def insert_into_def Let_def intro: assms)
  moreover have "keeps P (modify (economy_item_update f))" for f
    by (rule keepsI) (simp add: modify_apply assms)
  ultimately show ?thesis
    unfolding upsert_economy_item_by_name_def by (auto simp: Let_def intro!: keeps_intro)
qed

lemma upsert_item_name:
  "upsert_economy_item_by_name uid now name category note d = (Inr it, d') \<Longrightarrow> ei_name it = trim name"
proof -
  assume run: "upsert_economy_item_by_name uid now name category note d = (Inr it, d')"
  show ?thesis
  proof (cases "find (\<lambda>r. ei_name r = trim name) (economy_item d)")
    case None
    with run show ?thesis
      by (auto simp: upsert_economy_item_by_name_def guard_else_apply reading_apply and_then_apply
          ret_apply Let_def split: if_splits sum.splits)
  next
    case (Some e)
    with run find_SomeD [OF Some] show ?thesis
      by (auto simp: upsert_economy_item_by_name_def guard_else_apply reading_apply and_then_apply
          modify_apply ret_apply Let_def split: if_splits sum.splits)
  qed
qed

text \<open>
  When a watch is due, said of the whole price that is stored: it is below, at most, above or at least the threshold.
\<close>

fun stored_price :: "jsnum \<Rightarrow> int" where
  "stored_price (Fin r) = max 0 \<lfloor>r\<rfloor>"
| "stored_price _ = 0"

fun meets :: "int \<Rightarrow> watch_op \<Rightarrow> jsnum \<Rightarrow> bool" where
  "meets p OpLt (Fin t) = (of_int p < t)"
| "meets p OpLe (Fin t) = (of_int p \<le> t)"
| "meets p OpGt (Fin t) = (t < of_int p)"
| "meets p OpGe (Fin t) = (t \<le> of_int p)"
| "meets p op PosInf = (op = OpLt \<or> op = OpLe)"
| "meets p op NegInf = (op = OpGt \<or> op = OpGe)"
| "meets p op NaN = False"

lemma finite_floor_stored: "finite_floor x = num (stored_price x)"
  by (cases x) (simp_all add: finite_floor_def nonneg_floor_def)

lemma compare_price_meets: "compare_price (num p) op t = meets p op t"
  by (cases op; cases t) (auto simp: num_le_def num_def)

text \<open>
  C4. Recording a price stores it, rounded down and not below 0, and raises exactly the alerts that are due: one unread
  alert, with the operator and the threshold of the watch, for every active watch of that item on that server whose
  threshold the price meets, in the order of the watches, and no other.
\<close>

theorem price_raises_due_alerts:
  assumes "add_economy_price ids clock server item price recorded d = (Inr res, d1)"
  shows "economy_alert_event d1 = economy_alert_event d @ pq_triggered res
    \<and> map (\<lambda>a. (ea_op a, ea_threshold a)) (pq_triggered res)
        = map (\<lambda>w. (ew_op w, ew_threshold w))
            (order_by (desc ew_created_at) (filter (\<lambda>w. ew_active w \<and> ew_server w = trim server
                \<and> ew_item_id w = ei_id (pq_item res) \<and> meets (stored_price price) (ew_op w) (ew_threshold w))
              (economy_price_watch d)))
    \<and> (\<forall>a \<in> set (pq_triggered res). ea_server a = trim server \<and> ea_item_id a = ei_id (pq_item res)
         \<and> ea_item_name a = trim item \<and> ea_price a = num (stored_price price) \<and> ea_read_at a = None)
    \<and> (\<exists>r. economy_price d1 = economy_price d @ [r] \<and> ep_id r = pq_price_id res
         \<and> ep_server r = trim server \<and> ep_item_id r = ei_id (pq_item res) \<and> ep_price r = num (stored_price price))"
proof -
  obtain r0 d2 where up: "upsert_economy_item_by_name (ids 0) (clock 0) item None None d = (r0, d2)" by force
  from assms have server: "trim server \<noteq> []"
    by (auto simp: add_economy_price_def Let_def guard_else_apply split: if_splits)
  with assms up obtain it where r0: "r0 = Inr it"
    by (cases r0) (auto simp: add_economy_price_def Let_def guard_else_apply and_then_apply)
  have "keeps (\<lambda>d'. economy_price d' = economy_price d \<and> economy_price_watch d' = economy_price_watch d
      \<and> economy_alert_event d' = economy_alert_event d)
    (upsert_economy_item_by_name (ids 0) (clock 0) item None None)" by (rule upsert_item_frame) simp
  from keepsD [OF this, of d] up
  have frame: "economy_price d2 = economy_price d" "economy_price_watch d2 = economy_price_watch d"
    "economy_alert_event d2 = economy_alert_event d" by simp_all
  define row where "row = \<lparr>ep_id = ids 1, ep_server = trim server, ep_item_id = ei_id it,
    ep_price = finite_floor price,
    ep_recorded_at = (case non_empty recorded of Some s \<Rightarrow> s | None \<Rightarrow> clock 1),
    ep_created_at = clock 2, ep_updated_at = clock 2\<rparr>"
  obtain r1 d3 where ins: "insert_economy_price Abort row d2 = (r1, d3)" by force
  obtain r2 d4 where tr: "trigger_watches_for_price (\<lambda>i. ids (i + 2)) (trim server) (ei_id it) (ei_name it)
      (finite_floor price) (ep_recorded_at row) d3 = (r2, d4)" by force
  have run: "add_economy_price ids clock server item price recorded d =
      (case r1 of Inl e \<Rightarrow> (Inl e, d3) | Inr _ \<Rightarrow> (case r2 of Inl e \<Rightarrow> (Inl e, d4)
         | Inr evs \<Rightarrow> (Inr \<lparr>pq_price_id = ids 1, pq_item = it, pq_triggered = evs\<rparr>, d4)))"
    using server up r0 ins tr
    by (simp add: add_economy_price_def Let_def guard_else_apply and_then_apply ret_apply row_def
        split: sum.split)
  with assms obtain evs where r1: "r1 = Inr ()" and r2: "r2 = Inr evs" and d1: "d1 = d4"
    and res: "res = \<lparr>pq_price_id = ids 1, pq_item = it, pq_triggered = evs\<rparr>"
    by (auto split: sum.splits)
  from ins r1 have d3: "d3 = d2\<lparr>economy_price := economy_price d2 @ [row]\<rparr>"
    by (auto simp: insert_economy_price_def insert_into_def Let_def split: if_splits)
  have active: "active_watches (trim server) (ei_id it) d3 = active_watches (trim server) (ei_id it) d"
    by (simp add: active_watches_def d3 frame)
  from trigger_loop [OF tr [unfolded trigger_watches_for_price_def reading_apply r2 active]]
  obtain new where "evs = new" "d4 = d3\<lparr>economy_alert_event := economy_alert_event d3 @ new\<rparr>"
    "map (\<lambda>a. (ea_op a, ea_threshold a)) new = map (\<lambda>w. (ew_op w, ew_threshold w))
       (filter (\<lambda>w. compare_price (finite_floor price) (ew_op w) (ew_threshold w))
         (active_watches (trim server) (ei_id it) d))"
    "\<forall>a \<in> set new. ea_server a = trim server \<and> ea_item_id a = ei_id it \<and> ea_item_name a = ei_name it
       \<and> ea_price a = finite_floor price \<and> ea_read_at a = None" by auto
  moreover have "filter (\<lambda>w. compare_price (finite_floor price) (ew_op w) (ew_threshold w)) (active_watches (trim server) (ei_id it) d)
      = order_by (desc ew_created_at) (filter (\<lambda>w. ew_active w \<and> ew_server w = trim server \<and> ew_item_id w = ei_id it
          \<and> meets (stored_price price) (ew_op w) (ew_threshold w)) (economy_price_watch d))"
    unfolding active_watches_def finite_floor_stored compare_price_meets filter_order_desc filter_filter
    by (simp only: conj_assoc conj_commute conj_left_commute)
  moreover have "ei_name it = trim item" using upsert_item_name up r0 by blast
  ultimately show ?thesis
    by (simp only: d1 res d3 frame row_def finite_floor_stored) (auto simp: frame finite_floor_stored)
qed


section \<open>Concrete runs\<close>

definition tick :: "nat \<Rightarrow> string" where
  "tick n = replicate (Suc n) (CHR ''x'')"

lemma tick_inj [simp]: "tick m = tick n \<longleftrightarrow> m = n" "tick n \<noteq> []"
  by (auto simp: tick_def dest: arg_cong [of _ _ length])

lemma trim_samples [simp]: "trim ''Siel'' = ''Siel''" "trim ''Ore'' = ''Ore''"
  by (simp_all add: trim_graphic graphic_def)

definition ore :: economy_item_row where
  "ore = \<lparr>ei_id = ''ore'', ei_name = ''Ore'', ei_category = None, ei_note = Some ''mine'',
     ei_created_at = ''2026-01-01'', ei_updated_at = ''2026-01-01''\<rparr>"

definition ore_watch :: economy_price_watch_row where
  "ore_watch = \<lparr>ew_id = ''w1'', ew_server = ''Siel'', ew_item_id = ''ore'', ew_op = OpLe, ew_threshold = num 100,
     ew_active = True, ew_created_at = ''2026-01-01'', ew_updated_at = ''2026-01-01''\<rparr>"

definition market_db :: db where
  "market_db = (empty_db True)\<lparr>foreign_keys := True, economy_item := [ore], economy_price_watch := [ore_watch],
     economy_price :=
       [\<lparr>ep_id = ''p1'', ep_server = ''Siel'', ep_item_id = ''ore'', ep_price = num 120,
         ep_recorded_at = ''2026-01-01'', ep_created_at = ''2026-01-01'', ep_updated_at = ''2026-01-01''\<rparr>,
        \<lparr>ep_id = ''p2'', ep_server = ''Siel'', ep_item_id = ''ore'', ep_price = num 90,
         ep_recorded_at = ''2026-01-02'', ep_created_at = ''2026-01-02'', ep_updated_at = ''2026-01-02''\<rparr>]\<rparr>"

lemmas market_defs = market_db_def ore_def ore_watch_def empty_db_def

lemma market_upsert:
  "upsert_economy_item_by_name uid now ''Ore'' None None market_db =
     (Inr (ore\<lparr>ei_updated_at := now\<rparr>), market_db\<lparr>economy_item := [ore\<lparr>ei_updated_at := now\<rparr>]\<rparr>)"
  by (simp add: upsert_economy_item_by_name_def guard_else_apply reading_apply and_then_apply modify_apply
      ret_apply update_where_def or_else_def trimmed_opt_def market_defs Let_def)

lemma market_add_price:
  "\<exists>res d1. add_economy_price tick tick ''Siel'' ''Ore'' (num 80) None market_db = (Inr res, d1)
     \<and> length (pq_triggered res) = 1"
proof -
  have "tick (Suc 0) \<noteq> ''p1''" "tick (Suc 0) \<noteq> ''p2''" by (simp_all add: tick_def)
  then show ?thesis
    apply (simp add: add_economy_price_def Let_def guard_else_apply and_then_apply market_upsert)
    by (simp add: ret_apply and_then_apply reading_apply
        insert_economy_price_def insert_into_def clash_economy_price_def refs_economy_price_def has_id_def
        trigger_watches_for_price_def active_watches_def order_by_def
        insert_economy_alert_event_def clash_economy_alert_event_def refs_economy_alert_event_def alert_for_def non_empty_def
        finite_floor_def nonneg_floor_def Let_def market_defs)
qed

theorem latest_price_is_newest_witness:
  "\<exists>out. get_latest_prices_by_item_id ''Siel'' [''ore''] market_db = Inr out
    \<and> (\<exists>p. map_of out ''ore'' = Some p)"
proof -
  obtain out where out: "get_latest_prices_by_item_id ''Siel'' [''ore''] market_db = Inr out"
    by (simp add: get_latest_prices_by_item_id_def)
  from latest_price_is_newest [OF this, of "''ore''"] have "map_of out ''ore'' \<noteq> None"
    by (simp add: market_defs)
  with out show ?thesis by auto
qed

theorem price_raises_due_alerts_witness:
  "\<exists>res d1. add_economy_price tick tick ''Siel'' ''Ore'' (num 80) None market_db = (Inr res, d1)
    \<and> economy_alert_event d1 = economy_alert_event market_db @ pq_triggered res
    \<and> length (pq_triggered res) = 1"
proof -
  obtain res d1 where run: "add_economy_price tick tick ''Siel'' ''Ore'' (num 80) None market_db = (Inr res, d1)"
    "length (pq_triggered res) = 1"
    using market_add_price by (elim exE conjE)
  from price_raises_due_alerts [OF run(1)]
  have "economy_alert_event d1 = economy_alert_event market_db @ pq_triggered res" by (elim conjE)
  with run show ?thesis by (intro exI conjI)
qed

section \<open>One item per name\<close>

text \<open>
  Naming an item again, in any spelling with other white space around it, finds the item that the
  first use stored: the same id comes back, no item is added, and a missing category or note
  does not overwrite the stored one.
\<close>

theorem upsert_item_finds_it_again:
  assumes "upsert_economy_item_by_name uid now name category note d = (Inr it, d1)"
    and "uid \<noteq> []" and "trim name' = trim name"
  shows "\<exists>it' d2. upsert_economy_item_by_name uid' now' name' None None d1 = (Inr it', d2)
    \<and> it' = it\<lparr>ei_updated_at := now'\<rparr> \<and> map ei_id (economy_item d2) = map ei_id (economy_item d1)
    \<and> ei_name it = trim name"
proof -
  from assms(1) have name: "trim name \<noteq> []"
    by (auto simp: upsert_economy_item_by_name_def guard_else_apply Let_def split: if_splits)
  have found: "find (\<lambda>r. ei_name r = trim name) (economy_item d1) = Some it \<and> ei_id it \<noteq> []"
  proof (cases "find (\<lambda>r. ei_name r = trim name) (economy_item d)")
    case None
    let ?r = "\<lparr>ei_id = uid, ei_name = trim name, ei_category = trimmed_opt category,
      ei_note = trimmed_opt note, ei_created_at = now, ei_updated_at = now\<rparr>"
    obtain r d' where ins: "insert_economy_item Abort ?r d = (r, d')" by force
    with assms(1) name None have "r = Inr ()" "d1 = d'" "it = ?r"
      by (auto simp: upsert_economy_item_by_name_def guard_else_apply reading_apply and_then_apply ret_apply Let_def
          split: sum.splits)
    with ins have "economy_item d1 = economy_item d @ [?r]"
      by (auto simp: insert_economy_item_def insert_into_def Let_def split: if_splits)
    with None \<open>it = ?r\<close> assms(2) show ?thesis by (simp add: find_append)
  next
    case (Some e)
    show ?thesis
    proof (cases "ei_id e = []")
      case True
      from find_SomeD [OF Some] have "e \<in> set (economy_item d)" "ei_name e = trim name" by auto
      then have "insert_economy_item Abort \<lparr>ei_id = uid, ei_name = trim name, ei_category = trimmed_opt category,
          ei_note = trimmed_opt note, ei_created_at = now, ei_updated_at = now\<rparr> d = (Inl (Constraint ''UNIQUE''), d)"
        unfolding insert_economy_item_def by (intro insert_into_clash) (auto simp: clash_economy_item_def)
      with assms(1) name Some True show ?thesis
        by (simp add: upsert_economy_item_by_name_def guard_else_apply reading_apply and_then_apply Let_def)
    next
      case False
      define f :: "economy_item_row \<Rightarrow> economy_item_row" where "f = (\<lambda>r. r\<lparr>ei_category := or_else (trimmed_opt category) (ei_category e),
        ei_note := or_else (trimmed_opt note) (ei_note e), ei_updated_at := now\<rparr>)"
      from assms(1) name Some False have it: "it = f e"
        and d1: "d1 = d\<lparr>economy_item := update_where (\<lambda>r. ei_id r = ei_id e) f (economy_item d)\<rparr>"
        by (auto simp: upsert_economy_item_by_name_def guard_else_apply reading_apply and_then_apply
            modify_apply ret_apply Let_def f_def)
      have "find (\<lambda>r. ei_name r = trim name) (update_where (\<lambda>r. ei_id r = ei_id e) f t) =
          map_option (\<lambda>r. if ei_id r = ei_id e then f r else r) (find (\<lambda>r. ei_name r = trim name) t)" for t
        by (induction t) (auto simp: update_where_def f_def)
      with Some it d1 False show ?thesis by (simp add: f_def)
    qed
  qed
  have "ei_name it = trim name" using found find_SomeD by fastforce
  moreover have "map ei_id (update_where (\<lambda>r. ei_id r = ei_id it)
      (\<lambda>r. r\<lparr>ei_category := ei_category it, ei_note := ei_note it, ei_updated_at := now'\<rparr>) t) = map ei_id t" for t
    by (induction t) (auto simp: update_where_def)
  ultimately show ?thesis
    using found name assms(3)
    by (simp add: upsert_economy_item_by_name_def guard_else_apply reading_apply and_then_apply
        modify_apply ret_apply Let_def or_else_def trimmed_opt_def)
qed

theorem upsert_item_finds_it_again_witness:
  "\<exists>it' d2. upsert_economy_item_by_name ''u2'' ''later'' ''Ore'' None None
      (market_db\<lparr>economy_item := [ore\<lparr>ei_updated_at := ''now''\<rparr>]\<rparr>) = (Inr it', d2)
    \<and> it' = ore\<lparr>ei_updated_at := ''later''\<rparr>"
proof -
  have "''u1'' \<noteq> []" by simp
  from upsert_item_finds_it_again [OF market_upsert [of "''u1''" "''now''"] this refl, of "''u2''" "''later''"]
  obtain it' d2 where "upsert_economy_item_by_name ''u2'' ''later'' ''Ore'' None None
      (market_db\<lparr>economy_item := [ore\<lparr>ei_updated_at := ''now''\<rparr>]\<rparr>) = (Inr it', d2)"
    "it' = (ore\<lparr>ei_updated_at := ''now''\<rparr>)\<lparr>ei_updated_at := ''later''\<rparr>"
    by (elim exE conjE)
  then show ?thesis by (intro exI conjI) simp_all
qed

text \<open>
  Searching items by text fails on every database that has an item.
\<close>

theorem item_search_always_fails:
  assumes "trimmed_opt q \<noteq> None" and "economy_item d \<noteq> []"
  shows "\<exists>e. list_economy_items q limit d = Inl e"
proof -
  from assms(1) obtain t where "trimmed_opt q = Some t" by auto
  with search_where_fails [OF assms(2), of "item_pattern t" ei_name] show ?thesis
    by (auto simp: list_economy_items_def split: sum.split)
qed

theorem item_search_always_fails_witness:
  "\<exists>e. list_economy_items (Some ''Ore'') None market_db = Inl e"
  by (rule item_search_always_fails) (simp_all add: trimmed_opt_def trimmed_def market_defs)

end
