(* ===== verification/Loot.thy ===== *)
theory Loot
  imports Economy "HOL-Library.AList"
begin

text \<open>
  The loot logbook (\<open>main/storage/domains/loot.ts\<close>): runs with their drops and costs, and
  the weekly report that values them at the newest prices. Times are read through the host's
  \<open>Date.parse\<close>; fresh ids come from the supply \<open>ids\<close>, two for every drop and cost (the
  item that it may create and the row itself).
\<close>

section \<open>Reading the input\<close>

definition as_cost_kind :: "jsval \<Rightarrow> cost_kind option" where
  "as_cost_kind v =
     (if v = Str ''KINAH'' then Some KINAH else if v = Str ''ITEM'' then Some ITEM else None)"

text \<open>\<open>typeof v === "number" && Number.isFinite(v) ? Math.max(0, Math.floor(v)) : 0\<close>.\<close>

definition count_of :: "jsval \<Rightarrow> jsnum" where
  "count_of v = (case num_of v of Some x \<Rightarrow> finite_floor x | None \<Rightarrow> num 0)"

text \<open>\<open>row?.daily_reset_hhmm\<close> is false for a missing row and for an empty text.\<close>

definition get_planner_reset_for_server :: "string option \<Rightarrow> db \<Rightarrow> string \<times> jsnum" where
  "get_planner_reset_for_server server d =
     (let row_of = (\<lambda>i. find (\<lambda>r. ps_id r = i) (planner_settings d));
          fallback = (case row_of ''default'' of
            None \<Rightarrow> (''09:00'', num 1)
          | Some row \<Rightarrow>
              (if ps_daily_reset_hhmm row \<noteq> [] then ps_daily_reset_hhmm row else ''09:00'',
               ps_weekly_reset_day row)) in
      case non_empty server of
        None \<Rightarrow> fallback
      | Some s \<Rightarrow>
          (case row_of (''server:'' @ s) of
             None \<Rightarrow> fallback
           | Some row \<Rightarrow> (if ps_daily_reset_hhmm row \<noteq> []
                          then (ps_daily_reset_hhmm row, ps_weekly_reset_day row) else fallback)))"

section \<open>Runs\<close>

record run_list_item =
  rl_run :: loot_run_row
  rl_drop_count :: nat
  rl_cost_count :: nat

definition ended_or_created :: "loot_run_row \<Rightarrow> string" where
  "ended_or_created r = (case lr_ended_at r of Some e \<Rightarrow> e | None \<Rightarrow> lr_created_at r)"

definition list_loot_runs :: "string \<Rightarrow> jsnum option \<Rightarrow> db \<Rightarrow> err + run_list_item list" where
  "list_loot_runs character_id limit d =
     (if character_id = [] then Inl (Thrown ''bad_request'')
      else limit_rows (list_limit limit) (map (\<lambda>r.
          \<lparr>rl_run = r,
           rl_drop_count = length (filter (\<lambda>x. ld_run_id x = lr_id r) (loot_run_drop d)),
           rl_cost_count = length (filter (\<lambda>x. lc_run_id x = lr_id r) (loot_run_cost d))\<rparr>)
        (order_by (desc ended_or_created)
          (filter (\<lambda>r. lr_character_id r = character_id) (loot_run d)))))"

record run_details =
  rd_run :: loot_run_row
  rd_drops :: "loot_run_drop_row list"
  rd_costs :: "loot_run_cost_row list"

definition get_loot_run :: "string \<Rightarrow> db \<Rightarrow> run_details option" where
  "get_loot_run run_id d =
     (case find (\<lambda>r. lr_id r = run_id) (loot_run d) of
        None \<Rightarrow> None
      | Some row \<Rightarrow>
          if lr_id row = [] then None
          else Some \<lparr>rd_run = row,
            rd_drops = order_by (asc ld_created_at) (filter (\<lambda>x. ld_run_id x = run_id) (loot_run_drop d)),
            rd_costs = order_by (asc lc_created_at) (filter (\<lambda>x. lc_run_id x = run_id) (loot_run_cost d))\<rparr>)"

text \<open>The bodies of the two loops of \<open>createLootRun\<close>; \<open>continue\<close> is the empty operation.\<close>

definition create_drop ::
  "string \<Rightarrow> string \<Rightarrow> string \<Rightarrow> string \<Rightarrow> string \<Rightarrow> jsval \<Rightarrow> (db, unit) op" where
  "create_drop item_uid drop_uid item_now run now dr =
     (let name = trim (str_or [] (field dr ''itemName''));
          qty = count_of (field dr ''qty'');
          note = trimmed_opt (str_of (field dr ''note'')) in
      if \<not> is_object dr \<or> name = [] \<or> num_le qty (num 0) then ret ()
      else and_then (upsert_economy_item_by_name item_uid item_now name None None) (\<lambda>item.
        insert_loot_run_drop Abort
          \<lparr>ld_id = drop_uid, ld_run_id = run, ld_item_id = Some (ei_id item), ld_item_name = ei_name item,
           ld_qty = qty, ld_note = note, ld_created_at = now, ld_updated_at = now\<rparr>))"

definition create_cost ::
  "string \<Rightarrow> string \<Rightarrow> string \<Rightarrow> string \<Rightarrow> string \<Rightarrow> jsval \<Rightarrow> (db, unit) op" where
  "create_cost item_uid cost_uid item_now run now c =
     (let note = trimmed_opt (str_of (field c ''note'')) in
      if \<not> is_object c then ret ()
      else (case as_cost_kind (field c ''kind'') of
        None \<Rightarrow> ret ()
      | Some KINAH \<Rightarrow>
          (let kinah = count_of (field c ''kinah'') in
           if num_le kinah (num 0) then ret ()
           else insert_loot_run_cost Abort
             \<lparr>lc_id = cost_uid, lc_run_id = run, lc_kind = KINAH, lc_item_id = None, lc_item_name = None,
              lc_qty = num 0, lc_kinah = kinah, lc_note = note, lc_created_at = now, lc_updated_at = now\<rparr>)
      | Some ITEM \<Rightarrow>
          (let item_name = trim (str_or [] (field c ''itemName''));
               qty = count_of (field c ''qty'') in
           if item_name = [] \<or> num_le qty (num 0) then ret ()
           else and_then (upsert_economy_item_by_name item_uid item_now item_name None None) (\<lambda>item.
             insert_loot_run_cost Abort
               \<lparr>lc_id = cost_uid, lc_run_id = run, lc_kind = ITEM, lc_item_id = Some (ei_id item),
                lc_item_name = Some (ei_name item), lc_qty = qty, lc_kinah = num 0, lc_note = note,
                lc_created_at = now, lc_updated_at = now\<rparr>))))"

record run_input =
  in_character :: string
  in_content :: string
  in_role :: "string option"
  in_power :: "string option"
  in_started :: "string option"
  in_ended :: "string option"
  in_seconds :: "jsnum option"
  in_drops :: jsval
  in_costs :: jsval

text \<open>The seconds of a run: as given, else between the two instants, else 0.\<close>

definition seconds_between :: "host \<Rightarrow> string option \<Rightarrow> string \<Rightarrow> jsnum" where
  "seconds_between h started ended =
     (case started of
        None \<Rightarrow> num 0
      | Some s \<Rightarrow>
          (case (parse_date h s, parse_date h ended) of
             (Some t0, Some t1) \<Rightarrow> num (max 0 ((t1 - t0) div 1000))
           | _ \<Rightarrow> num 0))"

definition run_seconds :: "host \<Rightarrow> jsnum option \<Rightarrow> string option \<Rightarrow> string \<Rightarrow> jsnum" where
  "run_seconds h seconds started ended =
     (case seconds of
        Some x \<Rightarrow> (if is_finite x then nonneg_floor x else seconds_between h started ended)
      | None \<Rightarrow> seconds_between h started ended)"

text \<open>
  \<open>createLootRun\<close>. \<open>rb\<close> is the outcome of ROLLBACK (see \<open>in_transaction\<close>);
  \<open>clock n\<close> is the time of the \<open>n\<close>-th item that the call upserts.
\<close>

definition create_loot_run ::
  "host \<Rightarrow> string option \<Rightarrow> (nat \<Rightarrow> string) \<Rightarrow> (nat \<Rightarrow> string) \<Rightarrow> string \<Rightarrow> run_input \<Rightarrow> (db, string) op" where
  "create_loot_run h rb ids clock now inp =
     (let content = trim (in_content inp); uid = ids 0;
          drops = arr_or_empty (in_drops inp); costs = arr_or_empty (in_costs inp); n = length drops in
      guard_else (in_character inp \<noteq> [] \<and> content \<noteq> []) (Thrown ''bad_request'') (reading (\<lambda>d.
      case find (\<lambda>r. ch_id r = in_character inp) (app_character d) of
        None \<Rightarrow> throw (Thrown ''no_character'')
      | Some char_row \<Rightarrow>
          (let ended_at = (case non_empty (in_ended inp) of Some e \<Rightarrow> e | None \<Rightarrow> now);
               started_at = non_empty (in_started inp) in
           and_then (in_transaction ''CRITICAL: loot run create failed and rollback failed'' rb (
             and_then (insert_loot_run Abort
               \<lparr>lr_id = uid, lr_character_id = in_character inp, lr_server = ch_server char_row,
                lr_content = content, lr_role = trimmed_opt (in_role inp),
                lr_power_bracket = trimmed_opt (in_power inp), lr_started_at = started_at,
                lr_ended_at = Some ended_at, lr_seconds = run_seconds h (in_seconds inp) started_at ended_at,
                lr_created_at = now, lr_updated_at = now\<rparr>) (\<lambda>_.
             and_then (for_each (enumerate 0 drops) (\<lambda>(i, dr).
               create_drop (ids (2 * i + 1)) (ids (2 * i + 2)) (clock i) uid now dr)) (\<lambda>_.
             for_each (enumerate n costs) (\<lambda>(i, c).
               create_cost (ids (2 * i + 1)) (ids (2 * i + 2)) (clock i) uid now c))))) (\<lambda>_.
           ret uid)))))"

definition delete_loot_run_of :: "string \<Rightarrow> string \<Rightarrow> (db, unit) op" where
  "delete_loot_run_of run_id character_id =
     guard_else (run_id \<noteq> [] \<and> character_id \<noteq> []) (Thrown ''bad_request'')
       (modify (delete_loot_run (\<lambda>r. lr_id r = run_id \<and> lr_character_id r = character_id)))"

section \<open>The weekly report\<close>

record report_figures =
  rf_runs :: int
  rf_seconds :: jsnum
  rf_value :: jsnum
  rf_cost :: jsnum

record report_totals = report_figures +
  rf_net :: jsnum
  rf_value_per_hour :: jsnum
  rf_net_per_hour :: jsnum

record weekly_report =
  wr_server :: "string option"
  wr_week_start :: string
  wr_week_end :: string
  wr_totals :: report_totals
  wr_missing :: "string list"
  wr_by_content :: "(string \<times> report_totals) list"
  wr_debug :: "(string \<times> string \<times> jsnum) option"

text \<open>\<open>hours > 0 ? x / hours : 0\<close> with \<open>hours = seconds / 3600\<close>.\<close>

definition per_hour :: "jsnum \<Rightarrow> jsnum \<Rightarrow> jsnum" where
  "per_hour x seconds =
     (case num_div_pos seconds 3600 of
        Fin h \<Rightarrow> (if 0 < h then num_div_pos x h else num 0)
      | PosInf \<Rightarrow> (if is_finite x then num 0 else NaN)
      | _ \<Rightarrow> num 0)"

definition with_rates :: "report_figures \<Rightarrow> report_totals" where
  "with_rates f = (let net = num_sub (rf_value f) (rf_cost f) in report_figures.extend f
     \<lparr>rf_net = net, rf_value_per_hour = per_hour (rf_value f) (rf_seconds f),
      rf_net_per_hour = per_hour net (rf_seconds f)\<rparr>)"

definition no_figures :: report_figures where
  "no_figures = \<lparr>rf_runs = 0, rf_seconds = num 0, rf_value = num 0, rf_cost = num 0\<rparr>"

definition add_run :: "(string \<Rightarrow> jsnum) \<Rightarrow> (string \<Rightarrow> jsnum) \<Rightarrow> loot_run_row \<Rightarrow> report_figures \<Rightarrow> report_figures" where
  "add_run value_of cost_of r f =
     \<lparr>rf_runs = rf_runs f + 1, rf_seconds = num_add (rf_seconds f) (lr_seconds r),
      rf_value = num_add (rf_value f) (value_of (lr_id r)), rf_cost = num_add (rf_cost f) (cost_of (lr_id r))\<rparr>"

text \<open>The runs of the week, newest first; a run without an end is in no week.\<close>

definition runs_between :: "string \<Rightarrow> string \<Rightarrow> string \<Rightarrow> db \<Rightarrow> loot_run_row list" where
  "runs_between character_id start_iso end_iso d =
     order_by (desc (\<lambda>r. the (lr_ended_at r))) (filter (\<lambda>r. lr_character_id r = character_id
       \<and> (case lr_ended_at r of None \<Rightarrow> False | Some e \<Rightarrow> str_le start_iso e \<and> str_le e end_iso)) (loot_run d))"

text \<open>
  The loops over drops and costs: per run the value of what was found and the cost of what was
  spent, and the items without a price in the order of their first use.
\<close>

definition credit :: "string \<Rightarrow> jsnum \<Rightarrow> (string \<rightharpoonup> jsnum) \<Rightarrow> (string \<rightharpoonup> jsnum)" where
  "credit run amount m = m(run \<mapsto> num_add (case m run of Some x \<Rightarrow> x | None \<Rightarrow> num 0) amount)"

definition add_missing :: "string \<Rightarrow> string list \<Rightarrow> string list" where
  "add_missing i missing = (if i \<in> set missing then missing else missing @ [i])"

definition value_drop ::
  "(string \<times> jsnum) list \<Rightarrow> (string \<rightharpoonup> jsnum) \<times> string list \<Rightarrow> loot_run_drop_row \<Rightarrow>
   (string \<rightharpoonup> jsnum) \<times> string list" where
  "value_drop prices acc x =
     (case non_empty (ld_item_id x) of
        None \<Rightarrow> acc
      | Some i \<Rightarrow>
          (case map_of prices i of
             None \<Rightarrow> (fst acc, add_missing i (snd acc))
           | Some p \<Rightarrow> (credit (ld_run_id x) (num_mul (ld_qty x) p) (fst acc), snd acc)))"

definition value_cost ::
  "(string \<times> jsnum) list \<Rightarrow> (string \<rightharpoonup> jsnum) \<times> string list \<Rightarrow> loot_run_cost_row \<Rightarrow>
   (string \<rightharpoonup> jsnum) \<times> string list" where
  "value_cost prices acc x =
     (if lc_kind x = KINAH then (credit (lc_run_id x) (nonneg_floor (lc_kinah x)) (fst acc), snd acc)
      else (case non_empty (lc_item_id x) of
        None \<Rightarrow> acc
      | Some i \<Rightarrow>
          (case map_of prices i of
             None \<Rightarrow> (fst acc, add_missing i (snd acc))
           | Some p \<Rightarrow> (credit (lc_run_id x) (num_mul (lc_qty x) p) (fst acc), snd acc))))"

text \<open>The loop over the runs: the totals, and the same figures per content in order of first use.\<close>

definition tally_run ::
  "(string \<Rightarrow> jsnum) \<Rightarrow> (string \<Rightarrow> jsnum) \<Rightarrow> report_figures \<times> (string \<times> report_figures) list \<Rightarrow>
   loot_run_row \<Rightarrow> report_figures \<times> (string \<times> report_figures) list" where
  "tally_run value_of cost_of acc r =
     (add_run value_of cost_of r (fst acc),
      AList.update (lr_content r)
        (add_run value_of cost_of r
          (case map_of (snd acc) (lr_content r) of Some f \<Rightarrow> f | None \<Rightarrow> no_figures)) (snd acc))"

definition run_server :: "loot_run_row list \<Rightarrow> string option" where
  "run_server runs =
     (case find (\<lambda>r. non_empty (lr_server r) \<noteq> None) runs of None \<Rightarrow> None | Some r \<Rightarrow> lr_server r)"

text \<open>The report of the runs of a week, once there are any.\<close>

definition report_runs ::
  "string \<times> string \<times> jsnum \<Rightarrow> string option \<Rightarrow> string \<Rightarrow> string \<Rightarrow> loot_run_row list \<Rightarrow> db \<Rightarrow> err + weekly_report" where
  "report_runs debug server start_iso end_iso runs d =
     (let run_ids = map lr_id runs;
          drops = filter (\<lambda>x. ld_run_id x \<in> set run_ids) (loot_run_drop d);
          costs = filter (\<lambda>x. lc_run_id x \<in> set run_ids) (loot_run_cost d);
          price_server = (case server of Some s \<Rightarrow> Some s | None \<Rightarrow> run_server runs);
          item_ids = js_uniq (List.map_filter (\<lambda>x. non_empty (ld_item_id x)) drops
            @ List.map_filter (\<lambda>x. if lc_kind x = ITEM then non_empty (lc_item_id x) else None) costs) in
      case (case price_server of None \<Rightarrow> Inr [] | Some s \<Rightarrow> get_latest_prices_by_item_id s item_ids d) of
        Inl e \<Rightarrow> Inl e
      | Inr prices \<Rightarrow>
          (let zero = (\<lambda>i. if i \<in> set run_ids then Some (num 0) else None);
               (values, missing) = foldl (value_drop prices) (zero, []) drops;
               (spent, missing') = foldl (value_cost prices) (zero, missing) costs;
               amount = (\<lambda>m i. case m i of Some x \<Rightarrow> x | None \<Rightarrow> num 0);
               (totals, per_content) = foldl (tally_run (amount values) (amount spent)) (no_figures, []) runs in
           Inr \<lparr>wr_server = price_server, wr_week_start = start_iso, wr_week_end = end_iso,
                wr_totals = with_rates totals, wr_missing = missing',
                wr_by_content = order_by (\<lambda>x y. \<not> num_lt (rf_net (snd x)) (rf_net (snd y)))
                  (map (\<lambda>(c, f). (c, with_rates f)) per_content),
                wr_debug = Some debug\<rparr>))"

definition get_loot_weekly_report ::
  "host \<Rightarrow> int \<Rightarrow> string \<Rightarrow> string option \<Rightarrow> string option \<Rightarrow> db \<Rightarrow> err + weekly_report" where
  "get_loot_weekly_report h clock character_id server_in now_iso d =
     (if character_id = [] then Inl (Thrown ''bad_request'')
      else let now = date_or_now h clock now_iso; server = trimmed_opt server_in;
               (hhmm, day) = get_planner_reset_for_server server d;
               start = resolve_weekly_start_local (tz h) now hhmm day in
        case iso_of_number (num start) of
          Inl e \<Rightarrow> Inl e
        | Inr start_iso \<Rightarrow>
            (let runs = runs_between character_id start_iso (iso now) d in
             if runs = [] then
               Inr \<lparr>wr_server = server, wr_week_start = start_iso, wr_week_end = iso now,
                    wr_totals = with_rates no_figures, wr_missing = [], wr_by_content = [],
                    wr_debug = None\<rparr>
             else report_runs (''W:'' @ format_local_date_key (tz h) start, hhmm, day) server start_iso (iso now)
               runs d))"

section \<open>Invariants\<close>

context db_invariant
begin

lemma create_drop_keeps [keeps_intro]: "keeps I (create_drop item_uid uid item_now run now dr)"
  unfolding create_drop_def by (auto simp: Let_def intro!: keeps_intro)

lemma create_cost_keeps [keeps_intro]: "keeps I (create_cost item_uid uid item_now run now c)"
  unfolding create_cost_def by (auto simp: Let_def intro!: keeps_intro split: cost_kind.split)

lemma create_loot_run_keeps [keeps_intro]: "keeps I (create_loot_run h rb ids clock now inp)"
  unfolding create_loot_run_def by (auto simp: Let_def intro!: keeps_intro)

lemma delete_loot_run_of_keeps [keeps_intro]: "keeps I (delete_loot_run_of run c)"
  unfolding delete_loot_run_of_def by (auto intro!: keeps_intro)

end

end
