(* ===== verification/BackupExport.thy ===== *)
theory BackupExport
  imports BuildScore Loot
begin

text \<open>
  Writing the user's backup (\<open>exportUserBackup\<close> of \<open>main/storage/domains/backup.ts\<close>):
  one JSON object per row, in the order of the query. The backup leaves out notices and price
  alerts. The file holds \<open>jsonify\<close> of the value.
\<close>

section \<open>Columns and enums\<close>

definition opt_str :: "string option \<Rightarrow> jsval" where
  "opt_str v = (case v of None \<Rightarrow> Null | Some s \<Rightarrow> Str s)"

definition opt_num :: "jsnum option \<Rightarrow> jsval" where
  "opt_num v = (case v of None \<Rightarrow> Null | Some x \<Rightarrow> Num x)"

fun op_text :: "watch_op \<Rightarrow> string" where
  "op_text OpLt = ''<''" | "op_text OpLe = ''<=''" | "op_text OpGt = ''>''" | "op_text OpGe = ''>=''"

fun kind_text :: "cost_kind \<Rightarrow> string" where
  "kind_text KINAH = ''KINAH''" | "kind_text ITEM = ''ITEM''"

definition as_economy_op :: "jsval \<Rightarrow> watch_op" where
  "as_economy_op v = (case as_op v of Some x \<Rightarrow> x | None \<Rightarrow> OpLe)"

definition as_loot_cost_kind :: "jsval \<Rightarrow> cost_kind" where
  "as_loot_cost_kind v = (case as_cost_kind v of Some k \<Rightarrow> k | None \<Rightarrow> KINAH)"

section \<open>Rows\<close>

definition character_json :: "app_character_row \<Rightarrow> jsval" where
  "character_json r = Obj [(''id'', Str (ch_id r)), (''name'', Str (ch_name r)),
     (''server'', opt_str (ch_server r)), (''class'', opt_str (ch_class r)),
     (''createdAt'', Str (ch_created_at r)), (''updatedAt'', Str (ch_updated_at r))]"

definition settings_json :: "settings \<Rightarrow> jsval" where
  "settings_json s = Obj [(''dailyResetHhmm'', Str (se_daily_reset_hhmm s)),
     (''weeklyResetDay'', Num (se_weekly_reset_day s)), (''updatedAt'', Str (se_updated_at s))]"

text \<open>\<open>id LIKE 'server:%'\<close> ignores the case of ASCII letters; the prefix is then cut off as written.\<close>

definition is_server_id :: "string \<Rightarrow> bool" where
  "is_server_id i \<longleftrightarrow> map lower_ascii (take 7 i) = ''server:''"

definition server_settings_json :: "planner_settings_row \<Rightarrow> jsval" where
  "server_settings_json r = Obj [
     (''server'', Str (if prefix ''server:'' (ps_id r) then drop 7 (ps_id r) else ps_id r)),
     (''dailyResetHhmm'', Str (ps_daily_reset_hhmm r)), (''weeklyResetDay'', Num (ps_weekly_reset_day r)),
     (''updatedAt'', Str (ps_updated_at r))]"

definition template_json :: "planner_template_row \<Rightarrow> jsval" where
  "template_json r = Obj [(''id'', Str (pt_id r)), (''title'', Str (pt_title r)),
     (''type'', Str (type_name (pt_type r))), (''estimateMinutes'', Num (pt_estimate_minutes r)),
     (''rechargeHours'', opt_num (pt_recharge_hours r)), (''maxStacks'', opt_num (pt_max_stacks r)),
     (''createdAt'', Str (pt_created_at r)), (''updatedAt'', Str (pt_updated_at r))]"

definition assignment_json :: "planner_assignment_row \<Rightarrow> jsval" where
  "assignment_json r = Obj [(''id'', Str (pa_id r)), (''characterId'', Str (pa_character_id r)),
     (''templateId'', Str (pa_template_id r)), (''enabled'', Bool (pa_enabled r)),
     (''targetCount'', opt_num (pa_target_count r)),
     (''createdAt'', Str (pa_created_at r)), (''updatedAt'', Str (pa_updated_at r))]"

definition completion_json :: "planner_completion_row \<Rightarrow> jsval" where
  "completion_json r = Obj [(''id'', Str (pc_id r)), (''characterId'', Str (pc_character_id r)),
     (''templateId'', Str (pc_template_id r)), (''periodKey'', Str (pc_period_key r)),
     (''completedAt'', Str (pc_completed_at r))]"

definition charge_use_json :: "planner_charge_use_row \<Rightarrow> jsval" where
  "charge_use_json r = Obj [(''id'', Str (pu_id r)), (''characterId'', Str (pu_character_id r)),
     (''templateId'', Str (pu_template_id r)), (''usedAt'', Str (pu_used_at r))]"

definition duration_json :: "planner_duration_row \<Rightarrow> jsval" where
  "duration_json r = Obj [(''id'', Str (pd_id r)), (''characterId'', Str (pd_character_id r)),
     (''templateId'', opt_str (non_empty (pd_template_id r))), (''startedAt'', Str (pd_started_at r)),
     (''endedAt'', Str (pd_ended_at r)), (''seconds'', Num (pd_seconds r))]"

definition score_json :: "build_score_row \<Rightarrow> jsval" where
  "score_json r = Obj [(''characterId'', Str (bs_character_id r)), (''updatedAt'', Str (bs_updated_at r)),
     (''state'', bs_data_json r)]"

definition preset_json :: "build_score_preset_row \<Rightarrow> jsval" where
  "preset_json r = Obj [(''id'', Str (bp_id r)), (''characterId'', Str (bp_character_id r)),
     (''name'', Str (bp_name r)), (''description'', opt_str (bp_description r)),
     (''createdAt'', Str (bp_created_at r)), (''updatedAt'', Str (bp_updated_at r)),
     (''stats'', bp_stats_json r)]"

definition item_json :: "economy_item_row \<Rightarrow> jsval" where
  "item_json r = Obj [(''id'', Str (ei_id r)), (''name'', Str (ei_name r)),
     (''category'', opt_str (ei_category r)), (''note'', opt_str (ei_note r)),
     (''createdAt'', Str (ei_created_at r)), (''updatedAt'', Str (ei_updated_at r))]"

definition price_json :: "economy_price_row \<Rightarrow> jsval" where
  "price_json r = Obj [(''id'', Str (ep_id r)), (''server'', Str (ep_server r)),
     (''itemId'', Str (ep_item_id r)), (''price'', Num (ep_price r)),
     (''recordedAt'', Str (ep_recorded_at r)), (''createdAt'', Str (ep_created_at r)),
     (''updatedAt'', Str (ep_updated_at r))]"

definition watch_json :: "economy_price_watch_row \<Rightarrow> jsval" where
  "watch_json r = Obj [(''id'', Str (ew_id r)), (''server'', Str (ew_server r)),
     (''itemId'', Str (ew_item_id r)), (''op'', Str (op_text (as_economy_op (Str (op_text (ew_op r)))))),
     (''threshold'', Num (ew_threshold r)), (''active'', Bool (ew_active r)),
     (''createdAt'', Str (ew_created_at r)), (''updatedAt'', Str (ew_updated_at r))]"

definition run_json :: "loot_run_row \<Rightarrow> jsval" where
  "run_json r = Obj [(''id'', Str (lr_id r)), (''characterId'', Str (lr_character_id r)),
     (''server'', opt_str (lr_server r)), (''content'', Str (lr_content r)), (''role'', opt_str (lr_role r)),
     (''powerBracket'', opt_str (lr_power_bracket r)), (''startedAt'', opt_str (lr_started_at r)),
     (''endedAt'', opt_str (lr_ended_at r)), (''seconds'', Num (lr_seconds r)),
     (''createdAt'', Str (lr_created_at r)), (''updatedAt'', Str (lr_updated_at r))]"

definition drop_json :: "loot_run_drop_row \<Rightarrow> jsval" where
  "drop_json r = Obj [(''id'', Str (ld_id r)), (''runId'', Str (ld_run_id r)),
     (''itemId'', opt_str (ld_item_id r)), (''itemName'', Str (ld_item_name r)), (''qty'', Num (ld_qty r)),
     (''note'', opt_str (ld_note r)), (''createdAt'', Str (ld_created_at r)), (''updatedAt'', Str (ld_updated_at r))]"

definition cost_json :: "loot_run_cost_row \<Rightarrow> jsval" where
  "cost_json r = Obj [(''id'', Str (lc_id r)), (''runId'', Str (lc_run_id r)),
     (''kind'', Str (kind_text (as_loot_cost_kind (Str (kind_text (lc_kind r)))))),
     (''itemId'', opt_str (lc_item_id r)), (''itemName'', opt_str (lc_item_name r)), (''qty'', Num (lc_qty r)),
     (''kinah'', Num (lc_kinah r)), (''note'', opt_str (lc_note r)),
     (''createdAt'', Str (lc_created_at r)), (''updatedAt'', Str (lc_updated_at r))]"

section \<open>The backup\<close>

text \<open>A missing end comes last in \<open>ORDER BY ended_at DESC\<close>.\<close>

definition desc_opt :: "('a \<Rightarrow> string option) \<Rightarrow> 'a \<Rightarrow> 'a \<Rightarrow> bool" where
  "desc_opt key x y =
     (case (key x, key y) of (_, None) \<Rightarrow> True | (None, Some _) \<Rightarrow> False | (Some a, Some b) \<Rightarrow> str_le b a)"

definition optional_part :: "bool \<Rightarrow> string \<Rightarrow> jsval \<Rightarrow> (string \<times> jsval) list" where
  "optional_part present k v = (if present then [(k, v)] else [])"

definition planner_part :: "settings \<Rightarrow> db \<Rightarrow> jsval" where
  "planner_part base d = Obj [
     (''settings'', Obj [(''default'', settings_json base),
        (''perServer'', Arr (map server_settings_json
          (order_by (asc ps_id) (filter (\<lambda>r. is_server_id (ps_id r)) (planner_settings d)))))]),
     (''templates'', Arr (map template_json (list_planner_templates d))),
     (''assignments'', Arr (map assignment_json
        (order_by (then_by (desc pa_updated_at) (desc pa_created_at)) (planner_assignment d)))),
     (''completions'', Arr (map completion_json (order_by (desc pc_completed_at) (planner_completion d)))),
     (''chargeUses'', Arr (map charge_use_json (order_by (desc pu_used_at) (planner_charge_use d)))),
     (''durations'', Arr (map duration_json (order_by (desc pd_started_at) (planner_duration d))))]"

definition score_part :: "db \<Rightarrow> (string \<times> jsval) list" where
  "score_part d =
     optional_part (build_score d \<noteq> [] \<or> build_score_preset d \<noteq> []) ''buildScore'' (Obj (
       [(''perCharacter'', Arr (map score_json (order_by (desc bs_updated_at) (build_score d))))]
       @ optional_part (build_score_preset d \<noteq> []) ''presets'' (Arr (map preset_json
           (order_by (then_by (desc bp_updated_at) (desc bp_created_at)) (build_score_preset d))))))"

definition economy_part :: "db \<Rightarrow> (string \<times> jsval) list" where
  "economy_part d =
     optional_part (economy_item d \<noteq> [] \<or> economy_price d \<noteq> [] \<or> economy_price_watch d \<noteq> []) ''economy'' (Obj [
       (''items'', Arr (map item_json (order_by (then_by (desc ei_updated_at) (desc ei_created_at)) (economy_item d)))),
       (''prices'', Arr (map price_json (order_by (then_by (desc ep_recorded_at) (desc ep_created_at)) (economy_price d)))),
       (''watches'', Arr (map watch_json
          (order_by (then_by (desc ew_updated_at) (desc ew_created_at)) (economy_price_watch d))))])"

definition loot_part :: "db \<Rightarrow> (string \<times> jsval) list" where
  "loot_part d =
     optional_part (loot_run d \<noteq> [] \<or> loot_run_drop d \<noteq> [] \<or> loot_run_cost d \<noteq> []) ''loot'' (Obj [
       (''runs'', Arr (map run_json (order_by (then_by (desc_opt lr_ended_at) (desc lr_created_at)) (loot_run d)))),
       (''drops'', Arr (map drop_json (order_by (desc ld_created_at) (loot_run_drop d)))),
       (''costs'', Arr (map cost_json (order_by (desc lc_created_at) (loot_run_cost d))))])"

text \<open>
  The object that is returned. Reading the default settings stores them when they are missing, which
  is the only change an export makes to the database.
\<close>

definition export_user_backup :: "string \<Rightarrow> string \<Rightarrow> (db, jsval) op" where
  "export_user_backup exported_at now = reading (\<lambda>d0.
     let active = get_active_character_id d0; characters = list_characters d0 in
     and_then (get_planner_settings now) (\<lambda>base. reading (\<lambda>d. ret (Obj (
       [(''schemaVersion'', Num (num 4)), (''exportedAt'', Str exported_at),
        (''activeCharacterId'', opt_str active),
        (''characters'', Arr (map character_json characters)),
        (''planner'', planner_part base d)]
       @ score_part d @ economy_part d @ loot_part d)))))"

context db_invariant
begin

lemma export_user_backup_keeps [keeps_intro]: "keeps I (export_user_backup exported_at now)"
  unfolding export_user_backup_def by (auto simp: Let_def intro!: keeps_intro)

end

end
