(* ===== verification/BackupImport.thy ===== *)
theory BackupImport
  imports BackupExport
begin

text \<open>
  Reading a backup (\<open>importUserBackup\<close> of \<open>main/storage/domains/backup.ts\<close>). The untrusted
  JSON is first turned into rows, leaving out what has the wrong shape or names something that
  the backup does not hold; then one transaction replaces the user's data by these rows.
\<close>

section \<open>Reading rows\<close>

text \<open>\<open>typeof v === "number" ? Math.max(0, Math.floor(v)) : 0\<close>, which keeps NaN.\<close>

definition floor_count :: "jsval \<Rightarrow> jsnum" where
  "floor_count v = (case num_of v of Some x \<Rightarrow> nonneg_floor x | None \<Rightarrow> num 0)"

text \<open>A number for a NOT NULL column whose default is 0: INSERT OR REPLACE uses the default for NaN.\<close>

definition or_zero :: "jsnum \<Rightarrow> jsnum" where
  "or_zero x = (if x = NaN then num 0 else x)"

definition entries :: "(jsval \<Rightarrow> 'r option) \<Rightarrow> jsval \<Rightarrow> 'r list" where
  "entries f v = List.map_filter (\<lambda>x. if is_object x then f x else None) (arr_or_empty v)"

definition read_server_settings :: "string \<Rightarrow> string \<Rightarrow> jsnum \<Rightarrow> jsval \<Rightarrow> planner_settings_row option" where
  "read_server_settings now hhmm day v =
     (let server = trim (str_or [] (field v ''server'')) in
      if server = [] then None
      else Some \<lparr>ps_id = ''server:'' @ server, ps_daily_reset_hhmm = str_or hhmm (field v ''dailyResetHhmm''),
                ps_weekly_reset_day = num_or day (field v ''weeklyResetDay''),
                ps_updated_at = str_or now (field v ''updatedAt'')\<rparr>)"

text \<open>The default settings, then the settings of the servers; version 1 has no servers.\<close>

definition read_settings :: "string \<Rightarrow> jsnum \<Rightarrow> jsval \<Rightarrow> planner_settings_row \<times> planner_settings_row list" where
  "read_settings now version container =
     (let base = (if version = num 1 then container else field container ''default'');
          hhmm = str_or ''09:00'' (field base ''dailyResetHhmm'');
          day = num_or (num 1) (field base ''weeklyResetDay'') in
      (\<lparr>ps_id = ''default'', ps_daily_reset_hhmm = hhmm, ps_weekly_reset_day = day, ps_updated_at = now\<rparr>,
       if version = num 1 then []
       else entries (read_server_settings now hhmm day) (field container ''perServer'')))"

definition read_score :: "string \<Rightarrow> jsval \<Rightarrow> build_score_row option" where
  "read_score now v =
     (case str_of (field v ''characterId'') of
        None \<Rightarrow> None
      | Some c \<Rightarrow> Some \<lparr>bs_character_id = c, bs_data_json = jsonify (field v ''state''),
                        bs_updated_at = str_or now (field v ''updatedAt'')\<rparr>)"

definition read_score_preset :: "string \<Rightarrow> jsval \<Rightarrow> build_score_preset_row option" where
  "read_score_preset now v =
     (let name = trim (str_or [] (field v ''name'')) in
      case (str_of (field v ''id''), str_of (field v ''characterId''), as_build_score_stats (field v ''stats'')) of
        (Some i, Some c, Some stats) \<Rightarrow>
          (if name = [] then None
           else Some \<lparr>bp_id = i, bp_character_id = c, bp_name = name,
             bp_description = str_of (field v ''description''), bp_stats_json = stats_json stats,
             bp_created_at = str_or now (field v ''createdAt''), bp_updated_at = str_or now (field v ''updatedAt'')\<rparr>)
      | _ \<Rightarrow> None)"

definition read_backup_character :: "string \<Rightarrow> jsval \<Rightarrow> app_character_row option" where
  "read_backup_character now v =
     (case (str_of (field v ''id''), str_of (field v ''name'')) of
        (Some i, Some n) \<Rightarrow> Some \<lparr>ch_id = i, ch_name = n, ch_server = str_of (field v ''server''),
          ch_class = str_of (field v ''class''),
          ch_created_at = str_or now (field v ''createdAt''), ch_updated_at = str_or now (field v ''updatedAt'')\<rparr>
      | _ \<Rightarrow> None)"

definition read_item :: "string \<Rightarrow> jsval \<Rightarrow> economy_item_row option" where
  "read_item now v =
     (case (str_of (field v ''id''), trimmed_opt (str_of (field v ''name''))) of
        (Some i, Some n) \<Rightarrow> Some \<lparr>ei_id = i, ei_name = n, ei_category = str_of (field v ''category''),
          ei_note = str_of (field v ''note''),
          ei_created_at = str_or now (field v ''createdAt''), ei_updated_at = str_or now (field v ''updatedAt'')\<rparr>
      | _ \<Rightarrow> None)"

definition read_price :: "string \<Rightarrow> string list \<Rightarrow> jsval \<Rightarrow> economy_price_row option" where
  "read_price now item_ids v =
     (case (str_of (field v ''id''), trimmed_opt (str_of (field v ''server'')), str_of (field v ''itemId'')) of
        (Some i, Some server, Some item) \<Rightarrow>
          (if item \<notin> set item_ids then None
           else Some \<lparr>ep_id = i, ep_server = server, ep_item_id = item, ep_price = floor_count (field v ''price''),
             ep_recorded_at = str_or now (field v ''recordedAt''),
             ep_created_at = str_or now (field v ''createdAt''), ep_updated_at = str_or now (field v ''updatedAt'')\<rparr>)
      | _ \<Rightarrow> None)"

definition read_watch :: "string \<Rightarrow> string list \<Rightarrow> jsval \<Rightarrow> economy_price_watch_row option" where
  "read_watch now item_ids v =
     (case (str_of (field v ''id''), trimmed_opt (str_of (field v ''server'')), str_of (field v ''itemId''),
            as_op (field v ''op'')) of
        (Some i, Some server, Some item, Some oper) \<Rightarrow>
          (if item \<notin> set item_ids then None
           else Some \<lparr>ew_id = i, ew_server = server, ew_item_id = item, ew_op = oper,
             ew_threshold = floor_count (field v ''threshold''), ew_active = truthy (field v ''active''),
             ew_created_at = str_or now (field v ''createdAt''), ew_updated_at = str_or now (field v ''updatedAt'')\<rparr>)
      | _ \<Rightarrow> None)"

definition read_run :: "string \<Rightarrow> string list \<Rightarrow> jsval \<Rightarrow> loot_run_row option" where
  "read_run now character_ids v =
     (case (str_of (field v ''id''), str_of (field v ''characterId''), trimmed_opt (str_of (field v ''content''))) of
        (Some i, Some c, Some content) \<Rightarrow>
          (if c \<notin> set character_ids then None
           else Some \<lparr>lr_id = i, lr_character_id = c, lr_server = str_of (field v ''server''), lr_content = content,
             lr_role = str_of (field v ''role''), lr_power_bracket = str_of (field v ''powerBracket''),
             lr_started_at = str_of (field v ''startedAt''), lr_ended_at = str_of (field v ''endedAt''),
             lr_seconds = or_zero (floor_count (field v ''seconds'')),
             lr_created_at = str_or now (field v ''createdAt''), lr_updated_at = str_or now (field v ''updatedAt'')\<rparr>)
      | _ \<Rightarrow> None)"

text \<open>\<open>typeof v === "string" && known.has(v) ? v : null\<close>.\<close>

definition known_id :: "string list \<Rightarrow> jsval \<Rightarrow> string option" where
  "known_id known v = (case str_of v of Some i \<Rightarrow> (if i \<in> set known then Some i else None) | None \<Rightarrow> None)"

definition read_drop :: "string \<Rightarrow> string list \<Rightarrow> string list \<Rightarrow> jsval \<Rightarrow> loot_run_drop_row option" where
  "read_drop now run_ids item_ids v =
     (let qty = floor_count (field v ''qty'') in
      case (str_of (field v ''id''), known_id run_ids (field v ''runId''), trimmed_opt (str_of (field v ''itemName''))) of
        (Some i, Some run, Some item_name) \<Rightarrow>
          (if num_le qty (num 0) then None
           else Some \<lparr>ld_id = i, ld_run_id = run, ld_item_id = known_id item_ids (field v ''itemId''),
             ld_item_name = item_name, ld_qty = qty, ld_note = str_of (field v ''note''),
             ld_created_at = str_or now (field v ''createdAt''), ld_updated_at = str_or now (field v ''updatedAt'')\<rparr>)
      | _ \<Rightarrow> None)"

definition read_cost :: "string \<Rightarrow> string list \<Rightarrow> string list \<Rightarrow> jsval \<Rightarrow> loot_run_cost_row option" where
  "read_cost now run_ids item_ids v =
     (case (str_of (field v ''id''), known_id run_ids (field v ''runId''), as_cost_kind (field v ''kind'')) of
        (Some i, Some run, Some kind) \<Rightarrow>
          Some \<lparr>lc_id = i, lc_run_id = run, lc_kind = kind,
            lc_item_id = (if kind = ITEM then known_id item_ids (field v ''itemId'') else None),
            lc_item_name = str_of (field v ''itemName''), lc_qty = or_zero (floor_count (field v ''qty'')),
            lc_kinah = or_zero (floor_count (field v ''kinah'')), lc_note = str_of (field v ''note''),
            lc_created_at = str_or now (field v ''createdAt''), lc_updated_at = str_or now (field v ''updatedAt'')\<rparr>
      | _ \<Rightarrow> None)"

definition as_template_type :: "jsval \<Rightarrow> template_type option" where
  "as_template_type v = (if v = Str ''DAILY'' then Some DAILY else if v = Str ''WEEKLY'' then Some WEEKLY
     else if v = Str ''CHARGE'' then Some CHARGE else None)"

text \<open>The row that the import inserts for a template; its charge columns are kept for CHARGE only.\<close>

definition read_template :: "string \<Rightarrow> jsval \<Rightarrow> planner_template_row option" where
  "read_template now v =
     (case (str_of (field v ''id''), str_of (field v ''title''), as_template_type (field v ''type'')) of
        (Some i, Some title, Some ty) \<Rightarrow>
          Some \<lparr>pt_id = i, pt_title = title, pt_type = ty,
            pt_estimate_minutes = nonneg_floor (num_or (num 0) (field v ''estimateMinutes'')),
            pt_recharge_hours = charge_column ty (num_of (field v ''rechargeHours'')),
            pt_max_stacks = charge_column ty (num_of (field v ''maxStacks'')),
            pt_created_at = str_or now (field v ''createdAt''), pt_updated_at = str_or now (field v ''updatedAt'')\<rparr>
      | _ \<Rightarrow> None)"

definition read_assignment :: "string \<Rightarrow> string list \<Rightarrow> string list \<Rightarrow> jsval \<Rightarrow> planner_assignment_row option" where
  "read_assignment now character_ids template_ids v =
     (case (str_of (field v ''id''), non_empty (known_id character_ids (field v ''characterId'')),
            non_empty (known_id template_ids (field v ''templateId''))) of
        (Some i, Some c, Some t) \<Rightarrow>
          Some \<lparr>pa_id = i, pa_character_id = c, pa_template_id = t, pa_enabled = truthy (field v ''enabled''),
            pa_target_count = bind_num_opt (num_of (field v ''targetCount'')),
            pa_created_at = str_or now (field v ''createdAt''), pa_updated_at = str_or now (field v ''updatedAt'')\<rparr>
      | _ \<Rightarrow> None)"

definition read_completion :: "string list \<Rightarrow> string list \<Rightarrow> jsval \<Rightarrow> planner_completion_row option" where
  "read_completion character_ids template_ids v =
     (case (str_of (field v ''id''), non_empty (known_id character_ids (field v ''characterId'')),
            non_empty (known_id template_ids (field v ''templateId'')),
            str_of (field v ''periodKey''), str_of (field v ''completedAt'')) of
        (Some i, Some c, Some t, Some p, Some completed) \<Rightarrow>
          Some \<lparr>pc_id = i, pc_character_id = c, pc_template_id = t, pc_period_key = p, pc_completed_at = completed\<rparr>
      | _ \<Rightarrow> None)"

definition read_charge_use :: "string list \<Rightarrow> string list \<Rightarrow> jsval \<Rightarrow> planner_charge_use_row option" where
  "read_charge_use character_ids template_ids v =
     (case (str_of (field v ''id''), non_empty (known_id character_ids (field v ''characterId'')),
            non_empty (known_id template_ids (field v ''templateId'')), str_of (field v ''usedAt'')) of
        (Some i, Some c, Some t, Some u) \<Rightarrow>
          Some \<lparr>pu_id = i, pu_character_id = c, pu_template_id = t, pu_used_at = u\<rparr>
      | _ \<Rightarrow> None)"

text \<open>A duration may have no template; one that names an unknown template is left out.\<close>

definition read_duration :: "string list \<Rightarrow> string list \<Rightarrow> jsval \<Rightarrow> planner_duration_row option" where
  "read_duration character_ids template_ids v =
     (let template = str_of (field v ''templateId'');
          seconds = num_or (num 0) (field v ''seconds'') in
      case (str_of (field v ''id''), non_empty (known_id character_ids (field v ''characterId'')),
            str_of (field v ''startedAt''), str_of (field v ''endedAt'')) of
        (Some i, Some c, Some s, Some e) \<Rightarrow>
          (case non_empty template of
             Some t \<Rightarrow> (if t \<notin> set template_ids then None
               else Some \<lparr>pd_id = i, pd_character_id = c, pd_template_id = template, pd_started_at = s,
                         pd_ended_at = e, pd_seconds = seconds\<rparr>)
           | None \<Rightarrow> Some \<lparr>pd_id = i, pd_character_id = c, pd_template_id = template, pd_started_at = s,
                         pd_ended_at = e, pd_seconds = seconds\<rparr>)
      | _ \<Rightarrow> None)"

section \<open>What is read\<close>

record backup_rows =
  br_active :: "string option"
  br_default_settings :: planner_settings_row
  br_server_settings :: "planner_settings_row list"
  br_characters :: "app_character_row list"
  br_items :: "economy_item_row list"
  br_prices :: "economy_price_row list"
  br_watches :: "economy_price_watch_row list"
  br_scores :: "build_score_row list"
  br_presets :: "build_score_preset_row list"
  br_runs :: "loot_run_row list"
  br_drops :: "loot_run_drop_row list"
  br_costs :: "loot_run_cost_row list"
  br_templates :: "planner_template_row list"
  br_assignments :: "planner_assignment_row list"
  br_completions :: "planner_completion_row list"
  br_charge_uses :: "planner_charge_use_row list"
  br_durations :: "planner_duration_row list"

definition read_backup :: "string \<Rightarrow> jsnum \<Rightarrow> jsval \<Rightarrow> backup_rows" where
  "read_backup now version obj =
     (let planner = field obj ''planner''; score = field obj ''buildScore'';
          economy = field obj ''economy''; loot = field obj ''loot'';
          (default_settings, server_settings) = read_settings now version (field planner ''settings'');
          characters = entries (read_backup_character now) (field obj ''characters'');
          character_ids = map ch_id characters;
          items = entries (read_item now) (field economy ''items''); item_ids = map ei_id items;
          runs = entries (read_run now character_ids) (field loot ''runs''); run_ids = map lr_id runs;
          templates = entries (read_template now) (field planner ''templates''); template_ids = map pt_id templates in
      \<lparr>br_active = str_of (field obj ''activeCharacterId''),
       br_default_settings = default_settings, br_server_settings = server_settings,
       br_characters = characters, br_items = items,
       br_prices = entries (read_price now item_ids) (field economy ''prices''),
       br_watches = entries (read_watch now item_ids) (field economy ''watches''),
       br_scores = filter (\<lambda>r. bs_character_id r \<in> set character_ids)
         (entries (read_score now) (field score ''perCharacter'')),
       br_presets = filter (\<lambda>r. bp_character_id r \<in> set character_ids)
         (entries (read_score_preset now) (field score ''presets'')),
       br_runs = runs, br_drops = entries (read_drop now run_ids item_ids) (field loot ''drops''),
       br_costs = entries (read_cost now run_ids item_ids) (field loot ''costs''),
       br_templates = templates,
       br_assignments = entries (read_assignment now character_ids template_ids) (field planner ''assignments''),
       br_completions = entries (read_completion character_ids template_ids) (field planner ''completions''),
       br_charge_uses = entries (read_charge_use character_ids template_ids) (field planner ''chargeUses''),
       br_durations = entries (read_duration character_ids template_ids) (field planner ''durations'')\<rparr>)"

section \<open>Replacing the user's data\<close>

text \<open>\<open>DELETE FROM t;\<close> of the eight tables; what hangs on them goes by ON DELETE, if at all.\<close>

definition clear_user_data :: "(db, unit) op" where
  "clear_user_data =
     and_then (modify (delete_app_setting (\<lambda>_. True))) (\<lambda>_.
     and_then (modify (delete_app_character (\<lambda>_. True))) (\<lambda>_.
     and_then (modify (delete_planner_template (\<lambda>_. True))) (\<lambda>_.
     and_then (modify (delete_planner_settings (\<lambda>_. True))) (\<lambda>_.
     and_then (modify (delete_economy_alert_event (\<lambda>_. True))) (\<lambda>_.
     and_then (modify (delete_economy_price_watch (\<lambda>_. True))) (\<lambda>_.
     and_then (modify (delete_economy_price (\<lambda>_. True))) (\<lambda>_.
     modify (delete_economy_item (\<lambda>_. True)))))))))"

definition insert_settings_row :: "planner_settings_row \<Rightarrow> (db, unit) op" where
  "insert_settings_row r = not_null (ps_weekly_reset_day r) (insert_planner_settings Abort r)"

definition import_settings :: "backup_rows \<Rightarrow> (db, unit) op" where
  "import_settings b =
     and_then (insert_settings_row (br_default_settings b)) (\<lambda>_.
     and_then (for_each (br_server_settings b) insert_settings_row) (\<lambda>_.
     case non_empty (br_active b) of
       None \<Rightarrow> ret () | Some c \<Rightarrow> set_active_character_id (Some c)))"

definition import_economy :: "backup_rows \<Rightarrow> (db, unit) op" where
  "import_economy b =
     and_then (for_each (br_characters b) (insert_app_character Abort)) (\<lambda>_.
     and_then (for_each (br_items b) (insert_economy_item Replace)) (\<lambda>_.
     and_then (for_each (br_prices b) (\<lambda>r. not_null (ep_price r) (insert_economy_price Replace r))) (\<lambda>_.
     for_each (br_watches b) (\<lambda>r. not_null (ew_threshold r) (insert_economy_price_watch Replace r)))))"

definition import_scores_and_loot :: "backup_rows \<Rightarrow> (db, unit) op" where
  "import_scores_and_loot b =
     and_then (for_each (br_scores b) (insert_build_score Replace)) (\<lambda>_.
     and_then (for_each (br_presets b) (insert_build_score_preset Replace)) (\<lambda>_.
     and_then (for_each (br_runs b) (insert_loot_run Replace)) (\<lambda>_.
     and_then (for_each (br_drops b) (\<lambda>r. not_null (ld_qty r) (insert_loot_run_drop Replace r))) (\<lambda>_.
     for_each (br_costs b) (insert_loot_run_cost Replace)))))"

text \<open>INSERT OR IGNORE also passes over a row that has NULL in a NOT NULL column.\<close>

definition import_planner :: "backup_rows \<Rightarrow> (db, unit) op" where
  "import_planner b =
     and_then (for_each (br_templates b)
       (\<lambda>r. not_null (pt_estimate_minutes r) (insert_planner_template Abort r))) (\<lambda>_.
     and_then (for_each (br_assignments b) (insert_planner_assignment Ignore)) (\<lambda>_.
     and_then (for_each (br_completions b) (insert_planner_completion Ignore)) (\<lambda>_.
     and_then (for_each (br_charge_uses b) (insert_planner_charge_use Ignore)) (\<lambda>_.
     for_each (br_durations b) (\<lambda>r.
       if pd_seconds r = NaN then ret () else insert_planner_duration Ignore r)))))"

definition assign_all_pairs :: "string \<Rightarrow> (db, unit) op" where
  "assign_all_pairs now = reading (\<lambda>d.
     insert_select (List.product (app_character d) (planner_template d)) (\<lambda>(c, t).
       insert_planner_assignment Ignore
         (assignment_for (''assign:'' @ ch_id c @ '':'' @ pt_id t) (ch_id c) (pt_id t) now)))"

definition import_rows :: "string \<Rightarrow> backup_rows \<Rightarrow> (db, unit) op" where
  "import_rows now b =
     and_then clear_user_data (\<lambda>_.
     and_then (import_settings b) (\<lambda>_.
     and_then (import_economy b) (\<lambda>_.
     and_then (import_scores_and_loot b) (\<lambda>_.
     and_then (import_planner b) (\<lambda>_.
     assign_all_pairs now)))))"

definition import_user_backup :: "string option \<Rightarrow> string \<Rightarrow> jsval \<Rightarrow> (db, unit) op" where
  "import_user_backup rb now raw =
     guard_else (is_object raw) (Thrown ''bad_backup'') (
     case num_of (field raw ''schemaVersion'') of
       None \<Rightarrow> throw (Thrown ''unsupported_backup_version'')
     | Some version \<Rightarrow>
         guard_else (version \<in> {num 1, num 2, num 3, num 4}) (Thrown ''unsupported_backup_version'')
           (in_transaction ''CRITICAL: backup import failed and rollback failed'' rb
             (import_rows now (read_backup now version raw))))"

section \<open>Invariants\<close>

context replace_invariant
begin

lemma clear_user_data_keeps [keeps_intro]: "keeps I clear_user_data"
  unfolding clear_user_data_def by (intro keeps_intro)

lemma import_settings_keeps [keeps_intro]: "keeps I (import_settings b)"
  unfolding import_settings_def insert_settings_row_def by (intro keeps_intro)

lemma import_economy_keeps [keeps_intro]: "keeps I (import_economy b)"
  unfolding import_economy_def by (intro keeps_intro)

lemma import_scores_and_loot_keeps [keeps_intro]: "keeps I (import_scores_and_loot b)"
  unfolding import_scores_and_loot_def by (intro keeps_intro)

lemma import_planner_keeps [keeps_intro]: "keeps I (import_planner b)"
  unfolding import_planner_def by (intro keeps_intro)

lemma assign_all_pairs_keeps [keeps_intro]: "keeps I (assign_all_pairs now)"
  unfolding assign_all_pairs_def by (intro keeps_intro)

lemma import_user_backup_keeps [keeps_intro]: "keeps I (import_user_backup rb now raw)"
  unfolding import_user_backup_def import_rows_def by (intro keeps_intro)

end

end
