(* ===== verification/BuildScoreFacts.thy ===== *)
theory BuildScoreFacts
  imports BuildScore
begin

text \<open>
  What reading a build score guarantees whatever was stored, and that storing and reading are
  inverse to each other.
\<close>

section \<open>Well-formed states\<close>

definition stat_ok :: "score_stat \<Rightarrow> bool" where
  "stat_ok s \<longleftrightarrow> sc_id s \<noteq> [] \<and> sc_label s \<noteq> [] \<and> is_finite (sc_weight s)"

definition values_ok :: "(string \<times> jsnum) list \<Rightarrow> bool" where
  "values_ok vs \<longleftrightarrow> distinct (map fst vs) \<and> (\<forall>(k, x) \<in> set vs. k \<noteq> ''__proto__'' \<and> is_finite x)"

definition set_ok :: "score_set \<Rightarrow> bool" where
  "set_ok s \<longleftrightarrow> sl_name s \<noteq> [] \<and> trim (sl_name s) = sl_name s \<and> values_ok (sl_values s)"

definition state_ok :: "score_state \<Rightarrow> bool" where
  "state_ok st \<longleftrightarrow> list_all stat_ok (ss_stats st) \<and> set_ok (ss_set_a st) \<and> set_ok (ss_set_b st)"

lemma trim_solid:
  assumes "s \<noteq> []" "\<forall>w \<in> set ws_seqs. hd w \<noteq> hd s" "\<forall>w \<in> set ws_seqs. last w \<noteq> last s"
  shows "trim s = s"
proof -
  have clean: "\<not> prefix w s \<and> \<not> suffix w s" if "w \<in> set ws_seqs" for w
    using that assms ws_seqs_nonempty [OF that] by (auto simp: prefix_def suffix_def)
  have "trim_start s = s"
    unfolding trim_start_def by (rule strip_with_id) (simp add: clean)
  moreover have "trim_end s = s"
    unfolding trim_end_def by (subst strip_with_id) (auto simp: clean suffix_to_prefix [symmetric])
  ultimately show ?thesis by (simp add: trim_def)
qed

lemma fallback_names: "set_a_name \<noteq> []" "set_b_name \<noteq> []" "trim set_a_name = set_a_name" "trim set_b_name = set_b_name"
  by (simp_all add: trim_solid set_a_name_def set_b_name_def utf8_def byte_def ws_seqs_def)

lemma as_stat_ok: "as_stat v = Some s \<Longrightarrow> stat_ok s"
  by (auto simp: as_stat_def stat_ok_def split: if_splits option.splits)

lemma all_stats_ok: "all_stats vs = Some ss \<Longrightarrow> list_all stat_ok ss"
  by (induction vs arbitrary: ss) (auto split: option.splits dest: as_stat_ok)

lemma as_build_score_stats_ok: "as_build_score_stats v = Some ss \<Longrightarrow> list_all stat_ok ss"
  by (cases v) (auto dest: all_stats_ok)

lemma set_update_subset: "set (AList.update k x al) \<subseteq> insert (k, x) (set al)"
  by (induction al) auto

lemma assign_values_ok: "values_ok vs \<Longrightarrow> values_ok (assign_value vs kv)"
  using set_update_subset [of "fst kv" _ vs]
  by (fastforce simp: values_ok_def assign_value_def distinct_update split: option.split)

lemma foldl_values_ok: "values_ok vs \<Longrightarrow> values_ok (foldl assign_value vs kvs)"
  by (induction kvs arbitrary: vs) (auto intro: assign_values_ok)

lemma as_build_score_set_ok:
  "as_build_score_set v n = Some s \<Longrightarrow> n \<noteq> [] \<Longrightarrow> trim n = n \<Longrightarrow> set_ok s"
  using foldl_values_ok [of "[]" "own_entries (field v ''values'')"]
  by (auto simp: as_build_score_set_def set_ok_def values_ok_def trimmed_opt_def trimmed_def
      split: if_splits option.splits)

lemma as_build_score_state_ok: "as_build_score_state now v = Some st \<Longrightarrow> state_ok st"
  using fallback_names
  by (auto simp: as_build_score_state_def state_ok_def split: if_splits option.splits
      dest: as_build_score_stats_ok intro: as_build_score_set_ok)

lemma default_state_ok: "state_ok (default_build_score_state now)"
  using fallback_names
  by (simp add: state_ok_def default_build_score_state_def stat_ok_def set_ok_def values_ok_def utf8_def)

section \<open>Storing and reading\<close>

lemma as_stat_json: "stat_ok s \<Longrightarrow> as_stat (jsonify (stat_json s)) = Some s"
  by (cases s; cases "sc_unit s")
    (auto simp: as_stat_def stat_json_def stat_ok_def as_build_score_unit_def non_empty_def)

lemma all_stats_json: "list_all stat_ok ss \<Longrightarrow> all_stats (map (\<lambda>s. jsonify (stat_json s)) ss) = Some ss"
  by (induction ss) (simp_all add: as_stat_json)

lemma stats_roundtrip: "list_all stat_ok ss \<Longrightarrow> as_build_score_stats (stats_json ss) = Some ss"
  by (simp add: stats_json_def all_stats_json comp_def)

lemma update_new_key: "k \<notin> fst ` set al \<Longrightarrow> AList.update k x al = al @ [(k, x)]"
  by (induction al) auto

lemma assign_all:
  "distinct (map fst (al @ vs)) \<Longrightarrow> \<forall>(k, x) \<in> set vs. k \<noteq> ''__proto__'' \<and> is_finite x \<Longrightarrow>
   foldl assign_value al (map (\<lambda>(k, x). (k, Num x)) vs) = al @ vs"
  by (induction vs arbitrary: al) (auto simp: assign_value_def update_new_key)

lemma jsonify_values:
  "\<forall>(k, x) \<in> set vs. is_finite x \<Longrightarrow>
   jsonify (Obj (map (\<lambda>(k, x). (k, Num x)) vs)) = Obj (map (\<lambda>(k, x). (k, Num x)) vs)"
  by (induction vs) auto

lemma as_set_json: "set_ok s \<Longrightarrow> as_build_score_set (jsonify (set_json s)) n = Some s"
proof -
  assume ok: "set_ok s"
  then have fin: "\<forall>(k, x) \<in> set (sl_values s). is_finite x"
    and keys: "distinct (map fst ([] @ sl_values s))"
      "\<forall>(k, x) \<in> set (sl_values s). k \<noteq> ''__proto__'' \<and> is_finite x"
    by (auto simp: set_ok_def values_ok_def)
  have "jsonify (set_json s) = Obj [(''name'', Str (sl_name s)),
      (''values'', Obj (map (\<lambda>(k, x). (k, Num x)) (sl_values s)))]"
    using jsonify_values [OF fin] by (simp add: set_json_def)
  with assign_all [OF keys] ok show ?thesis
    by (simp add: as_build_score_set_def set_ok_def trimmed_opt_def trimmed_def)
qed

lemma jsonify_stats: "jsonify (Arr (map stat_json ss)) = Arr (map (\<lambda>s. jsonify (stat_json s)) ss)"
  by (simp add: comp_def)

lemma state_roundtrip: "state_ok st \<Longrightarrow> as_build_score_state now (jsonify (state_json st)) = Some st"
proof -
  assume ok: "state_ok st"
  have "jsonify (state_json st) = Obj [(''version'', Num (num 1)), (''updatedAt'', Str (ss_updated_at st)),
      (''stats'', Arr (map (\<lambda>s. jsonify (stat_json s)) (ss_stats st))),
      (''setA'', jsonify (set_json (ss_set_a st))), (''setB'', jsonify (set_json (ss_set_b st)))]"
    by (simp add: state_json_def set_json_def comp_def)
  with ok show ?thesis
    by (simp add: as_build_score_state_def state_ok_def all_stats_json as_set_json str_or_def)
qed

section \<open>The state of a character\<close>

lemma stored_state_ok: "state_ok (get_build_score now c d)"
  by (auto simp: get_build_score_def default_state_ok as_build_score_state_ok split: option.split)

text \<open>
  C23. Whatever JSON is stored for a character, reading its build score gives a usable state: every
  stat has an id, a label and a finite weight, both sets have a trimmed non-empty name, and
  their values are finite numbers under distinct keys.
\<close>

theorem build_score_well_formed: "state_ok (get_build_score now c d)"
  by (rule stored_state_ok)

lemma set_build_score_done:
  assumes "set_build_score now c raw d = (Inr u, d')" "as_build_score_state now raw = Some st"
  shows "\<exists>row. find (\<lambda>r. bs_character_id r = c) (build_score d') = Some row
      \<and> bs_data_json row = jsonify (state_json (st\<lparr>ss_updated_at := now\<rparr>))
    \<and> (\<forall>c'. c' \<noteq> c \<longrightarrow>
        find (\<lambda>r. bs_character_id r = c') (build_score d') = find (\<lambda>r. bs_character_id r = c') (build_score d))"
proof (cases "list_ex (\<lambda>r. bs_character_id r = c) (build_score d)")
  case True
  then obtain row where row: "find (\<lambda>r. bs_character_id r = c) (build_score d) = Some row"
    by (cases "find (\<lambda>r. bs_character_id r = c) (build_score d)") (auto simp: list_ex_iff find_None_iff)
  define f :: "build_score_row \<Rightarrow> build_score_row" where
    "f = (\<lambda>r. r\<lparr>bs_data_json := jsonify (state_json (st\<lparr>ss_updated_at := now\<rparr>)), bs_updated_at := now\<rparr>)"
  from True assms have d': "build_score d' = update_where (\<lambda>r. bs_character_id r = c) f (build_score d)"
    by (auto simp: set_build_score_def Let_def reading_apply modify_apply f_def)
  have key: "\<And>r. bs_character_id (f r) = bs_character_id r" by (simp add: f_def)
  show ?thesis
    unfolding d' using row by (simp add: find_update_where [where key = bs_character_id and f = f, OF key] option.map_ident) (simp add: f_def)
next
  case False
  let ?row = "\<lparr>bs_character_id = c, bs_data_json = jsonify (state_json (st\<lparr>ss_updated_at := now\<rparr>)), bs_updated_at = now\<rparr>"
  from False assms have "insert_build_score Abort ?row d = (Inr u, d')"
    by (simp add: set_build_score_def Let_def reading_apply)
  from insert_into_done [OF this [unfolded insert_build_score_def]]
  have d': "build_score d' = build_score d @ [?row]" by simp
  have "find (\<lambda>r. bs_character_id r = c) (build_score d) = None"
    using False by (auto simp: find_None_iff list_ex_iff)
  with d' show ?thesis by (simp add: find_append split: option.split)
qed

text \<open>
  C22. A state that the code accepts is stored for the character as the state that was understood,
  stamped with the current time, and reading it back gives exactly that state; the states of
  other characters do not change.
\<close>

theorem build_score_roundtrip:
  assumes "set_build_score now c raw d = (Inr u, d')"
  shows "\<exists>st. as_build_score_state now raw = Some st
    \<and> get_build_score later c d' = st\<lparr>ss_updated_at := now\<rparr>
    \<and> (\<forall>c'. c' \<noteq> c \<longrightarrow> get_build_score later c' d' = get_build_score later c' d)"
proof -
  from assms obtain st where st: "as_build_score_state now raw = Some st"
    by (cases "as_build_score_state now raw") (auto simp: set_build_score_def throw_apply)
  have "state_ok (st\<lparr>ss_updated_at := now\<rparr>)"
    using as_build_score_state_ok [OF st] by (simp add: state_ok_def)
  note read_back = state_roundtrip [OF this, of later]
  from set_build_score_done [OF assms st] obtain row where
    "find (\<lambda>r. bs_character_id r = c) (build_score d') = Some row"
    "bs_data_json row = jsonify (state_json (st\<lparr>ss_updated_at := now\<rparr>))"
    and other: "\<forall>c'. c' \<noteq> c \<longrightarrow>
        find (\<lambda>r. bs_character_id r = c') (build_score d') = find (\<lambda>r. bs_character_id r = c') (build_score d)"
    by (elim exE conjE)
  then have "get_build_score later c d' = st\<lparr>ss_updated_at := now\<rparr>"
    by (simp only: get_build_score_def option.case read_back)
  moreover have "\<forall>c'. c' \<noteq> c \<longrightarrow> get_build_score later c' d' = get_build_score later c' d"
    using other by (simp add: get_build_score_def)
  ultimately show ?thesis using st by (intro exI conjI)
qed

lemma build_score_roundtrip_witness:
  "\<exists>d' st. set_build_score ''now'' ''c1'' (Obj [(''version'', Num (num 1)), (''stats'', Arr []), (''setA'', Obj []), (''setB'', Obj [])])
       sample_db = (Inr (), d')
    \<and> get_build_score ''later'' ''c1'' d' = st\<lparr>ss_updated_at := ''now''\<rparr>
    \<and> get_build_score ''later'' ''c2'' d' = get_build_score ''later'' ''c2'' sample_db"
proof -
  let ?raw = "Obj [(''version'', Num (num 1)), (''stats'', Arr []), (''setA'', Obj []), (''setB'', Obj [])]"
  obtain st where "as_build_score_state ''now'' ?raw = Some st"
    by (simp add: as_build_score_state_def as_build_score_set_def)
  then have "\<exists>d'. set_build_score ''now'' ''c1'' ?raw sample_db = (Inr (), d')"
    by (simp add: set_build_score_def Let_def reading_apply sample_defs has_id_def insert_build_score_def insert_into_def
        clash_build_score_def refs_build_score_def)
  then obtain d' where d': "set_build_score ''now'' ''c1'' ?raw sample_db = (Inr (), d')" by (elim exE)
  have ne: "''c2'' \<noteq> ''c1''" by simp
  from build_score_roundtrip [OF d', of "''later''"] obtain st where
    "get_build_score ''later'' ''c1'' d' = st\<lparr>ss_updated_at := ''now''\<rparr>"
    "\<forall>c'. c' \<noteq> ''c1'' \<longrightarrow> get_build_score ''later'' c' d' = get_build_score ''later'' c' sample_db"
    by (elim exE conjE)
  note st = this
  have "get_build_score ''later'' ''c2'' d' = get_build_score ''later'' ''c2'' sample_db"
    using st(2) [rule_format, OF ne] .
  with d' st(1) show ?thesis by (intro exI conjI)
qed

section \<open>Presets\<close>

text \<open>A preset is stored so that reading it gives its stats back.\<close>

definition presets_readable :: "db \<Rightarrow> bool" where
  "presets_readable d \<longleftrightarrow> (\<forall>r \<in> set (build_score_preset d). as_build_score_stats (bp_stats_json r) \<noteq> None)"

lemma store_preset_done:
  assumes "store_preset uid c name description stats created updated d = (Inr item, d')"
  shows "build_score_preset d' = build_score_preset d @
      [\<lparr>bp_id = uid, bp_character_id = c, bp_name = name, bp_description = description,
        bp_stats_json = stats_json stats, bp_created_at = created, bp_updated_at = updated\<rparr>]
    \<and> (\<forall>x \<in> set (build_score_preset d). bp_id x \<noteq> uid)
    \<and> item = \<lparr>si_id = uid, si_name = name, si_description = description, si_stat_count = length stats,
          si_created_at = created, si_updated_at = updated\<rparr>"
proof -
  let ?row = "\<lparr>bp_id = uid, bp_character_id = c, bp_name = name, bp_description = description,
        bp_stats_json = stats_json stats, bp_created_at = created, bp_updated_at = updated\<rparr>"
  obtain r d1 where ins: "insert_build_score_preset Abort ?row d = (r, d1)" by force
  with assms have r: "r = Inr ()" "d' = d1" "item = \<lparr>si_id = uid, si_name = name, si_description = description,
      si_stat_count = length stats, si_created_at = created, si_updated_at = updated\<rparr>"
    by (auto simp: store_preset_def and_then_apply ret_apply split: sum.splits)
  from insert_into_done [OF ins [unfolded insert_build_score_preset_def r(1)]] r
  show ?thesis by (auto simp: clash_build_score_preset_def)
qed

text \<open>
  A clone has the stats and the description of its original, belongs to the same character, and
  leaves the original as it was.
\<close>

theorem clone_has_same_stats:
  assumes "clone_build_score_preset uid now preset_id new_name d = (Inr item, d')" and "uid \<noteq> []"
  shows "\<exists>original clone. get_build_score_preset preset_id d = Some original
    \<and> get_build_score_preset uid d' = Some clone
    \<and> sp_stats clone = sp_stats original \<and> sp_description clone = sp_description original
    \<and> sp_character_id clone = sp_character_id original \<and> sp_name clone = si_name item
    \<and> get_build_score_preset preset_id d' = Some original"
proof -
  from assms(1) obtain original where original: "get_build_score_preset preset_id d = Some original"
    by (cases "get_build_score_preset preset_id d") (auto simp: clone_build_score_preset_def reading_apply throw_apply)
  define name where "name = (case trimmed_opt new_name of Some s \<Rightarrow> s
    | None \<Rightarrow> sp_name original @ utf8 [0x20, 0x28, 0xbcf5, 0xc0ac, 0x29])"
  from assms(1) original have "store_preset uid (sp_character_id original) name
      (sp_description original) (sp_stats original) now now d = (Inr item, d')"
    by (simp add: clone_build_score_preset_def reading_apply name_def)
  from store_preset_done [OF this] have d': "build_score_preset d' = build_score_preset d @
      [\<lparr>bp_id = uid, bp_character_id = sp_character_id original, bp_name = name,
        bp_description = sp_description original, bp_stats_json = stats_json (sp_stats original),
        bp_created_at = now, bp_updated_at = now\<rparr>]"
    and fresh: "\<forall>x \<in> set (build_score_preset d). bp_id x \<noteq> uid" and item: "si_name item = name" by simp_all
  have ok: "list_all stat_ok (sp_stats original)"
    using original as_build_score_stats_ok
    by (auto simp: get_build_score_preset_def read_preset_def stats_or_empty_def split: option.splits if_splits)
  have none: "find (\<lambda>r. bp_id r = uid) (build_score_preset d) = None" using fresh by (auto simp: find_None_iff)
  have "get_build_score_preset preset_id d' = Some original"
    using original by (cases "find (\<lambda>r. bp_id r = preset_id) (build_score_preset d)")
      (auto simp: get_build_score_preset_def d' find_append split: if_splits)
  moreover have "\<exists>clone. get_build_score_preset uid d' = Some clone
      \<and> sp_stats clone = sp_stats original \<and> sp_description clone = sp_description original
      \<and> sp_character_id clone = sp_character_id original \<and> sp_name clone = name"
    using none assms(2) stats_roundtrip [OF ok]
    by (simp add: get_build_score_preset_def d' find_append read_preset_def stats_or_empty_def)
  ultimately show ?thesis using original item by auto
qed

definition score_db :: db where
  "score_db = sample_db\<lparr>build_score_preset := [\<lparr>bp_id = ''p1'', bp_character_id = ''c1'', bp_name = ''PvE'',
     bp_description = Some ''raid'', bp_stats_json = Arr [], bp_created_at = ''t'', bp_updated_at = ''t''\<rparr>]\<rparr>"

lemma clone_has_same_stats_witness:
  "\<exists>item d' clone. clone_build_score_preset ''p2'' ''now'' ''p1'' (Some ''PvP'') score_db = (Inr item, d')
    \<and> get_build_score_preset ''p2'' d' = Some clone \<and> sp_name clone = si_name item"
proof -
  have "\<exists>item d'. clone_build_score_preset ''p2'' ''now'' ''p1'' (Some ''PvP'') score_db = (Inr item, d')"
    by (simp add: clone_build_score_preset_def reading_apply score_db_def get_build_score_preset_def read_preset_def
        store_preset_def and_then_apply ret_apply Let_def sample_defs has_id_def insert_build_score_preset_def insert_into_def
        clash_build_score_preset_def refs_build_score_preset_def)
  then obtain item d' where d': "clone_build_score_preset ''p2'' ''now'' ''p1'' (Some ''PvP'') score_db = (Inr item, d')"
    by (elim exE)
  have ne: "''p2'' \<noteq> []" by simp
  from clone_has_same_stats [OF d' ne] obtain clone where
    "get_build_score_preset ''p2'' d' = Some clone" "sp_name clone = si_name item"
    by (elim exE conjE)
  with d' show ?thesis by (intro exI conjI)
qed

end
