(* ===== verification/Tables.thy ===== *)
theory Tables
  imports Statements
begin

text \<open>
  The interface \<open>sql_table\<close> of a table that statements insert into, and its instances: what a
  loop of INSERT statements leaves behind when no two rows share a key, whatever its conflict
  clause.
\<close>

section \<open>Rows with distinct keys\<close>

lemma uniq_Cons: "uniq c (x # xs) \<longleftrightarrow> (\<forall>y \<in> set xs. \<not> c x y) \<and> uniq c xs"
  by (simp add: uniq_def)

lemma uniq_Nil [simp]: "uniq c []"
  by (simp add: uniq_def)

lemma uniq_append: "uniq c (xs @ ys) \<longleftrightarrow> uniq c xs \<and> uniq c ys \<and> (\<forall>x \<in> set xs. \<forall>y \<in> set ys. \<not> c x y)"
  by (auto simp: uniq_def sorted_wrt_append)

lemma uniq_ins_by: "(\<And>x y. c x y = c y x) \<Longrightarrow> uniq c (ins_by le x xs) \<longleftrightarrow> uniq c (x # xs)"
  by (induction xs) (auto simp: uniq_Cons)

lemma uniq_order_by: "(\<And>x y. c x y = c y x) \<Longrightarrow> uniq c (order_by le xs) \<longleftrightarrow> uniq c xs"
proof (induction xs)
  case (Cons x xs)
  have "order_by le (x # xs) = ins_by le x (order_by le xs)" by (simp add: order_by_def)
  with Cons show ?case by (simp add: uniq_ins_by uniq_Cons)
qed (simp add: order_by_def)

lemma uniq_filter: "uniq c xs \<Longrightarrow> uniq c (filter P xs)"
  by (simp add: uniq_def sorted_wrt_filter)

section \<open>Tables\<close>

locale sql_table =
  fixes clash :: "'r \<Rightarrow> 'r \<Rightarrow> bool" and refs :: "db \<Rightarrow> 'r \<Rightarrow> bool"
    and rows :: "db \<Rightarrow> 'r list" and put :: "('r list \<Rightarrow> 'r list) \<Rightarrow> db \<Rightarrow> db"
  assumes rows_put: "rows (put f d) = f (rows d)"
    and put_put: "put g (put f d) = put (\<lambda>t. g (f t)) d"
    and put_id: "put (\<lambda>t. t) d = d"
    and put_pragma: "foreign_keys (put f d) = foreign_keys d"
    and put_refs: "refs (put f d) r = refs d r"
    and clash_sym: "clash x y = clash y x"
begin

lemma insert_all:
  assumes "foreign_keys d \<longrightarrow> (\<forall>r \<in> set rs. refs d r)" and "uniq clash (rows d @ rs)"
  shows "for_each rs (insert_into clash refs rows put del m) d = (Inr (), put (\<lambda>t. t @ rs) d)"
  using assms
proof (induction rs arbitrary: d)
  case Nil
  then show ?case by (simp add: for_each_Nil put_id)
next
  case (Cons r rs)
  have "\<forall>x \<in> set (rows d). \<not> clash x r" using Cons.prems(2) by (simp add: uniq_append)
  then have one: "insert_into clash refs rows put del m r d = (Inr (), put (\<lambda>t. t @ [r]) d)"
    using Cons.prems(1) by (simp add: insert_into_ok)
  have "for_each rs (insert_into clash refs rows put del m) (put (\<lambda>t. t @ [r]) d) =
      (Inr (), put (\<lambda>t. t @ rs) (put (\<lambda>t. t @ [r]) d))"
    by (rule Cons.IH) (use Cons.prems in \<open>simp_all add: put_pragma put_refs rows_put\<close>)
  then show ?case by (simp add: for_each_Cons and_then_apply one put_put)
qed

lemma uniq_ordered: "uniq clash (order_by le t) \<longleftrightarrow> uniq clash t"
  by (rule uniq_order_by) (rule clash_sym)

end

interpretation setting_rows: sql_table clash_planner_settings refs_planner_settings planner_settings planner_settings_update
  by unfold_locales (auto simp: clash_defs refs_defs)

interpretation character_rows: sql_table clash_app_character refs_app_character app_character app_character_update
  by unfold_locales (auto simp: clash_defs refs_defs)

interpretation item_rows: sql_table clash_economy_item refs_economy_item economy_item economy_item_update
  by unfold_locales (auto simp: clash_defs refs_defs)

interpretation price_rows: sql_table clash_economy_price refs_economy_price economy_price economy_price_update
  by unfold_locales (auto simp: clash_defs refs_defs)

interpretation watch_rows: sql_table clash_economy_price_watch refs_economy_price_watch economy_price_watch economy_price_watch_update
  by unfold_locales (auto simp: clash_defs refs_defs)

interpretation score_rows: sql_table clash_build_score refs_build_score build_score build_score_update
  by unfold_locales (auto simp: clash_defs refs_defs)

interpretation preset_rows: sql_table clash_build_score_preset refs_build_score_preset build_score_preset build_score_preset_update
  by unfold_locales (auto simp: clash_defs refs_defs)

interpretation run_rows: sql_table clash_loot_run refs_loot_run loot_run loot_run_update
  by unfold_locales (auto simp: clash_defs refs_defs)

interpretation drop_rows: sql_table clash_loot_run_drop refs_loot_run_drop loot_run_drop loot_run_drop_update
  by unfold_locales (auto simp: clash_defs refs_defs)

interpretation cost_rows: sql_table clash_loot_run_cost refs_loot_run_cost loot_run_cost loot_run_cost_update
  by unfold_locales (auto simp: clash_defs refs_defs)

interpretation template_rows: sql_table clash_planner_template refs_planner_template planner_template planner_template_update
  by unfold_locales (auto simp: clash_defs refs_defs)

interpretation assignment_rows: sql_table clash_planner_assignment refs_planner_assignment planner_assignment planner_assignment_update
  by unfold_locales (auto simp: clash_defs refs_defs)

interpretation completion_rows: sql_table clash_planner_completion refs_planner_completion planner_completion planner_completion_update
  by unfold_locales (auto simp: clash_defs refs_defs)

interpretation charge_use_rows: sql_table clash_planner_charge_use refs_planner_charge_use planner_charge_use planner_charge_use_update
  by unfold_locales (auto simp: clash_defs refs_defs)

interpretation duration_rows: sql_table clash_planner_duration refs_planner_duration planner_duration planner_duration_update
  by unfold_locales (auto simp: clash_defs refs_defs)

end
