(* ===== verification/BackupRows.thy ===== *)
theory BackupRows
  imports BackupImport BuildScoreFacts Tables
begin

text \<open>
  Every row that the app can have stored is read back from the backup as it was: one lemma per
  kind of row, and the conditions that the app's operations establish for it.
\<close>

section \<open>Objects in a file\<close>

lemma jsonify_not_Undef [simp]: "jsonify v \<noteq> Undef"
  by (cases v) auto

lemma is_object_jsonify [simp]: "is_object (jsonify v) = is_object v"
  by (cases v) auto

lemma field_jsonify:
  "\<forall>kv \<in> set kvs. snd kv \<noteq> Undef \<Longrightarrow>
   field (jsonify (Obj kvs)) k = (case map_of kvs k of None \<Rightarrow> Undef | Some v \<Rightarrow> jsonify v)"
  by (induction kvs) (auto split: if_splits)

text \<open>Reading a written list of rows keeps those with \<open>P\<close>, each as \<open>g\<close> of it.\<close>

lemma entries_kept:
  assumes "\<forall>r \<in> set rows. f (jsonify (enc r)) = (if P r then Some (g r) else None)" "\<forall>r. is_object (enc r)"
  shows "entries f (jsonify (Arr (map enc rows))) = map g (filter P rows)"
proof -
  have "List.map_filter (\<lambda>x. if is_object x then f x else None) (map (\<lambda>r. jsonify (enc r)) rows) = map g (filter P rows)"
    using assms by (induction rows) (auto simp: List.map_filter_simps)
  then show ?thesis by (simp add: entries_def comp_def)
qed

lemma entries_file:
  assumes "\<forall>r \<in> set rows. f (jsonify (enc r)) = Some r" "\<forall>r. is_object (enc r)"
  shows "entries f (jsonify (Arr (map enc rows))) = rows"
  by (subst entries_kept [of rows f enc "\<lambda>_. True" "\<lambda>r. r"]) (use assms in simp_all)

lemma entries_filter:
  assumes "\<forall>r \<in> set rows. f (jsonify (enc r)) = (if P r then Some r else None)" "\<forall>r. is_object (enc r)"
  shows "entries f (jsonify (Arr (map enc rows))) = filter P rows"
  by (subst entries_kept [of rows f enc P "\<lambda>r. r"]) (use assms in simp_all)

lemma entries_none [simp]: "entries f Undef = []"
  by (simp add: entries_def List.map_filter_simps)

section \<open>Columns\<close>

definition finite_opt :: "jsnum option \<Rightarrow> bool" where
  "finite_opt v \<longleftrightarrow> (case v of None \<Rightarrow> True | Some x \<Rightarrow> is_finite x)"

definition count_ok :: "jsnum \<Rightarrow> bool" where
  "count_ok x \<longleftrightarrow> (\<exists>i \<ge> 0. x = num i)"

definition text_ok :: "string \<Rightarrow> bool" where
  "text_ok s \<longleftrightarrow> s \<noteq> [] \<and> trim s = s"

lemma opt_str_file [simp]: "str_of (jsonify (opt_str v)) = v"
  by (cases v) (auto simp: opt_str_def)

lemma opt_num_file [simp]: "finite_opt v \<Longrightarrow> num_of (jsonify (opt_num v)) = v"
  by (cases v) (auto simp: opt_num_def finite_opt_def)

lemma opt_not_Undef [simp]: "opt_str v \<noteq> Undef" "opt_num w \<noteq> Undef"
  by (auto simp: opt_str_def opt_num_def split: option.split)

lemma count_file [simp]:
  "count_ok x \<Longrightarrow> jsonify (Num x) = Num x" "count_ok x \<Longrightarrow> floor_count (Num x) = x" "count_ok x \<Longrightarrow> or_zero x = x"
  by (auto simp: count_ok_def floor_count_def or_zero_def)

lemma count_ok_finite: "count_ok x \<Longrightarrow> is_finite x"
  by (auto simp: count_ok_def)

lemma text_trimmed [simp]: "text_ok s \<Longrightarrow> trimmed_opt (Some s) = Some s"
  by (simp add: text_ok_def trimmed_opt_def trimmed_def)

lemma op_text_file [simp]: "as_op (Str (op_text x)) = Some x"
  by (cases x) (auto simp: as_op_def)

lemma kind_text_file [simp]: "as_cost_kind (Str (kind_text k)) = Some k"
  by (cases k) (auto simp: as_cost_kind_def)

lemma type_name_file [simp]: "as_template_type (Str (type_name t)) = Some t"
  by (cases t) (auto simp: as_template_type_def)

lemma known_id_Str [simp]: "known_id known (Str i) = (if i \<in> set known then Some i else None)"
  by (simp add: known_id_def)

text \<open>An id that a row may lack: it is kept when it is one of the known ids.\<close>

definition known_of :: "string set \<Rightarrow> string option \<Rightarrow> string option" where
  "known_of ids v = (case v of None \<Rightarrow> None | Some i \<Rightarrow> if i \<in> ids then Some i else None)"

lemma known_opt [simp]: "known_id known (jsonify (opt_str v)) = known_of (set known) v"
  by (cases v) (auto simp: opt_str_def known_id_def known_of_def)

lemma known_of_simps [simp]:
  "known_of ids None = None" "known_of ids (Some i) = (if i \<in> ids then Some i else None)"
  by (simp_all add: known_of_def)

section \<open>Rows\<close>

lemma character_file: "read_backup_character now (jsonify (character_json r)) = Some r"
  by (cases r) (simp add: read_backup_character_def character_json_def)

definition server_settings_ok :: "planner_settings_row \<Rightarrow> bool" where
  "server_settings_ok r \<longleftrightarrow> (\<exists>s. ps_id r = ''server:'' @ s \<and> text_ok s) \<and> is_finite (ps_weekly_reset_day r)"

lemma server_settings_file:
  "server_settings_ok r \<Longrightarrow> read_server_settings now hhmm day (jsonify (server_settings_json r)) = Some r"
  by (cases r) (auto simp: read_server_settings_def server_settings_json_def server_settings_ok_def text_ok_def)

lemma score_file:
  "jsonify (bs_data_json r) = bs_data_json r \<Longrightarrow> read_score now (jsonify (score_json r)) = Some r"
  by (cases r) (auto simp: read_score_def score_json_def)

definition preset_ok :: "build_score_preset_row \<Rightarrow> bool" where
  "preset_ok r \<longleftrightarrow> text_ok (bp_name r) \<and> (\<exists>stats. list_all stat_ok stats \<and> bp_stats_json r = stats_json stats)"

lemma jsonify_stats_json [simp]: "jsonify (stats_json stats) = stats_json stats"
  unfolding stats_json_def by (rule jsonify_idem)

lemma preset_file:
  assumes "preset_ok r"
  shows "read_score_preset now (jsonify (preset_json r)) = Some r"
proof -
  from assms obtain stats where stats: "list_all stat_ok stats" "bp_stats_json r = stats_json stats"
    and name: "text_ok (bp_name r)" by (auto simp: preset_ok_def)
  have undef: "stats_json stats \<noteq> Undef" by (simp add: stats_json_def)
  have fields: "field (jsonify (preset_json r)) k = (case map_of [(''id'', Str (bp_id r)),
      (''characterId'', Str (bp_character_id r)), (''name'', Str (bp_name r)),
      (''description'', opt_str (bp_description r)), (''createdAt'', Str (bp_created_at r)),
      (''updatedAt'', Str (bp_updated_at r)), (''stats'', stats_json stats)] k of None \<Rightarrow> Undef | Some v \<Rightarrow> jsonify v)" for k
    unfolding preset_json_def stats(2) by (rule field_jsonify) (simp add: undef)
  show ?thesis
    using name stats(2) stats_roundtrip [OF stats(1)]
    by (simp add: read_score_preset_def fields text_ok_def Let_def)
qed

lemma item_file: "text_ok (ei_name r) \<Longrightarrow> read_item now (jsonify (item_json r)) = Some r"
  by (cases r) (simp add: read_item_def item_json_def)

definition price_ok :: "economy_price_row \<Rightarrow> bool" where
  "price_ok r \<longleftrightarrow> text_ok (ep_server r) \<and> count_ok (ep_price r)"

lemma price_file:
  "price_ok r \<Longrightarrow> read_price now item_ids (jsonify (price_json r)) =
     (if ep_item_id r \<in> set item_ids then Some r else None)"
  by (cases r) (simp add: read_price_def price_json_def price_ok_def count_ok_finite)

definition watch_ok :: "economy_price_watch_row \<Rightarrow> bool" where
  "watch_ok r \<longleftrightarrow> text_ok (ew_server r) \<and> count_ok (ew_threshold r)"

lemma watch_file:
  "watch_ok r \<Longrightarrow> read_watch now item_ids (jsonify (watch_json r)) =
     (if ew_item_id r \<in> set item_ids then Some r else None)"
  by (cases r) (simp add: read_watch_def watch_json_def watch_ok_def count_ok_finite as_economy_op_def)

definition run_ok :: "loot_run_row \<Rightarrow> bool" where
  "run_ok r \<longleftrightarrow> text_ok (lr_content r) \<and> count_ok (lr_seconds r)"

lemma run_file:
  "run_ok r \<Longrightarrow> read_run now character_ids (jsonify (run_json r)) =
     (if lr_character_id r \<in> set character_ids then Some r else None)"
  by (cases r) (simp add: read_run_def run_json_def run_ok_def count_ok_finite)

definition drop_ok :: "loot_run_drop_row \<Rightarrow> bool" where
  "drop_ok r \<longleftrightarrow> text_ok (ld_item_name r) \<and> (\<exists>i > 0. ld_qty r = num i)"

lemma drop_file:
  assumes "drop_ok r"
  shows "read_drop now run_ids item_ids (jsonify (drop_json r)) =
    (if ld_run_id r \<in> set run_ids then Some (r\<lparr>ld_item_id := known_of (set item_ids) (ld_item_id r)\<rparr>) else None)"
proof -
  from assms obtain i where "i > 0" "ld_qty r = num i" by (auto simp: drop_ok_def)
  with assms show ?thesis
    by (cases r) (auto simp: read_drop_def drop_json_def drop_ok_def floor_count_def)
qed

definition cost_ok :: "loot_run_cost_row \<Rightarrow> bool" where
  "cost_ok r \<longleftrightarrow> count_ok (lc_qty r) \<and> count_ok (lc_kinah r) \<and> (lc_kind r = KINAH \<longrightarrow> lc_item_id r = None)"

lemma cost_file:
  assumes "cost_ok r"
  shows "read_cost now run_ids item_ids (jsonify (cost_json r)) =
    (if lc_run_id r \<in> set run_ids then Some (r\<lparr>lc_item_id := known_of (set item_ids) (lc_item_id r)\<rparr>) else None)"
  using assms
  by (cases r; cases "lc_kind r")
    (auto simp: read_cost_def cost_json_def cost_ok_def count_ok_finite as_loot_cost_kind_def as_cost_kind_def)

definition template_ok :: "planner_template_row \<Rightarrow> bool" where
  "template_ok r \<longleftrightarrow> pt_id r \<noteq> [] \<and> count_ok (pt_estimate_minutes r)
     \<and> finite_opt (pt_recharge_hours r) \<and> finite_opt (pt_max_stacks r)
     \<and> (pt_type r \<noteq> CHARGE \<longrightarrow> pt_recharge_hours r = None \<and> pt_max_stacks r = None)"

lemma bind_finite: "finite_opt v \<Longrightarrow> bind_num_opt v = v"
  by (auto simp: finite_opt_def bind_num_opt_def bind_num_def split: option.splits)

lemma template_file: "template_ok r \<Longrightarrow> read_template now (jsonify (template_json r)) = Some r"
  by (cases r) (auto simp: read_template_def template_json_def template_ok_def count_ok_finite charge_column_def
      bind_finite count_ok_def)

lemma non_empty_known [simp]: "[] \<notin> ids \<Longrightarrow> non_empty (if i \<in> ids then Some i else None) = (if i \<in> ids then Some i else None)"
  by (auto simp: non_empty_def)

lemma assignment_file:
  assumes "finite_opt (pa_target_count r)" "[] \<notin> set cs" "[] \<notin> set ts"
  shows "read_assignment now cs ts (jsonify (assignment_json r)) =
    (if pa_character_id r \<in> set cs \<and> pa_template_id r \<in> set ts then Some r else None)"
  using assms by (cases r) (simp add: read_assignment_def assignment_json_def bind_finite)

lemma completion_file:
  assumes "[] \<notin> set cs" "[] \<notin> set ts"
  shows "read_completion cs ts (jsonify (completion_json r)) =
    (if pc_character_id r \<in> set cs \<and> pc_template_id r \<in> set ts then Some r else None)"
  using assms by (cases r) (simp add: read_completion_def completion_json_def)

lemma charge_use_file:
  assumes "[] \<notin> set cs" "[] \<notin> set ts"
  shows "read_charge_use cs ts (jsonify (charge_use_json r)) =
    (if pu_character_id r \<in> set cs \<and> pu_template_id r \<in> set ts then Some r else None)"
  using assms by (cases r) (simp add: read_charge_use_def charge_use_json_def)

lemma duration_file:
  assumes "is_finite (pd_seconds r)" "pd_template_id r \<noteq> Some []" "[] \<notin> set cs"
  shows "read_duration cs ts (jsonify (duration_json r)) =
    (if pd_character_id r \<in> set cs \<and> known_of (set ts) (pd_template_id r) = pd_template_id r then Some r else None)"
  using assms
  by (cases r; cases "pd_template_id r") (auto simp: read_duration_def duration_json_def non_empty_def known_of_def)

end
