(* ===== verification/BackupFile.thy ===== *)
theory BackupFile
  imports BackupRows
begin

text \<open>
  What a backup file holds: reading the file that was written gives the rows of the tables in the
  order of the export, apart from the rows that name something that is not in the database any
  more. And what clearing the data leaves: nothing that a backup covers.
\<close>

section \<open>What is exported\<close>

text \<open>
  What the app's own operations establish for the rows they store; the conditions on single rows
  are those of \<open>BackupRows\<close>.
\<close>

definition rows_ready :: "db \<Rightarrow> bool" where
  "rows_ready d \<longleftrightarrow>
     (\<forall>r \<in> set (app_character d). ch_id r \<noteq> [])
     \<and> (\<forall>r \<in> set (planner_settings d).
          ps_id r = ''default'' \<and> is_finite (ps_weekly_reset_day r) \<or> server_settings_ok r)
     \<and> (\<exists>r \<in> set (planner_settings d). ps_id r = ''default'')
     \<and> (\<forall>r \<in> set (planner_template d). template_ok r)
     \<and> (\<forall>r \<in> set (planner_assignment d). finite_opt (pa_target_count r))
     \<and> (\<forall>r \<in> set (planner_duration d). is_finite (pd_seconds r) \<and> pd_template_id r \<noteq> Some [])
     \<and> (\<forall>r \<in> set (build_score d). jsonify (bs_data_json r) = bs_data_json r)
     \<and> (\<forall>r \<in> set (build_score_preset d). preset_ok r)
     \<and> (\<forall>r \<in> set (economy_item d). text_ok (ei_name r))
     \<and> (\<forall>r \<in> set (economy_price d). price_ok r)
     \<and> (\<forall>r \<in> set (economy_price_watch d). watch_ok r)
     \<and> (\<forall>r \<in> set (loot_run d). run_ok r)
     \<and> (\<forall>r \<in> set (loot_run_drop d). drop_ok r)
     \<and> (\<forall>r \<in> set (loot_run_cost d). cost_ok r)"

definition backup_ready :: "db \<Rightarrow> bool" where
  "backup_ready d \<longleftrightarrow> keys_ok d \<and> fully_assigned d \<and> rows_ready d"

text \<open>
  The part of the user's data that a backup keeps. The foreign keys of the app's connection are
  switched off, so deleting a character, a template, an item or a run leaves the rows that name it
  behind; the import leaves these out, and a drop or cost loses the id of an item that is gone. A
  server or class that is stored as the empty text is read as missing.
\<close>

definition kept :: "db \<Rightarrow> db" where
  "kept d = (let cs = ch_id ` set (app_character d); ts = pt_id ` set (planner_template d);
       items = ei_id ` set (economy_item d);
       runs = filter (\<lambda>r. lr_character_id r \<in> cs) (loot_run d); rs = lr_id ` set runs in
     d\<lparr>app_character := map read_character (app_character d),
       build_score := filter (\<lambda>r. bs_character_id r \<in> cs) (build_score d),
       build_score_preset := filter (\<lambda>r. bp_character_id r \<in> cs) (build_score_preset d),
       planner_assignment := filter (\<lambda>r. pa_character_id r \<in> cs \<and> pa_template_id r \<in> ts) (planner_assignment d),
       planner_completion := filter (\<lambda>r. pc_character_id r \<in> cs \<and> pc_template_id r \<in> ts) (planner_completion d),
       planner_charge_use := filter (\<lambda>r. pu_character_id r \<in> cs \<and> pu_template_id r \<in> ts) (planner_charge_use d),
       planner_duration := filter (\<lambda>r. pd_character_id r \<in> cs \<and> known_of ts (pd_template_id r) = pd_template_id r)
         (planner_duration d),
       economy_price := filter (\<lambda>r. ep_item_id r \<in> items) (economy_price d),
       economy_price_watch := filter (\<lambda>r. ew_item_id r \<in> items) (economy_price_watch d),
       loot_run := runs,
       loot_run_drop := map (\<lambda>r. r\<lparr>ld_item_id := known_of items (ld_item_id r)\<rparr>)
         (filter (\<lambda>r. ld_run_id r \<in> rs) (loot_run_drop d)),
       loot_run_cost := map (\<lambda>r. r\<lparr>lc_item_id := known_of items (lc_item_id r)\<rparr>)
         (filter (\<lambda>r. lc_run_id r \<in> rs) (loot_run_cost d))\<rparr>)"

text \<open>No row of the user's data names something that is gone.\<close>

definition user_refs :: "db \<Rightarrow> bool" where
  "user_refs d \<longleftrightarrow>
     list_all (refs_build_score d) (build_score d)
     \<and> list_all (refs_build_score_preset d) (build_score_preset d)
     \<and> list_all (refs_planner_assignment d) (planner_assignment d)
     \<and> list_all (refs_planner_completion d) (planner_completion d)
     \<and> list_all (refs_planner_charge_use d) (planner_charge_use d)
     \<and> list_all (refs_planner_duration d) (planner_duration d)
     \<and> list_all (refs_economy_price d) (economy_price d)
     \<and> list_all (refs_economy_price_watch d) (economy_price_watch d)
     \<and> list_all (refs_loot_run d) (loot_run d)
     \<and> list_all (refs_loot_run_drop d) (loot_run_drop d)
     \<and> list_all (refs_loot_run_cost d) (loot_run_cost d)"

lemma refs_user: "refs_ok d \<Longrightarrow> user_refs d"
  by (simp add: refs_ok_def user_refs_def)

definition default_row :: "string \<Rightarrow> db \<Rightarrow> planner_settings_row" where
  "default_row now d =
     (case find (\<lambda>r. ps_id r = ''default'') (planner_settings d) of
        Some r \<Rightarrow> r\<lparr>ps_updated_at := now\<rparr> | None \<Rightarrow> default_settings_row now)"

definition exported_rows :: "string \<Rightarrow> db \<Rightarrow> backup_rows" where
  "exported_rows now d =
     \<lparr>br_active = get_active_character_id d, br_default_settings = default_row now d,
      br_server_settings = order_by (asc ps_id) (filter (\<lambda>r. is_server_id (ps_id r)) (planner_settings d)),
      br_characters = list_characters d,
      br_items = order_by (then_by (desc ei_updated_at) (desc ei_created_at)) (economy_item d),
      br_prices = order_by (then_by (desc ep_recorded_at) (desc ep_created_at)) (economy_price d),
      br_watches = order_by (then_by (desc ew_updated_at) (desc ew_created_at)) (economy_price_watch d),
      br_scores = order_by (desc bs_updated_at) (build_score d),
      br_presets = order_by (then_by (desc bp_updated_at) (desc bp_created_at)) (build_score_preset d),
      br_runs = order_by (then_by (desc_opt lr_ended_at) (desc lr_created_at)) (loot_run d),
      br_drops = order_by (desc ld_created_at) (loot_run_drop d),
      br_costs = order_by (desc lc_created_at) (loot_run_cost d),
      br_templates = list_planner_templates d,
      br_assignments = order_by (then_by (desc pa_updated_at) (desc pa_created_at)) (planner_assignment d),
      br_completions = order_by (desc pc_completed_at) (planner_completion d),
      br_charge_uses = order_by (desc pu_used_at) (planner_charge_use d),
      br_durations = order_by (desc pd_started_at) (planner_duration d)\<rparr>"

definition plain_characters :: "db \<Rightarrow> bool" where
  "plain_characters d \<longleftrightarrow> (\<forall>r \<in> set (app_character d). read_character r = r)"

lemma list_characters_plain:
  "plain_characters d \<Longrightarrow> list_characters d = order_by (then_by (desc ch_updated_at) (desc ch_created_at)) (app_character d)"
  unfolding list_characters_def plain_characters_def by (intro map_idI) simp

lemma objects [simp]:
  "is_object (character_json r1)" "is_object (server_settings_json r2)" "is_object (template_json r3)"
  "is_object (assignment_json r4)" "is_object (completion_json r5)" "is_object (charge_use_json r6)"
  "is_object (duration_json r7)" "is_object (score_json r8)" "is_object (preset_json r9)"
  "is_object (item_json r10)" "is_object (price_json r11)" "is_object (watch_json r12)"
  "is_object (run_json r13)" "is_object (drop_json r14)" "is_object (cost_json r15)"
  by (simp_all add: character_json_def server_settings_json_def template_json_def assignment_json_def
      completion_json_def charge_use_json_def duration_json_def score_json_def preset_json_def item_json_def
      price_json_def watch_json_def run_json_def drop_json_def cost_json_def)

text \<open>The object that an export returns.\<close>

definition exported :: "string \<Rightarrow> settings \<Rightarrow> db \<Rightarrow> (string \<times> jsval) list" where
  "exported exported_at base d =
     [(''schemaVersion'', Num (num 4)), (''exportedAt'', Str exported_at),
      (''activeCharacterId'', opt_str (get_active_character_id d)),
      (''characters'', Arr (map character_json (list_characters d))),
      (''planner'', planner_part base d)]
     @ score_part d @ economy_part d @ loot_part d"

lemma parts_present: "\<forall>kv \<in> set (exported exported_at base d). snd kv \<noteq> Undef"
  by (auto simp: exported_def score_part_def economy_part_def loot_part_def optional_part_def planner_part_def)

lemma exported_fields:
  "field (jsonify (Obj (exported t base d))) ''schemaVersion'' = Num (num 4)"
  "field (jsonify (Obj (exported t base d))) ''activeCharacterId'' = jsonify (opt_str (get_active_character_id d))"
  "field (jsonify (Obj (exported t base d))) ''characters'' = jsonify (Arr (map character_json (list_characters d)))"
  "field (jsonify (Obj (exported t base d))) ''planner'' = jsonify (planner_part base d)"
  "field (jsonify (Obj (exported t base d))) ''buildScore'' =
     (case map_of (score_part d) ''buildScore'' of None \<Rightarrow> Undef | Some v \<Rightarrow> jsonify v)"
  "field (jsonify (Obj (exported t base d))) ''economy'' =
     (case map_of (economy_part d) ''economy'' of None \<Rightarrow> Undef | Some v \<Rightarrow> jsonify v)"
  "field (jsonify (Obj (exported t base d))) ''loot'' =
     (case map_of (loot_part d) ''loot'' of None \<Rightarrow> Undef | Some v \<Rightarrow> jsonify v)"
  unfolding field_jsonify [OF parts_present]
  by (auto simp: exported_def score_part_def economy_part_def loot_part_def optional_part_def simp del: jsonify.simps(3,4))

lemma planner_fields:
  "field (jsonify (planner_part base d)) ''settings'' = jsonify (Obj [(''default'', settings_json base),
     (''perServer'', Arr (map server_settings_json
        (order_by (asc ps_id) (filter (\<lambda>r. is_server_id (ps_id r)) (planner_settings d)))))])"
  "field (jsonify (planner_part base d)) ''templates'' = jsonify (Arr (map template_json (list_planner_templates d)))"
  "field (jsonify (planner_part base d)) ''assignments'' = jsonify (Arr (map assignment_json
     (order_by (then_by (desc pa_updated_at) (desc pa_created_at)) (planner_assignment d))))"
  "field (jsonify (planner_part base d)) ''completions'' =
     jsonify (Arr (map completion_json (order_by (desc pc_completed_at) (planner_completion d))))"
  "field (jsonify (planner_part base d)) ''chargeUses'' =
     jsonify (Arr (map charge_use_json (order_by (desc pu_used_at) (planner_charge_use d))))"
  "field (jsonify (planner_part base d)) ''durations'' =
     jsonify (Arr (map duration_json (order_by (desc pd_started_at) (planner_duration d))))"
  unfolding planner_part_def by (simp_all add: field_jsonify del: jsonify.simps(3,4))

lemma part_fields:
  "entries f (field (case map_of (score_part d) ''buildScore'' of None \<Rightarrow> Undef | Some v \<Rightarrow> jsonify v) ''perCharacter'') =
     entries f (jsonify (Arr (map score_json (order_by (desc bs_updated_at) (build_score d)))))"
  "entries g (field (case map_of (score_part d) ''buildScore'' of None \<Rightarrow> Undef | Some v \<Rightarrow> jsonify v) ''presets'') =
     entries g (jsonify (Arr (map preset_json
       (order_by (then_by (desc bp_updated_at) (desc bp_created_at)) (build_score_preset d)))))"
  "entries f1 (field (case map_of (economy_part d) ''economy'' of None \<Rightarrow> Undef | Some v \<Rightarrow> jsonify v) ''items'') =
     entries f1 (jsonify (Arr (map item_json (order_by (then_by (desc ei_updated_at) (desc ei_created_at)) (economy_item d)))))"
  "entries f2 (field (case map_of (economy_part d) ''economy'' of None \<Rightarrow> Undef | Some v \<Rightarrow> jsonify v) ''prices'') =
     entries f2 (jsonify (Arr (map price_json (order_by (then_by (desc ep_recorded_at) (desc ep_created_at)) (economy_price d)))))"
  "entries f3 (field (case map_of (economy_part d) ''economy'' of None \<Rightarrow> Undef | Some v \<Rightarrow> jsonify v) ''watches'') =
     entries f3 (jsonify (Arr (map watch_json
       (order_by (then_by (desc ew_updated_at) (desc ew_created_at)) (economy_price_watch d)))))"
  "entries f4 (field (case map_of (loot_part d) ''loot'' of None \<Rightarrow> Undef | Some v \<Rightarrow> jsonify v) ''runs'') =
     entries f4 (jsonify (Arr (map run_json (order_by (then_by (desc_opt lr_ended_at) (desc lr_created_at)) (loot_run d)))))"
  "entries f5 (field (case map_of (loot_part d) ''loot'' of None \<Rightarrow> Undef | Some v \<Rightarrow> jsonify v) ''drops'') =
     entries f5 (jsonify (Arr (map drop_json (order_by (desc ld_created_at) (loot_run_drop d)))))"
  "entries f6 (field (case map_of (loot_part d) ''loot'' of None \<Rightarrow> Undef | Some v \<Rightarrow> jsonify v) ''costs'') =
     entries f6 (jsonify (Arr (map cost_json (order_by (desc lc_created_at) (loot_run_cost d)))))"
  by (auto simp: score_part_def economy_part_def loot_part_def optional_part_def field_jsonify order_by_def
      entries_def List.map_filter_simps simp del: jsonify.simps(4))

text \<open>Reading the file gives the rows of the tables, in the order of the export.\<close>

definition base_settings :: "planner_settings_row \<Rightarrow> settings" where
  "base_settings r = \<lparr>se_daily_reset_hhmm = ps_daily_reset_hhmm r, se_weekly_reset_day = ps_weekly_reset_day r,
     se_updated_at = ps_updated_at r\<rparr>"

lemma is_server_id_prefix [simp]: "is_server_id (''server:'' @ s)"
  by (simp add: is_server_id_def lower_ascii_def)

lemma is_server_id_default [simp]: "\<not> is_server_id ''default''"
  by (simp add: is_server_id_def lower_ascii_def)

lemma server_rows_ok:
  assumes "\<forall>r \<in> set (planner_settings d).
      ps_id r = ''default'' \<and> is_finite (ps_weekly_reset_day r) \<or> server_settings_ok r"
  shows "\<forall>r \<in> set (filter (\<lambda>r. is_server_id (ps_id r)) (planner_settings d)). server_settings_ok r"
proof
  fix r assume r: "r \<in> set (filter (\<lambda>r. is_server_id (ps_id r)) (planner_settings d))"
  then have "ps_id r \<noteq> ''default''" using is_server_id_default by auto
  with assms r show "server_settings_ok r" by auto
qed

lemma read_settings_file:
  assumes "is_finite (ps_weekly_reset_day r)"
    "\<forall>r \<in> set rows. server_settings_ok r"
  shows "read_settings now (num 4) (jsonify (Obj [(''default'', settings_json (base_settings r)),
      (''perServer'', Arr (map server_settings_json rows))]))
    = (\<lparr>ps_id = ''default'', ps_daily_reset_hhmm = ps_daily_reset_hhmm r,
        ps_weekly_reset_day = ps_weekly_reset_day r, ps_updated_at = now\<rparr>, rows)"
proof -
  have "entries (read_server_settings now h dd) (jsonify (Arr (map server_settings_json rows))) = rows" for h dd
    by (rule entries_file) (simp_all add: assms(2) server_settings_file)
  then show ?thesis
    using assms(1)
    by (simp add: read_settings_def field_jsonify settings_json_def base_settings_def Let_def del: jsonify.simps(3))
qed

lemma ref_ids:
  assumes "user_refs d"
  shows "r3 \<in> set (economy_price d) \<Longrightarrow> ep_item_id r3 \<in> ei_id ` set (economy_item d)"
    "r4 \<in> set (economy_price_watch d) \<Longrightarrow> ew_item_id r4 \<in> ei_id ` set (economy_item d)"
    "r5 \<in> set (loot_run d) \<Longrightarrow> lr_character_id r5 \<in> ch_id ` set (app_character d)"
    "r6 \<in> set (loot_run_drop d) \<Longrightarrow> ld_run_id r6 \<in> lr_id ` set (loot_run d)"
    "r6 \<in> set (loot_run_drop d) \<Longrightarrow> ld_item_id r6 = Some i \<Longrightarrow> i \<in> ei_id ` set (economy_item d)"
    "r7 \<in> set (loot_run_cost d) \<Longrightarrow> lc_run_id r7 \<in> lr_id ` set (loot_run d)"
    "r7 \<in> set (loot_run_cost d) \<Longrightarrow> lc_item_id r7 = Some i \<Longrightarrow> i \<in> ei_id ` set (economy_item d)"
    "r8 \<in> set (planner_assignment d) \<Longrightarrow> pa_character_id r8 \<in> ch_id ` set (app_character d)"
    "r8 \<in> set (planner_assignment d) \<Longrightarrow> pa_template_id r8 \<in> pt_id ` set (planner_template d)"
    "r9 \<in> set (planner_completion d) \<Longrightarrow> pc_character_id r9 \<in> ch_id ` set (app_character d)"
    "r9 \<in> set (planner_completion d) \<Longrightarrow> pc_template_id r9 \<in> pt_id ` set (planner_template d)"
    "r10 \<in> set (planner_charge_use d) \<Longrightarrow> pu_character_id r10 \<in> ch_id ` set (app_character d)"
    "r10 \<in> set (planner_charge_use d) \<Longrightarrow> pu_template_id r10 \<in> pt_id ` set (planner_template d)"
    "r11 \<in> set (planner_duration d) \<Longrightarrow> pd_character_id r11 \<in> ch_id ` set (app_character d)"
    "r11 \<in> set (planner_duration d) \<Longrightarrow> pd_template_id r11 = Some i \<Longrightarrow> i \<in> pt_id ` set (planner_template d)"
    "r1 \<in> set (build_score d) \<Longrightarrow> bs_character_id r1 \<in> ch_id ` set (app_character d)"
    "r2 \<in> set (build_score_preset d) \<Longrightarrow> bp_character_id r2 \<in> ch_id ` set (app_character d)"
proof -
  have image: "has_id key i tab \<longleftrightarrow> i \<in> key ` set tab" for key i tab
    by (auto simp: has_id_iff)
  have image_opt: "has_id_opt key v tab \<longleftrightarrow> (\<forall>i. v = Some i \<longrightarrow> i \<in> key ` set tab)" for key v tab
    by (auto simp: has_id_opt_def image split: option.split)
  note r = assms [unfolded user_refs_def list_all_iff refs_defs image image_opt]
  show "r3 \<in> set (economy_price d) \<Longrightarrow> ep_item_id r3 \<in> ei_id ` set (economy_item d)"
    "r4 \<in> set (economy_price_watch d) \<Longrightarrow> ew_item_id r4 \<in> ei_id ` set (economy_item d)"
    "r5 \<in> set (loot_run d) \<Longrightarrow> lr_character_id r5 \<in> ch_id ` set (app_character d)"
    "r6 \<in> set (loot_run_drop d) \<Longrightarrow> ld_run_id r6 \<in> lr_id ` set (loot_run d)"
    "r6 \<in> set (loot_run_drop d) \<Longrightarrow> ld_item_id r6 = Some i \<Longrightarrow> i \<in> ei_id ` set (economy_item d)"
    "r7 \<in> set (loot_run_cost d) \<Longrightarrow> lc_run_id r7 \<in> lr_id ` set (loot_run d)"
    "r7 \<in> set (loot_run_cost d) \<Longrightarrow> lc_item_id r7 = Some i \<Longrightarrow> i \<in> ei_id ` set (economy_item d)"
    "r8 \<in> set (planner_assignment d) \<Longrightarrow> pa_character_id r8 \<in> ch_id ` set (app_character d)"
    "r8 \<in> set (planner_assignment d) \<Longrightarrow> pa_template_id r8 \<in> pt_id ` set (planner_template d)"
    "r9 \<in> set (planner_completion d) \<Longrightarrow> pc_character_id r9 \<in> ch_id ` set (app_character d)"
    "r9 \<in> set (planner_completion d) \<Longrightarrow> pc_template_id r9 \<in> pt_id ` set (planner_template d)"
    "r10 \<in> set (planner_charge_use d) \<Longrightarrow> pu_character_id r10 \<in> ch_id ` set (app_character d)"
    "r10 \<in> set (planner_charge_use d) \<Longrightarrow> pu_template_id r10 \<in> pt_id ` set (planner_template d)"
    "r11 \<in> set (planner_duration d) \<Longrightarrow> pd_character_id r11 \<in> ch_id ` set (app_character d)"
    "r11 \<in> set (planner_duration d) \<Longrightarrow> pd_template_id r11 = Some i \<Longrightarrow> i \<in> pt_id ` set (planner_template d)"
    "r1 \<in> set (build_score d) \<Longrightarrow> bs_character_id r1 \<in> ch_id ` set (app_character d)"
    "r2 \<in> set (build_score_preset d) \<Longrightarrow> bp_character_id r2 \<in> ch_id ` set (app_character d)"
    using r by blast+
qed

lemma ready_rows:
  assumes "rows_ready d"
  shows "r1 \<in> set (planner_assignment d) \<Longrightarrow> finite_opt (pa_target_count r1)"
    "r2 \<in> set (planner_duration d) \<Longrightarrow> is_finite (pd_seconds r2)"
    "r2 \<in> set (planner_duration d) \<Longrightarrow> pd_template_id r2 \<noteq> Some []"
    "r3 \<in> set (economy_price d) \<Longrightarrow> price_ok r3"
    "r4 \<in> set (economy_price_watch d) \<Longrightarrow> watch_ok r4"
    "r5 \<in> set (loot_run d) \<Longrightarrow> run_ok r5"
    "r6 \<in> set (loot_run_drop d) \<Longrightarrow> drop_ok r6"
    "r7 \<in> set (loot_run_cost d) \<Longrightarrow> cost_ok r7"
  using assms unfolding rows_ready_def by blast+

subsection \<open>The rows that are kept\<close>

lemma read_character_keys [simp]:
  "ch_id (read_character r) = ch_id r" "ch_updated_at (read_character r) = ch_updated_at r"
  "ch_created_at (read_character r) = ch_created_at r" "read_character (read_character r) = read_character r"
  by (simp_all add: read_character_def non_empty_def split: option.splits)

abbreviation kept_runs :: "db \<Rightarrow> string set" where
  "kept_runs d \<equiv> lr_id ` set (filter (\<lambda>r. lr_character_id r \<in> ch_id ` set (app_character d)) (loot_run d))"

lemma kept_tables:
  "app_setting (kept d) = app_setting d" "planner_settings (kept d) = planner_settings d"
  "planner_template (kept d) = planner_template d" "economy_item (kept d) = economy_item d"
  "app_character (kept d) = map read_character (app_character d)"
  "build_score (kept d) = filter (\<lambda>r. bs_character_id r \<in> ch_id ` set (app_character d)) (build_score d)"
  "build_score_preset (kept d) = filter (\<lambda>r. bp_character_id r \<in> ch_id ` set (app_character d)) (build_score_preset d)"
  "planner_assignment (kept d) = filter (\<lambda>r. pa_character_id r \<in> ch_id ` set (app_character d)
     \<and> pa_template_id r \<in> pt_id ` set (planner_template d)) (planner_assignment d)"
  "planner_completion (kept d) = filter (\<lambda>r. pc_character_id r \<in> ch_id ` set (app_character d)
     \<and> pc_template_id r \<in> pt_id ` set (planner_template d)) (planner_completion d)"
  "planner_charge_use (kept d) = filter (\<lambda>r. pu_character_id r \<in> ch_id ` set (app_character d)
     \<and> pu_template_id r \<in> pt_id ` set (planner_template d)) (planner_charge_use d)"
  "planner_duration (kept d) = filter (\<lambda>r. pd_character_id r \<in> ch_id ` set (app_character d)
     \<and> known_of (pt_id ` set (planner_template d)) (pd_template_id r) = pd_template_id r) (planner_duration d)"
  "economy_price (kept d) = filter (\<lambda>r. ep_item_id r \<in> ei_id ` set (economy_item d)) (economy_price d)"
  "economy_price_watch (kept d) = filter (\<lambda>r. ew_item_id r \<in> ei_id ` set (economy_item d)) (economy_price_watch d)"
  "loot_run (kept d) = filter (\<lambda>r. lr_character_id r \<in> ch_id ` set (app_character d)) (loot_run d)"
  "loot_run_drop (kept d) = map (\<lambda>r. r\<lparr>ld_item_id := known_of (ei_id ` set (economy_item d)) (ld_item_id r)\<rparr>)
     (filter (\<lambda>r. ld_run_id r \<in> kept_runs d) (loot_run_drop d))"
  "loot_run_cost (kept d) = map (\<lambda>r. r\<lparr>lc_item_id := known_of (ei_id ` set (economy_item d)) (lc_item_id r)\<rparr>)
     (filter (\<lambda>r. lc_run_id r \<in> kept_runs d) (loot_run_cost d))"
  by (simp_all add: kept_def Let_def)

lemma kept_characters: "list_characters (kept d) = list_characters d"
proof -
  have "order_by (then_by (desc ch_updated_at) (desc ch_created_at)) (map read_character t) =
      map read_character (order_by (then_by (desc ch_updated_at) (desc ch_created_at)) t)" for t
    by (rule order_by_map) (simp add: then_by_def desc_def)
  then show ?thesis by (simp add: list_characters_def kept_tables)
qed

lemma filter_order_ended:
  "filter P (order_by (then_by (desc_opt j) (desc k)) xs) = order_by (then_by (desc_opt j) (desc k)) (filter P xs)"
proof (rule filter_order_by)
  have opt_total: "desc_opt j x y \<or> desc_opt j y x" for x y
    by (simp add: desc_opt_def str_le_total split: option.split)
  have opt_trans: "desc_opt j x z" if "desc_opt j x y" "desc_opt j y z" for x y z
    using that by (auto simp: desc_opt_def split: option.splits intro: str_le_trans)
  show "then_by (desc_opt j) (desc k) x y \<or> then_by (desc_opt j) (desc k) y x" for x y
    by (rule then_by_total) (rule opt_total, rule desc_total)
  show "then_by (desc_opt j) (desc k) x z"
    if "then_by (desc_opt j) (desc k) x y" "then_by (desc_opt j) (desc k) y z" for x y z
    using that by (rule then_by_trans [rotated 2]) (erule (1) opt_trans desc_trans)+
qed

lemmas filter_orders = filter_order_desc filter_order_updated filter_order_ended

lemma order_by_drops:
  "order_by (desc ld_created_at) (map (\<lambda>r. r\<lparr>ld_item_id := known_of items (ld_item_id r)\<rparr>) t) =
     map (\<lambda>r. r\<lparr>ld_item_id := known_of items (ld_item_id r)\<rparr>) (order_by (desc ld_created_at) t)"
  "order_by (desc lc_created_at) (map (\<lambda>r. r\<lparr>lc_item_id := known_of items (lc_item_id r)\<rparr>) u) =
     map (\<lambda>r. r\<lparr>lc_item_id := known_of items (lc_item_id r)\<rparr>) (order_by (desc lc_created_at) u)"
  by (rule order_by_map; simp add: desc_def)+

lemma exported_free_rows:
  assumes "rows_ready d"
  shows "entries (read_backup_character now) (jsonify (Arr (map character_json (list_characters d)))) = list_characters d"
    "entries (read_item now) (jsonify (Arr (map item_json (order_by ole (economy_item d))))) = order_by ole (economy_item d)"
    "entries (read_score now) (jsonify (Arr (map score_json (order_by sle (build_score d))))) = order_by sle (build_score d)"
    "entries (read_score_preset now) (jsonify (Arr (map preset_json (order_by ple (build_score_preset d)))))
      = order_by ple (build_score_preset d)"
    "entries (read_template now) (jsonify (Arr (map template_json (list_planner_templates d)))) = list_planner_templates d"
  by (rule entries_file; use assms in \<open>simp add: rows_ready_def list_planner_templates_def
      character_file item_file score_file preset_file template_file\<close>)+

lemma exported_economy_rows:
  assumes "rows_ready d"
  shows "entries (read_price now ids) (jsonify (Arr (map price_json (order_by ple (economy_price d))))) =
      filter (\<lambda>r. ep_item_id r \<in> set ids) (order_by ple (economy_price d))"
    "entries (read_watch now ids) (jsonify (Arr (map watch_json (order_by wle (economy_price_watch d))))) =
      filter (\<lambda>r. ew_item_id r \<in> set ids) (order_by wle (economy_price_watch d))"
  by (rule entries_filter; simp add: price_file watch_file ready_rows [OF assms])+

lemma exported_loot_rows:
  assumes "rows_ready d"
  shows "entries (read_run now cs) (jsonify (Arr (map run_json (order_by rle (loot_run d))))) =
      filter (\<lambda>r. lr_character_id r \<in> set cs) (order_by rle (loot_run d))"
    "entries (read_drop now rs ids) (jsonify (Arr (map drop_json (order_by dle (loot_run_drop d))))) =
      map (\<lambda>r. r\<lparr>ld_item_id := known_of (set ids) (ld_item_id r)\<rparr>)
        (filter (\<lambda>r. ld_run_id r \<in> set rs) (order_by dle (loot_run_drop d)))"
    "entries (read_cost now rs ids) (jsonify (Arr (map cost_json (order_by cle (loot_run_cost d))))) =
      map (\<lambda>r. r\<lparr>lc_item_id := known_of (set ids) (lc_item_id r)\<rparr>)
        (filter (\<lambda>r. lc_run_id r \<in> set rs) (order_by cle (loot_run_cost d)))"
  by (rule entries_filter entries_kept; simp add: run_file drop_file cost_file ready_rows [OF assms])+

lemma exported_planner_rows:
  assumes "rows_ready d" "[] \<notin> set cs" "[] \<notin> set ts"
  shows "entries (read_assignment now cs ts) (jsonify (Arr (map assignment_json (order_by ale (planner_assignment d))))) =
      filter (\<lambda>r. pa_character_id r \<in> set cs \<and> pa_template_id r \<in> set ts) (order_by ale (planner_assignment d))"
    "entries (read_completion cs ts) (jsonify (Arr (map completion_json (order_by cle (planner_completion d))))) =
      filter (\<lambda>r. pc_character_id r \<in> set cs \<and> pc_template_id r \<in> set ts) (order_by cle (planner_completion d))"
    "entries (read_charge_use cs ts) (jsonify (Arr (map charge_use_json (order_by ule (planner_charge_use d))))) =
      filter (\<lambda>r. pu_character_id r \<in> set cs \<and> pu_template_id r \<in> set ts) (order_by ule (planner_charge_use d))"
    "entries (read_duration cs ts) (jsonify (Arr (map duration_json (order_by dle (planner_duration d))))) =
      filter (\<lambda>r. pd_character_id r \<in> set cs \<and> known_of (set ts) (pd_template_id r) = pd_template_id r)
        (order_by dle (planner_duration d))"
  by (rule entries_filter; simp add: assignment_file completion_file charge_use_file duration_file ready_rows [OF assms(1)] assms)+

lemma exported_ids:
  "set (map ch_id (list_characters d)) = ch_id ` set (app_character d)"
  "set (map ei_id (order_by le (economy_item d))) = ei_id ` set (economy_item d)"
  "set (map pt_id (list_planner_templates d)) = pt_id ` set (planner_template d)"
  "set (map lr_id (filter P (order_by le' (loot_run d)))) = lr_id ` set (filter P (loot_run d))"
  by (simp_all add: list_characters_def list_planner_templates_def image_image)

lemma exported_names:
  assumes "rows_ready d"
  shows "[] \<notin> set (map ch_id (list_characters d))" "[] \<notin> set (map pt_id (list_planner_templates d))"
  unfolding exported_ids using assms by (auto simp: rows_ready_def template_ok_def)

lemma read_exported_settings:
  assumes "rows_ready d" and base: "find (\<lambda>r. ps_id r = ''default'') (planner_settings d) = Some base"
  shows "read_settings now (num 4) (jsonify (Obj [(''default'', settings_json (base_settings base)),
      (''perServer'', Arr (map server_settings_json
        (order_by (asc ps_id) (filter (\<lambda>r. is_server_id (ps_id r)) (planner_settings d)))))]))
    = (default_row now d, order_by (asc ps_id) (filter (\<lambda>r. is_server_id (ps_id r)) (planner_settings d)))"
proof (subst read_settings_file)
  show "is_finite (ps_weekly_reset_day base)"
    using assms(1) find_SomeD [OF base] by (auto simp: rows_ready_def server_settings_ok_def)
  show "\<forall>r \<in> set (order_by (asc ps_id) (filter (\<lambda>r. is_server_id (ps_id r)) (planner_settings d))). server_settings_ok r"
    using server_rows_ok assms(1) by (auto simp: rows_ready_def)
qed (use find_SomeD [OF base] in \<open>cases base, simp add: default_row_def base\<close>)

text \<open>Reading the file of an export gives the rows of what is kept.\<close>

lemma read_exported:
  assumes ready: "rows_ready d" and base: "find (\<lambda>r. ps_id r = ''default'') (planner_settings d) = Some base"
  shows "read_backup now (num 4) (jsonify (Obj (exported t (base_settings base) d))) = exported_rows now (kept d)"
proof -
  note rows = exported_free_rows [OF ready] exported_economy_rows [OF ready] exported_loot_rows [OF ready]
    exported_planner_rows [OF ready exported_names [OF ready]]
  have active: "str_of (jsonify (opt_str (get_active_character_id d))) = get_active_character_id d" by simp
  have unchanged: "get_active_character_id (kept d) = get_active_character_id d"
    "default_row now (kept d) = default_row now d" "list_planner_templates (kept d) = list_planner_templates d"
    by (simp_all add: get_active_character_id_def get_setting_def default_row_def list_planner_templates_def kept_tables)
  show ?thesis
    unfolding read_backup_def Let_def exported_fields planner_fields part_fields
      read_exported_settings [OF assms] prod.case active rows exported_ids
    unfolding exported_rows_def unchanged kept_characters kept_tables order_by_drops filter_orders ..
qed

subsection \<open>What is kept is consistent\<close>

lemma kept_plain: "plain_characters (kept d)"
  by (simp add: plain_characters_def kept_tables)

lemma kept_keys:
  assumes "keys_ok d"
  shows "keys_ok (kept d)"
proof -
  have same: "notice_item (kept d) = notice_item d" "notice_snapshot (kept d) = notice_snapshot d"
    "notice_diff (kept d) = notice_diff d" "economy_alert_event (kept d) = economy_alert_event d"
    by (simp_all add: kept_def Let_def)
  have maps: "uniq clash_app_character (map read_character t) = uniq clash_app_character t"
    "uniq clash_loot_run_drop (map (\<lambda>r. r\<lparr>ld_item_id := f1 r\<rparr>) t1) = uniq clash_loot_run_drop t1"
    "uniq clash_loot_run_cost (map (\<lambda>r. r\<lparr>lc_item_id := f2 r\<rparr>) t2) = uniq clash_loot_run_cost t2"
    for t t1 t2 f1 f2
    by (rule uniq_map; simp add: clash_defs)+
  show ?thesis
    using assms by (simp add: keys_ok_def kept_tables same maps uniq_filter)
qed

lemma kept_refs: "user_refs (kept d)"
proof -
  have image: "has_id key i tab \<longleftrightarrow> i \<in> key ` set tab" for key i tab
    by (auto simp: has_id_iff)
  have opt: "has_id_opt key v tab \<longleftrightarrow> known_of (key ` set tab) v = v" for key v tab
    by (auto simp: has_id_opt_def image known_of_def split: option.split)
  have twice: "known_of ids (known_of ids v) = known_of ids v" for ids v
    by (simp add: known_of_def split: option.split)
  have ids: "ch_id ` set (map read_character t) = ch_id ` set t" for t
    by (simp add: image_image)
  show ?thesis
    unfolding user_refs_def list_all_iff refs_defs image opt kept_tables ids
    by (simp add: twice)
qed

lemma kept_ready:
  assumes "rows_ready d"
  shows "rows_ready (kept d)"
  using assms by (simp add: rows_ready_def kept_tables ball_conj_distrib)
    (auto simp: drop_ok_def cost_ok_def)

lemma kept_assigned:
  assumes "fully_assigned d"
  shows "fully_assigned (kept d)"
proof -
  have "\<exists>a \<in> set (planner_assignment (kept d)). pa_character_id a = ch_id c \<and> pa_template_id a = pt_id t"
    if "c \<in> set (app_character d)" "t \<in> set (planner_template d)" for c t
  proof -
    from assms that obtain a where "a \<in> set (planner_assignment d)" "pa_character_id a = ch_id c" "pa_template_id a = pt_id t"
      by (auto simp: fully_assigned_iff assigned_iff)
    with that show ?thesis by (intro bexI [of _ a]) (simp_all add: kept_tables)
  qed
  then show ?thesis by (auto simp: fully_assigned_iff assigned_iff kept_tables(3,5))
qed

text \<open>Nothing is left out when no row names something that is gone and no text is empty.\<close>

lemma kept_all:
  assumes "refs_ok d" "plain_characters d"
  shows "kept d = d"
proof -
  have image: "has_id key i tab \<longleftrightarrow> i \<in> key ` set tab" for key i tab
    by (auto simp: has_id_iff)
  have opt: "has_id_opt key v tab \<longleftrightarrow> known_of (key ` set tab) v = v" for key v tab
    by (auto simp: has_id_opt_def image known_of_def split: option.split)
  note r = refs_user [OF assms(1), unfolded user_refs_def list_all_iff refs_defs image opt]
  have runs: "filter (\<lambda>r. lr_character_id r \<in> ch_id ` set (app_character d)) (loot_run d) = loot_run d"
    using r by (intro filter_True) blast
  have drops: "map (\<lambda>r. r\<lparr>ld_item_id := known_of (ei_id ` set (economy_item d)) (ld_item_id r)\<rparr>) (loot_run_drop d) = loot_run_drop d"
    "map (\<lambda>r. r\<lparr>lc_item_id := known_of (ei_id ` set (economy_item d)) (lc_item_id r)\<rparr>) (loot_run_cost d) = loot_run_cost d"
    using r by (auto intro!: map_idI)
  have chars: "map read_character (app_character d) = app_character d"
    using assms(2) by (auto intro!: map_idI simp: plain_characters_def)
  have rows: "loot_run_drop (kept d) = loot_run_drop d" "loot_run_cost (kept d) = loot_run_cost d"
    unfolding kept_tables runs using r drops by (simp_all add: filter_id_conv [THEN iffD2])
  show ?thesis
    using r rows chars runs
    by (intro db.equality) (simp_all add: kept_def Let_def filter_id_conv)
qed

section \<open>Replacing the data\<close>

text \<open>The tables that a backup covers are empty once the user's data is cleared.\<close>

definition blank :: "db \<Rightarrow> db" where
  "blank e = e\<lparr>app_setting := [], app_character := [], build_score := [], build_score_preset := [],
     planner_settings := [], planner_template := [], planner_assignment := [], planner_completion := [],
     planner_charge_use := [], planner_duration := [], economy_item := [], economy_price := [],
     economy_price_watch := [], economy_alert_event := [], loot_run := [], loot_run_drop := [], loot_run_cost := []\<rparr>"

lemma drop_where_True [simp]: "drop_where (\<lambda>_. True) t = []"
  by (simp add: drop_where_def)

lemma clear_app_setting:
  "app_character (delete_app_setting P d) = app_character d"
  "planner_template (delete_app_setting P d) = planner_template d"
  "planner_settings (delete_app_setting P d) = planner_settings d"
  "economy_alert_event (delete_app_setting P d) = economy_alert_event d"
  "economy_price_watch (delete_app_setting P d) = economy_price_watch d"
  "economy_price (delete_app_setting P d) = economy_price d"
  "economy_item (delete_app_setting P d) = economy_item d"
  "notice_item (delete_app_setting P d) = notice_item d"
  "notice_snapshot (delete_app_setting P d) = notice_snapshot d"
  "notice_diff (delete_app_setting P d) = notice_diff d"
  "export_keeps_pragmas (delete_app_setting P d) = export_keeps_pragmas d"
  by (simp_all add: delete_app_setting_def Let_def drop_where_def)

lemma clear_app_character:
  "app_setting (delete_app_character P d) = app_setting d"
  "planner_template (delete_app_character P d) = planner_template d"
  "planner_settings (delete_app_character P d) = planner_settings d"
  "economy_alert_event (delete_app_character P d) = economy_alert_event d"
  "economy_price_watch (delete_app_character P d) = economy_price_watch d"
  "economy_price (delete_app_character P d) = economy_price d"
  "economy_item (delete_app_character P d) = economy_item d"
  "notice_item (delete_app_character P d) = notice_item d"
  "notice_snapshot (delete_app_character P d) = notice_snapshot d"
  "notice_diff (delete_app_character P d) = notice_diff d"
  "export_keeps_pragmas (delete_app_character P d) = export_keeps_pragmas d"
  by (simp_all add: delete_app_character_def delete_loot_run_def Let_def drop_where_def)

lemma clear_planner_template:
  "app_setting (delete_planner_template P d) = app_setting d"
  "app_character (delete_planner_template P d) = app_character d"
  "planner_settings (delete_planner_template P d) = planner_settings d"
  "economy_alert_event (delete_planner_template P d) = economy_alert_event d"
  "economy_price_watch (delete_planner_template P d) = economy_price_watch d"
  "economy_price (delete_planner_template P d) = economy_price d"
  "economy_item (delete_planner_template P d) = economy_item d"
  "notice_item (delete_planner_template P d) = notice_item d"
  "notice_snapshot (delete_planner_template P d) = notice_snapshot d"
  "notice_diff (delete_planner_template P d) = notice_diff d"
  "export_keeps_pragmas (delete_planner_template P d) = export_keeps_pragmas d"
  by (simp_all add: delete_planner_template_def Let_def drop_where_def)

lemma clear_planner_settings:
  "app_setting (delete_planner_settings P d) = app_setting d"
  "app_character (delete_planner_settings P d) = app_character d"
  "planner_template (delete_planner_settings P d) = planner_template d"
  "economy_alert_event (delete_planner_settings P d) = economy_alert_event d"
  "economy_price_watch (delete_planner_settings P d) = economy_price_watch d"
  "economy_price (delete_planner_settings P d) = economy_price d"
  "economy_item (delete_planner_settings P d) = economy_item d"
  "notice_item (delete_planner_settings P d) = notice_item d"
  "notice_snapshot (delete_planner_settings P d) = notice_snapshot d"
  "notice_diff (delete_planner_settings P d) = notice_diff d"
  "export_keeps_pragmas (delete_planner_settings P d) = export_keeps_pragmas d"
  by (simp_all add: delete_planner_settings_def Let_def drop_where_def)

lemma clear_economy_alert_event:
  "app_setting (delete_economy_alert_event P d) = app_setting d"
  "app_character (delete_economy_alert_event P d) = app_character d"
  "planner_template (delete_economy_alert_event P d) = planner_template d"
  "planner_settings (delete_economy_alert_event P d) = planner_settings d"
  "economy_price_watch (delete_economy_alert_event P d) = economy_price_watch d"
  "economy_price (delete_economy_alert_event P d) = economy_price d"
  "economy_item (delete_economy_alert_event P d) = economy_item d"
  "notice_item (delete_economy_alert_event P d) = notice_item d"
  "notice_snapshot (delete_economy_alert_event P d) = notice_snapshot d"
  "notice_diff (delete_economy_alert_event P d) = notice_diff d"
  "export_keeps_pragmas (delete_economy_alert_event P d) = export_keeps_pragmas d"
  by (simp_all add: delete_economy_alert_event_def Let_def drop_where_def)

lemma clear_economy_price_watch:
  "app_setting (delete_economy_price_watch P d) = app_setting d"
  "app_character (delete_economy_price_watch P d) = app_character d"
  "planner_template (delete_economy_price_watch P d) = planner_template d"
  "planner_settings (delete_economy_price_watch P d) = planner_settings d"
  "economy_alert_event (delete_economy_price_watch P d) = economy_alert_event d"
  "economy_price (delete_economy_price_watch P d) = economy_price d"
  "economy_item (delete_economy_price_watch P d) = economy_item d"
  "notice_item (delete_economy_price_watch P d) = notice_item d"
  "notice_snapshot (delete_economy_price_watch P d) = notice_snapshot d"
  "notice_diff (delete_economy_price_watch P d) = notice_diff d"
  "export_keeps_pragmas (delete_economy_price_watch P d) = export_keeps_pragmas d"
  by (simp_all add: delete_economy_price_watch_def Let_def drop_where_def)

lemma clear_economy_price:
  "app_setting (delete_economy_price P d) = app_setting d"
  "app_character (delete_economy_price P d) = app_character d"
  "planner_template (delete_economy_price P d) = planner_template d"
  "planner_settings (delete_economy_price P d) = planner_settings d"
  "economy_alert_event (delete_economy_price P d) = economy_alert_event d"
  "economy_price_watch (delete_economy_price P d) = economy_price_watch d"
  "economy_item (delete_economy_price P d) = economy_item d"
  "notice_item (delete_economy_price P d) = notice_item d"
  "notice_snapshot (delete_economy_price P d) = notice_snapshot d"
  "notice_diff (delete_economy_price P d) = notice_diff d"
  "export_keeps_pragmas (delete_economy_price P d) = export_keeps_pragmas d"
  by (simp_all add: delete_economy_price_def Let_def drop_where_def)

lemma clear_economy_item:
  "app_setting (delete_economy_item P d) = app_setting d"
  "app_character (delete_economy_item P d) = app_character d"
  "planner_template (delete_economy_item P d) = planner_template d"
  "planner_settings (delete_economy_item P d) = planner_settings d"
  "economy_alert_event d = [] \<Longrightarrow> economy_alert_event (delete_economy_item P d) = []"
  "economy_price_watch d = [] \<Longrightarrow> economy_price_watch (delete_economy_item P d) = []"
  "economy_price d = [] \<Longrightarrow> economy_price (delete_economy_item P d) = []"
  "notice_item (delete_economy_item P d) = notice_item d"
  "notice_snapshot (delete_economy_item P d) = notice_snapshot d"
  "notice_diff (delete_economy_item P d) = notice_diff d"
  "export_keeps_pragmas (delete_economy_item P d) = export_keeps_pragmas d"
  by (simp_all add: delete_economy_item_def Let_def drop_where_def)

lemma clear_user_data_tables:
  "clear_user_data e = (r, e') \<Longrightarrow> r = Inr () \<and> app_setting e' = [] \<and> app_character e' = []
     \<and> planner_template e' = [] \<and> planner_settings e' = [] \<and> economy_alert_event e' = []
     \<and> economy_price_watch e' = [] \<and> economy_price e' = [] \<and> economy_item e' = []
     \<and> foreign_keys e' = foreign_keys e \<and> notice_item e' = notice_item e
     \<and> notice_snapshot e' = notice_snapshot e \<and> notice_diff e' = notice_diff e
     \<and> export_keeps_pragmas e' = export_keeps_pragmas e"
  by (auto simp: clear_user_data_def and_then_apply modify_apply clear_app_setting clear_app_character
      clear_planner_template clear_planner_settings clear_economy_alert_event clear_economy_price_watch
      clear_economy_price clear_economy_item)

text \<open>
  The databases whose user data an import replaces as a whole: those that hold nothing of any character
  yet, as in a new installation, and those whose foreign keys are enforced.
\<close>

definition no_character_data :: "db \<Rightarrow> bool" where
  "no_character_data e \<longleftrightarrow> build_score e = [] \<and> build_score_preset e = [] \<and> planner_assignment e = []
     \<and> planner_completion e = [] \<and> planner_charge_use e = [] \<and> planner_duration e = []
     \<and> loot_run e = [] \<and> loot_run_drop e = [] \<and> loot_run_cost e = []"

definition replaceable :: "db \<Rightarrow> bool" where
  "replaceable e \<longleftrightarrow> no_character_data e \<or> (foreign_keys e \<and> refs_ok e)"

lemma clear_keeps_no_data: "keeps no_character_data clear_user_data"
proof -
  have "keeps no_character_data (modify (delete_app_setting P))" "keeps no_character_data (modify (delete_app_character P1))"
    "keeps no_character_data (modify (delete_planner_template P2))" "keeps no_character_data (modify (delete_planner_settings P3))"
    "keeps no_character_data (modify (delete_economy_alert_event P4))" "keeps no_character_data (modify (delete_economy_price_watch P5))"
    "keeps no_character_data (modify (delete_economy_price P6))" "keeps no_character_data (modify (delete_economy_item P7))"
    for P P1 P2 P3 P4 P5 P6 P7
    by (rule keepsI; simp add: modify_apply delete_defs Let_def drop_where_def forget_def no_character_data_def)+
  then show ?thesis unfolding clear_user_data_def by (intro keeps_intro) auto
qed

lemma clear_no_data:
  assumes "replaceable e" and run: "clear_user_data e = (r, e')"
  shows "no_character_data e'"
proof (cases "no_character_data e")
  case True
  then show ?thesis using keepsD [OF clear_keeps_no_data, of e] run by simp
next
  case False
  note tables = clear_user_data_tables [OF run]
  from False assms(1) have e: "foreign_keys e" "enforced_refs e" by (auto simp: replaceable_def enforced_refs_def)
  have "enforced_refs e'" using keepsD [OF refs.clear_user_data_keeps e(2)] run by simp
  then have refs: "refs_ok e'" using e(1) tables by (simp add: enforced_refs_def)
  have none: "\<forall>x \<in> set t. False \<Longrightarrow> t = []" for t :: "'x list" by (cases t) auto
  have "build_score e' = []" "build_score_preset e' = []" "planner_assignment e' = []" "planner_completion e' = []"
    "planner_charge_use e' = []" "planner_duration e' = []" "loot_run e' = []"
    using refs tables by (auto simp: refs_ok_def list_all_iff refs_defs has_id_def intro: none)
  moreover from this have "loot_run_drop e' = []" "loot_run_cost e' = []"
    using refs by (auto simp: refs_ok_def list_all_iff refs_defs has_id_def intro: none)
  ultimately show ?thesis by (simp add: no_character_data_def)
qed

lemma clear_user_data_blank:
  assumes "replaceable e"
  shows "clear_user_data e = (Inr (), blank e)"
proof -
  obtain r e' where run: "clear_user_data e = (r, e')" by force
  note tables = clear_user_data_tables [OF run] clear_no_data [OF assms run, unfolded no_character_data_def]
  have "e' = blank e" using tables by (cases e') (simp add: blank_def)
  with run tables show ?thesis by simp
qed

end
