(* ===== verification/LootFacts.thy ===== *)
theory LootFacts
  imports Loot
begin

text \<open>What the loot logbook promises: runs are stored whole or not at all, and the report adds up.\<close>

section \<open>Sums over grouped rows\<close>

lemma sum_list_update:
  fixes g :: "'f \<Rightarrow> 'n::comm_monoid_add"
  assumes "\<And>f. g (h f) = g f + x" "g none = 0"
  shows "sum_list (map (\<lambda>e. g (snd e)) (AList.update k (h (case map_of al k of Some f \<Rightarrow> f | None \<Rightarrow> none)) al))
    = sum_list (map (\<lambda>e. g (snd e)) al) + x"
  by (induction al) (auto simp: assms ac_simps)

lemma sum_list_grouped:
  fixes w :: "'x \<Rightarrow> 'n::comm_monoid_add" and ks :: "'k list"
  assumes "distinct ks"
  shows "sum_list (map (\<lambda>k. sum_list (map w (filter (\<lambda>x. key x = k) xs))) ks)
    = sum_list (map w (filter (\<lambda>x. key x \<in> set ks) xs))"
proof (induction xs)
  case (Cons x xs)
  have split_if: "sum_list (map (\<lambda>k. if k = a then u + f k else f k) ks)
      = (if a \<in> set ks then u else 0) + sum_list (map f ks)" for a u and f :: "'k \<Rightarrow> 'n"
    using assms by (induction ks) (auto simp: ac_simps)
  have "sum_list (map (\<lambda>k. sum_list (map w (filter (\<lambda>x. key x = k) (x # xs)))) ks)
      = sum_list (map (\<lambda>k. if k = key x then w x + sum_list (map w (filter (\<lambda>x. key x = k) xs))
                            else sum_list (map w (filter (\<lambda>x. key x = k) xs))) ks)"
    by (intro arg_cong [where f = sum_list] map_cong) auto
  also have "\<dots> = (if key x \<in> set ks then w x else 0)
      + sum_list (map w (filter (\<lambda>x. key x \<in> set ks) xs))"
    by (simp add: split_if Cons.IH)
  finally show ?case by simp
qed simp

section \<open>The loops of the report\<close>

lemma tally_totals:
  fixes g :: "report_figures \<Rightarrow> 'n::comm_monoid_add"
  assumes "g no_figures = 0" "\<And>r f. g (add_run v c r f) = g f + w r"
  shows "g (fst (foldl (tally_run v c) (t, pc) runs)) = g t + sum_list (map w runs)"
    and "sum_list (map (\<lambda>e. g (snd e)) (snd (foldl (tally_run v c) (t, pc) runs)))
      = sum_list (map (\<lambda>e. g (snd e)) pc) + sum_list (map w runs)"
proof -
  have upd: "sum_list (map (\<lambda>e. g (snd e)) (AList.update k (add_run v c r
      (case map_of al k of Some f \<Rightarrow> f | None \<Rightarrow> no_figures)) al)) = sum_list (map (\<lambda>e. g (snd e)) al) + w r"
    for al k r by (rule sum_list_update) (simp_all add: assms)
  show "g (fst (foldl (tally_run v c) (t, pc) runs)) = g t + sum_list (map w runs)"
    by (induction runs arbitrary: t pc) (simp_all add: tally_run_def assms ac_simps)
  show "sum_list (map (\<lambda>e. g (snd e)) (snd (foldl (tally_run v c) (t, pc) runs)))
      = sum_list (map (\<lambda>e. g (snd e)) pc) + sum_list (map w runs)"
    by (induction runs arbitrary: t pc) (simp_all add: tally_run_def upd ac_simps)
qed

lemma figure_laws:
  "rf_runs (add_run v c r f) = rf_runs f + 1" "rf_runs no_figures = 0"
  "rf_seconds (add_run v c r f) = rf_seconds f + lr_seconds r" "rf_seconds no_figures = 0"
  "rf_value (add_run v c r f) = rf_value f + v (lr_id r)" "rf_value no_figures = 0"
  "rf_cost (add_run v c r f) = rf_cost f + c (lr_id r)" "rf_cost no_figures = 0"
  by (simp_all add: add_run_def no_figures_def num_add_plus num_zero)

lemma with_rates_figures [simp]:
  "rf_runs (with_rates f) = rf_runs f" "rf_seconds (with_rates f) = rf_seconds f"
  "rf_value (with_rates f) = rf_value f" "rf_cost (with_rates f) = rf_cost f"
  by (simp_all add: with_rates_def Let_def report_figures.defs)

lemma with_rates_net [simp]: "rf_net (with_rates f) = num_sub (rf_value f) (rf_cost f)"
  by (simp add: with_rates_def Let_def report_figures.defs)

text \<open>What one row is worth at a price list.\<close>

definition drop_worth :: "(string \<Rightarrow> jsnum option) \<Rightarrow> loot_run_drop_row \<Rightarrow> jsnum" where
  "drop_worth price x = (case non_empty (ld_item_id x) of None \<Rightarrow> 0
     | Some i \<Rightarrow> (case price i of None \<Rightarrow> 0 | Some p \<Rightarrow> num_mul (ld_qty x) p))"

definition cost_worth :: "(string \<Rightarrow> jsnum option) \<Rightarrow> loot_run_cost_row \<Rightarrow> jsnum" where
  "cost_worth price x = (if lc_kind x = KINAH then nonneg_floor (lc_kinah x)
     else (case non_empty (lc_item_id x) of None \<Rightarrow> 0
       | Some i \<Rightarrow> (case price i of None \<Rightarrow> 0 | Some p \<Rightarrow> num_mul (lc_qty x) p)))"

lemma credited:
  "fst acc i = Some a \<Longrightarrow>
   fst (foldl (value_drop prices) acc xs) i =
     Some (a + sum_list (map (drop_worth (map_of prices)) (filter (\<lambda>x. ld_run_id x = i) xs)))"
proof (induction xs arbitrary: acc a)
  case (Cons x xs)
  have "fst (value_drop prices acc x) i = Some (a + (if ld_run_id x = i then drop_worth (map_of prices) x else 0))"
    using Cons.prems by (auto simp: value_drop_def drop_worth_def credit_def num_add_plus split: option.split)
  from Cons.IH [OF this] show ?case by (simp add: ac_simps)
qed simp

lemma charged:
  "fst acc i = Some a \<Longrightarrow>
   fst (foldl (value_cost prices) acc xs) i =
     Some (a + sum_list (map (cost_worth (map_of prices)) (filter (\<lambda>x. lc_run_id x = i) xs)))"
proof (induction xs arbitrary: acc a)
  case (Cons x xs)
  have "fst (value_cost prices acc x) i = Some (a + (if lc_run_id x = i then cost_worth (map_of prices) x else 0))"
    using Cons.prems by (auto simp: value_cost_def cost_worth_def credit_def num_add_plus split: option.split)
  from Cons.IH [OF this] show ?case by (simp add: ac_simps)
qed simp


text \<open>
  A price list for a set of items at a server: the price of a newest record there, and no price
  exactly when there is no record (or no server to look at).
\<close>

definition recorded_at :: "db \<Rightarrow> string option \<Rightarrow> string \<Rightarrow> economy_price_row \<Rightarrow> bool" where
  "recorded_at d server i r \<longleftrightarrow> r \<in> set (economy_price d) \<and> ep_item_id r = i
     \<and> (case server of None \<Rightarrow> False | Some s \<Rightarrow> ep_server r = trim s)"

definition newest_prices :: "db \<Rightarrow> string option \<Rightarrow> string set \<Rightarrow> (string \<Rightarrow> jsnum option) \<Rightarrow> bool" where
  "newest_prices d server items price \<longleftrightarrow> (\<forall>i \<in> items.
     (case price i of
        None \<Rightarrow> (\<forall>r. \<not> recorded_at d server i r)
      | Some p \<Rightarrow> (\<exists>r. recorded_at d server i r \<and> ep_price r = p
          \<and> (\<forall>r'. recorded_at d server i r' \<longrightarrow> newest_first r r'))))"

text \<open>The items of the drops and costs of some runs.\<close>

definition items_of :: "db \<Rightarrow> string set \<Rightarrow> string set" where
  "items_of d run_ids =
     {i. i \<noteq> [] \<and> ((\<exists>x \<in> set (loot_run_drop d). ld_run_id x \<in> run_ids \<and> ld_item_id x = Some i)
       \<or> (\<exists>x \<in> set (loot_run_cost d). lc_run_id x \<in> run_ids \<and> lc_kind x = ITEM \<and> lc_item_id x = Some i))}"

lemma prices_newest:
  assumes "(case server of None \<Rightarrow> Inr [] | Some s \<Rightarrow> get_latest_prices_by_item_id s item_ids d) = Inr prices"
    and "items \<subseteq> set item_ids" "[] \<notin> items"
  shows "newest_prices d server items (map_of prices)"
proof (cases server)
  case None
  with assms(1) show ?thesis by (simp add: newest_prices_def recorded_at_def)
next
  case (Some s)
  with assms(1) have out: "get_latest_prices_by_item_id s item_ids d = Inr prices" by simp
  show ?thesis
    unfolding newest_prices_def
  proof
    fix i assume i: "i \<in> items"
    then have "i \<in> set item_ids" "i \<noteq> []" using assms(2,3) by auto
    show "case map_of prices i of None \<Rightarrow> \<forall>r. \<not> recorded_at d server i r
        | Some p \<Rightarrow> \<exists>r. recorded_at d server i r \<and> ep_price r = p
            \<and> (\<forall>r'. recorded_at d server i r' \<longrightarrow> newest_first r r')"
    proof (cases "map_of prices i")
      case None
      with newest_price [OF out, of i] \<open>i \<in> set item_ids\<close> \<open>i \<noteq> []\<close> Some show ?thesis
        by (auto simp: recorded_at_def)
    next
      case (Some p)
      with newest_price [OF out, of i p] obtain r where "r \<in> set (economy_price d)" "ep_server r = trim s"
        "ep_item_id r = i" "ep_price r = p"
        "\<forall>r' \<in> set (economy_price d). ep_server r' = trim s \<and> ep_item_id r' = i \<longrightarrow> newest_first r r'"
        by auto
      with Some \<open>server = Some s\<close> show ?thesis by (auto simp: recorded_at_def intro!: exI [of _ r])
    qed
  qed
qed

lemma report_shape:
  assumes "get_loot_weekly_report h clock c server now_iso d = Inr rep"
    and "runs = runs_between c (wr_week_start rep) (wr_week_end rep) d"
  shows "\<exists>v co price.
      wr_totals rep = with_rates (fst (foldl (tally_run v co) (no_figures, []) runs))
    \<and> mset (wr_by_content rep) =
        mset (map (\<lambda>(c, f). (c, with_rates f)) (snd (foldl (tally_run v co) (no_figures, []) runs)))
    \<and> newest_prices d (wr_server rep) (items_of d (lr_id ` set runs)) price
    \<and> (\<forall>r \<in> set runs.
         v (lr_id r) = sum_list (map (drop_worth price) (filter (\<lambda>x. ld_run_id x = lr_id r) (loot_run_drop d)))
       \<and> co (lr_id r) = sum_list (map (cost_worth price) (filter (\<lambda>x. lc_run_id x = lr_id r) (loot_run_cost d))))"
proof -
  obtain hhmm day where reset: "get_planner_reset_for_server (trimmed_opt server) d = (hhmm, day)" by force
  define start where "start = resolve_weekly_start_local (tz h) (date_or_now h clock now_iso) hhmm day"
  define debug where "debug = (''W:'' @ format_local_date_key (tz h) start, hhmm, day)"
  from assms(1) have c: "c \<noteq> []" by (auto simp: get_loot_weekly_report_def)
  obtain s where s: "iso_of_number (num start) = Inr s"
    using assms(1) c by (cases "iso_of_number (num start)")
      (auto simp: get_loot_weekly_report_def Let_def reset start_def)
  define e where "e = iso (date_or_now h clock now_iso)"
  have rep: "(if runs_between c s e d = [] then
      Inr \<lparr>wr_server = trimmed_opt server, wr_week_start = s, wr_week_end = e,
           wr_totals = with_rates no_figures, wr_missing = [], wr_by_content = [], wr_debug = None\<rparr>
    else report_runs debug (trimmed_opt server) s e (runs_between c s e d) d) = Inr rep"
    using assms(1) c by (auto simp: get_loot_weekly_report_def Let_def reset s [unfolded start_def]
        start_def e_def debug_def)
  show ?thesis
  proof (cases "runs_between c s e d = []")
    case True
    with rep assms(2) show ?thesis
      by (auto simp: newest_prices_def items_of_def)
  next
    case False
    define runs' where "runs' = runs_between c s e d"
    define drops where "drops = filter (\<lambda>x. ld_run_id x \<in> set (map lr_id runs')) (loot_run_drop d)"
    define costs where "costs = filter (\<lambda>x. lc_run_id x \<in> set (map lr_id runs')) (loot_run_cost d)"
    define ps where "ps = (case trimmed_opt server of Some s \<Rightarrow> Some s | None \<Rightarrow> run_server runs')"
    define ids where "ids = js_uniq (List.map_filter (\<lambda>x. non_empty (ld_item_id x)) drops
      @ List.map_filter (\<lambda>x. if lc_kind x = ITEM then non_empty (lc_item_id x) else None) costs)"
    define amount :: "(string \<rightharpoonup> jsnum) \<Rightarrow> string \<Rightarrow> jsnum"
      where "amount = (\<lambda>m i. case m i of Some x \<Rightarrow> x | None \<Rightarrow> num 0)"
    define zero where "zero = (\<lambda>i. if i \<in> set (map lr_id runs') then Some (num 0) else None)"
    from rep False have ok: "report_runs debug (trimmed_opt server) s e runs' d = Inr rep" by (simp add: runs'_def)
    obtain prices where prices:
      "(case ps of None \<Rightarrow> Inr [] | Some s \<Rightarrow> get_latest_prices_by_item_id s ids d) = Inr prices"
    proof (cases "(case ps of None \<Rightarrow> Inr [] | Some s \<Rightarrow> get_latest_prices_by_item_id s ids d)")
      case (Inl err)
      with ok show ?thesis unfolding report_runs_def Let_def ps_def ids_def drops_def costs_def by simp
    qed
    define vs where "vs = foldl (value_drop prices) (zero, []) drops"
    define cs where "cs = foldl (value_cost prices) (zero, snd vs) costs"
    define t where "t = foldl (tally_run (amount (fst vs)) (amount (fst cs))) (no_figures, []) runs'"
    have rep':
      "rep = \<lparr>wr_server = ps, wr_week_start = s, wr_week_end = e, wr_totals = with_rates (fst t),
        wr_missing = snd cs, wr_by_content = order_by (\<lambda>x y. \<not> num_lt (rf_net (snd x)) (rf_net (snd y)))
                  (map (\<lambda>(c, f). (c, with_rates f)) (snd t)), wr_debug = Some debug\<rparr>"
      using ok prices unfolding report_runs_def Let_def ps_def ids_def drops_def costs_def vs_def cs_def
        t_def zero_def amount_def by (simp add: case_prod_beta)
    with assms(2) have runs: "runs = runs'" by (simp add: runs'_def)
    have "items_of d (lr_id ` set runs) = set ids"
      by (auto simp: items_of_def ids_def set_map_filter drops_def costs_def runs split: if_splits)
    then have "newest_prices d ps (items_of d (lr_id ` set runs)) (map_of prices)"
      by (intro prices_newest [OF prices]) (auto simp: items_of_def)
    moreover have "amount (fst vs) (lr_id r)
        = sum_list (map (drop_worth (map_of prices)) (filter (\<lambda>x. ld_run_id x = lr_id r) (loot_run_drop d)))
      \<and> amount (fst cs) (lr_id r)
        = sum_list (map (cost_worth (map_of prices)) (filter (\<lambda>x. lc_run_id x = lr_id r) (loot_run_cost d)))"
      if r: "r \<in> set runs" for r
    proof -
      have zero: "fst (zero, m) (lr_id r) = Some 0" for m :: "string list"
        using r by (simp add: zero_def runs num_zero)
      have "filter (\<lambda>x. ld_run_id x = lr_id r) drops = filter (\<lambda>x. ld_run_id x = lr_id r) (loot_run_drop d)"
        "filter (\<lambda>x. lc_run_id x = lr_id r) costs = filter (\<lambda>x. lc_run_id x = lr_id r) (loot_run_cost d)"
        unfolding drops_def costs_def filter_filter using r
        by (auto simp: runs intro!: filter_cong)
      then show ?thesis
        using credited [OF zero, of prices "[]" drops] charged [OF zero, of prices "snd vs" costs]
        by (simp add: amount_def vs_def cs_def)
    qed
    ultimately show ?thesis unfolding rep' t_def runs
      by - (rule exI [where x = "amount (fst vs)"], rule exI [where x = "amount (fst cs)"],
          rule exI [where x = "map_of prices"], auto)
  qed
qed

lemma by_content_sum:
  fixes g :: "report_figures \<Rightarrow> 'n::comm_monoid_add" and g' :: "report_totals \<Rightarrow> 'n"
  assumes "mset xs = mset (map (\<lambda>(c, f). (c, with_rates f)) pc)" "\<And>f. g' (with_rates f) = g f"
  shows "sum_list (map (\<lambda>e. g' (snd e)) xs) = sum_list (map (\<lambda>e. g (snd e)) pc)"
proof -
  have "map (\<lambda>e. g' (snd e)) (map (\<lambda>(c, f). (c, with_rates f)) pc) = map (\<lambda>e. g (snd e)) pc"
    by (induction pc) (auto simp: assms(2))
  then have "mset (map (\<lambda>e. g' (snd e)) xs) = mset (map (\<lambda>e. g (snd e)) pc)"
    unfolding mset_map [of "\<lambda>e. g' (snd e)"] assms(1) by (simp only: mset_map [symmetric])
  from arg_cong [OF this, of sum_mset] show ?thesis by (simp only: sum_mset_sum_list)
qed

text \<open>
  The totals of the weekly report are the sums of its rows per content, and count every run of
  the character that ended in the week once.
\<close>

theorem report_adds_up:
  assumes "get_loot_weekly_report h clock c server now_iso d = Inr rep"
  shows "rf_runs (wr_totals rep) = int (length (runs_between c (wr_week_start rep) (wr_week_end rep) d))
    \<and> sum_list (map (\<lambda>e. rf_runs (snd e)) (wr_by_content rep)) = rf_runs (wr_totals rep)
    \<and> sum_list (map (\<lambda>e. rf_seconds (snd e)) (wr_by_content rep)) = rf_seconds (wr_totals rep)
    \<and> sum_list (map (\<lambda>e. rf_value (snd e)) (wr_by_content rep)) = rf_value (wr_totals rep)
    \<and> sum_list (map (\<lambda>e. rf_cost (snd e)) (wr_by_content rep)) = rf_cost (wr_totals rep)"
proof -
  define runs where "runs = runs_between c (wr_week_start rep) (wr_week_end rep) d"
  from report_shape [OF assms runs_def] obtain v co where
    totals: "wr_totals rep = with_rates (fst (foldl (tally_run v co) (no_figures, []) runs))"
    and parts: "mset (wr_by_content rep) =
        mset (map (\<lambda>(c, f). (c, with_rates f)) (snd (foldl (tally_run v co) (no_figures, []) runs)))"
    by (elim exE conjE)
  have one: "sum_list (map (\<lambda>_. 1) xs) = int (length xs)" for xs :: "loot_run_row list"
    by (induction xs) auto
  note laws = tally_totals [OF figure_laws(2,1)] tally_totals [OF figure_laws(4,3)]
    tally_totals [OF figure_laws(6,5)] tally_totals [OF figure_laws(8,7)]
  note sums = by_content_sum [OF parts, of rf_runs rf_runs] by_content_sum [OF parts, of rf_seconds rf_seconds]
    by_content_sum [OF parts, of rf_value rf_value] by_content_sum [OF parts, of rf_cost rf_cost]
  show ?thesis
    unfolding runs_def [symmetric] totals by (simp add: sums laws one figure_laws(2,4,6,8))
qed

text \<open>
  C2. The value of the week is the quantity of every drop of its runs times the newest price of its
  item at the server of the report; drops without a price count nothing. The cost is the kinah
  spent plus the items spent, priced the same way.
\<close>

theorem report_value:
  assumes "get_loot_weekly_report h clock c server now_iso d = Inr rep" and "keys_ok d"
  shows "let run_ids = lr_id ` set (runs_between c (wr_week_start rep) (wr_week_end rep) d) in
    \<exists>price. newest_prices d (wr_server rep) (items_of d run_ids) price
      \<and> rf_value (wr_totals rep) =
          sum_list (map (drop_worth price) (filter (\<lambda>x. ld_run_id x \<in> run_ids) (loot_run_drop d)))
      \<and> rf_cost (wr_totals rep) =
          sum_list (map (cost_worth price) (filter (\<lambda>x. lc_run_id x \<in> run_ids) (loot_run_cost d)))
      \<and> rf_net (wr_totals rep) = num_sub (rf_value (wr_totals rep)) (rf_cost (wr_totals rep))"
proof -
  define runs where "runs = runs_between c (wr_week_start rep) (wr_week_end rep) d"
  from report_shape [OF assms(1) runs_def] obtain v co price where
    totals: "wr_totals rep = with_rates (fst (foldl (tally_run v co) (no_figures, []) runs))"
    and price: "newest_prices d (wr_server rep) (items_of d (lr_id ` set runs)) price"
    and worth: "\<forall>r \<in> set runs.
         v (lr_id r) = sum_list (map (drop_worth price) (filter (\<lambda>x. ld_run_id x = lr_id r) (loot_run_drop d)))
       \<and> co (lr_id r) = sum_list (map (cost_worth price) (filter (\<lambda>x. lc_run_id x = lr_id r) (loot_run_cost d)))"
    by (elim exE conjE)
  have "distinct (map lr_id (loot_run d))"
    using assms(2) by (simp add: keys_ok_def uniq_def clash_loot_run_def [abs_def] distinct_conv_nth sorted_wrt_iff_nth_less)
      (metis linorder_neqE_nat)
  then have ids: "distinct (map lr_id runs)"
    by (auto simp: runs_def runs_between_def distinct_map intro: inj_on_subset)
  have "rf_value (wr_totals rep) = sum_list (map (\<lambda>r. v (lr_id r)) runs)"
    "rf_cost (wr_totals rep) = sum_list (map (\<lambda>r. co (lr_id r)) runs)"
    unfolding totals
    using tally_totals(1) [OF figure_laws(6,5)] tally_totals(1) [OF figure_laws(8,7)]
    by (simp_all add: figure_laws(6,8))
  moreover have "map (\<lambda>r. v (lr_id r)) runs = map (\<lambda>i. sum_list (map (drop_worth price)
      (filter (\<lambda>x. ld_run_id x = i) (loot_run_drop d)))) (map lr_id runs)"
    "map (\<lambda>r. co (lr_id r)) runs = map (\<lambda>i. sum_list (map (cost_worth price)
      (filter (\<lambda>x. lc_run_id x = i) (loot_run_cost d)))) (map lr_id runs)"
    using worth by auto
  ultimately have "rf_value (wr_totals rep) =
        sum_list (map (drop_worth price) (filter (\<lambda>x. ld_run_id x \<in> lr_id ` set runs) (loot_run_drop d)))"
    "rf_cost (wr_totals rep) =
        sum_list (map (cost_worth price) (filter (\<lambda>x. lc_run_id x \<in> lr_id ` set runs) (loot_run_cost d)))"
    by (simp_all only: sum_list_grouped [OF ids] set_map)
  with price show ?thesis
    unfolding Let_def runs_def [symmetric]
    by (intro exI [of _ price] conjI) (simp_all only: totals with_rates_net with_rates_figures)
qed

end
