(* ===== verification/LootRuns.thy ===== *)
theory LootRuns
  imports LootFacts
begin

text \<open>Creating a run: all or nothing, and what is stored is what was entered.\<close>

section \<open>What the input describes\<close>

text \<open>The drops that count: an object with a name and a positive whole quantity.\<close>

definition entered_drop :: "jsval \<Rightarrow> (string \<times> jsnum) option" where
  "entered_drop v =
     (let name = trim (str_or [] (field v ''itemName'')); qty = count_of (field v ''qty'') in
      if is_object v \<and> name \<noteq> [] \<and> num_lt (num 0) qty then Some (name, qty) else None)"

text \<open>The costs that count, as (kind, item name, quantity, kinah).\<close>

definition entered_cost :: "jsval \<Rightarrow> (cost_kind \<times> string option \<times> jsnum \<times> jsnum) option" where
  "entered_cost v =
     (let name = trim (str_or [] (field v ''itemName'')); qty = count_of (field v ''qty'');
          kinah = count_of (field v ''kinah'') in
      if \<not> is_object v then None
      else if field v ''kind'' = Str ''KINAH'' \<and> num_lt (num 0) kinah then Some (KINAH, None, num 0, kinah)
      else if field v ''kind'' = Str ''ITEM'' \<and> name \<noteq> [] \<and> num_lt (num 0) qty
        then Some (ITEM, Some name, qty, num 0)
      else None)"

lemma count_of_num: "\<exists>i \<ge> 0. count_of v = num i"
  by (auto simp: count_of_def finite_floor_def split: option.split intro: nonneg_floor_finite)

lemma count_of_le: "num_le (count_of v) (num 0) \<longleftrightarrow> \<not> num_lt (num 0) (count_of v)"
  using count_of_num [of v] by auto

section \<open>The loops\<close>

lemma upsert_item_loot_frame:
  assumes "upsert_economy_item_by_name uid now name category note d = (r, d1)"
  shows "loot_run_drop d1 = loot_run_drop d \<and> loot_run_cost d1 = loot_run_cost d \<and> loot_run d1 = loot_run d"
proof -
  have "keeps (\<lambda>d1. loot_run_drop d1 = loot_run_drop d \<and> loot_run_cost d1 = loot_run_cost d
      \<and> loot_run d1 = loot_run d) (upsert_economy_item_by_name uid now name category note)"
    by (rule upsert_item_frame) simp
  from keepsD [OF this, of d] assms show ?thesis by simp
qed

lemma create_drop_done:
  assumes "create_drop item_uid uid item_now run now v d = (Inr u, d')"
  shows "\<exists>new. loot_run_drop d' = loot_run_drop d @ new \<and> loot_run_cost d' = loot_run_cost d
    \<and> loot_run d' = loot_run d \<and> list_all (\<lambda>x. ld_run_id x = run \<and> ld_created_at x = now) new
    \<and> map (\<lambda>x. (ld_item_name x, ld_qty x)) new = (case entered_drop v of None \<Rightarrow> [] | Some e \<Rightarrow> [e])"
proof (cases "entered_drop v")
  case None
  with assms show ?thesis
    by (auto simp: create_drop_def entered_drop_def Let_def count_of_le ret_apply split: if_splits)
next
  case (Some e)
  define name where "name = trim (str_or [] (field v ''itemName''))"
  have e: "is_object v" "name \<noteq> []" "num_lt (num 0) (count_of (field v ''qty''))" "e = (name, count_of (field v ''qty''))"
    using Some by (auto simp: entered_drop_def name_def Let_def split: if_splits)
  obtain r d1 where up: "upsert_economy_item_by_name item_uid item_now name None None d = (r, d1)" by force
  with assms e obtain it where r: "r = Inr it"
    by (cases r) (auto simp: create_drop_def Let_def name_def [symmetric] count_of_le and_then_apply)
  from upsert_item_loot_frame [OF up] have frame: "loot_run_drop d1 = loot_run_drop d"
    "loot_run_cost d1 = loot_run_cost d" "loot_run d1 = loot_run d" by simp_all
  have it: "ei_name it = name" using upsert_item_name [of item_uid item_now name None None d it d1] up r
    by (simp add: name_def)
  from assms e up r have "insert_loot_run_drop Abort
      \<lparr>ld_id = uid, ld_run_id = run, ld_item_id = Some (ei_id it), ld_item_name = ei_name it,
       ld_qty = count_of (field v ''qty''), ld_note = trimmed_opt (str_of (field v ''note'')),
       ld_created_at = now, ld_updated_at = now\<rparr> d1 = (Inr u, d')"
    by (simp add: create_drop_def Let_def name_def [symmetric] count_of_le and_then_apply)
  then have "d' = d1\<lparr>loot_run_drop := loot_run_drop d1 @
      [\<lparr>ld_id = uid, ld_run_id = run, ld_item_id = Some (ei_id it), ld_item_name = ei_name it,
       ld_qty = count_of (field v ''qty''), ld_note = trimmed_opt (str_of (field v ''note'')),
       ld_created_at = now, ld_updated_at = now\<rparr>]\<rparr>"
    unfolding insert_loot_run_drop_def by (drule_tac insert_into_done) simp
  then show ?thesis by (simp add: frame it Some e(4))
qed

definition cost_figures :: "loot_run_cost_row \<Rightarrow> cost_kind \<times> string option \<times> jsnum \<times> jsnum" where
  "cost_figures x = (lc_kind x, lc_item_name x, lc_qty x, lc_kinah x)"

lemma insert_cost_done:
  assumes "insert_loot_run_cost Abort x d = (Inr u, d')"
  shows "loot_run_cost d' = loot_run_cost d @ [x] \<and> loot_run_drop d' = loot_run_drop d \<and> loot_run d' = loot_run d"
  using insert_into_done [OF assms [unfolded insert_loot_run_cost_def]] by simp

lemma create_cost_done:
  assumes "create_cost item_uid uid item_now run now v d = (Inr u, d')"
  shows "\<exists>new. loot_run_cost d' = loot_run_cost d @ new \<and> loot_run_drop d' = loot_run_drop d
    \<and> loot_run d' = loot_run d \<and> list_all (\<lambda>x. lc_run_id x = run \<and> lc_created_at x = now) new
    \<and> map cost_figures new = (case entered_cost v of None \<Rightarrow> [] | Some e \<Rightarrow> [e])"
proof (cases "entered_cost v")
  case None
  with assms show ?thesis
    by (auto simp: create_cost_def entered_cost_def as_cost_kind_def Let_def count_of_le ret_apply
        split: if_splits)
next
  case (Some e)
  define name where "name = trim (str_or [] (field v ''itemName''))"
  consider (kinah) "is_object v" "field v ''kind'' = Str ''KINAH''" "num_lt (num 0) (count_of (field v ''kinah''))"
      "e = (KINAH, None, num 0, count_of (field v ''kinah''))"
    | (item) "is_object v" "field v ''kind'' = Str ''ITEM''" "name \<noteq> []" "num_lt (num 0) (count_of (field v ''qty''))"
      "e = (ITEM, Some name, count_of (field v ''qty''), num 0)"
    using Some by (auto simp: entered_cost_def name_def Let_def split: if_splits)
  then show ?thesis
  proof cases
    case kinah
    with assms have "insert_loot_run_cost Abort
        \<lparr>lc_id = uid, lc_run_id = run, lc_kind = KINAH, lc_item_id = None, lc_item_name = None,
         lc_qty = num 0, lc_kinah = count_of (field v ''kinah''), lc_note = trimmed_opt (str_of (field v ''note'')),
         lc_created_at = now, lc_updated_at = now\<rparr> d = (Inr u, d')"
      by (simp add: create_cost_def as_cost_kind_def Let_def count_of_le)
    from insert_cost_done [OF this] kinah(4) Some show ?thesis
      by (simp add: cost_figures_def)
  next
    case item
    obtain r d1 where up: "upsert_economy_item_by_name item_uid item_now name None None d = (r, d1)" by force
    with assms item obtain it where r: "r = Inr it"
      by (cases r) (auto simp: create_cost_def as_cost_kind_def Let_def name_def [symmetric] count_of_le and_then_apply)
    have it: "ei_name it = name" using upsert_item_name [of item_uid item_now name None None d it d1] up r
      by (simp add: name_def)
    from assms item up r have "insert_loot_run_cost Abort
        \<lparr>lc_id = uid, lc_run_id = run, lc_kind = ITEM, lc_item_id = Some (ei_id it),
         lc_item_name = Some (ei_name it), lc_qty = count_of (field v ''qty''), lc_kinah = num 0,
         lc_note = trimmed_opt (str_of (field v ''note'')), lc_created_at = now, lc_updated_at = now\<rparr> d1 = (Inr u, d')"
      by (simp add: create_cost_def as_cost_kind_def Let_def name_def [symmetric] count_of_le and_then_apply)
    from insert_cost_done [OF this] upsert_item_loot_frame [OF up] item(5) Some it show ?thesis
      by (simp add: cost_figures_def)
  qed
qed

text \<open>The entries of a list that count, in their order.\<close>

definition entered :: "(jsval \<Rightarrow> 'e option) \<Rightarrow> jsval list \<Rightarrow> 'e list" where
  "entered f vs = concat (map (\<lambda>v. case f v of None \<Rightarrow> [] | Some e \<Rightarrow> [e]) vs)"

lemma entered_simps [simp]:
  "entered f [] = []" "entered f (v # vs) = (case f v of None \<Rightarrow> [] | Some e \<Rightarrow> [e]) @ entered f vs"
  by (simp_all add: entered_def)

lemma drops_done:
  assumes "for_each (enumerate k vs) (\<lambda>(i, v). create_drop (ids (2 * i + 1)) (ids (2 * i + 2)) (clock i) run now v) d
    = (Inr u, d')"
  shows "\<exists>new. loot_run_drop d' = loot_run_drop d @ new \<and> loot_run_cost d' = loot_run_cost d
    \<and> loot_run d' = loot_run d \<and> list_all (\<lambda>x. ld_run_id x = run \<and> ld_created_at x = now) new
    \<and> map (\<lambda>x. (ld_item_name x, ld_qty x)) new = entered entered_drop vs"
  using assms
proof (induction vs arbitrary: k d)
  case (Cons v vs)
  obtain r d1 where one: "create_drop (ids (2 * k + 1)) (ids (2 * k + 2)) (clock k) run now v d = (r, d1)" by force
  with Cons.prems obtain u1 where r: "r = Inr u1" by (cases r) (auto simp: for_each_Cons and_then_apply)
  with Cons.prems one have rest: "for_each (enumerate (Suc k) vs)
      (\<lambda>(i, v). create_drop (ids (2 * i + 1)) (ids (2 * i + 2)) (clock i) run now v) d1 = (Inr u, d')"
    by (simp add: for_each_Cons and_then_apply)
  from create_drop_done [OF one [unfolded r]] Cons.IH [OF rest]
  obtain new1 new2 where "loot_run_drop d1 = loot_run_drop d @ new1" "loot_run_cost d1 = loot_run_cost d"
    "loot_run d1 = loot_run d" "list_all (\<lambda>x. ld_run_id x = run \<and> ld_created_at x = now) new1"
    "map (\<lambda>x. (ld_item_name x, ld_qty x)) new1 = (case entered_drop v of None \<Rightarrow> [] | Some e \<Rightarrow> [e])"
    "loot_run_drop d' = loot_run_drop d1 @ new2" "loot_run_cost d' = loot_run_cost d1"
    "loot_run d' = loot_run d1" "list_all (\<lambda>x. ld_run_id x = run \<and> ld_created_at x = now) new2"
    "map (\<lambda>x. (ld_item_name x, ld_qty x)) new2 = entered entered_drop vs" by (elim exE conjE)
  then show ?case by (intro exI [of _ "new1 @ new2"]) simp
qed (simp add: for_each_Nil)

lemma costs_done:
  assumes "for_each (enumerate k vs) (\<lambda>(i, v). create_cost (ids (2 * i + 1)) (ids (2 * i + 2)) (clock i) run now v) d
    = (Inr u, d')"
  shows "\<exists>new. loot_run_cost d' = loot_run_cost d @ new \<and> loot_run_drop d' = loot_run_drop d
    \<and> loot_run d' = loot_run d \<and> list_all (\<lambda>x. lc_run_id x = run \<and> lc_created_at x = now) new
    \<and> map cost_figures new = entered entered_cost vs"
  using assms
proof (induction vs arbitrary: k d)
  case (Cons v vs)
  obtain r d1 where one: "create_cost (ids (2 * k + 1)) (ids (2 * k + 2)) (clock k) run now v d = (r, d1)" by force
  with Cons.prems obtain u1 where r: "r = Inr u1" by (cases r) (auto simp: for_each_Cons and_then_apply)
  with Cons.prems one have rest: "for_each (enumerate (Suc k) vs)
      (\<lambda>(i, v). create_cost (ids (2 * i + 1)) (ids (2 * i + 2)) (clock i) run now v) d1 = (Inr u, d')"
    by (simp add: for_each_Cons and_then_apply)
  from create_cost_done [OF one [unfolded r]] Cons.IH [OF rest]
  obtain new1 new2 where "loot_run_cost d1 = loot_run_cost d @ new1" "loot_run_drop d1 = loot_run_drop d"
    "loot_run d1 = loot_run d" "list_all (\<lambda>x. lc_run_id x = run \<and> lc_created_at x = now) new1"
    "map cost_figures new1 = (case entered_cost v of None \<Rightarrow> [] | Some e \<Rightarrow> [e])"
    "loot_run_cost d' = loot_run_cost d1 @ new2" "loot_run_drop d' = loot_run_drop d1"
    "loot_run d' = loot_run d1" "list_all (\<lambda>x. lc_run_id x = run \<and> lc_created_at x = now) new2"
    "map cost_figures new2 = entered entered_cost vs" by (elim exE conjE)
  then show ?case by (intro exI [of _ "new1 @ new2"]) simp
qed (simp add: for_each_Nil)

section \<open>Creating a run\<close>

lemma order_by_all_equal:
  "\<forall>x \<in> set xs. \<forall>y \<in> set xs. le x y \<Longrightarrow> order_by le xs = xs"
proof (induction xs)
  case (Cons x xs)
  then have "order_by le xs = xs" by simp
  with Cons.prems show ?case by (cases xs) (auto simp: order_by_def)
qed (simp add: order_by_def)

lemma transaction_then_ret:
  "and_then (in_transaction msg rb body) (\<lambda>_. ret x) d = (Inr y, d') \<Longrightarrow> y = x \<and> (\<exists>u. body d = (Inr u, d'))"
  by (auto simp: and_then_apply ret_apply in_transaction_def split: prod.splits sum.splits option.splits)

text \<open>
  A run that cannot be stored leaves the database as it was, wherever in the middle of its drops
  and costs the failure is: the items that the run would have added are not there either. (When
  ROLLBACK itself fails, the code reports a corrupted database instead.)
\<close>

theorem create_loot_run_atomic:
  assumes "create_loot_run h None ids clock now inp d = (Inl e, d')"
  shows "d' = d"
proof -
  have "and_then (in_transaction msg None body) (\<lambda>_. ret x) d = (Inl e, d') \<Longrightarrow> d' = d"
    for msg :: string and body :: "(db, unit) op" and x :: string
    by (auto simp: and_then_apply ret_apply in_transaction_def split: prod.splits sum.splits)
  with assms show ?thesis
    by (auto simp: create_loot_run_def Let_def guard_else_apply reading_apply throw_apply
        split: if_splits option.splits)
qed

text \<open>No drop or cost is left behind under the id of a run that is not there.\<close>

definition no_remains :: "string \<Rightarrow> db \<Rightarrow> bool" where
  "no_remains run d \<longleftrightarrow> (\<forall>x \<in> set (loot_run d). lr_id x \<noteq> run) \<longrightarrow>
     (\<forall>x \<in> set (loot_run_drop d). ld_run_id x \<noteq> run) \<and> (\<forall>x \<in> set (loot_run_cost d). lc_run_id x \<noteq> run)"

lemma enforced_no_remains: "enforced_refs d \<Longrightarrow> foreign_keys d \<Longrightarrow> no_remains run d"
  by (auto simp: no_remains_def enforced_refs_def refs_ok_def list_all_iff refs_loot_run_drop_def refs_loot_run_cost_def
      has_id_iff)

lemma created_run:
  assumes "create_loot_run h rb ids clock now inp d = (Inr uid, d')"
    and "no_remains (ids 0) d"
    and "ids 0 \<noteq> []"
  shows "\<exists>det. uid = ids 0 \<and> get_loot_run uid d' = Some det \<and> lr_id (rd_run det) = uid
    \<and> lr_character_id (rd_run det) = in_character inp
    \<and> lr_content (rd_run det) = trim (in_content inp) \<and> lr_ended_at (rd_run det) \<noteq> None
    \<and> map (\<lambda>x. (ld_item_name x, ld_qty x)) (rd_drops det) = entered entered_drop (arr_or_empty (in_drops inp))
    \<and> map cost_figures (rd_costs det) = entered entered_cost (arr_or_empty (in_costs inp))"
proof -
  let ?drops = "arr_or_empty (in_drops inp)" and ?costs = "arr_or_empty (in_costs inp)"
  define dloop where "dloop = for_each (enumerate 0 ?drops)
    (\<lambda>(i, v). create_drop (ids (2 * i + 1)) (ids (2 * i + 2)) (clock i) (ids 0) now v)"
  define cloop where "cloop = for_each (enumerate (length ?drops) ?costs)
    (\<lambda>(i, v). create_cost (ids (2 * i + 1)) (ids (2 * i + 2)) (clock i) (ids 0) now v)"
  from assms(1) have guards: "in_character inp \<noteq> []" "trim (in_content inp) \<noteq> []"
    by (auto simp: create_loot_run_def Let_def guard_else_apply split: if_splits)
  with assms(1) obtain ch where ch: "find (\<lambda>r. ch_id r = in_character inp) (app_character d) = Some ch"
    by (cases "find (\<lambda>r. ch_id r = in_character inp) (app_character d)")
      (auto simp: create_loot_run_def Let_def guard_else_apply reading_apply throw_apply)
  define ended where "ended = (case non_empty (in_ended inp) of Some e \<Rightarrow> e | None \<Rightarrow> now)"
  define row where "row = \<lparr>lr_id = ids 0, lr_character_id = in_character inp, lr_server = ch_server ch,
    lr_content = trim (in_content inp), lr_role = trimmed_opt (in_role inp),
    lr_power_bracket = trimmed_opt (in_power inp), lr_started_at = non_empty (in_started inp),
    lr_ended_at = Some ended,
    lr_seconds = run_seconds h (in_seconds inp) (non_empty (in_started inp)) ended,
    lr_created_at = now, lr_updated_at = now\<rparr>"
  have "and_then (in_transaction ''CRITICAL: loot run create failed and rollback failed'' rb
      (and_then (insert_loot_run Abort row) (\<lambda>_. and_then dloop (\<lambda>_. cloop)))) (\<lambda>_. ret (ids 0)) d = (Inr uid, d')"
    using assms(1) guards ch unfolding create_loot_run_def Let_def row_def ended_def dloop_def cloop_def
    by (simp add: guard_else_apply reading_apply)
  from transaction_then_ret [OF this] have uid: "uid = ids 0"
    and run: "and_then (insert_loot_run Abort row) (\<lambda>_. and_then dloop (\<lambda>_. cloop)) d = (Inr (), d')" by auto
  have row: "lr_id row = ids 0" "lr_character_id row = in_character inp" "lr_content row = trim (in_content inp)"
    "lr_ended_at row \<noteq> None" by (simp_all add: row_def)
  obtain r1 d1 where ins: "insert_loot_run Abort row d = (r1, d1)" by force
  with run have r1: "r1 = Inr ()" by (cases r1) (auto simp: and_then_apply)
  obtain r2 d2 where dl: "dloop d1 = (r2, d2)" by force
  with run ins r1 have r2: "r2 = Inr ()" by (cases r2) (auto simp: and_then_apply)
  with run ins r1 dl have cl: "cloop d2 = (Inr (), d')" by (simp add: and_then_apply)
  from insert_into_done [OF ins [unfolded insert_loot_run_def r1]]
  have d1: "d1 = d\<lparr>loot_run := loot_run d @ [row]\<rparr>" and fresh: "\<forall>x \<in> set (loot_run d). lr_id x \<noteq> ids 0"
    by (auto simp: clash_loot_run_def row)
  from drops_done [OF dl [unfolded dloop_def r2]] costs_done [OF cl [unfolded cloop_def]] d1
  obtain ds cs where d': "loot_run d' = loot_run d @ [row]" "loot_run_drop d' = loot_run_drop d @ ds"
      "loot_run_cost d' = loot_run_cost d @ cs"
    and ds: "list_all (\<lambda>x. ld_run_id x = ids 0 \<and> ld_created_at x = now) ds"
      "map (\<lambda>x. (ld_item_name x, ld_qty x)) ds = entered entered_drop ?drops"
    and cs: "list_all (\<lambda>x. lc_run_id x = ids 0 \<and> lc_created_at x = now) cs"
      "map cost_figures cs = entered entered_cost ?costs" by auto
  have "\<forall>x \<in> set (loot_run_drop d). ld_run_id x \<noteq> ids 0" "\<forall>x \<in> set (loot_run_cost d). lc_run_id x \<noteq> ids 0"
    using assms(2) fresh by (auto simp: no_remains_def)
  then have "order_by (asc ld_created_at) (filter (\<lambda>x. ld_run_id x = ids 0) (loot_run_drop d')) = ds"
    "order_by (asc lc_created_at) (filter (\<lambda>x. lc_run_id x = ids 0) (loot_run_cost d')) = cs"
    using ds(1) cs(1) unfolding d' by (auto simp: list_all_iff asc_def filter_id_conv intro!: order_by_all_equal)
  moreover have "find (\<lambda>r. lr_id r = ids 0) (loot_run d) = None" using fresh by (auto simp: find_None_iff)
  then have "find (\<lambda>r. lr_id r = ids 0) (loot_run d') = Some row" using row(1) by (simp add: d' find_append)
  ultimately show ?thesis
    using row ds(2) cs(2) assms(3) unfolding uid by (simp add: get_loot_run_def)
qed

text \<open>
  C3. A stored run is found again under its id, with exactly the drops and costs of the input that
  count, in the order of the input: names are trimmed, quantities are whole and positive, and
  the entries without a name or a quantity are left out. The id that was drawn for the run must be
  fresh: not empty, and not named by a drop or a cost that is left of an earlier run. Foreign keys
  may be enforced or not.
\<close>

theorem created_run_is_found:
  assumes "create_loot_run h rb ids clock now inp d = (Inr uid, d')"
    and "ids 0 \<noteq> []" "\<forall>x \<in> set (loot_run_drop d). ld_run_id x \<noteq> ids 0" "\<forall>x \<in> set (loot_run_cost d). lc_run_id x \<noteq> ids 0"
  shows "\<exists>det. get_loot_run uid d' = Some det \<and> lr_character_id (rd_run det) = in_character inp
    \<and> lr_content (rd_run det) = trim (in_content inp) \<and> lr_ended_at (rd_run det) \<noteq> None
    \<and> map (\<lambda>x. (ld_item_name x, ld_qty x)) (rd_drops det) = entered entered_drop (arr_or_empty (in_drops inp))
    \<and> map cost_figures (rd_costs det) = entered entered_cost (arr_or_empty (in_costs inp))"
proof -
  have "no_remains (ids 0) d" using assms(3,4) by (simp add: no_remains_def)
  from created_run [OF assms(1) this assms(2)] show ?thesis
    by (elim exE conjE) (intro exI conjI, assumption+)
qed

section \<open>Concrete runs\<close>

definition loot_input :: run_input where
  "loot_input = \<lparr>in_character = ''c1'', in_content = ''Siel'', in_role = None, in_power = None, in_started = None,
     in_ended = None, in_seconds = Some (num 60),
     in_drops = Arr [Null, Obj [(''itemName'', Str ''Ore''), (''qty'', Num (num 3))]],
     in_costs = Arr [Obj [(''kind'', Str ''KINAH''), (''kinah'', Num (num 50))]]\<rparr>"

definition loot_db :: db where
  "loot_db = (empty_db True)\<lparr>foreign_keys := True, app_character :=
     [\<lparr>ch_id = ''c1'', ch_name = ''C'', ch_server = Some ''Siel'', ch_class = None,
       ch_created_at = ''x'', ch_updated_at = ''x''\<rparr>]\<rparr>"

lemmas loot_eval = create_loot_run_def loot_input_def loot_db_def empty_db_def Let_def guard_else_apply
  reading_apply and_then_apply throw_apply ret_apply in_transaction_def for_each_Cons for_each_Nil
  insert_loot_run_def insert_loot_run_drop_def insert_loot_run_cost_def insert_economy_item_def insert_into_def
  clash_loot_run_def clash_loot_run_drop_def clash_loot_run_cost_def clash_economy_item_def
  refs_loot_run_def refs_loot_run_drop_def refs_loot_run_cost_def refs_economy_item_def has_id_def has_id_opt_def
  create_drop_def create_cost_def as_cost_kind_def count_of_def finite_floor_def str_or_def
  upsert_economy_item_by_name_def trimmed_opt_def non_empty_def

theorem create_loot_run_atomic_witness:
  "\<exists>e. create_loot_run iso_host None (\<lambda>_. ''x'') tick ''now''
         (loot_input\<lparr>in_drops := Arr [Obj [(''itemName'', Str ''Ore''), (''qty'', Num (num 3))],
            Obj [(''itemName'', Str ''Siel''), (''qty'', Num (num 1))]]\<rparr>) loot_db = (Inl e, loot_db)"
proof -
  obtain e d' where run: "create_loot_run iso_host None (\<lambda>_. ''x'') tick ''now''
         (loot_input\<lparr>in_drops := Arr [Obj [(''itemName'', Str ''Ore''), (''qty'', Num (num 3))],
            Obj [(''itemName'', Str ''Siel''), (''qty'', Num (num 1))]]\<rparr>) loot_db = (Inl e, d')"
    by (simp add: loot_eval)
  from create_loot_run_atomic [OF this] run show ?thesis by (intro exI) simp
qed

theorem created_run_is_found_witness:
  "\<exists>d' det. create_loot_run iso_host None tick tick ''now'' loot_input loot_db = (Inr (tick 0), d')
    \<and> get_loot_run (tick 0) d' = Some det
    \<and> map (\<lambda>x. (ld_item_name x, ld_qty x)) (rd_drops det) = entered entered_drop (arr_or_empty (in_drops loot_input))"
proof -
  obtain d' where run: "create_loot_run iso_host None tick tick ''now'' loot_input loot_db = (Inr (tick 0), d')"
    by (simp add: loot_eval)
  have "tick 0 \<noteq> []" "\<forall>x \<in> set (loot_run_drop loot_db). ld_run_id x \<noteq> tick 0" "\<forall>x \<in> set (loot_run_cost loot_db). lc_run_id x \<noteq> tick 0"
    by (simp_all add: loot_db_def empty_db_def)
  from created_run_is_found [OF run this]
  obtain det where "get_loot_run (tick 0) d' = Some det"
    "map (\<lambda>x. (ld_item_name x, ld_qty x)) (rd_drops det) = entered entered_drop (arr_or_empty (in_drops loot_input))"
    by (elim exE conjE)
  with run show ?thesis by (intro exI conjI)
qed

text \<open>A week with one run, for the report.\<close>

definition week_db :: db where
  "week_db = loot_db\<lparr>economy_item := [ore], economy_price :=
      [\<lparr>ep_id = ''p1'', ep_server = ''Siel'', ep_item_id = ''ore'', ep_price = num 120,
         ep_recorded_at = ''2026-01-01'', ep_created_at = ''2026-01-01'', ep_updated_at = ''2026-01-01''\<rparr>],
     loot_run := [\<lparr>lr_id = ''r1'', lr_character_id = ''c1'', lr_server = Some ''Siel'', lr_content = ''Cave'',
       lr_role = None, lr_power_bracket = None, lr_started_at = None, lr_ended_at = Some (iso 1000000000),
       lr_seconds = num 60, lr_created_at = ''x'', lr_updated_at = ''x''\<rparr>],
     loot_run_drop := [\<lparr>ld_id = ''d1'', ld_run_id = ''r1'', ld_item_id = Some ''ore'', ld_item_name = ''Ore'',
       ld_qty = num 3, ld_note = None, ld_created_at = ''x'', ld_updated_at = ''x''\<rparr>]\<rparr>"

lemma week_start_kst:
  assumes "0 \<le> rd" "rd \<le> 6"
  shows "resolve_weekly_start_local kst now hhmm (num rd) \<le> now"
    "now < resolve_weekly_start_local kst now hhmm (num rd) + 7 * ms_per_day"
  unfolding steady_zone.weekly_start_eq [OF steady_kst assms]
  using steady_zone.week_of [OF steady_kst, where rd = rd and t = now and off = "reset_offset hhmm"]
  by (simp_all add: reset_at_def kst_def fixed_zone_def algebra_simps)

lemma week_report_ok:
  "\<exists>rep. get_loot_weekly_report iso_host 1000000000 ''c1'' None None week_db = Inr rep
    \<and> runs_between ''c1'' (wr_week_start rep) (wr_week_end rep) week_db = loot_run week_db"
proof -
  define start where "start = resolve_weekly_start_local kst 1000000000 ''09:00'' (num 1)"
  have "start \<le> 1000000000" "1000000000 < start + 7 * ms_per_day"
    unfolding start_def by (rule week_start_kst; simp)+
  then have start: "0 \<le> start" "start \<le> 1000000000" by (simp_all add: ms_per_day_def)
  have iso_start: "iso_of_number (num start) = Inr (iso start)"
    using start by (simp add: num_def trunc_def)
  have "four_digit_year start" "four_digit_year 1000000000" using start by (auto intro: four_digit_yearI)
  then have between: "runs_between ''c1'' (iso start) (iso 1000000000) week_db = loot_run week_db"
    using start by (simp add: runs_between_def week_db_def iso_le_iff order_by_def)
  have reset: "get_planner_reset_for_server None week_db = (''09:00'', num 1)"
    by (simp add: get_planner_reset_for_server_def week_db_def loot_db_def empty_db_def non_empty_def Let_def)
  have host: "tz iso_host = kst" "date_or_now iso_host 1000000000 None = 1000000000"
    by (simp_all add: iso_host_def date_or_now_def)
  define debug where "debug = (''W:'' @ format_local_date_key kst start, ''09:00'', num 1)"
  have "get_loot_weekly_report iso_host 1000000000 ''c1'' None None week_db =
      report_runs debug None (iso start) (iso 1000000000) (loot_run week_db) week_db"
    by (simp only: get_loot_weekly_report_def Let_def trimmed_opt_def option.case reset prod.case host
        start_def [symmetric] iso_start sum.case between debug_def [symmetric]) (simp add: week_db_def)
  moreover have server: "run_server (loot_run week_db) = Some ''Siel''"
    by (simp add: run_server_def week_db_def non_empty_def)
  have "\<exists>rep. report_runs debug None (iso start) (iso 1000000000) (loot_run week_db) week_db = Inr rep
      \<and> wr_week_start rep = iso start \<and> wr_week_end rep = iso 1000000000"
    unfolding report_runs_def Let_def option.case server get_latest_prices_by_item_id_def
    by (simp add: case_prod_beta)
  ultimately show ?thesis using between by auto
qed

theorem report_adds_up_witness:
  "\<exists>rep. get_loot_weekly_report iso_host 1000000000 ''c1'' None None week_db = Inr rep
    \<and> rf_runs (wr_totals rep) = 1
    \<and> sum_list (map (\<lambda>e. rf_value (snd e)) (wr_by_content rep)) = rf_value (wr_totals rep)"
proof -
  obtain rep where rep: "get_loot_weekly_report iso_host 1000000000 ''c1'' None None week_db = Inr rep"
    "runs_between ''c1'' (wr_week_start rep) (wr_week_end rep) week_db = loot_run week_db"
    using week_report_ok by (elim exE conjE)
  have one: "int (length (loot_run week_db)) = 1" by (simp add: week_db_def)
  note facts = report_adds_up [OF rep(1), unfolded rep(2) one]
  from conjunct1 [OF facts] conjunct1 [OF conjunct2 [OF conjunct2 [OF conjunct2 [OF facts]]]] rep(1)
  show ?thesis by (intro exI conjI)
qed

theorem report_value_witness:
  "\<exists>rep price. get_loot_weekly_report iso_host 1000000000 ''c1'' None None week_db = Inr rep
    \<and> rf_value (wr_totals rep) = sum_list (map (drop_worth price) (loot_run_drop week_db))"
proof -
  obtain rep where rep: "get_loot_weekly_report iso_host 1000000000 ''c1'' None None week_db = Inr rep"
    "runs_between ''c1'' (wr_week_start rep) (wr_week_end rep) week_db = loot_run week_db"
    using week_report_ok by (elim exE conjE)
  have keys: "keys_ok week_db"
    by (simp add: keys_ok_def week_db_def loot_db_def empty_db_def uniq_def)
  have drops: "filter (\<lambda>x. ld_run_id x \<in> lr_id ` set (loot_run week_db)) (loot_run_drop week_db) = loot_run_drop week_db"
    by (simp add: week_db_def)
  from report_value [OF rep(1) keys, unfolded rep(2) Let_def drops]
  obtain price where "rf_value (wr_totals rep) = sum_list (map (drop_worth price) (loot_run_drop week_db))"
    by (elim exE conjE)
  with rep(1) show ?thesis by (intro exI conjI)
qed

end
