(* ===== verification/BackupRoundtrip.thy ===== *)
theory BackupRoundtrip
  imports BackupFile LootRuns
begin

text \<open>
  A backup is imported whole or not at all, and importing the backup of a database gives the
  user's data of that database back, without the rows that name what is gone.
\<close>

section \<open>Filling the cleared tables\<close>





















section \<open>The round trip\<close>









text \<open>
  An import that fails leaves the database as it was.
\<close>

theorem import_is_atomic:
  assumes "import_user_backup None now raw d = (Inl e, d')"
  shows "d' = d"
  using assms
  by (auto simp: import_user_backup_def guard_else_apply throw_apply in_transaction_def
      split: if_splits option.splits prod.splits sum.splits)

section \<open>Without foreign keys\<close>

text \<open>
  While foreign keys are not enforced, nothing removes what hangs on the deleted characters and
  templates.
\<close>

definition stays :: "planner_completion_row \<Rightarrow> db \<Rightarrow> bool" where
  "stays x d \<longleftrightarrow> \<not> foreign_keys d \<and> x \<in> set (planner_completion d)"

lemma stays_inserts:
  "keeps (stays x) (insert_app_setting m r0)" "keeps (stays x) (insert_app_character m r1)"
  "keeps (stays x) (insert_planner_settings m r2)" "keeps (stays x) (insert_planner_template m r3)"
  "keeps (stays x) (insert_planner_assignment m r4)" "keeps (stays x) (insert_planner_charge_use m r5)"
  "keeps (stays x) (insert_planner_duration m r6)" "keeps (stays x) (insert_economy_item m r7)"
  "keeps (stays x) (insert_economy_price m r8)" "keeps (stays x) (insert_economy_price_watch m r9)"
  "keeps (stays x) (insert_build_score m r10)" "keeps (stays x) (insert_build_score_preset m r11)"
  "keeps (stays x) (insert_loot_run m r12)" "keeps (stays x) (insert_loot_run_drop m r13)"
  "keeps (stays x) (insert_loot_run_cost m r14)" "keeps (stays x) (insert_planner_completion Ignore r15)"
  unfolding insert_defs stays_def by (rule keepsI; auto simp: insert_into_def delete_defs Let_def)+

lemma stays_deletes:
  "keeps (stays x) (modify (delete_app_setting P))" "keeps (stays x) (modify (delete_app_character P1))"
  "keeps (stays x) (modify (delete_planner_template P2))" "keeps (stays x) (modify (delete_planner_settings P3))"
  "keeps (stays x) (modify (delete_economy_alert_event P4))" "keeps (stays x) (modify (delete_economy_price_watch P5))"
  "keeps (stays x) (modify (delete_economy_price P6))" "keeps (stays x) (modify (delete_economy_item P7))"
  "keeps (stays x) (modify (app_setting_update f))"
  unfolding stays_def by (rule keepsI; simp add: modify_apply delete_defs Let_def)+

lemma stays_import: "keeps (stays x) (import_user_backup rb now raw)"
  unfolding import_user_backup_def import_rows_def clear_user_data_def import_settings_def insert_settings_row_def
    import_economy_def import_scores_and_loot_def import_planner_def assign_all_pairs_def
    set_active_character_id_def set_setting_def
  by (auto intro!: keeps_intro stays_inserts stays_deletes)

text \<open>
  An import is meant to replace the user's data. While foreign keys are not enforced, which is
  how the app leaves its connection after the first save, it does not: every completion that was
  stored before is still stored afterwards, also when the backup holds neither its character nor
  its template.
\<close>

theorem import_without_foreign_keys_keeps_completions:
  assumes "import_user_backup rb now raw d = (r, d')" and "\<not> foreign_keys d" and "x \<in> set (planner_completion d)"
  shows "x \<in> set (planner_completion d')"
  using keepsD [OF stays_import, of x d rb now raw] assms by (simp add: stays_def)

section \<open>Concrete backups\<close>

text \<open>The second completion is of a character that was deleted.\<close>

definition backup_db :: db where
  "backup_db = week_db\<lparr>planner_settings := [default_settings_row ''x''],
     planner_template := [(sample_template ''t1'' DAILY ''Daily'')\<lparr>pt_recharge_hours := None, pt_max_stacks := None\<rparr>, sample_template ''t2'' CHARGE ''Charge''],
     planner_assignment := [assignment_for ''a1'' ''c1'' ''t1'' ''x'', assignment_for ''a2'' ''c1'' ''t2'' ''x''],
     planner_completion := [\<lparr>pc_id = ''p1'', pc_character_id = ''c1'', pc_template_id = ''t1'',
       pc_period_key = ''D:2026-01-01'', pc_completed_at = ''x''\<rparr>,
      \<lparr>pc_id = ''p2'', pc_character_id = ''gone'', pc_template_id = ''t1'',
       pc_period_key = ''D:2026-01-01'', pc_completed_at = ''x''\<rparr>]\<rparr>"


lemma count_ok_num [simp]: "0 \<le> i \<Longrightarrow> count_ok (num i)"
  by (auto simp: count_ok_def)




text \<open>The import of a backup with two characters of the same id fails, after the old data was deleted.\<close>

definition twice :: jsval where
  "twice = Obj [(''schemaVersion'', Num (num 4)), (''characters'',
     Arr [Obj [(''id'', Str ''c9''), (''name'', Str ''A'')], Obj [(''id'', Str ''c9''), (''name'', Str ''B'')]])]"

definition same_id :: "string \<Rightarrow> string \<Rightarrow> app_character_row" where
  "same_id n now = \<lparr>ch_id = ''c9'', ch_name = n, ch_server = None, ch_class = None, ch_created_at = now, ch_updated_at = now\<rparr>"

lemma import_twice_fails: "\<exists>e d'. import_user_backup None now twice d = (Inl e, d')"
proof -
  define b where "b = read_backup now (num 4) twice"
  have b: "br_default_settings b = default_settings_row now" "br_server_settings b = []" "br_active b = None"
    "br_characters b = [same_id ''A'' now, same_id ''B'' now]"
    by (simp_all add: b_def read_backup_def twice_def read_settings_def entries_def List.map_filter_simps Let_def
        default_settings_row_def str_or_def num_or_def read_backup_character_def same_id_def)
  obtain r e where clear: "clear_user_data d = (r, e)" by force
  note tables = clear_user_data_tables [OF clear]
  have "import_settings b e = (Inr (), e\<lparr>planner_settings := [default_settings_row now]\<rparr>)"
    using tables by (simp add: import_settings_def b insert_settings_row_def not_null_apply default_settings_row_def
        insert_planner_settings_def insert_into_def refs_defs and_then_apply for_each_Nil ret_apply non_empty_def)
  moreover have "import_economy b (e\<lparr>planner_settings := [default_settings_row now]\<rparr>) = (Inl (Constraint ''UNIQUE''),
      e\<lparr>planner_settings := [default_settings_row now], app_character := [same_id ''A'' now]\<rparr>)"
    using tables by (simp add: import_economy_def b for_each_Cons and_then_apply insert_app_character_def insert_into_def
        clash_defs refs_defs same_id_def)
  ultimately have "\<exists>x y. import_rows now b d = (Inl x, y)"
    using clear tables by (simp add: import_rows_def and_then_apply)
  moreover have "is_object twice" "field twice ''schemaVersion'' = Num (num 4)" by (simp_all add: twice_def)
  ultimately show ?thesis
    by (auto simp: import_user_backup_def guard_else_apply in_transaction_def b_def [symmetric])
qed

theorem import_is_atomic_witness:
  "\<exists>e. import_user_backup None ''now'' twice backup_db = (Inl e, backup_db)"
proof -
  obtain e d' where "import_user_backup None ''now'' twice backup_db = (Inl e, d')"
    using import_twice_fails by blast
  with import_is_atomic [OF this] show ?thesis by blast
qed

theorem import_without_foreign_keys_keeps_completions_witness:
  "\<exists>x \<in> set (planner_completion (snd (import_user_backup None ''now'' (Obj [(''schemaVersion'', Num (num 4))])
      (backup_db\<lparr>foreign_keys := False\<rparr>)))). pc_character_id x = ''c1''"
proof -
  define x where "x = \<lparr>pc_id = ''p1'', pc_character_id = ''c1'', pc_template_id = ''t1'',
    pc_period_key = ''D:2026-01-01'', pc_completed_at = ''x''\<rparr>"
  obtain r d' where run: "import_user_backup None ''now'' (Obj [(''schemaVersion'', Num (num 4))])
      (backup_db\<lparr>foreign_keys := False\<rparr>) = (r, d')" by force
  have "\<not> foreign_keys (backup_db\<lparr>foreign_keys := False\<rparr>)"
    "x \<in> set (planner_completion (backup_db\<lparr>foreign_keys := False\<rparr>))"
    by (simp_all add: backup_db_def x_def)
  from import_without_foreign_keys_keeps_completions [OF run this] have "x \<in> set (planner_completion d')" .
  then show ?thesis unfolding run snd_conv by (rule rev_bexI) (simp add: x_def)
qed

end
