(* ===== verification/Notices.thy ===== *)
theory Notices
  imports Economy
begin

text \<open>
  Cached notices (\<open>main/storage/domains/notices.ts\<close>): the paged list, and the items,
  snapshots and diffs that a synchronisation stores.
\<close>

section \<open>The list\<close>

text \<open>
  \<open>LIMIT a OFFSET b\<close> with bound numbers: SQLite reads LIMIT first and stops at either value
  unless it is a whole number.
\<close>

definition page_rows :: "jsnum \<Rightarrow> jsnum \<Rightarrow> 'a list \<Rightarrow> err + 'a list" where
  "page_rows limit offset xs =
     (case (limit_rows limit xs, limit_rows offset xs) of
        (Inr _, Inr _) \<Rightarrow> limit_rows limit (drop (case offset of Fin r \<Rightarrow> nat \<lfloor>r\<rfloor> | _ \<Rightarrow> 0) xs)
      | (Inl e, _) \<Rightarrow> Inl e
      | (_, Inl e) \<Rightarrow> Inl e)"

record notice_page =
  np_page :: jsnum
  np_page_size :: jsnum
  np_total :: nat
  np_items :: "notice_item_row list"

definition read_notice :: "notice_item_row \<Rightarrow> notice_item_row" where
  "read_notice r = r\<lparr>ni_published_at := non_empty (ni_published_at r)\<rparr>"

definition shown_at :: "notice_item_row \<Rightarrow> string" where
  "shown_at r = (case ni_published_at r of Some s \<Rightarrow> s | None \<Rightarrow> ni_updated_at r)"

definition notices_of :: "notice_source option \<Rightarrow> db \<Rightarrow> notice_item_row list" where
  "notices_of source d =
     filter (\<lambda>r. case source of None \<Rightarrow> True | Some s \<Rightarrow> ni_source r = s) (notice_item d)"

definition notice_order :: "notice_item_row \<Rightarrow> notice_item_row \<Rightarrow> bool" where
  "notice_order = then_by (desc shown_at) (desc ni_updated_at)"

text \<open>
  A search text adds \<open>title LIKE $q ESCAPE\<close> with the escape text of \<open>sql_like\<close>; \<open>escapeLike\<close> puts two
  backslashes before \<open>%\<close> and \<open>_\<close> and doubles a pair of them. The condition is evaluated for the rows of the source, first
  by the count.
\<close>

fun double_pairs :: "string \<Rightarrow> string" where
  "double_pairs (a # b # s) =
     (if a = CHR 0x5C \<and> b = CHR 0x5C then replicate 4 (CHR 0x5C) @ double_pairs s else a # double_pairs (b # s))"
| "double_pairs s = s"

definition escape_like :: "string \<Rightarrow> string" where
  "escape_like s = replace_char (CHR ''_'') [CHR 0x5C, CHR 0x5C, CHR ''_'']
     (replace_char (CHR ''%'') [CHR 0x5C, CHR 0x5C, CHR ''%''] (double_pairs s))"

definition notice_pattern :: "string \<Rightarrow> string" where
  "notice_pattern q = ''%'' @ escape_like q @ ''%''"

definition list_notices ::
  "notice_source option \<Rightarrow> string option \<Rightarrow> jsnum \<Rightarrow> jsnum \<Rightarrow> db \<Rightarrow> err + notice_page" where
  "list_notices source q page_in page_size_in d =
     (let page = num_max (num 1) page_in;
          page_size = num_max (num 1) (num_min (num 50) page_size_in);
          offset = num_mul (num_sub page (num 1)) page_size in
      case search_where (map_option notice_pattern (trimmed_opt q)) ni_title (notices_of source d) of
        Inl e \<Rightarrow> Inl e
      | Inr rows \<Rightarrow>
          (case page_rows page_size offset (order_by notice_order rows) of
             Inl e \<Rightarrow> Inl e
           | Inr items \<Rightarrow> Inr \<lparr>np_page = page, np_page_size = page_size, np_total = length rows,
                               np_items = map read_notice items\<rparr>))"

section \<open>Items, snapshots, diffs\<close>

definition find_notice :: "notice_source \<Rightarrow> string \<Rightarrow> db \<Rightarrow> notice_item_row option" where
  "find_notice source external_id d =
     find (\<lambda>r. ni_source r = source \<and> ni_external_id r = external_id) (notice_item d)"

definition upsert_notice_item ::
  "string \<Rightarrow> string \<Rightarrow> notice_source \<Rightarrow> string \<Rightarrow> string \<Rightarrow> string \<Rightarrow> string option \<Rightarrow> string option \<Rightarrow>
   (db, string) op" where
  "upsert_notice_item uid now source external_id url title published_at updated_in = reading (\<lambda>d.
     let updated_at = (case updated_in of Some s \<Rightarrow> s | None \<Rightarrow> now);
         insert_new = and_then (insert_notice_item
           \<lparr>ni_id = uid, ni_source = source, ni_external_id = external_id, ni_url = url, ni_title = title,
            ni_published_at = published_at, ni_created_at = now, ni_updated_at = updated_at\<rparr>) (\<lambda>_. ret uid) in
     case find_notice source external_id d of
       None \<Rightarrow> insert_new
     | Some existing \<Rightarrow>
         if ni_id existing = [] then insert_new
         else and_then (modify (notice_item_update (update_where (\<lambda>r. ni_id r = ni_id existing)
           (\<lambda>r. r\<lparr>ni_url := url, ni_title := title, ni_published_at := published_at,
                  ni_updated_at := updated_at\<rparr>)))) (\<lambda>_. ret (ni_id existing)))"

definition get_notice_item_by_external_id ::
  "notice_source \<Rightarrow> string \<Rightarrow> db \<Rightarrow> (string \<times> string) option" where
  "get_notice_item_by_external_id source external_id d =
     map_option (\<lambda>r. (ni_id r, ni_updated_at r)) (find_notice source external_id d)"

text \<open>\<open>ORDER BY k DESC LIMIT 1\<close>.\<close>

definition newest_by :: "('r \<Rightarrow> string) \<Rightarrow> 'r list \<Rightarrow> 'r option" where
  "newest_by key rows = (case order_by (desc key) rows of [] \<Rightarrow> None | r # _ \<Rightarrow> Some r)"

definition get_latest_snapshot :: "string \<Rightarrow> db \<Rightarrow> notice_snapshot_row option" where
  "get_latest_snapshot notice_item_id d =
     newest_by ns_fetched_at (filter (\<lambda>r. ns_notice_item_id r = notice_item_id) (notice_snapshot d))"

record snapshot_result =
  sr_id :: string
  sr_fetched_at :: string
  sr_inserted :: bool

definition upsert_snapshot ::
  "string \<Rightarrow> string \<Rightarrow> string \<Rightarrow> string \<Rightarrow> string \<Rightarrow> (db, snapshot_result) op" where
  "upsert_snapshot uid now notice_item_id content_hash normalized_text = reading (\<lambda>d.
     let insert_new = and_then (insert_notice_snapshot
           \<lparr>ns_id = uid, ns_notice_item_id = notice_item_id, ns_fetched_at = now,
            ns_content_hash = content_hash, ns_normalized_text = normalized_text\<rparr>) (\<lambda>_.
           ret \<lparr>sr_id = uid, sr_fetched_at = now, sr_inserted = True\<rparr>) in
     case find (\<lambda>r. ns_notice_item_id r = notice_item_id \<and> ns_content_hash r = content_hash) (notice_snapshot d) of
       None \<Rightarrow> insert_new
     | Some existing \<Rightarrow>
         if ns_id existing = [] then insert_new
         else ret \<lparr>sr_id = ns_id existing, sr_fetched_at = ns_fetched_at existing, sr_inserted = False\<rparr>)"

definition upsert_diff ::
  "string \<Rightarrow> string \<Rightarrow> string \<Rightarrow> string \<Rightarrow> string \<Rightarrow> jsval \<Rightarrow> (db, string \<times> bool) op" where
  "upsert_diff uid now notice_item_id from_id to_id diff = reading (\<lambda>d.
     let json = jsonify diff;
         insert_new = and_then (insert_notice_diff Abort
           \<lparr>nd_id = uid, nd_notice_item_id = notice_item_id, nd_from_snapshot_id = from_id,
            nd_to_snapshot_id = to_id, nd_diff_json = json, nd_created_at = now\<rparr>) (\<lambda>_. ret (uid, True)) in
     case find (\<lambda>r. nd_from_snapshot_id r = from_id \<and> nd_to_snapshot_id r = to_id) (notice_diff d) of
       None \<Rightarrow> insert_new
     | Some existing \<Rightarrow>
         if nd_id existing = [] then insert_new
         else and_then (modify (notice_diff_update (update_where (\<lambda>r. nd_id r = nd_id existing)
           (\<lambda>r. r\<lparr>nd_diff_json := json\<rparr>)))) (\<lambda>_. ret (nd_id existing, False)))"

definition get_latest_diff :: "string \<Rightarrow> db \<Rightarrow> notice_diff_row option" where
  "get_latest_diff notice_item_id d =
     newest_by nd_created_at (filter (\<lambda>r. nd_notice_item_id r = notice_item_id) (notice_diff d))"

definition get_notice :: "string \<Rightarrow> db \<Rightarrow> notice_item_row option" where
  "get_notice notice_item_id d = map_option read_notice (find (\<lambda>r. ni_id r = notice_item_id) (notice_item d))"

section \<open>Invariants\<close>

context db_invariant
begin

lemma upsert_notice_item_keeps [keeps_intro]:
  "keeps I (upsert_notice_item uid now source external_id url title published_at updated_at)"
  unfolding upsert_notice_item_def by (auto simp: Let_def intro!: keeps_intro)

lemma upsert_snapshot_keeps [keeps_intro]: "keeps I (upsert_snapshot uid now item hash text)"
  unfolding upsert_snapshot_def by (auto simp: Let_def intro!: keeps_intro)

lemma upsert_diff_keeps [keeps_intro]: "keeps I (upsert_diff uid now item a b diff)"
  unfolding upsert_diff_def by (auto simp: Let_def intro!: keeps_intro)

end

section \<open>Paging\<close>

lemma page_rows_num:
  assumes "0 \<le> l" "0 \<le> b"
  shows "page_rows (num l) (num b) xs = Inr (take (nat l) (drop (nat b) xs))"
  using assms by (simp add: page_rows_def limit_rows_num) (simp add: num_def)

definition page_size_of :: "int \<Rightarrow> int" where
  "page_size_of n = max 1 (min 50 n)"

lemma list_notices_page:
  assumes "1 \<le> p" "trimmed_opt q = None"
  shows "list_notices source q (num p) (num n) d = Inr \<lparr>np_page = num p, np_page_size = num (page_size_of n),
    np_total = length (notices_of source d),
    np_items = map read_notice (take (nat (page_size_of n)) (drop (nat (page_size_of n) * nat (p - 1))
      (order_by notice_order (notices_of source d))))\<rparr>"
proof -
  have size: "num_max (num 1) (num_min (num 50) (num n)) = num (page_size_of n)"
    by (simp add: page_size_of_def)
  have ps: "1 \<le> page_size_of n" by (simp add: page_size_of_def)
  have "0 \<le> (p - 1) * page_size_of n" using assms(1) ps by simp
  then have page: "page_rows (num (page_size_of n)) (num ((p - 1) * page_size_of n)) xs =
      Inr (take (nat (page_size_of n)) (drop (nat (page_size_of n) * nat (p - 1)) xs))"
    for xs :: "notice_item_row list"
    using page_rows_num [of "page_size_of n" "(p - 1) * page_size_of n" xs] ps assms(1)
    by (simp add: nat_mult_distrib mult.commute)
  have "num_max (num 1) (num p) = num p" using assms(1) by (simp add: max_def)
  then show ?thesis
    unfolding list_notices_def Let_def size by (simp add: page assms(2))
qed

lemma concat_pages:
  "concat (map (\<lambda>i. take k (drop (k * i) xs)) [0..<n]) = take (k * n) xs"
  by (induction n) (simp_all add: take_add [symmetric] algebra_simps)

definition page_items :: "err + notice_page \<Rightarrow> notice_item_row list" where
  "page_items r = (case r of Inr p \<Rightarrow> np_items p | Inl _ \<Rightarrow> [])"

lemma notice_pages:
  assumes "trimmed_opt q = None"
  shows "concat (map (\<lambda>i. page_items (list_notices source q (num (int i + 1)) (num n) d)) [0..<k]) =
    map read_notice (take (nat (page_size_of n) * k) (order_by notice_order (notices_of source d)))"
proof -
  have pages: "map (\<lambda>i. page_items (list_notices source q (num (int i + 1)) (num n) d)) [0..<k] =
      map (\<lambda>i. map read_notice (take (nat (page_size_of n)) (drop (nat (page_size_of n) * i)
        (order_by notice_order (notices_of source d))))) [0..<k]"
    using assms by (simp add: list_notices_page page_items_def)
  show ?thesis unfolding pages concat_pages [symmetric] map_concat by (simp add: comp_def)
qed

text \<open>
  For whole page numbers and sizes, a page holds at most 50 notices, and the pages 1 to n
  together are the first entries of the list of all notices of the source, newest first:
  no notice is skipped and none is shown twice.
\<close>

theorem pages_partition_notices:
  assumes "trimmed_opt q = None"
  shows "(\<forall>p \<ge> 1. \<exists>page. list_notices source q (num p) (num n) d = Inr page
        \<and> length (np_items page) \<le> 50 \<and> np_total page = length (notices_of source d))
    \<and> concat (map (\<lambda>i. page_items (list_notices source q (num (int i + 1)) (num n) d)) [0..<k]) =
        map read_notice (take (nat (page_size_of n) * k) (order_by notice_order (notices_of source d)))"
proof (intro conjI allI impI)
  fix p :: int assume p: "1 \<le> p"
  have "nat (page_size_of n) \<le> 50" by (simp add: page_size_of_def)
  then show "\<exists>page. list_notices source q (num p) (num n) d = Inr page
        \<and> length (np_items page) \<le> 50 \<and> np_total page = length (notices_of source d)"
    unfolding list_notices_page [OF p assms] by simp
next
  show "concat (map (\<lambda>i. page_items (list_notices source q (num (int i + 1)) (num n) d)) [0..<k]) =
        map read_notice (take (nat (page_size_of n) * k) (order_by notice_order (notices_of source d)))"
    by (rule notice_pages [OF assms])
qed

definition sample_notice :: "string \<Rightarrow> string \<Rightarrow> notice_item_row" where
  "sample_notice i t = \<lparr>ni_id = i, ni_source = NOTICE, ni_external_id = i, ni_url = ''u'', ni_title = t,
     ni_published_at = None, ni_created_at = ''x'', ni_updated_at = ''x''\<rparr>"

definition notice_db :: db where
  "notice_db = (empty_db True)\<lparr>foreign_keys := True,
     notice_item := [sample_notice ''n1'' ''Patch'', sample_notice ''n2'' ''Event'']\<rparr>"

theorem pages_partition_notices_witness:
  "concat (map (\<lambda>i. page_items (list_notices (Some NOTICE) None (num (int i + 1)) (num 1) notice_db)) [0..<2]) =
    map read_notice (take (nat (page_size_of 1) * 2) (order_by notice_order (notices_of (Some NOTICE) notice_db)))"
  by (rule conjunct2 [OF pages_partition_notices]) (simp add: trimmed_opt_def)

text \<open>
  C24. Searching notices by text never finds anything. With the escape text that reaches SQLite the condition of the search
  is an error at the first row, so the search fails as soon as the source has a notice, whatever the text and the page,
  and also for a text that a title contains; while the source has none, the first page is empty.
\<close>

theorem notice_search_always_fails:
  assumes "trimmed_opt q \<noteq> None"
  shows "if \<exists>r \<in> set (notice_item d). source = None \<or> source = Some (ni_source r)
    then \<exists>m. list_notices source q page page_size d = Inl (SqlError m)
    else \<exists>p. list_notices source q (num 1) (num 20) d = Inr p \<and> np_items p = [] \<and> np_total p = 0"
proof (cases "notices_of source d = []")
  case True
  then have "\<not> (\<exists>r \<in> set (notice_item d). source = None \<or> source = Some (ni_source r))"
    by (cases source) (auto simp: notices_of_def filter_empty_conv)
  moreover have "\<exists>p. list_notices source q (num 1) (num 20) d = Inr p \<and> np_items p = [] \<and> np_total p = 0"
    using True page_rows_num [of 20 0 "[] :: notice_item_row list"]
    by (simp add: list_notices_def Let_def order_by_def)
  ultimately show ?thesis by (simp only: if_False)
next
  case False
  from assms obtain t where "trimmed_opt q = Some t" by auto
  with search_where_fails [OF False, of "notice_pattern t" ni_title]
  have "\<exists>m. list_notices source q page page_size d = Inl (SqlError m)" by (auto simp: list_notices_def Let_def)
  moreover from False have "\<exists>r \<in> set (notice_item d). source = None \<or> source = Some (ni_source r)"
    by (cases source) (auto simp: notices_of_def filter_empty_conv dest: hd_in_set)
  ultimately show ?thesis by (simp only: if_True)
qed

theorem notice_search_always_fails_witness:
  "\<exists>m. list_notices (Some NOTICE) (Some ''Ore'') (num 1) (num 20) notice_db = Inl (SqlError m)"
proof -
  have q: "trimmed_opt (Some ''Ore'') \<noteq> None" by (simp add: trimmed_opt_def trimmed_def)
  have r: "\<exists>r \<in> set (notice_item notice_db). Some NOTICE = None \<or> Some NOTICE = Some (ni_source r)"
    by (simp add: notice_db_def sample_notice_def)
  show ?thesis
    by (rule notice_search_always_fails [OF q, of notice_db "Some NOTICE" "num 1" "num 20", unfolded if_P [OF r]])
qed

section \<open>Storing the same notice again\<close>

text \<open>
  A notice is identified by its source and external id: after it was stored, it is found under
  them, and storing it again, with whatever new title, link or dates, changes that row and adds
  none.
\<close>

theorem notice_upsert_is_by_key:
  assumes "upsert_notice_item uid now source ext url title pub upd d = (Inr i, d1)" and "uid \<noteq> []"
  shows "get_notice_item_by_external_id source ext d1 = Some (i, case upd of Some s \<Rightarrow> s | None \<Rightarrow> now)
    \<and> (\<exists>d2. upsert_notice_item uid' now' source ext url' title' pub' upd' d1 = (Inr i, d2)
        \<and> map ni_id (notice_item d2) = map ni_id (notice_item d1)
        \<and> get_notice_item_by_external_id source ext d2 = Some (i, case upd' of Some s \<Rightarrow> s | None \<Rightarrow> now'))"
proof -
  have again: "\<exists>d2. upsert_notice_item uid' now' source ext url' title' pub' upd' e = (Inr (ni_id r), d2)
        \<and> map ni_id (notice_item d2) = map ni_id (notice_item e)
        \<and> get_notice_item_by_external_id source ext d2 = Some (ni_id r, case upd' of Some s \<Rightarrow> s | None \<Rightarrow> now')"
    if r: "find_notice source ext e = Some r" "ni_id r \<noteq> []"
    for r e uid' now' url' title' pub' upd'
  proof -
    define f :: "notice_item_row \<Rightarrow> notice_item_row" where "f = (\<lambda>r. r\<lparr>ni_url := url', ni_title := title',
      ni_published_at := pub', ni_updated_at := (case upd' of Some s \<Rightarrow> s | None \<Rightarrow> now')\<rparr>)"
    define d2 where "d2 = notice_item_update (update_where (\<lambda>x. ni_id x = ni_id r) f) e"
    have run: "upsert_notice_item uid' now' source ext url' title' pub' upd' e = (Inr (ni_id r), d2)"
      using r by (simp add: upsert_notice_item_def reading_apply Let_def and_then_apply modify_apply ret_apply
          d2_def f_def [symmetric])
    have key: "ni_source (f x) = ni_source x" "ni_external_id (f x) = ni_external_id x" "ni_id (f x) = ni_id x" for x
      by (simp_all add: f_def)
    have "map ni_id (update_where (\<lambda>x. ni_id x = ni_id r) f t) = map ni_id t" for t
      by (induction t) (simp_all add: update_where_def key)
    then have "map ni_id (notice_item d2) = map ni_id (notice_item e)" by (simp add: d2_def)
    moreover have "find_notice source ext d2 = Some (f r)"
      using r by (simp add: find_notice_def d2_def find_update_any key)
    ultimately show ?thesis using run by (simp add: get_notice_item_by_external_id_def) (simp add: f_def)
  qed
  have first: "\<exists>r. find_notice source ext d1 = Some r \<and> ni_id r = i \<and> i \<noteq> []
      \<and> ni_updated_at r = (case upd of Some s \<Rightarrow> s | None \<Rightarrow> now)"
  proof (cases "\<exists>r. find_notice source ext d = Some r \<and> ni_id r \<noteq> []")
    case True
    then obtain r where r: "find_notice source ext d = Some r" "ni_id r \<noteq> []" by blast
    from again [OF r, of uid now url title pub upd] assms(1) have "i = ni_id r"
      "get_notice_item_by_external_id source ext d1 = Some (ni_id r, case upd of Some s \<Rightarrow> s | None \<Rightarrow> now)" by auto
    with r(2) show ?thesis by (auto simp: get_notice_item_by_external_id_def)
  next
    case False
    define row where "row = \<lparr>ni_id = uid, ni_source = source, ni_external_id = ext, ni_url = url, ni_title = title,
      ni_published_at = pub, ni_created_at = now, ni_updated_at = (case upd of Some s \<Rightarrow> s | None \<Rightarrow> now)\<rparr>"
    obtain r e where ins: "insert_notice_item row d = (r, e)" by force
    have "and_then (insert_notice_item row) (\<lambda>_. ret uid) d = (Inr i, d1)"
      using assms(1) False unfolding row_def
      by (cases "find_notice source ext d") (auto simp: upsert_notice_item_def reading_apply Let_def)
    with ins have r: "r = Inr ()" "e = d1" "i = uid"
      by (auto simp: and_then_apply ret_apply split: sum.splits)
    from insert_into_done [OF ins [unfolded insert_notice_item_def r(1)]]
    have d1: "notice_item d1 = notice_item d @ [row]" and fresh: "\<forall>x \<in> set (notice_item d). \<not> clash_notice_item x row"
      by (simp_all add: r(2))
    have "find (\<lambda>r. ni_source r = source \<and> ni_external_id r = ext) (notice_item d) = None"
      using fresh by (auto simp: find_None_iff clash_notice_item_def row_def)
    then have "find_notice source ext d1 = Some row" by (simp add: find_notice_def d1 find_append) (simp add: row_def)
    with r(3) assms(2) show ?thesis by (simp add: row_def)
  qed
  then obtain r where r: "find_notice source ext d1 = Some r" "ni_id r \<noteq> []" "i = ni_id r"
    "ni_updated_at r = (case upd of Some s \<Rightarrow> s | None \<Rightarrow> now)" by auto
  from again [OF r(1,2)] r show ?thesis by (simp add: get_notice_item_by_external_id_def)
qed

theorem notice_upsert_is_by_key_witness:
  "\<exists>d1. upsert_notice_item ''n3'' ''now'' NOTICE ''77'' ''u'' ''t'' None None notice_db = (Inr ''n3'', d1)
    \<and> get_notice_item_by_external_id NOTICE ''77'' d1 = Some (''n3'', ''now'')"
proof -
  obtain d1 where run: "upsert_notice_item ''n3'' ''now'' NOTICE ''77'' ''u'' ''t'' None None notice_db = (Inr ''n3'', d1)"
    by (simp add: upsert_notice_item_def reading_apply Let_def find_notice_def notice_db_def sample_notice_def
        and_then_apply ret_apply insert_notice_item_def insert_into_def clash_notice_item_def refs_notice_item_def
        empty_db_def)
  have "''n3'' \<noteq> []" by simp
  from conjunct1 [OF notice_upsert_is_by_key [OF run this]] run show ?thesis by (intro exI conjI) simp_all
qed

text \<open>
  A snapshot with the same content is stored once: storing it again returns the id and the time
  of the first one and leaves the database as it is.
\<close>

theorem snapshot_stored_once:
  assumes "upsert_snapshot uid now item hash text d = (Inr r, d1)" and "uid \<noteq> []"
  shows "upsert_snapshot uid' now' item hash text' d1 = (Inr (r\<lparr>sr_inserted := False\<rparr>), d1)"
proof -
  let ?P = "\<lambda>x. ns_notice_item_id x = item \<and> ns_content_hash x = hash"
  define row where "row = \<lparr>ns_id = uid, ns_notice_item_id = item, ns_fetched_at = now,
    ns_content_hash = hash, ns_normalized_text = text\<rparr>"
  have "\<exists>x. find ?P (notice_snapshot d1) = Some x \<and> ns_id x \<noteq> [] \<and> ns_id x = sr_id r \<and> ns_fetched_at x = sr_fetched_at r"
  proof (cases "\<exists>x. find ?P (notice_snapshot d) = Some x \<and> ns_id x \<noteq> []")
    case True
    with assms(1) show ?thesis by (auto simp: upsert_snapshot_def reading_apply ret_apply Let_def)
  next
    case False
    have "and_then (insert_notice_snapshot row) (\<lambda>_. ret \<lparr>sr_id = uid, sr_fetched_at = now, sr_inserted = True\<rparr>) d
        = (Inr r, d1)"
      using assms(1) False unfolding row_def
      by (cases "find ?P (notice_snapshot d)") (auto simp: upsert_snapshot_def reading_apply Let_def)
    moreover obtain q e where ins: "insert_notice_snapshot row d = (q, e)" by force
    ultimately have q: "q = Inr ()" "e = d1" "r = \<lparr>sr_id = uid, sr_fetched_at = now, sr_inserted = True\<rparr>"
      by (auto simp: and_then_apply ret_apply split: sum.splits)
    from insert_into_done [OF ins [unfolded insert_notice_snapshot_def q(1)]]
    have d1: "notice_snapshot d1 = notice_snapshot d @ [row]"
      and fresh: "\<forall>x \<in> set (notice_snapshot d). \<not> clash_notice_snapshot x row" by (simp_all add: q(2))
    have "find ?P (notice_snapshot d) = None"
      using fresh by (auto simp: find_None_iff clash_notice_snapshot_def row_def)
    then show ?thesis using assms(2) q(3) by (simp add: d1 find_append) (simp add: row_def)
  qed
  then show ?thesis by (auto simp: upsert_snapshot_def reading_apply ret_apply Let_def)
qed

theorem snapshot_stored_once_witness:
  "\<exists>d1. upsert_snapshot ''s2'' ''later'' ''n1'' ''h'' ''text''  d1 =
     (Inr \<lparr>sr_id = ''s1'', sr_fetched_at = ''now'', sr_inserted = False\<rparr>, d1) \<and> notice_snapshot d1 \<noteq> []"
proof -
  obtain d1 where run: "upsert_snapshot ''s1'' ''now'' ''n1'' ''h'' ''text'' notice_db =
      (Inr \<lparr>sr_id = ''s1'', sr_fetched_at = ''now'', sr_inserted = True\<rparr>, d1)" "notice_snapshot d1 \<noteq> []"
    by (simp add: upsert_snapshot_def reading_apply Let_def notice_db_def sample_notice_def
        and_then_apply ret_apply insert_notice_snapshot_def insert_into_def clash_notice_snapshot_def
        refs_notice_snapshot_def has_id_def empty_db_def)
  have "''s1'' \<noteq> []" by simp
  from snapshot_stored_once [OF run(1) this, of "''s2''" "''later''" "''text''"] run(2)
  show ?thesis by (intro exI conjI) simp_all
qed

end
