(* ===== verification/LineDiff.thy ===== *)
theory LineDiff
  imports Notices
begin

text \<open>
  The difference between two versions of a notice (\<open>main/notices/diff.ts\<close>). The package
  \<open>diff\<close> computes the changes; its function \<open>diffLines\<close> is the parameter
  \<open>diff_lines\<close>.
\<close>

section \<open>Lines\<close>

abbreviation newline :: char where
  "newline \<equiv> CHR 0x0A"

definition cr :: char where
  "cr = CHR 0x0D"

definition normalize_newlines :: "string \<Rightarrow> string" where
  "normalize_newlines s = replace_all [cr] [newline] (replace_all [cr, newline] [newline] s)"

text \<open>\<open>split("\n")\<close> always gives a part; an empty last part is dropped.\<close>

definition split_lines :: "string \<Rightarrow> string list" where
  "split_lines s =
     (let parts = split_on newline (normalize_newlines s) in
      if last parts = [] then butlast parts else parts)"

definition ensure_trailing_newline :: "string \<Rightarrow> string" where
  "ensure_trailing_newline s =
     (let t = normalize_newlines s in if ends_with t [newline] then t else t @ [newline])"

section \<open>Blocks\<close>

datatype block_type = Same | Added | Removed

record change =
  cg_added :: bool
  cg_removed :: bool
  cg_value :: string

record diff_block =
  bl_type :: block_type
  bl_lines :: "string list"

definition change_type :: "change \<Rightarrow> block_type" where
  "change_type c = (if cg_added c then Added else if cg_removed c then Removed else Same)"

text \<open>One round of the loop; the blocks are collected last one first.\<close>

definition add_change :: "diff_block list \<Rightarrow> change \<Rightarrow> diff_block list" where
  "add_change blocks c =
     (let ty = change_type c; lines = split_lines (cg_value c) in
      if lines = [] then blocks
      else case blocks of
        b # bs \<Rightarrow> if bl_type b = ty then b\<lparr>bl_lines := bl_lines b @ lines\<rparr> # bs
                  else \<lparr>bl_type = ty, bl_lines = lines\<rparr> # b # bs
      | [] \<Rightarrow> [\<lparr>bl_type = ty, bl_lines = lines\<rparr>])"

definition build_line_diff :: "(string \<Rightarrow> string \<Rightarrow> change list) \<Rightarrow> string \<Rightarrow> string \<Rightarrow> diff_block list" where
  "build_line_diff diff_lines from to =
     rev (foldl add_change [] (diff_lines (ensure_trailing_newline from) (ensure_trailing_newline to)))"

definition block_json :: "diff_block \<Rightarrow> jsval" where
  "block_json b = Obj [(''type'', Str (case bl_type b of Same \<Rightarrow> ''same'' | Added \<Rightarrow> ''added'' | Removed \<Rightarrow> ''removed'')),
     (''lines'', Arr (map Str (bl_lines b)))]"

section \<open>What a difference shows\<close>

text \<open>
  What \<open>diffLines\<close> documents: the values of the changes that are not added make up the old
  text, those that are not removed the new one, no change is both, and a change consists of whole
  lines, each with its newline.
\<close>

definition line_diff_contract :: "(string \<Rightarrow> string \<Rightarrow> change list) \<Rightarrow> bool" where
  "line_diff_contract diff_lines \<longleftrightarrow> (\<forall>a b. ends_with a [newline] \<longrightarrow> ends_with b [newline] \<longrightarrow>
     concat (map cg_value (filter (\<lambda>c. \<not> cg_added c) (diff_lines a b))) = a
     \<and> concat (map cg_value (filter (\<lambda>c. \<not> cg_removed c) (diff_lines a b))) = b
     \<and> (\<forall>c \<in> set (diff_lines a b). \<not> (cg_added c \<and> cg_removed c) \<and> ends_with (cg_value c) [newline]))"

definition block_text :: "(block_type \<Rightarrow> bool) \<Rightarrow> diff_block list \<Rightarrow> string list" where
  "block_text keep bs = concat (map bl_lines (filter (\<lambda>b. keep (bl_type b)) bs))"

lemma replace_all_absent: "p \<noteq> [] \<Longrightarrow> hd p \<notin> set s \<Longrightarrow> replace_all p r s = s"
  by (induction p r s rule: replace_all.induct) (auto simp: neq_Nil_conv)

lemma replace_all_char: "replace_all [a] [b] s = map (\<lambda>x. if x = a then b else x) s"
  by (induction s) auto

lemma normalized: "cr \<notin> set s \<Longrightarrow> normalize_newlines s = s"
  by (simp add: normalize_newlines_def replace_all_absent)

lemma normalize_no_cr: "cr \<notin> set (normalize_newlines s)"
  by (auto simp: normalize_newlines_def replace_all_char cr_def)

lemma ensure_ok: "cr \<notin> set (ensure_trailing_newline s)" "ends_with (ensure_trailing_newline s) [newline]"
  using normalize_no_cr [of s]
  by (auto simp: ensure_trailing_newline_def Let_def ends_with_def cr_def suffix_def)

lemma split_on_terminated: "split_on c (s @ [c]) = split_on c s @ [[]]"
  by (induction s) (auto split: list.splits)

lemma split_on_append: "split_on c (s @ c # t) = split_on c s @ split_on c t"
  by (induction s) (auto split: list.splits)

text \<open>For text that ends with a newline, splitting into lines distributes over concatenation.\<close>

lemma lines_terminated: "cr \<notin> set s \<Longrightarrow> split_lines (s @ [newline]) = split_on newline s"
  by (simp add: split_lines_def normalized cr_def split_on_terminated)

lemma lines_append:
  assumes "ends_with s [newline]" "ends_with t [newline]" "cr \<notin> set (s @ t)"
  shows "split_lines (s @ t) = split_lines s @ split_lines t"
proof -
  from assms obtain s' t' where s: "s = s' @ [newline]" and t: "t = t' @ [newline]"
    by (auto simp: ends_with_def suffix_def)
  have "split_lines (s @ t) = split_on newline (s' @ newline # t')"
    using lines_terminated [of "s' @ newline # t'"] assms(3) by (simp add: s t cr_def)
  with lines_terminated [of s'] lines_terminated [of t'] assms(3) show ?thesis
    by (simp add: s t split_on_append)
qed

lemma lines_nonempty: "ends_with s [newline] \<Longrightarrow> cr \<notin> set s \<Longrightarrow> split_lines s \<noteq> []"
  by (auto simp: ends_with_def suffix_def lines_terminated)

lemma ends_with_concat: "xs \<noteq> [] \<Longrightarrow> \<forall>x \<in> set xs. ends_with x p \<Longrightarrow> ends_with (concat xs) p"
  by (induction xs rule: rev_induct) (auto simp: ends_with_def suffix_def)

lemma lines_concat:
  "\<forall>x \<in> set xs. ends_with x [newline] \<and> cr \<notin> set x \<Longrightarrow> xs \<noteq> [] \<Longrightarrow>
   split_lines (concat xs) = concat (map split_lines xs)"
proof (induction xs)
  case (Cons x xs)
  show ?case
  proof (cases "xs = []")
    case False
    with Cons have "ends_with (concat xs) [newline]" by (simp add: ends_with_concat)
    with Cons False show ?thesis by (simp add: lines_append)
  qed simp
qed simp

lemma add_change_text:
  "block_text keep (rev (add_change bs c)) =
     block_text keep (rev bs) @ (if keep (change_type c) then split_lines (cg_value c) else [])"
  by (auto simp: add_change_def Let_def block_text_def split: list.split)

lemma add_changes_text:
  "block_text keep (rev (foldl add_change bs cs)) =
     block_text keep (rev bs) @ concat (map (\<lambda>c. split_lines (cg_value c)) (filter (keep \<circ> change_type) cs))"
  by (induction cs arbitrary: bs) (auto simp: add_change_text)

definition blocks_ok :: "diff_block list \<Rightarrow> bool" where
  "blocks_ok bs \<longleftrightarrow> (\<forall>b \<in> set bs. bl_lines b \<noteq> []) \<and> successively (\<lambda>x y. bl_type x \<noteq> bl_type y) bs"

lemma add_change_ok: "blocks_ok bs \<Longrightarrow> blocks_ok (add_change bs c)"
  by (cases bs) (auto simp: add_change_def Let_def blocks_ok_def successively_Cons)

lemma add_changes_ok: "blocks_ok bs \<Longrightarrow> blocks_ok (foldl add_change bs cs)"
  by (induction cs arbitrary: bs) (auto intro: add_change_ok)

lemma blocks_ok_rev: "blocks_ok bs \<Longrightarrow> blocks_ok (rev bs)"
  by (simp add: blocks_ok_def successively_rev) (metis (mono_tags, lifting) successively_mono)

lemma shown_lines:
  assumes "concat (map cg_value (filter P cs)) = a" "ends_with a [newline]" "cr \<notin> set a"
    and "\<forall>c \<in> set cs. ends_with (cg_value c) [newline]"
  shows "concat (map (\<lambda>c. split_lines (cg_value c)) (filter P cs)) = split_lines a"
proof -
  let ?vs = "map cg_value (filter P cs)"
  have "?vs \<noteq> []" using assms(1,2) by (auto simp: ends_with_def)
  moreover have "\<forall>x \<in> set ?vs. ends_with x [newline] \<and> cr \<notin> set x" using assms by auto
  ultimately have "split_lines (concat ?vs) = concat (map split_lines ?vs)" by (intro lines_concat)
  with assms(1) show ?thesis by (simp add: comp_def)
qed

text \<open>
  C26. The stored difference of two versions shows both: without the added blocks it is the lines of the
  old text, without the removed blocks the lines of the new one, no block is empty, and two
  neighbouring blocks are of different kinds.
\<close>

theorem diff_shows_both_versions:
  assumes "line_diff_contract diff_lines"
  shows "block_text (\<lambda>t. t \<noteq> Added) (build_line_diff diff_lines from to) = split_lines (ensure_trailing_newline from)
    \<and> block_text (\<lambda>t. t \<noteq> Removed) (build_line_diff diff_lines from to) = split_lines (ensure_trailing_newline to)
    \<and> blocks_ok (build_line_diff diff_lines from to)"
proof -
  define cs where "cs = diff_lines (ensure_trailing_newline from) (ensure_trailing_newline to)"
  have old: "concat (map cg_value (filter (\<lambda>c. \<not> cg_added c) cs)) = ensure_trailing_newline from"
    and new: "concat (map cg_value (filter (\<lambda>c. \<not> cg_removed c) cs)) = ensure_trailing_newline to"
    and all: "\<forall>c \<in> set cs. \<not> (cg_added c \<and> cg_removed c) \<and> ends_with (cg_value c) [newline]"
    using assms ensure_ok(2) by (auto simp: line_diff_contract_def cs_def)
  have kinds: "filter ((\<lambda>t. t \<noteq> Added) \<circ> change_type) cs = filter (\<lambda>c. \<not> cg_added c) cs"
    "filter ((\<lambda>t. t \<noteq> Removed) \<circ> change_type) cs = filter (\<lambda>c. \<not> cg_removed c) cs"
    using all by (auto simp: change_type_def intro!: filter_cong)
  have none: "block_text keep [] = []" for keep by (simp add: block_text_def)
  have "block_text (\<lambda>t. t \<noteq> Added) (build_line_diff diff_lines from to) = split_lines (ensure_trailing_newline from)"
    using shown_lines [OF old ensure_ok(2,1)] all
    by (simp add: build_line_diff_def cs_def [symmetric] add_changes_text kinds none)
  moreover have "block_text (\<lambda>t. t \<noteq> Removed) (build_line_diff diff_lines from to) = split_lines (ensure_trailing_newline to)"
    using shown_lines [OF new ensure_ok(2,1)] all
    by (simp add: build_line_diff_def cs_def [symmetric] add_changes_text kinds none)
  moreover have "blocks_ok (build_line_diff diff_lines from to)"
    using add_changes_ok [of "[]" cs] blocks_ok_rev by (simp add: build_line_diff_def cs_def [symmetric] blocks_ok_def)
  ultimately show ?thesis by (intro conjI)
qed

text \<open>The coarsest difference: everything is removed and added, unless nothing changed.\<close>

definition whole_diff :: "string \<Rightarrow> string \<Rightarrow> change list" where
  "whole_diff a b =
     (if a = b then [\<lparr>cg_added = False, cg_removed = False, cg_value = a\<rparr>]
      else [\<lparr>cg_added = False, cg_removed = True, cg_value = a\<rparr>, \<lparr>cg_added = True, cg_removed = False, cg_value = b\<rparr>])"

lemma whole_diff_contract: "line_diff_contract whole_diff"
  by (simp add: line_diff_contract_def whole_diff_def)

theorem diff_shows_both_versions_witness:
  "block_text (\<lambda>t. t \<noteq> Added) (build_line_diff whole_diff ''ab'' ''cd'') = [''ab'']"
  using diff_shows_both_versions [OF whole_diff_contract, of "''ab''" "''cd''"]
  by (simp add: ensure_trailing_newline_def normalize_newlines_def Let_def ends_with_def suffix_def
      split_lines_def cr_def replace_all_char)

end
