(* ===== verification/NoticeFetch.thy ===== *)
theory NoticeFetch
  imports Notices "HOL-Library.AList"
begin

text \<open>
  The client of the publisher's board (\<open>packages/notices-client/src/plaync.ts\<close> and
  \<open>date.ts\<close>): reading the untrusted answers, the pages of the newest articles, one article.
  The service is the parameter \<open>http\<close>, the answer to each URL during one run.
\<close>

section \<open>Requests\<close>

record response =
  rs_ok :: bool
  rs_status :: nat
  rs_status_text :: string
  rs_json :: "err + jsval"

type_synonym http = "string \<Rightarrow> err + response"

definition fetch_json :: "http \<Rightarrow> string \<Rightarrow> err + jsval" where
  "fetch_json http url =
     (case http url of
        Inl e \<Rightarrow> Inl e
      | Inr res \<Rightarrow>
          if \<not> rs_ok res
          then Inl (Thrown (''PlayNC API request failed: '' @ show_nat (rs_status res) @ '' '' @ rs_status_text res @ '' url='' @ url))
          else rs_json res)"

text \<open>\<open>data.k\<close> throws when \<open>data\<close> is null or undefined.\<close>

definition property :: "jsval \<Rightarrow> string \<Rightarrow> err + jsval" where
  "property v k = (if v \<in> {Undef, Null} then Inl (Thrown (''Cannot read properties of null or undefined (reading '' @ k @ '')''))
     else Inr (field v k))"

datatype board_alias = NoticeKo | UpdateKo

definition alias_text :: "board_alias \<Rightarrow> string" where
  "alias_text a = (case a of NoticeKo \<Rightarrow> ''notice_ko'' | UpdateKo \<Rightarrow> ''update_ko'')"

definition hex_digit :: "nat \<Rightarrow> char" where
  "hex_digit n = (if n < 10 then digit n else byte (55 + n))"

definition percent :: "char \<Rightarrow> string" where
  "percent c = CHR ''%'' # [hex_digit (of_char c div 16), hex_digit (of_char c mod 16)]"

definition alphanumeric :: "char \<Rightarrow> bool" where
  "alphanumeric c \<longleftrightarrow> is_digit c \<or> (65 \<le> (of_char c :: nat) \<and> (of_char c :: nat) \<le> 90)
     \<or> (97 \<le> (of_char c :: nat) \<and> (of_char c :: nat) \<le> 122)"

definition encode_uri_component :: "string \<Rightarrow> string" where
  "encode_uri_component s =
     concat (map (\<lambda>c. if alphanumeric c \<or> c \<in> set ''-_.!~*'' \<or> c \<in> {CHR 0x27, CHR ''('', CHR '')''} then [c] else percent c) s)"

text \<open>A value of \<open>URLSearchParams\<close>.\<close>

definition encode_param :: "string \<Rightarrow> string" where
  "encode_param s =
     concat (map (\<lambda>c. if alphanumeric c \<or> c \<in> set ''*-._'' then [c] else if c = CHR '' '' then ''+'' else percent c) s)"

section \<open>Articles\<close>

record article_meta =
  am_id :: string
  am_title :: string
  am_url :: string
  am_posted_at :: "string option"
  am_updated_at :: "string option"
  am_published_at :: "string option"

text \<open>The text before and after the first occurrence of \<open>p\<close>.\<close>

fun split_first :: "string \<Rightarrow> string \<Rightarrow> (string \<times> string) option" where
  "split_first p [] = (if p = [] then Some ([], []) else None)"
| "split_first p (c # s) =
     (if prefix p (c # s) then Some ([], drop (length p) (c # s))
      else map_option (\<lambda>(b, a). (c # b, a)) (split_first p s))"

text \<open>
  The replacement text of \<open>String.prototype.replace\<close> with a string pattern: \<open>$$\<close>,
  \<open>$&\<close>, \<open>$`\<close> and \<open>$'\<close> stand for a dollar, the match, and what is before and after it.
\<close>

fun expand_dollars :: "string \<Rightarrow> string \<Rightarrow> string \<Rightarrow> string \<Rightarrow> string" where
  "expand_dollars m b a (x # y # s) =
     (if x \<noteq> CHR ''$'' then x # expand_dollars m b a (y # s)
      else if y = CHR ''$'' then CHR ''$'' # expand_dollars m b a s
      else if y = CHR ''&'' then m @ expand_dollars m b a s
      else if y = CHR 0x60 then b @ expand_dollars m b a s
      else if y = CHR 0x27 then a @ expand_dollars m b a s
      else x # expand_dollars m b a (y # s))"
| "expand_dollars m b a s = s"

definition replace_first :: "string \<Rightarrow> string \<Rightarrow> string \<Rightarrow> string" where
  "replace_first p r s =
     (case split_first p s of None \<Rightarrow> s | Some (b, a) \<Rightarrow> b @ expand_dollars p b a r @ a)"

definition build_fallback_url :: "board_alias \<Rightarrow> string \<Rightarrow> string" where
  "build_fallback_url a article_id =
     ''https://aion2.plaync.com/ko-kr/board/'' @ (if starts_with (alias_text a) ''update'' then ''update'' else ''notice'')
     @ ''/view?articleId='' @ encode_uri_component article_id"

definition build_article_url :: "jsval \<Rightarrow> board_alias \<Rightarrow> string \<Rightarrow> string" where
  "build_article_url url_pattern a article_id =
     (case str_of url_pattern of
        Some s \<Rightarrow> if str_includes s ''{articleId}'' then replace_first ''{articleId}'' article_id s
                  else build_fallback_url a article_id
      | None \<Rightarrow> build_fallback_url a article_id)"

definition to_meta :: "board_alias \<Rightarrow> jsval \<Rightarrow> article_meta option" where
  "to_meta a raw =
     (if \<not> is_object raw then None
      else let stamps = field raw ''timestamps'' in
        case (str_of (field raw ''id''), str_of (field raw ''title'')) of
          (Some i, Some title) \<Rightarrow> Some
            \<lparr>am_id = i, am_title = title,
             am_url = build_article_url (field (field raw ''categoryBoard'') ''boardUrlPattern'') a i,
             am_posted_at = non_empty (str_of (field stamps ''postedAt'')),
             am_updated_at = non_empty (str_of (field stamps ''updatedAt'')),
             am_published_at = non_empty (str_of (field stamps ''publishedAt''))\<rparr>
        | _ \<Rightarrow> None)"

definition api_base :: string where
  "api_base = ''https://api-community.plaync.com/aion2/board''"

definition fetch_pinned_article_metas :: "http \<Rightarrow> board_alias \<Rightarrow> err + article_meta list" where
  "fetch_pinned_article_metas http a =
     (case fetch_json http (api_base @ ''/'' @ alias_text a @ ''/noticeArticle'') of
        Inl e \<Rightarrow> Inl e
      | Inr v \<Rightarrow>
          (case property v ''noticesList'' of
             Inl e \<Rightarrow> Inl e
           | Inr list \<Rightarrow> Inr (List.map_filter (\<lambda>x. if is_object x then to_meta a (field x ''articleMeta'') else None)
               (arr_or_empty list))))"

definition page_url :: "board_alias \<Rightarrow> string \<Rightarrow> nat \<Rightarrow> string" where
  "page_url a previous more_size =
     api_base @ ''/'' @ alias_text a @ ''/article/search/moreArticle?isVote=true&moreSize='' @ show_nat more_size
     @ ''&moreDirection=BEFORE&previousArticleId='' @ encode_param previous"

definition fetch_more_article_metas :: "http \<Rightarrow> board_alias \<Rightarrow> string \<Rightarrow> nat \<Rightarrow> err + article_meta list \<times> bool" where
  "fetch_more_article_metas http a previous more_size =
     (case fetch_json http (page_url a previous more_size) of
        Inl e \<Rightarrow> Inl e
      | Inr v \<Rightarrow>
          (case property v ''contentList'' of
             Inl e \<Rightarrow> Inl e
           | Inr list \<Rightarrow> Inr (List.map_filter (to_meta a) (arr_or_empty list), truthy (field v ''hasMore''))))"

section \<open>The newest articles\<close>

text \<open>\<open>byId.set(meta.id, meta)\<close>: a JavaScript map keeps the place of a key it already has.\<close>

definition set_meta :: "(string \<times> article_meta) list \<Rightarrow> article_meta \<Rightarrow> (string \<times> article_meta) list" where
  "set_meta by_id m = AList.update (am_id m) m by_id"

record latest_options =
  lo_max_pages :: jsnum
  lo_page_size :: nat
  lo_include_pinned :: bool

text \<open>
  The loop over the pages. It ends at the first page that has no successor or no article; with an
  unbounded number of pages it need not end, so the value \<open>None\<close> stands for not returning.
\<close>

partial_function (option) fetch_pages ::
  "http \<Rightarrow> board_alias \<Rightarrow> jsnum \<Rightarrow> nat \<Rightarrow> int \<Rightarrow> string \<Rightarrow> (string \<times> article_meta) list \<Rightarrow>
   (err + (string \<times> article_meta) list) option" where
  "fetch_pages http a max_pages more_size page previous by_id =
     (if \<not> num_lt (num page) max_pages then Some (Inr by_id)
      else case fetch_more_article_metas http a previous more_size of
        Inl e \<Rightarrow> Some (Inl e)
      | Inr (metas, has_more) \<Rightarrow>
          (let by_id' = foldl set_meta by_id metas in
           if \<not> has_more \<or> metas = [] then Some (Inr by_id')
           else fetch_pages http a max_pages more_size (page + 1) (am_id (last metas)) by_id'))"

definition fetch_latest_article_metas ::
  "http \<Rightarrow> board_alias \<Rightarrow> latest_options \<Rightarrow> (err + article_meta list) option" where
  "fetch_latest_article_metas http a opts =
     (case (if lo_include_pinned opts then fetch_pinned_article_metas http a else Inr []) of
        Inl e \<Rightarrow> Some (Inl e)
      | Inr pinned \<Rightarrow> map_option (map_sum id (map snd))
          (fetch_pages http a (lo_max_pages opts) (lo_page_size opts) 0 ''0'' (foldl set_meta [] pinned)))"

record article_detail = article_meta +
  ad_content_html :: string

definition fetch_article_detail :: "http \<Rightarrow> board_alias \<Rightarrow> string \<Rightarrow> err + article_detail" where
  "fetch_article_detail http a article_id =
     (case fetch_json http (api_base @ ''/'' @ alias_text a @ ''/article/'' @ article_id) of
        Inl e \<Rightarrow> Inl e
      | Inr v \<Rightarrow>
          (case property v ''article'' of
             Inl e \<Rightarrow> Inl e
           | Inr article \<Rightarrow>
               (case to_meta a (field article ''contentMeta'') of
                  None \<Rightarrow> Inl (Thrown (''unexpected PlayNC detail shape (missing meta) articleId='' @ article_id))
                | Some m \<Rightarrow>
                    (case str_of (field (field article ''content'') ''content'') of
                       None \<Rightarrow> Inl (Thrown (''unexpected PlayNC detail shape (missing HTML) articleId='' @ article_id))
                     | Some html \<Rightarrow> Inr (article_meta.extend m (article_detail.fields html))))))"

definition parse_iso_date :: "host \<Rightarrow> string option \<Rightarrow> string option" where
  "parse_iso_date h v =
     (case non_empty v of None \<Rightarrow> None | Some s \<Rightarrow> map_option iso (parse_date h s))"

section \<open>Fetching ends, without repetitions\<close>

definition by_id_ok :: "(string \<times> article_meta) list \<Rightarrow> bool" where
  "by_id_ok ms \<longleftrightarrow> distinct (map fst ms) \<and> (\<forall>(k, m) \<in> set ms. k = am_id m)"

lemma update_entry: "x \<in> set (AList.update k v al) \<Longrightarrow> x = (k, v) \<or> x \<in> set al"
  by (induction al) (auto split: if_splits)

lemma set_meta_ok: "by_id_ok ms \<Longrightarrow> by_id_ok (set_meta ms m)"
  by (auto simp: by_id_ok_def set_meta_def distinct_update dest!: update_entry)

lemma set_metas_ok: "by_id_ok ms \<Longrightarrow> by_id_ok (foldl set_meta ms xs)"
  by (induction xs arbitrary: ms) (auto intro: set_meta_ok)

lemma by_id_ids: "by_id_ok ms \<Longrightarrow> distinct (map am_id (map snd ms))"
proof -
  assume ok: "by_id_ok ms"
  then have "map (am_id \<circ> snd) ms = map fst ms" by (auto simp: by_id_ok_def)
  with ok have "distinct (map (am_id \<circ> snd) ms)" unfolding by_id_ok_def by metis
  then show ?thesis by simp
qed

definition page_result_ok :: "err + (string \<times> article_meta) list \<Rightarrow> bool" where
  "page_result_ok r \<longleftrightarrow> (case r of Inl e \<Rightarrow> True | Inr ms \<Rightarrow> by_id_ok ms)"

lemma page_result_simps: "page_result_ok (Inl e)" "page_result_ok (Inr ms) = by_id_ok ms"
  by (simp_all add: page_result_ok_def)

lemma fetch_pages_done:
  assumes "fetch_pages http a max_pages n page previous ms = Some r"
  shows "by_id_ok ms \<longrightarrow> page_result_ok r"
proof (rule fetch_pages.raw_induct [where P = "\<lambda>h a max_pages n page previous ms r.
      by_id_ok ms \<longrightarrow> page_result_ok r", OF _ assms])
  fix loop http a max_pages n page previous ms r
  assume IH: "\<And>h a max_pages n page previous ms r. loop h a max_pages n page previous ms = Some r \<Longrightarrow>
      by_id_ok ms \<longrightarrow> page_result_ok r"
    and step: "(if \<not> num_lt (num page) max_pages then Some (Inr ms)
      else case fetch_more_article_metas http a previous n of
        Inl e \<Rightarrow> Some (Inl e)
      | Inr (metas, has_more) \<Rightarrow>
          (let by_id' = foldl set_meta ms metas in
           if \<not> has_more \<or> metas = [] then Some (Inr by_id')
           else loop http a max_pages n (page + 1) (am_id (last metas)) by_id')) = Some r"
  show "by_id_ok ms \<longrightarrow> page_result_ok r"
  proof
    assume ok: "by_id_ok ms"
    have next_ok: "by_id_ok (foldl set_meta ms metas)" for metas by (rule set_metas_ok [OF ok])
    show "page_result_ok r"
      using step ok next_ok IH [THEN mp, OF _ next_ok]
      by (auto simp: Let_def page_result_simps split: if_splits sum.splits prod.splits)
  qed
qed

lemma fetch_pages_ends:
  "\<exists>r. fetch_pages http a (Fin x) n page previous ms = Some r"
proof (induction "nat (\<lceil>x\<rceil> - page)" arbitrary: page previous ms rule: less_induct)
  case less
  show ?case
  proof (cases "num_lt (num page) (Fin x)")
    case True
    then have "page < \<lceil>x\<rceil>" by (simp add: num_def less_ceiling_iff)
    then have "nat (\<lceil>x\<rceil> - (page + 1)) < nat (\<lceil>x\<rceil> - page)" by simp
    from less [OF this] show ?thesis
      by (subst fetch_pages.simps) (auto simp: Let_def split: sum.split prod.split)
  next
    case False
    then show ?thesis by (subst fetch_pages.simps) simp
  qed
qed

lemma map_sum_Inr: "map_sum f g r = Inr y \<longleftrightarrow> (\<exists>x. r = Inr x \<and> y = g x)"
  by (cases r) auto

lemma fetch_latest_distinct:
  assumes "fetch_latest_article_metas http a opts = Some (Inr metas)"
  shows "distinct (map am_id metas)"
proof -
  from assms obtain pinned ms where pages: "fetch_pages http a (lo_max_pages opts) (lo_page_size opts) 0 ''0''
      (foldl set_meta [] pinned) = Some (Inr ms)" and "metas = map snd ms"
    by (cases "if lo_include_pinned opts then fetch_pinned_article_metas http a else Inr []")
      (auto simp: fetch_latest_article_metas_def map_sum_Inr)
  moreover have "by_id_ok (foldl set_meta [] pinned)" by (rule set_metas_ok) (simp add: by_id_ok_def)
  ultimately show ?thesis using fetch_pages_done [OF pages] by_id_ids by (simp add: page_result_simps del: map_map)
qed

text \<open>
  C28. Fetching the newest articles returns unless the number of pages is unbounded, whatever the service
  answers, also when it always announces another page; and the articles it returns have distinct ids.
\<close>

theorem fetch_latest_ends:
  assumes "lo_max_pages opts \<noteq> PosInf"
  shows "\<exists>r. fetch_latest_article_metas http a opts = Some r
    \<and> (case r of Inl e \<Rightarrow> True | Inr metas \<Rightarrow> distinct (map am_id metas))"
proof -
  have pages: "\<exists>r. fetch_pages http a (lo_max_pages opts) n 0 previous ms = Some r" for n previous ms
  proof (cases "lo_max_pages opts")
    case (Fin x)
    then show ?thesis using fetch_pages_ends by metis
  qed (use assms in \<open>subst fetch_pages.simps, simp add: num_def\<close>)+
  have "\<exists>r. fetch_latest_article_metas http a opts = Some r"
    unfolding fetch_latest_article_metas_def
    using pages by (cases "if lo_include_pinned opts then fetch_pinned_article_metas http a else Inr []") auto
  then obtain r where r: "fetch_latest_article_metas http a opts = Some r" by (elim exE)
  then have "case r of Inl e \<Rightarrow> True | Inr metas \<Rightarrow> distinct (map am_id metas)"
    using fetch_latest_distinct by (cases r) auto
  with r show ?thesis by (intro exI conjI)
qed

text \<open>A service that always announces more.\<close>

definition endless_http :: http where
  "endless_http url = Inr \<lparr>rs_ok = True, rs_status = 200, rs_status_text = ''OK'', rs_json = Inr (Obj
     [(''contentList'', Arr [Obj [(''id'', Str ''7''), (''title'', Str ''Patch'')]]), (''hasMore'', Bool True)])\<rparr>"

theorem fetch_latest_ends_witness:
  "\<exists>r. fetch_latest_article_metas endless_http NoticeKo \<lparr>lo_max_pages = num 5, lo_page_size = 18, lo_include_pinned = True\<rparr> = Some r"
proof -
  have "lo_max_pages \<lparr>lo_max_pages = num 5, lo_page_size = 18, lo_include_pinned = True\<rparr> \<noteq> PosInf"
    by (simp add: num_def)
  from fetch_latest_ends [OF this, of endless_http NoticeKo] show ?thesis by (elim exE conjE) (rule exI)
qed

end
