(* ===== verification/NoticeSync.thy ===== *)
theory NoticeSync
  imports LineDiff NoticeFetch
begin

text \<open>
  Bringing the cached notices up to date (\<open>main/notices/sync.ts\<close>, with the text of
  \<open>normalize.ts\<close>): for every article of the newest pages, the article is fetched unless the
  cache already has its last change, and its text is stored as a snapshot, with the difference to
  the one before. Between two fetches other handlers may run; they do not touch these tables.
\<close>

section \<open>The text of an article\<close>

text \<open>\<open>/<br\s*\/?>/i\<close> at the start of the text: what follows the match.\<close>

definition after_break :: "string \<Rightarrow> string option" where
  "after_break s =
     (case s of
        a # b # c # r \<Rightarrow>
          if a = CHR ''<'' \<and> b \<in> set ''bB'' \<and> c \<in> set ''rR'' then
            (let t = trim_start r; u = (case t of x # y \<Rightarrow> if x = CHR ''/'' then y else t | [] \<Rightarrow> t) in
             case u of x # rest \<Rightarrow> if x = CHR ''>'' then Some rest else None | [] \<Rightarrow> None)
          else None
      | _ \<Rightarrow> None)"

lemma after_break_shorter: "after_break s = Some r \<Longrightarrow> length r < length s"
  using suffix_length_le [OF strip_with_suffix [of ws_seqs "drop 3 s"]]
  by (auto simp: after_break_def Let_def trim_start_def split: list.splits if_splits)

function replace_breaks :: "string \<Rightarrow> string" where
  "replace_breaks [] = []"
| "replace_breaks (c # s) =
     (case after_break (c # s) of
        Some rest \<Rightarrow> newline # replace_breaks rest
      | None \<Rightarrow> c # replace_breaks s)"
  by pat_completeness auto
termination
  by (relation "measure length") (auto dest: after_break_shorter)

definition is_blank :: "char \<Rightarrow> bool" where
  "is_blank c \<longleftrightarrow> c = CHR '' '' \<or> c = CHR 0x09"

function collapse_blanks :: "string \<Rightarrow> string" where
  "collapse_blanks [] = []"
| "collapse_blanks (c # s) =
     (if is_blank c then CHR '' '' # collapse_blanks (dropWhile is_blank s) else c # collapse_blanks s)"
  by pat_completeness auto
termination
  by (relation "measure length") (auto simp: le_imp_less_Suc length_dropWhile_le)

text \<open>Three or more newlines become two.\<close>

function squeeze_newlines :: "string \<Rightarrow> string" where
  "squeeze_newlines [] = []"
| "squeeze_newlines (c # s) =
     (if c = newline
      then replicate (min 2 (Suc (length (takeWhile ((=) newline) s)))) newline @ squeeze_newlines (dropWhile ((=) newline) s)
      else c # squeeze_newlines s)"
  by pat_completeness auto
termination
  by (relation "measure length") (auto simp: le_imp_less_Suc length_dropWhile_le)

definition normalize_whitespace :: "string \<Rightarrow> string" where
  "normalize_whitespace s =
     trim (squeeze_newlines (join_with [newline] (map trim_end (split_on newline
       (collapse_blanks (replace_all (utf8 [0xa0]) '' '' s))))))"

text \<open>
  What comes from packages: \<open>sv_html_text\<close> is what cheerio gives as the text of the
  page without scripts and styles and with a newline after each text block, \<open>sv_sha256\<close> the hash of
  node's crypto module, \<open>sv_diff_lines\<close> the differences of the package diff.
\<close>

record service =
  sv_http :: http
  sv_host :: host
  sv_html_text :: "string \<Rightarrow> string"
  sv_sha256 :: "string \<Rightarrow> string"
  sv_diff_lines :: "string \<Rightarrow> string \<Rightarrow> change list"

definition normalize_notice_html_to_text :: "service \<Rightarrow> string \<Rightarrow> string" where
  "normalize_notice_html_to_text sv html =
     normalize_whitespace (normalize_newlines (sv_html_text sv (replace_breaks html)))"

definition normalize_and_hash_notice_html :: "service \<Rightarrow> string \<Rightarrow> string \<times> string" where
  "normalize_and_hash_notice_html sv html =
     (let text = normalize_notice_html_to_text sv html in (text, sv_sha256 sv text))"

section \<open>One synchronisation\<close>

record sync_options =
  so_sources :: "notice_source list"
  so_latest :: latest_options

definition default_sync_options :: sync_options where
  "default_sync_options = \<lparr>so_sources = [NOTICE, UPDATE],
     so_latest = \<lparr>lo_max_pages = num 1, lo_page_size = 18, lo_include_pinned = True\<rparr>\<rparr>"

record totals =
  to_sources :: nat
  to_metas_fetched :: nat
  to_details_fetched :: nat
  to_items_upserted :: nat
  to_snapshots_inserted :: nat
  to_diffs_inserted :: nat
  to_skipped :: nat

definition source_to_alias :: "notice_source \<Rightarrow> board_alias" where
  "source_to_alias s = (case s of NOTICE \<Rightarrow> NoticeKo | UPDATE \<Rightarrow> UpdateKo)"

definition effective_updated_at :: "host \<Rightarrow> article_meta \<Rightarrow> string option" where
  "effective_updated_at h m = or_else (parse_iso_date h (am_updated_at m)) (parse_iso_date h (am_published_at m))"

text \<open>The cache has the article as it was last changed, with a snapshot.\<close>

definition up_to_date :: "host \<Rightarrow> notice_source \<Rightarrow> article_meta \<Rightarrow> db \<Rightarrow> bool" where
  "up_to_date h source m d =
     (case (get_notice_item_by_external_id source (am_id m) d, effective_updated_at h m) of
        (Some (i, updated), Some t) \<Rightarrow> updated = t \<and> get_latest_snapshot i d \<noteq> None
      | _ \<Rightarrow> False)"

definition count_stored :: "totals \<Rightarrow> totals" where
  "count_stored t = t\<lparr>to_details_fetched := to_details_fetched t + 1, to_items_upserted := to_items_upserted t + 1\<rparr>"

definition count_snapshot :: "snapshot_result \<Rightarrow> totals \<Rightarrow> totals" where
  "count_snapshot r t = (if sr_inserted r then t\<lparr>to_snapshots_inserted := to_snapshots_inserted t + 1\<rparr> else t)"

text \<open>The difference of the snapshot to the one before, if there was another one.\<close>

definition store_diff ::
  "service \<Rightarrow> string \<Rightarrow> string \<Rightarrow> string \<Rightarrow> notice_snapshot_row option \<Rightarrow> string \<times> string \<Rightarrow> snapshot_result \<Rightarrow> totals \<Rightarrow>
   (db, totals) op" where
  "store_diff sv uid now item_id before normalized snapshot t =
     (case before of
        None \<Rightarrow> ret t
      | Some b \<Rightarrow>
          if ns_content_hash b = snd normalized \<or> ns_id b = sr_id snapshot then ret t
          else and_then (upsert_diff uid now item_id (ns_id b) (sr_id snapshot)
                 (Arr (map block_json (build_line_diff (sv_diff_lines sv) (ns_normalized_text b) (fst normalized)))))
                 (\<lambda>r. ret (if snd r then t\<lparr>to_diffs_inserted := to_diffs_inserted t + 1\<rparr> else t)))"

text \<open>Storing a fetched article.\<close>

definition store_detail ::
  "service \<Rightarrow> (nat \<Rightarrow> string) \<Rightarrow> (nat \<Rightarrow> string) \<Rightarrow> notice_source \<Rightarrow> article_meta \<Rightarrow> article_detail \<Rightarrow> totals \<Rightarrow>
   (db, totals) op" where
  "store_detail sv ids clock source m detail t =
     (let h = sv_host sv;
          published = parse_iso_date h (or_else (am_published_at detail) (am_posted_at detail));
          updated = or_else (effective_updated_at h m) (parse_iso_date h (am_updated_at detail)) in
      and_then (upsert_notice_item (ids 0) (clock 0) source (am_id detail) (am_url detail) (am_title detail) published updated)
        (\<lambda>item_id. reading (\<lambda>d.
      let before = get_latest_snapshot item_id d;
          normalized = normalize_and_hash_notice_html sv (ad_content_html detail) in
      and_then (upsert_snapshot (ids 1) (clock 1) item_id (snd normalized) (fst normalized)) (\<lambda>snapshot.
      store_diff sv (ids 2) (clock 2) item_id before normalized snapshot (count_snapshot snapshot (count_stored t))))))"

definition sync_meta ::
  "service \<Rightarrow> (nat \<Rightarrow> string) \<Rightarrow> (nat \<Rightarrow> string) \<Rightarrow> notice_source \<Rightarrow> article_meta \<Rightarrow> totals \<Rightarrow> (db, totals) op" where
  "sync_meta sv ids clock source m t = reading (\<lambda>d.
     if up_to_date (sv_host sv) source m d then ret (t\<lparr>to_skipped := to_skipped t + 1\<rparr>)
     else case fetch_article_detail (sv_http sv) (source_to_alias source) (am_id m) of
       Inl e \<Rightarrow> throw e
     | Inr detail \<Rightarrow> store_detail sv ids clock source m detail t)"

text \<open>
  \<open>ids i j k\<close> is the k-th id drawn for the j-th article of the i-th source, and so for the clock.
  Fetching does not return only for an unbounded number of pages, which the app never asks for.
\<close>

definition sync_source ::
  "service \<Rightarrow> latest_options \<Rightarrow> (nat \<Rightarrow> nat \<Rightarrow> nat \<Rightarrow> string) \<Rightarrow> (nat \<Rightarrow> nat \<Rightarrow> nat \<Rightarrow> string) \<Rightarrow>
   nat \<times> notice_source \<Rightarrow> totals \<Rightarrow> (db, totals) op" where
  "sync_source sv latest ids clock = (\<lambda>(i, source) t.
     case fetch_latest_article_metas (sv_http sv) (source_to_alias source) latest of
       None \<Rightarrow> throw (IoError ''no answer'')
     | Some (Inl e) \<Rightarrow> throw e
     | Some (Inr metas) \<Rightarrow>
         for_acc (enumerate 0 metas) (t\<lparr>to_metas_fetched := to_metas_fetched t + length metas\<rparr>)
           (\<lambda>(j, m) t. sync_meta sv (ids i j) (clock i j) source m t))"

definition sync_sources ::
  "service \<Rightarrow> sync_options \<Rightarrow> (nat \<Rightarrow> nat \<Rightarrow> nat \<Rightarrow> string) \<Rightarrow> (nat \<Rightarrow> nat \<Rightarrow> nat \<Rightarrow> string) \<Rightarrow> (db, totals) op" where
  "sync_sources sv opts ids clock =
     for_acc (enumerate 0 (so_sources opts))
       \<lparr>to_sources = length (so_sources opts), to_metas_fetched = 0, to_details_fetched = 0, to_items_upserted = 0,
        to_snapshots_inserted = 0, to_diffs_inserted = 0, to_skipped = 0\<rparr>
       (sync_source sv (so_latest opts) ids clock)"

section \<open>Invariants\<close>

context db_invariant
begin

lemma sync_sources_keeps [keeps_intro]: "keeps I (sync_sources sv opts ids clock)"
  unfolding sync_sources_def sync_source_def sync_meta_def store_detail_def store_diff_def Let_def case_prod_beta'
  by (intro keeps_intro)

end

end
