(* ===== verification/NoticeSyncFacts.thy ===== *)
theory NoticeSyncFacts
  imports NoticeSync
begin

text \<open>
  What a synchronisation achieves: every listed article is in the cache as it was last changed, so
  that the next synchronisation of an unchanged board fetches no article and changes nothing.
\<close>

section \<open>Loops\<close>

lemma for_acc_invariant:
  assumes run: "for_acc xs b f s = (Inr b', s')" and start: "P ys b s"
    and step: "\<And>ys x b s b1 s1. P ys b s \<Longrightarrow> x \<in> set xs \<Longrightarrow> f x b s = (Inr b1, s1) \<Longrightarrow> P (ys @ [x]) b1 s1"
  shows "P (ys @ xs) b' s'"
  using run start step
proof (induction xs arbitrary: ys b s)
  case Nil
  then show ?case by (simp add: ret_apply)
next
  case (Cons x xs)
  from Cons.prems(1) obtain b1 s1 where one: "f x b s = (Inr b1, s1)" and rest: "for_acc xs b1 f s1 = (Inr b', s')"
    by (cases "f x b s"; cases "fst (f x b s)") (auto simp: and_then_apply)
  have "P (ys @ [x]) b1 s1" by (rule Cons.prems(3) [OF Cons.prems(2) _ one]) simp
  from Cons.IH [OF rest this] Cons.prems(3) show ?case by simp
qed

section \<open>What storing does to the tables\<close>

lemma uniq_same: "uniq c t \<Longrightarrow> (\<And>x y. c x y = c y x) \<Longrightarrow> x \<in> set t \<Longrightarrow> y \<in> set t \<Longrightarrow> c x y \<Longrightarrow> x = y"
  by (induction t) (auto simp: uniq_def)

lemma upsert_notice_stored:
  assumes run: "upsert_notice_item uid now source ext url title pub upd d = (Inr i, d1)" and keys: "keys_ok d"
  shows "\<exists>r. find_notice source ext d1 = Some r \<and> ni_id r = i \<and> ni_updated_at r = (case upd of Some s \<Rightarrow> s | None \<Rightarrow> now)"
    and "notice_snapshot d1 = notice_snapshot d"
    and "(s, x) \<noteq> (source, ext) \<Longrightarrow> find_notice s x d = Some q \<Longrightarrow> find_notice s x d1 = Some q"
proof -
  define upd_at where "upd_at = (case upd of Some s \<Rightarrow> s | None \<Rightarrow> now)"
  define row where "row = \<lparr>ni_id = uid, ni_source = source, ni_external_id = ext, ni_url = url, ni_title = title,
      ni_published_at = pub, ni_created_at = now, ni_updated_at = upd_at\<rparr>"
  define f :: "notice_item_row \<Rightarrow> notice_item_row" where
    "f = (\<lambda>r. r\<lparr>ni_url := url, ni_title := title, ni_published_at := pub, ni_updated_at := upd_at\<rparr>)"
  have key: "ni_source (f r) = ni_source r" "ni_external_id (f r) = ni_external_id r" "ni_id (f r) = ni_id r" for r
    by (simp_all add: f_def)
  have "(\<exists>r. find_notice source ext d1 = Some r \<and> ni_id r = i \<and> ni_updated_at r = upd_at)
      \<and> notice_snapshot d1 = notice_snapshot d
      \<and> (\<forall>s x q. (s, x) \<noteq> (source, ext) \<longrightarrow> find_notice s x d = Some q \<longrightarrow> find_notice s x d1 = Some q)"
  proof (cases "\<exists>e. find_notice source ext d = Some e \<and> ni_id e \<noteq> []")
    case True
    then obtain e where e: "find_notice source ext d = Some e" "ni_id e \<noteq> []" by blast
    with run have d1: "d1 = notice_item_update (update_where (\<lambda>r. ni_id r = ni_id e) f) d" and i: "i = ni_id e"
      by (auto simp: upsert_notice_item_def reading_apply Let_def and_then_apply modify_apply ret_apply f_def upd_at_def)
    have found: "find_notice s x d1 = map_option (\<lambda>r. if ni_id r = ni_id e then f r else r) (find_notice s x d)" for s x
      by (simp add: find_notice_def d1 find_update_any key)
    have other: "ni_id q \<noteq> ni_id e" if "(s, x) \<noteq> (source, ext)" "find_notice s x d = Some q" for s x q
    proof
      assume "ni_id q = ni_id e"
      moreover have "q \<in> set (notice_item d)" "e \<in> set (notice_item d)"
        using that(2) e(1) by (auto simp: find_notice_def dest!: find_SomeD)
      moreover have "uniq clash_notice_item (notice_item d)" using keys by (simp add: keys_ok_def)
      ultimately have "q = e"
        by (intro uniq_same [of clash_notice_item "notice_item d"]) (auto simp: clash_notice_item_def)
      with that e(1) show False by (auto simp: find_notice_def dest!: find_SomeD)
    qed
    show ?thesis
      using e i found other by (auto simp: key d1 f_def)
  next
    case False
    obtain r e where ins: "insert_notice_item row d = (r, e)" by force
    have "and_then (insert_notice_item row) (\<lambda>_. ret uid) d = (Inr i, d1)"
      using run False unfolding row_def upd_at_def
      by (cases "find_notice source ext d") (auto simp: upsert_notice_item_def reading_apply Let_def)
    with ins have r: "r = Inr ()" "e = d1" "i = uid" by (auto simp: and_then_apply ret_apply split: sum.splits)
    from insert_into_done [OF ins [unfolded insert_notice_item_def r(1)]] r(2)
    have d1: "d1 = notice_item_update (\<lambda>t. t @ [row]) d" and fresh: "\<forall>x \<in> set (notice_item d). \<not> clash_notice_item x row"
      by simp_all
    have "find_notice source ext d = None"
      using fresh by (auto simp: find_notice_def find_None_iff clash_notice_item_def row_def)
    then have "find_notice source ext d1 = Some row"
      by (simp add: find_notice_def d1 find_append) (simp add: row_def)
    moreover have "ni_id row = i" "ni_updated_at row = upd_at" by (simp_all add: row_def r(3))
    ultimately show ?thesis by (auto simp: find_notice_def d1 find_append)
  qed
  then show "\<exists>r. find_notice source ext d1 = Some r \<and> ni_id r = i \<and> ni_updated_at r = (case upd of Some s \<Rightarrow> s | None \<Rightarrow> now)"
    and "notice_snapshot d1 = notice_snapshot d"
    and "(s, x) \<noteq> (source, ext) \<Longrightarrow> find_notice s x d = Some q \<Longrightarrow> find_notice s x d1 = Some q"
    unfolding upd_at_def by auto
qed

lemma upsert_snapshot_stored:
  assumes "upsert_snapshot uid now item hash text d = (Inr r, d1)"
  shows "notice_item d1 = notice_item d" and "\<exists>x \<in> set (notice_snapshot d1). ns_notice_item_id x = item"
    and "set (notice_snapshot d) \<subseteq> set (notice_snapshot d1)"
proof -
  let ?P = "\<lambda>x. ns_notice_item_id x = item \<and> ns_content_hash x = hash"
  define row where "row = \<lparr>ns_id = uid, ns_notice_item_id = item, ns_fetched_at = now,
    ns_content_hash = hash, ns_normalized_text = text\<rparr>"
  have "notice_item d1 = notice_item d \<and> (\<exists>x \<in> set (notice_snapshot d1). ns_notice_item_id x = item)
      \<and> set (notice_snapshot d) \<subseteq> set (notice_snapshot d1)"
  proof (cases "\<exists>x. find ?P (notice_snapshot d) = Some x \<and> ns_id x \<noteq> []")
    case True
    then obtain x where x: "find ?P (notice_snapshot d) = Some x" "ns_id x \<noteq> []" by blast
    with assms have "d1 = d" by (simp add: upsert_snapshot_def reading_apply ret_apply Let_def)
    moreover have "x \<in> set (notice_snapshot d)" "ns_notice_item_id x = item" using find_SomeD [OF x(1)] by simp_all
    ultimately show ?thesis by blast
  next
    case False
    obtain q e where ins: "insert_notice_snapshot row d = (q, e)" by force
    have "and_then (insert_notice_snapshot row) (\<lambda>_. ret \<lparr>sr_id = uid, sr_fetched_at = now, sr_inserted = True\<rparr>) d
        = (Inr r, d1)"
      using assms False unfolding row_def
      by (cases "find ?P (notice_snapshot d)") (auto simp: upsert_snapshot_def reading_apply Let_def)
    with ins have q: "q = Inr ()" "e = d1" by (auto simp: and_then_apply ret_apply split: sum.splits)
    from insert_into_done [OF ins [unfolded insert_notice_snapshot_def q(1)]] q(2)
    have "d1 = notice_snapshot_update (\<lambda>t. t @ [row]) d" by simp
    then show ?thesis by (simp add: row_def) blast
  qed
  then show "notice_item d1 = notice_item d" and "\<exists>x \<in> set (notice_snapshot d1). ns_notice_item_id x = item"
    and "set (notice_snapshot d) \<subseteq> set (notice_snapshot d1)" by auto
qed

lemma upsert_diff_frame:
  assumes "upsert_diff uid now item a b diff d = (Inr r, d1)"
  shows "notice_item d1 = notice_item d" "notice_snapshot d1 = notice_snapshot d"
  using assms
  by (auto simp: upsert_diff_def reading_apply Let_def and_then_apply modify_apply ret_apply insert_notice_diff_def
      insert_into_def delete_notice_diff_def split: option.splits if_splits sum.splits)

section \<open>After one article\<close>

lemma newest_by_None: "newest_by key rows = None \<longleftrightarrow> rows = []"
proof -
  have "mset (order_by (desc key) rows) = mset rows" by (simp add: mset_order_by)
  then have "order_by (desc key) rows = [] \<longleftrightarrow> rows = []" by (metis mset_zero_iff)
  then show ?thesis by (cases "order_by (desc key) rows") (simp_all add: newest_by_def)
qed

lemma has_snapshot_iff:
  "(\<exists>y. get_latest_snapshot i d = Some y) \<longleftrightarrow> (\<exists>x \<in> set (notice_snapshot d). ns_notice_item_id x = i)"
  unfolding not_None_eq [symmetric] by (simp add: get_latest_snapshot_def newest_by_None filter_empty_conv)

lemma up_to_date_iff:
  "up_to_date h source m d \<longleftrightarrow> (\<exists>r. find_notice source (am_id m) d = Some r \<and> effective_updated_at h m = Some (ni_updated_at r)
     \<and> (\<exists>x \<in> set (notice_snapshot d). ns_notice_item_id x = ni_id r))"
  by (auto simp: up_to_date_def get_notice_item_by_external_id_def has_snapshot_iff split: option.split)

lemma and_then_InrE:
  assumes "and_then m k s = (Inr y, s')"
  obtains x s1 where "m s = (Inr x, s1)" "k x s1 = (Inr y, s')"
  using assms by (cases "m s"; cases "fst (m s)") (auto simp: and_then_apply)

text \<open>An article that says when it was changed or published. The board's interface makes both dates optional.\<close>

definition dated :: "service \<Rightarrow> article_meta \<Rightarrow> bool" where
  "dated sv m \<longleftrightarrow> effective_updated_at (sv_host sv) m \<noteq> None"

lemma undated_not_current: "\<not> dated sv m \<Longrightarrow> \<not> up_to_date (sv_host sv) source m d"
  by (simp add: dated_def up_to_date_iff)

lemma store_detail_done:
  assumes run: "store_detail sv ids clock source m detail t d = (Inr t', d')" and keys: "keys_ok d"
    and same: "am_id detail = am_id m"
  shows "dated sv m \<Longrightarrow> up_to_date (sv_host sv) source m d'"
    and "to_metas_fetched t' = to_metas_fetched t \<and> to_details_fetched t' = to_details_fetched t + 1 \<and> to_skipped t' = to_skipped t"
    and "(s, am_id x) \<noteq> (source, am_id m) \<Longrightarrow> up_to_date h s x d \<Longrightarrow> up_to_date h s x d'"
proof -
  define updated where "updated = or_else (effective_updated_at (sv_host sv) m) (parse_iso_date (sv_host sv) (am_updated_at detail))"
  define normalized where "normalized = normalize_and_hash_notice_html sv (ad_content_html detail)"
  from run obtain i d1 snap d2
    where item: "upsert_notice_item (ids 0) (clock 0) source (am_id m) (am_url detail) (am_title detail)
        (parse_iso_date (sv_host sv) (or_else (am_published_at detail) (am_posted_at detail))) updated d = (Inr i, d1)"
      and snap: "upsert_snapshot (ids 1) (clock 1) i (snd normalized) (fst normalized) d1 = (Inr snap, d2)"
      and last: "store_diff sv (ids 2) (clock 2) i (get_latest_snapshot i d1) normalized snap
        (count_snapshot snap (count_stored t)) d2 = (Inr t', d')"
    unfolding store_detail_def Let_def same updated_def [symmetric] normalized_def [symmetric]
    by (elim and_then_InrE) (simp only: reading_apply, elim and_then_InrE, blast)
  have frame: "notice_item d' = notice_item d2 \<and> notice_snapshot d' = notice_snapshot d2"
    and counts: "to_metas_fetched t' = to_metas_fetched t \<and> to_details_fetched t' = to_details_fetched t + 1
      \<and> to_skipped t' = to_skipped t"
    using last by (auto simp: store_diff_def ret_apply count_snapshot_def count_stored_def
        split: option.splits if_splits elim!: and_then_InrE dest: upsert_diff_frame)
  note i1 = upsert_notice_stored [OF item keys] and s1 = upsert_snapshot_stored [OF snap]
  have found: "find_notice s x d' = find_notice s x d1" for s x
    using frame s1(1) by (simp add: find_notice_def)
  show "to_metas_fetched t' = to_metas_fetched t \<and> to_details_fetched t' = to_details_fetched t + 1 \<and> to_skipped t' = to_skipped t"
    by (rule counts)
  show "up_to_date (sv_host sv) source m d'" if m: "dated sv m"
  proof -
    obtain T where T: "effective_updated_at (sv_host sv) m = Some T" using m by (auto simp: dated_def)
    then have "updated = Some T" by (simp add: updated_def or_else_def)
    with i1(1) s1(2) T frame show ?thesis by (auto simp: up_to_date_iff found)
  qed
  show "(s, am_id x) \<noteq> (source, am_id m) \<Longrightarrow> up_to_date h s x d \<Longrightarrow> up_to_date h s x d'"
    using i1(2,3) s1(3) frame by (fastforce simp: up_to_date_iff found)
qed

lemma sync_meta_done:
  assumes run: "sync_meta sv ids clock source m t d = (Inr t', d')" and keys: "keys_ok d"
    and same: "\<forall>detail. fetch_article_detail (sv_http sv) (source_to_alias source) (am_id m) = Inr detail \<longrightarrow> am_id detail = am_id m"
  shows "dated sv m \<Longrightarrow> up_to_date (sv_host sv) source m d'" and "to_metas_fetched t' = to_metas_fetched t" and "keys_ok d'"
    and "(s, am_id x) \<noteq> (source, am_id m) \<Longrightarrow> up_to_date h s x d \<Longrightarrow> up_to_date h s x d'"
    and "up_to_date (sv_host sv) source m d \<Longrightarrow> to_skipped t' = to_skipped t + 1 \<and> to_details_fetched t' = to_details_fetched t"
    and "\<not> dated sv m \<Longrightarrow> to_skipped t' = to_skipped t \<and> to_details_fetched t' = to_details_fetched t + 1"
proof -
  have "keeps keys_ok (sync_meta sv ids clock source m t)"
    unfolding sync_meta_def store_detail_def store_diff_def Let_def by (intro keeps_intro)
  from keepsD [OF this keys] run show "keys_ok d'" by simp
  have "(dated sv m \<longrightarrow> up_to_date (sv_host sv) source m d') \<and> to_metas_fetched t' = to_metas_fetched t
      \<and> ((s, am_id x) \<noteq> (source, am_id m) \<longrightarrow> up_to_date h s x d \<longrightarrow> up_to_date h s x d')
      \<and> (if up_to_date (sv_host sv) source m d then to_skipped t' = to_skipped t + 1 \<and> to_details_fetched t' = to_details_fetched t
         else to_skipped t' = to_skipped t \<and> to_details_fetched t' = to_details_fetched t + 1)"
  proof (cases "up_to_date (sv_host sv) source m d")
    case True
    with run have "d' = d" "t' = t\<lparr>to_skipped := to_skipped t + 1\<rparr>"
      by (simp_all add: sync_meta_def reading_apply ret_apply)
    with True show ?thesis by simp
  next
    case False
    with run obtain detail where detail: "fetch_article_detail (sv_http sv) (source_to_alias source) (am_id m) = Inr detail"
      and store: "store_detail sv ids clock source m detail t d = (Inr t', d')"
      by (auto simp: sync_meta_def reading_apply throw_apply split: sum.splits)
    have "am_id detail = am_id m" using same detail by blast
    note stored = store_detail_done [OF store keys this]
    show ?thesis unfolding if_not_P [OF False] using stored(1,2) stored(3) [of s x h] by blast
  qed
  then show "dated sv m \<Longrightarrow> up_to_date (sv_host sv) source m d'" and "to_metas_fetched t' = to_metas_fetched t"
    and "(s, am_id x) \<noteq> (source, am_id m) \<Longrightarrow> up_to_date h s x d \<Longrightarrow> up_to_date h s x d'"
    and "up_to_date (sv_host sv) source m d \<Longrightarrow> to_skipped t' = to_skipped t + 1 \<and> to_details_fetched t' = to_details_fetched t"
    and "\<not> dated sv m \<Longrightarrow> to_skipped t' = to_skipped t \<and> to_details_fetched t' = to_details_fetched t + 1"
    by (auto simp: undated_not_current split: if_splits)
qed

section \<open>After the whole synchronisation\<close>

definition listed :: "service \<Rightarrow> latest_options \<Rightarrow> notice_source \<Rightarrow> article_meta list" where
  "listed sv latest source =
     (case fetch_latest_article_metas (sv_http sv) (source_to_alias source) latest of Some (Inr ms) \<Rightarrow> ms | _ \<Rightarrow> [])"

text \<open>The page of every listed article is about that article.\<close>

definition own_pages :: "service \<Rightarrow> latest_options \<Rightarrow> notice_source \<Rightarrow> bool" where
  "own_pages sv latest source \<longleftrightarrow> (\<forall>m \<in> set (listed sv latest source). \<forall>detail.
     fetch_article_detail (sv_http sv) (source_to_alias source) (am_id m) = Inr detail \<longrightarrow> am_id detail = am_id m)"

text \<open>The cache has every dated article of the list as it was last changed.\<close>

definition all_current :: "service \<Rightarrow> latest_options \<Rightarrow> notice_source \<Rightarrow> db \<Rightarrow> bool" where
  "all_current sv latest source d \<longleftrightarrow>
     (\<forall>m \<in> set (listed sv latest source). dated sv m \<longrightarrow> up_to_date (sv_host sv) source m d)"

definition dated_count :: "service \<Rightarrow> latest_options \<Rightarrow> notice_source \<Rightarrow> nat" where
  "dated_count sv latest source = length (filter (dated sv) (listed sv latest source))"

definition undated_count :: "service \<Rightarrow> latest_options \<Rightarrow> notice_source \<Rightarrow> nat" where
  "undated_count sv latest source = length (filter (\<lambda>m. \<not> dated sv m) (listed sv latest source))"

lemma listed_distinct: "distinct (map am_id (listed sv latest source))"
  by (auto simp: listed_def fetch_latest_distinct split: option.split sum.split)

lemma same_article: "m \<in> set (listed sv l s) \<Longrightarrow> x \<in> set (listed sv l s) \<Longrightarrow> am_id m = am_id x \<Longrightarrow> m = x"
  using listed_distinct [of sv l s] by (auto simp: distinct_map inj_on_def)

lemma enumerate_elem: "(j, m) \<in> set (enumerate n xs) \<Longrightarrow> m \<in> set xs"
  by (auto simp: enumerate_eq_zip dest: set_zip_rightD)

lemma enumerate_counts: "length (filter (\<lambda>(j, m). P m) (enumerate n xs)) = length (filter P xs)"
  by (induction xs arbitrary: n) auto

lemma sync_source_done:
  assumes run: "sync_source sv latest ids clock (i, source) t d = (Inr t', d')" and keys: "keys_ok d"
    and board: "own_pages sv latest source"
  shows "fetch_latest_article_metas (sv_http sv) (source_to_alias source) latest = Some (Inr (listed sv latest source))"
    and "keys_ok d'" and "all_current sv latest source d'"
    and "to_metas_fetched t' = to_metas_fetched t + length (listed sv latest source)"
    and "all_current sv latest s d \<Longrightarrow> all_current sv latest s d'"
    and "all_current sv latest source d \<Longrightarrow> to_skipped t' = to_skipped t + dated_count sv latest source
      \<and> to_details_fetched t' = to_details_fetched t + undated_count sv latest source"
proof -
  let ?ms = "listed sv latest source"
  show fetched: "fetch_latest_article_metas (sv_http sv) (source_to_alias source) latest = Some (Inr ?ms)"
    using run by (auto simp: sync_source_def throw_apply listed_def split: option.splits sum.splits)
  define n where "n = to_metas_fetched t + length ?ms"
  define counted where "counted ys t1 \<longleftrightarrow> to_skipped t1 = to_skipped t + length (filter (\<lambda>(j, m). dated sv m) ys)
      \<and> to_details_fetched t1 = to_details_fetched t + length (filter (\<lambda>(j, m). \<not> dated sv m) ys)"
    for ys :: "(nat \<times> article_meta) list" and t1 :: totals
  define P where "P ys t1 d1 \<longleftrightarrow> keys_ok d1 \<and> to_metas_fetched t1 = n
      \<and> (\<forall>(j, m) \<in> set ys. m \<in> set ?ms \<and> (dated sv m \<longrightarrow> up_to_date (sv_host sv) source m d1))
      \<and> (\<forall>s. all_current sv latest s d \<longrightarrow> all_current sv latest s d1)
      \<and> (all_current sv latest source d \<longrightarrow> counted ys t1)"
    for ys :: "(nat \<times> article_meta) list" and t1 :: totals and d1 :: db
  have loop: "for_acc (enumerate 0 ?ms) (t\<lparr>to_metas_fetched := n\<rparr>)
      (\<lambda>(j, m) t. sync_meta sv (ids i j) (clock i j) source m t) d = (Inr t', d')"
    using run by (simp add: sync_source_def fetched n_def)
  have "P ([] @ enumerate 0 ?ms) t' d'"
  proof (rule for_acc_invariant [OF loop])
    show "P [] (t\<lparr>to_metas_fetched := n\<rparr>) d" using keys by (simp add: P_def counted_def)
  next
    fix ys x t1 d1 t2 d2
    assume before: "P ys t1 d1" and x: "x \<in> set (enumerate 0 ?ms)"
      and one: "(case x of (j, m) \<Rightarrow> \<lambda>t. sync_meta sv (ids i j) (clock i j) source m t) t1 d1 = (Inr t2, d2)"
    obtain j m where jm: "x = (j, m)" by force
    from x jm have m: "m \<in> set ?ms" by (auto dest: enumerate_elem)
    have step: "sync_meta sv (ids i j) (clock i j) source m t1 d1 = (Inr t2, d2)" using one jm by simp
    from before have k: "keys_ok d1" by (simp add: P_def)
    have same: "\<forall>detail. fetch_article_detail (sv_http sv) (source_to_alias source) (am_id m) = Inr detail \<longrightarrow> am_id detail = am_id m"
      using board m by (auto simp: own_pages_def)
    note met = sync_meta_done [OF step k same]
    have kept: "dated sv m' \<longrightarrow> up_to_date (sv_host sv) source m' d2"
      if "m' \<in> set ?ms" "dated sv m' \<longrightarrow> up_to_date (sv_host sv) source m' d1" for m'
      using met(1) met(4) [of source m' "sv_host sv"] that same_article [OF m that(1)] by (cases "am_id m' = am_id m") auto
    have current: "all_current sv latest s d2" if "all_current sv latest s d1" for s
    proof (cases "s = source")
      case True
      with that kept show ?thesis by (simp add: all_current_def)
    next
      case False
      with that met(4) show ?thesis by (auto simp: all_current_def)
    qed
    have "counted (ys @ [x]) t2" if "all_current sv latest source d1" "counted ys t1"
    proof (cases "dated sv m")
      case True
      with that(1) m have "up_to_date (sv_host sv) source m d1" by (simp add: all_current_def)
      from met(5) [OF this] True that(2) show ?thesis by (simp add: counted_def jm)
    next
      case False
      from met(6) [OF False] False that(2) show ?thesis by (simp add: counted_def jm)
    qed
    then show "P (ys @ [x]) t2 d2"
      using before met(1-3) m kept current by (auto simp: P_def jm)
  qed
  then have P: "P (enumerate 0 ?ms) t' d'" by simp
  then show "keys_ok d'" "to_metas_fetched t' = to_metas_fetched t + length ?ms" by (simp_all add: P_def n_def)
  have "dated sv m \<longrightarrow> up_to_date (sv_host sv) source m d'" if "m \<in> set ?ms" for m
  proof -
    from that obtain j where "j < length ?ms" "m = ?ms ! j" by (auto simp: in_set_conv_nth)
    then have "(j, m) \<in> set (enumerate 0 ?ms)" by (simp add: in_set_enumerate_eq)
    with P show ?thesis by (auto simp: P_def)
  qed
  then show "all_current sv latest source d'" by (simp add: all_current_def)
  show "all_current sv latest s d \<Longrightarrow> all_current sv latest s d'" using P by (simp add: P_def)
  show "all_current sv latest source d \<Longrightarrow> to_skipped t' = to_skipped t + dated_count sv latest source
      \<and> to_details_fetched t' = to_details_fetched t + undated_count sv latest source"
    using P by (simp add: P_def counted_def enumerate_counts dated_count_def undated_count_def)
qed

section \<open>The next synchronisation\<close>

lemma skip_all:
  "\<forall>(j, m) \<in> set xs. up_to_date (sv_host sv) source m d \<Longrightarrow>
   for_acc xs t (\<lambda>(j, m) t. sync_meta sv (ids j) (clock j) source m t) d =
     (Inr (t\<lparr>to_skipped := to_skipped t + length xs\<rparr>), d)"
  by (induction xs arbitrary: t) (auto simp: and_then_apply ret_apply sync_meta_def reading_apply)

lemma skip_source:
  assumes "fetch_latest_article_metas (sv_http sv) (source_to_alias source) latest = Some (Inr (listed sv latest source))"
    and "all_current sv latest source d" "\<forall>m \<in> set (listed sv latest source). dated sv m"
  shows "sync_source sv latest ids clock (i, source) t d =
    (Inr (t\<lparr>to_metas_fetched := to_metas_fetched t + length (listed sv latest source),
            to_skipped := to_skipped t + length (listed sv latest source)\<rparr>), d)"
proof -
  have "\<forall>(j, m) \<in> set (enumerate 0 (listed sv latest source)). up_to_date (sv_host sv) source m d"
    using assms(2,3) by (auto simp: all_current_def dest: enumerate_elem)
  from skip_all [OF this] show ?thesis by (simp add: sync_source_def assms(1))
qed

lemma skip_sources:
  assumes "\<forall>(i, s) \<in> set xs. fetch_latest_article_metas (sv_http sv) (source_to_alias s) latest = Some (Inr (listed sv latest s))
      \<and> all_current sv latest s d \<and> (\<forall>m \<in> set (listed sv latest s). dated sv m)"
  shows "\<exists>t'. for_acc xs t (sync_source sv latest ids clock) d = (Inr t', d)
    \<and> to_metas_fetched t' = to_metas_fetched t + sum_list (map (\<lambda>(i, s). length (listed sv latest s)) xs)
    \<and> to_skipped t' = to_skipped t + sum_list (map (\<lambda>(i, s). length (listed sv latest s)) xs)
    \<and> to_details_fetched t' = to_details_fetched t"
  using assms
proof (induction xs arbitrary: t)
  case Nil
  then show ?case by (simp add: ret_apply)
next
  case (Cons x xs)
  obtain i s where x: "x = (i, s)" by force
  define t1 where "t1 = t\<lparr>to_metas_fetched := to_metas_fetched t + length (listed sv latest s),
            to_skipped := to_skipped t + length (listed sv latest s)\<rparr>"
  have "sync_source sv latest ids clock (i, s) t d = (Inr t1, d)"
    unfolding t1_def by (rule skip_source) (use Cons.prems x in auto)
  moreover obtain t' where "for_acc xs t1 (sync_source sv latest ids clock) d = (Inr t', d)"
    "to_metas_fetched t' = to_metas_fetched t1 + sum_list (map (\<lambda>(i, s). length (listed sv latest s)) xs)"
    "to_skipped t' = to_skipped t1 + sum_list (map (\<lambda>(i, s). length (listed sv latest s)) xs)"
    "to_details_fetched t' = to_details_fetched t1"
    using Cons.IH [of t1] Cons.prems by auto
  ultimately show ?case by (intro exI [of _ t']) (simp add: x and_then_apply t1_def)
qed

text \<open>What a synchronisation leaves behind, and what the next one that succeeds has counted.\<close>

lemma sync_settles:
  assumes run: "for_acc xs t (sync_source sv latest ids clock) d = (Inr t', d')" and keys: "keys_ok d"
    and board: "\<forall>(i, s) \<in> set xs. own_pages sv latest s"
  shows "keys_ok d' \<and> (\<forall>(i, s) \<in> set xs. all_current sv latest s d'
      \<and> fetch_latest_article_metas (sv_http sv) (source_to_alias s) latest = Some (Inr (listed sv latest s)))
    \<and> ((\<forall>(i, s) \<in> set xs. all_current sv latest s d) \<longrightarrow>
        to_skipped t' = to_skipped t + sum_list (map (\<lambda>(i, s). dated_count sv latest s) xs)
        \<and> to_details_fetched t' = to_details_fetched t + sum_list (map (\<lambda>(i, s). undated_count sv latest s) xs))"
  using assms
proof (induction xs arbitrary: t d)
  case Nil
  then show ?case by (simp add: ret_apply)
next
  case (Cons x xs)
  obtain i s where x: "x = (i, s)" by force
  obtain t1 d1 where one: "sync_source sv latest ids clock (i, s) t d = (Inr t1, d1)"
    and rest: "for_acc xs t1 (sync_source sv latest ids clock) d1 = (Inr t', d')"
    using Cons.prems(1) by (auto simp: x elim!: and_then_InrE)
  note met = sync_source_done [OF one Cons.prems(2)]
  have own: "own_pages sv latest s" using Cons.prems(3) x by simp
  have "\<forall>(i, s) \<in> set xs. own_pages sv latest s" using Cons.prems(3) by simp
  note IH = Cons.IH [OF rest met(2) [OF own] this]
  have kept: "all_current sv latest s' d'" if "all_current sv latest s' d1" for s'
  proof -
    have "keys_ok d1 \<Longrightarrow> for_acc xs t1 (sync_source sv latest ids clock) d1 = (Inr t', d') \<Longrightarrow>
      \<forall>(i, s) \<in> set xs. own_pages sv latest s \<Longrightarrow> all_current sv latest s' d1 \<Longrightarrow> all_current sv latest s' d'"
    proof (induction xs arbitrary: t1 d1)
      case Nil
      then show ?case by (simp add: ret_apply)
    next
      case (Cons y ys)
      obtain k q where y: "y = (k, q)" by force
      obtain t2 d2 where step: "sync_source sv latest ids clock (k, q) t1 d1 = (Inr t2, d2)"
        and more_run: "for_acc ys t2 (sync_source sv latest ids clock) d2 = (Inr t', d')"
        using Cons.prems(2) by (auto simp: y elim!: and_then_InrE)
      have "own_pages sv latest q" using Cons.prems(3) y by simp
      note m = sync_source_done [OF step Cons.prems(1) this]
      show ?case by (rule Cons.IH [OF m(2) more_run]) (use Cons.prems(3,4) m(5) in auto)
    qed
    from this [OF met(2) [OF own] rest \<open>\<forall>(i, s) \<in> set xs. own_pages sv latest s\<close> that] show ?thesis .
  qed
  have "all_current sv latest s d'" by (rule kept) (rule met(3) [OF own])
  moreover have "all_current sv latest q d1" if "all_current sv latest q d" for q by (rule met(5) [OF own that])
  ultimately show ?case
    using IH met(1) [OF own] met(6) [OF own] unfolding x by (auto simp: add.assoc)
qed

text \<open>
  C8. A synchronisation that succeeds leaves little to do. If the board then answers as before - where every article that it
  answers is the one that was asked for - the next synchronisation skips every listed article that has a date of change
  or of publication, and fetches only those without one, which are fetched at every synchronisation. If every listed
  article has a date, the next synchronisation succeeds, fetches none, and leaves the database exactly as it is.
\<close>

theorem second_sync_fetches_nothing:
  assumes run: "sync_sources sv opts ids clock d = (Inr t, d1)" and keys: "keys_ok d"
    and board: "\<forall>s \<in> set (so_sources opts). own_pages sv (so_latest opts) s"
  shows "(\<forall>t2 d2. sync_sources sv opts ids' clock' d1 = (Inr t2, d2) \<longrightarrow>
        to_skipped t2 = sum_list (map (dated_count sv (so_latest opts)) (so_sources opts))
        \<and> to_details_fetched t2 = sum_list (map (undated_count sv (so_latest opts)) (so_sources opts)))
    \<and> ((\<forall>s \<in> set (so_sources opts). \<forall>m \<in> set (listed sv (so_latest opts) s). dated sv m) \<longrightarrow>
        (\<exists>t2. sync_sources sv opts ids' clock' d1 = (Inr t2, d1)
          \<and> to_skipped t2 = to_metas_fetched t2 \<and> to_details_fetched t2 = 0))"
proof -
  let ?latest = "so_latest opts" and ?xs = "enumerate 0 (so_sources opts)"
  define t0 where "t0 = \<lparr>to_sources = length (so_sources opts), to_metas_fetched = 0, to_details_fetched = 0,
    to_items_upserted = 0, to_snapshots_inserted = 0, to_diffs_inserted = 0, to_skipped = 0\<rparr>"
  have eq: "sync_sources sv opts ids clock e = for_acc ?xs t0 (sync_source sv ?latest ids clock) e" for ids clock e
    by (simp add: sync_sources_def t0_def)
  have own: "\<forall>(i, s) \<in> set ?xs. own_pages sv ?latest s" using board by (auto dest: enumerate_elem)
  note first = sync_settles [OF run [unfolded eq] keys own]
  have sums: "map (\<lambda>(i, s). f s) ?xs = map f (so_sources opts)" for f :: "notice_source \<Rightarrow> nat"
    using map_map [of f snd ?xs] by (simp add: case_prod_unfold comp_def)
  have "to_skipped t2 = sum_list (map (dated_count sv ?latest) (so_sources opts))
      \<and> to_details_fetched t2 = sum_list (map (undated_count sv ?latest) (so_sources opts))"
    if "sync_sources sv opts ids' clock' d1 = (Inr t2, d2)" for t2 d2
    using sync_settles [OF that [unfolded eq] _ own] first by (auto simp: sums t0_def)
  moreover have "\<exists>t2. sync_sources sv opts ids' clock' d1 = (Inr t2, d1)
      \<and> to_skipped t2 = to_metas_fetched t2 \<and> to_details_fetched t2 = 0"
    if "\<forall>s \<in> set (so_sources opts). \<forall>m \<in> set (listed sv ?latest s). dated sv m"
  proof -
    have "\<forall>(i, s) \<in> set ?xs. fetch_latest_article_metas (sv_http sv) (source_to_alias s) ?latest = Some (Inr (listed sv ?latest s))
        \<and> all_current sv ?latest s d1 \<and> (\<forall>m \<in> set (listed sv ?latest s). dated sv m)"
      using first that by (fastforce dest: enumerate_elem)
    from skip_sources [OF this, of t0 ids' clock'] show ?thesis by (auto simp: eq t0_def)
  qed
  ultimately show ?thesis by blast
qed

text \<open>A board with one article, which answers every request alike.\<close>

definition patch_meta :: jsval where
  "patch_meta = Obj [(''id'', Str ''7''), (''title'', Str ''Patch''), (''timestamps'', Obj [(''updatedAt'', Str ''u'')])]"

definition patch_service :: service where
  "patch_service = \<lparr>
     sv_http = (\<lambda>url. Inr \<lparr>rs_ok = True, rs_status = 200, rs_status_text = ''OK'', rs_json = Inr (Obj
       [(''contentList'', Arr [patch_meta]), (''hasMore'', Bool False),
        (''article'', Obj [(''contentMeta'', patch_meta), (''content'', Obj [(''content'', Str ''text'')])])])\<rparr>),
     sv_host = \<lparr>tz = fixed_zone 0, parse_date = (\<lambda>s. Some 0)\<rparr>,
     sv_html_text = (\<lambda>s. s), sv_sha256 = (\<lambda>s. s), sv_diff_lines = whole_diff\<rparr>"

definition patch_options :: sync_options where
  "patch_options = \<lparr>so_sources = [NOTICE], so_latest = \<lparr>lo_max_pages = num 1, lo_page_size = 18, lo_include_pinned = False\<rparr>\<rparr>"

lemma patch_to_meta: "\<exists>m. to_meta a patch_meta = Some m \<and> am_id m = ''7'' \<and> am_updated_at m = Some ''u''"
  by (simp add: to_meta_def patch_meta_def non_empty_def)

lemma patch_pages:
  assumes "to_meta NoticeKo patch_meta = Some m"
  shows "fetch_latest_article_metas (sv_http patch_service) NoticeKo (so_latest patch_options) = Some (Inr [m])"
  using assms
  by (simp add: fetch_latest_article_metas_def patch_options_def fetch_pages.simps fetch_more_article_metas_def
      fetch_json_def patch_service_def property_def map_filter_def set_meta_def)

lemma patch_detail:
  assumes "to_meta NoticeKo patch_meta = Some m"
  shows "\<exists>detail. fetch_article_detail (sv_http patch_service) NoticeKo i = Inr detail \<and> am_id detail = am_id m"
  using assms
  by (simp add: fetch_article_detail_def fetch_json_def patch_service_def property_def article_meta.defs article_detail.defs)

lemma patch_store:
  assumes "foreign_keys d = False" "notice_item d = []" "notice_snapshot d = []"
  shows "\<exists>t' d'. store_detail patch_service ids clock NOTICE m detail t d = (Inr t', d')"
  using assms
  by (simp add: store_detail_def Let_def and_then_apply reading_apply ret_apply upsert_notice_item_def find_notice_def
      insert_notice_item_def insert_into_def upsert_snapshot_def insert_notice_snapshot_def store_diff_def
      get_latest_snapshot_def newest_by_def order_by_def)

theorem second_sync_fetches_nothing_witness:
  "\<exists>t d1 t2. sync_sources patch_service patch_options (\<lambda>i j k. ''id'') (\<lambda>i j k. ''now'') (empty_db False) = (Inr t, d1)
    \<and> sync_sources patch_service patch_options (\<lambda>i j k. ''id2'') (\<lambda>i j k. ''later'') d1 = (Inr t2, d1)
    \<and> to_details_fetched t2 = 0"
proof -
  obtain m where m: "to_meta NoticeKo patch_meta = Some m" "am_id m = ''7''" "am_updated_at m = Some ''u''"
    using patch_to_meta by blast
  note pages = patch_pages [OF m(1)]
  have notice: "source_to_alias NOTICE = NoticeKo" by (simp add: source_to_alias_def)
  have sources: "so_sources patch_options = [NOTICE]" by (simp add: patch_options_def)
  obtain detail where detail: "fetch_article_detail (sv_http patch_service) NoticeKo (am_id m) = Inr detail" "am_id detail = am_id m"
    using patch_detail [OF m(1)] by blast
  have dated: "dated patch_service m"
    by (simp add: dated_def effective_updated_at_def or_else_def parse_iso_date_def m(3) non_empty_def patch_service_def)
  have board: "\<forall>s \<in> set (so_sources patch_options). own_pages patch_service (so_latest patch_options) s"
    using detail by (simp add: sources own_pages_def listed_def notice pages)
  have all_dated: "\<forall>s \<in> set (so_sources patch_options). \<forall>m \<in> set (listed patch_service (so_latest patch_options) s). dated patch_service m"
    using dated by (simp add: sources listed_def notice pages)
  have old: "\<not> up_to_date h NOTICE m (empty_db False)" for h
    by (simp add: up_to_date_iff find_notice_def empty_db_def)
  define t0 where "t0 = \<lparr>to_sources = length (so_sources patch_options), to_metas_fetched = 0, to_details_fetched = 0,
    to_items_upserted = 0, to_snapshots_inserted = 0, to_diffs_inserted = 0, to_skipped = 0\<rparr>"
  have "foreign_keys (empty_db False) = False" "notice_item (empty_db False) = []" "notice_snapshot (empty_db False) = []"
    by (simp_all add: empty_db_def)
  from patch_store [OF this] obtain t d1 where store: "store_detail patch_service (\<lambda>k. ''id'') (\<lambda>k. ''now'') NOTICE m detail
      (t0\<lparr>to_metas_fetched := to_metas_fetched t0 + 1\<rparr>) (empty_db False) = (Inr t, d1)"
    by metis
  have "sync_sources patch_service patch_options (\<lambda>i j k. ''id'') (\<lambda>i j k. ''now'') (empty_db False) = (Inr t, d1)"
    unfolding sync_sources_def using store
    by (simp add: t0_def sources sync_source_def notice pages sync_meta_def reading_apply old detail and_then_apply ret_apply)
  note run = this
  have "keys_ok (empty_db False)" by (simp add: keys_ok_def empty_db_def uniq_def)
  from second_sync_fetches_nothing [OF run this board, THEN conjunct2, THEN mp, OF all_dated] run show ?thesis by blast
qed

end
