(* ===== verification/Session.thy ===== *)
theory Session
  imports BackupImport Notices
begin

text \<open>
  The main process as its handlers see it: the open database, the file it is saved to and the
  files it exports, and what a handler gets from outside (\<open>main/ipcHandlers/types.ts\<close>,
  \<open>util.ts\<close>, \<open>DesktopDb.persist\<close> of \<open>main/storage/db.ts\<close>). A handler is an
  operation on a \<open>session\<close>; handlers run one after the other, since each of them touches the
  database only before its first \<open>await\<close> or after the one of \<open>persist\<close>.
\<close>

section \<open>The state\<close>

text \<open>
  \<open>se_disk\<close> is the message that writing a file fails with, if it fails now. \<open>se_file\<close> is
  what the database file holds.
\<close>

record session =
  se_db :: db
  se_file :: "db option"
  se_exports :: "(string \<times> jsval) list"
  se_disk :: "string option"

text \<open>
  What the host gives to one call: \<open>en_ids\<close> are the UUIDs and \<open>en_clock\<close> the clock
  readings in the order in which the code asks for them, \<open>en_lower\<close> is
  \<open>toLowerCase\<close>, \<open>en_rollback\<close> the outcome of ROLLBACK, \<open>en_opened\<close> the file
  that the user picks with what parsing it gives, \<open>en_file_path\<close> the path of a written
  file. The schema validation of the package zod is the parameter \<open>en_safe_parse\<close>.
\<close>

datatype zod =
    ZString | ZNumber | ZFinite zod | ZUnknown | ZLiteral string | ZOptional zod | ZNullable zod
  | ZArray zod | ZUnion "zod list" | ZObject "(string \<times> zod) list"

record env =
  en_host :: host
  en_ids :: "nat \<Rightarrow> string"
  en_clock :: "nat \<Rightarrow> int"
  en_lower :: "string \<Rightarrow> string"
  en_rollback :: "string option"
  en_opened :: "(string \<times> (err + jsval)) option"
  en_file_path :: string
  en_version :: string
  en_platform :: string
  en_safe_parse :: "zod \<Rightarrow> jsval \<Rightarrow> jsval option"

definition now_text :: "env \<Rightarrow> nat \<Rightarrow> string" where
  "now_text e n = iso (en_clock e n)"

section \<open>Steps of a handler\<close>

definition on_db :: "(db, 'a) op \<Rightarrow> (session, 'a) op" where
  "on_db m s = (let (r, d) = m (se_db s) in (r, s\<lparr>se_db := d\<rparr>))"

definition ask :: "(db \<Rightarrow> 'a) \<Rightarrow> ('a \<Rightarrow> (session, 'b) op) \<Rightarrow> (session, 'b) op" where
  "ask f k s = k (f (se_db s)) s"

definition answer :: "(db \<Rightarrow> err + 'a) \<Rightarrow> ('a \<Rightarrow> 'b) \<Rightarrow> (session, 'b) op" where
  "answer f g s = (case f (se_db s) of Inl e \<Rightarrow> (Inl e, s) | Inr x \<Rightarrow> (Inr (g x), s))"

text \<open>
  \<open>persist\<close>: the export is taken first, then written to a new file that replaces the old one,
  so a failed write leaves the old file in place.
\<close>

definition save :: "(session, unit) op" where
  "save s =
     (let d = se_db s; s' = snd (on_db persist s) in
      case se_disk s of
        Some m \<Rightarrow> (Inl (IoError m), s')
      | None \<Rightarrow> (Inr (), s'\<lparr>se_file := Some d\<rparr>))"

definition write_export :: "string \<Rightarrow> jsval \<Rightarrow> (session, unit) op" where
  "write_export path content s =
     (case se_disk s of
        Some m \<Rightarrow> (Inl (IoError m), s)
      | None \<Rightarrow> (Inr (), s\<lparr>se_exports := se_exports s @ [(path, jsonify content)]\<rparr>))"

text \<open>\<open>try { m } catch (e) { h(e) }\<close>.\<close>

definition recover :: "('s, 'a) op \<Rightarrow> (err \<Rightarrow> ('s, 'a) op) \<Rightarrow> ('s, 'a) op" where
  "recover m h s = (case m s of (Inl e, s') \<Rightarrow> h e s' | (Inr x, s') \<Rightarrow> (Inr x, s'))"

definition then_save :: "(db, 'a) op \<Rightarrow> ('a \<Rightarrow> (session, 'b) op) \<Rightarrow> (session, 'b) op" where
  "then_save m k = and_then (on_db m) (\<lambda>x. and_then save (\<lambda>_. k x))"

abbreviation refuse :: "string \<Rightarrow> (session, 'a) op" where
  "refuse m \<equiv> throw (Thrown m)"

section \<open>Reading the input of a call\<close>

definition as_record :: "jsval \<Rightarrow> jsval" where
  "as_record v = (if is_object v then v else Obj [])"

definition resolve_character_id :: "db \<Rightarrow> jsval \<Rightarrow> string option" where
  "resolve_character_id d obj =
     (case str_of (field obj ''characterId'') of Some c \<Rightarrow> Some c | None \<Rightarrow> get_active_character_id d)"

definition text_field :: "jsval \<Rightarrow> string \<Rightarrow> string" where
  "text_field obj k = str_or [] (field obj k)"

definition trimmed_field :: "jsval \<Rightarrow> string \<Rightarrow> string option" where
  "trimmed_field obj k = map_option trim (str_of (field obj k))"

text \<open>\<open>if (!characterId) throw new Error("no_character")\<close>.\<close>

definition for_character :: "jsval \<Rightarrow> (string \<Rightarrow> (session, 'a) op) \<Rightarrow> (session, 'a) op" where
  "for_character obj k = ask (\<lambda>d. resolve_character_id d obj) (\<lambda>c.
     case non_empty c of None \<Rightarrow> refuse ''no_character'' | Some c \<Rightarrow> k c)"

definition parse_input :: "env \<Rightarrow> zod \<Rightarrow> jsval \<Rightarrow> (jsval \<Rightarrow> (session, 'a) op) \<Rightarrow> (session, 'a) op" where
  "parse_input e schema v k =
     (case en_safe_parse e schema v of None \<Rightarrow> refuse ''bad_request'' | Some obj \<Rightarrow> k obj)"

section \<open>Replies\<close>

datatype reply =
    Done | Pong | Nothing | Cancelled | TextOrNull "string option" | Made string | Wrote string
  | WroteMany string nat | Imported string "score_preset_item list option"
  | Characters "app_character_row list"
  | NoticePage notice_page | OneNotice "notice_item_row option" | OneDiff "notice_diff_row option"
  | Bundle settings_bundle | Templates "planner_template_row list" | Overview overview
  | Applied nat nat | Durations "planner_duration_row list" | DurationStats "duration_stat list"
  | Score score_state | Presets "score_preset_item list" | OnePreset "score_preset option"
  | PresetItem score_preset_item
  | Items "economy_item_row list" | Recorded price_result | Prices "economy_price_row list"
  | Watches "(economy_price_watch_row \<times> string) list" | Watch economy_price_watch_row
  | Alerts "economy_alert_event_row list"
  | Runs "run_list_item list" | OneRun "run_details option" | Report weekly_report

section \<open>What a step that succeeds has done\<close>

lemma and_then_Inr:
  "and_then m k s = (Inr y, s') \<longleftrightarrow> (\<exists>x s1. m s = (Inr x, s1) \<and> k x s1 = (Inr y, s'))"
  by (cases "m s"; cases "fst (m s)") (auto simp: and_then_apply)

lemma save_done:
  "save s = (Inr u, s') \<longleftrightarrow>
     se_disk s = None \<and> s' = s\<lparr>se_db := export_effect (se_db s), se_file := Some (se_db s)\<rparr>"
  by (auto simp: save_def on_db_def persist_def modify_apply Let_def split: option.split)

lemma on_db_done: "on_db m s = (r, s') \<longleftrightarrow> (\<exists>d. m (se_db s) = (r, d) \<and> s' = s\<lparr>se_db := d\<rparr>)"
  by (cases "m (se_db s)") (auto simp: on_db_def)

lemma save_ok: "se_disk s = None \<Longrightarrow> save s = (Inr (), s\<lparr>se_db := export_effect (se_db s), se_file := Some (se_db s)\<rparr>)"
  by (simp add: save_done)

lemma then_save_ok:
  "m (se_db s) = (Inr x, d) \<Longrightarrow> se_disk s = None \<Longrightarrow>
   then_save m k s = k x (s\<lparr>se_db := export_effect d, se_file := Some d\<rparr>)"
  by (simp add: then_save_def and_then_apply on_db_def save_ok)

end
