(* ===== verification/Scheduler.thy ===== *)
theory Scheduler
  imports Session NoticeSync
begin

text \<open>
  The background synchronisation (\<open>main/scheduler.ts\<close>): one sync runs at a time, calls during
  a sync wait for it instead of starting another one, and a timer asks for a sync every half hour until
  it is stopped.
\<close>

section \<open>A synchronisation of the main process\<close>

definition sync_notices ::
  "service \<Rightarrow> sync_options \<Rightarrow> (nat \<Rightarrow> nat \<Rightarrow> nat \<Rightarrow> string) \<Rightarrow> (nat \<Rightarrow> nat \<Rightarrow> nat \<Rightarrow> string) \<Rightarrow> (session, totals) op" where
  "sync_notices sv opts ids clock = then_save (sync_sources sv opts ids clock) ret"

section \<open>The state of the scheduler\<close>

datatype run_reason = Startup | Interval | Manual

text \<open>\<open>sr_last_result\<close> holds the reason and, after a success, the totals.\<close>

record scheduler =
  sr_running :: bool
  sr_last_run_at :: "string option"
  sr_last_result :: "(run_reason \<times> totals option) option"
  sr_last_error :: "string option"
  sr_in_flight :: "run_reason option"
  sr_timer :: bool

text \<open>\<open>run(reason)\<close>: the promise in flight, if there is one, or a new sync.\<close>

definition run_sync :: "run_reason \<Rightarrow> scheduler \<Rightarrow> scheduler" where
  "run_sync reason s =
     (case sr_in_flight s of
        Some _ \<Rightarrow> s
      | None \<Rightarrow> s\<lparr>sr_running := True, sr_last_error := None, sr_in_flight := Some reason\<rparr>)"

text \<open>What runs when the sync has settled: \<open>try\<close>, \<open>catch\<close> and \<open>finally\<close>.\<close>

definition settle :: "string \<Rightarrow> string + totals \<Rightarrow> run_reason \<Rightarrow> scheduler \<Rightarrow> scheduler" where
  "settle now result reason s =
     (case result of
        Inr t \<Rightarrow> s\<lparr>sr_last_run_at := Some now, sr_last_result := Some (reason, Some t), sr_last_error := None\<rparr>
      | Inl msg \<Rightarrow> s\<lparr>sr_last_run_at := Some now, sr_last_result := Some (reason, None), sr_last_error := Some msg\<rparr>)
     \<lparr>sr_running := False, sr_in_flight := None\<rparr>"

definition start_notices_scheduler :: scheduler where
  "start_notices_scheduler =
     (run_sync Startup \<lparr>sr_running = False, sr_last_run_at = None, sr_last_result = None, sr_last_error = None,
        sr_in_flight = None, sr_timer = False\<rparr>)\<lparr>sr_timer := True\<rparr>"

section \<open>Its steps\<close>

datatype event = Tick | SyncNow | Settled string "string + totals" | Stop

inductive sched_step :: "scheduler \<Rightarrow> event \<Rightarrow> scheduler \<Rightarrow> bool" where
  tick: "sr_timer s \<Longrightarrow> sched_step s Tick (run_sync Interval s)"
| sync_now: "sched_step s SyncNow (run_sync Manual s)"
| settled: "sr_in_flight s = Some reason \<Longrightarrow> sched_step s (Settled now r) (settle now r reason s)"
| stop: "sched_step s Stop (s\<lparr>sr_timer := False\<rparr>)"

inductive_cases sched_stepE: "sched_step s e s'"

inductive_simps sched_step_settled: "sched_step s (Settled now r) s'"

inductive sched_run :: "event list \<Rightarrow> scheduler \<Rightarrow> bool" where
  begin_run: "sched_run [] start_notices_scheduler"
| then_step: "sched_run es s \<Longrightarrow> sched_step s e s' \<Longrightarrow> sched_run (es @ [e]) s'"

section \<open>One flight at a time\<close>

text \<open>
  The specification: a machine that is idle or in one flight. A request starts a flight when it is idle
  and is answered by the flight otherwise; a flight only ends when it lands.
\<close>

datatype flight = Idle | Flying run_reason

datatype flight_label = Take_off run_reason | Join | Land | Quiet

fun flight_step :: "flight \<Rightarrow> flight_label \<Rightarrow> flight option" where
  "flight_step Idle (Take_off r) = Some (Flying r)"
| "flight_step (Flying r) Join = Some (Flying r)"
| "flight_step (Flying r) Land = Some Idle"
| "flight_step f Quiet = Some f"
| "flight_step f l = None"

fun flight_run :: "flight \<Rightarrow> flight_label list \<Rightarrow> flight option" where
  "flight_run f [] = Some f"
| "flight_run f (l # ls) = (case flight_step f l of None \<Rightarrow> None | Some g \<Rightarrow> flight_run g ls)"

definition flight_of :: "scheduler \<Rightarrow> flight" where
  "flight_of s = (case sr_in_flight s of None \<Rightarrow> Idle | Some r \<Rightarrow> Flying r)"

definition label_of :: "scheduler \<Rightarrow> event \<Rightarrow> flight_label" where
  "label_of s e =
     (let ask = (\<lambda>r. if sr_in_flight s = None then Take_off r else Join) in
      case e of Tick \<Rightarrow> ask Interval | SyncNow \<Rightarrow> ask Manual | Settled now r \<Rightarrow> Land | Stop \<Rightarrow> Quiet)"

lemma step_refines: "sched_step s e s' \<Longrightarrow> flight_step (flight_of s) (label_of s e) = Some (flight_of s')"
  by (erule sched_stepE)
    (auto simp: flight_of_def label_of_def run_sync_def settle_def split: option.splits sum.splits)

lemma flight_run_snoc: "flight_run f (ls @ [l]) = Option.bind (flight_run f ls) (\<lambda>g. flight_step g l)"
  by (induction ls arbitrary: f) (auto split: option.split)

lemma running_iff: "sched_run es s \<Longrightarrow> sr_running s \<longleftrightarrow> sr_in_flight s \<noteq> None"
proof (induction rule: sched_run.induct)
  case begin_run
  then show ?case by (simp add: start_notices_scheduler_def run_sync_def)
next
  case (then_step es s e s')
  from then_step.hyps(2) then_step.IH show ?case
    by (cases rule: sched_stepE) (auto simp: run_sync_def settle_def split: option.splits sum.splits)
qed

definition landings :: "flight_label list \<Rightarrow> nat" where
  "landings ls = length (filter (\<lambda>l. l = Land) ls)"

definition take_offs :: "flight_label list \<Rightarrow> nat" where
  "take_offs ls = length (filter (\<lambda>l. case l of Take_off r \<Rightarrow> True | _ \<Rightarrow> False) ls)"

lemma flight_counts:
  "flight_run f ls = Some g \<Longrightarrow> take_offs ls + (if f = Idle then 0 else 1) = landings ls + (if g = Idle then 0 else 1)"
proof (induction ls arbitrary: f)
  case Nil
  then show ?case by (simp add: take_offs_def landings_def)
next
  case (Cons l ls)
  then obtain h where h: "flight_step f l = Some h" "flight_run h ls = Some g" by (auto split: option.splits)
  from Cons.IH [OF h(2)] h(1) show ?case
    by (cases f; cases l) (auto simp: take_offs_def landings_def split: if_splits)
qed

text \<open>
  C29. The scheduler refines the specification: every run of it, by whatever timer ticks, requests and
  outcomes, is a run of the machine with one flight, starting with the one of the startup; its status says
  that a sync is running exactly during a flight, and so there is at most one more sync started than ended.
\<close>

theorem scheduler_has_one_flight:
  assumes "sched_run es s"
  shows "\<exists>ls. length ls = length es \<and> flight_run (Flying Startup) ls = Some (flight_of s)
    \<and> (sr_running s \<longleftrightarrow> flight_of s \<noteq> Idle)
    \<and> take_offs ls + 1 = landings ls + (if sr_running s then 1 else 0)"
proof -
  have "\<exists>ls. length ls = length es \<and> flight_run (Flying Startup) ls = Some (flight_of s)"
    using assms
  proof (induction rule: sched_run.induct)
    case begin_run
    have "flight_of start_notices_scheduler = Flying Startup"
      by (simp add: flight_of_def start_notices_scheduler_def run_sync_def)
    then show ?case by (intro exI [of _ "[]"]) simp
  next
    case (then_step es s e s')
    then obtain ls where ls: "length ls = length es" "flight_run (Flying Startup) ls = Some (flight_of s)" by blast
    then show ?case
      using step_refines [OF then_step.hyps(2)]
      by (intro exI [of _ "ls @ [label_of s e]"]) (simp add: flight_run_snoc)
  qed
  then obtain ls where ls: "length ls = length es" "flight_run (Flying Startup) ls = Some (flight_of s)" by blast
  have running: "sr_running s \<longleftrightarrow> flight_of s \<noteq> Idle"
    using running_iff [OF assms] by (simp add: flight_of_def split: option.split)
  from flight_counts [OF ls(2)] running have "take_offs ls + 1 = landings ls + (if sr_running s then 1 else 0)" by auto
  with ls running show ?thesis by blast
qed

text \<open>A tick while the first sync runs, its end, and a request of the user.\<close>

theorem scheduler_has_one_flight_witness:
  "\<exists>s ls. sched_run [Tick, Settled ''t'' (Inl ''offline''), SyncNow] s
    \<and> flight_run (Flying Startup) ls = Some (flight_of s) \<and> sr_running s \<and> take_offs ls = landings ls"
proof -
  let ?s1 = "run_sync Interval start_notices_scheduler"
  let ?s2 = "settle ''t'' (Inl ''offline'') Startup ?s1"
  have "sched_run ([] @ [Tick]) ?s1"
    by (rule sched_run.then_step [OF sched_run.begin_run sched_step.tick])
      (simp add: start_notices_scheduler_def)
  then have "sched_run (([] @ [Tick]) @ [Settled ''t'' (Inl ''offline'')]) ?s2"
    by (rule sched_run.then_step [OF _ sched_step.settled])
      (simp add: start_notices_scheduler_def run_sync_def)
  from sched_run.then_step [OF this sched_step.sync_now]
  have run: "sched_run [Tick, Settled ''t'' (Inl ''offline''), SyncNow] (run_sync Manual ?s2)" by simp
  have running: "sr_running (run_sync Manual ?s2)" by (simp add: run_sync_def settle_def)
  from scheduler_has_one_flight [OF run] obtain ls where
    ls: "flight_run (Flying Startup) ls = Some (flight_of (run_sync Manual ?s2))"
    and counts: "take_offs ls + 1 = landings ls + (if sr_running (run_sync Manual ?s2) then 1 else 0)"
    by (elim exE conjE)
  from counts have "take_offs ls = landings ls" unfolding if_P [OF running] by (rule add_right_imp_eq)
  with run ls running show ?thesis by (intro exI conjI)
qed

end
