(* ===== verification/Handlers.thy ===== *)
theory Handlers
  imports Session
begin

text \<open>
  The IPC handlers of the main process (\<open>main/ipcHandlers/*.ts\<close>): each reads the untrusted
  argument of its channel, refuses what it cannot use, runs one operation of a storage domain and
  saves the database. Channels of the windows and of the scheduler (\<open>app:getStatus\<close>,
  \<open>app:toggleOverlay\<close>, \<open>app:showMainWindow\<close>, \<open>notices:syncNow\<close>) do not touch the
  database and are not here.
\<close>

section \<open>The application\<close>

definition app_set_active_character_id :: "jsval \<Rightarrow> (session, reply) op" where
  "app_set_active_character_id v =
     guard_else (v = Null \<or> str_of v \<noteq> None) (Thrown ''bad_request'')
       (then_save (set_active_character_id (str_of v)) (\<lambda>_. ask get_active_character_id (\<lambda>c. ret (TextOrNull c))))"

section \<open>Characters\<close>

definition characters_create :: "env \<Rightarrow> jsval \<Rightarrow> (session, reply) op" where
  "characters_create e v =
     (let obj = as_record v; name = trim (text_field obj ''name'') in
      guard_else (name \<noteq> []) (Thrown ''bad_request'')
        (then_save
          (and_then (create_character (en_ids e 0) (now_text e 0) name (trimmed_field obj ''server'') (trimmed_field obj ''class'')) (\<lambda>i.
           and_then (reading (\<lambda>d. if non_empty (get_active_character_id d) = None
             then set_active_character_id (Some i) else ret ())) (\<lambda>_. ret i)))
          (\<lambda>i. ret (Made i))))"

definition characters_update :: "env \<Rightarrow> jsval \<Rightarrow> (session, reply) op" where
  "characters_update e v =
     (let obj = as_record v; i = text_field obj ''id''; name = trim (text_field obj ''name'') in
      guard_else (i \<noteq> [] \<and> name \<noteq> []) (Thrown ''bad_request'')
        (then_save (update_character (now_text e 0) i name (trimmed_field obj ''server'') (trimmed_field obj ''class''))
          (\<lambda>_. ret Done)))"

definition characters_delete :: "jsval \<Rightarrow> (session, reply) op" where
  "characters_delete v =
     (case non_empty (str_of v) of
        None \<Rightarrow> refuse ''bad_request''
      | Some c \<Rightarrow> ask get_active_character_id (\<lambda>active.
          then_save (and_then (delete_character c) (\<lambda>_. if active = Some c then set_active_character_id None else ret ()))
            (\<lambda>_. ret Done)))"

section \<open>Notices\<close>

definition as_notice_source :: "jsval \<Rightarrow> notice_source option" where
  "as_notice_source v = (if v = Str ''NOTICE'' then Some NOTICE else if v = Str ''UPDATE'' then Some UPDATE else None)"

definition notices_list :: "jsval \<Rightarrow> (session, reply) op" where
  "notices_list v =
     (let obj = as_record v in
      answer (list_notices (as_notice_source (field obj ''source'')) (non_empty (str_of (field obj ''q'')))
        (num_or (num 1) (field obj ''page'')) (num_or (num 20) (field obj ''pageSize''))) NoticePage)"

definition notices_get :: "jsval \<Rightarrow> (session, reply) op" where
  "notices_get v =
     (case non_empty (str_of v) of None \<Rightarrow> refuse ''bad_request''
      | Some i \<Rightarrow> ask (get_notice i) (\<lambda>n. ret (OneNotice n)))"

definition notices_get_latest_diff :: "jsval \<Rightarrow> (session, reply) op" where
  "notices_get_latest_diff v =
     (case non_empty (str_of v) of None \<Rightarrow> refuse ''bad_request''
      | Some i \<Rightarrow> ask (get_latest_diff i) (\<lambda>x. ret (OneDiff x)))"

section \<open>The planner\<close>

definition planner_get_settings :: "env \<Rightarrow> jsval \<Rightarrow> (session, reply) op" where
  "planner_get_settings e v =
     and_then (on_db (get_planner_settings_bundle (now_text e 0) (trimmed_field (as_record v) ''server'')))
       (\<lambda>b. ret (Bundle b))"

definition planner_set_settings :: "env \<Rightarrow> jsval \<Rightarrow> (session, reply) op" where
  "planner_set_settings e v =
     (let obj = as_record v;
          hhmm = (case trimmed_field obj ''dailyResetHhmm'' of Some s \<Rightarrow> s | None \<Rightarrow> ''09:00'');
          day = num_or (num 1) (field obj ''weeklyResetDay'');
          server = trimmed_field obj ''server'' in
      then_save
        (case non_empty server of
           Some s \<Rightarrow> set_planner_settings_for_server (now_text e 0) s hhmm day
         | None \<Rightarrow> set_planner_settings_default (now_text e 0) hhmm day)
        (\<lambda>_. and_then (on_db (get_planner_settings_bundle (now_text e 1) server)) (\<lambda>b. ret (Bundle b))))"

definition planner_clear_server_settings :: "jsval \<Rightarrow> (session, reply) op" where
  "planner_clear_server_settings v =
     (case non_empty (trimmed_field (as_record v) ''server'') of
        None \<Rightarrow> refuse ''bad_request''
      | Some s \<Rightarrow> then_save (clear_planner_settings_for_server s) (\<lambda>_. ret Done))"

definition planner_create_template :: "env \<Rightarrow> jsval \<Rightarrow> (session, reply) op" where
  "planner_create_template e v =
     (let obj = as_record v; title = trim (text_field obj ''title'') in
      guard_else (title \<noteq> []) (Thrown ''bad_request'') (
      case template_type_of (field obj ''type'') of
        None \<Rightarrow> refuse ''bad_request''
      | Some ty \<Rightarrow> then_save (create_planner_template (en_ids e 0) (now_text e 0) title ty
          (Some (num_or (num 0) (field obj ''estimateMinutes''))) (num_of (field obj ''rechargeHours''))
          (num_of (field obj ''maxStacks''))) (\<lambda>i. ret (Made i))))"

definition planner_update_template :: "env \<Rightarrow> jsval \<Rightarrow> (session, reply) op" where
  "planner_update_template e v =
     (let obj = as_record v; i = text_field obj ''id''; title = trim (text_field obj ''title'') in
      guard_else (i \<noteq> [] \<and> title \<noteq> []) (Thrown ''bad_request'') (
      case template_type_of (field obj ''type'') of
        None \<Rightarrow> refuse ''bad_request''
      | Some ty \<Rightarrow> then_save (update_planner_template (now_text e 0) i title ty
          (Some (num_or (num 0) (field obj ''estimateMinutes''))) (num_of (field obj ''rechargeHours''))
          (num_of (field obj ''maxStacks''))) (\<lambda>_. ret Done)))"

definition planner_delete_template :: "jsval \<Rightarrow> (session, reply) op" where
  "planner_delete_template v =
     (case non_empty (str_of v) of
        None \<Rightarrow> refuse ''bad_request''
      | Some t \<Rightarrow> then_save (delete_planner_template_by_id t) (\<lambda>_. ret Done))"

text \<open>An overview of a character that is gone resets the active character instead of failing.\<close>

definition planner_get_overview :: "env \<Rightarrow> jsval \<Rightarrow> (session, reply) op" where
  "planner_get_overview e v =
     (let obj = as_record v in ask (\<lambda>d. resolve_character_id d obj) (\<lambda>c.
      case non_empty c of
        None \<Rightarrow> ret Nothing
      | Some c \<Rightarrow> recover
          (and_then (on_db (get_planner_overview (en_host e) (en_clock e 0) c (str_of (field obj ''nowIso''))))
            (\<lambda>o1. ret (Overview o1)))
          (\<lambda>err. if err = Thrown ''character_not_found''
             then then_save (set_active_character_id None) (\<lambda>_. ret Nothing) else throw err)))"

definition overview_of :: "env \<Rightarrow> nat \<Rightarrow> string \<Rightarrow> (session, reply) op" where
  "overview_of e n c =
     and_then (on_db (get_planner_overview (en_host e) (en_clock e n) c None)) (\<lambda>o1. ret (Overview o1))"

definition planner_toggle_complete :: "env \<Rightarrow> jsval \<Rightarrow> (session, reply) op" where
  "planner_toggle_complete e v =
     (let obj = as_record v in for_character obj (\<lambda>c.
      let t = text_field obj ''templateId''; period = field obj ''period'' in
      guard_else (t \<noteq> [] \<and> period \<in> {Str ''DAILY'', Str ''WEEKLY''}) (Thrown ''bad_request'') (
      let now = date_or_now (en_host e) (en_clock e 0) (str_of (field obj ''nowIso'')) in
      ask (get_character c) (\<lambda>ch.
      case ch of
        None \<Rightarrow> refuse ''no_character''
      | Some ch \<Rightarrow>
          then_save
            (and_then (get_planner_settings_effective (now_text e 1) (ch_server ch)) (\<lambda>(st, scope).
             let key = (if period = Str ''DAILY'' then daily_period_key (tz (en_host e)) now (se_daily_reset_hhmm st)
                        else weekly_period_key (tz (en_host e)) now (se_daily_reset_hhmm st) (se_weekly_reset_day st)) in
             set_planner_completion (en_host e) (en_clock e 2) (en_ids e 0) c t key
               (truthy (field obj ''completed'')) (Some (iso now))))
            (\<lambda>_. overview_of e 3 c)))))"

definition planner_apply_preset :: "env \<Rightarrow> jsval \<Rightarrow> (session, reply) op" where
  "planner_apply_preset e v =
     (let obj = as_record v;
          mode = (if field obj ''mode'' = Str ''replace'' then ''replace'' else ''merge'') in
      then_save (apply_planner_preset (en_lower e) (en_ids e) (now_text e) mode (arr_or_empty (field obj ''templates'')))
        (\<lambda>(made, skipped). ret (Applied made skipped)))"

text \<open>The handlers that need a character and a template.\<close>

definition for_template :: "jsval \<Rightarrow> (string \<Rightarrow> string \<Rightarrow> (session, 'a) op) \<Rightarrow> (session, 'a) op" where
  "for_template obj k = for_character obj (\<lambda>c.
     let t = text_field obj ''templateId'' in guard_else (t \<noteq> []) (Thrown ''bad_request'') (k c t))"

definition planner_use_charge :: "env \<Rightarrow> jsval \<Rightarrow> (session, reply) op" where
  "planner_use_charge e v = for_template (as_record v) (\<lambda>c t.
     then_save (use_charge (en_host e) (en_clock e 0) (en_ids e 0) c t None) (\<lambda>_. overview_of e 1 c))"

definition planner_undo_charge :: "env \<Rightarrow> jsval \<Rightarrow> (session, reply) op" where
  "planner_undo_charge e v = for_template (as_record v) (\<lambda>c t.
     then_save (undo_charge c t) (\<lambda>_. overview_of e 0 c))"

definition planner_add_duration :: "env \<Rightarrow> jsval \<Rightarrow> (session, reply) op" where
  "planner_add_duration e v =
     (let obj = as_record v in for_template obj (\<lambda>c t.
      then_save (add_planner_duration (en_host e) (en_ids e 0) c t (text_field obj ''startedAt'')
        (text_field obj ''endedAt'') (num_or (num 0) (field obj ''seconds''))) (\<lambda>_. ret Done)))"

definition planner_list_durations :: "jsval \<Rightarrow> (session, reply) op" where
  "planner_list_durations v =
     (let obj = as_record v in for_character obj (\<lambda>c.
      answer (list_planner_durations c (num_of (field obj ''limit''))) Durations))"

definition planner_delete_duration :: "jsval \<Rightarrow> (session, reply) op" where
  "planner_delete_duration v =
     (let obj = as_record v in for_character obj (\<lambda>c.
      let i = text_field obj ''id'' in guard_else (i \<noteq> []) (Thrown ''bad_request'')
        (then_save (delete_planner_duration_by_id i c) (\<lambda>_. ret Done))))"

definition planner_get_duration_stats :: "jsval \<Rightarrow> (session, reply) op" where
  "planner_get_duration_stats v =
     (let obj = as_record v in for_character obj (\<lambda>c.
      ask (get_planner_duration_stats c (non_empty (str_of (field obj ''sinceIso'')))) (\<lambda>xs. ret (DurationStats xs))))"

section \<open>The build score\<close>

definition build_score_get :: "env \<Rightarrow> jsval \<Rightarrow> (session, reply) op" where
  "build_score_get e v =
     (let obj = as_record v in ask (\<lambda>d. resolve_character_id d obj) (\<lambda>c.
      case non_empty c of
        None \<Rightarrow> ret Nothing
      | Some c \<Rightarrow> ask (get_build_score (now_text e 0) c) (\<lambda>st. ret (Score st))))"

definition build_score_set :: "env \<Rightarrow> jsval \<Rightarrow> (session, reply) op" where
  "build_score_set e v =
     (let obj = as_record v in for_character obj (\<lambda>c.
      then_save (set_build_score (now_text e 0) c (field obj ''state'')) (\<lambda>_. ret Done)))"

definition build_score_reset :: "jsval \<Rightarrow> (session, reply) op" where
  "build_score_reset v = for_character (as_record v) (\<lambda>c. then_save (delete_build_score_of c) (\<lambda>_. ret Done))"

definition build_score_preset_list :: "jsval \<Rightarrow> (session, reply) op" where
  "build_score_preset_list v =
     (let obj = as_record v in ask (\<lambda>d. resolve_character_id d obj) (\<lambda>c.
      case non_empty c of
        None \<Rightarrow> ret (Presets [])
      | Some c \<Rightarrow> ask (list_build_score_presets c) (\<lambda>xs. ret (Presets xs))))"

definition for_preset :: "jsval \<Rightarrow> (string \<Rightarrow> (session, 'a) op) \<Rightarrow> (session, 'a) op" where
  "for_preset obj k = (let i = text_field obj ''presetId'' in guard_else (i \<noteq> []) (Thrown ''bad_request'') (k i))"

definition build_score_preset_get :: "jsval \<Rightarrow> (session, reply) op" where
  "build_score_preset_get v = for_preset (as_record v) (\<lambda>i. ask (get_build_score_preset i) (\<lambda>x. ret (OnePreset x)))"

definition build_score_preset_create :: "env \<Rightarrow> jsval \<Rightarrow> (session, reply) op" where
  "build_score_preset_create e v =
     (let obj = as_record v in for_character obj (\<lambda>c.
      then_save (create_build_score_preset (en_ids e 0) (now_text e 0) c (text_field obj ''name'')
        (str_of (field obj ''description'')) (field obj ''state'')) (\<lambda>x. ret (PresetItem x))))"

text \<open>A name or description that is given and is no text becomes the empty name or no description.\<close>

definition build_score_preset_update :: "env \<Rightarrow> jsval \<Rightarrow> (session, reply) op" where
  "build_score_preset_update e v =
     (let obj = as_record v in for_preset obj (\<lambda>i.
      then_save (update_build_score_preset (now_text e 0) i
        (if field obj ''name'' = Undef then None else Some (text_field obj ''name''))
        (if field obj ''description'' = Undef then Undef
         else case str_of (field obj ''description'') of Some s \<Rightarrow> Str s | None \<Rightarrow> Null))
        (\<lambda>x. ret (PresetItem x))))"

definition build_score_preset_clone :: "env \<Rightarrow> jsval \<Rightarrow> (session, reply) op" where
  "build_score_preset_clone e v =
     (let obj = as_record v in for_preset obj (\<lambda>i.
      then_save (clone_build_score_preset (en_ids e 0) (now_text e 0) i (str_of (field obj ''name'')))
        (\<lambda>x. ret (PresetItem x))))"

definition build_score_preset_delete :: "jsval \<Rightarrow> (session, reply) op" where
  "build_score_preset_delete v = for_preset (as_record v) (\<lambda>i.
     then_save (delete_build_score_preset_by_id i) (\<lambda>_. ret Done))"

definition export_meta :: "env \<Rightarrow> string \<Rightarrow> jsval" where
  "export_meta e kind = Obj [(''kind'', Str kind), (''appVersion'', Str (en_version e)),
     (''platform'', Str (en_platform e)), (''exportedAt'', Str (now_text e 1))]"

definition exported_preset :: "score_preset \<Rightarrow> jsval" where
  "exported_preset p = Obj [(''name'', Str (sp_name p)), (''description'', opt_str (sp_description p)),
     (''stats'', Arr (map stat_json (sp_stats p)))]"

definition build_score_preset_export_json :: "env \<Rightarrow> jsval \<Rightarrow> (session, reply) op" where
  "build_score_preset_export_json e v =
     (let obj = as_record v; preset_id = text_field obj ''presetId'' in
      ask (\<lambda>d. resolve_character_id d obj) (\<lambda>c.
      if preset_id \<noteq> [] then ask (get_build_score_preset preset_id) (\<lambda>x.
        case x of
          None \<Rightarrow> refuse ''not_found''
        | Some p \<Rightarrow> and_then (write_export (en_file_path e)
            (Obj [(''meta'', export_meta e ''buildScorePreset''), (''preset'', exported_preset p)]))
            (\<lambda>_. ret (Wrote (en_file_path e))))
      else if truthy (field obj ''all'') then
        (case non_empty c of
           None \<Rightarrow> refuse ''no_character''
         | Some c \<Rightarrow> ask (list_build_score_presets_full c) (\<lambda>ps.
             and_then (write_export (en_file_path e)
               (Obj [(''meta'', export_meta e ''buildScorePresets''), (''presets'', Arr (map exported_preset ps))]))
               (\<lambda>_. ret (WroteMany (en_file_path e) (length ps)))))
      else refuse ''bad_request''))"

text \<open>The file that the user picks: none, or its path with what reading and parsing it gives.\<close>

definition with_opened_file :: "env \<Rightarrow> (string \<Rightarrow> jsval \<Rightarrow> (session, reply) op) \<Rightarrow> (session, reply) op" where
  "with_opened_file e k =
     (case en_opened e of
        None \<Rightarrow> ret Cancelled
      | Some (path, parsed) \<Rightarrow>
          if path = [] then ret Cancelled
          else (case parsed of Inl err \<Rightarrow> throw err | Inr v \<Rightarrow> k path v))"

definition build_score_preset_import_json :: "env \<Rightarrow> jsval \<Rightarrow> (session, reply) op" where
  "build_score_preset_import_json e v = for_character (as_record v) (\<lambda>c.
     with_opened_file e (\<lambda>path parsed.
       then_save (import_build_score_presets_from_json (en_ids e) (now_text e 0) c parsed)
         (\<lambda>made. ret (Imported path (Some made)))))"

section \<open>The economy\<close>

definition economy_list_items :: "jsval \<Rightarrow> (session, reply) op" where
  "economy_list_items v =
     (let obj = as_record v in
      answer (list_economy_items (str_of (field obj ''q'')) (num_of (field obj ''limit''))) Items)"

definition economy_update_item :: "env \<Rightarrow> jsval \<Rightarrow> (session, reply) op" where
  "economy_update_item e v =
     (let obj = as_record v; i = text_field obj ''id''; name = text_field obj ''name'' in
      guard_else (i \<noteq> [] \<and> trim name \<noteq> []) (Thrown ''bad_request'')
        (then_save (update_economy_item_by_id (now_text e 0) i name (str_of (field obj ''category''))
          (str_of (field obj ''note''))) (\<lambda>_. ret Done)))"

definition for_id :: "jsval \<Rightarrow> (string \<Rightarrow> (session, 'a) op) \<Rightarrow> (session, 'a) op" where
  "for_id obj k = (let i = text_field obj ''id'' in guard_else (i \<noteq> []) (Thrown ''bad_request'') (k i))"

definition economy_delete_item :: "jsval \<Rightarrow> (session, reply) op" where
  "economy_delete_item v = for_id (as_record v) (\<lambda>i. then_save (delete_economy_item_by_id i) (\<lambda>_. ret Done))"

definition economy_add_price :: "env \<Rightarrow> jsval \<Rightarrow> (session, reply) op" where
  "economy_add_price e v =
     (let obj = as_record v; server = trim (text_field obj ''server''); name = trim (text_field obj ''itemName'') in
      guard_else (server \<noteq> [] \<and> name \<noteq> []) (Thrown ''bad_request'')
        (then_save (add_economy_price (en_ids e) (now_text e) server name (num_or (num 0) (field obj ''price''))
          (str_of (field obj ''recordedAt''))) (\<lambda>r. ret (Recorded r))))"

definition economy_list_prices :: "jsval \<Rightarrow> (session, reply) op" where
  "economy_list_prices v =
     (let obj = as_record v; server = trim (text_field obj ''server''); i = text_field obj ''itemId'' in
      guard_else (server \<noteq> [] \<and> i \<noteq> []) (Thrown ''bad_request'')
        (answer (list_economy_prices server i (num_of (field obj ''limit''))) Prices))"

definition economy_list_watches :: "jsval \<Rightarrow> (session, reply) op" where
  "economy_list_watches v =
     (let server = trim (text_field (as_record v) ''server'') in
      guard_else (server \<noteq> []) (Thrown ''bad_request'') (answer (list_economy_watches server) Watches))"

definition economy_create_watch :: "env \<Rightarrow> jsval \<Rightarrow> (session, reply) op" where
  "economy_create_watch e v =
     (let obj = as_record v; server = trim (text_field obj ''server''); name = trim (text_field obj ''itemName'') in
      guard_else (server \<noteq> [] \<and> name \<noteq> [] \<and> as_op (field obj ''op'') \<noteq> None) (Thrown ''bad_request'')
        (then_save (create_economy_watch (en_ids e) (now_text e) server name (field obj ''op'')
          (num_or (num 0) (field obj ''threshold''))) (\<lambda>w. ret (Watch w))))"

definition economy_set_watch_active :: "env \<Rightarrow> jsval \<Rightarrow> (session, reply) op" where
  "economy_set_watch_active e v =
     (let obj = as_record v in for_id obj (\<lambda>i.
      then_save (set_economy_watch_active (now_text e 0) i (truthy (field obj ''active''))) (\<lambda>_. ret Done)))"

definition economy_delete_watch :: "jsval \<Rightarrow> (session, reply) op" where
  "economy_delete_watch v = for_id (as_record v) (\<lambda>i. then_save (delete_economy_watch i) (\<lambda>_. ret Done))"

definition economy_list_alerts :: "jsval \<Rightarrow> (session, reply) op" where
  "economy_list_alerts v =
     (let obj = as_record v in
      answer (list_economy_alert_events (trimmed_field obj ''server'') (truthy (field obj ''unreadOnly''))
        (num_of (field obj ''limit''))) Alerts)"

definition economy_mark_alert_read :: "env \<Rightarrow> jsval \<Rightarrow> (session, reply) op" where
  "economy_mark_alert_read e v = for_id (as_record v) (\<lambda>i.
     then_save (mark_economy_alert_read (now_text e 0) i) (\<lambda>_. ret Done))"

section \<open>Loot\<close>

definition optional_text :: zod where
  "optional_text = ZOptional (ZNullable ZString)"

definition loot_create_run_input_schema :: zod where
  "loot_create_run_input_schema = ZObject [(''characterId'', ZOptional ZString), (''content'', ZString),
     (''role'', optional_text), (''powerBracket'', optional_text), (''startedAt'', optional_text),
     (''endedAt'', optional_text), (''seconds'', ZOptional (ZNullable (ZFinite ZNumber))),
     (''drops'', ZOptional (ZArray ZUnknown)), (''costs'', ZOptional (ZArray ZUnknown))]"

definition loot_drop_schema :: zod where
  "loot_drop_schema = ZObject [(''itemName'', ZString), (''qty'', ZFinite ZNumber), (''note'', optional_text)]"

definition loot_cost_schema :: zod where
  "loot_cost_schema = ZUnion
     [ZObject [(''kind'', ZLiteral ''KINAH''), (''kinah'', ZOptional (ZFinite ZNumber)), (''note'', optional_text)],
      ZObject [(''kind'', ZLiteral ''ITEM''), (''itemName'', optional_text), (''qty'', ZOptional (ZFinite ZNumber)),
               (''note'', optional_text)]]"

text \<open>\<open>v ?? d\<close>.\<close>

definition nullish_or :: "jsval \<Rightarrow> jsval \<Rightarrow> jsval" where
  "nullish_or v d = (if v = Undef \<or> v = Null then d else v)"

definition loot_drop_input :: "env \<Rightarrow> jsval \<Rightarrow> jsval option" where
  "loot_drop_input e raw =
     (case en_safe_parse e loot_drop_schema raw of
        None \<Rightarrow> None
      | Some p \<Rightarrow>
          (let name = trim (text_field p ''itemName'') in
           if name = [] then None
           else Some (Obj [(''itemName'', Str name), (''qty'', field p ''qty''), (''note'', nullish_or (field p ''note'') Null)])))"

definition loot_cost_input :: "env \<Rightarrow> jsval \<Rightarrow> jsval option" where
  "loot_cost_input e raw =
     (case en_safe_parse e loot_cost_schema raw of
        None \<Rightarrow> None
      | Some p \<Rightarrow>
          (let note = nullish_or (field p ''note'') Null in
           if field p ''kind'' = Str ''KINAH''
           then Some (Obj [(''kind'', Str ''KINAH''), (''kinah'', nullish_or (field p ''kinah'') (Num (num 0))), (''note'', note)])
           else Some (Obj [(''kind'', Str ''ITEM''),
             (''itemName'', opt_str (trimmed_field p ''itemName'')),
             (''qty'', nullish_or (field p ''qty'') (Num (num 0))), (''note'', note)])))"

definition loot_list_runs :: "jsval \<Rightarrow> (session, reply) op" where
  "loot_list_runs v =
     (let obj = as_record v in for_character obj (\<lambda>c.
      answer (list_loot_runs c (num_of (field obj ''limit''))) Runs))"

definition loot_get_run :: "jsval \<Rightarrow> (session, reply) op" where
  "loot_get_run v = for_id (as_record v) (\<lambda>i. ask (get_loot_run i) (\<lambda>r. ret (OneRun r)))"

definition loot_create_run :: "env \<Rightarrow> jsval \<Rightarrow> (session, reply) op" where
  "loot_create_run e v = parse_input e loot_create_run_input_schema v (\<lambda>obj. for_character obj (\<lambda>c.
     let content = trim (text_field obj ''content'') in
     guard_else (content \<noteq> []) (Thrown ''bad_request'')
       (then_save (create_loot_run (en_host e) (en_rollback e) (en_ids e) (\<lambda>i. now_text e (i + 1)) (now_text e 0)
          \<lparr>in_character = c, in_content = content, in_role = trimmed_opt (str_of (field obj ''role'')),
           in_power = trimmed_opt (str_of (field obj ''powerBracket'')), in_started = str_of (field obj ''startedAt''),
           in_ended = str_of (field obj ''endedAt''), in_seconds = num_of (field obj ''seconds''),
           in_drops = Arr (List.map_filter (loot_drop_input e) (arr_or_empty (field obj ''drops''))),
           in_costs = Arr (List.map_filter (loot_cost_input e) (arr_or_empty (field obj ''costs'')))\<rparr>)
         (\<lambda>i. ret (Made i)))))"

definition loot_delete_run :: "jsval \<Rightarrow> (session, reply) op" where
  "loot_delete_run v =
     (let obj = as_record v in for_character obj (\<lambda>c. for_id obj (\<lambda>i.
      then_save (delete_loot_run_of i c) (\<lambda>_. ret Done))))"

definition loot_weekly_report :: "env \<Rightarrow> jsval \<Rightarrow> (session, reply) op" where
  "loot_weekly_report e v =
     (let obj = as_record v in for_character obj (\<lambda>c.
      answer (get_loot_weekly_report (en_host e) (en_clock e 0) c (str_of (field obj ''server''))
        (str_of (field obj ''nowIso''))) Report))"

section \<open>Backups\<close>

definition backup_payload :: "env \<Rightarrow> jsval \<Rightarrow> jsval" where
  "backup_payload e backup =
     (case backup of
        Obj kvs \<Rightarrow> Obj ((''meta'', Obj [(''appVersion'', Str (en_version e)), (''platform'', Str (en_platform e)),
                                       (''exportedAt'', field backup ''exportedAt'')]) # kvs)
      | v \<Rightarrow> v)"

definition backup_export_json :: "env \<Rightarrow> (session, reply) op" where
  "backup_export_json e =
     and_then (on_db (export_user_backup (now_text e 1) (now_text e 2))) (\<lambda>backup.
     and_then (write_export (en_file_path e) (backup_payload e backup)) (\<lambda>_. ret (Wrote (en_file_path e))))"

definition backup_import_json :: "env \<Rightarrow> (session, reply) op" where
  "backup_import_json e = with_opened_file e (\<lambda>path parsed.
     then_save (import_user_backup (en_rollback e) (now_text e 0) parsed) (\<lambda>_. ret (Imported path None)))"

section \<open>All channels\<close>

datatype request =
    AppPing | GetActiveCharacterId | SetActiveCharacterId jsval
  | NoticesList jsval | NoticesGet jsval | NoticesGetLatestDiff jsval
  | CharactersList | CharactersCreate jsval | CharactersUpdate jsval | CharactersDelete jsval
  | PlannerGetSettings jsval | PlannerSetSettings jsval | PlannerClearServerSettings jsval
  | PlannerListTemplates | PlannerCreateTemplate jsval | PlannerUpdateTemplate jsval | PlannerDeleteTemplate jsval
  | PlannerGetOverview jsval | PlannerToggleComplete jsval | PlannerApplyPreset jsval
  | PlannerUseCharge jsval | PlannerUndoCharge jsval | PlannerAddDuration jsval | PlannerListDurations jsval
  | PlannerDeleteDuration jsval | PlannerGetDurationStats jsval
  | BuildScoreGet jsval | BuildScoreSet jsval | BuildScoreReset jsval
  | PresetList jsval | PresetGet jsval | PresetCreate jsval | PresetUpdate jsval | PresetClone jsval
  | PresetDelete jsval | PresetExportJson jsval | PresetImportJson jsval
  | EconomyListItems jsval | EconomyUpdateItem jsval | EconomyDeleteItem jsval | EconomyAddPrice jsval
  | EconomyListPrices jsval | EconomyListWatches jsval | EconomyCreateWatch jsval | EconomySetWatchActive jsval
  | EconomyDeleteWatch jsval | EconomyListAlerts jsval | EconomyMarkAlertRead jsval
  | LootListRuns jsval | LootGetRun jsval | LootCreateRun jsval | LootDeleteRun jsval | LootWeeklyReport jsval
  | BackupExportJson | BackupImportJson

fun handle :: "env \<Rightarrow> request \<Rightarrow> (session, reply) op" where
  "handle e AppPing = ret Pong"
| "handle e GetActiveCharacterId = ask get_active_character_id (\<lambda>c. ret (TextOrNull c))"
| "handle e (SetActiveCharacterId v) = app_set_active_character_id v"
| "handle e (NoticesList v) = notices_list v"
| "handle e (NoticesGet v) = notices_get v"
| "handle e (NoticesGetLatestDiff v) = notices_get_latest_diff v"
| "handle e CharactersList = ask list_characters (\<lambda>cs. ret (Characters cs))"
| "handle e (CharactersCreate v) = characters_create e v"
| "handle e (CharactersUpdate v) = characters_update e v"
| "handle e (CharactersDelete v) = characters_delete v"
| "handle e (PlannerGetSettings v) = planner_get_settings e v"
| "handle e (PlannerSetSettings v) = planner_set_settings e v"
| "handle e (PlannerClearServerSettings v) = planner_clear_server_settings v"
| "handle e PlannerListTemplates = ask list_planner_templates (\<lambda>ts. ret (Templates ts))"
| "handle e (PlannerCreateTemplate v) = planner_create_template e v"
| "handle e (PlannerUpdateTemplate v) = planner_update_template e v"
| "handle e (PlannerDeleteTemplate v) = planner_delete_template v"
| "handle e (PlannerGetOverview v) = planner_get_overview e v"
| "handle e (PlannerToggleComplete v) = planner_toggle_complete e v"
| "handle e (PlannerApplyPreset v) = planner_apply_preset e v"
| "handle e (PlannerUseCharge v) = planner_use_charge e v"
| "handle e (PlannerUndoCharge v) = planner_undo_charge e v"
| "handle e (PlannerAddDuration v) = planner_add_duration e v"
| "handle e (PlannerListDurations v) = planner_list_durations v"
| "handle e (PlannerDeleteDuration v) = planner_delete_duration v"
| "handle e (PlannerGetDurationStats v) = planner_get_duration_stats v"
| "handle e (BuildScoreGet v) = build_score_get e v"
| "handle e (BuildScoreSet v) = build_score_set e v"
| "handle e (BuildScoreReset v) = build_score_reset v"
| "handle e (PresetList v) = build_score_preset_list v"
| "handle e (PresetGet v) = build_score_preset_get v"
| "handle e (PresetCreate v) = build_score_preset_create e v"
| "handle e (PresetUpdate v) = build_score_preset_update e v"
| "handle e (PresetClone v) = build_score_preset_clone e v"
| "handle e (PresetDelete v) = build_score_preset_delete v"
| "handle e (PresetExportJson v) = build_score_preset_export_json e v"
| "handle e (PresetImportJson v) = build_score_preset_import_json e v"
| "handle e (EconomyListItems v) = economy_list_items v"
| "handle e (EconomyUpdateItem v) = economy_update_item e v"
| "handle e (EconomyDeleteItem v) = economy_delete_item v"
| "handle e (EconomyAddPrice v) = economy_add_price e v"
| "handle e (EconomyListPrices v) = economy_list_prices v"
| "handle e (EconomyListWatches v) = economy_list_watches v"
| "handle e (EconomyCreateWatch v) = economy_create_watch e v"
| "handle e (EconomySetWatchActive v) = economy_set_watch_active e v"
| "handle e (EconomyDeleteWatch v) = economy_delete_watch v"
| "handle e (EconomyListAlerts v) = economy_list_alerts v"
| "handle e (EconomyMarkAlertRead v) = economy_mark_alert_read e v"
| "handle e (LootListRuns v) = loot_list_runs v"
| "handle e (LootGetRun v) = loot_get_run v"
| "handle e (LootCreateRun v) = loot_create_run e v"
| "handle e (LootDeleteRun v) = loot_delete_run v"
| "handle e (LootWeeklyReport v) = loot_weekly_report e v"
| "handle e BackupExportJson = backup_export_json e"
| "handle e BackupImportJson = backup_import_json e"

text \<open>Before the database is open every channel but the ping fails.\<close>

definition ipc :: "env \<Rightarrow> request \<Rightarrow> (session option, reply) op" where
  "ipc e req st =
     (case st of
        None \<Rightarrow> (if req = AppPing then Inr Pong else Inl (Thrown ''db_not_ready''), None)
      | Some s \<Rightarrow> (let (r, s') = handle e req s in (r, Some s')))"

end
