(* ===== verification/HandlerFacts.thy ===== *)
theory HandlerFacts
  imports Handlers
begin

text \<open>
  What holds whatever the renderer sends: the interface \<open>session_invariant\<close> of a property of
  the database that every handler keeps, the saving of what a request did, and the states that
  the main process can reach.
\<close>

section \<open>Handlers keep invariants\<close>

text \<open>The property holds of the open database and of what its file holds, which is there.\<close>

definition everywhere :: "(db \<Rightarrow> bool) \<Rightarrow> session \<Rightarrow> bool" where
  "everywhere I s \<longleftrightarrow> I (se_db s) \<and> (\<exists>f. se_file s = Some f \<and> I f)"

lemma keeps_on_db [keeps_intro]: "keeps I m \<Longrightarrow> keeps (everywhere I) (on_db m)"
  by (rule keepsI) (simp add: on_db_def everywhere_def split_beta keepsD)

lemma keeps_ask [keeps_intro]: "(\<And>x. keeps P (k x)) \<Longrightarrow> keeps P (ask f k)"
  by (simp add: keeps_def ask_def)

lemma keeps_answer [keeps_intro]: "keeps P (answer f g)"
  by (simp add: keeps_def answer_def split: sum.split)

lemma keeps_write_export [keeps_intro]: "keeps (everywhere I) (write_export path content)"
  by (simp add: keeps_def write_export_def everywhere_def split: option.split)

lemma keeps_save: "keeps I persist \<Longrightarrow> keeps (everywhere I) save"
  by (rule keepsI) (simp add: save_def on_db_def everywhere_def Let_def split_beta keepsD split: option.split)

lemma keeps_recover [keeps_intro]: "keeps P m \<Longrightarrow> (\<And>e. keeps P (h e)) \<Longrightarrow> keeps P (recover m h)"
  by (fastforce simp: keeps_def recover_def split: prod.split sum.split)

lemma keeps_for_character [keeps_intro]: "(\<And>c. keeps P (k c)) \<Longrightarrow> keeps P (for_character obj k)"
  unfolding for_character_def by (intro keeps_intro)

lemma keeps_for_template [keeps_intro]: "(\<And>c t. keeps P (k c t)) \<Longrightarrow> keeps P (for_template obj k)"
  unfolding for_template_def by (intro keeps_intro)

lemma keeps_for_preset [keeps_intro]: "(\<And>i. keeps P (k i)) \<Longrightarrow> keeps P (for_preset obj k)"
  unfolding for_preset_def by (intro keeps_intro)

lemma keeps_for_id [keeps_intro]: "(\<And>i. keeps P (k i)) \<Longrightarrow> keeps P (for_id obj k)"
  unfolding for_id_def by (intro keeps_intro)

lemma keeps_parse_input [keeps_intro]: "(\<And>x. keeps P (k x)) \<Longrightarrow> keeps P (parse_input e schema v k)"
  unfolding parse_input_def by (intro keeps_intro)

lemma keeps_with_opened_file [keeps_intro]: "(\<And>p v. keeps P (k p v)) \<Longrightarrow> keeps P (with_opened_file e k)"
  unfolding with_opened_file_def by (intro keeps_intro)

text \<open>The handlers, without the dispatcher.\<close>

lemmas character_handlers = app_set_active_character_id_def characters_create_def characters_update_def
  characters_delete_def notices_list_def notices_get_def notices_get_latest_diff_def

lemmas planner_handlers = planner_get_settings_def planner_set_settings_def planner_clear_server_settings_def
  planner_create_template_def planner_update_template_def planner_delete_template_def
  planner_get_overview_def planner_toggle_complete_def planner_apply_preset_def planner_use_charge_def planner_undo_charge_def
  planner_add_duration_def planner_list_durations_def planner_delete_duration_def
  planner_get_duration_stats_def overview_of_def

lemmas score_handlers = build_score_get_def build_score_set_def build_score_reset_def
  build_score_preset_list_def build_score_preset_get_def build_score_preset_create_def
  build_score_preset_update_def build_score_preset_clone_def build_score_preset_delete_def
  build_score_preset_export_json_def build_score_preset_import_json_def

lemmas economy_handlers = economy_list_items_def economy_update_item_def economy_delete_item_def
  economy_add_price_def economy_list_prices_def economy_list_watches_def economy_create_watch_def
  economy_set_watch_active_def economy_delete_watch_def economy_list_alerts_def economy_mark_alert_read_def

lemmas loot_handlers = loot_list_runs_def loot_get_run_def loot_create_run_def loot_delete_run_def
  loot_weekly_report_def backup_export_json_def

text \<open>
  A property that every statement keeps and that an import keeps whose ROLLBACK works is kept by
  every handler.
\<close>

locale session_invariant = db_invariant +
  assumes import_keeps [keeps_intro]: "keeps I (import_user_backup None now raw)"
begin

lemma save_keeps [keeps_intro]: "keeps (everywhere I) save"
  by (rule keeps_save) (rule stmt_keeps, rule export_file)

lemma then_save_keeps [keeps_intro]:
  "keeps I m \<Longrightarrow> (\<And>x. keeps (everywhere I) (k x)) \<Longrightarrow> keeps (everywhere I) (then_save m k)"
  unfolding then_save_def by (intro keeps_intro)

lemma bundle_keeps [keeps_intro]: "keeps I (get_planner_settings_bundle now server)"
  unfolding get_planner_settings_bundle_def by (intro keeps_intro)

lemma character_handlers_keep:
  "keeps (everywhere I) (app_set_active_character_id v)"
  "keeps (everywhere I) (characters_create e v)"
  "keeps (everywhere I) (characters_update e v)"
  "keeps (everywhere I) (characters_delete v)"
  "keeps (everywhere I) (notices_list v)"
  "keeps (everywhere I) (notices_get v)"
  "keeps (everywhere I) (notices_get_latest_diff v)"
  unfolding character_handlers Let_def by (intro keeps_intro)+

lemma planner_handlers_keep:
  "keeps (everywhere I) (planner_get_settings e v)"
  "keeps (everywhere I) (planner_set_settings e v)"
  "keeps (everywhere I) (planner_clear_server_settings v)"
  "keeps (everywhere I) (planner_create_template e v)"
  "keeps (everywhere I) (planner_update_template e v)"
  "keeps (everywhere I) (planner_delete_template v)"
  "keeps (everywhere I) (planner_get_overview e v)"
  "keeps (everywhere I) (planner_toggle_complete e v)"
  "keeps (everywhere I) (planner_apply_preset e v)"
  "keeps (everywhere I) (planner_use_charge e v)"
  "keeps (everywhere I) (planner_undo_charge e v)"
  "keeps (everywhere I) (planner_add_duration e v)"
  "keeps (everywhere I) (planner_list_durations v)"
  "keeps (everywhere I) (planner_delete_duration v)"
  "keeps (everywhere I) (planner_get_duration_stats v)"
  "keeps (everywhere I) (overview_of e n c)"
  unfolding planner_handlers Let_def by (intro keeps_intro)+

lemma score_handlers_keep:
  "keeps (everywhere I) (build_score_get e v)"
  "keeps (everywhere I) (build_score_set e v)"
  "keeps (everywhere I) (build_score_reset v)"
  "keeps (everywhere I) (build_score_preset_list v)"
  "keeps (everywhere I) (build_score_preset_get v)"
  "keeps (everywhere I) (build_score_preset_create e v)"
  "keeps (everywhere I) (build_score_preset_update e v)"
  "keeps (everywhere I) (build_score_preset_clone e v)"
  "keeps (everywhere I) (build_score_preset_delete v)"
  "keeps (everywhere I) (build_score_preset_export_json e v)"
  "keeps (everywhere I) (build_score_preset_import_json e v)"
  unfolding score_handlers Let_def by (intro keeps_intro)+

lemma economy_handlers_keep:
  "keeps (everywhere I) (economy_list_items v)"
  "keeps (everywhere I) (economy_update_item e v)"
  "keeps (everywhere I) (economy_delete_item v)"
  "keeps (everywhere I) (economy_add_price e v)"
  "keeps (everywhere I) (economy_list_prices v)"
  "keeps (everywhere I) (economy_list_watches v)"
  "keeps (everywhere I) (economy_create_watch e v)"
  "keeps (everywhere I) (economy_set_watch_active e v)"
  "keeps (everywhere I) (economy_delete_watch v)"
  "keeps (everywhere I) (economy_list_alerts v)"
  "keeps (everywhere I) (economy_mark_alert_read e v)"
  unfolding economy_handlers Let_def by (intro keeps_intro)+

lemma loot_handlers_keep:
  "keeps (everywhere I) (loot_list_runs v)"
  "keeps (everywhere I) (loot_get_run v)"
  "keeps (everywhere I) (loot_create_run e v)"
  "keeps (everywhere I) (loot_delete_run v)"
  "keeps (everywhere I) (loot_weekly_report e v)"
  "keeps (everywhere I) (backup_export_json e)"
  unfolding loot_handlers Let_def by (intro keeps_intro)+

lemma backup_import_json_keeps: "en_rollback e = None \<Longrightarrow> keeps (everywhere I) (backup_import_json e)"
  by (simp add: backup_import_json_def) (intro keeps_intro)

lemma handle_keeps: "en_rollback e = None \<Longrightarrow> keeps (everywhere I) (handle e req)"
  by (cases req) (simp_all add: character_handlers_keep planner_handlers_keep score_handlers_keep
      economy_handlers_keep loot_handlers_keep backup_import_json_keeps keeps_ret keeps_ask)

end

interpretation session_keys: session_invariant keys_ok
  by unfold_locales (rule keys.import_user_backup_keeps)

interpretation session_refs: session_invariant enforced_refs
  by unfold_locales (rule refs.import_user_backup_keeps)

section \<open>The default settings survive an import\<close>

lemma imported_default:
  assumes "insert_settings_row r d = (Inr u, d')" "ps_id r = ''default''"
  shows "has_default d'"
proof -
  from assms have "insert_planner_settings Abort r d = (Inr (), d')"
    by (auto simp: insert_settings_row_def not_null_def guard_else_apply split: if_splits)
  from insert_into_done [OF this [unfolded insert_planner_settings_def]] assms(2)
  show ?thesis by (simp add: has_default_def has_id_snoc)
qed

lemma import_rows_default:
  assumes run: "import_rows now b d = (Inr u, d')" and "ps_id (br_default_settings b) = ''default''"
  shows "has_default d'"
proof -
  define rest where "rest = and_then (for_each (br_server_settings b) insert_settings_row) (\<lambda>_.
     case non_empty (br_active b) of None \<Rightarrow> ret () | Some c \<Rightarrow> set_active_character_id (Some c))"
  define more where "more = and_then rest (\<lambda>_. and_then (import_economy b) (\<lambda>_.
     and_then (import_scores_and_loot b) (\<lambda>_. and_then (import_planner b) (\<lambda>_. assign_all_pairs now))))"
  obtain d1 d2 where "insert_settings_row (br_default_settings b) d1 = (Inr (), d2)" "more d2 = (Inr u, d')"
    using run by (auto simp: import_rows_def import_settings_def and_then_Inr more_def rest_def)
  moreover have "keeps has_default more"
    unfolding more_def rest_def insert_settings_row_def import_economy_def import_scores_and_loot_def
      import_planner_def assign_all_pairs_def by (intro keeps_intro)
  ultimately show ?thesis using imported_default [OF _ assms(2)] keepsD [of has_default more d2] by auto
qed

lemma import_keeps_default: "keeps has_default (import_user_backup None now raw)"
proof (rule keepsI)
  fix d assume d: "has_default d"
  have "ps_id (br_default_settings (read_backup now version raw)) = ''default''" for version
    by (simp add: read_backup_def read_settings_def Let_def split_beta)
  with d show "has_default (snd (import_user_backup None now raw d))"
    by (auto simp: import_user_backup_def guard_else_apply throw_apply in_transaction_def
        split: option.splits prod.splits sum.splits dest: import_rows_default)
qed

interpretation session_default: session_invariant has_default
  by unfold_locales (rule import_keeps_default)

end
