(* ===== verification/MainProcess.thy ===== *)
theory MainProcess
  imports HandlerFacts Scheduler
begin

text \<open>
  The running main process: how it starts on the file it finds (\<open>openDesktopDb\<close> of
  \<open>main/storage/db.ts\<close>), the states it can reach by requests, synchronisations, disk failures,
  crashes and restarts, and what holds in all of them.
\<close>

section \<open>Starting\<close>

text \<open>
  A file that cannot be read is taken for a file that is not there: the process then starts with an empty
  database and saves that. The pragma of a new connection is off until \<open>init\<close> turns it on.
\<close>

definition found_db :: "bool \<Rightarrow> bool \<Rightarrow> session \<Rightarrow> db" where
  "found_db keeps_pragmas readable s =
     (case (if readable then se_file s else None) of
        Some f \<Rightarrow> f\<lparr>foreign_keys := False\<rparr>
      | None \<Rightarrow> empty_db keeps_pragmas)"

definition start_app :: "bool \<Rightarrow> bool \<Rightarrow> string \<Rightarrow> (session, unit) op" where
  "start_app keeps_pragmas readable now s =
     and_then (on_db (init_db now)) (\<lambda>_. save) (s\<lparr>se_db := found_db keeps_pragmas readable s\<rparr>)"

definition no_file :: "bool \<Rightarrow> string option \<Rightarrow> session" where
  "no_file keeps_pragmas disk =
     \<lparr>se_db = empty_db keeps_pragmas, se_file = None, se_exports = [], se_disk = disk\<rparr>"

section \<open>Reachable states\<close>

text \<open>
  A synchronisation waits for the network between two articles, and handlers run meanwhile; so its
  steps here are the storing of one article and, at its end, the saving. The process may crash and start
  again at any moment. ROLLBACK is assumed to work.
\<close>

inductive reachable :: "session \<Rightarrow> bool" where
  first_start: "start_app k readable now (no_file k disk) = (Inr (), s) \<Longrightarrow> reachable s"
| request: "reachable s \<Longrightarrow> en_rollback e = None \<Longrightarrow> reachable (snd (handle e req s))"
| article: "reachable s \<Longrightarrow> reachable (snd (on_db (store_detail sv ids clock source m detail t) s))"
| synced: "reachable s \<Longrightarrow> reachable (snd (save s))"
| disk: "reachable s \<Longrightarrow> reachable (s\<lparr>se_disk := failure\<rparr>)"
| restart: "reachable s \<Longrightarrow> start_app k readable now s = (Inr (), s') \<Longrightarrow> reachable s'"

context session_invariant
begin

lemma store_detail_keeps [keeps_intro]: "keeps I (store_detail sv ids clock source m detail t)"
  unfolding store_detail_def store_diff_def Let_def by (intro keeps_intro)

lemma sync_notices_keeps: "keeps (everywhere I) (sync_notices sv opts ids clock)"
  unfolding sync_notices_def by (intro keeps_intro)

end

lemma started:
  assumes "start_app k readable now s = (Inr (), s')"
  shows "se_file s' = Some (snd (init_db now (found_db k readable s)))"
    and "se_db s' = export_effect (snd (init_db now (found_db k readable s)))"
  using assms by (auto simp: start_app_def and_then_Inr on_db_done save_done)

text \<open>What a property needs to hold in every reachable state.\<close>

locale process_invariant = session_invariant +
  assumes fresh: "I (snd (init_db now (empty_db k)))"
    and reopened: "I d \<Longrightarrow> I (snd (init_db now (d\<lparr>foreign_keys := False\<rparr>)))"
begin

lemma started_everywhere:
  assumes "start_app k readable now s = (Inr (), s')" and "\<And>f. se_file s = Some f \<Longrightarrow> I f"
  shows "everywhere I s'"
proof -
  have "I (snd (init_db now (found_db k readable s)))"
    using assms(2) by (auto simp: found_db_def fresh reopened split: option.split)
  moreover have "keeps I persist" by (rule stmt_keeps) (rule export_file)
  ultimately show ?thesis
    using started [OF assms(1)] by (auto simp: everywhere_def persist_def modify_apply dest: keepsD)
qed

lemma reachable_everywhere: "reachable s \<Longrightarrow> everywhere I s"
proof (induction rule: reachable.induct)
  case (first_start k readable now disk s)
  then show ?case using started_everywhere [OF first_start] by (simp add: no_file_def)
next
  case (request s e req)
  then show ?case by (simp add: keepsD [OF handle_keeps])
next
  case (article s sv ids clock source m detail t)
  then show ?case by (intro keepsD [of "everywhere I"] keeps_intro)
next
  case (synced s)
  then show ?case by (intro keepsD [of "everywhere I"] keeps_intro)
next
  case (disk s failure)
  then show ?case by (simp add: everywhere_def)
next
  case (restart s k readable now s')
  then show ?case using started_everywhere [OF restart.hyps(2)] by (auto simp: everywhere_def)
qed

end

lemma keys_ok_foreign_keys: "keys_ok (d\<lparr>foreign_keys := b\<rparr>) = keys_ok d"
  by (simp add: keys_ok_def)

lemma keys_ok_init:
  assumes "keys_ok d"
  shows "keys_ok (snd (init_db now d))"
  using assms
  by (auto simp: init_db_result keys_ok_def uniq_snoc has_default_def has_id_iff clash_planner_settings_def
      default_settings_row_def)

lemma keys_ok_empty: "keys_ok (empty_db k)"
  by (simp add: keys_ok_def empty_db_def uniq_def)

interpretation process_keys: process_invariant keys_ok
  by unfold_locales (simp_all add: keys_ok_init keys_ok_foreign_keys keys_ok_empty)

interpretation process_default: process_invariant has_default
  by unfold_locales (auto simp: init_db_result has_default_def has_id_snoc default_settings_row_def)

section \<open>What is answered is saved\<close>

text \<open>The file holds the rows of the open database.\<close>

definition same_rows :: "db \<Rightarrow> db \<Rightarrow> bool" where
  "same_rows d f \<longleftrightarrow> d\<lparr>foreign_keys := False\<rparr> = f\<lparr>foreign_keys := False\<rparr>"

definition saved :: "session \<Rightarrow> bool" where
  "saved s \<longleftrightarrow> (\<exists>f. se_file s = Some f \<and> same_rows (se_db s) f)"

text \<open>A handler that answers leaves a saved session saved, given the default settings.\<close>

definition durable :: "(session, 'a) op \<Rightarrow> bool" where
  "durable m \<longleftrightarrow> (\<forall>s r s'. has_default (se_db s) \<longrightarrow> saved s \<longrightarrow> m s = (Inr r, s') \<longrightarrow> saved s')"

text \<open>An operation that only reads, given the default settings.\<close>

definition reads :: "(db, 'a) op \<Rightarrow> bool" where
  "reads m \<longleftrightarrow> (\<forall>d. has_default d \<longrightarrow> snd (m d) = d)"

named_theorems durable_intro

lemma durableI:
  "(\<And>s r s'. has_default (se_db s) \<Longrightarrow> saved s \<Longrightarrow> m s = (Inr r, s') \<Longrightarrow> saved s') \<Longrightarrow> durable m"
  by (auto simp: durable_def)

lemma durableD: "durable m \<Longrightarrow> m s = (Inr r, s') \<Longrightarrow> has_default (se_db s) \<Longrightarrow> saved s \<Longrightarrow> saved s'"
  by (auto simp: durable_def)

lemma durable_ret [durable_intro]: "durable (ret x)"
  by (simp add: durable_def ret_apply)

lemma durable_throw [durable_intro]: "durable (throw e)"
  by (simp add: durable_def throw_apply)

lemma durable_ask [durable_intro]: "(\<And>x. durable (k x)) \<Longrightarrow> durable (ask f k)"
  by (simp add: durable_def ask_def)

lemma durable_answer [durable_intro]: "durable (answer f g)"
  by (simp add: durable_def answer_def split: sum.split)

lemma durable_guard_else [durable_intro]: "durable k \<Longrightarrow> durable (guard_else b e k)"
  by (simp add: guard_else_def durable_def throw_apply)

lemma durable_if [durable_intro]: "durable m \<Longrightarrow> durable n \<Longrightarrow> durable (if b then m else n)"
  by simp

lemma durable_case_option [durable_intro]:
  "durable m \<Longrightarrow> (\<And>x. durable (k x)) \<Longrightarrow> durable (case v of None \<Rightarrow> m | Some x \<Rightarrow> k x)"
  by (simp split: option.split)

lemma durable_case_sum [durable_intro]:
  "(\<And>e. durable (h e)) \<Longrightarrow> (\<And>x. durable (k x)) \<Longrightarrow> durable (case v of Inl e \<Rightarrow> h e | Inr x \<Rightarrow> k x)"
  by (simp split: sum.split)

lemma durable_case_prod [durable_intro]: "(\<And>x y. durable (k x y)) \<Longrightarrow> durable (case p of (x, y) \<Rightarrow> k x y)"
  by (simp split: prod.split)

lemma durable_then_save [durable_intro]:
  assumes m: "keeps has_default m" and k: "\<And>x. durable (k x)"
  shows "durable (then_save m k)"
proof (rule durableI)
  fix s r s'
  assume default: "has_default (se_db s)" and run: "then_save m k s = (Inr r, s')"
  from run obtain x d s1 where x: "m (se_db s) = (Inr x, d)"
    and s1: "s1 = s\<lparr>se_db := export_effect d, se_file := Some d\<rparr>" "k x s1 = (Inr r, s')"
    by (auto simp: then_save_def and_then_Inr on_db_done save_done)
  have "has_default d" using keepsD [OF m default] by (simp add: x)
  then have "has_default (se_db s1)" "saved s1"
    by (simp_all add: s1(1) has_default_def saved_def same_rows_def export_effect_def)
  with k s1(2) show "saved s'" by (rule durableD)
qed

lemma reads_on_db: "reads m \<Longrightarrow> has_default (se_db s) \<Longrightarrow> snd (on_db m s) = s"
  by (simp add: reads_def on_db_def split_beta)

lemma durable_reads [durable_intro]:
  assumes m: "reads m" and k: "\<And>x. durable (k x)"
  shows "durable (and_then (on_db m) k)"
proof (rule durableI)
  fix s r s'
  assume s: "has_default (se_db s)" "saved s" and run: "and_then (on_db m) k s = (Inr r, s')"
  from run obtain x where "on_db m s = (Inr x, s)" "k x s = (Inr r, s')"
    using reads_on_db [OF m s(1)] by (auto simp: and_then_Inr)
  with s k show "saved s'" by (blast intro: durableD)
qed

lemma durable_write_export [durable_intro]:
  assumes k: "\<And>x. durable (k x)"
  shows "durable (and_then (write_export path content) k)"
proof (rule durableI)
  fix s r s'
  assume s: "has_default (se_db s)" "saved s" and run: "and_then (write_export path content) k s = (Inr r, s')"
  from run have "k () (s\<lparr>se_exports := se_exports s @ [(path, jsonify content)]\<rparr>) = (Inr r, s')"
    by (auto simp: and_then_Inr write_export_def split: option.splits)
  then show "saved s'" by (rule durableD [OF k]) (use s in \<open>simp_all add: saved_def\<close>)
qed

lemma durable_recover [durable_intro]:
  assumes m: "reads m" and h: "\<And>e. durable (h e)"
  shows "durable (recover (and_then (on_db m) (\<lambda>x. ret (f x))) h)"
proof (rule durableI)
  fix s r s'
  assume s: "has_default (se_db s)" "saved s" and run: "recover (and_then (on_db m) (\<lambda>x. ret (f x))) h s = (Inr r, s')"
  have "snd (and_then (on_db m) (\<lambda>x. ret (f x)) s) = s"
    using reads_on_db [OF m s(1)] by (auto simp: and_then_apply ret_apply split: sum.split)
  with run have "s' = s \<or> (\<exists>e. h e s = (Inr r, s'))"
    by (auto simp: recover_def split: prod.splits sum.splits)
  with s h show "saved s'" by (blast intro: durableD)
qed

lemma durable_wrappers [durable_intro]:
  "(\<And>c. durable (k c)) \<Longrightarrow> durable (for_character obj k)"
  "(\<And>c. durable (k c)) \<Longrightarrow> durable (for_id obj k)"
  "(\<And>c. durable (k c)) \<Longrightarrow> durable (for_preset obj k)"
  "(\<And>x. durable (k1 x)) \<Longrightarrow> durable (parse_input e schema v k1)"
  "(\<And>c t. durable (k2 c t)) \<Longrightarrow> durable (for_template obj k2)"
  "(\<And>p v. durable (k3 p v)) \<Longrightarrow> durable (with_opened_file e k3)"
  unfolding for_character_def for_id_def for_preset_def parse_input_def for_template_def with_opened_file_def Let_def
  by (intro durable_intro; simp)+

lemma reads_settings: "reads (get_planner_settings now)"
  by (auto simp: reads_def get_planner_settings_def reading_apply ret_apply read_planner_settings_by_id_def
      has_default_def has_id_def list_ex_iff find_None split: option.split)

lemma reads_and_then:
  assumes "reads m" "\<And>x. reads (k x)"
  shows "reads (and_then m k)"
  using assms by (auto simp: reads_def and_then_apply split: sum.split)

lemma reads_reading: "(\<And>d. reads (k d)) \<Longrightarrow> reads (reading k)"
  by (simp add: reads_def reading_apply)

lemma reads_ret: "reads (ret x)"
  by (simp add: reads_def ret_apply)

lemma reads_throw: "reads (throw e)"
  by (simp add: reads_def throw_apply)

lemma reads_outcome: "reads (outcome x)"
  by (simp add: reads_def outcome_apply)

lemma reads_case_option: "reads m \<Longrightarrow> (\<And>x. reads (k x)) \<Longrightarrow> reads (case v of None \<Rightarrow> m | Some x \<Rightarrow> k x)"
  by (simp split: option.split)

lemma reads_case_prod: "(\<And>x y. reads (k x y)) \<Longrightarrow> reads (case p of (x, y) \<Rightarrow> k x y)"
  by (simp split: prod.split)

lemmas reads_intro = reads_settings reads_and_then reads_reading reads_ret reads_throw reads_outcome
  reads_case_option reads_case_prod

lemma reads_bundle [durable_intro]: "reads (get_planner_settings_bundle now server)"
  unfolding get_planner_settings_bundle_def by (intro reads_intro)

lemma reads_effective [durable_intro]: "reads (get_planner_settings_effective now server)"
  unfolding get_planner_settings_effective_def by (intro reads_intro reads_bundle)

lemma reads_overview [durable_intro]: "reads (get_planner_overview h clock c now_iso)"
  unfolding get_planner_overview_def Let_def by (intro reads_intro reads_effective)

lemma reads_backup [durable_intro]: "reads (export_user_backup exported_at now)"
  unfolding export_user_backup_def Let_def by (intro reads_intro)

section \<open>Every handler\<close>

lemma character_handlers_durable:
  "durable (app_set_active_character_id v)"
  "durable (characters_create e v)"
  "durable (characters_update e v)"
  "durable (characters_delete v)"
  "durable (notices_list v)"
  "durable (notices_get v)"
  "durable (notices_get_latest_diff v)"
  unfolding character_handlers Let_def by (intro durable_intro keeps_intro)+

lemma planner_handlers_durable:
  "durable (planner_get_settings e v)"
  "durable (planner_set_settings e v)"
  "durable (planner_clear_server_settings v)"
  "durable (planner_create_template e v)"
  "durable (planner_update_template e v)"
  "durable (planner_delete_template v)"
  "durable (planner_get_overview e v)"
  "durable (planner_toggle_complete e v)"
  "durable (planner_apply_preset e v)"
  "durable (planner_use_charge e v)"
  "durable (planner_undo_charge e v)"
  "durable (planner_add_duration e v)"
  "durable (planner_list_durations v)"
  "durable (planner_delete_duration v)"
  "durable (planner_get_duration_stats v)"
  "durable (overview_of e n c)"
  unfolding planner_handlers Let_def by (intro durable_intro keeps_intro)+

lemma score_handlers_durable:
  "durable (build_score_get e v)"
  "durable (build_score_set e v)"
  "durable (build_score_reset v)"
  "durable (build_score_preset_list v)"
  "durable (build_score_preset_get v)"
  "durable (build_score_preset_create e v)"
  "durable (build_score_preset_update e v)"
  "durable (build_score_preset_clone e v)"
  "durable (build_score_preset_delete v)"
  "durable (build_score_preset_export_json e v)"
  "durable (build_score_preset_import_json e v)"
  unfolding score_handlers Let_def by (intro durable_intro keeps_intro)+

lemma economy_handlers_durable:
  "durable (economy_list_items v)"
  "durable (economy_update_item e v)"
  "durable (economy_delete_item v)"
  "durable (economy_add_price e v)"
  "durable (economy_list_prices v)"
  "durable (economy_list_watches v)"
  "durable (economy_create_watch e v)"
  "durable (economy_set_watch_active e v)"
  "durable (economy_delete_watch v)"
  "durable (economy_list_alerts v)"
  "durable (economy_mark_alert_read e v)"
  unfolding economy_handlers Let_def by (intro durable_intro keeps_intro)+

lemma loot_handlers_durable:
  "durable (loot_list_runs v)"
  "durable (loot_get_run v)"
  "durable (loot_create_run e v)"
  "durable (loot_delete_run v)"
  "durable (loot_weekly_report e v)"
  "durable (backup_export_json e)"
  unfolding loot_handlers Let_def by (intro durable_intro keeps_intro)+

lemma backup_import_json_durable: "en_rollback e = None \<Longrightarrow> durable (backup_import_json e)"
  by (simp add: backup_import_json_def) (intro durable_intro keeps_intro)

lemma handle_durable: "en_rollback e = None \<Longrightarrow> durable (handle e req)"
  by (cases req) (simp_all add: character_handlers_durable planner_handlers_durable score_handlers_durable
      economy_handlers_durable loot_handlers_durable backup_import_json_durable durable_ret durable_ask)

section \<open>What holds while the app runs\<close>

lemma same_rows_simps: "same_rows (export_effect d) d" "same_rows d d" "same_rows (d\<lparr>foreign_keys := b\<rparr>) d"
  by (simp_all add: same_rows_def export_effect_def)

lemma same_rows_eq: "same_rows d f \<longleftrightarrow> (\<exists>b. f = d\<lparr>foreign_keys := b\<rparr>)"
proof
  assume "same_rows d f"
  then have "f\<lparr>foreign_keys := False\<rparr>\<lparr>foreign_keys := foreign_keys f\<rparr> = d\<lparr>foreign_keys := False\<rparr>\<lparr>foreign_keys := foreign_keys f\<rparr>"
    by (simp add: same_rows_def)
  then show "\<exists>b. f = d\<lparr>foreign_keys := b\<rparr>" by (intro exI [of _ "foreign_keys f"]) simp
qed (auto simp: same_rows_def)

text \<open>
  C7. In every state that the app reaches, however requests, synchronisations, disk failures, crashes and
  restarts follow each other, the open database and the file both have unique keys and the default
  planner settings; so no request can fail for want of them, and every restart finds a sound file.
\<close>

theorem app_stays_sound:
  assumes "reachable s"
  shows "keys_ok (se_db s) \<and> has_default (se_db s) \<and> (\<exists>f. se_file s = Some f \<and> keys_ok f \<and> has_default f)"
  using process_keys.reachable_everywhere [OF assms] process_default.reachable_everywhere [OF assms]
  by (auto simp: everywhere_def)

text \<open>The app after its first start, and then with a character.\<close>

definition sample_env :: env where
  "sample_env = \<lparr>en_host = sample_host, en_ids = (\<lambda>n. if n = 0 then ''c1'' else ''c2''), en_clock = (\<lambda>n. 0), en_lower = id,
     en_rollback = None, en_opened = None, en_file_path = ''export.json'', en_version = ''0.1'',
     en_platform = ''win32'', en_safe_parse = (\<lambda>schema v. Some v)\<rparr>"

definition first_session :: session where
  "first_session = snd (start_app False True ''2026-01-01'' (no_file False None))"

definition ann :: jsval where
  "ann = Obj [(''name'', Str ''Ann'')]"

lemma first_session_started: "start_app False True ''2026-01-01'' (no_file False None) = (Inr (), first_session)"
  by (simp add: first_session_def start_app_def and_then_apply on_db_def init_db_result save_def persist_def
      modify_apply Let_def no_file_def)

lemma first_session_reachable: "reachable first_session"
  by (rule reachable.first_start [OF first_session_started])

lemma first_session_saved: "saved first_session"
  using started [OF first_session_started] by (auto simp: saved_def same_rows_simps)

theorem app_stays_sound_witness:
  "\<exists>s f. reachable s \<and> has_default (se_db s) \<and> se_file s = Some f \<and> keys_ok f
     \<and> s = snd (handle sample_env (CharactersCreate ann) first_session)"
proof -
  have "reachable (snd (handle sample_env (CharactersCreate ann) first_session))"
    by (rule reachable.request [OF first_session_reachable]) (simp add: sample_env_def)
  from this app_stays_sound [OF this] show ?thesis by (elim conjE exE) (intro exI conjI, assumption+, rule refl)
qed

text \<open>
  C6. Whatever a request that is answered has changed is in the file, if the file was up to date before;
  and a start of the app after it, at any time, shows the same rows.
\<close>

theorem answered_requests_survive:
  assumes "reachable s" "saved s" "en_rollback e = None" "handle e req s = (Inr r, s')"
  shows "saved s' \<and> (start_app k True now s' = (Inr (), s'') \<longrightarrow> same_rows (se_db s'') (se_db s'))"
proof
  have default: "everywhere has_default s" by (rule process_default.reachable_everywhere [OF assms(1)])
  then show saved: "saved s'"
    using durableD [OF handle_durable [OF assms(3)] assms(4)] assms(2) by (simp add: everywhere_def)
  have "everywhere has_default (snd (handle e req s))"
    by (rule keepsD [OF session_default.handle_keeps [OF assms(3)] default])
  then obtain f where f: "se_file s' = Some f" "has_default f" by (auto simp: everywhere_def assms(4))
  show "start_app k True now s' = (Inr (), s'') \<longrightarrow> same_rows (se_db s'') (se_db s')"
  proof
    assume "start_app k True now s' = (Inr (), s'')"
    from started(2) [OF this] f have "se_db s'' = export_effect (f\<lparr>foreign_keys := True\<rparr>)"
      by (simp add: found_db_def init_db_result has_default_def)
    with saved f show "same_rows (se_db s'') (se_db s')"
      by (simp add: saved_def same_rows_def export_effect_def)
  qed
qed

text \<open>A new character is answered with its id, and is the active one if there was none.\<close>

lemma character_created:
  assumes "trim (text_field (as_record v) ''name'') \<noteq> []" "unused_character_id (en_ids e 0) (se_db s)" "se_disk s = None"
  shows "\<exists>s'. handle e (CharactersCreate v) s = (Inr (Made (en_ids e 0)), s') \<and> se_disk s' = None"
proof -
  let ?v = "as_record v"
  let ?m = "and_then (create_character (en_ids e 0) (now_text e 0) (trim (text_field ?v ''name''))
      (trimmed_field ?v ''server'') (trimmed_field ?v ''class'')) (\<lambda>i.
       and_then (reading (\<lambda>d. if non_empty (get_active_character_id d) = None
         then set_active_character_id (Some i) else ret ())) (\<lambda>_. ret i))"
  obtain new where made: "create_character (en_ids e 0) (now_text e 0) (trim (text_field ?v ''name''))
      (trimmed_field ?v ''server'') (trimmed_field ?v ''class'') (se_db s) = (Inr (en_ids e 0), new)"
    using create_character_result [OF assms(2)] by blast
  have "fst ((if non_empty (get_active_character_id new) = None
      then set_active_character_id (Some (en_ids e 0)) else ret ()) new) = Inr ()"
    by (simp add: set_active_character_id_def set_setting_never_fails ret_apply)
  then obtain d where "(if non_empty (get_active_character_id new) = None
      then set_active_character_id (Some (en_ids e 0)) else ret ()) new = (Inr (), d)"
    by (metis prod.collapse)
  then have "?m (se_db s) = (Inr (en_ids e 0), d)"
    by (simp only: and_then_apply made reading_apply ret_apply fst_conv snd_conv sum.case)
  from then_save_ok [of ?m s _ _ "\<lambda>i. ret (Made i)", OF this assms(3)] assms(1,3) show ?thesis
    by (simp add: characters_create_def Let_def guard_else_apply ret_apply)
qed

lemma found_nothing: "app_character (found_db k r (no_file k m)) = []" "planner_assignment (found_db k r (no_file k m)) = []"
  by (simp_all add: found_db_def no_file_def empty_db_def)

lemma first_session_empty: "app_character (se_db first_session) = []" "planner_assignment (se_db first_session) = []"
  by (simp_all add: started [OF first_session_started] init_db_result export_effect_def found_nothing)

lemma first_session_disk: "se_disk first_session = None"
  by (simp add: first_session_def start_app_def and_then_apply on_db_def init_db_result no_file_def save_ok)

lemma ann_created:
  "\<exists>s'. handle sample_env (CharactersCreate ann) first_session = (Inr (Made ''c1''), s') \<and> se_disk s' = None"
proof -
  have "text_field (as_record ann) ''name'' = ''Ann''"
    by (simp add: text_field_def as_record_def ann_def str_or_def)
  then have "trim (text_field (as_record ann) ''name'') = ''Ann''" by (simp add: trim_graphic graphic_def)
  with character_created [of ann sample_env first_session] first_session_empty first_session_disk show ?thesis
    by (simp add: sample_env_def unused_character_id_def)
qed

theorem answered_requests_survive_witness:
  "\<exists>s' s''. handle sample_env (CharactersCreate ann) first_session = (Inr (Made ''c1''), s') \<and> saved s'
     \<and> start_app False True ''2026-01-02'' s' = (Inr (), s'') \<and> same_rows (se_db s'') (se_db s')"
proof -
  obtain s' where run: "handle sample_env (CharactersCreate ann) first_session = (Inr (Made ''c1''), s')" "se_disk s' = None"
    using ann_created by blast
  then obtain s'' where start: "start_app False True ''2026-01-02'' s' = (Inr (), s'')"
    by (auto simp: start_app_def and_then_apply on_db_def init_db_result save_ok)
  have "en_rollback sample_env = None" by (simp add: sample_env_def)
  from answered_requests_survive [OF first_session_reachable first_session_saved this run(1)] start
  have "saved s'" "same_rows (se_db s'') (se_db s')" by blast+
  with run(1) start show ?thesis by (intro exI conjI)
qed

section \<open>Deleting a character\<close>

lemma delete_app_character_setting: "app_setting (delete_app_character P d) = app_setting d"
  by (simp add: delete_app_character_def delete_loot_run_def Let_def)

lemma get_character_frame: "app_character d = app_character d' \<Longrightarrow> get_character c d = get_character c d'"
  by (simp add: get_character_def)

lemma set_setting_frame: "app_character (snd (set_setting k v d)) = app_character d"
  by (simp add: set_setting_def modify_apply reading_apply insert_app_setting_def insert_into_def Let_def
      delete_app_setting_def split: option.split)

lemma listed_without:
  "app_character d = drop_where (\<lambda>r. ch_id r = c) (app_character d0) \<Longrightarrow>
   list_characters d = filter (\<lambda>r. ch_id r \<noteq> c) (list_characters d0)"
  by (simp add: list_characters_def drop_where_def filter_map comp_def filter_order_updated read_character_def)

text \<open>An overview of a character that does not exist.\<close>

lemma no_overview:
  assumes "get_character c (se_db s) = None" "c \<noteq> []" "se_disk s = None"
    and w: "str_of (field (as_record w) ''characterId'') = Some c"
  shows "\<exists>s'. handle e (PlannerGetOverview w) s = (Inr Nothing, s') \<and> get_active_character_id (se_db s') = None"
proof -
  have resolved: "resolve_character_id d (as_record w) = Some c" for d
    using w assms(2) by (simp add: resolve_character_id_def non_empty_def)
  have "get_planner_overview h clock c now_iso (se_db s) = (Inl (Thrown ''character_not_found''), se_db s)" for h clock now_iso
    by (simp add: get_planner_overview_def Let_def reading_apply assms(1) throw_apply)
  then have fails: "and_then (on_db (get_planner_overview h clock c now_iso)) k s = (Inl (Thrown ''character_not_found''), s)"
    for h clock now_iso and k :: "overview \<Rightarrow> (session, reply) op" by (simp add: and_then_apply on_db_def)
  obtain d where d: "set_active_character_id None (se_db s) = (Inr (), d)" "d = snd (set_setting ''activeCharacterId'' None (se_db s))"
    unfolding set_active_character_id_def using set_setting_never_fails by (metis prod.collapse)
  have "handle e (PlannerGetOverview w) s = (Inr Nothing, s\<lparr>se_db := export_effect d, se_file := Some d\<rparr>)"
    using then_save_ok [of "set_active_character_id None" s "()" d "\<lambda>_. ret Nothing", OF d(1) assms(3)]
    by (simp add: planner_get_overview_def Let_def ask_def resolved non_empty_def assms(2) recover_def fails ret_apply)
  moreover have "get_active_character_id d = None" by (simp add: d(2) get_active_character_id_def get_set_setting)
  ultimately show ?thesis by (simp add: export_effect_def get_active_character_id_def get_setting_def)
qed

text \<open>
  C30. When deleting a character is answered, it is gone from the file and from the open database: it is not listed, it is
  not the active character any more, every other character is listed and found as before, and a request for the overview
  of the deleted one answers nothing. Such a request also unsets the active character, whichever it is.
\<close>

theorem deleted_character_is_gone:
  assumes "handle e (CharactersDelete v) s = (Inr r, s')"
  shows "\<exists>c d. str_of v = Some c \<and> se_file s' = Some d \<and> same_rows (se_db s') d
    \<and> get_active_character_id d \<noteq> Some c
    \<and> list_characters (se_db s') = filter (\<lambda>x. ch_id x \<noteq> c) (list_characters (se_db s))
    \<and> (\<forall>c'. get_character c' d = (if c' = c then None else get_character c' (se_db s)))
    \<and> (\<forall>e' w. str_of (field (as_record w) ''characterId'') = Some c \<longrightarrow>
        (\<exists>s''. handle e' (PlannerGetOverview w) s' = (Inr Nothing, s'') \<and> get_active_character_id (se_db s'') = None))"
proof -
  let ?clear = "\<lambda>c. if get_active_character_id (se_db s) = Some c then set_active_character_id None else ret ()"
  obtain c d where c: "str_of v = Some c" "c \<noteq> []" and run: "and_then (delete_character c) (\<lambda>_. ?clear c) (se_db s) = (Inr (), d)"
    and s': "s' = s\<lparr>se_db := export_effect d, se_file := Some d\<rparr>" "se_disk s = None"
    using assms by (auto simp: characters_delete_def ask_def then_save_def and_then_Inr on_db_done save_done ret_apply
        throw_apply non_empty_def split: option.splits if_splits)
  let ?d1 = "delete_app_character (\<lambda>r. ch_id r = c) (se_db s)"
  have d: "d = snd (?clear c ?d1)"
    using run by (auto simp: and_then_Inr delete_character_def modify_apply)
  have active: "get_active_character_id ?d1 = get_active_character_id (se_db s)"
    by (simp add: get_active_character_id_def get_setting_def delete_app_character_setting)
  have unset: "get_active_character_id d \<noteq> Some c"
    using active by (auto simp: d set_active_character_id_def get_active_character_id_def get_set_setting ret_apply)
  have rows: "app_character d = drop_where (\<lambda>r. ch_id r = c) (app_character (se_db s))"
    by (simp add: d set_active_character_id_def set_setting_frame ret_apply)
  then have found: "get_character c' d = (if c' = c then None else get_character c' (se_db s))" for c'
    by (simp add: get_character_def find_drop_where)
  have listed: "list_characters (se_db s') = filter (\<lambda>x. ch_id x \<noteq> c) (list_characters (se_db s))"
    by (rule listed_without) (simp add: s' rows export_effect_def)
  have "get_character c (se_db s') = None"
    using found [of c] by (simp add: s' get_character_def export_effect_def)
  note gone = no_overview [OF this c(2)]
  show ?thesis using c unset found listed gone s' by (auto simp: same_rows_simps)
qed

text \<open>Deleting Ann again.\<close>

theorem deleted_character_is_gone_witness:
  "\<exists>s s' d. handle sample_env (CharactersCreate ann) first_session = (Inr (Made ''c1''), s)
     \<and> handle sample_env (CharactersDelete (Str ''c1'')) s = (Inr Done, s')
     \<and> se_file s' = Some d \<and> get_character ''c1'' d = None"
proof -
  obtain s where made: "handle sample_env (CharactersCreate ann) first_session = (Inr (Made ''c1''), s)" "se_disk s = None"
    using ann_created by blast
  let ?m = "and_then (delete_character ''c1'') (\<lambda>_. if get_active_character_id (se_db s) = Some ''c1''
      then set_active_character_id None else ret ())"
  have "fst (and_then (delete_character ''c1'') (\<lambda>_. if a then set_active_character_id None else ret ()) d) = Inr ()" for a d
    by (simp add: and_then_apply delete_character_def modify_apply set_active_character_id_def set_setting_never_fails
        ret_apply)
  then obtain d where "?m (se_db s) = (Inr (), d)"
    by (metis prod.collapse)
  from then_save_ok [of ?m s _ _ "\<lambda>_. ret Done", OF this made(2)] obtain s' where
    run: "handle sample_env (CharactersDelete (Str ''c1'')) s = (Inr Done, s')"
    by (simp add: characters_delete_def ask_def ret_apply non_empty_def)
  from deleted_character_is_gone [OF run] obtain c f where "str_of (Str ''c1'') = Some c" "se_file s' = Some f"
    "\<forall>c'. get_character c' f = (if c' = c then None else get_character c' (se_db s))" by (elim exE conjE)
  then have "se_file s' = Some f" "get_character ''c1'' f = None" by simp_all
  with made(1) run show ?thesis by (intro exI conjI)
qed

section \<open>A file that cannot be read\<close>

text \<open>
  C31. A start that cannot read the file, for whatever reason, saves an empty database with the default
  settings in its place: whatever the file held is lost.
\<close>

theorem unreadable_file_is_replaced:
  assumes "start_app k False now s = (Inr (), s')"
  shows "se_file s' = Some ((empty_db k)\<lparr>planner_settings := [default_settings_row now], foreign_keys := True\<rparr>)"
proof -
  have "\<not> has_default (empty_db k)" "planner_settings (empty_db k) = []"
    by (simp_all add: has_default_def has_id_def empty_db_def)
  then show ?thesis by (simp add: started(1) [OF assms] found_db_def init_db_result)
qed

theorem unreadable_file_is_replaced_witness:
  "\<exists>s s' f. handle sample_env (CharactersCreate ann) first_session = (Inr (Made ''c1''), s)
     \<and> start_app False False ''2026-01-02'' s = (Inr (), s') \<and> se_file s' = Some f \<and> app_character f = []"
proof -
  obtain s where made: "handle sample_env (CharactersCreate ann) first_session = (Inr (Made ''c1''), s)" "se_disk s = None"
    using ann_created by blast
  then obtain s' where start: "start_app False False ''2026-01-02'' s = (Inr (), s')"
    by (auto simp: start_app_def and_then_apply on_db_def init_db_result save_ok)
  from unreadable_file_is_replaced [OF start] have
    "\<exists>f. se_file s' = Some f \<and> app_character f = []"
    by (simp add: empty_db_def)
  with made(1) start show ?thesis by blast
qed

end
