(* ===== verification/Windows.thy ===== *)
theory Windows
  imports Session
begin

text \<open>
  The saved places of the windows (\<open>main/index.ts\<close>, \<open>main/overlay/overlayManager.ts\<close>):
  the JSON text of a setting, what is accepted of it, and how it is moved onto a display. Electron's
  screen and \<open>JSON\<close> are parameters.
\<close>

section \<open>Places\<close>

record window_bounds =
  wb_x :: int
  wb_y :: int
  wb_width :: int
  wb_height :: int

record window_state =
  ws_bounds :: window_bounds
  ws_maximized :: bool

text \<open>
  \<open>dp_matching\<close> is the work area of the display that shows most of a rectangle,
  \<open>dp_cursor\<close> that of the display with the cursor. \<open>dp_parse\<close> is \<open>JSON.parse\<close>,
  \<open>None\<close> where it throws, and \<open>dp_text\<close> is \<open>JSON.stringify\<close>.
\<close>

record desktop =
  dp_matching :: "window_bounds \<Rightarrow> window_bounds"
  dp_cursor :: window_bounds
  dp_parse :: "string \<Rightarrow> jsval option"
  dp_text :: "jsval \<Rightarrow> string"

section \<open>Reading a saved place\<close>

text \<open>\<open>typeof v === "number" && Number.isFinite(v) ? Math.floor(v) : null\<close>.\<close>

fun whole_number :: "jsval \<Rightarrow> int option" where
  "whole_number (Num (Fin r)) = Some \<lfloor>r\<rfloor>"
| "whole_number _ = None"

definition parse_bounds :: "int \<Rightarrow> int \<Rightarrow> jsval \<Rightarrow> window_bounds option" where
  "parse_bounds min_width min_height v =
     (case (whole_number (field v ''x''), whole_number (field v ''y''),
            whole_number (field v ''width''), whole_number (field v ''height'')) of
        (Some x, Some y, Some w, Some h) \<Rightarrow>
          if w < min_width \<or> h < min_height then None
          else Some \<lparr>wb_x = x, wb_y = y, wb_width = w, wb_height = h\<rparr>
      | _ \<Rightarrow> None)"

definition parse_state :: "desktop \<Rightarrow> int \<Rightarrow> int \<Rightarrow> (jsval \<Rightarrow> bool) \<Rightarrow> string option \<Rightarrow> window_state option" where
  "parse_state dp min_width min_height maximized raw =
     (case non_empty raw of
        None \<Rightarrow> None
      | Some s \<Rightarrow>
          (case dp_parse dp s of
             None \<Rightarrow> None
           | Some obj \<Rightarrow>
               if \<not> is_object obj \<or> \<not> truthy (field obj ''bounds'') then None
               else map_option (\<lambda>b. \<lparr>ws_bounds = b, ws_maximized = maximized obj\<rparr>)
                      (parse_bounds min_width min_height (field obj ''bounds''))))"

text \<open>The main window and the overlay accept different sizes, and the overlay is never maximized.\<close>

definition parse_window_state :: "desktop \<Rightarrow> string option \<Rightarrow> window_state option" where
  "parse_window_state dp = parse_state dp 300 200 (\<lambda>obj. truthy (field obj ''isMaximized''))"

definition parse_overlay_state :: "desktop \<Rightarrow> string option \<Rightarrow> window_state option" where
  "parse_overlay_state dp = parse_state dp 240 240 (\<lambda>_. False)"

section \<open>Moving it onto a display\<close>

definition clamp_into :: "int \<Rightarrow> int \<Rightarrow> window_bounds \<Rightarrow> window_bounds \<Rightarrow> window_bounds" where
  "clamp_into min_width min_height area b =
     (let w = min (max (wb_width b) min_width) (wb_width area);
          h = min (max (wb_height b) min_height) (wb_height area);
          x = (if wb_x b < wb_x area then wb_x area else wb_x b);
          y = (if wb_y b < wb_y area then wb_y area else wb_y b);
          x = (if x + w > wb_x area + wb_width area then wb_x area + wb_width area - w else x);
          y = (if y + h > wb_y area + wb_height area then wb_y area + wb_height area - h else y)
      in \<lparr>wb_x = x, wb_y = y, wb_width = w, wb_height = h\<rparr>)"

definition clamp_bounds_to_display :: "desktop \<Rightarrow> window_bounds \<Rightarrow> window_bounds" where
  "clamp_bounds_to_display dp b = clamp_into 300 200 (dp_matching dp b) b"

definition clamp_overlay_to_display :: "desktop \<Rightarrow> window_bounds \<Rightarrow> window_bounds" where
  "clamp_overlay_to_display dp b = clamp_into 240 240 (dp_matching dp b) b"

definition default_window_state :: "desktop \<Rightarrow> window_state" where
  "default_window_state dp =
     (let area = dp_cursor dp;
          w = max 800 (wb_width area * 4 div 5); h = max 600 (wb_height area * 4 div 5)
      in \<lparr>ws_bounds = \<lparr>wb_x = wb_x area + (wb_width area - w) div 2, wb_y = wb_y area + (wb_height area - h) div 2,
                      wb_width = w, wb_height = h\<rparr>, ws_maximized = False\<rparr>)"

definition default_overlay_state :: "desktop \<Rightarrow> window_state" where
  "default_overlay_state dp =
     (let area = dp_cursor dp; w = min (max 320 380) (wb_width area); h = min (max 420 620) (wb_height area); margin = 16
      in \<lparr>ws_bounds = \<lparr>wb_x = wb_x area + max 0 (wb_width area - w - margin), wb_y = wb_y area + margin,
                      wb_width = w, wb_height = h\<rparr>, ws_maximized = False\<rparr>)"

section \<open>Saving it\<close>

definition window_state_json :: "window_state \<Rightarrow> jsval" where
  "window_state_json st = Obj [(''bounds'', Obj [(''x'', Num (num (wb_x (ws_bounds st)))), (''y'', Num (num (wb_y (ws_bounds st)))),
       (''width'', Num (num (wb_width (ws_bounds st)))), (''height'', Num (num (wb_height (ws_bounds st))))]),
     (''isMaximized'', Bool (ws_maximized st))]"

definition persist_window_state :: "desktop \<Rightarrow> window_state \<Rightarrow> (session, unit) op" where
  "persist_window_state dp st = then_save (set_setting ''mainWindowState'' (Some (dp_text dp (window_state_json st)))) ret"

text \<open>Where the main window is shown after the next start.\<close>

definition restored_bounds :: "desktop \<Rightarrow> db \<Rightarrow> window_bounds \<times> bool" where
  "restored_bounds dp d =
     (case parse_window_state dp (get_setting ''mainWindowState'' d) of
        Some st \<Rightarrow> (clamp_bounds_to_display dp (ws_bounds st), ws_maximized st)
      | None \<Rightarrow> (ws_bounds (default_window_state dp), False))"

section \<open>A restored window can be reached\<close>

definition inside :: "window_bounds \<Rightarrow> window_bounds \<Rightarrow> bool" where
  "inside area b \<longleftrightarrow> wb_x area \<le> wb_x b \<and> wb_x b + wb_width b \<le> wb_x area + wb_width area
     \<and> wb_y area \<le> wb_y b \<and> wb_y b + wb_height b \<le> wb_y area + wb_height area"

lemma clamp_inside:
  "0 \<le> wb_width area \<Longrightarrow> 0 \<le> wb_height area \<Longrightarrow> inside area (clamp_into w h area b)"
  by (auto simp: inside_def clamp_into_def Let_def)

lemma clamp_id:
  "inside area b \<Longrightarrow> w \<le> wb_width b \<Longrightarrow> h \<le> wb_height b \<Longrightarrow> clamp_into w h area b = b"
  by (cases b) (auto simp: inside_def clamp_into_def Let_def)

lemma clamp_idem:
  assumes "w \<le> wb_width area" "h \<le> wb_height area" "0 \<le> w" "0 \<le> h"
  shows "clamp_into w h area (clamp_into w h area b) = clamp_into w h area b"
  by (rule clamp_id, rule clamp_inside) (use assms in \<open>auto simp: clamp_into_def Let_def\<close>)

text \<open>\<open>JSON.parse(JSON.stringify(v))\<close> for the value at hand.\<close>

definition json_reads_back :: "desktop \<Rightarrow> jsval \<Rightarrow> bool" where
  "json_reads_back dp v \<longleftrightarrow> dp_parse dp (dp_text dp v) = Some (jsonify v) \<and> dp_text dp v \<noteq> []"

lemma parse_saved:
  assumes "json_reads_back dp (window_state_json st)" "300 \<le> wb_width (ws_bounds st)" "200 \<le> wb_height (ws_bounds st)"
  shows "parse_window_state dp (Some (dp_text dp (window_state_json st))) = Some st"
  using assms
  by (cases st; cases "ws_bounds st")
    (simp add: parse_window_state_def parse_state_def json_reads_back_def window_state_json_def parse_bounds_def num_def
      non_empty_def)

lemma parse_small:
  assumes "json_reads_back dp (window_state_json st)" "\<not> (300 \<le> wb_width (ws_bounds st) \<and> 200 \<le> wb_height (ws_bounds st))"
  shows "parse_window_state dp (Some (dp_text dp (window_state_json st))) = None"
  using assms
  by (cases st; cases "ws_bounds st")
    (auto simp: parse_window_state_def parse_state_def json_reads_back_def window_state_json_def parse_bounds_def num_def
      non_empty_def)

text \<open>
  C33. The place of the main window that is saved when it closes is the one it has after the next start, if the window is
  at least 300 by 200 and lies on the display; if it is that large but not on the display, wherever the displays are now,
  it is restored within the work area of its display. A smaller place is not taken: since the window has no minimum
  size, a window that was made smaller comes back at the default place and size.
\<close>

theorem window_place_is_restored:
  assumes "persist_window_state dp st s = (Inr (), s')" "json_reads_back dp (window_state_json st)"
    and "0 \<le> wb_width (dp_matching dp (ws_bounds st))" "0 \<le> wb_height (dp_matching dp (ws_bounds st))"
  shows "\<exists>d. se_file s' = Some d
    \<and> (if 300 \<le> wb_width (ws_bounds st) \<and> 200 \<le> wb_height (ws_bounds st)
       then \<exists>b. restored_bounds dp d = (b, ws_maximized st) \<and> inside (dp_matching dp (ws_bounds st)) b
         \<and> (inside (dp_matching dp (ws_bounds st)) (ws_bounds st) \<longrightarrow> b = ws_bounds st)
       else restored_bounds dp d = (ws_bounds (default_window_state dp), False))"
proof -
  let ?text = "dp_text dp (window_state_json st)"
  obtain d where d: "set_setting ''mainWindowState'' (Some ?text) (se_db s) = (Inr (), d)" "se_file s' = Some d"
    using assms(1) by (auto simp: persist_window_state_def then_save_def and_then_Inr on_db_done save_done ret_apply)
  have saved: "get_setting ''mainWindowState'' d = Some ?text"
    using get_set_setting [of "''mainWindowState''" "''mainWindowState''" "Some ?text" "se_db s"] by (simp add: d(1))
  show ?thesis
  proof (cases "300 \<le> wb_width (ws_bounds st) \<and> 200 \<le> wb_height (ws_bounds st)")
    case True
    then have "restored_bounds dp d = (clamp_bounds_to_display dp (ws_bounds st), ws_maximized st)"
      using parse_saved [OF assms(2)] saved by (simp add: restored_bounds_def)
    moreover have "inside (dp_matching dp (ws_bounds st)) (clamp_bounds_to_display dp (ws_bounds st))"
      using assms(3,4) by (simp add: clamp_bounds_to_display_def clamp_inside)
    moreover have "inside (dp_matching dp (ws_bounds st)) (ws_bounds st) \<longrightarrow>
        clamp_bounds_to_display dp (ws_bounds st) = ws_bounds st"
      using True by (simp add: clamp_bounds_to_display_def clamp_id)
    ultimately show ?thesis using d(2) True by auto
  next
    case False
    then have "restored_bounds dp d = (ws_bounds (default_window_state dp), False)"
      using parse_small [OF assms(2)] saved by (simp add: restored_bounds_def)
    with d(2) False show ?thesis by (auto simp del: not_le)
  qed
qed

text \<open>A maximized window on a Full HD display.\<close>

definition sample_place :: window_state where
  "sample_place = \<lparr>ws_bounds = \<lparr>wb_x = 100, wb_y = 50, wb_width = 1200, wb_height = 800\<rparr>, ws_maximized = True\<rparr>"

definition sample_desktop :: desktop where
  "sample_desktop = \<lparr>dp_matching = (\<lambda>_. \<lparr>wb_x = 0, wb_y = 0, wb_width = 1920, wb_height = 1040\<rparr>),
     dp_cursor = \<lparr>wb_x = 0, wb_y = 0, wb_width = 1920, wb_height = 1040\<rparr>,
     dp_parse = (\<lambda>_. Some (jsonify (window_state_json sample_place))), dp_text = (\<lambda>_. ''place'')\<rparr>"

theorem window_place_is_restored_witness:
  "\<exists>s' d. persist_window_state sample_desktop sample_place
       \<lparr>se_db = empty_db False, se_file = None, se_exports = [], se_disk = None\<rparr> = (Inr (), s')
     \<and> se_file s' = Some d \<and> restored_bounds sample_desktop d = (ws_bounds sample_place, True)"
proof -
  let ?s = "\<lparr>se_db = empty_db False, se_file = None, se_exports = [], se_disk = None\<rparr>"
  let ?m = "set_setting ''mainWindowState'' (Some (dp_text sample_desktop (window_state_json sample_place)))"
  obtain d where "?m (se_db ?s) = (Inr (), d)"
    using set_setting_never_fails by (metis prod.collapse)
  from then_save_ok [of ?m ?s _ _ ret, OF this] obtain s' where
    run: "persist_window_state sample_desktop sample_place ?s = (Inr (), s')"
    by (simp add: persist_window_state_def ret_apply)
  have large: "300 \<le> wb_width (ws_bounds sample_place) \<and> 200 \<le> wb_height (ws_bounds sample_place)"
    "inside (dp_matching sample_desktop (ws_bounds sample_place)) (ws_bounds sample_place)" "ws_maximized sample_place"
    by (simp_all add: inside_def sample_desktop_def sample_place_def)
  have "json_reads_back sample_desktop (window_state_json sample_place)"
    "0 \<le> wb_width (dp_matching sample_desktop (ws_bounds sample_place))"
    "0 \<le> wb_height (dp_matching sample_desktop (ws_bounds sample_place))"
    by (simp_all add: json_reads_back_def sample_desktop_def)
  from window_place_is_restored [OF run this] obtain d b where "se_file s' = Some d"
    "restored_bounds sample_desktop d = (b, ws_maximized sample_place)" "b = ws_bounds sample_place"
    unfolding if_P [OF large(1)] using large(2) by (elim exE conjE) simp
  with run large(3) show ?thesis by auto
qed

end
