(* ===== verification/Foreground.thy ===== *)
theory Foreground
  imports JsValue
begin

text \<open>
  The watcher of the foreground window (\<open>main/overlay/foregroundWatcher.ts\<close>): a helper
  process writes a line for each new foreground window, and its output arrives in chunks that may end
  anywhere within a line.
\<close>

section \<open>Number(text)\<close>

definition read_sign :: "string \<Rightarrow> bool \<times> string" where
  "read_sign s =
     (case s of
        c # r \<Rightarrow> if c = CHR ''-'' then (True, r) else if c = CHR ''+'' then (False, r) else (False, s)
      | [] \<Rightarrow> (False, s))"

definition is_digits :: "string \<Rightarrow> bool" where
  "is_digits s \<longleftrightarrow> s \<noteq> [] \<and> list_all is_digit s"

definition read_exponent :: "string \<Rightarrow> rat option" where
  "read_exponent s =
     (case s of
        [] \<Rightarrow> Some 1
      | e # r \<Rightarrow>
          (let (negative, ds) = read_sign r in
           if e \<in> set ''eE'' \<and> is_digits ds
           then Some (if negative then 1 / 10 ^ read_nat ds else 10 ^ read_nat ds) else None))"

text \<open>Digits with an optional fraction and exponent.\<close>

definition read_decimal :: "string \<Rightarrow> jsnum" where
  "read_decimal s =
     (let whole = takeWhile is_digit s; rest = dropWhile is_digit s;
          (fraction, rest) = (case rest of
             c # r \<Rightarrow> if c = CHR ''.'' then (takeWhile is_digit r, dropWhile is_digit r) else ([], rest)
           | [] \<Rightarrow> ([], [])) in
      if whole @ fraction = [] then NaN
      else case read_exponent rest of
        None \<Rightarrow> NaN
      | Some f \<Rightarrow> Fin (of_nat (read_nat (whole @ fraction)) / 10 ^ length fraction * f))"

definition digit_in :: "nat \<Rightarrow> char \<Rightarrow> nat option" where
  "digit_in base c =
     (let n = (of_char c :: nat);
          v = (if is_digit c then n - 48 else if 97 \<le> n \<and> n \<le> 122 then n - 87 else if 65 \<le> n \<and> n \<le> 90 then n - 55 else 99)
      in if v < base then Some v else None)"

definition read_base :: "nat \<Rightarrow> string \<Rightarrow> jsnum" where
  "read_base base s =
     (if s \<noteq> [] \<and> list_all (\<lambda>c. digit_in base c \<noteq> None) s
      then num (int (foldl (\<lambda>n c. n * base + the (digit_in base c)) 0 s)) else NaN)"

definition to_number :: "string \<Rightarrow> jsnum" where
  "to_number s =
     (let t = trim s; p = take 2 t; r = drop 2 t in
      if t = [] then num 0
      else if p \<in> {''0x'', ''0X''} then read_base 16 r
      else if p \<in> {''0o'', ''0O''} then read_base 8 r
      else if p \<in> {''0b'', ''0B''} then read_base 2 r
      else (let (negative, u) = read_sign t; x = (if u = ''Infinity'' then PosInf else read_decimal u) in
            if negative then num_neg x else x))"

section \<open>Lines\<close>

record foreground_info =
  fg_pid :: jsnum
  fg_title :: string
  fg_process_name :: "string option"

definition parse_foreground_line :: "string \<Rightarrow> foreground_info option" where
  "parse_foreground_line line =
     (let trimmed = trim (replace_all [CHR 0x0D] [] line) in
      if trimmed = [] then None
      else let parts = split_on (CHR 0x09) trimmed in
        if length parts < 2 then None
        else let pid = to_number (parts ! 0) in
          if \<not> is_finite pid \<or> num_le pid (num 0) then None
          else Some \<lparr>fg_pid = pid, fg_title = parts ! 1,
                     fg_process_name = (if length parts > 2 \<and> parts ! 2 \<noteq> [] then Some (parts ! 2) else None)\<rparr>)"

section \<open>Chunks\<close>

text \<open>
  \<open>flush(data)\<close>: the chunks kept so far and the new one are joined and cut into lines; the last
  piece is kept, the lines before it are reported. The state is the kept chunks and what was reported.
\<close>

definition flush :: "string list \<times> foreground_info list \<Rightarrow> string \<Rightarrow> string list \<times> foreground_info list" where
  "flush = (\<lambda>(chunks, reported) data.
     let lines = split_on (CHR 0x0A) (concat (chunks @ [data])) in
     ([last lines], reported @ List.map_filter parse_foreground_line (butlast lines)))"

lemma split_on_cat:
  "split_on c (s @ t) = butlast (split_on c s) @ split_on c (last (split_on c s) @ t)"
proof (induction s)
  case (Cons x s)
  then show ?case
    using split_on_nonempty [of c s] by (cases "split_on c s"; cases "split_on c (last (split_on c s) @ t)")
      (auto split: list.splits)
qed simp

text \<open>
  C32. However the output is cut into chunks, the reports are those of the whole output read at once: the
  lines that are finished, in their order, and the unfinished rest is kept.
\<close>

theorem flush_is_chunk_blind:
  "foldl flush ([], []) (data # rest) =
     ([last (split_on (CHR 0x0A) (concat (data # rest)))],
      List.map_filter parse_foreground_line (butlast (split_on (CHR 0x0A) (concat (data # rest)))))"
proof (induction rest rule: rev_induct)
  case Nil
  then show ?case by (simp add: flush_def Let_def)
next
  case (snoc d rest)
  let ?s = "concat (data # rest)"
  have whole: "concat (data # (rest @ [d])) = ?s @ d" by simp
  have "foldl flush ([], []) (data # (rest @ [d])) = flush (foldl flush ([], []) (data # rest)) d" by simp
  also have "\<dots> = ([last (split_on (CHR 0x0A) (last (split_on (CHR 0x0A) ?s) @ d))],
      List.map_filter parse_foreground_line (butlast (split_on (CHR 0x0A) ?s))
      @ List.map_filter parse_foreground_line (butlast (split_on (CHR 0x0A) (last (split_on (CHR 0x0A) ?s) @ d))))"
    unfolding snoc.IH by (simp add: flush_def Let_def)
  finally show ?case
    unfolding whole split_on_cat [of _ ?s d]
    by (simp add: butlast_append map_filter_def)
qed

end
