(* ===== verification/Overlay.thy ===== *)
theory Overlay
  imports Windows Foreground
begin

text \<open>
  The overlay window (\<open>main/overlay/overlayManager.ts\<close>) as a state machine: the events of the
  window, of the hotkey, of the watcher and of the promises that \<open>setEnabled\<close> and
  \<open>persistState\<close> wait for. With the watcher running the overlay is shown while the game or the
  overlay itself has the focus; without it, always while it is enabled.
\<close>

section \<open>The state\<close>

text \<open>
  \<open>ol_shown\<close> is \<open>None\<close> without a window. \<open>ol_auto\<close> is \<open>autoMode\<close>.
  \<open>ol_loading\<close> and \<open>ol_pending\<close> count the calls of \<open>setEnabled\<close> that wait for a new
  window to load and for an existing one.
\<close>

record overlay =
  ol_session :: session
  ol_enabled :: bool
  ol_shown :: "bool option"
  ol_place :: window_bounds
  ol_quitting :: bool
  ol_saving :: bool
  ol_watcher :: bool
  ol_auto :: bool
  ol_game :: bool
  ol_focused :: bool
  ol_loading :: nat
  ol_pending :: nat

text \<open>The host: the desktop, whether a watcher can be started, and \<open>toLowerCase\<close>.\<close>

record overlay_host =
  oh_desktop :: desktop
  oh_watchable :: bool
  oh_lower :: "string \<Rightarrow> string"

definition create_overlay_manager :: "session \<Rightarrow> window_bounds \<Rightarrow> overlay" where
  "create_overlay_manager s place =
     \<lparr>ol_session = s, ol_enabled = False, ol_shown = None, ol_place = place, ol_quitting = False, ol_saving = False,
      ol_watcher = False, ol_auto = False, ol_game = False, ol_focused = False, ol_loading = 0, ol_pending = 0\<rparr>"

definition is_game_title :: "overlay_host \<Rightarrow> string \<Rightarrow> bool" where
  "is_game_title h title = str_includes (oh_lower h title) ''aion2''"

section \<open>Its operations\<close>

definition get_initial_state :: "overlay_host \<Rightarrow> db \<Rightarrow> window_state" where
  "get_initial_state h d =
     (let st = (case parse_overlay_state (oh_desktop h) (get_setting ''overlayWindowState'' d) of
                  Some st \<Rightarrow> st
                | None \<Rightarrow> default_overlay_state (oh_desktop h))
      in st\<lparr>ws_bounds := clamp_overlay_to_display (oh_desktop h) (ws_bounds st)\<rparr>)"

text \<open>
  \<open>persistState\<close> sets the setting and waits for the file to be written; a second call
  meanwhile does nothing. \<open>persisted\<close> is what follows the waiting; errors are only logged.
\<close>

definition persist_state :: "overlay_host \<Rightarrow> overlay \<Rightarrow> overlay" where
  "persist_state h ov =
     (if ol_shown ov = None \<or> ol_saving ov then ov
      else let st = \<lparr>ws_bounds = ol_place ov, ws_maximized = False\<rparr> in
        ov\<lparr>ol_saving := True,
           ol_session := snd (on_db (set_setting ''overlayWindowState''
             (Some (dp_text (oh_desktop h) (window_state_json st)))) (ol_session ov))\<rparr>)"

definition persisted :: "overlay \<Rightarrow> overlay" where
  "persisted ov = ov\<lparr>ol_session := snd (save (ol_session ov)), ol_saving := False\<rparr>"

text \<open>\<open>win.hide()\<close>, with the \<open>hide\<close> event of a window that was shown.\<close>

definition hide :: "overlay_host \<Rightarrow> overlay \<Rightarrow> overlay" where
  "hide h ov = (if ol_shown ov = Some True then persist_state h (ov\<lparr>ol_shown := Some False\<rparr>) else ov)"

definition show_inactive :: "overlay \<Rightarrow> overlay" where
  "show_inactive ov = (if ol_shown ov = Some False then ov\<lparr>ol_shown := Some True\<rparr> else ov)"

text \<open>\<open>ensureWindow\<close> up to its \<open>await\<close>: a new window starts hidden.\<close>

definition ensure_window :: "overlay_host \<Rightarrow> overlay \<Rightarrow> overlay" where
  "ensure_window h ov =
     (case ol_shown ov of
        Some v \<Rightarrow> ov\<lparr>ol_pending := ol_pending ov + 1\<rparr>
      | None \<Rightarrow> ov\<lparr>ol_shown := Some False, ol_loading := ol_loading ov + 1,
                   ol_place := ws_bounds (get_initial_state h (se_db (ol_session ov)))\<rparr>)"

definition stop_watcher :: "overlay \<Rightarrow> overlay" where
  "stop_watcher ov =
     (if ol_watcher ov then ov\<lparr>ol_watcher := False, ol_auto := False, ol_game := False\<rparr> else ov)"

definition ensure_watcher :: "overlay_host \<Rightarrow> overlay \<Rightarrow> overlay" where
  "ensure_watcher h ov =
     (if ol_watcher ov then ov
      else if \<not> oh_watchable h then ov\<lparr>ol_auto := False\<rparr>
      else ov\<lparr>ol_watcher := True, ol_auto := True\<rparr>)"

definition update_visibility :: "overlay_host \<Rightarrow> overlay \<Rightarrow> overlay" where
  "update_visibility h ov =
     (if ol_shown ov = None then ov
      else if \<not> ol_enabled ov then hide h ov
      else if \<not> ol_auto ov then show_inactive ov
      else if ol_game ov \<or> ol_focused ov then show_inactive ov else hide h ov)"

text \<open>
  \<open>setEnabled(next)\<close>, before and after the window is there. A window that was destroyed
  meanwhile makes \<open>hide\<close> throw, and the rest of that call is skipped.
\<close>

definition set_enabled :: "overlay_host \<Rightarrow> bool \<Rightarrow> overlay \<Rightarrow> overlay" where
  "set_enabled h next_value ov = ensure_window h (ov\<lparr>ol_enabled := next_value\<rparr>)"

definition window_ready :: "overlay_host \<Rightarrow> overlay \<Rightarrow> overlay" where
  "window_ready h ov =
     (if ol_enabled ov then update_visibility h (ensure_watcher h ov)
      else if ol_shown ov = None then ov
      else persist_state h (stop_watcher (hide h ov)))"

definition foreground_changed :: "overlay_host \<Rightarrow> string \<Rightarrow> overlay \<Rightarrow> overlay" where
  "foreground_changed h title ov = update_visibility h (ov\<lparr>ol_game := is_game_title h title\<rparr>)"

definition watcher_lost :: "overlay_host \<Rightarrow> overlay \<Rightarrow> overlay" where
  "watcher_lost h ov = update_visibility h (stop_watcher ov)"

definition begin_dispose :: "overlay_host \<Rightarrow> overlay \<Rightarrow> overlay" where
  "begin_dispose h ov = persist_state h (stop_watcher (ov\<lparr>ol_quitting := True\<rparr>))"

definition end_dispose :: "overlay \<Rightarrow> overlay" where
  "end_dispose ov = ov\<lparr>ol_shown := None\<rparr>"

section \<open>Its events\<close>

datatype overlay_event =
    Toggle | Set_enabled bool | Loaded | Load_failed | Resumed
  | Focus | Blur | Close | Moved window_bounds
  | Foreground foreground_info | Watcher_lost | Persisted | Begin_dispose | End_dispose

text \<open>
  The hotkey and the requests come until the app quits; a lost watcher and late lines of a stopped one
  can come at any time.
\<close>

inductive overlay_step :: "overlay_host \<Rightarrow> overlay \<Rightarrow> overlay_event \<Rightarrow> overlay \<Rightarrow> bool" for h where
  toggle: "\<not> ol_quitting ov \<Longrightarrow> overlay_step h ov Toggle (set_enabled h (\<not> ol_enabled ov) ov)"
| set_enabled: "\<not> ol_quitting ov \<Longrightarrow> overlay_step h ov (Set_enabled b) (set_enabled h b ov)"
| loaded: "ol_loading ov > 0 \<Longrightarrow>
    overlay_step h ov Loaded (window_ready h (ov\<lparr>ol_loading := ol_loading ov - 1\<rparr>))"
| load_failed: "ol_loading ov > 0 \<Longrightarrow> overlay_step h ov Load_failed (ov\<lparr>ol_loading := ol_loading ov - 1\<rparr>)"
| resumed: "ol_pending ov > 0 \<Longrightarrow>
    overlay_step h ov Resumed (window_ready h (ov\<lparr>ol_pending := ol_pending ov - 1\<rparr>))"
| focus: "overlay_step h ov Focus (update_visibility h (ov\<lparr>ol_focused := True\<rparr>))"
| blur: "overlay_step h ov Blur (update_visibility h (ov\<lparr>ol_focused := False\<rparr>))"
| close: "\<not> ol_quitting ov \<Longrightarrow> overlay_step h ov Close (hide h ov)"
| closed: "ol_quitting ov \<Longrightarrow> overlay_step h ov Close (ov\<lparr>ol_shown := None\<rparr>)"
| moved: "ol_shown ov \<noteq> None \<Longrightarrow> overlay_step h ov (Moved b) (ov\<lparr>ol_place := b\<rparr>)"
| foreground: "overlay_step h ov (Foreground info) (foreground_changed h (fg_title info) ov)"
| watcher_lost: "overlay_step h ov Watcher_lost (watcher_lost h ov)"
| persisted: "ol_saving ov \<Longrightarrow> overlay_step h ov Persisted (persisted ov)"
| begin_dispose: "overlay_step h ov Begin_dispose (begin_dispose h ov)"
| end_dispose: "ol_quitting ov \<Longrightarrow> overlay_step h ov End_dispose (end_dispose ov)"

inductive_cases overlay_stepE: "overlay_step h ov e ov'"

inductive overlay_run :: "overlay_host \<Rightarrow> overlay_event list \<Rightarrow> overlay \<Rightarrow> bool" for h where
  created: "overlay_run h [] (create_overlay_manager s place)"
| stepped: "overlay_run h es ov \<Longrightarrow> overlay_step h ov e ov' \<Longrightarrow> overlay_run h (es @ [e]) ov'"

section \<open>When the overlay is shown\<close>

definition wanted :: "overlay \<Rightarrow> bool" where
  "wanted ov \<longleftrightarrow> ol_enabled ov \<and> (ol_auto ov \<longrightarrow> ol_game ov \<or> ol_focused ov)"

text \<open>The parts of the state that decide, which saving leaves alone.\<close>

lemma persist_state_frame [simp]:
  "ol_shown (persist_state h ov) = ol_shown ov" "wanted (persist_state h ov) = wanted ov"
  "ol_pending (persist_state h ov) = ol_pending ov" "ol_watcher (persist_state h ov) = ol_watcher ov"
  "ol_auto (persist_state h ov) = ol_auto ov" "ol_enabled (persist_state h ov) = ol_enabled ov"
  "ol_game (persist_state h ov) = ol_game ov" "ol_focused (persist_state h ov) = ol_focused ov"
  by (simp_all add: persist_state_def Let_def wanted_def)

lemma hide_frame [simp]:
  "ol_shown (hide h ov) = map_option (\<lambda>_. False) (ol_shown ov)" "wanted (hide h ov) = wanted ov"
  "ol_pending (hide h ov) = ol_pending ov" "ol_watcher (hide h ov) = ol_watcher ov"
  "ol_auto (hide h ov) = ol_auto ov" "ol_enabled (hide h ov) = ol_enabled ov"
  "ol_game (hide h ov) = ol_game ov" "ol_focused (hide h ov) = ol_focused ov"
  by (auto simp: hide_def wanted_def map_option_case split: option.split)

lemma show_inactive_frame [simp]:
  "ol_shown (show_inactive ov) = map_option (\<lambda>_. True) (ol_shown ov)" "wanted (show_inactive ov) = wanted ov"
  "ol_pending (show_inactive ov) = ol_pending ov" "ol_watcher (show_inactive ov) = ol_watcher ov"
  "ol_auto (show_inactive ov) = ol_auto ov" "ol_enabled (show_inactive ov) = ol_enabled ov"
  "ol_game (show_inactive ov) = ol_game ov" "ol_focused (show_inactive ov) = ol_focused ov"
  by (auto simp: show_inactive_def wanted_def map_option_case split: option.split)

lemma update_visibility_frame [simp]:
  "ol_shown (update_visibility h ov) = map_option (\<lambda>_. wanted ov) (ol_shown ov)"
  "wanted (update_visibility h ov) = wanted ov"
  "ol_pending (update_visibility h ov) = ol_pending ov" "ol_watcher (update_visibility h ov) = ol_watcher ov"
  "ol_auto (update_visibility h ov) = ol_auto ov" "ol_enabled (update_visibility h ov) = ol_enabled ov"
  "ol_game (update_visibility h ov) = ol_game ov" "ol_focused (update_visibility h ov) = ol_focused ov"
  by (auto simp: update_visibility_def) (auto simp: wanted_def)

definition visible_rightly :: "overlay \<Rightarrow> bool" where
  "visible_rightly ov \<longleftrightarrow> (ol_shown ov = Some True \<longrightarrow>
     (ol_auto ov \<longrightarrow> ol_game ov \<or> ol_focused ov) \<and> (ol_enabled ov \<or> ol_pending ov > 0))"

lemma rightly_if_wanted: "(ol_shown ov = Some True \<Longrightarrow> wanted ov) \<Longrightarrow> visible_rightly ov"
  by (auto simp: visible_rightly_def wanted_def)

lemma update_rightly: "visible_rightly (update_visibility h ov)"
  by (rule rightly_if_wanted) auto

lemma hide_rightly: "visible_rightly (hide h ov)"
  by (rule rightly_if_wanted) auto

lemma window_ready_shown:
  "ol_shown (window_ready h ov) = Some True \<longleftrightarrow> wanted (window_ready h ov) \<and> ol_shown (window_ready h ov) \<noteq> None"
proof (cases "ol_enabled ov")
  case True
  then show ?thesis by (auto simp: window_ready_def)
next
  case False
  then have "\<not> wanted (window_ready h ov)" "ol_shown (window_ready h ov) \<noteq> Some True"
    by (auto simp: window_ready_def stop_watcher_def wanted_def)
  then show ?thesis by simp
qed

lemma stop_watcher_rightly: "visible_rightly ov \<Longrightarrow> visible_rightly (stop_watcher ov)"
  by (auto simp: visible_rightly_def stop_watcher_def)

lemma step_rightly:
  assumes "overlay_step h ov e ov'" "visible_rightly ov"
  shows "visible_rightly ov'"
  using assms(1)
proof (cases rule: overlay_step.cases)
  case toggle
  with assms(2) show ?thesis
    by (auto simp: set_enabled_def ensure_window_def visible_rightly_def split: option.split)
next
  case (set_enabled b)
  with assms(2) show ?thesis
    by (auto simp: set_enabled_def ensure_window_def visible_rightly_def split: option.split)
next
  case loaded
  then show ?thesis using window_ready_shown by (intro rightly_if_wanted) blast
next
  case resumed
  then show ?thesis using window_ready_shown by (intro rightly_if_wanted) blast
next
  case begin_dispose
  have "visible_rightly (stop_watcher (ov\<lparr>ol_quitting := True\<rparr>))"
    by (rule stop_watcher_rightly) (use assms(2) in \<open>simp add: visible_rightly_def\<close>)
  then show ?thesis by (simp add: begin_dispose begin_dispose_def visible_rightly_def)
next
  case persisted
  with assms(2) show ?thesis by (simp add: persisted_def visible_rightly_def)
qed (simp_all only: update_rightly hide_rightly foreground_changed_def watcher_lost_def,
    use assms(2) in \<open>simp_all add: end_dispose_def visible_rightly_def\<close>)

lemma run_rightly: "overlay_run h es ov \<Longrightarrow> visible_rightly ov"
proof (induction rule: overlay_run.induct)
  case (created s place)
  then show ?case by (simp add: create_overlay_manager_def visible_rightly_def)
next
  case (stepped es ov e ov')
  then show ?case by (blast intro: step_rightly)
qed

text \<open>The events after which the manager decides anew.\<close>

definition decides :: "overlay_event \<Rightarrow> bool" where
  "decides e \<longleftrightarrow> e \<in> {Loaded, Resumed, Focus, Blur, Watcher_lost} \<or> (\<exists>info. e = Foreground info)"

lemma decided:
  assumes "overlay_step h ov e ov'" "decides e"
  shows "ol_shown ov' = Some True \<longleftrightarrow> wanted ov' \<and> ol_shown ov' \<noteq> None"
  using assms(1)
  by (cases rule: overlay_step.cases)
    (use assms(2) in \<open>simp_all only: window_ready_shown\<close>, use assms(2) in \<open>auto simp: decides_def foreground_changed_def watcher_lost_def\<close>)

text \<open>
  C34. In every run the overlay is shown only while it is enabled, or a call that disables it is still being
  worked off, and, with the watcher running, while the game or the overlay has the focus; and whenever a
  focus changes, the watcher is lost or a call of \<open>setEnabled\<close> is worked off, an existing window is
  shown exactly if that is wanted.
\<close>

theorem overlay_shown_only_when_wanted:
  assumes "overlay_run h es ov"
  shows "(ol_shown ov = Some True \<longrightarrow> wanted ov \<or> \<not> ol_enabled ov \<and> ol_pending ov > 0)
    \<and> (\<forall>e ov'. overlay_step h ov e ov' \<longrightarrow> decides e \<longrightarrow>
         (ol_shown ov' = Some True \<longleftrightarrow> wanted ov' \<and> ol_shown ov' \<noteq> None))"
  using run_rightly [OF assms] decided by (auto simp: visible_rightly_def wanted_def)

text \<open>The overlay is switched on, the game comes to the front, and the user goes to another window.\<close>

definition sample_overlay_host :: overlay_host where
  "sample_overlay_host = \<lparr>oh_desktop = sample_desktop, oh_watchable = True, oh_lower = id\<rparr>"

definition sample_front :: "string \<Rightarrow> foreground_info" where
  "sample_front title = \<lparr>fg_pid = num 7, fg_title = title, fg_process_name = None\<rparr>"

theorem overlay_shown_only_when_wanted_witness:
  "\<exists>ov1 ov2. overlay_run sample_overlay_host [Toggle, Loaded, Foreground (sample_front ''aion2'')] ov1
     \<and> ol_shown ov1 = Some True
     \<and> overlay_step sample_overlay_host ov1 (Foreground (sample_front ''mail'')) ov2 \<and> ol_shown ov2 \<noteq> Some True"
proof -
  let ?h = sample_overlay_host
  define ov0 where "ov0 = create_overlay_manager \<lparr>se_db = empty_db False, se_file = None, se_exports = [], se_disk = None\<rparr> (ws_bounds sample_place)"
  define on where "on = set_enabled ?h (\<not> ol_enabled ov0) ov0"
  define ready where "ready = window_ready ?h (on\<lparr>ol_loading := ol_loading on - 1\<rparr>)"
  define ov1 where "ov1 = foreground_changed ?h (fg_title (sample_front ''aion2'')) ready"
  have start: "ol_enabled ov0 = False" "ol_quitting ov0 = False" "ol_shown ov0 = None" "ol_loading ov0 = 0"
      "ol_watcher ov0 = False" "ol_auto ov0 = False" "ol_game ov0 = False" "ol_focused ov0 = False"
    by (simp_all add: ov0_def create_overlay_manager_def)
  have created: "overlay_run ?h [] ov0" unfolding ov0_def by (rule overlay_run.created)
  have on: "ol_loading on = 1" "ol_enabled on" "ol_shown on = Some False" "\<not> ol_watcher on" "\<not> ol_game on" "\<not> ol_focused on"
    by (simp_all add: on_def set_enabled_def ensure_window_def start)
  have "overlay_run ?h ([] @ [Toggle]) on"
    unfolding on_def by (rule overlay_run.stepped [OF created overlay_step.toggle]) (simp add: start)
  then have "overlay_run ?h (([] @ [Toggle]) @ [Loaded]) ready"
    unfolding ready_def by (rule overlay_run.stepped [OF _ overlay_step.loaded]) (simp add: on)
  from overlay_run.stepped [OF this overlay_step.foreground, of "sample_front ''aion2''"]
  have run: "overlay_run ?h [Toggle, Loaded, Foreground (sample_front ''aion2'')] ov1" by (simp add: ov1_def)
  have "str_includes ''aion2'' ''aion2''" "\<not> str_includes ''mail'' ''aion2''" by code_simp+
  then have ready: "ol_enabled ready" "ol_auto ready" "ol_shown ready = Some False" "\<not> ol_focused ready"
    and game: "is_game_title ?h (fg_title (sample_front ''aion2''))" "\<not> is_game_title ?h (fg_title (sample_front ''mail''))"
    by (simp_all add: ready_def window_ready_def ensure_watcher_def on sample_overlay_host_def wanted_def
        is_game_title_def sample_front_def)
  have shown: "ol_shown ov1 = Some True"
    by (simp add: ov1_def foreground_changed_def ready game wanted_def)
  have step: "overlay_step ?h ov1 (Foreground (sample_front ''mail'')) (foreground_changed ?h (fg_title (sample_front ''mail'')) ov1)"
    by (rule overlay_step.foreground)
  from overlay_shown_only_when_wanted [OF run] step
  have "ol_shown (foreground_changed ?h (fg_title (sample_front ''mail'')) ov1) = Some True \<longleftrightarrow>
      wanted (foreground_changed ?h (fg_title (sample_front ''mail'')) ov1)
      \<and> ol_shown (foreground_changed ?h (fg_title (sample_front ''mail'')) ov1) \<noteq> None"
    by (simp add: decides_def)
  moreover have "\<not> wanted (foreground_changed ?h (fg_title (sample_front ''mail'')) ov1)"
    by (simp add: foreground_changed_def game) (simp add: wanted_def ov1_def foreground_changed_def ready)
  ultimately show ?thesis using run shown step by blast
qed

end
