(* ===== verification/Recommend.thy ===== *)
theory Recommend
  imports JsValue "HOL-Library.Multiset"
begin

text \<open>
  What to do in the time that is left: the recommendation of the desktop app
  (\<open>renderer/src/planner/recommend.ts\<close>) and of the web module
  (\<open>packages/modules/planner/lib/recommend.ts\<close>). Both order the tasks by their length and
  take what still fits.
\<close>

section \<open>The desktop app\<close>

datatype pick_source = Avg | Estimate

record recommend_item =
  ri_template_id :: string
  ri_estimate_minutes :: jsnum

record recommend_pick =
  rp_template_id :: string
  rp_estimate_minutes :: int
  rp_source :: pick_source

text \<open>\<open>Math.min(240, Math.max(1, Math.round(x)))\<close> of a finite number.\<close>

definition clamp_minutes :: "rat \<Rightarrow> int" where
  "clamp_minutes r = min 240 (max 1 \<lfloor>r + 1/2\<rfloor>)"

definition candidate_of :: "(string \<Rightarrow> jsnum option) \<Rightarrow> recommend_item \<Rightarrow> recommend_pick" where
  "candidate_of avg it =
     (let fallback = (let base = (case ri_estimate_minutes it of Fin r \<Rightarrow> r | _ \<Rightarrow> 0);
                          minutes = (if base \<le> 0 then 5 else base)
                      in \<lparr>rp_template_id = ri_template_id it, rp_estimate_minutes = clamp_minutes minutes,
                          rp_source = Estimate\<rparr>)
      in case avg (ri_template_id it) of
           Some (Fin seconds) \<Rightarrow>
             if seconds > 0
             then \<lparr>rp_template_id = ri_template_id it, rp_estimate_minutes = clamp_minutes (seconds / 60), rp_source = Avg\<rparr>
             else fallback
         | _ \<Rightarrow> fallback)"

text \<open>One round of the loop over the ordered candidates.\<close>

definition pick_fitting :: "jsnum \<Rightarrow> recommend_pick list \<times> int \<Rightarrow> recommend_pick \<Rightarrow> recommend_pick list \<times> int" where
  "pick_fitting budget = (\<lambda>(picked, minutes_sum) it.
     if num_lt budget (num (minutes_sum + rp_estimate_minutes it)) then (picked, minutes_sum)
     else (picked @ [it], minutes_sum + rp_estimate_minutes it))"

definition recommend_planner_items ::
  "jsnum \<Rightarrow> recommend_item list \<Rightarrow> (string \<Rightarrow> jsnum option) \<Rightarrow> recommend_pick list \<times> int" where
  "recommend_planner_items budget items avg =
     foldl (pick_fitting (num_max (num 0) (num_floor budget))) ([], 0)
       (sort_key rp_estimate_minutes (map (candidate_of avg) items))"

section \<open>The web module\<close>

record recommend_candidate =
  rc_id :: string
  rc_estimated_seconds :: jsnum

record recommend_result =
  rr_selected :: "recommend_candidate list"
  rr_total_seconds :: rat
  rr_remaining_seconds :: rat

fun positive_seconds :: "jsnum \<Rightarrow> rat option" where
  "positive_seconds (Fin r) = (if r > 0 then Some r else None)"
| "positive_seconds _ = None"

definition seconds_of :: "recommend_candidate \<Rightarrow> rat" where
  "seconds_of c = (case rc_estimated_seconds c of Fin r \<Rightarrow> r | _ \<Rightarrow> 0)"

definition select_fitting :: "recommend_candidate list \<times> rat \<Rightarrow> recommend_candidate \<Rightarrow> recommend_candidate list \<times> rat" where
  "select_fitting = (\<lambda>(selected, remaining) c.
     if seconds_of c \<le> remaining then (selected @ [c], remaining - seconds_of c) else (selected, remaining))"

text \<open>The budget of the web module is a finite number.\<close>

definition recommend_for_budget :: "recommend_candidate list \<Rightarrow> rat \<Rightarrow> recommend_result" where
  "recommend_for_budget candidates budget =
     (let sorted = sort_key seconds_of (filter (\<lambda>c. positive_seconds (rc_estimated_seconds c) \<noteq> None) candidates);
          (selected, remaining) = foldl select_fitting ([], max 0 budget) sorted
      in \<lparr>rr_selected = selected, rr_total_seconds = budget - remaining, rr_remaining_seconds = remaining\<rparr>)"

section \<open>Taking what fits, shortest first\<close>

text \<open>The reference: both loops take these elements.\<close>

fun greedy :: "('a \<Rightarrow> 'w :: linordered_ab_group_add) \<Rightarrow> 'w \<Rightarrow> 'a list \<Rightarrow> 'a list" where
  "greedy w b [] = []"
| "greedy w b (x # xs) = (if w x \<le> b then x # greedy w (b - w x) xs else greedy w b xs)"

definition weight :: "('a \<Rightarrow> 'w :: linordered_ab_group_add) \<Rightarrow> 'a list \<Rightarrow> 'w" where
  "weight w xs = sum_list (map w xs)"

lemma weight_simps [simp]: "weight w [] = 0" "weight w (x # xs) = w x + weight w xs" "weight w (xs @ ys) = weight w xs + weight w ys"
  by (simp_all add: weight_def)

lemma greedy_fits: "0 \<le> b \<Longrightarrow> weight w (greedy w b xs) \<le> b"
proof (induction w b xs rule: greedy.induct)
  case (2 w b x xs)
  then show ?case by (auto simp: le_diff_eq add.commute)
qed simp

lemma greedy_subset: "mset (greedy w b xs) \<subseteq># mset xs"
  by (induction w b xs rule: greedy.induct) (auto simp: subseteq_mset_def le_SucI)

lemma weight_remove1: "y \<in> set ys \<Longrightarrow> weight w (remove1 y ys) = weight w ys - w y"
  by (induction ys) auto

lemma weight_nonneg: "\<forall>x \<in> set xs. 0 \<le> w x \<Longrightarrow> 0 \<le> weight w xs"
  by (induction xs) auto

lemma member_weight: "y \<in> set ys \<Longrightarrow> \<forall>x \<in> set ys. 0 \<le> w x \<Longrightarrow> w y \<le> weight w ys"
  using weight_remove1 [of y ys w] weight_nonneg [of "remove1 y ys" w] by (auto dest: notin_set_remove1)

text \<open>No other choice that fits has more elements.\<close>

lemma greedy_most:
  assumes "sorted (map w xs)" "\<forall>x \<in> set xs. 0 < w x" "mset ys \<subseteq># mset xs" "weight w ys \<le> b"
  shows "length ys \<le> length (greedy w b xs)"
  using assms
proof (induction w b xs arbitrary: ys rule: greedy.induct)
  case (2 w b x xs)
  have least: "w x \<le> w y" and pos: "0 < w y" if "y \<in> set ys" for y
    using that 2(3,4) mset_subset_eqD [OF 2(5), of y] by auto
  show ?case
  proof (cases "ys = []")
    case False
    define y where "y = (if x \<in> set ys then x else hd ys)"
    have y: "y \<in> set ys" using False by (auto simp: y_def)
    then have fits: "w x \<le> b"
      using least [OF y] member_weight [OF y, of w] pos 2(6) by (auto intro: order.trans less_imp_le)
    have "mset (remove1 y ys) \<subseteq># mset xs"
    proof (cases "x \<in> set ys")
      case True
      then show ?thesis using 2(5) by (simp add: y_def subset_eq_diff_conv)
    next
      case False
      then have "mset ys \<subseteq># mset xs"
        using 2(5) by (auto simp: subseteq_mset_def not_in_iff [symmetric] split: if_splits) (metis count_mset_0_iff zero_le)
      then show ?thesis by (auto intro: subset_mset.order_trans [OF diff_subset_eq_self])
    qed
    moreover have "weight w (remove1 y ys) \<le> b - w x"
      using weight_remove1 [OF y, of w] least [OF y] 2(6) by (metis diff_mono)
    ultimately have "length (remove1 y ys) \<le> length (greedy w (b - w x) xs)"
      using 2(1) [OF fits] 2(3,4) by auto
    then show ?thesis using y fits by (simp add: length_remove1)
  qed simp
qed simp

lemma pick_greedy:
  "foldl (pick_fitting (num b)) (picked, minutes_sum) xs =
     (picked @ greedy rp_estimate_minutes (b - minutes_sum) xs, minutes_sum + weight rp_estimate_minutes (greedy rp_estimate_minutes (b - minutes_sum) xs))"
  by (induction xs arbitrary: picked minutes_sum) (auto simp: pick_fitting_def algebra_simps)

lemma select_greedy:
  "foldl select_fitting (selected, remaining) xs =
     (selected @ greedy seconds_of remaining xs, remaining - weight seconds_of (greedy seconds_of remaining xs))"
  by (induction xs arbitrary: selected remaining) (auto simp: select_fitting_def)

lemma clamp_minutes_range: "1 \<le> clamp_minutes r" "clamp_minutes r \<le> 240"
  by (auto simp: clamp_minutes_def)

lemma clamp_minutes_int: "1 \<le> n \<Longrightarrow> n \<le> 240 \<Longrightarrow> clamp_minutes (of_int n) = n"
proof -
  have "\<lfloor>of_int n + 1/2 :: rat\<rfloor> = n" by (rule floor_unique) simp_all
  then show "1 \<le> n \<Longrightarrow> n \<le> 240 \<Longrightarrow> clamp_minutes (of_int n) = n" by (simp add: clamp_minutes_def)
qed

lemma candidate_range: "1 \<le> rp_estimate_minutes (candidate_of avg it)" "rp_estimate_minutes (candidate_of avg it) \<le> 240"
  by (auto simp: candidate_of_def Let_def clamp_minutes_range split: option.split jsnum.split)

text \<open>
  C35. For a finite budget the recommendation fits into it, its total is the sum of its minutes, it takes
  each task at most once, and no choice of tasks that fits has more of them.
\<close>

theorem recommendation_is_best:
  assumes "budget = Fin b" "recommend_planner_items budget items avg = (picked, minutes_sum)"
  shows "minutes_sum = weight rp_estimate_minutes picked \<and> minutes_sum \<le> max 0 \<lfloor>b\<rfloor>
    \<and> mset picked \<subseteq># mset (map (candidate_of avg) items)
    \<and> (\<forall>ys. mset ys \<subseteq># mset (map (candidate_of avg) items) \<and> weight rp_estimate_minutes ys \<le> max 0 \<lfloor>b\<rfloor> \<longrightarrow>
         length ys \<le> length picked)"
proof -
  let ?cs = "map (candidate_of avg) items" and ?b = "max 0 \<lfloor>b\<rfloor>"
  let ?s = "sort_key rp_estimate_minutes ?cs"
  have picked: "picked = greedy rp_estimate_minutes ?b ?s" "minutes_sum = weight rp_estimate_minutes picked"
    using assms(2) by (auto simp: recommend_planner_items_def assms(1) pick_greedy)
  have "length ys \<le> length picked" if "mset ys \<subseteq># mset ?cs" "weight rp_estimate_minutes ys \<le> ?b" for ys
    unfolding picked(1) by (rule greedy_most) (use that candidate_range in \<open>auto simp: less_le_trans [OF zero_less_one]\<close>)
  moreover have "mset picked \<subseteq># mset ?cs"
    using greedy_subset [of rp_estimate_minutes ?b ?s] by (simp add: picked(1))
  moreover have "minutes_sum \<le> ?b" unfolding picked by (rule greedy_fits) simp
  ultimately show ?thesis using picked(2) by blast
qed

text \<open>Three tasks of twenty, ten and sixty minutes, and 45 minutes of time.\<close>

definition sample_tasks :: "recommend_item list" where
  "sample_tasks = [\<lparr>ri_template_id = ''a'', ri_estimate_minutes = num 20\<rparr>,
     \<lparr>ri_template_id = ''b'', ri_estimate_minutes = num 10\<rparr>, \<lparr>ri_template_id = ''c'', ri_estimate_minutes = num 60\<rparr>]"

theorem recommendation_is_best_witness:
  "\<exists>picked. recommend_planner_items (num 45) sample_tasks (\<lambda>_. None) = (picked, 30)
     \<and> map rp_template_id picked = [''b'', ''a'']
     \<and> (\<forall>ys. mset ys \<subseteq># mset (map (candidate_of (\<lambda>_. None)) sample_tasks) \<and> weight rp_estimate_minutes ys \<le> 45 \<longrightarrow>
          length ys \<le> 2)"
proof -
  have run: "recommend_planner_items (num 45) sample_tasks (\<lambda>_. None) =
      ([\<lparr>rp_template_id = ''b'', rp_estimate_minutes = 10, rp_source = Estimate\<rparr>,
        \<lparr>rp_template_id = ''a'', rp_estimate_minutes = 20, rp_source = Estimate\<rparr>], 30)"
    using clamp_minutes_int [of 20] clamp_minutes_int [of 10] clamp_minutes_int [of 60]
    by (simp add: recommend_planner_items_def sample_tasks_def candidate_of_def pick_fitting_def num_def [of 20]
        num_def [of 10] num_def [of 60])
  from recommendation_is_best [OF num_def run] show ?thesis by (auto simp: run)
qed

text \<open>The same for the web module, whose budget may be negative.\<close>

theorem web_recommendation_is_best:
  assumes "recommend_for_budget candidates budget = r"
  shows "0 \<le> rr_remaining_seconds r \<and> (0 \<le> budget \<longrightarrow> rr_total_seconds r = weight seconds_of (rr_selected r))
    \<and> (\<forall>ys. mset ys \<subseteq># mset (filter (\<lambda>c. positive_seconds (rc_estimated_seconds c) \<noteq> None) candidates)
         \<and> weight seconds_of ys \<le> max 0 budget \<longrightarrow> length ys \<le> length (rr_selected r))"
proof -
  let ?cs = "filter (\<lambda>c. positive_seconds (rc_estimated_seconds c) \<noteq> None) candidates"
  let ?s = "sort_key seconds_of ?cs" and ?b = "max 0 budget"
  have r: "rr_selected r = greedy seconds_of ?b ?s" "rr_remaining_seconds r = ?b - weight seconds_of (rr_selected r)"
      "rr_total_seconds r = budget - rr_remaining_seconds r"
    using assms by (auto simp: recommend_for_budget_def Let_def select_greedy)
  have pos: "0 < seconds_of c" if "c \<in> set ?cs" for c
    using that by (auto simp: seconds_of_def split: jsnum.splits if_splits)
  have "length ys \<le> length (rr_selected r)" if "mset ys \<subseteq># mset ?cs" "weight seconds_of ys \<le> ?b" for ys
    unfolding r(1) by (rule greedy_most) (use that pos in auto)
  moreover have "weight seconds_of (rr_selected r) \<le> ?b" unfolding r(1) by (rule greedy_fits) simp
  ultimately show ?thesis using r(2,3) by auto
qed

end
