(* ===== verification/PlannerPages.thy ===== *)
theory PlannerPages
  imports Handlers
begin

text \<open>
  The planner pages of the renderer (\<open>renderer/src/pages/planner/today/model.ts\<close>,
  \<open>templates/model.ts\<close>, \<open>renderer/src/planner/timer.ts\<close>, \<open>duration.ts\<close>):
  they read the answers of the main process as values of unknown shape. The objects that the main process
  answers with are the \<open>*_value\<close> functions.
\<close>

section \<open>What the main process sends\<close>

definition checklist_value :: "checklist_item \<Rightarrow> jsval" where
  "checklist_value i = Obj [(''templateId'', Str (ck_template_id i)), (''title'', Str (ck_title i)),
     (''type'', Str (type_name (ck_type i))), (''estimateMinutes'', Num (ck_estimate_minutes i)),
     (''completed'', Bool (ck_completed i))]"

definition charge_value :: "charge_item \<Rightarrow> jsval" where
  "charge_value i = Obj [(''templateId'', Str (cg_template_id i)), (''title'', Str (cg_title i)), (''type'', Str ''CHARGE''),
     (''rechargeHours'', Num (cg_recharge_hours i)), (''maxStacks'', Num (cg_max_stacks i)),
     (''usedCountInWindow'', Num (num (int (cg_used_count_in_window i)))), (''available'', Num (cg_available i)),
     (''nextRechargeAt'', opt_str (cg_next_recharge_at i))]"

definition overview_value :: "overview \<Rightarrow> jsval" where
  "overview_value v = Obj [(''now'', Str (ov_now v)),
     (''periodKeys'', Obj [(''daily'', Str (ov_daily_key v)), (''weekly'', Str (ov_weekly_key v))]),
     (''settings'', Obj [(''dailyResetHhmm'', Str (ov_daily_reset_hhmm v)), (''weeklyResetDay'', Num (ov_weekly_reset_day v))]),
     (''character'', character_json (ov_character v)),
     (''daily'', Arr (map checklist_value (ov_daily v))), (''weekly'', Arr (map checklist_value (ov_weekly v))),
     (''charges'', Arr (map charge_value (ov_charges v)))]"

definition template_value :: "planner_template_row \<Rightarrow> jsval" where
  "template_value t = Obj [(''id'', Str (pt_id t)), (''title'', Str (pt_title t)), (''type'', Str (type_name (pt_type t))),
     (''estimateMinutes'', Num (pt_estimate_minutes t)), (''rechargeHours'', opt_num (pt_recharge_hours t)),
     (''maxStacks'', opt_num (pt_max_stacks t)), (''createdAt'', Str (pt_created_at t)), (''updatedAt'', Str (pt_updated_at t))]"

definition settings_value :: "settings \<Rightarrow> jsval" where
  "settings_value s = Obj [(''dailyResetHhmm'', Str (se_daily_reset_hhmm s)),
     (''weeklyResetDay'', Num (se_weekly_reset_day s)), (''updatedAt'', Str (se_updated_at s))]"

definition bundle_value :: "settings_bundle \<Rightarrow> jsval" where
  "bundle_value b = Obj [(''default'', settings_value (sb_default b)),
     (''server'', case sb_server b of None \<Rightarrow> Null
        | Some (name, s) \<Rightarrow> Obj [(''server'', Str name), (''settings'', settings_value s)]),
     (''effective'', settings_value (sb_effective b)),
     (''effectiveScope'', Str (case sb_effective_scope b of DefaultScope \<Rightarrow> ''default'' | ServerScope \<Rightarrow> ''server''))]"

definition stat_value :: "duration_stat \<Rightarrow> jsval" where
  "stat_value s = Obj [(''templateId'', Str (ds_template_id s)), (''count'', Num (num (int (ds_count s)))),
     (''totalSeconds'', Num (ds_total_seconds s)), (''avgSeconds'', Num (ds_avg_seconds s))]"

section \<open>Today\<close>

text \<open>A list is read only if each of its elements can be read.\<close>

fun read_all :: "(jsval \<Rightarrow> 'a option) \<Rightarrow> jsval list \<Rightarrow> 'a list option" where
  "read_all f [] = Some []"
| "read_all f (v # vs) =
     (case f v of None \<Rightarrow> None | Some x \<Rightarrow> (case read_all f vs of None \<Rightarrow> None | Some xs \<Rightarrow> Some (x # xs)))"

fun read_array :: "(jsval \<Rightarrow> 'a option) \<Rightarrow> jsval \<Rightarrow> 'a list option" where
  "read_array f (Arr vs) = read_all f vs"
| "read_array f _ = None"

fun bool_of :: "jsval \<Rightarrow> bool option" where
  "bool_of (Bool b) = Some b"
| "bool_of _ = None"

text \<open>\<open>v === null || typeof v === "string"\<close>, with the value.\<close>

fun nullable_str :: "jsval \<Rightarrow> string option option" where
  "nullable_str Null = Some None"
| "nullable_str (Str s) = Some (Some s)"
| "nullable_str _ = None"

record view_stat =
  vs_template_id :: string
  vs_count :: jsnum
  vs_total_seconds :: jsnum
  vs_avg_seconds :: jsnum

record view_charge =
  vc_template_id :: string
  vc_title :: string
  vc_recharge_hours :: jsnum
  vc_max_stacks :: jsnum
  vc_used_count_in_window :: jsnum
  vc_available :: jsnum
  vc_next_recharge_at :: "string option"

record view_character =
  vr_id :: string
  vr_name :: string
  vr_server :: "string option"
  vr_class :: "string option"

record view_overview =
  vo_now :: string
  vo_daily_key :: string
  vo_weekly_key :: string
  vo_daily_reset_hhmm :: string
  vo_weekly_reset_day :: jsnum
  vo_character :: view_character
  vo_daily :: "checklist_item list"
  vo_weekly :: "checklist_item list"
  vo_charges :: "view_charge list"

definition read_stat :: "jsval \<Rightarrow> view_stat option" where
  "read_stat v =
     (case (str_of (field v ''templateId''), num_of (field v ''count''), num_of (field v ''totalSeconds''),
            num_of (field v ''avgSeconds'')) of
        (Some t, Some c, Some secs, Some avg) \<Rightarrow>
          Some \<lparr>vs_template_id = t, vs_count = c, vs_total_seconds = secs, vs_avg_seconds = avg\<rparr>
      | _ \<Rightarrow> None)"

definition as_duration_stats :: "jsval \<Rightarrow> view_stat list option" where
  "as_duration_stats = read_array read_stat"

definition parse_checklist :: "template_type \<Rightarrow> jsval \<Rightarrow> checklist_item option" where
  "parse_checklist ty v =
     (case (str_of (field v ''templateId''), str_of (field v ''title''), num_of (field v ''estimateMinutes''),
            bool_of (field v ''completed'')) of
        (Some i, Some title, Some minutes, Some c) \<Rightarrow>
          if field v ''type'' \<noteq> Str (type_name ty) then None
          else Some \<lparr>ck_template_id = i, ck_title = title, ck_type = ty, ck_estimate_minutes = minutes, ck_completed = c\<rparr>
      | _ \<Rightarrow> None)"

definition parse_charge :: "jsval \<Rightarrow> view_charge option" where
  "parse_charge v =
     (case (str_of (field v ''templateId''), str_of (field v ''title''), num_of (field v ''rechargeHours''),
            num_of (field v ''maxStacks''), num_of (field v ''usedCountInWindow''), num_of (field v ''available''),
            nullable_str (field v ''nextRechargeAt'')) of
        (Some i, Some title, Some hours, Some stacks, Some used, Some available, Some recharge) \<Rightarrow>
          if field v ''type'' \<noteq> Str ''CHARGE'' then None
          else Some \<lparr>vc_template_id = i, vc_title = title, vc_recharge_hours = hours, vc_max_stacks = stacks,
                     vc_used_count_in_window = used, vc_available = available, vc_next_recharge_at = recharge\<rparr>
      | _ \<Rightarrow> None)"

definition read_view_character :: "jsval \<Rightarrow> view_character option" where
  "read_view_character v =
     (case (str_of (field v ''id''), str_of (field v ''name'')) of
        (Some i, Some n) \<Rightarrow> Some \<lparr>vr_id = i, vr_name = n, vr_server = str_of (field v ''server''),
                                vr_class = str_of (field v ''class'')\<rparr>
      | _ \<Rightarrow> None)"

definition as_overview :: "jsval \<Rightarrow> view_overview option" where
  "as_overview v =
     (let keys = field v ''periodKeys''; st = field v ''settings'' in
      case (str_of (field v ''now''), str_of (field keys ''daily''), str_of (field keys ''weekly''),
            str_of (field st ''dailyResetHhmm''), num_of (field st ''weeklyResetDay''),
            read_view_character (field v ''character''), read_array (parse_checklist DAILY) (field v ''daily''),
            read_array (parse_checklist WEEKLY) (field v ''weekly''), read_array parse_charge (field v ''charges'')) of
        (Some now, Some dk, Some wk, Some hhmm, Some day, Some ch, Some daily, Some weekly, Some charges) \<Rightarrow>
          Some \<lparr>vo_now = now, vo_daily_key = dk, vo_weekly_key = wk, vo_daily_reset_hhmm = hhmm,
                vo_weekly_reset_day = day, vo_character = ch, vo_daily = daily, vo_weekly = weekly, vo_charges = charges\<rparr>
      | _ \<Rightarrow> None)"

fun estimate_for_budget :: "jsnum \<Rightarrow> int" where
  "estimate_for_budget (Fin r) = (if r \<le> 0 then 5 else min 240 (max 1 \<lfloor>r + 1/2\<rfloor>))"
| "estimate_for_budget _ = 5"

section \<open>Templates and settings\<close>

record view_template =
  vt_id :: string
  vt_title :: string
  vt_type :: template_type
  vt_estimate_minutes :: jsnum
  vt_recharge_hours :: "jsnum option"
  vt_max_stacks :: "jsnum option"

definition read_view_template :: "jsval \<Rightarrow> view_template option" where
  "read_view_template v =
     (case (str_of (field v ''id''), str_of (field v ''title''), template_type_of (field v ''type'')) of
        (Some i, Some title, Some ty) \<Rightarrow>
          Some \<lparr>vt_id = i, vt_title = title, vt_type = ty, vt_estimate_minutes = num_or (num 0) (field v ''estimateMinutes''),
                vt_recharge_hours = num_of (field v ''rechargeHours''), vt_max_stacks = num_of (field v ''maxStacks'')\<rparr>
      | _ \<Rightarrow> None)"

definition as_templates :: "jsval \<Rightarrow> view_template list option" where
  "as_templates = read_array read_view_template"

record view_settings =
  vw_daily_reset_hhmm :: string
  vw_weekly_reset_day :: jsnum
  vw_updated_at :: "string option"

record view_bundle =
  vb_default :: view_settings
  vb_server :: "(string \<times> view_settings) option"
  vb_effective :: view_settings
  vb_scope :: settings_scope

definition as_settings :: "jsval \<Rightarrow> view_settings option" where
  "as_settings v =
     (case (str_of (field v ''dailyResetHhmm''), num_of (field v ''weeklyResetDay'')) of
        (Some hhmm, Some day) \<Rightarrow> Some \<lparr>vw_daily_reset_hhmm = hhmm, vw_weekly_reset_day = day,
                                     vw_updated_at = non_empty (str_of (field v ''updatedAt''))\<rparr>
      | _ \<Rightarrow> None)"

definition as_settings_bundle :: "jsval \<Rightarrow> view_bundle option" where
  "as_settings_bundle v =
     (case (as_settings (field v ''default''), as_settings (field v ''effective'')) of
        (Some base, Some effective) \<Rightarrow>
          (let made = (\<lambda>server. Some \<lparr>vb_default = base, vb_server = server, vb_effective = effective,
                         vb_scope = (if field v ''effectiveScope'' = Str ''server'' then ServerScope else DefaultScope)\<rparr>);
               server = field v ''server'' in
           if server = Null then made None
           else case (str_of (field server ''server''), as_settings (field server ''settings'')) of
             (Some name, Some s) \<Rightarrow> made (Some (name, s))
           | _ \<Rightarrow> None)
      | _ \<Rightarrow> None)"

definition as_apply_preset_result :: "jsval \<Rightarrow> (jsnum \<times> jsnum) option" where
  "as_apply_preset_result v =
     (case (num_of (field v ''created''), num_of (field v ''skipped'')) of
        (Some c, Some s) \<Rightarrow> Some (c, s)
      | _ \<Rightarrow> None)"

text \<open>The servers of the characters, each once, in the order of \<open>localeCompare\<close>.\<close>

definition as_servers_from_characters :: "(string \<Rightarrow> string \<Rightarrow> bool) \<Rightarrow> jsval \<Rightarrow> string list" where
  "as_servers_from_characters before v =
     order_by before (js_uniq (List.map_filter (\<lambda>c. non_empty (Some (trim (text_field c ''server'')))) (arr_or_empty v)))"

section \<open>The timer\<close>

record active_timer =
  tm_template_id :: string
  tm_started_at :: int

datatype timer_notice = Started string | Already_running string | Kept | Switched string string

text \<open>\<open>confirm_fn\<close> is asked with the titles of the running and of the new task.\<close>

definition start_timer_with_confirm ::
  "active_timer option \<Rightarrow> string \<Rightarrow> int \<Rightarrow> (string \<Rightarrow> string) \<Rightarrow> (string \<Rightarrow> string \<Rightarrow> bool) \<Rightarrow>
   active_timer option \<times> timer_notice" where
  "start_timer_with_confirm current next_id now resolve_title confirm_fn =
     (let title = (\<lambda>i. if resolve_title i = [] then i else resolve_title i);
          started = \<lparr>tm_template_id = next_id, tm_started_at = now\<rparr> in
      case current of
        None \<Rightarrow> (Some started, Started (title next_id))
      | Some t \<Rightarrow>
          if tm_template_id t = next_id then (current, Already_running (title (tm_template_id t)))
          else if \<not> confirm_fn (title (tm_template_id t)) (title next_id) then (current, Kept)
          else (Some started, Switched (title (tm_template_id t)) (title next_id)))"

definition compute_duration_seconds :: "jsnum \<Rightarrow> jsnum \<Rightarrow> jsnum" where
  "compute_duration_seconds start finish =
     (case num_sub finish start of
        Fin delta \<Rightarrow> num (max 1 \<lfloor>delta / 1000 + 1/2\<rfloor>)
      | _ \<Rightarrow> num 1)"

definition format_duration_seconds :: "rat \<Rightarrow> string" where
  "format_duration_seconds seconds =
     (let clamped = max 0 \<lfloor>seconds\<rfloor> in show_int (clamped div 60) @ ''m '' @ show_int (clamped mod 60) @ ''s'')"

end
