(* ===== verification/DataPages.thy ===== *)
theory DataPages
  imports PlannerPages LineDiff
begin

text \<open>
  The pages of the loot logbook, the economy, the notices and the statistics
  (\<open>renderer/src/pages/LootLogbookPage.tsx\<close>, \<open>EconomyPage.tsx\<close>, \<open>PlannerStatsPage.tsx\<close>,
  \<open>FeedPage.tsx\<close>, \<open>DiffPage.tsx\<close>, \<open>App.tsx\<close>): how they read the answers of the main
  process, and what they ask for. As in \<open>PlannerPages\<close>, the objects that the main process answers
  with are the \<open>*_value\<close> functions.
\<close>

section \<open>What the main process sends\<close>

fun notice_source_name :: "notice_source \<Rightarrow> string" where
  "notice_source_name NOTICE = ''NOTICE''"
| "notice_source_name UPDATE = ''UPDATE''"

definition notice_value :: "notice_item_row \<Rightarrow> jsval" where
  "notice_value r = Obj [(''id'', Str (ni_id r)), (''source'', Str (notice_source_name (ni_source r))),
     (''externalId'', Str (ni_external_id r)), (''url'', Str (ni_url r)), (''title'', Str (ni_title r)),
     (''publishedAt'', opt_str (ni_published_at r)), (''updatedAt'', Str (ni_updated_at r))]"

definition notice_page_value :: "notice_page \<Rightarrow> jsval" where
  "notice_page_value p = Obj [(''page'', Num (np_page p)), (''pageSize'', Num (np_page_size p)),
     (''total'', Num (num (int (np_total p)))), (''items'', Arr (map notice_value (np_items p)))]"

definition diff_value :: "notice_diff_row \<Rightarrow> jsval" where
  "diff_value r = Obj [(''id'', Str (nd_id r)), (''createdAt'', Str (nd_created_at r)), (''diffJson'', nd_diff_json r),
     (''fromSnapshotId'', Str (nd_from_snapshot_id r)), (''toSnapshotId'', Str (nd_to_snapshot_id r))]"

definition duration_value :: "planner_duration_row \<Rightarrow> jsval" where
  "duration_value r = Obj [(''id'', Str (pd_id r)), (''characterId'', Str (pd_character_id r)),
     (''templateId'', opt_str (pd_template_id r)), (''startedAt'', Str (pd_started_at r)),
     (''endedAt'', Str (pd_ended_at r)), (''seconds'', Num (pd_seconds r))]"

definition alert_value :: "economy_alert_event_row \<Rightarrow> jsval" where
  "alert_value r = Obj [(''id'', Str (ea_id r)), (''server'', Str (ea_server r)), (''itemId'', Str (ea_item_id r)),
     (''itemName'', Str (ea_item_name r)), (''op'', Str (op_text (ea_op r))), (''threshold'', Num (ea_threshold r)),
     (''price'', Num (ea_price r)), (''triggeredAt'', Str (ea_triggered_at r)), (''readAt'', opt_str (ea_read_at r))]"

definition watch_value :: "economy_price_watch_row \<times> string \<Rightarrow> jsval" where
  "watch_value = (\<lambda>(r, item_name). Obj [(''id'', Str (ew_id r)), (''server'', Str (ew_server r)),
     (''itemId'', Str (ew_item_id r)), (''itemName'', Str item_name), (''op'', Str (op_text (ew_op r))),
     (''threshold'', Num (ew_threshold r)), (''active'', Bool (ew_active r)), (''createdAt'', Str (ew_created_at r)),
     (''updatedAt'', Str (ew_updated_at r))])"

definition item_value :: "economy_item_row \<Rightarrow> jsval" where
  "item_value r = Obj [(''id'', Str (ei_id r)), (''name'', Str (ei_name r)), (''category'', opt_str (ei_category r)),
     (''note'', opt_str (ei_note r)), (''createdAt'', Str (ei_created_at r)), (''updatedAt'', Str (ei_updated_at r))]"

definition price_result_value :: "price_result \<Rightarrow> jsval" where
  "price_result_value r = Obj [(''priceId'', Str (pq_price_id r)), (''item'', item_value (pq_item r)),
     (''triggered'', Arr (map alert_value (pq_triggered r)))]"

definition run_fields :: "loot_run_row \<Rightarrow> (string \<times> jsval) list" where
  "run_fields r = [(''id'', Str (lr_id r)), (''characterId'', Str (lr_character_id r)), (''server'', opt_str (lr_server r)),
     (''content'', Str (lr_content r)), (''role'', opt_str (lr_role r)), (''powerBracket'', opt_str (lr_power_bracket r)),
     (''startedAt'', opt_str (lr_started_at r)), (''endedAt'', opt_str (lr_ended_at r)), (''seconds'', Num (lr_seconds r)),
     (''createdAt'', Str (lr_created_at r)), (''updatedAt'', Str (lr_updated_at r))]"

definition run_item_value :: "run_list_item \<Rightarrow> jsval" where
  "run_item_value x = Obj (run_fields (rl_run x) @
     [(''dropCount'', Num (num (int (rl_drop_count x)))), (''costCount'', Num (num (int (rl_cost_count x))))])"

definition drop_value :: "loot_run_drop_row \<Rightarrow> jsval" where
  "drop_value r = Obj [(''id'', Str (ld_id r)), (''runId'', Str (ld_run_id r)), (''itemId'', opt_str (ld_item_id r)),
     (''itemName'', Str (ld_item_name r)), (''qty'', Num (ld_qty r)), (''note'', opt_str (ld_note r)),
     (''createdAt'', Str (ld_created_at r)), (''updatedAt'', Str (ld_updated_at r))]"

fun cost_kind_name :: "cost_kind \<Rightarrow> string" where
  "cost_kind_name KINAH = ''KINAH''"
| "cost_kind_name ITEM = ''ITEM''"

definition cost_value :: "loot_run_cost_row \<Rightarrow> jsval" where
  "cost_value r = Obj [(''id'', Str (lc_id r)), (''runId'', Str (lc_run_id r)), (''kind'', Str (cost_kind_name (lc_kind r))),
     (''itemId'', opt_str (lc_item_id r)), (''itemName'', opt_str (lc_item_name r)), (''qty'', Num (lc_qty r)),
     (''kinah'', Num (lc_kinah r)), (''note'', opt_str (lc_note r)), (''createdAt'', Str (lc_created_at r)),
     (''updatedAt'', Str (lc_updated_at r))]"

definition details_value :: "run_details \<Rightarrow> jsval" where
  "details_value x = Obj [(''run'', Obj (run_fields (rd_run x))), (''drops'', Arr (map drop_value (rd_drops x))),
     (''costs'', Arr (map cost_value (rd_costs x)))]"

definition figures_fields :: "report_totals \<Rightarrow> (string \<times> jsval) list" where
  "figures_fields f = [(''runs'', Num (num (rf_runs f))), (''seconds'', Num (rf_seconds f)), (''value'', Num (rf_value f)),
     (''cost'', Num (rf_cost f)), (''net'', Num (rf_net f)), (''valuePerHour'', Num (rf_value_per_hour f)),
     (''netPerHour'', Num (rf_net_per_hour f))]"

definition report_value_of :: "weekly_report \<Rightarrow> jsval" where
  "report_value_of r = Obj ([(''server'', opt_str (wr_server r)), (''weekStartIso'', Str (wr_week_start r)),
     (''weekEndIso'', Str (wr_week_end r)),
     (''totals'', Obj (figures_fields (wr_totals r) @ [(''missingPriceItems'', Arr (map Str (wr_missing r)))])),
     (''byContent'', Arr (map (\<lambda>(c, f). Obj ((''content'', Str c) # figures_fields f)) (wr_by_content r)))]
     @ (case wr_debug r of None \<Rightarrow> []
        | Some (key, hhmm, day) \<Rightarrow> [(''debug'', Obj [(''periodKey'', Str key),
            (''reset'', Obj [(''dailyResetHhmm'', Str hhmm), (''weeklyResetDay'', Num day)])])]))"

section \<open>Notices\<close>

record view_notice =
  vn_id :: string
  vn_source :: notice_source
  vn_external_id :: string
  vn_url :: string
  vn_title :: string
  vn_published_at :: "string option"
  vn_updated_at :: string

definition as_notice_item :: "jsval \<Rightarrow> view_notice option" where
  "as_notice_item v =
     (case (str_of (field v ''id''), as_notice_source (field v ''source''), str_of (field v ''externalId''),
            str_of (field v ''url''), str_of (field v ''title''), str_of (field v ''updatedAt''),
            nullable_str (field v ''publishedAt'')) of
        (Some i, Some src, Some ext, Some url, Some title, Some upd, Some pub) \<Rightarrow>
          Some \<lparr>vn_id = i, vn_source = src, vn_external_id = ext, vn_url = url, vn_title = title,
                vn_published_at = pub, vn_updated_at = upd\<rparr>
      | _ \<Rightarrow> None)"

record notice_list_response =
  nl_page :: jsnum
  nl_page_size :: jsnum
  nl_total :: jsnum
  nl_items :: "view_notice list"

definition as_list_response :: "jsval \<Rightarrow> notice_list_response option" where
  "as_list_response v =
     (case (num_of (field v ''page''), num_of (field v ''pageSize''), num_of (field v ''total''),
            read_array as_notice_item (field v ''items'')) of
        (Some p, Some n, Some t, Some items) \<Rightarrow> Some \<lparr>nl_page = p, nl_page_size = n, nl_total = t, nl_items = items\<rparr>
      | _ \<Rightarrow> None)"

text \<open>What the feed asks for, and how many pages it offers. \<open>Math.ceil(x)\<close> is \<open>-Math.floor(-x)\<close>.\<close>

definition feed_request :: "notice_source option \<Rightarrow> string \<Rightarrow> int \<Rightarrow> jsval" where
  "feed_request source q page = Obj ([(''page'', Num (num page)), (''pageSize'', Num (num 20))]
     @ (case source of None \<Rightarrow> [] | Some s \<Rightarrow> [(''source'', Str (notice_source_name s))])
     @ (if trim q = [] then [] else [(''q'', Str (trim q))]))"

fun total_pages :: "jsnum \<Rightarrow> jsnum \<Rightarrow> jsnum" where
  "total_pages (Fin t) (Fin n) =
     (if n = 0 then (if t = 0 then NaN else if t > 0 then PosInf else num 1) else num (max 1 \<lceil>t / n\<rceil>))"
| "total_pages PosInf (Fin n) = (if 0 \<le> n then PosInf else num 1)"
| "total_pages NegInf (Fin n) = (if 0 \<le> n then num 1 else PosInf)"
| "total_pages (Fin t) PosInf = num 1"
| "total_pages (Fin t) NegInf = num 1"
| "total_pages _ _ = NaN"

record view_diff =
  vd_id :: string
  vd_created_at :: string
  vd_diff_json :: jsval
  vd_from_snapshot_id :: string
  vd_to_snapshot_id :: string

definition as_latest_diff :: "jsval \<Rightarrow> view_diff option" where
  "as_latest_diff v =
     (case (str_of (field v ''id''), str_of (field v ''createdAt''), str_of (field v ''fromSnapshotId''),
            str_of (field v ''toSnapshotId'')) of
        (Some i, Some c, Some f, Some t) \<Rightarrow>
          Some \<lparr>vd_id = i, vd_created_at = c, vd_diff_json = field v ''diffJson'', vd_from_snapshot_id = f,
                vd_to_snapshot_id = t\<rparr>
      | _ \<Rightarrow> None)"

definition as_block_type :: "jsval \<Rightarrow> block_type option" where
  "as_block_type v = (if v = Str ''same'' then Some Same else if v = Str ''added'' then Some Added
     else if v = Str ''removed'' then Some Removed else None)"

definition as_blocks :: "jsval \<Rightarrow> diff_block list option" where
  "as_blocks = read_array (\<lambda>b.
     case (as_block_type (field b ''type''), read_array str_of (field b ''lines'')) of
       (Some ty, Some ls) \<Rightarrow> Some \<lparr>bl_type = ty, bl_lines = ls\<rparr>
     | _ \<Rightarrow> None)"

section \<open>The economy\<close>

record view_alert =
  va_id :: string
  va_item_name :: string
  va_op :: watch_op
  va_threshold :: jsnum
  va_price :: jsnum
  va_triggered_at :: string
  va_read_at :: "string option"

definition op_or_le :: "jsval \<Rightarrow> watch_op" where
  "op_or_le v = (case as_op v of Some x \<Rightarrow> x | None \<Rightarrow> OpLe)"

text \<open>An entry without an id or a name is left out.\<close>

definition read_alert :: "jsval \<Rightarrow> view_alert option" where
  "read_alert v =
     (case (non_empty (str_of (field v ''id'')), non_empty (str_of (field v ''itemName''))) of
        (Some i, Some name) \<Rightarrow>
          Some \<lparr>va_id = i, va_item_name = name, va_op = op_or_le (field v ''op''),
                va_threshold = num_or (num 0) (field v ''threshold''), va_price = num_or (num 0) (field v ''price''),
                va_triggered_at = str_or [] (field v ''triggeredAt''), va_read_at = str_of (field v ''readAt'')\<rparr>
      | _ \<Rightarrow> None)"

definition as_alert_events :: "jsval \<Rightarrow> view_alert list" where
  "as_alert_events v = List.map_filter read_alert (arr_or_empty v)"

record view_watch =
  vx_id :: string
  vx_item_name :: string
  vx_op :: watch_op
  vx_threshold :: jsnum
  vx_active :: bool

definition read_watch_row :: "jsval \<Rightarrow> view_watch option" where
  "read_watch_row v =
     (case (non_empty (str_of (field v ''id'')), non_empty (str_of (field v ''itemName''))) of
        (Some i, Some name) \<Rightarrow>
          Some \<lparr>vx_id = i, vx_item_name = name, vx_op = op_or_le (field v ''op''),
                vx_threshold = num_or (num 0) (field v ''threshold''), vx_active = truthy (field v ''active'')\<rparr>
      | _ \<Rightarrow> None)"

definition as_watches :: "jsval \<Rightarrow> view_watch list" where
  "as_watches v = List.map_filter read_watch_row (arr_or_empty v)"

definition triggered_alerts :: "jsval \<Rightarrow> view_alert list" where
  "triggered_alerts raw = (if is_object raw then as_alert_events (field raw ''triggered'') else [])"

section \<open>Loot\<close>

record view_run =
  vu_id :: string
  vu_content :: string
  vu_seconds :: jsnum
  vu_ended_at :: "string option"
  vu_drop_count :: jsnum
  vu_cost_count :: jsnum

definition read_run_item :: "jsval \<Rightarrow> view_run option" where
  "read_run_item v =
     (case (non_empty (str_of (field v ''id'')), non_empty (str_of (field v ''content''))) of
        (Some i, Some content) \<Rightarrow>
          Some \<lparr>vu_id = i, vu_content = content, vu_seconds = num_or (num 0) (field v ''seconds''),
                vu_ended_at = str_of (field v ''endedAt''), vu_drop_count = num_or (num 0) (field v ''dropCount''),
                vu_cost_count = num_or (num 0) (field v ''costCount'')\<rparr>
      | _ \<Rightarrow> None)"

definition as_runs :: "jsval \<Rightarrow> view_run list" where
  "as_runs v = List.map_filter read_run_item (arr_or_empty v)"

record view_figures =
  vf_runs :: jsnum
  vf_seconds :: jsnum
  vf_value :: jsnum
  vf_cost :: jsnum
  vf_net :: jsnum

record view_totals = view_figures +
  vf_value_per_hour :: jsnum
  vf_net_per_hour :: jsnum
  vf_missing_price_items :: "jsval list"

record view_report =
  vp_week_start :: string
  vp_week_end :: string
  vp_server :: "string option"
  vp_totals :: view_totals
  vp_by_content :: "(string \<times> view_figures) list"

definition read_figures :: "jsval \<Rightarrow> view_figures" where
  "read_figures v = \<lparr>vf_runs = num_or (num 0) (field v ''runs''), vf_seconds = num_or (num 0) (field v ''seconds''),
     vf_value = num_or (num 0) (field v ''value''), vf_cost = num_or (num 0) (field v ''cost''),
     vf_net = num_or (num 0) (field v ''net'')\<rparr>"

definition read_content :: "jsval \<Rightarrow> (string \<times> view_figures) option" where
  "read_content v = map_option (\<lambda>c. (c, read_figures v)) (non_empty (str_of (field v ''content'')))"

definition as_weekly_report :: "jsval \<Rightarrow> view_report option" where
  "as_weekly_report v =
     (let totals_raw = field v ''totals'' in
      if \<not> is_object totals_raw then None
      else Some \<lparr>vp_week_start = str_or [] (field v ''weekStartIso''), vp_week_end = str_or [] (field v ''weekEndIso''),
        vp_server = str_of (field v ''server''),
        vp_totals = view_figures.extend (read_figures totals_raw)
          \<lparr>vf_value_per_hour = num_or (num 0) (field totals_raw ''valuePerHour''),
           vf_net_per_hour = num_or (num 0) (field totals_raw ''netPerHour''),
           vf_missing_price_items = arr_or_empty (field totals_raw ''missingPriceItems'')\<rparr>,
        vp_by_content = List.map_filter read_content (arr_or_empty (field v ''byContent''))\<rparr>)"

record view_run_head =
  vh_id :: string
  vh_content :: string
  vh_seconds :: jsnum
  vh_ended_at :: "string option"
  vh_role :: "string option"
  vh_power_bracket :: "string option"

record view_run_detail =
  vl_run :: view_run_head
  vl_drops :: "(string \<times> jsnum) list"
  vl_costs :: "(cost_kind \<times> string option \<times> jsnum \<times> jsnum) list"

definition read_drop_row :: "jsval \<Rightarrow> (string \<times> jsnum) option" where
  "read_drop_row v = map_option (\<lambda>name. (name, num_or (num 0) (field v ''qty''))) (non_empty (str_of (field v ''itemName'')))"

definition read_cost_row :: "jsval \<Rightarrow> (cost_kind \<times> string option \<times> jsnum \<times> jsnum) option" where
  "read_cost_row v = map_option (\<lambda>kind. (kind, str_of (field v ''itemName''), num_or (num 0) (field v ''qty''),
     num_or (num 0) (field v ''kinah''))) (as_cost_kind (field v ''kind''))"

definition as_run_detail :: "jsval \<Rightarrow> view_run_detail option" where
  "as_run_detail v =
     (let run_raw = field v ''run'' in
      case (non_empty (str_of (field run_raw ''id'')), non_empty (str_of (field run_raw ''content''))) of
        (Some i, Some content) \<Rightarrow>
          Some \<lparr>vl_run = \<lparr>vh_id = i, vh_content = content, vh_seconds = num_or (num 0) (field run_raw ''seconds''),
                  vh_ended_at = str_of (field run_raw ''endedAt''), vh_role = str_of (field run_raw ''role''),
                  vh_power_bracket = str_of (field run_raw ''powerBracket'')\<rparr>,
                vl_drops = List.map_filter read_drop_row (arr_or_empty (field v ''drops'')),
                vl_costs = List.map_filter read_cost_row (arr_or_empty (field v ''costs''))\<rparr>
      | _ \<Rightarrow> None)"

text \<open>The suggestions of the overlay's form: the contents of the latest runs, each once, twelve at most.\<close>

definition as_run_contents :: "jsval \<Rightarrow> string list option" where
  "as_run_contents = read_array (\<lambda>v. str_of (field v ''content''))"

fun collect_contents :: "string list \<Rightarrow> string list \<Rightarrow> string list" where
  "collect_contents seen [] = seen"
| "collect_contents seen (r # rs) =
     (let name = trim r; seen' = (if name \<in> set seen then seen else seen @ [name]) in
      if name = [] then collect_contents seen rs
      else if length seen' \<ge> 12 then seen' else collect_contents seen' rs)"

definition recent_contents :: "jsval \<Rightarrow> string list" where
  "recent_contents raw = collect_contents [] (case as_run_contents raw of Some cs \<Rightarrow> cs | None \<Rightarrow> [])"

definition with_recent_content :: "string \<Rightarrow> string list \<Rightarrow> string list" where
  "with_recent_content content prev = take 12 (content # filter (\<lambda>v. v \<noteq> content) prev)"

section \<open>The shell and the statistics\<close>

definition as_characters :: "jsval \<Rightarrow> view_character list option" where
  "as_characters = read_array (\<lambda>v.
     case (str_of (field v ''id''), str_of (field v ''name'')) of
       (Some i, Some name) \<Rightarrow>
         Some \<lparr>vr_id = i, vr_name = name, vr_server = str_of (field v ''server''), vr_class = str_of (field v ''class'')\<rparr>
     | _ \<Rightarrow> None)"

text \<open>The character that the shell selects: the active one, else the first.\<close>

definition shown_character :: "string option \<Rightarrow> view_character list \<Rightarrow> string option" where
  "shown_character active parsed =
     (case non_empty active of
        Some c \<Rightarrow> Some c
      | None \<Rightarrow> (case parsed of [] \<Rightarrow> active
          | p # _ \<Rightarrow> if vr_id p = [] then active else Some (vr_id p)))"

record view_duration =
  vg_id :: string
  vg_character_id :: string
  vg_template_id :: string
  vg_started_at :: string
  vg_ended_at :: string
  vg_seconds :: jsnum

definition as_durations :: "jsval \<Rightarrow> view_duration list option" where
  "as_durations = read_array (\<lambda>v.
     case (str_of (field v ''id''), str_of (field v ''characterId''), str_of (field v ''templateId''),
           str_of (field v ''startedAt''), str_of (field v ''endedAt''), num_of (field v ''seconds'')) of
       (Some i, Some c, Some t, Some a, Some b, Some n) \<Rightarrow>
         Some \<lparr>vg_id = i, vg_character_id = c, vg_template_id = t, vg_started_at = a, vg_ended_at = b, vg_seconds = n\<rparr>
     | _ \<Rightarrow> None)"

text \<open>Since both sides are instants as text, the comparison of JavaScript is that of their bytes.\<close>

definition shown_sessions :: "string option \<Rightarrow> jsval \<Rightarrow> view_duration list" where
  "shown_sessions since raw =
     filter (\<lambda>s. case non_empty since of None \<Rightarrow> True | Some t \<Rightarrow> str_le t (vg_ended_at s))
       (case as_durations raw of Some xs \<Rightarrow> xs | None \<Rightarrow> [])"

definition stat_totals :: "view_stat list \<Rightarrow> jsnum \<times> jsnum" where
  "stat_totals stats =
     (foldl (\<lambda>sum s. num_add sum (vs_total_seconds s)) (num 0) stats,
      foldl (\<lambda>sum s. num_add sum (vs_count s)) (num 0) stats)"

end
