(* ===== verification/DataPageFacts.thy ===== *)
theory DataPageFacts
  imports DataPages
begin

text \<open>
  Reading undoes sending: what the pages of \<open>DataPages\<close> make of the objects that the main process sends.
  Pages that leave out an entry without an id or a name show exactly the others.
\<close>

lemma opt_str_read: "str_of (opt_str v) = v" "nullable_str (opt_str v) = Some v"
  by (simp_all add: opt_str_def split: option.split)

lemma opt_num_read: "num_of (opt_num v) = v"
  by (simp add: opt_num_def split: option.split)

lemma read_all_map: "(\<And>x. x \<in> set xs \<Longrightarrow> f (g x) = Some (h x)) \<Longrightarrow> read_all f (map g xs) = Some (map h xs)"
  by (induction xs) auto

lemma map_filter_map: "List.map_filter f (map g xs) = List.map_filter (\<lambda>x. f (g x)) xs"
  by (induction xs) (auto simp: List.map_filter_simps split: option.split)

lemma map_filter_if: "List.map_filter (\<lambda>x. if p x then Some (h x) else None) xs = map h (filter p xs)"
  by (induction xs) (auto simp: List.map_filter_simps)

lemma map_filter_read:
  "(\<And>x. f (g x) = (if p x then Some (h x) else None)) \<Longrightarrow> List.map_filter f (map g xs) = map h (filter p xs)"
  by (simp add: map_filter_map map_filter_if)

lemma non_empty_given: "non_empty (Some s) = (if s = [] then None else Some s)"
  by (simp add: non_empty_def)

section \<open>Notices\<close>

definition view_of_notice :: "notice_item_row \<Rightarrow> view_notice" where
  "view_of_notice r = \<lparr>vn_id = ni_id r, vn_source = ni_source r, vn_external_id = ni_external_id r, vn_url = ni_url r,
     vn_title = ni_title r, vn_published_at = ni_published_at r, vn_updated_at = ni_updated_at r\<rparr>"

definition view_of_page :: "notice_page \<Rightarrow> notice_list_response" where
  "view_of_page p = \<lparr>nl_page = np_page p, nl_page_size = np_page_size p, nl_total = num (int (np_total p)),
     nl_items = map view_of_notice (np_items p)\<rparr>"

definition view_of_diff :: "notice_diff_row \<Rightarrow> view_diff" where
  "view_of_diff r = \<lparr>vd_id = nd_id r, vd_created_at = nd_created_at r, vd_diff_json = nd_diff_json r,
     vd_from_snapshot_id = nd_from_snapshot_id r, vd_to_snapshot_id = nd_to_snapshot_id r\<rparr>"

lemma source_read: "as_notice_source (Str (notice_source_name s)) = Some s"
  by (cases s) (simp_all add: as_notice_source_def)

lemma notice_read: "as_notice_item (notice_value r) = Some (view_of_notice r)"
  by (simp add: as_notice_item_def notice_value_def view_of_notice_def source_read opt_str_read)

lemma notice_page_read: "as_list_response (notice_page_value p) = Some (view_of_page p)"
  by (simp add: as_list_response_def notice_page_value_def view_of_page_def notice_read read_all_map)

lemma diff_read: "as_latest_diff (diff_value r) = Some (view_of_diff r)"
  by (simp add: as_latest_diff_def diff_value_def view_of_diff_def)

lemma blocks_read: "as_blocks (Arr (map block_json bs)) = Some bs"
proof -
  have lines: "read_all str_of (map Str ls) = Some ls" for ls by (induction ls) auto
  have "as_blocks (Arr (map block_json bs)) = Some (map (\<lambda>b. b) bs)"
    unfolding as_blocks_def read_array.simps
    by (rule read_all_map) (simp add: block_json_def as_block_type_def lines split: block_type.split)
  then show ?thesis by simp
qed

section \<open>The shell and the statistics\<close>

definition view_of_character :: "app_character_row \<Rightarrow> view_character" where
  "view_of_character r = \<lparr>vr_id = ch_id r, vr_name = ch_name r, vr_server = ch_server r, vr_class = ch_class r\<rparr>"

definition view_of_duration :: "planner_duration_row \<Rightarrow> view_duration" where
  "view_of_duration r = \<lparr>vg_id = pd_id r, vg_character_id = pd_character_id r, vg_template_id = the (pd_template_id r),
     vg_started_at = pd_started_at r, vg_ended_at = pd_ended_at r, vg_seconds = pd_seconds r\<rparr>"

lemma characters_read: "as_characters (Arr (map character_json cs)) = Some (map view_of_character cs)"
  unfolding as_characters_def read_array.simps
  by (rule read_all_map) (simp add: character_json_def view_of_character_def opt_str_read)

lemma durations_read:
  "list_all (\<lambda>r. pd_template_id r \<noteq> None) ds \<Longrightarrow> as_durations (Arr (map duration_value ds)) = Some (map view_of_duration ds)"
  unfolding as_durations_def read_array.simps
  by (rule read_all_map) (auto simp: duration_value_def view_of_duration_def opt_str_read list_all_iff)

section \<open>The economy\<close>

definition view_of_alert :: "economy_alert_event_row \<Rightarrow> view_alert" where
  "view_of_alert r = \<lparr>va_id = ea_id r, va_item_name = ea_item_name r, va_op = ea_op r, va_threshold = ea_threshold r,
     va_price = ea_price r, va_triggered_at = ea_triggered_at r, va_read_at = ea_read_at r\<rparr>"

definition view_of_watch :: "economy_price_watch_row \<times> string \<Rightarrow> view_watch" where
  "view_of_watch = (\<lambda>(r, name). \<lparr>vx_id = ew_id r, vx_item_name = name, vx_op = ew_op r, vx_threshold = ew_threshold r,
     vx_active = ew_active r\<rparr>)"

definition named_alerts :: "economy_alert_event_row list \<Rightarrow> economy_alert_event_row list" where
  "named_alerts = filter (\<lambda>r. ea_id r \<noteq> [] \<and> ea_item_name r \<noteq> [])"

definition named_watches :: "(economy_price_watch_row \<times> string) list \<Rightarrow> (economy_price_watch_row \<times> string) list" where
  "named_watches = filter (\<lambda>(r, name). ew_id r \<noteq> [] \<and> name \<noteq> [])"

lemma op_read: "op_or_le (Str (op_text x)) = x"
  by (cases x) (simp_all add: op_or_le_def as_op_def)

lemma alerts_read: "as_alert_events (Arr (map alert_value rs)) = map view_of_alert (named_alerts rs)"
  unfolding as_alert_events_def arr_or_empty.simps named_alerts_def
  by (rule map_filter_read) (simp add: read_alert_def alert_value_def view_of_alert_def non_empty_given op_read opt_str_read)

lemma watches_read: "as_watches (Arr (map watch_value rs)) = map view_of_watch (named_watches rs)"
  unfolding as_watches_def arr_or_empty.simps named_watches_def
  by (rule map_filter_read)
    (simp add: read_watch_row_def watch_value_def view_of_watch_def non_empty_given op_read split: prod.split)

lemma triggered_read: "triggered_alerts (price_result_value r) = map view_of_alert (named_alerts (pq_triggered r))"
  by (simp add: triggered_alerts_def price_result_value_def alerts_read)

section \<open>Loot\<close>

definition view_of_run :: "run_list_item \<Rightarrow> view_run" where
  "view_of_run x = \<lparr>vu_id = lr_id (rl_run x), vu_content = lr_content (rl_run x), vu_seconds = lr_seconds (rl_run x),
     vu_ended_at = lr_ended_at (rl_run x), vu_drop_count = num (int (rl_drop_count x)),
     vu_cost_count = num (int (rl_cost_count x))\<rparr>"

definition named_runs :: "run_list_item list \<Rightarrow> run_list_item list" where
  "named_runs = filter (\<lambda>x. lr_id (rl_run x) \<noteq> [] \<and> lr_content (rl_run x) \<noteq> [])"

definition view_of_figures :: "report_totals \<Rightarrow> view_figures" where
  "view_of_figures f = \<lparr>vf_runs = num (rf_runs f), vf_seconds = rf_seconds f, vf_value = rf_value f, vf_cost = rf_cost f,
     vf_net = rf_net f\<rparr>"

definition view_of_report :: "weekly_report \<Rightarrow> view_report" where
  "view_of_report r = \<lparr>vp_week_start = wr_week_start r, vp_week_end = wr_week_end r, vp_server = wr_server r,
     vp_totals = view_figures.extend (view_of_figures (wr_totals r))
       \<lparr>vf_value_per_hour = rf_value_per_hour (wr_totals r), vf_net_per_hour = rf_net_per_hour (wr_totals r),
        vf_missing_price_items = map Str (wr_missing r)\<rparr>,
     vp_by_content = map (\<lambda>(c, f). (c, view_of_figures f)) (filter (\<lambda>(c, f). c \<noteq> []) (wr_by_content r))\<rparr>"

definition view_of_details :: "run_details \<Rightarrow> view_run_detail" where
  "view_of_details x = \<lparr>vl_run = \<lparr>vh_id = lr_id (rd_run x), vh_content = lr_content (rd_run x),
       vh_seconds = lr_seconds (rd_run x), vh_ended_at = lr_ended_at (rd_run x), vh_role = lr_role (rd_run x),
       vh_power_bracket = lr_power_bracket (rd_run x)\<rparr>,
     vl_drops = map (\<lambda>r. (ld_item_name r, ld_qty r)) (filter (\<lambda>r. ld_item_name r \<noteq> []) (rd_drops x)),
     vl_costs = map (\<lambda>r. (lc_kind r, lc_item_name r, lc_qty r, lc_kinah r)) (rd_costs x)\<rparr>"

lemma runs_read: "as_runs (Arr (map run_item_value xs)) = map view_of_run (named_runs xs)"
  unfolding as_runs_def arr_or_empty.simps named_runs_def
  by (rule map_filter_read)
    (simp add: read_run_item_def run_item_value_def run_fields_def view_of_run_def non_empty_given opt_str_read)

lemma figures_read:
  "read_figures (Obj (figures_fields f @ rest)) = view_of_figures f"
  "read_figures (Obj ((''content'', v) # figures_fields f)) = view_of_figures f"
  by (simp_all add: read_figures_def figures_fields_def view_of_figures_def)

lemma contents_read:
  "List.map_filter read_content (map (\<lambda>(c, f). Obj ((''content'', Str c) # figures_fields f)) cs) =
   map (\<lambda>(c, f). (c, view_of_figures f)) (filter (\<lambda>(c, f). c \<noteq> []) cs)"
  by (rule map_filter_read) (auto simp: read_content_def figures_read non_empty_given)

lemma report_read: "as_weekly_report (report_value_of r) = Some (view_of_report r)"
  using figures_read(1) [of "wr_totals r" "[(''missingPriceItems'', Arr (map Str (wr_missing r)))]"]
  by (simp add: as_weekly_report_def report_value_of_def view_of_report_def contents_read opt_str_read Let_def)
    (simp add: figures_fields_def)

lemma drops_read:
  "List.map_filter read_drop_row (map drop_value rs) =
   map (\<lambda>r. (ld_item_name r, ld_qty r)) (filter (\<lambda>r. ld_item_name r \<noteq> []) rs)"
  by (rule map_filter_read) (simp add: read_drop_row_def drop_value_def non_empty_given)

lemma kind_read: "as_cost_kind (Str (cost_kind_name k)) = Some k"
  by (cases k) (simp_all add: as_cost_kind_def)

lemma costs_read:
  "List.map_filter read_cost_row (map cost_value rs) = map (\<lambda>r. (lc_kind r, lc_item_name r, lc_qty r, lc_kinah r)) rs"
  using map_filter_read [of read_cost_row cost_value "\<lambda>_. True" "\<lambda>r. (lc_kind r, lc_item_name r, lc_qty r, lc_kinah r)" rs]
  by (simp add: read_cost_row_def cost_value_def kind_read opt_str_read)

lemma details_read:
  "as_run_detail (details_value x) =
   (if lr_id (rd_run x) = [] \<or> lr_content (rd_run x) = [] then None else Some (view_of_details x))"
  by (simp add: as_run_detail_def details_value_def run_fields_def view_of_details_def non_empty_given opt_str_read
      drops_read costs_read Let_def)

end
