(* ===== verification/ScorePages.thy ===== *)
theory ScorePages
  imports BuildScore BackupExport Foreground
begin

text \<open>
  The build score page of the renderer: the catalog of stats and the recommended presets of the classes
  (\<open>renderer/src/buildScore/catalog.ts\<close>, \<open>classPresets.ts\<close>), reading the answers of the main
  process, the score itself and the presets (\<open>pages/buildScore/model.ts\<close>). The texts that are only shown
  (labels and descriptions of presets, labels of classes) are left out.
\<close>

section \<open>The catalog\<close>

record catalog_item =
  ct_id :: string
  ct_label :: string
  ct_unit :: score_unit

definition catalog_entry :: "string \<Rightarrow> string \<Rightarrow> score_unit \<Rightarrow> catalog_item" where
  "catalog_entry i label unit = \<lparr>ct_id = i, ct_label = label, ct_unit = unit\<rparr>"

definition build_score_catalog :: "catalog_item list" where
  "build_score_catalog = [
     catalog_entry ''builtin:power'' (utf8 [0xc704, 0xb825]) Flat,
     catalog_entry ''builtin:agility'' (utf8 [0xbbfc, 0xcca9]) Flat,
     catalog_entry ''builtin:accuracyStat'' (utf8 [0xc815, 0xd655]) Flat,
     catalog_entry ''builtin:will'' (utf8 [0xc758, 0xc9c0]) Flat,
     catalog_entry ''builtin:knowledge'' (utf8 [0xc9c0, 0xc2dd]) Flat,
     catalog_entry ''builtin:stamina'' (utf8 [0xccb4, 0xb825]) Flat,
     catalog_entry ''builtin:atkFlat'' (utf8 [0xcd94, 0xac00, 0x20, 0xacf5, 0xaca9, 0xb825]) Flat,
     catalog_entry ''builtin:atkMax'' (utf8 [0xcd5c, 0xb300, 0x20, 0xacf5, 0xaca9, 0xb825]) Flat,
     catalog_entry ''builtin:crit'' (utf8 [0xce58, 0xba85, 0xd0c0]) Flat,
     catalog_entry ''builtin:critDmgAmp'' (utf8 [0xce58, 0xba85, 0xd0c0, 0x20, 0xd53c, 0xd574, 0x20, 0xc99d, 0xd3ed]) Percent,
     catalog_entry ''builtin:combatSpeed'' (utf8 [0xc804, 0xd22c, 0x20, 0xc18d, 0xb3c4]) Percent,
     catalog_entry ''builtin:double'' (utf8 [0xac15, 0xd0c0]) Percent,
     catalog_entry ''builtin:perfect'' (utf8 [0xc644, 0xbcbd]) Percent,
     catalog_entry ''builtin:pveAmp'' (utf8 [0x50, 0x76, 0x45, 0x20, 0xd53c, 0xd574, 0x20, 0xc99d, 0xd3ed]) Percent,
     catalog_entry ''builtin:pvpAmp'' (utf8 [0x50, 0x76, 0x50, 0x20, 0xd53c, 0xd574, 0x20, 0xc99d, 0xd3ed]) Percent,
     catalog_entry ''builtin:weaponAmp'' (utf8 [0xbb34, 0xae30, 0x20, 0xd53c, 0xd574, 0x20, 0xc99d, 0xd3ed]) Percent,
     catalog_entry ''builtin:backAmp'' (utf8 [0xd6c4, 0xbc29, 0x20, 0xd53c, 0xd574, 0x20, 0xc99d, 0xd3ed]) Percent,
     catalog_entry ''builtin:hp'' (utf8 [0xc0dd, 0xba85, 0xb825]) Flat,
     catalog_entry ''builtin:defense'' (utf8 [0xbc29, 0xc5b4, 0xb825]) Percent,
     catalog_entry ''builtin:evasion'' (utf8 [0xd68c, 0xd53c]) Percent,
     catalog_entry ''builtin:accuracy'' (utf8 [0xba85, 0xc911]) Percent,
     catalog_entry ''builtin:block'' (utf8 [0xb9c9, 0xae30]) Percent,
     catalog_entry ''builtin:critResist'' (utf8 [0xce58, 0xba85, 0xd0c0, 0x20, 0xc800, 0xd56d]) Percent,
     catalog_entry ''builtin:ironwall'' (utf8 [0xcca0, 0xbcbd]) Percent,
     catalog_entry ''builtin:regeneration'' (utf8 [0xc7ac, 0xc0dd]) Percent,
     catalog_entry ''builtin:ccHit'' (utf8 [0xc0c1, 0xd0dc, 0xc774, 0xc0c1, 0x20, 0xc801, 0xc911]) Percent,
     catalog_entry ''builtin:ccResist'' (utf8 [0xc0c1, 0xd0dc, 0xc774, 0xc0c1, 0x20, 0xc800, 0xd56d]) Percent,
     catalog_entry ''builtin:moveSpeed'' (utf8 [0xc774, 0xb3d9, 0x20, 0xc18d, 0xb3c4]) Percent,
     catalog_entry ''builtin:cooldownReduce'' (utf8 [0xc7ac, 0xc0ac, 0xc6a9, 0x20, 0xc2dc, 0xac04, 0x20, 0xac10, 0xc18c]) Percent,
     catalog_entry ''builtin:spirit'' (utf8 [0xc815, 0xc2e0, 0xb825]) Flat,
     catalog_entry ''builtin:spiritCostReduce'' (utf8 [0xc815, 0xc2e0, 0xb825, 0x20, 0xc18c, 0xbaa8, 0x20, 0xac10, 0xc18c]) Percent,
     catalog_entry ''builtin:doubleResist'' (utf8 [0xac15, 0xd0c0, 0x20, 0xc800, 0xd56d]) Percent,
     catalog_entry ''builtin:perfectResist'' (utf8 [0xc644, 0xbcbd, 0x20, 0xc800, 0xd56d]) Percent,
     catalog_entry ''builtin:ironwallPen'' (utf8 [0xcca0, 0xbcbd, 0x20, 0xad00, 0xd1b5]) Percent,
     catalog_entry ''builtin:regenerationPen'' (utf8 [0xc7ac, 0xc0dd, 0x20, 0xad00, 0xd1b5]) Percent,
     catalog_entry ''builtin:damageResist'' (utf8 [0xd53c, 0xd574, 0x20, 0xb0b4, 0xc131]) Percent,
     catalog_entry ''builtin:critDmgResist'' (utf8 [0xce58, 0xba85, 0xd0c0, 0x20, 0xd53c, 0xd574, 0x20, 0xb0b4, 0xc131]) Percent,
     catalog_entry ''builtin:healTaken'' (utf8 [0xbc1b, 0xb294, 0x20, 0xce58, 0xc720, 0xb7c9]) Percent]"


section \<open>Classes\<close>

datatype class_id = Gladiator | Templar | Assassin | Ranger | Sorcerer | Spiritmaster | Cleric | Chanter

datatype preset_mode = Pve | Pvp

fun class_name :: "class_id \<Rightarrow> string" where
  "class_name Gladiator = ''gladiator''"
| "class_name Templar = ''templar''"
| "class_name Assassin = ''assassin''"
| "class_name Ranger = ''ranger''"
| "class_name Sorcerer = ''sorcerer''"
| "class_name Spiritmaster = ''spiritmaster''"
| "class_name Cleric = ''cleric''"
| "class_name Chanter = ''chanter''"

fun mode_name :: "preset_mode \<Rightarrow> string" where
  "mode_name Pve = ''pve''"
| "mode_name Pvp = ''pvp''"

text \<open>The classes with their aliases.\<close>

definition build_score_classes :: "(class_id \<times> string list) list" where
  "build_score_classes = [
     (Gladiator, [utf8 [0xac80, 0xc131], ''gladiator'']),
     (Templar, [utf8 [0xc218, 0xd638, 0xc131], ''templar'']),
     (Assassin, [utf8 [0xc0b4, 0xc131], ''assassin'']),
     (Ranger, [utf8 [0xad81, 0xc131], ''ranger'']),
     (Sorcerer, [utf8 [0xb9c8, 0xb3c4, 0xc131], ''sorcerer'']),
     (Spiritmaster, [utf8 [0xc815, 0xb839, 0xc131], ''spiritmaster'']),
     (Cleric, [utf8 [0xce58, 0xc720, 0xc131], ''cleric'']),
     (Chanter, [utf8 [0xd638, 0xbc95, 0xc131], ''chanter''])]"


text \<open>\<open>raw.trim().replace(/\s+/g, "").toLowerCase()\<close>.\<close>

definition remove_white_space :: "string \<Rightarrow> string" where
  "remove_white_space s = foldl (\<lambda>s w. replace_all w [] s) s ws_seqs"

definition normalize_class :: "(string \<Rightarrow> string) \<Rightarrow> string \<Rightarrow> string" where
  "normalize_class lower raw = lower (remove_white_space (trim raw))"

definition detect_build_score_class_id :: "(string \<Rightarrow> string) \<Rightarrow> string option \<Rightarrow> class_id option" where
  "detect_build_score_class_id lower raw =
     (let input = (case raw of None \<Rightarrow> [] | Some s \<Rightarrow> normalize_class lower s) in
      if input = [] then None
      else map_option fst (find (\<lambda>(c, aliases). \<exists>a \<in> set aliases. normalize_class lower a = input) build_score_classes))"

section \<open>Recommended presets\<close>

record class_preset =
  cp_id :: string
  cp_class_id :: class_id
  cp_stats :: "(string \<times> bool \<times> jsnum) list"

text \<open>Every recommended stat is enabled.\<close>

definition recommended :: "string \<Rightarrow> class_id \<Rightarrow> (string \<times> int) list \<Rightarrow> class_preset" where
  "recommended i c stats = \<lparr>cp_id = i, cp_class_id = c, cp_stats = map (\<lambda>(s, w). (s, True, num w)) stats\<rparr>"


definition pve_presets :: "class_preset list" where
  "pve_presets = [
     recommended ''pve:gladiator'' Gladiator
       [(''builtin:combatSpeed'', 3), (''builtin:power'', 2), (''builtin:pveAmp'', 3),
        (''builtin:weaponAmp'', 2), (''builtin:critDmgAmp'', 2), (''builtin:double'', 2),
        (''builtin:crit'', 1)],
     recommended ''pve:templar'' Templar
       [(''builtin:combatSpeed'', 3), (''builtin:power'', 2), (''builtin:pveAmp'', 3),
        (''builtin:weaponAmp'', 2), (''builtin:critDmgAmp'', 2), (''builtin:hp'', 1),
        (''builtin:defense'', 1)],
     recommended ''pve:assassin'' Assassin
       [(''builtin:combatSpeed'', 3), (''builtin:power'', 2), (''builtin:pveAmp'', 3),
        (''builtin:weaponAmp'', 2), (''builtin:critDmgAmp'', 2), (''builtin:backAmp'', 2),
        (''builtin:crit'', 1)],
     recommended ''pve:ranger'' Ranger
       [(''builtin:combatSpeed'', 3), (''builtin:power'', 2), (''builtin:pveAmp'', 3),
        (''builtin:weaponAmp'', 2), (''builtin:critDmgAmp'', 2), (''builtin:accuracy'', 1),
        (''builtin:crit'', 1)],
     recommended ''pve:sorcerer'' Sorcerer
       [(''builtin:combatSpeed'', 3), (''builtin:power'', 2), (''builtin:pveAmp'', 3),
        (''builtin:weaponAmp'', 2), (''builtin:critDmgAmp'', 2), (''builtin:crit'', 1)],
     recommended ''pve:spiritmaster'' Spiritmaster
       [(''builtin:combatSpeed'', 3), (''builtin:power'', 2), (''builtin:pveAmp'', 3),
        (''builtin:weaponAmp'', 2), (''builtin:critDmgAmp'', 2), (''builtin:spirit'', 1)],
     recommended ''pve:cleric'' Cleric
       [(''builtin:combatSpeed'', 3), (''builtin:power'', 2), (''builtin:pveAmp'', 3),
        (''builtin:weaponAmp'', 2), (''builtin:critDmgAmp'', 2), (''builtin:double'', 1),
        (''builtin:perfect'', 1)],
     recommended ''pve:chanter'' Chanter
       [(''builtin:combatSpeed'', 3), (''builtin:power'', 2), (''builtin:pveAmp'', 3),
        (''builtin:weaponAmp'', 2), (''builtin:critDmgAmp'', 2), (''builtin:hp'', 1)]]"


definition pvp_presets :: "class_preset list" where
  "pvp_presets = [
     recommended ''pvp:gladiator'' Gladiator
       [(''builtin:pvpAmp'', 3), (''builtin:combatSpeed'', 2), (''builtin:power'', 2),
        (''builtin:weaponAmp'', 2), (''builtin:critDmgAmp'', 2), (''builtin:damageResist'', 1),
        (''builtin:critResist'', 1), (''builtin:ccResist'', 1)],
     recommended ''pvp:templar'' Templar
       [(''builtin:pvpAmp'', 2), (''builtin:combatSpeed'', 2), (''builtin:power'', 1),
        (''builtin:weaponAmp'', 1), (''builtin:damageResist'', 2), (''builtin:critResist'', 2),
        (''builtin:ccResist'', 1), (''builtin:hp'', 1)],
     recommended ''pvp:assassin'' Assassin
       [(''builtin:pvpAmp'', 3), (''builtin:combatSpeed'', 2), (''builtin:power'', 2),
        (''builtin:weaponAmp'', 2), (''builtin:critDmgAmp'', 2), (''builtin:backAmp'', 2),
        (''builtin:moveSpeed'', 1)],
     recommended ''pvp:ranger'' Ranger
       [(''builtin:pvpAmp'', 3), (''builtin:combatSpeed'', 2), (''builtin:power'', 2),
        (''builtin:weaponAmp'', 2), (''builtin:critDmgAmp'', 2), (''builtin:accuracy'', 1),
        (''builtin:moveSpeed'', 1)],
     recommended ''pvp:sorcerer'' Sorcerer
       [(''builtin:pvpAmp'', 3), (''builtin:combatSpeed'', 2), (''builtin:power'', 2),
        (''builtin:weaponAmp'', 2), (''builtin:critDmgAmp'', 2), (''builtin:ccHit'', 1),
        (''builtin:cooldownReduce'', 1)],
     recommended ''pvp:spiritmaster'' Spiritmaster
       [(''builtin:pvpAmp'', 3), (''builtin:combatSpeed'', 2), (''builtin:power'', 2),
        (''builtin:weaponAmp'', 2), (''builtin:critDmgAmp'', 2), (''builtin:ccHit'', 1),
        (''builtin:spirit'', 1)],
     recommended ''pvp:cleric'' Cleric
       [(''builtin:pvpAmp'', 2), (''builtin:combatSpeed'', 2), (''builtin:power'', 1),
        (''builtin:weaponAmp'', 1), (''builtin:healTaken'', 2), (''builtin:damageResist'', 1),
        (''builtin:ccResist'', 1)],
     recommended ''pvp:chanter'' Chanter
       [(''builtin:pvpAmp'', 2), (''builtin:combatSpeed'', 2), (''builtin:power'', 1),
        (''builtin:weaponAmp'', 1), (''builtin:hp'', 1), (''builtin:damageResist'', 1),
        (''builtin:ccResist'', 1)]]"

definition build_score_class_presets :: "class_preset list" where
  "build_score_class_presets = pve_presets @ pvp_presets"

definition get_build_score_class_preset :: "string \<Rightarrow> class_preset option" where
  "get_build_score_class_preset preset_id = find (\<lambda>p. cp_id p = preset_id) build_score_class_presets"

definition get_build_score_class_preset_by :: "preset_mode \<Rightarrow> class_id \<Rightarrow> class_preset option" where
  "get_build_score_class_preset_by mode c = get_build_score_class_preset (mode_name mode @ '':'' @ class_name c)"

definition get_suggested_preset_id_for_class :: "(string \<Rightarrow> string) \<Rightarrow> string option \<Rightarrow> preset_mode \<Rightarrow> string option" where
  "get_suggested_preset_id_for_class lower raw mode =
     (case detect_build_score_class_id lower raw of
        None \<Rightarrow> None
      | Some c \<Rightarrow> map_option cp_id (get_build_score_class_preset_by mode c))"

section \<open>Reading answers\<close>

definition view_set :: "jsval \<Rightarrow> score_set option" where
  "view_set raw =
     (if \<not> is_object raw then None
      else Some \<lparr>sl_name = str_or [] (field raw ''name''),
                sl_values = foldl assign_value [] (own_entries (field raw ''values''))\<rparr>)"

definition view_score_stat :: "jsval \<Rightarrow> score_stat option" where
  "view_score_stat s =
     (case (non_empty (str_of (field s ''id'')), str_of (field s ''label'')) of
        (Some i, Some l) \<Rightarrow> Some \<lparr>sc_id = i, sc_label = l, sc_unit = as_build_score_unit (field s ''unit''),
          sc_enabled = truthy (field s ''enabled''),
          sc_weight = (case num_of (field s ''weight'') of
            Some x \<Rightarrow> (if is_finite x then x else num 0) | None \<Rightarrow> num 0)\<rparr>
      | _ \<Rightarrow> None)"

fun view_score_stats :: "jsval \<Rightarrow> score_stat list option" where
  "view_score_stats (Arr vs) = those (map view_score_stat vs)"
| "view_score_stats _ = None"

definition view_build_score_state :: "jsval \<Rightarrow> score_state option" where
  "view_build_score_state v =
     (if field v ''version'' \<noteq> Num (num 1) then None
      else case (str_of (field v ''updatedAt''), view_score_stats (field v ''stats''),
                 view_set (field v ''setA''), view_set (field v ''setB'')) of
        (Some t, Some stats, Some a, Some b) \<Rightarrow>
          Some \<lparr>ss_updated_at = t, ss_stats = stats, ss_set_a = a, ss_set_b = b\<rparr>
      | _ \<Rightarrow> None)"

text \<open>The items and presets that the main process sends.\<close>

definition preset_item_value :: "score_preset_item \<Rightarrow> jsval" where
  "preset_item_value x = Obj [(''id'', Str (si_id x)), (''name'', Str (si_name x)), (''description'', opt_str (si_description x)),
     (''statCount'', Num (num (int (si_stat_count x)))), (''createdAt'', Str (si_created_at x)),
     (''updatedAt'', Str (si_updated_at x))]"

definition preset_value :: "score_preset \<Rightarrow> jsval" where
  "preset_value x = Obj [(''id'', Str (sp_id x)), (''characterId'', Str (sp_character_id x)), (''name'', Str (sp_name x)),
     (''description'', opt_str (sp_description x)), (''stats'', Arr (map stat_json (sp_stats x))),
     (''createdAt'', Str (sp_created_at x)), (''updatedAt'', Str (sp_updated_at x))]"

record preset_list_view =
  pl_id :: string
  pl_name :: string
  pl_description :: "string option"
  pl_stat_count :: jsnum
  pl_created_at :: string
  pl_updated_at :: string

definition view_preset_list_item :: "jsval \<Rightarrow> preset_list_view option" where
  "view_preset_list_item v =
     (case (non_empty (str_of (field v ''id'')), non_empty (str_of (field v ''name'')),
            non_empty (str_of (field v ''createdAt'')), non_empty (str_of (field v ''updatedAt''))) of
        (Some i, Some n, Some c, Some u) \<Rightarrow>
          Some \<lparr>pl_id = i, pl_name = n, pl_description = str_of (field v ''description''),
                pl_stat_count = num_or (num 0) (field v ''statCount''), pl_created_at = c, pl_updated_at = u\<rparr>
      | _ \<Rightarrow> None)"

definition view_preset_list :: "jsval \<Rightarrow> preset_list_view list" where
  "view_preset_list v = List.map_filter view_preset_list_item (arr_or_empty v)"

definition view_preset :: "jsval \<Rightarrow> score_preset option" where
  "view_preset v =
     (case (non_empty (str_of (field v ''id'')), non_empty (str_of (field v ''characterId'')),
            non_empty (str_of (field v ''name'')), non_empty (str_of (field v ''createdAt'')),
            non_empty (str_of (field v ''updatedAt'')), view_score_stats (field v ''stats'')) of
        (Some i, Some ch, Some n, Some c, Some u, Some stats) \<Rightarrow>
          Some \<lparr>sp_id = i, sp_character_id = ch, sp_name = n, sp_description = str_of (field v ''description''),
                sp_stats = stats, sp_created_at = c, sp_updated_at = u\<rparr>
      | _ \<Rightarrow> None)"

definition number_or_zero :: "string \<Rightarrow> jsnum" where
  "number_or_zero raw = (let n = to_number raw in if is_finite n then n else num 0)"

section \<open>The score\<close>

datatype which_set = SetA | SetB

text \<open>
  \<open>values[s.id] ?? 0\<close>: an id that is the name of a property of every object reads that
  property, which is no number.
\<close>

definition inherited_names :: "string list" where
  "inherited_names = [''constructor'', ''toString'', ''valueOf'', ''toLocaleString'', ''hasOwnProperty'', ''isPrototypeOf'',
     ''propertyIsEnumerable'', ''__proto__'', ''__defineGetter__'', ''__defineSetter__'', ''__lookupGetter__'', ''__lookupSetter__'']"

definition value_of :: "(string \<times> jsnum) list \<Rightarrow> string \<Rightarrow> jsnum" where
  "value_of values i =
     (case map_of values i of
        Some x \<Rightarrow> x
      | None \<Rightarrow> if i \<in> set inherited_names then NaN else num 0)"

definition compute_score :: "score_state \<Rightarrow> which_set \<Rightarrow> jsnum" where
  "compute_score st which =
     (let values = (case which of SetA \<Rightarrow> sl_values (ss_set_a st) | SetB \<Rightarrow> sl_values (ss_set_b st)) in
      foldl (\<lambda>sum s. if sc_enabled s then num_add sum (num_mul (sc_weight s) (value_of values (sc_id s))) else sum)
        (num 0) (ss_stats st))"

text \<open>One stat of a recommended preset, put in its place among the stats there are.\<close>

definition merge_preset_stat :: "(string \<times> score_stat) list \<Rightarrow> string \<times> bool \<times> jsnum \<Rightarrow> (string \<times> score_stat) list" where
  "merge_preset_stat stats = (\<lambda>(i, enabled, weight).
     let existing = map_of stats i; cat = find (\<lambda>c. ct_id c = i) build_score_catalog in
     AList.update i
       \<lparr>sc_id = i,
        sc_label = (case cat of Some c \<Rightarrow> ct_label c | None \<Rightarrow> (case existing of Some s \<Rightarrow> sc_label s | None \<Rightarrow> i)),
        sc_unit = (case cat of Some c \<Rightarrow> ct_unit c | None \<Rightarrow> (case existing of Some s \<Rightarrow> sc_unit s | None \<Rightarrow> Flat)),
        sc_enabled = enabled, sc_weight = weight\<rparr> stats)"

text \<open>\<open>new Map(xs.map(s => [s.id, s]))\<close>: the last stat of an id, in the place of the first.\<close>

definition by_stat_id :: "score_stat list \<Rightarrow> (string \<times> score_stat) list" where
  "by_stat_id stats = foldl (\<lambda>m s. AList.update (sc_id s) s m) [] stats"

definition apply_class_preset :: "score_state \<Rightarrow> class_preset \<Rightarrow> score_state" where
  "apply_class_preset st p =
     st\<lparr>ss_stats := map snd (foldl merge_preset_stat (by_stat_id (ss_stats st)) (cp_stats p))\<rparr>"

text \<open>One round over the stats there are; the stats of the preset that are left are appended.\<close>

definition take_user_stat ::
  "score_stat list \<times> (string \<times> score_stat) list \<Rightarrow> score_stat \<Rightarrow> score_stat list \<times> (string \<times> score_stat) list" where
  "take_user_stat = (\<lambda>(next_stats, left) s.
     case map_of left (sc_id s) of
       Some ps \<Rightarrow> (next_stats @ [ps], AList.delete (sc_id s) left)
     | None \<Rightarrow> (next_stats @ [s\<lparr>sc_enabled := False\<rparr>], left))"

definition apply_user_preset :: "score_state \<Rightarrow> score_preset \<Rightarrow> score_state" where
  "apply_user_preset st p =
     (let (next_stats, left) = foldl take_user_stat ([], by_stat_id (sp_stats p)) (ss_stats st) in
      st\<lparr>ss_stats := next_stats @ map snd left\<rparr>)"

section \<open>Files\<close>

text \<open>What the channels for files answer, and how the pages read it (\<open>UserPresetsCard.tsx\<close>, \<open>SettingsBackupPage.tsx\<close>).\<close>

definition wrote_value :: "string \<Rightarrow> nat option \<Rightarrow> jsval" where
  "wrote_value path number = Obj ((''filePath'', Str path)
     # (case number of None \<Rightarrow> [] | Some n \<Rightarrow> [(''count'', Num (num (int n)))]))"

definition canceled_value :: jsval where
  "canceled_value = Obj [(''canceled'', Bool True)]"

definition imported_value :: "string \<Rightarrow> score_preset_item list option \<Rightarrow> jsval" where
  "imported_value path made = Obj ((''canceled'', Bool False) # (''filePath'', Str path)
     # (case made of None \<Rightarrow> []
        | Some ps \<Rightarrow> [(''imported'', Num (num (int (length ps)))), (''created'', Arr (map preset_item_value ps))]))"

definition written_path :: "jsval \<Rightarrow> string option" where
  "written_path v = (if is_object v then str_of (field v ''filePath'') else None)"

text \<open>The card of the presets takes an answer without \<open>canceled\<close> for a cancelled import, the backup page for a finished one.\<close>

definition read_canceled :: "bool \<Rightarrow> jsval \<Rightarrow> bool" where
  "read_canceled unknown v = (if is_object v then (case field v ''canceled'' of Bool b \<Rightarrow> b | _ \<Rightarrow> unknown) else unknown)"

definition imported_count :: "jsval \<Rightarrow> jsnum option" where
  "imported_count v = (if is_object v then num_of (field v ''imported'') else None)"

end
