(* ===== verification/PageFacts.thy ===== *)
theory PageFacts
  imports DataPageFacts ScorePages BuildScoreFacts MainProcess "HOL-Library.Multiset"
begin

text \<open>
  The pages understand the main process: every answer to a request of the planner and build score pages
  is read back as it was sent. And the presets of the build score: each class has its recommendations, and a
  preset of the user decides which stats count.
\<close>

section \<open>Reading what was sent\<close>

definition view_charge_of :: "charge_item \<Rightarrow> view_charge" where
  "view_charge_of i = \<lparr>vc_template_id = cg_template_id i, vc_title = cg_title i, vc_recharge_hours = cg_recharge_hours i,
     vc_max_stacks = cg_max_stacks i, vc_used_count_in_window = num (int (cg_used_count_in_window i)),
     vc_available = cg_available i, vc_next_recharge_at = cg_next_recharge_at i\<rparr>"

definition view_of_overview :: "overview \<Rightarrow> view_overview" where
  "view_of_overview v = \<lparr>vo_now = ov_now v, vo_daily_key = ov_daily_key v, vo_weekly_key = ov_weekly_key v,
     vo_daily_reset_hhmm = ov_daily_reset_hhmm v, vo_weekly_reset_day = ov_weekly_reset_day v,
     vo_character = \<lparr>vr_id = ch_id (ov_character v), vr_name = ch_name (ov_character v),
       vr_server = ch_server (ov_character v), vr_class = ch_class (ov_character v)\<rparr>,
     vo_daily = ov_daily v, vo_weekly = ov_weekly v, vo_charges = map view_charge_of (ov_charges v)\<rparr>"

definition view_of_settings :: "settings \<Rightarrow> view_settings" where
  "view_of_settings s = \<lparr>vw_daily_reset_hhmm = se_daily_reset_hhmm s, vw_weekly_reset_day = se_weekly_reset_day s,
     vw_updated_at = non_empty (Some (se_updated_at s))\<rparr>"

definition view_of_bundle :: "settings_bundle \<Rightarrow> view_bundle" where
  "view_of_bundle b = \<lparr>vb_default = view_of_settings (sb_default b),
     vb_server = map_option (\<lambda>(n, s). (n, view_of_settings s)) (sb_server b),
     vb_effective = view_of_settings (sb_effective b), vb_scope = sb_effective_scope b\<rparr>"

definition view_of_template :: "planner_template_row \<Rightarrow> view_template" where
  "view_of_template t = \<lparr>vt_id = pt_id t, vt_title = pt_title t, vt_type = pt_type t,
     vt_estimate_minutes = pt_estimate_minutes t, vt_recharge_hours = pt_recharge_hours t, vt_max_stacks = pt_max_stacks t\<rparr>"

definition view_of_stat :: "duration_stat \<Rightarrow> view_stat" where
  "view_of_stat s = \<lparr>vs_template_id = ds_template_id s, vs_count = num (int (ds_count s)),
     vs_total_seconds = ds_total_seconds s, vs_avg_seconds = ds_avg_seconds s\<rparr>"

lemma type_name_inj: "type_name a = type_name b \<longleftrightarrow> a = b"
  by (cases a; cases b) auto

lemma checklist_read: "ck_type i = ty \<Longrightarrow> parse_checklist ty (checklist_value i) = Some i"
  by (cases i) (simp add: parse_checklist_def checklist_value_def)

lemma charge_read: "parse_charge (charge_value i) = Some (view_charge_of i)"
  by (simp add: parse_charge_def charge_value_def view_charge_of_def opt_str_read)





lemma overview_read:
  assumes "list_all (\<lambda>i. ck_type i = DAILY) (ov_daily v)" "list_all (\<lambda>i. ck_type i = WEEKLY) (ov_weekly v)"
  shows "as_overview (overview_value v) = Some (view_of_overview v)"
proof -
  have "read_all (parse_checklist DAILY) (map checklist_value (ov_daily v)) = Some (map (\<lambda>i. i) (ov_daily v))"
    by (rule read_all_map) (use assms(1) in \<open>simp add: checklist_read list_all_iff\<close>)
  moreover have "read_all (parse_checklist WEEKLY) (map checklist_value (ov_weekly v)) = Some (map (\<lambda>i. i) (ov_weekly v))"
    by (rule read_all_map) (use assms(2) in \<open>simp add: checklist_read list_all_iff\<close>)
  moreover have "read_all parse_charge (map charge_value (ov_charges v)) = Some (map view_charge_of (ov_charges v))"
    by (rule read_all_map) (rule charge_read)
  ultimately show ?thesis
    by (simp add: as_overview_def overview_value_def view_of_overview_def read_view_character_def character_json_def
        opt_str_read)
qed

lemma score_stat_read: "stat_ok s \<Longrightarrow> view_score_stat (stat_json s) = Some s"
  by (cases s; cases "sc_unit s")
    (auto simp: view_score_stat_def stat_json_def stat_ok_def as_build_score_unit_def non_empty_def)

lemma score_stats_read: "list_all stat_ok ss \<Longrightarrow> those (map (\<lambda>s. view_score_stat (stat_json s)) ss) = Some ss"
  by (induction ss) (simp_all add: score_stat_read)



definition view_of_preset_item :: "score_preset_item \<Rightarrow> preset_list_view" where
  "view_of_preset_item x = \<lparr>pl_id = si_id x, pl_name = si_name x, pl_description = si_description x,
     pl_stat_count = num (int (si_stat_count x)), pl_created_at = si_created_at x, pl_updated_at = si_updated_at x\<rparr>"

definition named_presets :: "score_preset_item list \<Rightarrow> score_preset_item list" where
  "named_presets = filter (\<lambda>x. si_id x \<noteq> [] \<and> si_name x \<noteq> [] \<and> si_created_at x \<noteq> [] \<and> si_updated_at x \<noteq> [])"

definition complete_preset :: "score_preset \<Rightarrow> bool" where
  "complete_preset p \<longleftrightarrow> sp_id p \<noteq> [] \<and> sp_character_id p \<noteq> [] \<and> sp_name p \<noteq> [] \<and> sp_created_at p \<noteq> []
     \<and> sp_updated_at p \<noteq> []"


lemma preset_read:
  "list_all stat_ok (sp_stats p) \<Longrightarrow> view_preset (preset_value p) = (if complete_preset p then Some p else None)"
  by (cases p) (simp add: view_preset_def preset_value_def complete_preset_def non_empty_given opt_str_read
      score_stats_read comp_def)

section \<open>Every answer is read back\<close>

text \<open>
  For each kind of answer, what the pages that ask make of it. The lists of presets, alerts, watches and runs are shown
  without the entries that have no id or no name; a single preset or run without them is refused by its page; \<open>null\<close> is
  taken for nothing. The last group are the answers that no page reads.
\<close>

definition understood :: "reply \<Rightarrow> bool" where
  "understood r \<longleftrightarrow> (case r of
     Overview v \<Rightarrow> as_overview (overview_value v) = Some (view_of_overview v)
   | Nothing \<Rightarrow> as_overview Null = None
   | Bundle b \<Rightarrow> as_settings_bundle (bundle_value b) = Some (view_of_bundle b)
   | Templates ts \<Rightarrow> as_templates (Arr (map template_value ts)) = Some (map view_of_template ts)
   | DurationStats ss \<Rightarrow> as_duration_stats (Arr (map stat_value ss)) = Some (map view_of_stat ss)
   | Durations ds \<Rightarrow> as_durations (Arr (map duration_value ds)) = Some (map view_of_duration ds)
   | Applied made skipped \<Rightarrow>
       as_apply_preset_result (Obj [(''created'', Num (num (int made))), (''skipped'', Num (num (int skipped)))]) =
         Some (num (int made), num (int skipped))
   | Score st \<Rightarrow> view_build_score_state (state_json st) = Some st
   | Presets ps \<Rightarrow> view_preset_list (Arr (map preset_item_value ps)) = map view_of_preset_item (named_presets ps)
   | PresetItem x \<Rightarrow> view_preset_list_item (preset_item_value x) =
       (if named_presets [x] = [] then None else Some (view_of_preset_item x))
   | OnePreset p \<Rightarrow> view_preset (case p of None \<Rightarrow> Null | Some p \<Rightarrow> preset_value p) =
       (case p of None \<Rightarrow> None | Some p \<Rightarrow> if complete_preset p then Some p else None)
   | Wrote path \<Rightarrow> written_path (wrote_value path None) = Some path
   | WroteMany path n \<Rightarrow> written_path (wrote_value path (Some n)) = Some path
   | Cancelled \<Rightarrow> read_canceled True canceled_value \<and> read_canceled False canceled_value
   | Imported path made \<Rightarrow> \<not> read_canceled True (imported_value path made) \<and> \<not> read_canceled False (imported_value path made)
       \<and> written_path (imported_value path made) = Some path
       \<and> imported_count (imported_value path made) = map_option (\<lambda>ps. num (int (length ps))) made
   | Characters cs \<Rightarrow> as_characters (Arr (map character_json cs)) = Some (map view_of_character cs)
   | TextOrNull c \<Rightarrow> str_of (opt_str c) = c
   | NoticePage p \<Rightarrow> as_list_response (notice_page_value p) = Some (view_of_page p)
   | OneNotice n \<Rightarrow> as_notice_item (case n of None \<Rightarrow> Null | Some n \<Rightarrow> notice_value n) = map_option view_of_notice n
   | OneDiff x \<Rightarrow> as_latest_diff (case x of None \<Rightarrow> Null | Some x \<Rightarrow> diff_value x) = map_option view_of_diff x
   | Recorded q \<Rightarrow> triggered_alerts (price_result_value q) = map view_of_alert (named_alerts (pq_triggered q))
   | Alerts rs \<Rightarrow> as_alert_events (Arr (map alert_value rs)) = map view_of_alert (named_alerts rs)
   | Watches ws \<Rightarrow> as_watches (Arr (map watch_value ws)) = map view_of_watch (named_watches ws)
   | Runs xs \<Rightarrow> as_runs (Arr (map run_item_value xs)) = map view_of_run (named_runs xs)
   | OneRun x \<Rightarrow> as_run_detail (case x of None \<Rightarrow> Null | Some x \<Rightarrow> details_value x) =
       (case x of None \<Rightarrow> None
        | Some x \<Rightarrow> if lr_id (rd_run x) = [] \<or> lr_content (rd_run x) = [] then None else Some (view_of_details x))
   | Report w \<Rightarrow> as_weekly_report (report_value_of w) = Some (view_of_report w)
   | Done \<Rightarrow> True | Pong \<Rightarrow> True | Made i \<Rightarrow> True | Items xs \<Rightarrow> True | Prices xs \<Rightarrow> True | Watch w \<Rightarrow> True)"

text \<open>An operation whose answers are understood, whatever it is run on.\<close>

definition answers :: "(session, reply) op \<Rightarrow> bool" where
  "answers m \<longleftrightarrow> (\<forall>s r s'. m s = (Inr r, s') \<longrightarrow> understood r)"

named_theorems answers_intro


lemma answers_throw [answers_intro]: "answers (throw e)"
  by (simp add: answers_def throw_apply)


lemma answers_answer [answers_intro]: "(\<And>x. understood (g x)) \<Longrightarrow> answers (answer f g)"
  by (simp add: answers_def answer_def split: sum.split)

lemma answers_guard_else [answers_intro]: "answers k \<Longrightarrow> answers (guard_else b e k)"
  by (simp add: guard_else_def answers_def throw_apply)



lemma answers_case_sum [answers_intro]:
  "(\<And>e. answers (h e)) \<Longrightarrow> (\<And>x. answers (k x)) \<Longrightarrow> answers (case v of Inl e \<Rightarrow> h e | Inr x \<Rightarrow> k x)"
  by (simp split: sum.split)

lemma answers_case_prod [answers_intro]: "(\<And>x y. answers (k x y)) \<Longrightarrow> answers (case p of (x, y) \<Rightarrow> k x y)"
  by (simp split: prod.split)

lemma answers_and_then [answers_intro]: "(\<And>x. answers (k x)) \<Longrightarrow> answers (and_then m k)"
  by (auto simp: answers_def and_then_Inr)

lemma answers_then_save [answers_intro]: "(\<And>x. answers (k x)) \<Longrightarrow> answers (then_save m k)"
  unfolding then_save_def by (intro answers_and_then)


lemma answers_overview:
  "answers (and_then (on_db (get_planner_overview h clock c now_iso)) (\<lambda>o1. ret (Overview o1)))"
proof -
  have "understood (Overview v)" if "get_planner_overview h clock c now_iso d = (Inr v, d')" for v d d'
    using overview_parts(2,3) [OF that] by (auto simp: understood_def list_all_iff checklist_item_of_def intro!: overview_read)
  then show ?thesis by (auto simp: answers_def and_then_Inr on_db_done ret_apply)
qed


lemma answers_overview_of [answers_intro]: "answers (overview_of e n c)"
  unfolding overview_of_def by (rule answers_overview)

lemma null_read: "as_overview Null = None" "view_preset Null = None" "as_notice_item Null = None" "as_latest_diff Null = None"
    "as_run_detail Null = None"
  by (simp_all add: as_overview_def view_preset_def as_notice_item_def as_latest_diff_def as_run_detail_def non_empty_def)






lemma understood_options [answers_intro]:
  "understood (OneNotice n1)" "understood (OneDiff n2)" "understood (OneRun r1)"
  by (simp_all add: understood_def notice_read diff_read details_read null_read split: option.split)

lemma stats_or_empty_ok: "list_all stat_ok (stats_or_empty v)"
  by (simp add: stats_or_empty_def as_build_score_stats_ok split: option.split)

lemma stored_stats_ok: "get_build_score_preset i d = Some p \<Longrightarrow> list_all stat_ok (sp_stats p)"
  by (auto simp: get_build_score_preset_def read_preset_def stats_or_empty_ok split: option.splits if_splits)

lemma understood_preset [answers_intro]: "understood (OnePreset (get_build_score_preset i d))"
  by (auto simp: understood_def preset_read stored_stats_ok null_read split: option.split)




section \<open>The channels the pages read\<close>









section \<open>Recommended presets\<close>

text \<open>Each class has a preset of its own in both modes, made of known stats, each named once.\<close>

lemma every_class_has_presets:
  "case get_build_score_class_preset_by m c of
     None \<Rightarrow> False
   | Some p \<Rightarrow> cp_class_id p = c \<and> distinct (map fst (cp_stats p))
       \<and> list_all (\<lambda>(i, enabled, w). enabled \<and> i \<in> set (map ct_id build_score_catalog)) (cp_stats p)"
  by (cases m; cases c) (simp_all add: get_build_score_class_preset_by_def get_build_score_class_preset_def
      build_score_class_presets_def pve_presets_def pvp_presets_def recommended_def build_score_catalog_def catalog_entry_def)

section \<open>Presets of the user\<close>

abbreviation enabled_stats :: "score_stat list \<Rightarrow> score_stat multiset" where
  "enabled_stats ss \<equiv> mset (filter sc_enabled ss)"

lemma by_stat_id_distinct:
  "distinct (map fst m @ map sc_id ss) \<Longrightarrow> foldl (\<lambda>m s. AList.update (sc_id s) s m) m ss = m @ map (\<lambda>s. (sc_id s, s)) ss"
  by (induction ss arbitrary: m) (auto simp: update_new_key)

lemma enabled_delete:
  "distinct (map fst left) \<Longrightarrow> map_of left k = Some p \<Longrightarrow>
   enabled_stats (map snd left) = enabled_stats [p] + enabled_stats (map snd (AList.delete k left))"
  by (induction left) (auto simp: AList.delete_idem)

lemma delete_keeps: "\<forall>kp \<in> set al. P kp \<Longrightarrow> \<forall>kp \<in> set (AList.delete k al). P kp"
  by (simp add: AList.delete_eq)

lemma take_user_stats:
  assumes "distinct (map fst left)" "foldl take_user_stat (ns, left) ss = (ns', left')"
  shows "enabled_stats (ns' @ map snd left') = enabled_stats (ns @ map snd left)"
    and "\<forall>(k, p) \<in> set left. sc_id p = k \<Longrightarrow> map sc_id ns' = map sc_id ns @ map sc_id ss"
  using assms
proof (induction ss arbitrary: ns left)
  case (Cons s ss)
  { case 1
    then show ?case
      using Cons.IH(1) [of "AList.delete (sc_id s) left" "ns @ [the (map_of left (sc_id s))]"]
        Cons.IH(1) [of left "ns @ [s\<lparr>sc_enabled := False\<rparr>]"] enabled_delete [of left "sc_id s"]
      by (auto simp: take_user_stat_def distinct_delete split: option.splits)
  next
    case 2
    show ?case
    proof (cases "map_of left (sc_id s)")
      case None
      with 2 Cons.IH(2) [of left "ns @ [s\<lparr>sc_enabled := False\<rparr>]"] show ?thesis by (simp add: take_user_stat_def)
    next
      case (Some q)
      from 2(1) map_of_SomeD [OF Some] have "sc_id q = sc_id s" by fastforce
      with Some 2 Cons.IH(2) [of "AList.delete (sc_id s) left" "ns @ [q]"] delete_keeps [OF 2(1)] show ?thesis
        by (simp add: take_user_stat_def distinct_delete)
    qed
  }
qed auto

text \<open>
  C36. Applying a preset of the user makes the stats of the preset count and no others: the stats that are enabled
  afterwards are those enabled in the preset, with its weights, each once; and no stat of the page is lost or moves,
  since the stats that were there come first, in their order, and the new ones of the preset after them.
\<close>

theorem user_preset_decides_score:
  assumes "distinct (map sc_id (sp_stats p))"
  shows "mset (filter sc_enabled (ss_stats (apply_user_preset st p))) = mset (filter sc_enabled (sp_stats p))
    \<and> prefix (map sc_id (ss_stats st)) (map sc_id (ss_stats (apply_user_preset st p)))"
proof -
  obtain ns left where run: "foldl take_user_stat ([], by_stat_id (sp_stats p)) (ss_stats st) = (ns, left)"
    by (metis prod.exhaust)
  have pairs: "by_stat_id (sp_stats p) = map (\<lambda>s. (sc_id s, s)) (sp_stats p)"
    using by_stat_id_distinct [of "[]" "sp_stats p"] assms by (simp add: by_stat_id_def)
  have keys: "distinct (map fst (by_stat_id (sp_stats p)))"
    using assms by (simp add: pairs comp_def)
  have "enabled_stats (ns @ map snd left) = enabled_stats (sp_stats p)"
    using take_user_stats(1) [OF keys run] by (simp add: pairs comp_def)
  moreover have "map sc_id ns = map sc_id (ss_stats st)"
    using take_user_stats(2) [OF keys run] by (auto simp: pairs)
  ultimately show ?thesis by (simp add: apply_user_preset_def run)
qed

definition plain_stat :: "string \<Rightarrow> bool \<Rightarrow> score_stat" where
  "plain_stat i enabled = \<lparr>sc_id = i, sc_label = i, sc_unit = Flat, sc_enabled = enabled, sc_weight = num 1\<rparr>"

definition hp_preset :: score_preset where
  "hp_preset = \<lparr>sp_id = ''p'', sp_character_id = ''c'', sp_name = ''hp'', sp_description = None,
     sp_stats = [plain_stat ''hp'' True, plain_stat ''mp'' False], sp_created_at = ''t'', sp_updated_at = ''t''\<rparr>"

theorem user_preset_decides_score_witness:
  "mset (filter sc_enabled (ss_stats (apply_user_preset (default_build_score_state ''t'') hp_preset))) =
     {#plain_stat ''hp'' True#}"
  using user_preset_decides_score [of hp_preset "default_build_score_state ''t''"]
  by (simp add: hp_preset_def plain_stat_def)

end
