(* ===== verification/FeedFacts.thy ===== *)
theory FeedFacts
  imports DataPageFacts MainProcess
begin

text \<open>
  The feed of the notices from the page down to the table: turning its pages one after the other shows every
  stored notice of the chosen source, once.
\<close>

text \<open>The notices that the feed shows on a page, from its request to its reading of the answer.\<close>

definition feed_items :: "env \<Rightarrow> session \<Rightarrow> notice_source option \<Rightarrow> int \<Rightarrow> view_notice list" where
  "feed_items e s source i =
     (case handle e (NoticesList (feed_request source [] i)) s of
        (Inr (NoticePage p), _) \<Rightarrow> (case as_list_response (notice_page_value p) of Some r \<Rightarrow> nl_items r | None \<Rightarrow> [])
      | _ \<Rightarrow> [])"

definition feed_pages :: "env \<Rightarrow> session \<Rightarrow> notice_source option \<Rightarrow> int \<Rightarrow> jsnum option" where
  "feed_pages e s source i =
     (case handle e (NoticesList (feed_request source [] i)) s of
        (Inr (NoticePage p), _) \<Rightarrow>
          map_option (\<lambda>r. total_pages (nl_total r) (nl_page_size r)) (as_list_response (notice_page_value p))
      | _ \<Rightarrow> None)"

lemma source_given:
  "as_notice_source (field (as_record (feed_request source [] i)) ''source'') = source"
  by (cases source) (simp_all add: feed_request_def as_record_def source_read, simp add: as_notice_source_def)

lemma feed_request_read:
  "non_empty (str_of (field (as_record (feed_request source [] i)) ''q'')) = None"
  "num_or (num 1) (field (as_record (feed_request source [] i)) ''page'') = num i"
  "num_or (num 20) (field (as_record (feed_request source [] i)) ''pageSize'') = num 20"
  by (simp_all add: feed_request_def as_record_def non_empty_def split: option.split)

lemma handle_feed:
  "notices_list (feed_request source [] i) s =
   (case list_notices source None (num i) (num 20) (se_db s) of Inl err \<Rightarrow> (Inl err, s) | Inr p \<Rightarrow> (Inr (NoticePage p), s))"
  by (simp add: notices_list_def Let_def answer_def source_given feed_request_read)

lemma feed_items_eq:
  "feed_items e s source i = map view_of_notice (page_items (list_notices source None (num i) (num 20) (se_db s)))"
  by (simp add: feed_items_def handle_feed notice_page_read view_of_page_def page_items_def split: sum.split)

definition pages_for :: "nat \<Rightarrow> int" where
  "pages_for n = max 1 \<lceil>of_nat n / (20 :: rat)\<rceil>"

lemma pages_for: "1 \<le> pages_for n" "int n \<le> 20 * pages_for n"
proof -
  have "of_nat n / (20 :: rat) * 20 \<le> of_int \<lceil>of_nat n / (20 :: rat)\<rceil> * 20"
    by (rule mult_right_mono [OF le_of_int_ceiling]) simp
  then have "(of_int (int n) :: rat) \<le> of_int (20 * \<lceil>of_nat n / (20 :: rat)\<rceil>)" by simp
  then have "int n \<le> 20 * \<lceil>of_nat n / (20 :: rat)\<rceil>" by (simp only: of_int_le_iff)
  then show "1 \<le> pages_for n" "int n \<le> 20 * pages_for n" by (simp_all add: pages_for_def)
qed

lemma feed_pages_eq:
  "1 \<le> i \<Longrightarrow> feed_pages e s source i = Some (num (pages_for (length (notices_of source (se_db s)))))"
  by (simp add: feed_pages_def handle_feed list_notices_page trimmed_opt_def notice_page_read view_of_page_def
      page_size_of_def pages_for_def) (simp add: num_def)

text \<open>
  C25. The feed shows every notice: each of its pages announces the same number of pages, and turning these pages
  one after the other shows all stored notices of the chosen source, in their order and each once. A handler answers
  each page without changing anything.
\<close>

theorem feed_shows_every_notice:
  "\<exists>k. (\<forall>n. feed_pages e s source (int n + 1) = Some (num k)
          \<and> snd (handle e (NoticesList (feed_request source [] (int n + 1))) s) = s)
     \<and> concat (map (feed_items e s source) [1..k]) =
         map (\<lambda>r. view_of_notice (read_notice r)) (order_by notice_order (notices_of source (se_db s)))"
proof (intro exI conjI allI)
  let ?rows = "notices_of source (se_db s)"
  let ?k = "pages_for (length ?rows)"
  fix n
  show "feed_pages e s source (int n + 1) = Some (num ?k)" by (rule feed_pages_eq) simp
  show "snd (handle e (NoticesList (feed_request source [] (int n + 1))) s) = s"
    by (simp add: handle_feed split: sum.split)
next
  let ?rows = "notices_of source (se_db s)"
  let ?k = "pages_for (length ?rows)"
  have upto: "[1..?k] = map (\<lambda>i. int i + 1) [0..<nat ?k]"
    using pages_for(1) [of "length ?rows"] by (intro nth_equalityI) auto
  have "concat (map (feed_items e s source) [1..?k]) = map view_of_notice
      (concat (map (\<lambda>i. page_items (list_notices source None (num (int i + 1)) (num 20) (se_db s))) [0..<nat ?k]))"
    by (simp add: upto feed_items_eq map_concat comp_def)
  also have "\<dots> = map (\<lambda>r. view_of_notice (read_notice r)) (take (20 * nat ?k) (order_by notice_order ?rows))"
    using notice_pages [of None source 20 "se_db s" "nat ?k"] by (simp add: trimmed_opt_def page_size_of_def)
  also have "take (20 * nat ?k) (order_by notice_order ?rows) = order_by notice_order ?rows"
    using pages_for [of "length ?rows"] by simp
  finally show "concat (map (feed_items e s source) [1..?k]) =
      map (\<lambda>r. view_of_notice (read_notice r)) (order_by notice_order ?rows)" .
qed

end
