(* ===== verification/LootForms.thy ===== *)
theory LootForms
  imports DataPageFacts Foreground LootRuns MainProcess
begin

text \<open>
  The two forms that record a loot run: the one of the logbook page (\<open>submitRun\<close> of
  \<open>renderer/src/pages/LootLogbookPage.tsx\<close>) and the quick one of the overlay (\<open>save\<close> of
  \<open>pages/overlay/OverlayLootQuickLog.tsx\<close>), and what becomes of their rows: from the form through the
  handler and the storage code to the page that shows the run.
\<close>

section \<open>The form of the logbook\<close>

record drop_entry =
  de_item_name :: string
  de_qty :: jsnum
  de_note :: "string option"

datatype cost_entry = KinahEntry jsnum "string option" | ItemEntry string jsnum "string option"

record run_form =
  fo_content :: string
  fo_minutes :: jsnum
  fo_role :: string
  fo_power :: string
  fo_drops :: "drop_entry list"
  fo_costs :: "cost_entry list"

text \<open>\<open>s || null\<close>.\<close>

definition or_null :: "string \<Rightarrow> jsval" where
  "or_null s = (if s = [] then Null else Str s)"

definition positive :: "jsnum \<Rightarrow> bool" where
  "positive x \<longleftrightarrow> is_finite x \<and> num_lt (num 0) x"

definition drop_payload :: "string \<Rightarrow> jsnum \<Rightarrow> jsval \<Rightarrow> jsval" where
  "drop_payload name qty note = Obj [(''itemName'', Str name), (''qty'', Num qty), (''note'', note)]"

definition clean_drop :: "drop_entry \<Rightarrow> jsval option" where
  "clean_drop d =
     (let name = trim (de_item_name d) in
      if name \<noteq> [] \<and> positive (de_qty d) then Some (drop_payload name (de_qty d) (opt_str (de_note d))) else None)"

fun clean_cost :: "cost_entry \<Rightarrow> jsval option" where
  "clean_cost (KinahEntry kinah note) =
     (if positive kinah then Some (Obj [(''kind'', Str ''KINAH''), (''kinah'', Num kinah), (''note'', opt_str note)]) else None)"
| "clean_cost (ItemEntry item_name qty note) =
     (let name = trim item_name in
      if name \<noteq> [] \<and> positive qty
      then Some (Obj [(''kind'', Str ''ITEM''), (''itemName'', Str name), (''qty'', Num qty), (''note'', opt_str note)]) else None)"

definition form_seconds :: "jsnum \<Rightarrow> jsnum" where
  "form_seconds minutes = nonneg_floor (num_mul (if is_finite minutes then minutes else num 0) (num 60))"

definition submit_run :: "string option \<Rightarrow> run_form \<Rightarrow> string + jsval" where
  "submit_run active f =
     (case non_empty active of
        None \<Rightarrow> Inl ''no_character''
      | Some c \<Rightarrow>
          (let content = trim (fo_content f) in
           if content = [] then Inl ''content_required''
           else Inr (Obj [(''characterId'', Str c), (''content'', Str content), (''seconds'', Num (form_seconds (fo_minutes f))),
             (''role'', or_null (fo_role f)), (''powerBracket'', or_null (trim (fo_power f))),
             (''drops'', Arr (List.map_filter clean_drop (fo_drops f))),
             (''costs'', Arr (List.map_filter clean_cost (fo_costs f)))])))"

section \<open>The quick form of the overlay\<close>

datatype quick_cost = QuickKinah string string | QuickItem string string string

record quick_form =
  qf_content :: string
  qf_role :: string
  qf_power :: string
  qf_drops :: "(string \<times> string) list"
  qf_costs :: "quick_cost list"
  qf_started_at :: "int option"
  qf_saved_seconds :: "jsnum option"

text \<open>A drop without a usable quantity counts once.\<close>

definition quick_drop :: "string \<times> string \<Rightarrow> jsval option" where
  "quick_drop = (\<lambda>(item_name, qty_text).
     let name = trim item_name; qty = to_number qty_text in
     if name = [] then None
     else Some (Obj [(''itemName'', Str name), (''qty'', Num (if positive qty then qty else num 1))]))"

fun quick_cost_payload :: "quick_cost \<Rightarrow> jsval option" where
  "quick_cost_payload (QuickKinah kinah_text note) =
     (let kinah = to_number kinah_text in
      Some (Obj [(''kind'', Str ''KINAH''), (''kinah'', Num (if is_finite kinah then kinah else num 0)),
        (''note'', or_null (trim note))]))"
| "quick_cost_payload (QuickItem item_name qty_text note) =
     (let name = trim item_name; n = to_number qty_text; qty = (if is_finite n then n else num 0) in
      if name \<noteq> [] \<or> qty \<noteq> num 0
      then Some (Obj [(''kind'', Str ''ITEM''), (''itemName'', or_null name), (''qty'', Num qty), (''note'', or_null (trim note))])
      else None)"

text \<open>\<open>ended\<close> is the clock at the call. Without a character nothing is sent.\<close>

definition quick_save :: "string option \<Rightarrow> int \<Rightarrow> quick_form \<Rightarrow> string + jsval option" where
  "quick_save active ended f =
     (case non_empty active of
        None \<Rightarrow> Inr None
      | Some c \<Rightarrow>
          (let content = trim (qf_content f) in
           if content = [] then Inl ''content_required''
           else Inr (Some (Obj [(''characterId'', Str c), (''content'', Str content),
             (''role'', or_null (trim (qf_role f))), (''powerBracket'', or_null (trim (qf_power f))),
             (''startedAt'', case qf_started_at f of None \<Rightarrow> Null | Some t \<Rightarrow> Str (iso t)),
             (''endedAt'', case qf_started_at f of None \<Rightarrow> Null | Some t \<Rightarrow> Str (iso ended)),
             (''seconds'', case qf_saved_seconds f of
                Some n \<Rightarrow> Num n
              | None \<Rightarrow> (case qf_started_at f of
                  Some t \<Rightarrow> Num (compute_duration_seconds (num t) (num ended)) | None \<Rightarrow> Null)),
             (''drops'', Arr (List.map_filter quick_drop (qf_drops f))),
             (''costs'', Arr (List.map_filter quick_cost_payload (qf_costs f)))]))))"

section \<open>Through the handler\<close>

text \<open>
  zod accepts an input and returns an object with the same fields (it may order them as the schema does).
\<close>

definition accepts :: "env \<Rightarrow> zod \<Rightarrow> jsval \<Rightarrow> bool" where
  "accepts e schema v \<longleftrightarrow> (\<exists>w. en_safe_parse e schema v = Some w \<and> (\<forall>k. field w k = field v k))"

definition accepts_run :: "env \<Rightarrow> jsval \<Rightarrow> bool" where
  "accepts_run e v \<longleftrightarrow> accepts e loot_create_run_input_schema v
     \<and> (\<forall>x \<in> set (arr_or_empty (field v ''drops'')). accepts e loot_drop_schema x)
     \<and> (\<forall>x \<in> set (arr_or_empty (field v ''costs'')). accepts e loot_cost_schema x)"

definition counted_drop :: "string \<Rightarrow> jsnum \<Rightarrow> (string \<times> jsnum) option" where
  "counted_drop name qty =
     (if trim name \<noteq> [] \<and> num_lt (num 0) (finite_floor qty) then Some (trim name, finite_floor qty) else None)"

lemma entered_map_filter:
  "entered f (List.map_filter g xs) = List.map_filter (\<lambda>x. case g x of None \<Rightarrow> None | Some y \<Rightarrow> f y) xs"
  by (induction xs) (auto simp: List.map_filter_simps split: option.split)

lemma map_filter_map_filter:
  "List.map_filter f (List.map_filter g xs) = List.map_filter (\<lambda>x. case g x of None \<Rightarrow> None | Some y \<Rightarrow> f y) xs"
  by (induction xs) (auto simp: List.map_filter_simps split: option.split)

lemma map_filter_cong: "(\<And>x. x \<in> set xs \<Longrightarrow> f x = g x) \<Longrightarrow> List.map_filter f xs = List.map_filter g xs"
  by (induction xs) (auto simp: List.map_filter_simps split: option.split)

lemma drop_entered:
  assumes "accepts e loot_drop_schema x" "str_of (field x ''itemName'') = Some name" "num_of (field x ''qty'') = Some qty"
  shows "(case loot_drop_input e x of None \<Rightarrow> None | Some y \<Rightarrow> entered_drop y) = counted_drop name qty"
proof -
  obtain w where w: "en_safe_parse e loot_drop_schema x = Some w" "\<forall>k. field w k = field x k"
    using assms(1) by (auto simp: accepts_def)
  from w assms(2,3) show ?thesis
    by (auto simp: loot_drop_input_def text_field_def str_or_def entered_drop_def count_of_def counted_drop_def Let_def)
qed

lemma kinah_entered:
  assumes "accepts e loot_cost_schema x" "field x ''kind'' = Str ''KINAH''" "field x ''kinah'' = Num kinah"
  shows "(case loot_cost_input e x of None \<Rightarrow> None | Some y \<Rightarrow> entered_cost y) =
    (if num_lt (num 0) (finite_floor kinah) then Some (KINAH, None, num 0, finite_floor kinah) else None)"
proof -
  obtain w where w: "en_safe_parse e loot_cost_schema x = Some w" "\<forall>k. field w k = field x k"
    using assms(1) by (auto simp: accepts_def)
  from w assms(2,3) show ?thesis
    by (auto simp: loot_cost_input_def entered_cost_def count_of_def nullish_or_def Let_def)
qed

lemma item_entered:
  assumes "accepts e loot_cost_schema x" "field x ''kind'' = Str ''ITEM''" "field x ''itemName'' = or_null name"
    "field x ''qty'' = Num qty"
  shows "(case loot_cost_input e x of None \<Rightarrow> None | Some y \<Rightarrow> entered_cost y) =
    map_option (\<lambda>(n, q). (ITEM, Some n, q, num 0)) (counted_drop name qty)"
proof -
  obtain w where w: "en_safe_parse e loot_cost_schema x = Some w" "\<forall>k. field w k = field x k"
    using assms(1) by (auto simp: accepts_def)
  from w assms(2-4) show ?thesis
    by (auto simp: loot_cost_input_def entered_cost_def count_of_def nullish_or_def or_null_def trimmed_field_def
        opt_str_def str_or_def counted_drop_def Let_def)
qed

lemma get_loot_run_exported: "get_loot_run i (export_effect d) = get_loot_run i d"
  by (simp add: get_loot_run_def export_effect_def split: option.split)

text \<open>What a run that was created from a payload shows, when it is opened.\<close>

lemma opened_run:
  assumes v: "accepts_run e v" "str_of (field v ''characterId'') = Some c" "c \<noteq> []" "str_of (field v ''content'') = Some content"
    and run: "handle e (LootCreateRun v) s = (Inr r, s')"
    and new: "no_remains (en_ids e 0) (se_db s)" "en_ids e 0 \<noteq> []"
  shows "\<exists>i det view. r = Made i \<and> handle e (LootGetRun (Obj [(''id'', Str i)])) s' = (Inr (OneRun (Some det)), s')
    \<and> as_run_detail (details_value det) = Some view \<and> vh_content (vl_run view) = trim content
    \<and> vl_drops view = List.map_filter (\<lambda>x. case loot_drop_input e x of None \<Rightarrow> None | Some y \<Rightarrow> entered_drop y)
        (arr_or_empty (field v ''drops''))
    \<and> vl_costs view = List.map_filter (\<lambda>x. case loot_cost_input e x of None \<Rightarrow> None | Some y \<Rightarrow> entered_cost y)
        (arr_or_empty (field v ''costs''))"
proof -
  obtain w where w: "en_safe_parse e loot_create_run_input_schema v = Some w" "\<forall>k. field w k = field v k"
    using v(1) by (auto simp: accepts_run_def accepts_def)
  have resolved: "resolve_character_id (se_db s) w = Some c" "text_field w ''content'' = content"
    using v(2,4) w(2) by (simp_all add: resolve_character_id_def text_field_def str_or_def)
  define inp where "inp = \<lparr>in_character = c, in_content = trim content, in_role = trimmed_opt (str_of (field w ''role'')),
           in_power = trimmed_opt (str_of (field w ''powerBracket'')), in_started = str_of (field w ''startedAt''),
           in_ended = str_of (field w ''endedAt''), in_seconds = num_of (field w ''seconds''),
           in_drops = Arr (List.map_filter (loot_drop_input e) (arr_or_empty (field w ''drops''))),
           in_costs = Arr (List.map_filter (loot_cost_input e) (arr_or_empty (field w ''costs'')))\<rparr>"
  have "then_save (create_loot_run (en_host e) (en_rollback e) (en_ids e) (\<lambda>i. now_text e (i + 1)) (now_text e 0) inp)
      (\<lambda>i. ret (Made i)) s = (Inr r, s')"
    using run resolved v(3)
    by (auto simp: loot_create_run_def parse_input_def w(1) for_character_def ask_def non_empty_def Let_def
        guard_else_apply inp_def split: if_splits)
  then obtain i d where created: "create_loot_run (en_host e) (en_rollback e) (en_ids e) (\<lambda>i. now_text e (i + 1))
      (now_text e 0) inp (se_db s) = (Inr i, d)" and s': "r = Made i" "se_db s' = export_effect d"
    by (auto simp: then_save_def and_then_Inr on_db_done save_done ret_apply)
  from created_run [OF created new] obtain det where det: "i = en_ids e 0" "get_loot_run i d = Some det"
    "lr_id (rd_run det) = i" "lr_content (rd_run det) = trim (in_content inp)"
    "map (\<lambda>x. (ld_item_name x, ld_qty x)) (rd_drops det) = entered entered_drop (arr_or_empty (in_drops inp))"
    "map cost_figures (rd_costs det) = entered entered_cost (arr_or_empty (in_costs inp))" by (elim exE conjE)
  have content: "trim content \<noteq> []"
    using run resolved
    by (auto simp: loot_create_run_def parse_input_def w(1) for_character_def ask_def non_empty_def Let_def
        guard_else_apply v(3) split: if_splits)
  have drops: "map (\<lambda>x. (ld_item_name x, ld_qty x)) (rd_drops det) =
      List.map_filter (\<lambda>x. case loot_drop_input e x of None \<Rightarrow> None | Some y \<Rightarrow> entered_drop y) (arr_or_empty (field v ''drops''))"
    and costs: "map cost_figures (rd_costs det) =
      List.map_filter (\<lambda>x. case loot_cost_input e x of None \<Rightarrow> None | Some y \<Rightarrow> entered_cost y) (arr_or_empty (field v ''costs''))"
    using det(5,6) w(2) by (simp_all add: inp_def entered_map_filter)
  have "\<forall>p \<in> set (map (\<lambda>x. (ld_item_name x, ld_qty x)) (rd_drops det)). fst p \<noteq> []"
    unfolding drops set_map_filter
    by (auto simp: entered_drop_def Let_def split: option.splits if_splits)
  then have named: "filter (\<lambda>x. ld_item_name x \<noteq> []) (rd_drops det) = rd_drops det"
    by (simp add: filter_id_conv)
  have "get_loot_run i (se_db s') = Some det"
    using det(2) by (simp add: s' get_loot_run_exported)
  then have opened: "handle e (LootGetRun (Obj [(''id'', Str i)])) s' = (Inr (OneRun (Some det)), s')"
    using new(2) det(1)
    by (simp add: loot_get_run_def for_id_def as_record_def text_field_def guard_else_apply ask_def ret_apply Let_def)
  have view: "as_run_detail (details_value det) = Some (view_of_details det)"
    using content det(1,3,4) new(2) by (simp add: details_read inp_def)
  have shown: "vl_drops (view_of_details det) = map (\<lambda>x. (ld_item_name x, ld_qty x)) (rd_drops det)"
    "vl_costs (view_of_details det) = map cost_figures (rd_costs det)"
    "vh_content (vl_run (view_of_details det)) = trim content"
    using det(4) by (simp_all add: view_of_details_def named cost_figures_def inp_def)
  show ?thesis
    by (rule exI [of _ i], rule exI [of _ det], rule exI [of _ "view_of_details det"])
      (use opened view s'(1) in \<open>simp add: shown drops costs\<close>)
qed

section \<open>The rows of the forms\<close>

definition shown_drop :: "drop_entry \<Rightarrow> (string \<times> jsnum) option" where
  "shown_drop d = counted_drop (de_item_name d) (de_qty d)"

fun shown_cost :: "cost_entry \<Rightarrow> (cost_kind \<times> string option \<times> jsnum \<times> jsnum) option" where
  "shown_cost (KinahEntry kinah note) =
     (if num_lt (num 0) (finite_floor kinah) then Some (KINAH, None, num 0, finite_floor kinah) else None)"
| "shown_cost (ItemEntry name qty note) = map_option (\<lambda>(n, q). (ITEM, Some n, q, num 0)) (counted_drop name qty)"

lemma floor_positive: "num_lt (num 0) (finite_floor x) \<Longrightarrow> positive x"
  by (cases x) (auto simp: finite_floor_def positive_def num_def less_max_iff_disj split: if_splits)

lemma clean_drop_shown:
  assumes "\<And>y. clean_drop d = Some y \<Longrightarrow> accepts e loot_drop_schema y"
  shows "(case clean_drop d of None \<Rightarrow> None | Some x \<Rightarrow>
      case loot_drop_input e x of None \<Rightarrow> None | Some y \<Rightarrow> entered_drop y) = shown_drop d"
proof (cases "clean_drop d")
  case None
  then have "shown_drop d = None"
    by (auto simp: clean_drop_def shown_drop_def counted_drop_def Let_def dest: floor_positive split: if_splits)
  with None show ?thesis by simp
next
  case (Some x)
  then have x: "str_of (field x ''itemName'') = Some (trim (de_item_name d))" "num_of (field x ''qty'') = Some (de_qty d)"
    by (auto simp: clean_drop_def drop_payload_def Let_def split: if_splits)
  from drop_entered [OF assms [OF Some] x] show ?thesis
    by (simp add: Some shown_drop_def counted_drop_def)
qed

lemma clean_cost_shown:
  assumes "\<And>y. clean_cost c = Some y \<Longrightarrow> accepts e loot_cost_schema y"
  shows "(case clean_cost c of None \<Rightarrow> None | Some x \<Rightarrow>
      case loot_cost_input e x of None \<Rightarrow> None | Some y \<Rightarrow> entered_cost y) = shown_cost c"
proof (cases c)
  case (KinahEntry kinah memo)
  show ?thesis
  proof (cases "clean_cost c")
    case None
    then have "shown_cost c = None" by (auto simp: KinahEntry dest: floor_positive split: if_splits)
    with None show ?thesis by simp
  next
    case (Some x)
    then have "field x ''kind'' = Str ''KINAH''" "field x ''kinah'' = Num kinah"
      by (auto simp: KinahEntry split: if_splits)
    from kinah_entered [OF assms [OF Some] this] show ?thesis by (simp add: Some) (simp add: KinahEntry)
  qed
next
  case (ItemEntry name qty memo)
  show ?thesis
  proof (cases "clean_cost c")
    case None
    then have "shown_cost c = None"
      by (auto simp: ItemEntry counted_drop_def Let_def dest: floor_positive split: if_splits)
    with None show ?thesis by simp
  next
    case (Some x)
    then have "field x ''kind'' = Str ''ITEM''" "field x ''itemName'' = or_null (trim name)" "field x ''qty'' = Num qty"
      by (auto simp: ItemEntry Let_def or_null_def split: if_splits)
    from item_entered [OF assms [OF Some] this] show ?thesis
      by (simp add: Some) (simp add: ItemEntry counted_drop_def)
  qed
qed

text \<open>
  C10. What is entered in the form of the logbook is what its run shows when it is opened, through the check of the
  handler, the tables and back: the trimmed content, and in their order exactly the drops and costs with a name (or
  kinah) and an amount of at least one, rounded down. It needs that zod accepts the payload and that the new id is
  unused; it does not need the foreign keys.
\<close>

theorem submitted_run_is_shown:
  assumes "submit_run active f = Inr v" and "accepts_run e v" and "handle e (LootCreateRun v) s = (Inr r, s')"
    and "no_remains (en_ids e 0) (se_db s)" "en_ids e 0 \<noteq> []"
  shows "\<exists>i det view. r = Made i \<and> handle e (LootGetRun (Obj [(''id'', Str i)])) s' = (Inr (OneRun (Some det)), s')
    \<and> as_run_detail (details_value det) = Some view \<and> vh_content (vl_run view) = trim (fo_content f)
    \<and> vl_drops view = List.map_filter shown_drop (fo_drops f)
    \<and> vl_costs view = List.map_filter shown_cost (fo_costs f)"
proof -
  from assms(1) obtain c where v: "str_of (field v ''characterId'') = Some c" "c \<noteq> []"
    "str_of (field v ''content'') = Some (trim (fo_content f))"
    "arr_or_empty (field v ''drops'') = List.map_filter clean_drop (fo_drops f)"
    "arr_or_empty (field v ''costs'') = List.map_filter clean_cost (fo_costs f)"
    by (auto simp: submit_run_def non_empty_def Let_def split: option.splits if_splits)
  have drops: "List.map_filter (\<lambda>x. case loot_drop_input e x of None \<Rightarrow> None | Some y \<Rightarrow> entered_drop y)
      (arr_or_empty (field v ''drops'')) = List.map_filter shown_drop (fo_drops f)"
    unfolding v(4) map_filter_map_filter
    by (rule map_filter_cong, rule clean_drop_shown)
      (use assms(2) v(4) in \<open>auto simp: accepts_run_def set_map_filter\<close>)
  have costs: "List.map_filter (\<lambda>x. case loot_cost_input e x of None \<Rightarrow> None | Some y \<Rightarrow> entered_cost y)
      (arr_or_empty (field v ''costs'')) = List.map_filter shown_cost (fo_costs f)"
    unfolding v(5) map_filter_map_filter
    by (rule map_filter_cong, rule clean_cost_shown)
      (use assms(2) v(5) in \<open>auto simp: accepts_run_def set_map_filter\<close>)
  show ?thesis
    using opened_run [OF assms(2) v(1-3) assms(3-5)] unfolding drops costs trim_idem .
qed

definition loot_form :: run_form where
  "loot_form = \<lparr>fo_content = ''Siel'', fo_minutes = num 1, fo_role = [], fo_power = [],
     fo_drops = [\<lparr>de_item_name = ''Ore'', de_qty = num 3, de_note = None\<rparr>,
                 \<lparr>de_item_name = ''Siel'', de_qty = Fin (1/2), de_note = None\<rparr>],
     fo_costs = [KinahEntry (num 50) None]\<rparr>"

definition loot_session :: session where
  "loot_session = \<lparr>se_db = loot_db, se_file = None, se_exports = [], se_disk = None\<rparr>"

definition loot_env :: env where
  "loot_env = sample_env\<lparr>en_host := iso_host, en_ids := tick\<rparr>"

definition loot_payload :: jsval where
  "loot_payload = Obj [(''characterId'', Str ''c1''), (''content'', Str ''Siel''), (''seconds'', Num (num 60)), (''role'', Null),
     (''powerBracket'', Null), (''drops'', Arr [drop_payload ''Ore'' (num 3) Null, drop_payload ''Siel'' (Fin (1/2)) Null]),
     (''costs'', Arr [Obj [(''kind'', Str ''KINAH''), (''kinah'', Num (num 50)), (''note'', Null)]])]"

lemma half_an_item: "positive (Fin (1/2))" "finite_floor (Fin (1/2)) = num 0"
  by (simp_all add: positive_def finite_floor_def num_def)

lemma loot_form_payload: "submit_run (Some ''c1'') loot_form = Inr loot_payload"
  by (simp add: submit_run_def loot_form_def loot_payload_def non_empty_def form_seconds_def or_null_def clean_drop_def
      half_an_item positive_def [of "num i" for i] opt_str_def List.map_filter_simps Let_def)

lemma loot_payload_accepted: "accepts_run loot_env loot_payload"
  by (simp add: accepts_run_def accepts_def loot_env_def sample_env_def)

lemma loot_form_created:
  "\<exists>s'. handle loot_env (LootCreateRun loot_payload) loot_session = (Inr (Made (tick 0)), s')"
proof -
  define inp where "inp = \<lparr>in_character = ''c1'', in_content = ''Siel'', in_role = None, in_power = None, in_started = None,
     in_ended = None, in_seconds = Some (num 60),
     in_drops = Arr [drop_payload ''Ore'' (num 3) Null, drop_payload ''Siel'' (Fin (1/2)) Null],
     in_costs = Arr [Obj [(''kind'', Str ''KINAH''), (''kinah'', Num (num 50)), (''note'', Null)]]\<rparr>"
  have "\<exists>d. create_loot_run iso_host None tick clock now inp loot_db = (Inr (tick 0), d)" for clock now
    by (simp add: loot_eval inp_def drop_payload_def half_an_item(2) [unfolded finite_floor_def])
  then obtain d where d: "create_loot_run iso_host None tick (\<lambda>i. now_text loot_env (i + 1)) (now_text loot_env 0) inp loot_db =
      (Inr (tick 0), d)" by blast
  have "handle loot_env (LootCreateRun loot_payload) loot_session =
      then_save (create_loot_run iso_host None tick (\<lambda>i. now_text loot_env (i + 1)) (now_text loot_env 0) inp)
        (\<lambda>i. ret (Made i)) loot_session"
    by (simp add: loot_create_run_def parse_input_def loot_env_def sample_env_def loot_payload_def inp_def for_character_def
        ask_def resolve_character_id_def non_empty_def text_field_def str_or_def guard_else_apply trimmed_opt_def
        List.map_filter_simps loot_drop_input_def loot_cost_input_def nullish_or_def drop_payload_def Let_def)
  also have "\<dots> = (Inr (Made (tick 0)), loot_session\<lparr>se_db := export_effect d, se_file := Some d\<rparr>)"
    using d by (subst then_save_ok) (auto simp: loot_session_def ret_apply)
  finally show ?thesis by (rule exI)
qed

theorem submitted_run_is_shown_witness:
  "\<exists>s' det view. submit_run (Some ''c1'') loot_form = Inr loot_payload
    \<and> handle loot_env (LootGetRun (Obj [(''id'', Str (tick 0))])) s' = (Inr (OneRun (Some det)), s')
    \<and> as_run_detail (details_value det) = Some view
    \<and> vl_drops view = [(''Ore'', num 3)] \<and> vl_costs view = [(KINAH, None, num 0, num 50)]"
proof -
  obtain s' where run: "handle loot_env (LootCreateRun loot_payload) loot_session = (Inr (Made (tick 0)), s')"
    using loot_form_created by (elim exE)
  have "no_remains (en_ids loot_env 0) (se_db loot_session)" "en_ids loot_env 0 \<noteq> []"
    by (simp_all add: no_remains_def loot_session_def loot_db_def empty_db_def loot_env_def)
  from submitted_run_is_shown [OF loot_form_payload loot_payload_accepted run this]
  obtain i det view where shown: "Made (tick 0) = Made i"
    "handle loot_env (LootGetRun (Obj [(''id'', Str i)])) s' = (Inr (OneRun (Some det)), s')"
    "as_run_detail (details_value det) = Some view"
    "vl_drops view = List.map_filter shown_drop (fo_drops loot_form)"
    "vl_costs view = List.map_filter shown_cost (fo_costs loot_form)" by (elim exE conjE)
  have "vl_drops view = [(''Ore'', num 3)]" "vl_costs view = [(KINAH, None, num 0, num 50)]"
    unfolding shown(4,5)
    by (simp_all add: loot_form_def shown_drop_def counted_drop_def half_an_item finite_floor_def [of "num j" for j]
        List.map_filter_simps)
  with shown(2,3) loot_form_payload show ?thesis unfolding reply.inject(2) shown(1) [symmetric]
    by (intro exI conjI) (use shown(1) in simp_all)
qed

end
