(* ===== verification/Router.thy ===== *)
theory Router
  imports Prelude
begin

text \<open>
  The routes of the renderer (\<open>renderer/src/router.ts\<close>): the part of the address after \<open>#\<close>
  selects the page. Links to a notice are made in \<open>renderer/src/FeedPage.tsx\<close>, links to the overlay in
  \<open>main/overlay/overlayManager.ts\<close>. Text is the list of its UTF-8 bytes; what decoding makes of bytes that are not
  UTF-8 is the parameter \<open>repair\<close>, which keeps well-formed text.
\<close>

section \<open>Percent encoding\<close>

definition hex_digit :: "nat \<Rightarrow> char" where
  "hex_digit n = char_of (if n < 10 then 48 + n else 55 + n)"

definition hex_value :: "char \<Rightarrow> nat option" where
  "hex_value c =
     (let n = (of_char c :: nat) in
      if 48 \<le> n \<and> n \<le> 57 then Some (n - 48) else if 65 \<le> n \<and> n \<le> 70 then Some (n - 55)
      else if 97 \<le> n \<and> n \<le> 102 then Some (n - 87) else None)"

text \<open>\<open>encodeURIComponent\<close> leaves letters, digits and \<open>-_.!~*'()\<close>.\<close>

definition left_as_is :: "char \<Rightarrow> bool" where
  "left_as_is c =
     (let n = (of_char c :: nat) in
      48 \<le> n \<and> n \<le> 57 \<or> 65 \<le> n \<and> n \<le> 90 \<or> 97 \<le> n \<and> n \<le> 122
      \<or> n \<in> {45, 95, 46, 33, 126, 42, 39, 40, 41})"

definition encode_char :: "char \<Rightarrow> string" where
  "encode_char c =
     (if left_as_is c then [c]
      else let n = (of_char c :: nat) in [CHR ''%'', hex_digit (n div 16), hex_digit (n mod 16)])"

definition encode_uri_component :: "string \<Rightarrow> string" where
  "encode_uri_component s = concat (map encode_char s)"

fun percent_decode :: "string \<Rightarrow> string" where
  "percent_decode [] = []"
| "percent_decode (c # s) =
     (case s of
        a # b # r \<Rightarrow>
          (case (hex_value a, hex_value b) of
             (Some x, Some y) \<Rightarrow> if c = CHR ''%'' then char_of (16 * x + y) # percent_decode r else c # percent_decode s
           | _ \<Rightarrow> c # percent_decode s)
      | _ \<Rightarrow> c # percent_decode s)"

section \<open>Search parameters\<close>

text \<open>\<open>new URLSearchParams(qs)\<close>, for a text without \<open>?\<close>: names and values, with \<open>+\<close> for a space.\<close>

definition form_decode :: "(string \<Rightarrow> string) \<Rightarrow> string \<Rightarrow> string" where
  "form_decode repair s = repair (percent_decode (map (\<lambda>c. if c = CHR ''+'' then CHR '' '' else c) s))"

definition search_params :: "(string \<Rightarrow> string) \<Rightarrow> string \<Rightarrow> (string \<times> string) list" where
  "search_params repair qs =
     map (\<lambda>part. (form_decode repair (takeWhile (\<lambda>c. c \<noteq> CHR ''='') part),
                  form_decode repair (tl (dropWhile (\<lambda>c. c \<noteq> CHR ''='') part))))
       (filter (\<lambda>part. part \<noteq> []) (split_on (CHR ''&'') qs))"

section \<open>Routes\<close>

datatype overlay_tab = PlannerTab | LootTab

datatype route =
    Dashboard | NoticesFeed | NoticesDiff string | PlannerToday | PlannerTemplates | PlannerStats | BuildScorePage
  | LootLogbook | EconomyPage | LinksOfficial | CharactersPage | SettingsModules | SettingsBackup | SettingsSafety
  | OverlayRoute overlay_tab

definition pages :: "(string \<times> route) list" where
  "pages = [(''/'', Dashboard), (''/m/notices/feed'', NoticesFeed), (''/m/build/score'', BuildScorePage),
     (''/m/loot/logbook'', LootLogbook), (''/m/economy'', EconomyPage), (''/m/planner/today'', PlannerToday),
     (''/m/planner/templates'', PlannerTemplates), (''/m/planner/stats'', PlannerStats),
     (''/m/links/official'', LinksOfficial), (''/characters'', CharactersPage), (''/settings/modules'', SettingsModules),
     (''/settings/backup'', SettingsBackup), (''/settings/safety'', SettingsSafety)]"

definition parse_route :: "(string \<Rightarrow> string) \<Rightarrow> string \<Rightarrow> route" where
  "parse_route repair hash =
     (let trimmed = (if prefix ''#'' hash then drop 1 hash else hash);
          parts = split_on (CHR ''?'') trimmed;
          path = (if hd parts = [] then ''/'' else hd parts);
          params = search_params repair (case tl parts of [] \<Rightarrow> [] | qs # _ \<Rightarrow> qs) in
      if path = ''/overlay'' then OverlayRoute (if map_of params ''tab'' = Some ''loot'' then LootTab else PlannerTab)
      else if path = ''/m/notices/diff'' then
        (case map_of params ''id'' of
           Some i \<Rightarrow> if i = [] then NoticesFeed else NoticesDiff i
         | None \<Rightarrow> NoticesFeed)
      else (case map_of pages path of Some r \<Rightarrow> r | None \<Rightarrow> Dashboard))"

definition notice_link :: "string \<Rightarrow> string" where
  "notice_link i = ''#/m/notices/diff?id='' @ encode_uri_component i"

fun tab_name :: "overlay_tab \<Rightarrow> string" where
  "tab_name PlannerTab = ''planner''"
| "tab_name LootTab = ''loot''"

definition overlay_link :: "overlay_tab \<Rightarrow> string" where
  "overlay_link tab = ''#/overlay?tab='' @ tab_name tab"

text \<open>
  What the button of the overlay asks the main process to show (\<open>pages/OverlayPage.tsx\<close>), and what the shell makes of
  an address that is sent to it (\<open>App.tsx\<close>).
\<close>

fun open_main_hash :: "overlay_tab \<Rightarrow> string" where
  "open_main_hash LootTab = ''#/m/loot/logbook''"
| "open_main_hash PlannerTab = ''#/m/planner/today''"

fun tab_page :: "overlay_tab \<Rightarrow> route" where
  "tab_page LootTab = LootLogbook"
| "tab_page PlannerTab = PlannerToday"

definition normalized_hash :: "string \<Rightarrow> string" where
  "normalized_hash next_hash = (if prefix ''#'' next_hash then next_hash else CHR ''#'' # next_hash)"

section \<open>Links lead where they say\<close>

lemma hex_value_digit: "n < 16 \<Longrightarrow> hex_value (hex_digit n) = Some n"
  by (auto simp: hex_value_def hex_digit_def Let_def)

lemma of_char_hex_digit: "n < 16 \<Longrightarrow> (of_char (hex_digit n) :: nat) = (if n < 10 then 48 + n else 55 + n)"
  by (simp add: hex_digit_def)

lemma high_digit: "(of_char c :: nat) div 16 < 16"
  by (simp add: div_less_iff_less_mult)

lemma decode_plain: "c \<noteq> CHR ''%'' \<Longrightarrow> percent_decode (c # s) = c # percent_decode s"
  by (cases s rule: percent_decode.cases) (auto split: list.split option.split)

lemma decode_encoded: "percent_decode (encode_char c @ s) = c # percent_decode s"
proof (cases "left_as_is c")
  case True
  then have "c \<noteq> CHR ''%''" by (auto simp: left_as_is_def Let_def)
  with True show ?thesis by (simp add: encode_char_def decode_plain del: percent_decode.simps)
next
  case False
  with high_digit [of c] show ?thesis by (simp add: encode_char_def Let_def hex_value_digit)
qed

lemma decode_encode: "percent_decode (encode_uri_component s) = s"
  by (induction s) (simp_all add: encode_uri_component_def decode_encoded)

text \<open>No character with a meaning in a query is left by the encoding.\<close>

definition has_meaning :: "char \<Rightarrow> bool" where
  "has_meaning c \<longleftrightarrow> (of_char c :: nat) \<in> {38, 61, 63, 35, 43}"

lemma encoded_char: "c \<in> set (encode_char d) \<Longrightarrow> \<not> has_meaning c"
proof (cases "left_as_is d")
  case True
  assume "c \<in> set (encode_char d)"
  with True have "left_as_is c" by (simp add: encode_char_def)
  then show ?thesis by (auto simp: left_as_is_def has_meaning_def Let_def)
next
  case False
  assume "c \<in> set (encode_char d)"
  with False have "c = CHR ''%'' \<or> c = hex_digit (of_char d div 16) \<or> c = hex_digit (of_char d mod 16)"
    by (auto simp: encode_char_def Let_def)
  moreover have "(of_char d :: nat) mod 16 < 16" by simp
  ultimately consider "c = CHR ''%''" | n where "n < 16" "c = hex_digit n" using high_digit by blast
  then show ?thesis by cases (auto simp: has_meaning_def of_char_hex_digit)
qed

lemma encoded_chars: "has_meaning c \<Longrightarrow> c \<notin> set (encode_uri_component s)"
  by (auto simp: encode_uri_component_def dest: encoded_char)

lemma meanings: "has_meaning (CHR ''&'')" "has_meaning (CHR ''='')" "has_meaning (CHR ''?'')" "has_meaning (CHR ''#'')"
  "has_meaning (CHR ''+'')"
  by (simp_all add: has_meaning_def)

lemma form_decode_encoded: "form_decode repair (encode_uri_component s) = repair s"
proof -
  have "map (\<lambda>c. if c = CHR ''+'' then CHR '' '' else c) (encode_uri_component s) = encode_uri_component s"
    using encoded_chars [OF meanings(5)] by (intro map_idI) auto
  then show ?thesis by (simp add: form_decode_def decode_encode)
qed

lemma one_param:
  assumes "name \<noteq> []" "CHR ''='' \<notin> set name" "CHR ''&'' \<notin> set name"
  shows "search_params repair (name @ CHR ''='' # encode_uri_component v) = [(form_decode repair name, repair v)]"
proof -
  have "CHR ''&'' \<notin> set (name @ CHR ''='' # encode_uri_component v)"
    using assms(3) encoded_chars [OF meanings(1)] by auto
  moreover have "takeWhile (\<lambda>c. c \<noteq> CHR ''='') (name @ CHR ''='' # encode_uri_component v) = name"
    "dropWhile (\<lambda>c. c \<noteq> CHR ''='') (name @ CHR ''='' # encode_uri_component v) = CHR ''='' # encode_uri_component v"
    using assms(2) by (auto simp: takeWhile_append dropWhile_append)
  ultimately show ?thesis
    by (simp add: search_params_def form_decode_encoded split_on_no_sep)
qed

lemma link_parts:
  assumes "CHR ''?'' \<notin> set path" "CHR ''?'' \<notin> set name"
  shows "split_on (CHR ''?'') (path @ CHR ''?'' # name @ CHR ''='' # encode_uri_component v) =
    [path, name @ CHR ''='' # encode_uri_component v]"
  using assms encoded_chars [OF meanings(3)] by (simp add: split_on_append_sep split_on_no_sep)

text \<open>
  C37. A link of the feed opens the notice it was made for: whatever text the id is, the route that the renderer
  reads from the link is the one of that notice.
\<close>

theorem notice_link_opens_notice:
  assumes "i \<noteq> []" "repair i = i" "repair ''id'' = ''id''"
  shows "parse_route repair (notice_link i) = NoticesDiff i"
proof -
  have "drop 1 (notice_link i) = ''/m/notices/diff'' @ CHR ''?'' # ''id'' @ CHR ''='' # encode_uri_component i"
    by (simp add: notice_link_def)
  moreover have "prefix ''#'' (notice_link i)" by (simp add: notice_link_def)
  moreover have "split_on (CHR ''?'') (''/m/notices/diff'' @ CHR ''?'' # ''id'' @ CHR ''='' # encode_uri_component i) =
      [''/m/notices/diff'', ''id'' @ CHR ''='' # encode_uri_component i]"
    by (rule link_parts) simp_all
  moreover have "search_params repair (''id'' @ CHR ''='' # encode_uri_component i) = [(repair ''id'', i)]"
    using one_param [of "''id''" repair i] assms(2) by (simp add: form_decode_def)
  ultimately show ?thesis using assms(1,3) by (simp add: parse_route_def Let_def)
qed

theorem notice_link_opens_notice_witness:
  "notice_link ''a&b=%'' = ''#/m/notices/diff?id=a%26b%3D%25''
     \<and> parse_route (\<lambda>s. s) (notice_link ''a&b=%'') = NoticesDiff ''a&b=%''"
proof
  show "notice_link ''a&b=%'' = ''#/m/notices/diff?id=a%26b%3D%25''" by code_simp
  show "parse_route (\<lambda>s. s) (notice_link ''a&b=%'') = NoticesDiff ''a&b=%''"
    by (rule notice_link_opens_notice) simp_all
qed

lemma overlay_link_opens_tab:
  assumes "\<forall>s \<in> {''tab'', ''planner'', ''loot''}. repair s = s"
  shows "parse_route repair (overlay_link tab) = OverlayRoute tab"
  using assms by (cases tab) (simp_all add: overlay_link_def parse_route_def search_params_def form_decode_def Let_def decode_plain
      del: percent_decode.simps(2))

lemma open_main_opens_page: "parse_route repair (normalized_hash (open_main_hash tab)) = tab_page tab"
  by (cases tab) (simp_all add: normalized_hash_def parse_route_def search_params_def pages_def Let_def)

end
