(* ===== verification/Lifecycle.thy ===== *)
theory Lifecycle
  imports Overlay MainProcess Router BackupExport
begin

text \<open>
  The life of the app (\<open>main/index.ts\<close> from \<open>createWindow\<close> to \<open>will-quit\<close>, \<open>ipcHandlers/appHandlers.ts\<close> and
  the channel \<open>notices:syncNow\<close>): the main window, the overlay, the scheduler and the database, from the end of
  \<open>run\<close> until the process ends. Electron closes a window unless its \<open>close\<close> event is prevented; quitting emits
  \<open>before-quit\<close>, closes all windows unless that was prevented, and ends the process unless a window is still there.
\<close>

section \<open>The state\<close>

text \<open>
  Both handlers that save before the end start an asynchronous task. Since \<open>savingWindowState\<close> is never reset, there
  is at most one in the life of the process. \<open>Close_saving i r\<close> awaits \<open>persistWindowState\<close> of window \<open>i\<close>, whose
  outcome is \<open>r\<close>; \<open>Close_disposing i\<close> awaits \<open>overlay.dispose()\<close>; the other two are those of \<open>before-quit\<close>.
\<close>

datatype app_task = Close_saving nat "err + unit" | Close_disposing nat | Quit_saving "err + unit" | Quit_persisting

text \<open>
  \<open>ap_main\<close> is the main window with its number and place, \<open>ap_hash\<close> the last address that was sent to it.
\<close>

record app_state =
  ap_session :: session
  ap_open :: bool
  ap_main :: "(nat \<times> window_state) option"
  ap_next :: nat
  ap_saving :: bool
  ap_overlay :: "overlay option"
  ap_scheduler :: "scheduler option"
  ap_task :: "app_task option"
  ap_hash :: "string option"
  ap_exited :: bool

definition booted :: "session \<Rightarrow> window_state \<Rightarrow> window_bounds \<Rightarrow> app_state" where
  "booted s st place =
     \<lparr>ap_session = s, ap_open = True, ap_main = Some (0, st), ap_next = 1, ap_saving = False,
      ap_overlay = Some (create_overlay_manager s place), ap_scheduler = Some start_notices_scheduler,
      ap_task = None, ap_hash = None, ap_exited = False\<rparr>"

text \<open>The overlay works on the database of the app.\<close>

definition in_overlay :: "(overlay \<Rightarrow> overlay) \<Rightarrow> app_state \<Rightarrow> app_state" where
  "in_overlay f a =
     (case ap_overlay a of
        None \<Rightarrow> a
      | Some ov \<Rightarrow> (let ov' = f (ov\<lparr>ol_session := ap_session a\<rparr>) in a\<lparr>ap_session := ol_session ov', ap_overlay := Some ov'\<rparr>))"

definition overlay_window :: "app_state \<Rightarrow> bool" where
  "overlay_window a \<longleftrightarrow> (case ap_overlay a of None \<Rightarrow> False | Some ov \<Rightarrow> ol_shown ov \<noteq> None)"

section \<open>Closing and quitting\<close>

definition save_main :: "overlay_host \<Rightarrow> window_state \<Rightarrow> (err + unit \<Rightarrow> app_task) \<Rightarrow> app_state \<Rightarrow> app_state" where
  "save_main h st task a =
     (let (r, s) = persist_window_state (oh_desktop h) st (ap_session a)
      in a\<lparr>ap_saving := True, ap_session := s, ap_task := Some (task r)\<rparr>)"

text \<open>The \<open>close\<close> event of the main window: whether it was prevented, and what it did.\<close>

definition main_close_event :: "overlay_host \<Rightarrow> app_state \<Rightarrow> bool \<times> app_state" where
  "main_close_event h a =
     (case ap_main a of
        None \<Rightarrow> (False, a)
      | Some (i, st) \<Rightarrow>
          if ap_saving a \<or> \<not> ap_open a then (False, a\<lparr>ap_main := None\<rparr>) else (True, save_main h st (Close_saving i) a))"

text \<open>That of the overlay window, when all windows are closed.\<close>

definition overlay_close_event :: "overlay_host \<Rightarrow> app_state \<Rightarrow> bool \<times> app_state" where
  "overlay_close_event h a =
     (case ap_overlay a of
        None \<Rightarrow> (False, a)
      | Some ov \<Rightarrow>
          if ol_shown ov = None then (False, a)
          else if ol_quitting ov then (False, in_overlay (\<lambda>ov. ov\<lparr>ol_shown := None\<rparr>) a)
          else (True, in_overlay (hide h) a))"

definition will_quit :: "overlay_host \<Rightarrow> app_state \<Rightarrow> app_state" where
  "will_quit h a =
     (in_overlay (begin_dispose h) a)\<lparr>ap_overlay := None, ap_scheduler := None, ap_open := False, ap_exited := True\<rparr>"

definition close_all :: "overlay_host \<Rightarrow> app_state \<Rightarrow> app_state" where
  "close_all h a =
     (let (p1, a1) = main_close_event h a; (p2, a2) = overlay_close_event h a1
      in if p1 \<or> p2 then a2 else will_quit h a2)"

definition quit_app :: "overlay_host \<Rightarrow> app_state \<Rightarrow> app_state" where
  "quit_app h a =
     (case ap_main a of
        Some (i, st) \<Rightarrow> if \<not> ap_saving a \<and> ap_open a then save_main h st Quit_saving a else close_all h a
      | None \<Rightarrow> close_all h a)"

text \<open>\<open>window-all-closed\<close>, after the last window is gone.\<close>

definition all_closed :: "overlay_host \<Rightarrow> app_state \<Rightarrow> app_state" where
  "all_closed h a = (if ap_main a = None \<and> \<not> overlay_window a then quit_app h a else a)"

definition destroy_main :: "overlay_host \<Rightarrow> nat \<Rightarrow> app_state \<Rightarrow> app_state" where
  "destroy_main h i a =
     (case ap_main a of
        Some (j, st) \<Rightarrow> if j = i then all_closed h (a\<lparr>ap_main := None\<rparr>) else a
      | None \<Rightarrow> a)"

definition close_main :: "overlay_host \<Rightarrow> app_state \<Rightarrow> app_state" where
  "close_main h a =
     (let (prevented, b) = main_close_event h a in if prevented \<or> ap_main a = None then b else all_closed h b)"

text \<open>The end of \<open>dispose\<close> destroys the overlay window, which may have been the last one.\<close>

definition overlay_disposed :: "overlay_host \<Rightarrow> app_state \<Rightarrow> app_state" where
  "overlay_disposed h a =
     (let b = (in_overlay end_dispose a)\<lparr>ap_overlay := None\<rparr> in if overlay_window a then all_closed h b else b)"

fun resume :: "overlay_host \<Rightarrow> app_task \<Rightarrow> app_state \<Rightarrow> app_state" where
  "resume h (Close_saving i (Inr _)) a =
     (if ap_overlay a = None then destroy_main h i a
      else (in_overlay (begin_dispose h) a)\<lparr>ap_task := Some (Close_disposing i)\<rparr>)"
| "resume h (Close_saving i (Inl _)) a = destroy_main h i a"
| "resume h (Close_disposing i) a = (let b = overlay_disposed h a in if ap_exited b then b else destroy_main h i b)"
| "resume h (Quit_saving (Inr _)) a = (in_overlay (persist_state h) a)\<lparr>ap_task := Some Quit_persisting\<rparr>"
| "resume h (Quit_saving (Inl _)) a = quit_app h a"
| "resume h Quit_persisting a = quit_app h a"

section \<open>The channels that reach the windows and the scheduler\<close>

definition app_get_status :: "app_state \<Rightarrow> scheduler option" where
  "app_get_status a = ap_scheduler a"

definition app_toggle_overlay :: "overlay_host \<Rightarrow> app_state \<Rightarrow> app_state" where
  "app_toggle_overlay h = in_overlay (\<lambda>ov. set_enabled h (\<not> ol_enabled ov) ov)"

text \<open>
  \<open>showMainWindow\<close>: an existing window is brought to the front, else a new one is made at the stored place.
\<close>

definition show_main_window :: "overlay_host \<Rightarrow> string option \<Rightarrow> app_state \<Rightarrow> app_state" where
  "show_main_window h hash a =
     (let b = (case ap_main a of
                 Some _ \<Rightarrow> a
               | None \<Rightarrow>
                   (let (place, maximized) = restored_bounds (oh_desktop h) (se_db (ap_session a))
                    in a\<lparr>ap_main := Some (ap_next a, \<lparr>ws_bounds = place, ws_maximized = maximized\<rparr>), ap_next := ap_next a + 1\<rparr>))
      in (case hash of None \<Rightarrow> b | Some _ \<Rightarrow> b\<lparr>ap_hash := hash\<rparr>))"

definition app_show_main_window :: "overlay_host \<Rightarrow> jsval \<Rightarrow> app_state \<Rightarrow> app_state" where
  "app_show_main_window h v =
     show_main_window h (non_empty (map_option trim (str_of (field (as_record v) ''hash''))))"

definition notices_sync_now :: "app_state \<Rightarrow> err + app_state" where
  "notices_sync_now a =
     (case ap_scheduler a of
        None \<Rightarrow> Inl (Thrown ''scheduler_not_ready'')
      | Some sc \<Rightarrow> Inr (a\<lparr>ap_scheduler := Some (run_sync Manual sc)\<rparr>))"

definition activate :: "overlay_host \<Rightarrow> app_state \<Rightarrow> app_state" where
  "activate h a = (if ap_main a \<noteq> None \<or> overlay_window a then a else show_main_window h None a)"

text \<open>The status as it is sent, and how the shell reads it (\<open>App.tsx\<close>). Without a scheduler the answer is \<open>null\<close>.\<close>

fun reason_name :: "run_reason \<Rightarrow> string" where
  "reason_name Startup = ''startup''"
| "reason_name Interval = ''interval''"
| "reason_name Manual = ''manual''"

definition totals_fields :: "totals \<Rightarrow> (string \<times> jsval) list" where
  "totals_fields t = map (\<lambda>(k, n). (k, Num (num (int n))))
     [(''sources'', to_sources t), (''metasFetched'', to_metas_fetched t), (''detailsFetched'', to_details_fetched t),
      (''itemsUpserted'', to_items_upserted t), (''snapshotsInserted'', to_snapshots_inserted t),
      (''diffsInserted'', to_diffs_inserted t), (''skipped'', to_skipped t)]"

definition result_value :: "run_reason \<times> totals option \<Rightarrow> jsval" where
  "result_value = (\<lambda>(reason, t).
     Obj ((''reason'', Str (reason_name reason)) # (case t of None \<Rightarrow> [] | Some t \<Rightarrow> totals_fields t)))"

definition status_value :: "scheduler option \<Rightarrow> jsval" where
  "status_value s =
     (case s of
        None \<Rightarrow> Null
      | Some s \<Rightarrow> Obj [(''running'', Bool (sr_running s)), (''lastRunAt'', opt_str (sr_last_run_at s)),
          (''lastResult'', case sr_last_result s of None \<Rightarrow> Null | Some r \<Rightarrow> result_value r),
          (''lastError'', opt_str (sr_last_error s))])"

record view_status =
  vq_running :: bool
  vq_last_run_at :: "string option"
  vq_last_result :: jsval
  vq_last_error :: "string option"

definition as_scheduler_status :: "jsval \<Rightarrow> view_status option" where
  "as_scheduler_status v =
     (case field v ''running'' of
        Bool b \<Rightarrow> Some \<lparr>vq_running = b, vq_last_run_at = str_of (field v ''lastRunAt''),
          vq_last_result = (case field v ''lastResult'' of Undef \<Rightarrow> Null | r \<Rightarrow> r), vq_last_error = str_of (field v ''lastError'')\<rparr>
      | _ \<Rightarrow> None)"

section \<open>The steps of the app\<close>

datatype app_event =
    Close_main | Quit | Task_resumed | Show_main jsval | Activate | Main_moved window_state | Toggle_overlay
  | Overlay_event overlay_event | Sync_event event | Sync_now | Article_stored | Sync_saved | Ipc request

text \<open>
  Between the event of a window and the end of a task anything else may happen. The events by which the manager of
  the overlay is disposed belong to the tasks above.
\<close>

inductive app_step :: "overlay_host \<Rightarrow> app_state \<Rightarrow> app_event \<Rightarrow> app_state \<Rightarrow> bool" for h where
  close_main: "\<not> ap_exited a \<Longrightarrow> app_step h a Close_main (close_main h a)"
| quit: "\<not> ap_exited a \<Longrightarrow> app_step h a Quit (quit_app h a)"
| task: "\<not> ap_exited a \<Longrightarrow> ap_task a = Some t \<Longrightarrow> app_step h a Task_resumed (resume h t (a\<lparr>ap_task := None\<rparr>))"
| show_main: "\<not> ap_exited a \<Longrightarrow> app_step h a (Show_main v) (app_show_main_window h v a)"
| activate: "\<not> ap_exited a \<Longrightarrow> app_step h a Activate (activate h a)"
| main_moved: "\<not> ap_exited a \<Longrightarrow> ap_main a = Some (i, st) \<Longrightarrow>
    app_step h a (Main_moved st') (a\<lparr>ap_main := Some (i, st')\<rparr>)"
| toggle_overlay: "\<not> ap_exited a \<Longrightarrow> ap_overlay a = Some ov \<Longrightarrow> \<not> ol_quitting ov \<Longrightarrow>
    app_step h a Toggle_overlay (app_toggle_overlay h a)"
| overlay: "\<not> ap_exited a \<Longrightarrow> ap_overlay a = Some ov \<Longrightarrow> e \<noteq> Begin_dispose \<Longrightarrow> e \<noteq> End_dispose \<Longrightarrow>
    overlay_step h (ov\<lparr>ol_session := ap_session a\<rparr>) e ov' \<Longrightarrow>
    app_step h a (Overlay_event e)
      (let b = a\<lparr>ap_session := ol_session ov', ap_overlay := Some ov'\<rparr> in if overlay_window a then all_closed h b else b)"
| scheduler: "\<not> ap_exited a \<Longrightarrow> ap_scheduler a = Some sc \<Longrightarrow> sched_step sc e sc' \<Longrightarrow> e \<noteq> Stop \<Longrightarrow>
    app_step h a (Sync_event e) (a\<lparr>ap_scheduler := Some sc'\<rparr>)"
| sync_now: "\<not> ap_exited a \<Longrightarrow> notices_sync_now a = Inr a' \<Longrightarrow> app_step h a Sync_now a'"
| article: "\<not> ap_exited a \<Longrightarrow>
    app_step h a Article_stored (a\<lparr>ap_session := snd (on_db (store_detail sv ids clock source m detail t) (ap_session a))\<rparr>)"
| synced: "\<not> ap_exited a \<Longrightarrow> app_step h a Sync_saved (a\<lparr>ap_session := snd (save (ap_session a))\<rparr>)"
| ipc: "\<not> ap_exited a \<Longrightarrow> app_step h a (Ipc req) (a\<lparr>ap_session := snd (handle env req (ap_session a))\<rparr>)"

inductive_cases app_stepE: "app_step h a e a'"

inductive app_steps :: "overlay_host \<Rightarrow> app_state \<Rightarrow> app_event list \<Rightarrow> app_state \<Rightarrow> bool" for h where
  no_step: "app_steps h a [] a"
| more_steps: "app_step h a e b \<Longrightarrow> app_steps h b es c \<Longrightarrow> app_steps h a (e # es) c"

inductive_cases app_steps_ConsE: "app_steps h a (e # es) c"

end
