(* ===== verification/LifecycleFacts.thy ===== *)
theory LifecycleFacts
  imports Lifecycle
begin

text \<open>
  When the app ends: closing the main window ends it if the place of the window can be saved, and quitting while the
  overlay has a window, or closing the main window while the file cannot be written, leaves it running for good.
\<close>

section \<open>What the operations leave alone\<close>

lemma quitting_frame [simp]:
  "ol_quitting (persist_state h ov) = ol_quitting ov" "ol_quitting (show_inactive ov) = ol_quitting ov"
  by (simp_all add: persist_state_def show_inactive_def Let_def)

lemma quitting_hide [simp]: "ol_quitting (hide h ov) = ol_quitting ov"
  by (simp add: hide_def)

lemma quitting_visibility [simp]: "ol_quitting (update_visibility h ov) = ol_quitting ov"
  by (simp add: update_visibility_def)

lemma quitting_stop [simp]: "ol_quitting (stop_watcher ov) = ol_quitting ov" "ol_shown (stop_watcher ov) = ol_shown ov"
  by (simp_all add: stop_watcher_def)

lemma quitting_ready [simp]: "ol_quitting (window_ready h ov) = ol_quitting ov"
  by (simp add: window_ready_def ensure_watcher_def)

lemma shown_ready [simp]: "ol_shown (window_ready h ov) = None \<longleftrightarrow> ol_shown ov = None"
  by (auto simp: window_ready_def ensure_watcher_def)

lemma set_enabled_shown [simp]:
  "ol_shown (set_enabled h b ov) \<noteq> None" "ol_quitting (set_enabled h b ov) = ol_quitting ov"
  by (auto simp: set_enabled_def ensure_window_def split: option.split)

text \<open>Without a disposal the window of the overlay stays.\<close>

lemma overlay_step_window:
  assumes "overlay_step h ov e ov'" "e \<noteq> Begin_dispose" "e \<noteq> End_dispose"
  shows "ol_quitting ov' = ol_quitting ov" "\<not> ol_quitting ov \<Longrightarrow> ol_shown ov \<noteq> None \<Longrightarrow> ol_shown ov' \<noteq> None"
  using assms
  by (cases rule: overlay_step.cases; simp add: foreground_changed_def watcher_lost_def persisted_def)+

lemma in_overlay_simps [simp]:
  "ap_main (in_overlay f a) = ap_main a" "ap_saving (in_overlay f a) = ap_saving a" "ap_open (in_overlay f a) = ap_open a"
  "ap_task (in_overlay f a) = ap_task a" "ap_exited (in_overlay f a) = ap_exited a"
  "ap_overlay (in_overlay f a) = map_option (\<lambda>ov. f (ov\<lparr>ol_session := ap_session a\<rparr>)) (ap_overlay a)"
  by (simp_all add: in_overlay_def Let_def split: option.split)

lemma save_main_simps [simp]:
  "ap_main (save_main h st task a) = ap_main a" "ap_saving (save_main h st task a)" "ap_open (save_main h st task a) = ap_open a"
  "ap_task (save_main h st task a) = Some (task (fst (persist_window_state (oh_desktop h) st (ap_session a))))"
  "ap_exited (save_main h st task a) = ap_exited a" "ap_overlay (save_main h st task a) = ap_overlay a"
  by (simp_all add: save_main_def split: prod.split)

lemma show_main_simps [simp]:
  "ap_saving (show_main_window h hash a) = ap_saving a" "ap_open (show_main_window h hash a) = ap_open a"
  "ap_task (show_main_window h hash a) = ap_task a" "ap_exited (show_main_window h hash a) = ap_exited a"
  "ap_overlay (show_main_window h hash a) = ap_overlay a" "ap_main (show_main_window h hash a) \<noteq> None"
  by (auto simp: show_main_window_def Let_def split: option.split prod.split)

text \<open>Whether the place of the main window is saved depends on the disk only.\<close>

lemma saved_place: "isl (fst (persist_window_state dp st s)) \<longleftrightarrow> se_disk s \<noteq> None"
proof -
  let ?m = "set_setting ''mainWindowState'' (Some (dp_text dp (window_state_json st)))"
  obtain d where "?m (se_db s) = (Inr (), d)" using set_setting_never_fails by (metis prod.collapse)
  then show ?thesis
    by (auto simp: persist_window_state_def then_save_def and_then_apply on_db_def save_def ret_apply Let_def split: option.split)
qed

text \<open>The shell reads the status that is sent, and the overlay opens the page of its tab in the main window.\<close>

lemma status_read:
  "as_scheduler_status (status_value (app_get_status a)) = map_option (\<lambda>s. \<lparr>vq_running = sr_running s,
     vq_last_run_at = sr_last_run_at s, vq_last_result = (case sr_last_result s of None \<Rightarrow> Null | Some r \<Rightarrow> result_value r),
     vq_last_error = sr_last_error s\<rparr>) (ap_scheduler a)"
  by (auto simp: as_scheduler_status_def status_value_def app_get_status_def result_value_def opt_str_def
      split: option.split)

lemma overlay_opens_its_page:
  "\<exists>hash. ap_hash (app_show_main_window h (Obj [(''hash'', Str (open_main_hash tab))]) a) = Some hash
     \<and> parse_route repair (normalized_hash hash) = tab_page tab"
proof -
  have "trim (open_main_hash tab) = open_main_hash tab" by (cases tab) (simp_all add: trim_graphic graphic_def)
  moreover have "open_main_hash tab \<noteq> []" by (cases tab) simp_all
  ultimately have "non_empty (map_option trim (str_of (field (as_record (Obj [(''hash'', Str (open_main_hash tab))])) ''hash'')))
      = Some (open_main_hash tab)"
    by (simp add: as_record_def)
  then show ?thesis
    by (simp only: app_show_main_window_def) (simp add: show_main_window_def Let_def open_main_opens_page)
qed

section \<open>The app is held open\<close>

definition held :: "overlay \<Rightarrow> bool" where
  "held ov \<longleftrightarrow> ol_shown ov \<noteq> None \<and> \<not> ol_quitting ov"

fun disposes :: "app_task \<Rightarrow> bool" where
  "disposes (Close_saving i r) \<longleftrightarrow> \<not> isl r"
| "disposes (Close_disposing i) \<longleftrightarrow> True"
| "disposes _ \<longleftrightarrow> False"

text \<open>
  The overlay has a window that prevents its closing, \<open>savingWindowState\<close> is set, and no task is going to dispose the
  overlay.
\<close>

definition held_open :: "app_state \<Rightarrow> bool" where
  "held_open a \<longleftrightarrow> \<not> ap_exited a \<and> ap_saving a \<and> (\<exists>ov. ap_overlay a = Some ov \<and> held ov)
     \<and> (\<forall>t. ap_task a = Some t \<longrightarrow> \<not> disposes t)"

lemma held_in_overlay:
  "held_open a \<Longrightarrow> (\<And>ov. held ov \<Longrightarrow> held (f ov)) \<Longrightarrow> held_open (in_overlay f a)"
  by (auto simp: held_open_def held_def)

lemma held_hide [simp]: "held (hide h ov) = held ov"
  by (auto simp: held_def)

lemma held_persist [simp]: "held (persist_state h ov) = held ov"
  by (auto simp: held_def)

lemma held_enabled [simp]: "held (set_enabled h b ov) = (\<not> ol_quitting ov)"
  by (auto simp: held_def)

lemma held_window: "held_open a \<Longrightarrow> overlay_window a"
  by (auto simp: held_open_def held_def overlay_window_def)

lemma held_all_closed: "held_open a \<Longrightarrow> all_closed h a = a"
  using held_window by (simp add: all_closed_def)

lemma held_no_main: "held_open a \<Longrightarrow> held_open (a\<lparr>ap_main := m\<rparr>)"
  by (simp add: held_open_def)

lemma held_close_event: "held_open a \<Longrightarrow> held_open (snd (main_close_event h a))"
  by (auto simp: main_close_event_def held_no_main split: option.split) (simp add: held_open_def)

lemma held_overlay_event: "held_open a \<Longrightarrow> fst (overlay_close_event h a) \<and> held_open (snd (overlay_close_event h a))"
proof -
  assume a: "held_open a"
  then obtain ov where ov: "ap_overlay a = Some ov" "ol_shown ov \<noteq> None" "\<not> ol_quitting ov" by (auto simp: held_open_def held_def)
  have "held_open (in_overlay (hide h) a)" using a by (rule held_in_overlay) simp
  with ov show ?thesis by (simp add: overlay_close_event_def)
qed

lemma held_quit: "held_open a \<Longrightarrow> held_open (quit_app h a)"
proof -
  assume a: "held_open a"
  obtain p1 a1 where first: "main_close_event h a = (p1, a1)" by (cases "main_close_event h a")
  obtain p2 a2 where second: "overlay_close_event h a1 = (p2, a2)" by (cases "overlay_close_event h a1")
  have "held_open a1" using held_close_event [OF a, of h] first by simp
  then have "p2 \<and> held_open a2" using held_overlay_event [of a1 h] second by simp
  then have "held_open (close_all h a)" by (simp add: close_all_def first second)
  moreover have "ap_saving a" using a by (simp add: held_open_def)
  ultimately show ?thesis by (auto simp: quit_app_def split: option.split)
qed

lemma held_destroy: "held_open a \<Longrightarrow> held_open (destroy_main h i a)"
  by (auto simp: destroy_main_def held_no_main held_all_closed split: option.split)

lemma held_resume: "held_open a \<Longrightarrow> ap_task a = Some t \<Longrightarrow> held_open (resume h t (a\<lparr>ap_task := None\<rparr>))"
proof -
  assume a: "held_open a" and t: "ap_task a = Some t"
  have idle: "held_open (a\<lparr>ap_task := None\<rparr>)" using a by (simp add: held_open_def)
  have "\<not> disposes t" using a t by (simp add: held_open_def)
  then show ?thesis
  proof (cases "(h, t, a)" rule: resume.cases)
    case (4 h i' a')
    have "held_open (in_overlay (persist_state h) (a\<lparr>ap_task := None\<rparr>))" using idle by (rule held_in_overlay) simp
    with 4 show ?thesis by (auto simp: held_open_def)
  qed (auto intro: held_destroy held_quit idle)
qed

lemma held_step: "app_step h a e b \<Longrightarrow> held_open a \<Longrightarrow> held_open b"
proof (induction rule: app_step.induct)
  case (close_main a)
  obtain p b where "main_close_event h a = (p, b)" by (cases "main_close_event h a")
  with held_close_event [OF close_main.prems, of h] show ?case by (simp add: close_main_def held_all_closed)
next
  case (quit a)
  then show ?case by (simp add: held_quit)
next
  case (task a t)
  then show ?case by (simp add: held_resume)
next
  case (toggle_overlay a ov)
  then show ?case unfolding app_toggle_overlay_def by (intro held_in_overlay) (simp_all, simp add: held_def)
next
  case (overlay a ov e ov')
  have "held ov" using overlay.prems overlay.hyps(2) by (simp add: held_open_def)
  then have "held ov'" using overlay_step_window [OF overlay.hyps(5,3,4)] by (simp add: held_def)
  then have "held_open (a\<lparr>ap_session := ol_session ov', ap_overlay := Some ov'\<rparr>)"
    using overlay.prems by (simp add: held_open_def)
  then show ?case by (simp add: Let_def held_all_closed)
next
  case (show_main a v)
  then show ?case by (simp add: app_show_main_window_def held_open_def)
next
  case (activate a)
  then show ?case by (simp add: activate_def held_window)
next
  case (sync_now a a')
  then show ?case by (auto simp: notices_sync_now_def held_open_def split: option.splits)
qed (simp_all add: held_open_def)

lemma held_steps: "app_steps h a es b \<Longrightarrow> held_open a \<Longrightarrow> held_open b"
  by (induction rule: app_steps.induct) (auto dest: held_step)

section \<open>Before anything is closed\<close>

text \<open>
  Until \<open>savingWindowState\<close> is set the database is open, there is a main window and no task, and the manager of the
  overlay is not disposed.
\<close>

definition untouched :: "app_state \<Rightarrow> bool" where
  "untouched a \<longleftrightarrow> ap_open a \<and> \<not> ap_exited a \<and> ap_main a \<noteq> None \<and> ap_task a = None
     \<and> (\<exists>ov. ap_overlay a = Some ov \<and> \<not> ol_quitting ov)"

lemma all_closed_main: "ap_main a \<noteq> None \<Longrightarrow> all_closed h a = a"
  by (auto simp: all_closed_def)

lemma untouched_in_overlay:
  "untouched a \<Longrightarrow> (\<And>ov. ol_quitting (f ov) = ol_quitting ov) \<Longrightarrow> untouched (in_overlay f a)"
  by (auto simp: untouched_def)

lemma saving_simps [simp]:
  "ap_saving a \<Longrightarrow> ap_saving (snd (main_close_event h a))" "ap_saving (snd (overlay_close_event h a)) = ap_saving a"
  "ap_saving (will_quit h a) = ap_saving a"
  by (auto simp: main_close_event_def overlay_close_event_def will_quit_def split: option.split)

lemma saving_quit [simp]: "ap_saving a \<Longrightarrow> ap_saving (quit_app h a)"
proof -
  assume a: "ap_saving a"
  obtain p1 a1 where first: "main_close_event h a = (p1, a1)" by (cases "main_close_event h a")
  obtain p2 a2 where second: "overlay_close_event h a1 = (p2, a2)" by (cases "overlay_close_event h a1")
  have "ap_saving a2" using saving_simps(1) [OF a, of h] saving_simps(2) [of h a1] by (simp add: first second)
  then show ?thesis using a by (simp add: quit_app_def close_all_def first second split: option.split)
qed

lemma saving_destroy [simp]: "ap_saving a \<Longrightarrow> ap_saving (all_closed h a)" "ap_saving a \<Longrightarrow> ap_saving (destroy_main h i a)"
  by (auto simp: all_closed_def destroy_main_def split: option.split)

lemma saving_resume [simp]: "ap_saving a \<Longrightarrow> ap_saving (resume h t a)"
  by (cases "(h, t, a)" rule: resume.cases) (simp_all add: overlay_disposed_def Let_def)

lemma saving_step: "app_step h a e b \<Longrightarrow> ap_saving a \<Longrightarrow> ap_saving b"
proof (induction rule: app_step.induct)
  case (close_main a)
  obtain p b where "main_close_event h a = (p, b)" by (cases "main_close_event h a")
  with saving_simps(1) [OF close_main.prems, of h] show ?case by (simp add: close_main_def)
next
  case (sync_now a a')
  then show ?case by (auto simp: notices_sync_now_def split: option.splits)
qed (simp_all add: app_show_main_window_def activate_def app_toggle_overlay_def Let_def)

lemma untouched_step: "app_step h a e b \<Longrightarrow> untouched a \<Longrightarrow> \<not> ap_saving a \<Longrightarrow> ap_saving b \<or> untouched b"
proof (induction rule: app_step.induct)
  case (close_main a)
  then show ?case by (auto simp: close_main_def main_close_event_def untouched_def)
next
  case (quit a)
  then show ?case by (auto simp: quit_app_def untouched_def)
next
  case (show_main a v)
  then show ?case by (simp add: app_show_main_window_def untouched_def)
next
  case (activate a)
  then show ?case by (simp add: activate_def untouched_def)
next
  case (toggle_overlay a ov)
  then show ?case unfolding app_toggle_overlay_def by (intro disjI2 untouched_in_overlay) simp_all
next
  case (overlay a ov e ov')
  have "\<not> ol_quitting ov'" using overlay_step_window(1) [OF overlay.hyps(5,3,4)] overlay.hyps(2) overlay.prems
    by (simp add: untouched_def)
  then have "untouched (a\<lparr>ap_session := ol_session ov', ap_overlay := Some ov'\<rparr>)" using overlay.prems
    by (simp add: untouched_def)
  moreover have "ap_main (a\<lparr>ap_session := ol_session ov', ap_overlay := Some ov'\<rparr>) \<noteq> None"
    using overlay.prems by (simp add: untouched_def)
  ultimately show ?case by (simp add: Let_def all_closed_main)
next
  case (sync_now a a')
  then show ?case by (auto simp: notices_sync_now_def untouched_def split: option.splits)
qed (auto simp: untouched_def)

lemma steps_untouched: "app_steps h a es b \<Longrightarrow> ap_saving a \<or> untouched a \<Longrightarrow> ap_saving b \<or> untouched b"
  by (induction rule: app_steps.induct) (use saving_step untouched_step in blast)+

lemma booted_start: "untouched (booted s st place)"
  by (simp add: booted_def untouched_def create_overlay_manager_def)

lemma booted_untouched: "app_steps h (booted s st place) es a \<Longrightarrow> \<not> ap_saving a \<Longrightarrow> untouched a"
  using steps_untouched [of h "booted s st place" es a] booted_start [of s st place] by blast

section \<open>Quitting with an overlay\<close>

text \<open>
  C12. Once the overlay has a window, quitting the app does not end it: the close event of that window is prevented, since
  only \<open>dispose\<close> lifts this, and quitting does not call it. The process goes on whatever happens afterwards. The
  same holds after the main window was closed while the file could not be written.
\<close>

theorem overlay_holds_app_open:
  assumes "app_steps h (booted s st place) es a" "\<not> ap_saving a" "overlay_window a"
    and "app_steps h a (e # later) b" "e = Quit \<or> e = Close_main \<and> se_disk (ap_session a) \<noteq> None"
  shows "\<not> ap_exited b \<and> overlay_window b"
proof -
  from assms(4) obtain c where step: "app_step h a e c" and rest: "app_steps h c later b" by (rule app_steps_ConsE)
  have "untouched a" by (rule booted_untouched [OF assms(1,2)])
  then obtain i st' ov where a: "ap_open a" "ap_main a = Some (i, st')" "\<not> ap_exited a" "ap_task a = None"
      "ap_overlay a = Some ov" "\<not> ol_quitting ov"
    by (auto simp: untouched_def)
  have "held ov" using assms(3) a(5,6) by (simp add: overlay_window_def held_def)
  then have saving: "held_open (save_main h st' task a)"
      if "\<not> disposes (task (fst (persist_window_state (oh_desktop h) st' (ap_session a))))" for task
    using a that by (auto simp: held_open_def)
  have "held_open c"
    using assms(5)
  proof
    assume "e = Quit"
    with step have "c = quit_app h a" by (auto elim: app_stepE)
    then have "c = save_main h st' Quit_saving a" using a assms(2) by (simp add: quit_app_def)
    then show ?thesis using saving [of Quit_saving] by simp
  next
    assume e: "e = Close_main \<and> se_disk (ap_session a) \<noteq> None"
    with step have "c = close_main h a" by (auto elim: app_stepE)
    then have "c = save_main h st' (Close_saving i) a" using a assms(2) by (simp add: close_main_def main_close_event_def)
    then show ?thesis using saving [of "Close_saving i"] e by (simp add: saved_place)
  qed
  with rest have "held_open b" by (rule held_steps)
  then show ?thesis using held_window by (simp add: held_open_def)
qed

section \<open>Closing the main window\<close>

text \<open>No window is left: quitting ends the process.\<close>

lemma quit_without_windows: "ap_main a = None \<Longrightarrow> \<not> overlay_window a \<Longrightarrow> ap_exited (quit_app h a)"
  by (auto simp: quit_app_def close_all_def main_close_event_def overlay_close_event_def overlay_window_def will_quit_def
      split: option.split)

lemma all_closed_exits: "ap_exited (all_closed h a) \<or> (all_closed h a = a \<and> (ap_main a \<noteq> None \<or> overlay_window a))"
  by (auto simp: all_closed_def quit_without_windows)

text \<open>
  The stages of the way out: the place is being saved (2), the overlay is being disposed (1), and the process has
  ended (0). Until then there is a window, and the main window is the one that is closing, if it is still there.
\<close>

definition main_is :: "nat \<Rightarrow> app_state \<Rightarrow> bool" where
  "main_is i a \<longleftrightarrow> (ap_main a = None \<or> (\<exists>st. ap_main a = Some (i, st))) \<and> (ap_main a \<noteq> None \<or> overlay_window a)"

definition leaving :: "nat \<Rightarrow> app_state \<Rightarrow> bool" where
  "leaving n a \<longleftrightarrow> ap_exited a \<or> ap_saving a \<and> (\<exists>i. main_is i a
     \<and> (n = 2 \<and> ap_task a = Some (Close_saving i (Inr ())) \<or> n = 1 \<and> ap_task a = Some (Close_disposing i)))"

lemma leaving_all_closed:
  assumes "leaving n a" "b = a\<lparr>ap_main := None\<rparr>"
  shows "leaving n (all_closed h b)"
  using assms all_closed_exits [of h b] by (auto simp: leaving_def main_is_def overlay_window_def)

lemma leaving_in_overlay:
  assumes "leaving n a" "\<And>ov. ol_shown ov \<noteq> None \<Longrightarrow> ol_shown (f ov) \<noteq> None"
  shows "leaving n (in_overlay f a)"
  using assms by (auto simp: leaving_def main_is_def overlay_window_def split: option.splits)

lemma leaving_quit:
  assumes "leaving n a" "\<not> ap_exited a"
  shows "leaving n (quit_app h a)"
proof -
  have saving: "ap_saving a" using assms by (simp add: leaving_def)
  let ?b = "a\<lparr>ap_main := None\<rparr>"
  have event: "main_close_event h a = (False, ?b)"
    using saving by (cases "ap_main a") (auto simp: main_close_event_def)
  have "leaving n (if fst (overlay_close_event h ?b) then snd (overlay_close_event h ?b)
      else will_quit h (snd (overlay_close_event h ?b)))"
  proof (cases "\<exists>ov. ap_overlay a = Some ov \<and> held ov")
    case True
    then have "leaving n ?b" using assms by (auto simp: leaving_def main_is_def overlay_window_def held_def)
    then have "leaving n (in_overlay (hide h) ?b)" by (rule leaving_in_overlay) simp
    with True show ?thesis by (auto simp: overlay_close_event_def held_def)
  next
    case False
    then have "\<not> fst (overlay_close_event h ?b)" by (auto simp: overlay_close_event_def held_def split: option.split)
    then show ?thesis by (simp add: leaving_def will_quit_def)
  qed
  then have "leaving n (close_all h a)"
    by (cases "overlay_close_event h ?b") (simp add: close_all_def event split: if_splits)
  then show ?thesis using saving by (simp add: quit_app_def split: option.split)
qed

lemma destroy_last: "\<not> overlay_window a \<Longrightarrow> ap_main a = Some (i, st) \<Longrightarrow> ap_exited (destroy_main h i a)"
  by (simp add: destroy_main_def all_closed_def quit_without_windows overlay_window_def)

lemma begin_dispose_shown [simp]: "ol_shown (begin_dispose h ov) = ol_shown ov"
  by (simp add: begin_dispose_def)

lemma saving_resumed:
  assumes "main_is i a" "ap_saving a" "ap_task a = None"
  shows "leaving 1 (resume h (Close_saving i (Inr ())) a)"
proof (cases "ap_overlay a")
  case None
  then have "\<not> overlay_window a" by (simp add: overlay_window_def)
  with assms(1) None destroy_last [of a i] show ?thesis by (auto simp: main_is_def leaving_def)
next
  case (Some ov)
  with assms show ?thesis
    by (auto simp: leaving_def main_is_def overlay_window_def)
qed

lemma disposing_resumed:
  assumes "main_is i a" "\<not> ap_exited a"
  shows "ap_exited (resume h (Close_disposing i) a)"
proof -
  define b where "b = (in_overlay end_dispose a)\<lparr>ap_overlay := None\<rparr>"
  have b: "\<not> overlay_window b" "ap_main b = ap_main a" by (simp_all add: b_def overlay_window_def)
  show ?thesis
  proof (cases "ap_main a")
    case None
    with assms(1) have "overlay_window a" by (simp add: main_is_def)
    then have "overlay_disposed h a = quit_app h b" using b None by (simp add: overlay_disposed_def b_def [symmetric] all_closed_def Let_def)
    then show ?thesis using b None by (simp add: quit_without_windows)
  next
    case (Some x)
    then obtain st where main: "ap_main b = Some (i, st)" using assms(1) b(2) by (auto simp: main_is_def)
    then have "overlay_disposed h a = b" by (simp add: overlay_disposed_def b_def [symmetric] all_closed_def Let_def)
    then show ?thesis using destroy_last [OF b(1) main] by (simp add: Let_def)
  qed
qed

lemma leaving_resumed:
  assumes "leaving n a" "\<not> ap_exited a" "ap_task a = Some t"
  shows "leaving (n - 1) (resume h t (a\<lparr>ap_task := None\<rparr>))"
proof -
  from assms obtain i where i: "main_is i a" "ap_saving a"
    and t: "n = 2 \<and> t = Close_saving i (Inr ()) \<or> n = 1 \<and> t = Close_disposing i"
    by (auto simp: leaving_def)
  have idle: "main_is i (a\<lparr>ap_task := None\<rparr>)" using i(1) by (simp add: main_is_def overlay_window_def)
  from t show ?thesis
  proof
    assume "n = 2 \<and> t = Close_saving i (Inr ())"
    with saving_resumed [OF idle] i(2) show ?thesis by simp
  next
    assume "n = 1 \<and> t = Close_disposing i"
    with disposing_resumed [OF idle] assms(2) show ?thesis by (simp add: leaving_def)
  qed
qed

definition opens_main :: "app_event \<Rightarrow> bool" where
  "opens_main e \<longleftrightarrow> e = Activate \<or> (\<exists>v. e = Show_main v)"

lemma leaving_step:
  "app_step h a e b \<Longrightarrow> leaving n a \<Longrightarrow> \<not> opens_main e \<Longrightarrow> leaving (if e = Task_resumed then n - 1 else n) b"
proof (induction rule: app_step.induct)
  case (close_main a)
  then have "ap_saving a" by (simp add: leaving_def)
  then have "close_main h a = (if ap_main a = None then a else all_closed h (a\<lparr>ap_main := None\<rparr>))"
    by (auto simp: close_main_def main_close_event_def split: option.split)
  then show ?case using close_main.prems leaving_all_closed by simp
next
  case (quit a)
  then show ?case by (simp add: leaving_quit)
next
  case (task a t)
  then show ?case using leaving_resumed [of n a t h] by simp
next
  case (main_moved a i st st')
  then show ?case by (auto simp: leaving_def main_is_def overlay_window_def)
next
  case (toggle_overlay a ov)
  have "leaving n (in_overlay (\<lambda>ov. set_enabled h (\<not> ol_enabled ov) ov) a)"
    by (rule leaving_in_overlay [OF toggle_overlay.prems(1)]) (rule set_enabled_shown(1))
  then show ?case by (simp add: app_toggle_overlay_def)
next
  case (overlay a ov e ov')
  let ?b = "a\<lparr>ap_session := ol_session ov', ap_overlay := Some ov'\<rparr>"
  have "leaving n ?b \<or> ap_main ?b = None \<and> \<not> overlay_window ?b \<and> overlay_window a"
    using overlay.prems overlay.hyps(1) by (auto simp: leaving_def main_is_def overlay_window_def)
  then have "leaving n (if overlay_window a then all_closed h ?b else ?b)"
    using all_closed_exits [of h ?b] by (auto simp: leaving_def)
  then show ?case by (simp add: Let_def)
next
  case (sync_now a a')
  then show ?case by (auto simp: notices_sync_now_def leaving_def main_is_def overlay_window_def split: option.splits)
qed (auto simp: leaving_def main_is_def overlay_window_def opens_main_def)

lemma leaving_steps:
  "app_steps h a es b \<Longrightarrow> leaving n a \<Longrightarrow> list_all (\<lambda>e. \<not> opens_main e) es \<Longrightarrow>
   leaving (n - length (filter (\<lambda>e. e = Task_resumed) es)) b"
proof (induction arbitrary: n rule: app_steps.induct)
  case (more_steps a e b es c)
  from leaving_step [OF more_steps.hyps(1) more_steps.prems(1)] more_steps.prems(2)
  have "leaving (if e = Task_resumed then n - 1 else n) b" by simp
  from more_steps.IH [OF this] more_steps.prems(2) show ?case by (auto split: if_splits)
qed simp

text \<open>
  C11. The first time the main window is closed, before any quitting, ends the app if the file can be written: whatever
  happens before, and whatever happens meanwhile - requests, a synchronisation, events of the overlay, another click,
  quitting - as long as the main window is not asked for again, the process ends at the latest when two more awaited calls
  have returned, and until it has ended, one is awaited. The lemma \<open>reopened_window_stays\<close> shows what happens if it is
  asked for again.
\<close>

theorem closing_main_window_exits:
  assumes "app_steps h (booted s st place) es a" "\<not> ap_saving a" "se_disk (ap_session a) = None"
    and "app_steps h a (Close_main # later) b" "list_all (\<lambda>e. \<not> opens_main e) later"
  shows "ap_exited b \<or> (\<exists>c. app_step h b Task_resumed c) \<and> length (filter (\<lambda>e. e = Task_resumed) later) < 2"
proof -
  from assms(4) obtain c where step: "app_step h a Close_main c" and rest: "app_steps h c later b" by (rule app_steps_ConsE)
  have "untouched a" by (rule booted_untouched [OF assms(1,2)])
  then obtain i st' where a: "ap_open a" "ap_main a = Some (i, st')" "\<not> ap_exited a" by (auto simp: untouched_def)
  have "c = close_main h a" using step by (auto elim: app_stepE)
  then have "c = save_main h st' (Close_saving i) a" using a assms(2) by (simp add: close_main_def main_close_event_def)
  moreover have "fst (persist_window_state (oh_desktop h) st' (ap_session a)) = Inr ()"
    using saved_place [of "oh_desktop h" st' "ap_session a"] assms(3)
    by (cases "fst (persist_window_state (oh_desktop h) st' (ap_session a))") auto
  ultimately have "leaving 2 c" using a by (auto simp: leaving_def main_is_def)
  from leaving_steps [OF rest this assms(5)]
  have b: "leaving (2 - length (filter (\<lambda>e. e = Task_resumed) later)) b" .
  show ?thesis
  proof (cases "ap_exited b")
    case False
    with b obtain t where "ap_task b = Some t" and "length (filter (\<lambda>e. e = Task_resumed) later) < 2" by (auto simp: leaving_def)
    then show ?thesis using app_step.task [OF False] by blast
  qed simp
qed

text \<open>
  A main window that is closed twice, the second time while its place is being saved, and then asked for from the overlay
  stays open: the first closing goes on to dispose the overlay and destroys only the window it was for. The app then runs
  without its overlay, which cannot be switched on again, and nothing is awaited any more.
\<close>

lemma shown_anew:
  "ap_main a = None \<Longrightarrow> \<exists>st. ap_main (show_main_window h hash a) = Some (ap_next a, st)"
  by (auto simp: show_main_window_def Let_def split: option.split prod.split)

lemma save_main_next [simp]: "ap_next (save_main h st t a) = ap_next a"
  by (simp add: save_main_def split: prod.split)

lemma reopened_window_stays:
  assumes "ap_main a = Some (i, st)" "i < ap_next a" "\<not> ap_exited a" "\<not> ap_saving a" "ap_open a" "overlay_window a"
    and "se_disk (ap_session a) = None"
  shows "\<exists>c. app_steps h a [Close_main, Close_main, Show_main v, Task_resumed, Task_resumed] c
    \<and> \<not> ap_exited c \<and> ap_main c \<noteq> None \<and> ap_overlay c = None \<and> ap_task c = None"
proof -
  let ?r = "fst (persist_window_state (oh_desktop h) st (ap_session a))"
  define a1 where "a1 = save_main h st (Close_saving i) a"
  have r: "\<not> isl ?r" using saved_place [of "oh_desktop h" st "ap_session a"] assms(7) by simp
  obtain ov where ov: "ap_overlay a = Some ov" "ol_shown ov \<noteq> None"
    using assms(6) by (auto simp: overlay_window_def split: option.splits)
  have a1: "ap_main a1 = Some (i, st)" "ap_saving a1" "\<not> ap_exited a1" "ap_task a1 = Some (Close_saving i ?r)"
    "ap_overlay a1 = Some ov" "ap_next a1 = ap_next a" using assms ov by (simp_all add: a1_def)
  have "close_main h a = a1" using assms by (simp add: close_main_def main_close_event_def a1_def)
  then have one: "app_step h a Close_main a1" using app_step.close_main [of a h] assms(3) by simp
  define a2 where "a2 = a1\<lparr>ap_main := None\<rparr>"
  have "close_main h a1 = a2" using a1 ov by (simp add: close_main_def main_close_event_def a2_def all_closed_def overlay_window_def)
  then have two: "app_step h a1 Close_main a2" using app_step.close_main [of a1 h] a1(3) by simp
  define a3 where "a3 = app_show_main_window h v a2"
  obtain st' where a3: "ap_main a3 = Some (ap_next a, st')" "\<not> ap_exited a3" "ap_task a3 = Some (Close_saving i ?r)"
    "ap_overlay a3 = Some ov"
    using shown_anew [of a2 h] a1 by (auto simp: a3_def app_show_main_window_def a2_def)
  have three: "app_step h a2 (Show_main v) a3" unfolding a3_def by (rule app_step.show_main) (simp add: a2_def a1)
  define a4 where "a4 = (in_overlay (begin_dispose h) (a3\<lparr>ap_task := None\<rparr>))\<lparr>ap_task := Some (Close_disposing i)\<rparr>"
  have "resume h (Close_saving i ?r) (a3\<lparr>ap_task := None\<rparr>) = a4"
    using r a3 by (cases ?r) (simp_all add: a4_def)
  then have four: "app_step h a3 Task_resumed a4" using app_step.task [OF a3(2,3), of h] by simp
  define a5 where "a5 = resume h (Close_disposing i) (a4\<lparr>ap_task := None\<rparr>)"
  have "app_step h a4 Task_resumed a5" unfolding a5_def by (rule app_step.task) (simp_all add: a4_def a3)
  with one two three four have "app_steps h a [Close_main, Close_main, Show_main v, Task_resumed, Task_resumed] a5"
    by (blast intro: more_steps no_step)
  moreover have "\<not> ap_exited a5 \<and> ap_main a5 \<noteq> None \<and> ap_overlay a5 = None \<and> ap_task a5 = None"
    using a3 assms(2)
    by (auto simp: a5_def a4_def overlay_disposed_def all_closed_def destroy_main_def Let_def)
  ultimately show ?thesis by blast
qed

text \<open>The app runs, and the main window is closed; or the overlay was switched on and the user quits.\<close>

definition running_app :: app_state where
  "running_app = booted \<lparr>se_db = empty_db False, se_file = None, se_exports = [], se_disk = None\<rparr> sample_place (ws_bounds sample_place)"

lemma running_app: "ap_exited running_app = False" "ap_saving running_app = False" "se_disk (ap_session running_app) = None"
    "ap_main running_app = Some (0, sample_place)" "ap_open running_app"
    "ap_overlay running_app = Some (create_overlay_manager (ap_session running_app) (ws_bounds sample_place))"
  by (simp_all add: running_app_def booted_def)

theorem closing_main_window_exits_witness:
  "\<exists>b. app_steps sample_overlay_host running_app [Close_main, Task_resumed, Task_resumed] b \<and> ap_exited b"
proof -
  let ?h = sample_overlay_host
  let ?a = "save_main ?h sample_place (Close_saving 0) running_app"
  let ?b = "resume ?h (Close_saving 0 (Inr ())) (?a\<lparr>ap_task := None\<rparr>)"
  let ?c = "resume ?h (Close_disposing 0) (?b\<lparr>ap_task := None\<rparr>)"
  have saved: "fst (persist_window_state (oh_desktop ?h) sample_place (ap_session running_app)) = Inr ()"
    using saved_place [of "oh_desktop ?h" sample_place "ap_session running_app"] running_app(3)
    by (cases "fst (persist_window_state (oh_desktop ?h) sample_place (ap_session running_app))") auto
  have "close_main ?h running_app = ?a" using running_app by (simp add: close_main_def main_close_event_def)
  then have one: "app_step ?h running_app Close_main ?a" using app_step.close_main [of running_app ?h] running_app(1) by simp
  have two: "app_step ?h ?a Task_resumed ?b" by (rule app_step.task) (simp_all add: running_app saved)
  have three: "app_step ?h ?b Task_resumed ?c" by (rule app_step.task) (simp_all add: running_app)
  have steps: "app_steps ?h running_app [Close_main, Task_resumed, Task_resumed] ?c"
    by (rule more_steps [OF one more_steps [OF two more_steps [OF three no_step]]])
  have "ap_exited ?c \<or> (\<exists>d. app_step ?h ?c Task_resumed d) \<and> length (filter (\<lambda>e. e = Task_resumed) [Task_resumed, Task_resumed]) < 2"
    by (rule closing_main_window_exits [OF no_step [of ?h running_app, unfolded running_app_def]])
      (use running_app steps in \<open>simp_all add: running_app_def opens_main_def\<close>)
  with steps show ?thesis by auto
qed

theorem overlay_holds_app_open_witness:
  "\<exists>a b. app_steps sample_overlay_host running_app [Toggle_overlay] a \<and> app_steps sample_overlay_host a [Quit, Task_resumed] b
     \<and> \<not> ap_exited b"
proof -
  let ?h = sample_overlay_host
  let ?a = "app_toggle_overlay ?h running_app"
  let ?b = "save_main ?h sample_place Quit_saving ?a"
  let ?r = "fst (persist_window_state (oh_desktop ?h) sample_place (ap_session ?a))"
  let ?c = "resume ?h (Quit_saving ?r) (?b\<lparr>ap_task := None\<rparr>)"
  have toggled: "ap_exited ?a = False" "ap_saving ?a = False" "ap_open ?a" "ap_main ?a = Some (0, sample_place)"
      "overlay_window ?a"
    using running_app set_enabled_shown(1) by (simp_all add: app_toggle_overlay_def overlay_window_def)
  have "app_step ?h running_app Toggle_overlay ?a"
    by (rule app_step.toggle_overlay [OF _ running_app(6)]) (simp_all add: running_app create_overlay_manager_def)
  then have on: "app_steps ?h running_app [Toggle_overlay] ?a" by (rule more_steps [OF _ no_step])
  have "quit_app ?h ?a = ?b" using toggled by (simp add: quit_app_def)
  then have "app_step ?h ?a Quit ?b" using app_step.quit [of ?a ?h] toggled(1) by simp
  moreover have "app_step ?h ?b Task_resumed ?c" by (rule app_step.task) (simp_all add: toggled)
  ultimately have steps: "app_steps ?h ?a [Quit, Task_resumed] ?c"
    by (rule more_steps [OF _ more_steps [OF _ no_step]])
  have on': "app_steps ?h (booted (ap_session running_app) sample_place (ws_bounds sample_place)) [Toggle_overlay] ?a"
    using on by (simp add: running_app_def booted_def)
  have "\<not> ap_exited ?c \<and> overlay_window ?c"
    by (rule overlay_holds_app_open [OF on' _ _ steps]) (simp_all only: toggled, simp_all)
  with on steps show ?thesis by blast
qed

end
