(* ===== verification/WebStore.thy ===== *)
theory WebStore
  imports BackupRows "HOL-Library.AList"
begin

text \<open>
  The shell of the web application: the characters and the enabled modules in the storage of the browser
  (\<open>apps/web/lib/charactersStore.ts\<close>, \<open>moduleToggleStore.ts\<close>), how the planner module reads the same characters
  (\<open>packages/modules/planner/lib/hubCharacters.ts\<close>), and the registry of modules with the loading of their pages
  (\<open>packages/core/src/registry.ts\<close>, \<open>resolve.ts\<close>). \<open>JSON\<close> is a parameter; the storage is a map of texts.
\<close>

record json =
  jn_parse :: "string \<Rightarrow> jsval option"
  jn_text :: "jsval \<Rightarrow> string"

type_synonym storage = "string \<Rightarrow> string option"

section \<open>Characters\<close>

text \<open>What is loaded is checked for an id and a name only, so \<open>server\<close> may be any value.\<close>

record web_character =
  wc_id :: string
  wc_name :: string
  wc_server :: jsval

definition read_web_character :: "jsval \<Rightarrow> web_character option" where
  "read_web_character v =
     (case (str_of (field v ''id''), str_of (field v ''name'')) of
        (Some i, Some name) \<Rightarrow> Some \<lparr>wc_id = i, wc_name = name, wc_server = field v ''server''\<rparr>
      | _ \<Rightarrow> None)"

definition load_characters :: "json \<Rightarrow> storage \<Rightarrow> web_character list" where
  "load_characters js st =
     (case non_empty (st ''aion2hub.characters.v1'') of
        None \<Rightarrow> []
      | Some raw \<Rightarrow>
          (case jn_parse js raw of
             Some (Arr vs) \<Rightarrow> List.map_filter read_web_character vs
           | _ \<Rightarrow> []))"

definition load_hub_characters :: "json \<Rightarrow> storage \<Rightarrow> web_character list" where
  "load_hub_characters js st =
     (case non_empty (st ''aion2hub.characters.v1'') of
        None \<Rightarrow> []
      | Some raw \<Rightarrow>
          (case jn_parse js raw of
             Some (Arr vs) \<Rightarrow> List.map_filter read_web_character vs
           | _ \<Rightarrow> []))"

definition web_character_value :: "web_character \<Rightarrow> jsval" where
  "web_character_value c = Obj [(''id'', Str (wc_id c)), (''name'', Str (wc_name c)), (''server'', wc_server c)]"

definition web_characters_value :: "web_character list \<Rightarrow> jsval" where
  "web_characters_value cs = Arr (map web_character_value cs)"

definition save_characters :: "json \<Rightarrow> web_character list \<Rightarrow> storage \<Rightarrow> storage" where
  "save_characters js cs st = st(''aion2hub.characters.v1'' \<mapsto> jn_text js (web_characters_value cs))"

text \<open>\<open>input.server?.trim() || undefined\<close>.\<close>

definition server_or_undefined :: "string option \<Rightarrow> jsval" where
  "server_or_undefined server = (case trimmed_opt server of None \<Rightarrow> Undef | Some s \<Rightarrow> Str s)"

definition add_character :: "string \<Rightarrow> web_character list \<Rightarrow> string \<Rightarrow> string option \<Rightarrow> err + web_character list" where
  "add_character uid cs name server =
     (let name = trim name in
      if name = [] then Inl (Thrown ''Name is required'')
      else if list_ex (\<lambda>c. wc_name c = name) cs then Inl (Thrown ''Duplicate character name'')
      else Inr (cs @ [\<lparr>wc_id = uid, wc_name = name, wc_server = server_or_undefined server\<rparr>]))"

definition rename_character :: "web_character list \<Rightarrow> string \<Rightarrow> string \<Rightarrow> string option \<Rightarrow> err + web_character list" where
  "rename_character cs i name server =
     (let name = trim name in
      if name = [] then Inl (Thrown ''Name is required'')
      else if list_ex (\<lambda>c. wc_id c \<noteq> i \<and> wc_name c = name) cs then Inl (Thrown ''Duplicate character name'')
      else if \<not> list_ex (\<lambda>c. wc_id c = i) cs then Inl (Thrown ''Character not found'')
      else Inr (map (\<lambda>c. if wc_id c \<noteq> i then c else c\<lparr>wc_name := name, wc_server := server_or_undefined server\<rparr>) cs))"

definition remove_character :: "web_character list \<Rightarrow> string \<Rightarrow> err + web_character list" where
  "remove_character cs i =
     (let next_list = filter (\<lambda>c. wc_id c \<noteq> i) cs in
      if length next_list = length cs then Inl (Thrown ''Character not found'') else Inr next_list)"

text \<open>The edits of the characters page: a failed one changes nothing. \<open>uuids\<close> are the random ids in their order.\<close>

datatype edit = AddCharacter string "string option" | RenameCharacter string string "string option" | RemoveCharacter string

fun apply_edit :: "(nat \<Rightarrow> string) \<Rightarrow> web_character list \<times> nat \<Rightarrow> edit \<Rightarrow> web_character list \<times> nat" where
  "apply_edit uuids (cs, n) (AddCharacter name server) =
     (case add_character (uuids n) cs name server of Inl _ \<Rightarrow> (cs, n) | Inr cs' \<Rightarrow> (cs', n + 1))"
| "apply_edit uuids (cs, n) (RenameCharacter i name server) =
     (case rename_character cs i name server of Inl _ \<Rightarrow> (cs, n) | Inr cs' \<Rightarrow> (cs', n))"
| "apply_edit uuids (cs, n) (RemoveCharacter i) =
     (case remove_character cs i of Inl _ \<Rightarrow> (cs, n) | Inr cs' \<Rightarrow> (cs', n))"

text \<open>
  The character that the planner has selected: its pages, when they open, keep a selected character that exists and
  otherwise select the first one.
\<close>

definition load_selected_character_id :: "storage \<Rightarrow> string option" where
  "load_selected_character_id st = non_empty (st ''aion2hub.planner.selectedCharacterId.v1'')"

definition save_selected_character_id :: "string option \<Rightarrow> storage \<Rightarrow> storage" where
  "save_selected_character_id selected st = st(''aion2hub.planner.selectedCharacterId.v1'' := non_empty selected)"

definition open_planner :: "json \<Rightarrow> storage \<Rightarrow> string option \<times> storage" where
  "open_planner js st =
     (let selected = load_selected_character_id st in
      case load_hub_characters js st of
        [] \<Rightarrow> if selected = None then (None, st) else (None, save_selected_character_id None st)
      | first # others \<Rightarrow>
          if selected \<in> (Some \<circ> wc_id) ` set (first # others) then (selected, st)
          else (Some (wc_id first), save_selected_character_id (Some (wc_id first)) st))"

section \<open>Modules\<close>

datatype permission = Public | User

record hub_page =
  hp_id :: string
  hp_title :: string
  hp_href :: string

record hub_module =
  hm_id :: string
  hm_name :: string
  hm_permission :: permission
  hm_nav :: "(string \<times> string) list"
  hm_pages :: "hub_page list"
  hm_widgets :: "(string \<times> string) list"

text \<open>A \<open>Map\<close>: setting an existing key keeps its place.\<close>

type_synonym registry = "(string \<times> hub_module) list"

definition register_modules :: "hub_module list \<Rightarrow> registry \<Rightarrow> registry" where
  "register_modules ms reg = foldl (\<lambda>r m. AList.update (hm_id m) m r) reg ms"

definition get_modules :: "registry \<Rightarrow> hub_module list" where
  "get_modules reg = map snd reg"

definition get_module_by_id :: "registry \<Rightarrow> string \<Rightarrow> hub_module option" where
  "get_module_by_id reg i = map_of reg i"

definition resolve_module_page :: "registry \<Rightarrow> string \<Rightarrow> string \<Rightarrow> (hub_module \<times> hub_page) option" where
  "resolve_module_page reg m p =
     (case get_module_by_id reg m of
        None \<Rightarrow> None
      | Some md \<Rightarrow> map_option (\<lambda>page. (md, page)) (find (\<lambda>x. hp_id x = p) (hm_pages md)))"

definition resolve_module_widget :: "registry \<Rightarrow> string \<Rightarrow> string \<Rightarrow> (hub_module \<times> string \<times> string) option" where
  "resolve_module_widget reg m w =
     (case get_module_by_id reg m of
        None \<Rightarrow> None
      | Some md \<Rightarrow> map_option (\<lambda>widget. (md, widget)) (find (\<lambda>x. fst x = w) (hm_widgets md)))"

definition load_enabled_module_ids :: "json \<Rightarrow> storage \<Rightarrow> string list option" where
  "load_enabled_module_ids js st =
     (case st ''aion2hub.modules.enabled.v1'' of
        None \<Rightarrow> None
      | Some raw \<Rightarrow>
          (case jn_parse js raw of
             Some (Arr vs) \<Rightarrow> Some (List.map_filter str_of vs)
           | _ \<Rightarrow> None))"

definition save_enabled_module_ids :: "json \<Rightarrow> string list \<Rightarrow> storage \<Rightarrow> storage" where
  "save_enabled_module_ids js ids st = st(''aion2hub.modules.enabled.v1'' \<mapsto> jn_text js (Arr (map Str ids)))"

text \<open>The switch on the settings page: a \<open>Set\<close> in insertion order.\<close>

definition toggle_module :: "string \<Rightarrow> string list \<Rightarrow> string list" where
  "toggle_module i enabled = (if i \<in> set enabled then removeAll i enabled else enabled @ [i])"

definition module_enabled :: "string list option \<Rightarrow> hub_module \<Rightarrow> bool" where
  "module_enabled enabled m = (case enabled of None \<Rightarrow> True | Some ids \<Rightarrow> hm_id m \<in> set ids)"

definition nav_items :: "registry \<Rightarrow> string list option \<Rightarrow> (string \<times> string) list" where
  "nav_items reg enabled =
     (''Dashboard'', ''/'') # concat (map hm_nav (filter (module_enabled enabled) (get_modules reg)))
     @ [(''Characters'', ''/characters''), (''Settings'', ''/settings'')]"

datatype page_shown = NotFound | Disabled hub_module | NeedsPermission hub_module | ShowPage hub_page

definition shown_page :: "registry \<Rightarrow> string list option \<Rightarrow> string \<Rightarrow> string \<Rightarrow> page_shown" where
  "shown_page reg enabled m p =
     (case resolve_module_page reg m p of
        None \<Rightarrow> NotFound
      | Some (md, page) \<Rightarrow>
          if \<not> module_enabled enabled md then Disabled md
          else if hm_permission md \<noteq> Public then NeedsPermission md else ShowPage page)"

section \<open>Loading pages\<close>

text \<open>
  A started load is a promise with a number; \<open>lo_started\<close> says for which page it is, \<open>lo_rejected\<close> which failed.
\<close>

record loader =
  lo_cache :: "string \<Rightarrow> nat option"
  lo_started :: "(string \<times> string) list"
  lo_rejected :: "nat set"

definition page_key :: "string \<times> string \<Rightarrow> string" where
  "page_key = (\<lambda>(m, p). m @ CHR '':'' # p)"

definition load_module_page :: "registry \<Rightarrow> string \<Rightarrow> string \<Rightarrow> loader \<Rightarrow> (err + nat) \<times> loader" where
  "load_module_page reg m p s =
     (case resolve_module_page reg m p of
        None \<Rightarrow> (Inl (Thrown ''not_found''), s)
      | Some _ \<Rightarrow>
          (case lo_cache s (page_key (m, p)) of
             Some n \<Rightarrow> (Inr n, s)
           | None \<Rightarrow> (let n = length (lo_started s) in
               (Inr n, s\<lparr>lo_started := lo_started s @ [(m, p)], lo_cache := (lo_cache s)(page_key (m, p) \<mapsto> n)\<rparr>))))"

text \<open>A load that fails is forgotten, so that the next call loads again.\<close>

definition load_rejected :: "nat \<Rightarrow> loader \<Rightarrow> loader" where
  "load_rejected n s =
     s\<lparr>lo_cache := (lo_cache s)(page_key (lo_started s ! n) := None), lo_rejected := insert n (lo_rejected s)\<rparr>"

text \<open>The widgets of the dashboard are loaded in the same way, from a cache of their own.\<close>

definition load_module_widget :: "registry \<Rightarrow> string \<Rightarrow> string \<Rightarrow> loader \<Rightarrow> (err + nat) \<times> loader" where
  "load_module_widget reg m w s =
     (case resolve_module_widget reg m w of
        None \<Rightarrow> (Inl (Thrown ''not_found''), s)
      | Some _ \<Rightarrow>
          (case lo_cache s (page_key (m, w)) of
             Some n \<Rightarrow> (Inr n, s)
           | None \<Rightarrow> (let n = length (lo_started s) in
               (Inr n, s\<lparr>lo_started := lo_started s @ [(m, w)], lo_cache := (lo_cache s)(page_key (m, w) \<mapsto> n)\<rparr>))))"

inductive loader_run :: "registry \<Rightarrow> loader \<Rightarrow> bool" for reg where
  no_load: "loader_run reg \<lparr>lo_cache = Map.empty, lo_started = [], lo_rejected = {}\<rparr>"
| call: "loader_run reg s \<Longrightarrow> loader_run reg (snd (load_module_page reg m p s))"
| rejected: "loader_run reg s \<Longrightarrow> n < length (lo_started s) \<Longrightarrow> n \<notin> lo_rejected s \<Longrightarrow> loader_run reg (load_rejected n s)"

section \<open>The characters stay distinct\<close>

definition characters_ok :: "web_character list \<Rightarrow> bool" where
  "characters_ok cs \<longleftrightarrow> distinct (map wc_id cs) \<and> distinct (map wc_name cs)
     \<and> list_all (\<lambda>c. text_ok (wc_name c) \<and> (wc_server c = Undef \<or> jsonify (wc_server c) = wc_server c)) cs"

text \<open>The ids that are still to come are unused.\<close>

definition ids_unused :: "(nat \<Rightarrow> string) \<Rightarrow> web_character list \<times> nat \<Rightarrow> bool" where
  "ids_unused uuids = (\<lambda>(cs, n). \<forall>m \<ge> n. uuids m \<notin> set (map wc_id cs))"

lemma server_or_undefined_ok: "server_or_undefined v = Undef \<or> jsonify (server_or_undefined v) = server_or_undefined v"
  by (auto simp: server_or_undefined_def split: option.split)

lemma added_ok:
  assumes "add_character uid cs name server = Inr cs'" "characters_ok cs" "uid \<notin> set (map wc_id cs)"
  shows "characters_ok cs'" "set (map wc_id cs') = insert uid (set (map wc_id cs))"
proof -
  have cs': "cs' = cs @ [\<lparr>wc_id = uid, wc_name = trim name, wc_server = server_or_undefined server\<rparr>]"
    and name: "trim name \<noteq> []" "trim name \<notin> set (map wc_name cs)"
    using assms(1) by (auto simp: add_character_def Let_def list_ex_iff split: if_splits)
  show "characters_ok cs'" using assms(2,3) name server_or_undefined_ok [of server]
    by (simp add: cs' characters_ok_def text_ok_def)
  show "set (map wc_id cs') = insert uid (set (map wc_id cs))" by (simp add: cs')
qed

lemma distinct_renamed:
  assumes "distinct (map wc_id cs)" "distinct (map wc_name cs)" "\<forall>c \<in> set cs. wc_id c \<noteq> i \<longrightarrow> wc_name c \<noteq> name"
  shows "distinct (map wc_name (map (\<lambda>c. if wc_id c \<noteq> i then c else c\<lparr>wc_name := name, wc_server := server\<rparr>) cs))"
  using assms by (induction cs) (auto simp: image_iff)

lemma renamed_ok:
  assumes "rename_character cs i name server = Inr cs'" "characters_ok cs"
  shows "characters_ok cs'" "map wc_id cs' = map wc_id cs"
proof -
  have cs': "cs' = map (\<lambda>c. if wc_id c \<noteq> i then c else c\<lparr>wc_name := trim name, wc_server := server_or_undefined server\<rparr>) cs"
    and name: "trim name \<noteq> []" "\<forall>c \<in> set cs. wc_id c \<noteq> i \<longrightarrow> wc_name c \<noteq> trim name"
    using assms(1) by (auto simp: rename_character_def Let_def list_ex_iff split: if_splits)
  show ids: "map wc_id cs' = map wc_id cs" by (simp add: cs')
  have "distinct (map wc_name cs')" unfolding cs'
    by (rule distinct_renamed) (use assms(2) name(2) in \<open>auto simp: characters_ok_def\<close>)
  moreover have "list_all (\<lambda>c. text_ok (wc_name c) \<and> (wc_server c = Undef \<or> jsonify (wc_server c) = wc_server c)) cs'"
    using assms(2) name(1) server_or_undefined_ok [of server]
    by (auto simp: cs' characters_ok_def list_all_iff text_ok_def )
  ultimately show "characters_ok cs'" using assms(2) ids by (simp add: characters_ok_def)
qed

lemma removed_ok:
  assumes "remove_character cs i = Inr cs'" "characters_ok cs"
  shows "characters_ok cs'" "set (map wc_id cs') \<subseteq> set (map wc_id cs)"
proof -
  have "cs' = filter (\<lambda>c. wc_id c \<noteq> i) cs" using assms(1) by (auto simp: remove_character_def Let_def split: if_splits)
  with assms(2) show "characters_ok cs'" "set (map wc_id cs') \<subseteq> set (map wc_id cs)"
    by (auto simp: characters_ok_def list_all_iff distinct_map_filter)
qed

lemma edit_ok:
  assumes "inj uuids" "characters_ok (fst s)" "ids_unused uuids s"
  shows "characters_ok (fst (apply_edit uuids s e)) \<and> ids_unused uuids (apply_edit uuids s e)"
proof (cases "(uuids, s, e)" rule: apply_edit.cases)
  case (1 u cs n name server)
  show ?thesis
  proof (cases "add_character (uuids n) cs name server")
    case (Inr cs')
    have "uuids n \<notin> set (map wc_id cs)" using assms(3) 1 by (simp add: ids_unused_def)
    from added_ok [OF Inr _ this] assms 1 Inr show ?thesis
      by (auto simp: ids_unused_def inj_eq)
  qed (use assms 1 in simp)
next
  case (2 u cs n i name server)
  then show ?thesis using assms renamed_ok [of cs i name server]
    by (cases "rename_character cs i name server") (auto simp: ids_unused_def simp del: set_map)
next
  case (3 u cs n i)
  then show ?thesis using assms removed_ok [of cs i]
    by (cases "remove_character cs i") (auto simp: ids_unused_def simp del: set_map)
qed

lemma edits_ok:
  "inj uuids \<Longrightarrow> characters_ok (fst s) \<Longrightarrow> ids_unused uuids s \<Longrightarrow> characters_ok (fst (foldl (apply_edit uuids) s es))"
  by (induction es arbitrary: s) (simp_all add: edit_ok)

lemma character_file_read:
  "wc_server c = Undef \<or> jsonify (wc_server c) = wc_server c \<Longrightarrow> read_web_character (jsonify (web_character_value c)) = Some c"
  by (cases c) (auto simp: read_web_character_def web_character_value_def)

lemma characters_file_read:
  assumes "characters_ok cs" "jn_parse js (jn_text js (web_characters_value cs)) = Some (jsonify (web_characters_value cs))"
    and "jn_text js (web_characters_value cs) \<noteq> []"
  shows "load_characters js (save_characters js cs st) = cs" "load_hub_characters js (save_characters js cs st) = cs"
proof -
  have "List.map_filter read_web_character (map (\<lambda>c. jsonify (web_character_value c)) cs) = cs"
    using assms(1) unfolding characters_ok_def
    by (induction cs) (auto simp: List.map_filter_simps character_file_read)
  with assms(2,3) show "load_characters js (save_characters js cs st) = cs" "load_hub_characters js (save_characters js cs st) = cs"
    by (auto simp: load_characters_def load_hub_characters_def save_characters_def web_characters_value_def non_empty_def comp_def)
qed

text \<open>
  C39. The characters of the web application stay distinct: after any edits, failed ones included, no two characters
  have the same id or the same name, every name is trimmed and not empty, and what is saved is what the shell and the
  planner module load.
\<close>

theorem web_characters_stay_distinct:
  assumes "inj uuids" "characters_ok cs" "ids_unused uuids (cs, 0)"
    and "(cs', n) = foldl (apply_edit uuids) (cs, 0) es"
    and "jn_parse js (jn_text js (web_characters_value cs')) = Some (jsonify (web_characters_value cs'))"
      "jn_text js (web_characters_value cs') \<noteq> []"
  shows "distinct (map wc_id cs') \<and> distinct (map wc_name cs') \<and> list_all (\<lambda>c. text_ok (wc_name c)) cs'
    \<and> load_characters js (save_characters js cs' st) = cs' \<and> load_hub_characters js (save_characters js cs' st) = cs'"
proof -
  have "characters_ok cs'" using edits_ok [OF assms(1), of "(cs, 0)" es] assms(2-4) by (metis fst_conv)
  with characters_file_read [OF this assms(5,6)] show ?thesis by (simp add: characters_ok_def list_all_iff)
qed

text \<open>Two characters are added, the second under the name of the first, and the first is renamed.\<close>

definition sample_edits :: "edit list" where
  "sample_edits = [AddCharacter ''Ann'' None, AddCharacter ''Ann'' (Some ''S''), RenameCharacter ''#'' ''Bea'' (Some ''S'')]"

definition sample_uuids :: "nat \<Rightarrow> string" where
  "sample_uuids n = replicate (n + 1) (CHR ''#'')"

definition bea :: web_character where
  "bea = \<lparr>wc_id = ''#'', wc_name = ''Bea'', wc_server = Str ''S''\<rparr>"

definition sample_json :: json where
  "sample_json = \<lparr>jn_parse = (\<lambda>_. Some (jsonify (web_characters_value [bea]))), jn_text = (\<lambda>_. ''[...]'')\<rparr>"

lemma sample_edited: "foldl (apply_edit sample_uuids) ([], 0) sample_edits = ([bea], 1)"
proof -
  have "trim ''Ann'' = ''Ann''" "trim ''Bea'' = ''Bea''" "trim ''S'' = ''S''" by (simp_all add: trim_graphic graphic_def)
  then show ?thesis
    by (simp add: sample_edits_def sample_uuids_def bea_def add_character_def rename_character_def server_or_undefined_def
        trimmed_opt_def trimmed_def)
qed

theorem web_characters_stay_distinct_witness:
  "load_hub_characters sample_json (save_characters sample_json [bea] Map.empty) = [bea]
    \<and> foldl (apply_edit sample_uuids) ([], 0) sample_edits = ([bea], 1)"
proof -
  have "inj sample_uuids" by (auto simp: inj_def sample_uuids_def dest!: arg_cong [where f = length])
  then have "distinct (map wc_id [bea]) \<and> distinct (map wc_name [bea]) \<and> list_all (\<lambda>c. text_ok (wc_name c)) [bea]
    \<and> load_characters sample_json (save_characters sample_json [bea] Map.empty) = [bea]
    \<and> load_hub_characters sample_json (save_characters sample_json [bea] Map.empty) = [bea]"
    by (rule web_characters_stay_distinct [OF _ _ _ sample_edited [symmetric]])
      (simp_all add: characters_ok_def ids_unused_def sample_json_def)
  with sample_edited show ?thesis by blast
qed

text \<open>The planner opens with a character that exists, if there is one, and remembers it.\<close>

lemma opened_character_exists:
  assumes "open_planner js st = (selected, st')" "list_all (\<lambda>c. wc_id c \<noteq> []) (load_hub_characters js st)"
  shows "load_selected_character_id st' = selected"
    and "selected \<in> (if load_hub_characters js st = [] then {None} else (Some \<circ> wc_id) ` set (load_hub_characters js st))"
  using assms
  by (auto simp: open_planner_def Let_def load_selected_character_id_def save_selected_character_id_def non_empty_def
      split: list.splits if_splits option.splits)

section \<open>Switching modules\<close>

text \<open>The side bar lists the links of exactly the modules whose pages are not reported as disabled.\<close>

lemma disabled_pages_are_not_linked:
  assumes "resolve_module_page reg m p = Some (md, page)"
  shows "shown_page reg enabled m p = Disabled md \<longleftrightarrow> \<not> module_enabled enabled md"
  using assms by (simp add: shown_page_def)

lemma toggled_module: "module_enabled (Some (toggle_module (hm_id m) ids)) m \<longleftrightarrow> \<not> module_enabled (Some ids) m"
  by (simp add: module_enabled_def toggle_module_def)

lemma toggle_keeps_others: "hm_id m \<noteq> i \<Longrightarrow> module_enabled (Some (toggle_module i ids)) m = module_enabled (Some ids) m"
  by (auto simp: module_enabled_def toggle_module_def)

lemma enabled_ids_read:
  assumes "jn_parse js (jn_text js (Arr (map Str ids))) = Some (Arr (map Str ids))"
  shows "load_enabled_module_ids js (save_enabled_module_ids js ids st) = Some ids"
proof -
  have "List.map_filter str_of (map Str ids) = ids" by (induction ids) (simp_all add: List.map_filter_simps)
  with assms show ?thesis by (simp add: load_enabled_module_ids_def save_enabled_module_ids_def)
qed

section \<open>One load per page\<close>

lemma page_key_inj:
  assumes "CHR '':'' \<notin> set m" "CHR '':'' \<notin> set m'" "page_key (m, p) = page_key (m', p')"
  shows "m = m' \<and> p = p'"
proof -
  have split: "takeWhile (\<lambda>c. c \<noteq> CHR '':'') (page_key (x, y)) = x" "tl (dropWhile (\<lambda>c. c \<noteq> CHR '':'') (page_key (x, y))) = y"
    if "CHR '':'' \<notin> set x" for x y
    using that by (auto simp: page_key_def takeWhile_append dropWhile_append)
  from split [OF assms(1), of p] split [OF assms(2), of p'] assms(3) show ?thesis by simp
qed

text \<open>The ids of the registered modules have no colon.\<close>

definition plain_ids :: "registry \<Rightarrow> bool" where
  "plain_ids reg \<longleftrightarrow> list_all (\<lambda>x. CHR '':'' \<notin> set (fst x)) reg"

text \<open>The cache names, for each page, the load of it that has not failed.\<close>

definition loader_ok :: "registry \<Rightarrow> loader \<Rightarrow> bool" where
  "loader_ok reg s \<longleftrightarrow> (\<forall>x \<in> set (lo_started s). CHR '':'' \<notin> set (fst x))
     \<and> (\<forall>k n. lo_cache s k = Some n \<longrightarrow> n < length (lo_started s) \<and> n \<notin> lo_rejected s \<and> page_key (lo_started s ! n) = k)
     \<and> (\<forall>n < length (lo_started s). n \<notin> lo_rejected s \<longrightarrow> lo_cache s (page_key (lo_started s ! n)) = Some n)
     \<and> (\<forall>n \<in> lo_rejected s. n < length (lo_started s))"

lemma resolved_plain: "plain_ids reg \<Longrightarrow> resolve_module_page reg m p = Some x \<Longrightarrow> CHR '':'' \<notin> set m"
  by (auto simp: resolve_module_page_def get_module_by_id_def plain_ids_def list_all_iff dest!: map_of_SomeD split: option.splits)

lemma loader_okD:
  assumes "loader_ok reg s"
  shows "x \<in> set (lo_started s) \<Longrightarrow> CHR '':'' \<notin> set (fst x)"
    and "lo_cache s k = Some n \<Longrightarrow> n < length (lo_started s) \<and> n \<notin> lo_rejected s \<and> page_key (lo_started s ! n) = k"
    and "n < length (lo_started s) \<Longrightarrow> n \<notin> lo_rejected s \<Longrightarrow> lo_cache s (page_key (lo_started s ! n)) = Some n"
    and "n \<in> lo_rejected s \<Longrightarrow> n < length (lo_started s)"
  using assms by (simp_all add: loader_ok_def)

lemma started_ok:
  assumes ok: "loader_ok reg s" and new: "lo_cache s (page_key (m, p)) = None" "CHR '':'' \<notin> set m"
  shows "loader_ok reg (s\<lparr>lo_started := lo_started s @ [(m, p)], lo_cache := (lo_cache s)(page_key (m, p) \<mapsto> length (lo_started s))\<rparr>)"
proof -
  have "n \<noteq> length (lo_started s)" if "n \<in> lo_rejected s" for n using loader_okD(4) [OF ok that] by simp
  moreover have "page_key (lo_started s ! n) \<noteq> page_key (m, p)" if "n < length (lo_started s)" "n \<notin> lo_rejected s" for n
    using loader_okD(3) [OF ok that] new(1) by auto
  ultimately show ?thesis
    using loader_okD [OF ok] new(2) by (auto simp: loader_ok_def nth_append less_Suc_eq split: if_splits)
qed

lemma called_ok: "plain_ids reg \<Longrightarrow> loader_ok reg s \<Longrightarrow> loader_ok reg (snd (load_module_page reg m p s))"
  by (auto simp: load_module_page_def Let_def intro!: started_ok dest: resolved_plain split: option.split)

lemma rejected_ok:
  assumes "loader_ok reg s" "n < length (lo_started s)" "n \<notin> lo_rejected s"
  shows "loader_ok reg (load_rejected n s)"
proof -
  have "page_key (lo_started s ! i) \<noteq> page_key (lo_started s ! n)"
    if "i < length (lo_started s)" "i \<notin> lo_rejected s" "i \<noteq> n" for i
  proof
    assume "page_key (lo_started s ! i) = page_key (lo_started s ! n)"
    moreover have "lo_cache s (page_key (lo_started s ! i)) = Some i" "lo_cache s (page_key (lo_started s ! n)) = Some n"
      using loader_okD(3) [OF assms(1)] assms(2,3) that by simp_all
    ultimately show False using that(3) by simp
  qed
  with assms show ?thesis by (auto simp: loader_ok_def load_rejected_def)
qed

lemma loader_run_ok: "loader_run reg s \<Longrightarrow> plain_ids reg \<Longrightarrow> loader_ok reg s"
  by (induction rule: loader_run.induct) (simp_all add: called_ok rejected_ok, simp add: loader_ok_def)

text \<open>
  C40. A page of a module is loaded once: in every run, whatever is asked for and whichever loads fail, a registered page
  is answered by a load of that page which has not failed, the same for every call until it fails, and of two loads of
  the same page at most one has not failed.
\<close>

theorem page_is_loaded_once:
  assumes "loader_run reg s" "plain_ids reg" "load_module_page reg m p s = (Inr n, s')"
  shows "lo_started s' ! n = (m, p) \<and> n \<notin> lo_rejected s' \<and> load_module_page reg m p s' = (Inr n, s')
    \<and> (\<forall>i j. i < length (lo_started s') \<and> j < length (lo_started s') \<and> i \<notin> lo_rejected s' \<and> j \<notin> lo_rejected s'
         \<and> lo_started s' ! i = lo_started s' ! j \<longrightarrow> i = j)"
proof -
  have "loader_run reg s'" using loader_run.call [OF assms(1), of m p] assms(3) by simp
  then have ok: "loader_ok reg s'" by (rule loader_run_ok [OF _ assms(2)])
  obtain x where x: "resolve_module_page reg m p = Some x" using assms(3) by (auto simp: load_module_page_def split: option.splits)
  then have cached: "lo_cache s' (page_key (m, p)) = Some n"
    using assms(3) by (auto simp: load_module_page_def Let_def split: option.splits)
  then have n: "n < length (lo_started s')" "n \<notin> lo_rejected s'" "page_key (lo_started s' ! n) = page_key (m, p)"
    using loader_okD(2) [OF ok cached] by simp_all
  have "CHR '':'' \<notin> set (fst (lo_started s' ! n))" by (rule loader_okD(1) [OF ok nth_mem [OF n(1)]])
  with resolved_plain [OF assms(2) x] n(3) have page: "lo_started s' ! n = (m, p)"
    by (cases "lo_started s' ! n") (auto dest: page_key_inj)
  show ?thesis
  proof (intro conjI allI impI)
    show "load_module_page reg m p s' = (Inr n, s')" using x cached by (simp add: load_module_page_def)
  next
    fix i j assume two: "i < length (lo_started s') \<and> j < length (lo_started s') \<and> i \<notin> lo_rejected s' \<and> j \<notin> lo_rejected s'
      \<and> lo_started s' ! i = lo_started s' ! j"
    then have same: "lo_started s' ! i = lo_started s' ! j" by (elim conjE)
    have "lo_cache s' (page_key (lo_started s' ! i)) = Some i" using two by (intro loader_okD(3) [OF ok]; elim conjE)
    moreover have "lo_cache s' (page_key (lo_started s' ! j)) = Some j" using two by (intro loader_okD(3) [OF ok]; elim conjE)
    ultimately show "i = j" unfolding same by (metis option.inject)
  qed (fact page n(2))+
qed

text \<open>A page is asked for, its load fails, and it is asked for again.\<close>

definition sample_registry :: registry where
  "sample_registry = register_modules [\<lparr>hm_id = ''notices'', hm_name = ''Notices'', hm_permission = Public, hm_nav = [],
     hm_pages = [\<lparr>hp_id = ''feed'', hp_title = ''Feed'', hp_href = ''/m/notices/feed''\<rparr>], hm_widgets = []\<rparr>] []"

theorem page_is_loaded_once_witness:
  "\<exists>s s'. loader_run sample_registry s \<and> load_module_page sample_registry ''notices'' ''feed'' s = (Inr 1, s')
    \<and> lo_started s' ! 1 = (''notices'', ''feed'') \<and> 0 \<in> lo_rejected s'"
proof -
  let ?e = "\<lparr>lo_cache = Map.empty, lo_started = [], lo_rejected = {}\<rparr>"
  let ?s = "load_rejected 0 (snd (load_module_page sample_registry ''notices'' ''feed'' ?e))"
  have resolved: "\<exists>x. resolve_module_page sample_registry ''notices'' ''feed'' = Some x"
    by (simp add: resolve_module_page_def get_module_by_id_def sample_registry_def register_modules_def)
  then have run: "loader_run sample_registry ?s"
    by (intro loader_run.rejected loader_run.call loader_run.no_load)
      (auto simp: load_module_page_def Let_def)
  obtain s' where s': "load_module_page sample_registry ''notices'' ''feed'' ?s = (Inr 1, s')" "0 \<in> lo_rejected s'"
    using resolved by (auto simp: load_module_page_def load_rejected_def Let_def)
  have "plain_ids sample_registry" by (simp add: plain_ids_def sample_registry_def register_modules_def)
  from page_is_loaded_once [OF run this s'(1)] run s' show ?thesis by blast
qed

end
