(* ===== verification/WebPlanner.thy ===== *)
theory WebPlanner
  imports WebStore Recommend Period
begin

text \<open>
  The planner module of the web application (\<open>packages/modules/planner\<close>): its tables in the browser
  (\<open>lib/db.ts\<close>, \<open>lib/types.ts\<close>) and the operations of its pages \<open>today\<close>, \<open>week\<close>, \<open>templates\<close>, \<open>stats\<close> and of
  its widget. Of the package Dexie the code uses what its documentation says: \<open>put\<close> replaces the row with the same
  primary key, \<open>add\<close> to a table with \<open>++id\<close> takes the next number, \<open>where(index).equals(key)\<close> selects the rows with
  that key, in the order of the primary key.
\<close>

section \<open>The tables\<close>

datatype web_type = WDaily | WWeekly | WCharge

record web_template =
  wt_id :: string
  wt_title :: string
  wt_type :: web_type
  wt_enabled :: bool
  wt_sort :: int
  wt_estimated_minutes :: "jsnum option"
  wt_max_stacks :: "jsnum option"
  wt_recharge_hours :: "jsnum option"

record web_completion =
  wk_character_id :: string
  wk_template_id :: string
  wk_period_key :: string
  wk_completed_at :: int

record web_duration =
  wu_id :: nat
  wu_character_id :: string
  wu_template_id :: string
  wu_started_at :: int
  wu_ended_at :: int
  wu_seconds :: int

record web_charge_use =
  wy_id :: nat
  wy_character_id :: string
  wy_template_id :: string
  wy_used_at :: int

record web_settings =
  wg_daily_reset_hour :: int
  wg_weekly_reset_day :: int
  wg_weekly_reset_hour :: int

record web_db =
  wd_templates :: "web_template list"
  wd_completions :: "web_completion list"
  wd_durations :: "web_duration list"
  wd_charge_uses :: "web_charge_use list"
  wd_settings :: "web_settings option"
  wd_next_duration :: nat
  wd_next_use :: nat

definition get_or_create_web_settings :: "web_db \<Rightarrow> web_settings \<times> web_db" where
  "get_or_create_web_settings d =
     (case wd_settings d of
        Some s \<Rightarrow> (s, d)
      | None \<Rightarrow> (let s = \<lparr>wg_daily_reset_hour = 0, wg_weekly_reset_day = 1, wg_weekly_reset_hour = 0\<rparr> in (s, d\<lparr>wd_settings := Some s\<rparr>)))"

text \<open>The week page saves whole numbers within their ranges; what is entered is a finite number.\<close>

definition save_web_settings :: "rat \<Rightarrow> rat \<Rightarrow> rat \<Rightarrow> web_db \<Rightarrow> web_db" where
  "save_web_settings daily_hour day weekly_hour d =
     d\<lparr>wd_settings := Some \<lparr>wg_daily_reset_hour = min 23 (max 0 \<lfloor>daily_hour\<rfloor>), wg_weekly_reset_day = min 6 (max 0 \<lfloor>day\<rfloor>),
        wg_weekly_reset_hour = min 23 (max 0 \<lfloor>weekly_hour\<rfloor>)\<rparr>\<rparr>"

section \<open>The page of today\<close>

definition is_completion :: "string \<Rightarrow> string \<Rightarrow> string \<Rightarrow> web_completion \<Rightarrow> bool" where
  "is_completion c t key r \<longleftrightarrow> wk_character_id r = c \<and> wk_template_id r = t \<and> wk_period_key r = key"

definition toggle_completion :: "string option \<Rightarrow> string \<Rightarrow> string \<Rightarrow> bool \<Rightarrow> int \<Rightarrow> web_db \<Rightarrow> web_db" where
  "toggle_completion selected t key completed now d =
     (case non_empty selected of
        None \<Rightarrow> d
      | Some c \<Rightarrow>
          (let others = filter (\<lambda>r. \<not> is_completion c t key r) (wd_completions d)
           in d\<lparr>wd_completions := (if completed
                then others @ [\<lparr>wk_character_id = c, wk_template_id = t, wk_period_key = key, wk_completed_at = now\<rparr>] else others)\<rparr>))"

text \<open>\<open>reloadStatus\<close>: what is done in a period, how long the tasks took, and the charges.\<close>

definition done_in :: "string \<Rightarrow> string \<Rightarrow> web_db \<Rightarrow> string set" where
  "done_in c key d = set (map wk_template_id (filter (\<lambda>r. wk_character_id r = c \<and> wk_period_key r = key) (wd_completions d)))"

definition seconds_spent :: "string \<Rightarrow> web_db \<Rightarrow> string \<Rightarrow> int list" where
  "seconds_spent c d t = map wu_seconds (filter (\<lambda>r. wu_character_id r = c \<and> wu_template_id r = t) (wd_durations d))"

definition average_seconds :: "string \<Rightarrow> web_db \<Rightarrow> string \<Rightarrow> int option" where
  "average_seconds c d t =
     (let list = seconds_spent c d t in
      if list = [] then None else Some \<lfloor>of_int (sum_list list) / of_nat (length list) + 1 / 2 :: rat\<rfloor>)"

record charge_info =
  ci_available :: jsnum
  ci_max_stacks :: jsnum
  ci_next_recharge_at :: "jsnum option"

definition or_num :: "jsnum option \<Rightarrow> jsnum \<Rightarrow> jsnum" where
  "or_num v x = (case v of Some y \<Rightarrow> y | None \<Rightarrow> x)"

definition recharge_ms :: "web_template \<Rightarrow> jsnum" where
  "recharge_ms t = num_mul (num_mul (num_mul (num_max (num 1) (or_num (wt_recharge_hours t) (num 24))) (num 60)) (num 60)) (num 1000)"

definition charge_uses_of :: "string \<Rightarrow> string \<Rightarrow> web_db \<Rightarrow> web_charge_use list" where
  "charge_uses_of c t d = filter (\<lambda>u. wy_character_id u = c \<and> wy_template_id u = t) (wd_charge_uses d)"

definition active_uses :: "int \<Rightarrow> string \<Rightarrow> web_db \<Rightarrow> web_template \<Rightarrow> web_charge_use list" where
  "active_uses now c d t =
     filter (\<lambda>u. num_le (num_sub (num now) (recharge_ms t)) (num (wy_used_at u))) (charge_uses_of c (wt_id t) d)"

definition charge_info_of :: "int \<Rightarrow> string \<Rightarrow> web_db \<Rightarrow> web_template \<Rightarrow> charge_info" where
  "charge_info_of now c d t =
     (let max_stacks = num_max (num 1) (or_num (wt_max_stacks t) (num 1)); active = active_uses now c d t in
      \<lparr>ci_available = num_max (num 0) (num_sub max_stacks (num (int (length active)))), ci_max_stacks = max_stacks,
       ci_next_recharge_at = (if active = [] then None
         else Some (foldl num_min PosInf (map (\<lambda>u. num_add (num (wy_used_at u)) (recharge_ms t)) active)))\<rparr>)"

record web_status =
  wz_daily_done :: "string set"
  wz_weekly_done :: "string set"
  wz_average :: "string \<Rightarrow> int option"
  wz_charges :: "string \<Rightarrow> charge_info option"

definition reload_status :: "zone \<Rightarrow> int \<Rightarrow> string option \<Rightarrow> web_settings \<Rightarrow> web_template list \<Rightarrow> web_db \<Rightarrow> web_status" where
  "reload_status z now selected s templates d =
     (case non_empty selected of
        None \<Rightarrow> \<lparr>wz_daily_done = {}, wz_weekly_done = {}, wz_average = Map.empty, wz_charges = Map.empty\<rparr>
      | Some c \<Rightarrow>
          \<lparr>wz_daily_done = done_in c (get_daily_period_key z now (wg_daily_reset_hour s)) d,
           wz_weekly_done = done_in c (get_weekly_period_key z now (wg_weekly_reset_day s) (wg_weekly_reset_hour s)) d,
           wz_average = average_seconds c d,
           wz_charges = (\<lambda>i. map_option (charge_info_of now c d)
             (find (\<lambda>t. wt_id t = i \<and> wt_type t = WCharge \<and> wt_enabled t) templates))\<rparr>)"

text \<open>Using a charge goes by the information of the last \<open>reloadStatus\<close>.\<close>

definition web_use_charge :: "string option \<Rightarrow> web_status \<Rightarrow> web_template \<Rightarrow> int \<Rightarrow> web_db \<Rightarrow> web_db" where
  "web_use_charge selected status t now d =
     (case (non_empty selected, wz_charges status (wt_id t)) of
        (Some c, Some info) \<Rightarrow>
          if num_le (ci_available info) (num 0) then d
          else d\<lparr>wd_charge_uses := wd_charge_uses d
                  @ [\<lparr>wy_id = wd_next_use d, wy_character_id = c, wy_template_id = wt_id t, wy_used_at = now\<rparr>],
                 wd_next_use := wd_next_use d + 1\<rparr>
      | _ \<Rightarrow> d)"

definition web_undo_charge :: "string option \<Rightarrow> web_template \<Rightarrow> web_db \<Rightarrow> web_db" where
  "web_undo_charge selected t d =
     (case non_empty selected of
        None \<Rightarrow> d
      | Some c \<Rightarrow>
          (case order_by (\<lambda>a b. wy_used_at b \<le> wy_used_at a) (charge_uses_of c (wt_id t) d) of
             [] \<Rightarrow> d
           | latest # _ \<Rightarrow> if wy_id latest = 0 then d
               else d\<lparr>wd_charge_uses := filter (\<lambda>u. wy_id u \<noteq> wy_id latest) (wd_charge_uses d)\<rparr>))"

text \<open>Stopping the timer, which was started for a task at a moment.\<close>

definition stop_web_timer :: "string option \<Rightarrow> (string \<times> int) option \<Rightarrow> int \<Rightarrow> web_db \<Rightarrow> web_db" where
  "stop_web_timer selected timer ended d =
     (case (non_empty selected, timer) of
        (Some c, Some (t, started)) \<Rightarrow>
          d\<lparr>wd_durations := wd_durations d @ [\<lparr>wu_id = wd_next_duration d, wu_character_id = c, wu_template_id = t,
              wu_started_at = started, wu_ended_at = ended, wu_seconds = max 1 \<lfloor>of_int (ended - started) / 1000 + 1 / 2 :: rat\<rfloor>\<rparr>],
            wd_next_duration := wd_next_duration d + 1\<rparr>
      | _ \<Rightarrow> d)"

text \<open>The candidates of the recommendation: open tasks, then charges that are available.\<close>

definition candidate_for :: "(string \<Rightarrow> int option) \<Rightarrow> jsnum \<Rightarrow> web_template \<Rightarrow> recommend_candidate" where
  "candidate_for average minutes t =
     \<lparr>rc_id = wt_id t, rc_estimated_seconds = (case average (wt_id t) of Some s \<Rightarrow> num s
        | None \<Rightarrow> num_round (num_mul (or_num (wt_estimated_minutes t) minutes) (num 60)))\<rparr>"

definition web_candidates :: "web_status \<Rightarrow> web_template list \<Rightarrow> recommend_candidate list" where
  "web_candidates status shown =
     map (candidate_for (wz_average status) (num 5)) (filter (\<lambda>t. wt_type t = WDaily \<and> wt_id t \<notin> wz_daily_done status) shown)
     @ map (candidate_for (wz_average status) (num 10)) (filter (\<lambda>t. wt_type t = WWeekly \<and> wt_id t \<notin> wz_weekly_done status) shown)
     @ map (candidate_for (wz_average status) (num 10)) (filter (\<lambda>t. wt_type t = WCharge
         \<and> (case wz_charges status (wt_id t) of None \<Rightarrow> False | Some info \<Rightarrow> \<not> num_le (ci_available info) (num 0))) shown)"

section \<open>The page of the templates\<close>

definition put_template :: "web_template \<Rightarrow> web_db \<Rightarrow> web_db" where
  "put_template t d = d\<lparr>wd_templates := filter (\<lambda>x. wt_id x \<noteq> wt_id t) (wd_templates d) @ [t]\<rparr>"

text \<open>\<open>Number.isFinite(x) && x > 0 ? x : y\<close>.\<close>

definition if_positive :: "jsnum \<Rightarrow> jsnum option \<Rightarrow> jsnum option" where
  "if_positive x y = (if is_finite x \<and> num_lt (num 0) x then Some x else y)"

definition add_web_template :: "string \<Rightarrow> int \<Rightarrow> string \<Rightarrow> web_type \<Rightarrow> jsnum \<Rightarrow> jsnum \<Rightarrow> jsnum \<Rightarrow> web_db \<Rightarrow> web_db" where
  "add_web_template uid now title type minutes stacks hours d =
     (let title = trim title in
      if title = [] then d
      else put_template \<lparr>wt_id = uid, wt_title = title, wt_type = type, wt_enabled = True, wt_sort = now,
        wt_estimated_minutes = if_positive minutes None,
        wt_max_stacks = (if type = WCharge then if_positive stacks (Some (num 1)) else None),
        wt_recharge_hours = (if type = WCharge then if_positive hours (Some (num 24)) else None)\<rparr> d)"

definition floor_if_positive :: "jsnum option \<Rightarrow> jsnum \<Rightarrow> jsnum" where
  "floor_if_positive v y = (case v of None \<Rightarrow> y | Some x \<Rightarrow> if is_finite x \<and> num_lt (num 0) x then num_floor x else y)"

definition update_web_template :: "web_template \<Rightarrow> web_db \<Rightarrow> web_db" where
  "update_web_template t d =
     (let title = trim (wt_title t) in
      if title = [] then d
      else put_template (t\<lparr>wt_title := title, wt_estimated_minutes := Option.bind (wt_estimated_minutes t) (\<lambda>x. if_positive x None),
        wt_max_stacks := (if wt_type t = WCharge then Some (floor_if_positive (wt_max_stacks t) (num 1)) else None),
        wt_recharge_hours := (if wt_type t = WCharge then Some (floor_if_positive (wt_recharge_hours t) (num 24)) else None)\<rparr>) d)"

definition remove_web_template :: "string \<Rightarrow> web_db \<Rightarrow> web_db" where
  "remove_web_template t d =
     d\<lparr>wd_templates := filter (\<lambda>x. wt_id x \<noteq> t) (wd_templates d),
       wd_completions := filter (\<lambda>r. wk_template_id r \<noteq> t) (wd_completions d),
       wd_durations := filter (\<lambda>r. wu_template_id r \<noteq> t) (wd_durations d),
       wd_charge_uses := filter (\<lambda>r. wy_template_id r \<noteq> t) (wd_charge_uses d)\<rparr>"

section \<open>The widget\<close>

text \<open>How many tasks of today are done, of how many.\<close>

definition widget_counts :: "zone \<Rightarrow> int \<Rightarrow> string \<Rightarrow> web_db \<Rightarrow> nat \<times> nat" where
  "widget_counts z now c d =
     (let key = get_daily_period_key z now (wg_daily_reset_hour (fst (get_or_create_web_settings d))) in
      (length (filter (\<lambda>r. wk_character_id r = c \<and> wk_period_key r = key) (wd_completions d)),
       length (filter (\<lambda>t. wt_type t = WDaily \<and> wt_enabled t) (wd_templates d))))"

section \<open>The page of the statistics\<close>

record web_stat =
  wv_template_id :: string
  wv_title :: string
  wv_count :: nat
  wv_avg_seconds :: int

definition web_stat_of :: "string \<Rightarrow> web_template list \<Rightarrow> web_db \<Rightarrow> string \<Rightarrow> web_stat" where
  "web_stat_of c templates d t =
     \<lparr>wv_template_id = t, wv_title = (case find (\<lambda>x. wt_id x = t) templates of Some x \<Rightarrow> wt_title x | None \<Rightarrow> t),
      wv_count = length (seconds_spent c d t),
      wv_avg_seconds = (case average_seconds c d t of Some s \<Rightarrow> s | None \<Rightarrow> 0)\<rparr>"

definition web_stats :: "string option \<Rightarrow> web_template list \<Rightarrow> web_db \<Rightarrow> web_stat list" where
  "web_stats selected templates d =
     (case non_empty selected of
        None \<Rightarrow> []
      | Some c \<Rightarrow> order_by (\<lambda>a b. wv_avg_seconds b \<le> wv_avg_seconds a)
          (map (web_stat_of c templates d)
            (js_uniq (map wu_template_id (filter (\<lambda>r. wu_character_id r = c) (wd_durations d))))))"

section \<open>Tasks\<close>

lemma done_in_append:
  "done_in c key (d\<lparr>wd_completions := rs @ [r]\<rparr>) =
    (if wk_character_id r = c \<and> wk_period_key r = key then insert (wk_template_id r) (done_in c key (d\<lparr>wd_completions := rs\<rparr>))
     else done_in c key (d\<lparr>wd_completions := rs\<rparr>))"
  by (simp add: done_in_def)

lemma done_in_others:
  "done_in c' key' (d\<lparr>wd_completions := filter (\<lambda>r. \<not> is_completion c t key r) (wd_completions d)\<rparr>) =
    (if c' = c \<and> key' = key then done_in c key d - {t} else done_in c' key' d)"
  by (auto simp: done_in_def is_completion_def image_iff)

text \<open>A task is done in a period exactly if it was switched on last; nothing else changes.\<close>

lemma toggle_shows:
  assumes "c \<noteq> []"
  shows "done_in c key (toggle_completion (Some c) t key b now d) = (if b then insert t (done_in c key d) else done_in c key d - {t})"
    and "(c', key') \<noteq> (c, key) \<Longrightarrow> done_in c' key' (toggle_completion (Some c) t key b now d) = done_in c' key' d"
  using assms by (auto simp: toggle_completion_def Let_def non_empty_def done_in_append done_in_others)

text \<open>Nothing that names a removed template is left.\<close>

lemma removed_template_is_gone:
  "let d' = remove_web_template t d in
   t \<notin> wt_id ` set (wd_templates d') \<and> t \<notin> done_in c key d' \<and> seconds_spent c d' t = [] \<and> charge_uses_of c t d' = []"
  by (auto simp: Let_def remove_web_template_def done_in_def seconds_spent_def charge_uses_of_def filter_empty_conv)

text \<open>Settings that are saved are within their ranges.\<close>

lemma saved_settings_range:
  "wd_settings (save_web_settings h day w d) = Some s \<Longrightarrow> 0 \<le> wg_daily_reset_hour s \<and> wg_daily_reset_hour s \<le> 23
     \<and> 0 \<le> wg_weekly_reset_day s \<and> wg_weekly_reset_day s \<le> 6 \<and> 0 \<le> wg_weekly_reset_hour s \<and> wg_weekly_reset_hour s \<le> 23"
  by (auto simp: save_web_settings_def)

section \<open>Charges\<close>

text \<open>
  A template whose numbers are finite, as the pages store them: how many charges it has and how long one takes to come
  back. The forms also accept fractions.
\<close>

definition charge_template :: "web_template \<Rightarrow> rat \<Rightarrow> rat \<Rightarrow> bool" where
  "charge_template t stacks ms \<longleftrightarrow> (\<exists>m k. or_num (wt_max_stacks t) (num 1) = Fin m \<and> or_num (wt_recharge_hours t) (num 24) = Fin k
     \<and> stacks = max 1 m \<and> ms = max 1 k * 3600000)"

lemma max_one: "num_max (num 1) (Fin r) = Fin (max 1 r)"
  by (simp add: num_max_def num_def max_def)

lemma charge_recharge: "charge_template t stacks ms \<Longrightarrow> recharge_ms t = Fin ms \<and> 0 < ms"
  by (auto simp: charge_template_def recharge_ms_def max_one, simp add: num_def)

lemma active_charge:
  assumes "charge_template t stacks ms"
  shows "active_uses now c d t = filter (\<lambda>u. of_int now - ms \<le> of_int (wy_used_at u)) (charge_uses_of c (wt_id t) d)"
proof -
  have "num_le (num_sub (num now) (Fin ms)) (num x) \<longleftrightarrow> of_int now - ms \<le> of_int x" for x
    by (auto simp: num_def num_le_def num_sub_def)
  with charge_recharge [OF assms] show ?thesis by (simp add: active_uses_def)
qed

lemma available_charge:
  assumes "charge_template t stacks ms"
  shows "ci_available (charge_info_of now c d t) = Fin (max 0 (stacks - of_nat (length (active_uses now c d t))))"
proof -
  obtain m where "or_num (wt_max_stacks t) (num 1) = Fin m" "stacks = max 1 m"
    using assms by (auto simp: charge_template_def)
  moreover have "num_max (num 0) (num_sub (Fin a) (num (int k))) = Fin (max 0 (a - of_nat k))" for a k
    by (simp add: num_sub_def num_def num_max_def max_def)
  ultimately show ?thesis by (simp add: charge_info_of_def Let_def max_one)
qed

lemma foldl_min: "foldl num_min (Fin x) (map Fin xs) = Fin (fold min xs x)"
  by (induction xs arbitrary: x) (simp_all add: num_min_def min_def)

lemma next_charge:
  assumes "charge_template t stacks ms"
  shows "ci_next_recharge_at (charge_info_of now c d t) = (if active_uses now c d t = [] then None
    else Some (Fin (Min ((\<lambda>u. of_int (wy_used_at u) + ms) ` set (active_uses now c d t)))))"
proof (cases "active_uses now c d t")
  case Nil
  then show ?thesis by (simp add: charge_info_of_def Let_def)
next
  case (Cons u us)
  let ?due = "\<lambda>u. of_int (wy_used_at u) + ms"
  have add: "num_add (num x) (Fin ms) = Fin (of_int x + ms)" for x by (simp add: num_def)
  have start: "num_min PosInf (Fin x) = Fin x" for x by (simp add: num_min_def)
  have "foldl num_min PosInf (map (\<lambda>u. num_add (num (wy_used_at u)) (recharge_ms t)) (u # us)) =
      foldl num_min (Fin (?due u)) (map Fin (map ?due us))"
    using charge_recharge [OF assms] by (simp add: add start comp_def)
  also have "\<dots> = Fin (fold min (map ?due us) (?due u))" by (rule foldl_min)
  also have "fold min (map ?due us) (?due u) = Min (?due ` set (u # us))"
    using Min.set_eq_fold [of "?due u" "map ?due us"] by simp
  finally show ?thesis by (simp add: charge_info_of_def Let_def Cons)
qed

lemma length_filter_mono: "(\<And>x. P x \<Longrightarrow> Q x) \<Longrightarrow> length (filter P xs) \<le> length (filter Q xs)"
  by (induction xs) auto

text \<open>As time passes uses only stop to count; the first to stop is the one that the page announces.\<close>

lemma fewer_active:
  assumes "charge_template t stacks ms" "seen \<le> now"
  shows "length (active_uses now c d t) \<le> length (active_uses seen c d t)"
proof -
  have "(of_int seen :: rat) \<le> of_int now" using assms(2) by simp
  then show ?thesis unfolding active_charge [OF assms(1)] by (intro length_filter_mono) linarith
qed

lemma later_active:
  assumes "charge_template t stacks ms" "seen \<le> n"
  shows "active_uses n c d t = filter (\<lambda>u. of_int n \<le> of_int (wy_used_at u) + ms) (active_uses seen c d t)"
proof -
  have "(of_int seen :: rat) \<le> of_int n" using assms(2) by simp
  then show ?thesis unfolding active_charge [OF assms(1)] filter_filter by (intro filter_cong refl) linarith
qed

lemma announced:
  assumes t: "charge_template t stacks ms" and "ci_next_recharge_at (charge_info_of seen c d t) = Some (Fin s)"
  shows "\<forall>u \<in> set (active_uses seen c d t). s \<le> of_int (wy_used_at u) + ms"
    and "\<exists>u \<in> set (active_uses seen c d t). of_int (wy_used_at u) + ms = s" and "of_int seen \<le> s"
proof -
  let ?A = "(\<lambda>u. of_int (wy_used_at u) + ms) ` set (active_uses seen c d t)"
  have some: "active_uses seen c d t \<noteq> []" and s: "s = Min ?A"
    using assms(2) by (auto simp: next_charge [OF t] split: if_splits)
  then show "\<forall>u \<in> set (active_uses seen c d t). s \<le> of_int (wy_used_at u) + ms" by simp
  have "Min ?A \<in> ?A" by (rule Min_in) (use some in simp_all)
  then obtain u where u: "u \<in> set (active_uses seen c d t)" "of_int (wy_used_at u) + ms = s" unfolding s by auto
  then show "\<exists>u \<in> set (active_uses seen c d t). of_int (wy_used_at u) + ms = s" by blast
  show "of_int seen \<le> s" using u by (auto simp: active_charge [OF t])
qed

lemma active_until:
  assumes "charge_template t stacks ms" "ci_next_recharge_at (charge_info_of seen c d t) = Some (Fin s)"
    and "seen \<le> n" "of_int n \<le> s"
  shows "active_uses n c d t = active_uses seen c d t"
  unfolding later_active [OF assms(1,3)] using announced(1) [OF assms(1,2)] assms(4)
  by (intro filter_True) (blast intro: order_trans)

lemma active_after:
  assumes "charge_template t stacks ms" "ci_next_recharge_at (charge_info_of seen c d t) = Some (Fin s)" "s < of_int n"
  shows "length (active_uses n c d t) < length (active_uses seen c d t)"
proof -
  obtain u where u: "u \<in> set (active_uses seen c d t)" "of_int (wy_used_at u) + ms = s" using announced(2) [OF assms(1,2)] by blast
  have "(of_int seen :: rat) < of_int n" using announced(3) [OF assms(1,2)] assms(3) by (rule le_less_trans)
  then have "seen \<le> n" by simp
  show ?thesis unfolding later_active [OF assms(1) \<open>seen \<le> n\<close>]
    by (rule length_filter_less [OF u(1)]) (use u(2) assms(3) in linarith)
qed

lemma used_charge:
  assumes t: "charge_template t stacks ms" and "c \<noteq> []" "wz_charges status (wt_id t) = Some info"
    and "\<not> num_le (ci_available info) (num 0)"
  shows "length (active_uses now c (web_use_charge (Some c) status t now d) t) = length (active_uses now c d t) + 1"
proof -
  have "0 < ms" using charge_recharge [OF t] by simp
  with assms(2-4) show ?thesis
    by (simp add: web_use_charge_def non_empty_def active_charge [OF t] charge_uses_of_def)
qed

lemma available_positive:
  assumes "charge_template t stacks ms"
  shows "\<not> num_le (ci_available (charge_info_of seen c d t)) (num 0) \<longleftrightarrow> of_nat (length (active_uses seen c d t)) < stacks"
  by (auto simp: available_charge [OF assms] num_le_def num_def max_def)

text \<open>
  C38. The charges of the web planner. If the page computed its information from the uses that are stored, at the moment of
  the click or before, then using a charge leaves less than one use more recharging than the template has stacks, which
  is no more than it has when their number is whole. And while a use is recharging, the moment that is announced for
  the next charge is the last one at which it is still missing: until then, that moment included, the available number does
  not change, and after it, it is greater, unless more uses are recharging than the template has. The page does not
  always show the stored uses: see \<open>two_clicks_overdraw\<close>.
\<close>

theorem web_charges_come_back:
  assumes "charge_template t stacks ms" "seen \<le> now" "c \<noteq> []"
    and "wz_charges status (wt_id t) = Some (charge_info_of seen c d t)"
  shows "(web_use_charge (Some c) status t now d \<noteq> d \<longrightarrow>
      of_nat (length (active_uses now c (web_use_charge (Some c) status t now d) t)) < stacks + 1)
    \<and> (\<forall>s. ci_next_recharge_at (charge_info_of seen c d t) = Some (Fin s) \<longrightarrow>
        (\<forall>n \<ge> seen. of_int n \<le> s \<longrightarrow> ci_available (charge_info_of n c d t) = ci_available (charge_info_of seen c d t))
        \<and> (of_nat (length (active_uses seen c d t)) < stacks + 1 \<longrightarrow>
            (\<forall>n. s < of_int n \<longrightarrow>
              num_lt (ci_available (charge_info_of seen c d t)) (ci_available (charge_info_of n c d t)))))"
proof (intro conjI allI impI)
  assume "web_use_charge (Some c) status t now d \<noteq> d"
  then have free: "\<not> num_le (ci_available (charge_info_of seen c d t)) (num 0)"
    using assms(3,4) by (auto simp: web_use_charge_def non_empty_def split: if_splits)
  have "of_nat (length (active_uses seen c d t)) < stacks"
    using free by (simp only: available_positive [OF assms(1)])
  moreover have "(of_nat (length (active_uses now c d t)) :: rat) \<le> of_nat (length (active_uses seen c d t))"
    using fewer_active [OF assms(1,2)] by simp
  ultimately show "of_nat (length (active_uses now c (web_use_charge (Some c) status t now d) t)) < stacks + 1"
    unfolding used_charge [OF assms(1,3,4) free] by simp
next
  fix s n assume "ci_next_recharge_at (charge_info_of seen c d t) = Some (Fin s)" "seen \<le> n" "of_int n \<le> s"
  from active_until [OF assms(1) this] show "ci_available (charge_info_of n c d t) = ci_available (charge_info_of seen c d t)"
    by (simp add: available_charge [OF assms(1)])
next
  fix s n
  let ?k = "length (active_uses seen c d t)" and ?l = "length (active_uses n c d t)"
  assume "ci_next_recharge_at (charge_info_of seen c d t) = Some (Fin s)" "s < of_int n" and few: "of_nat ?k < stacks + 1"
  from active_after [OF assms(1) this(1,2)] have "?l + 1 \<le> ?k" by simp
  then have "(of_nat (?l + 1) :: rat) \<le> of_nat ?k" by (simp only: of_nat_le_iff)
  then show "num_lt (ci_available (charge_info_of seen c d t)) (ci_available (charge_info_of n c d t))"
    using few by (simp add: available_charge [OF assms(1)])
qed

text \<open>
  Between the click and the end of \<open>reloadStatus\<close> the page still shows the uses from before the click, and nothing disables
  the button: two clicks in a row use the last charge twice.
\<close>

lemma two_clicks_overdraw:
  assumes t: "charge_template t stacks ms" and "c \<noteq> []"
    and status: "wz_charges status (wt_id t) = Some (charge_info_of seen c d t)"
    and last: "of_nat (length (active_uses seen c d t)) + 1 = stacks" "active_uses now c d t = active_uses seen c d t"
  shows "of_nat (length (active_uses now c (web_use_charge (Some c) status t now (web_use_charge (Some c) status t now d)) t)) =
    stacks + 1"
proof -
  have free: "\<not> num_le (ci_available (charge_info_of seen c d t)) (num 0)"
    using last(1) by (simp add: available_positive [OF t])
  show ?thesis
    unfolding used_charge [OF t assms(2) status free] using last by simp
qed

text \<open>One of two charges was used at the start of 1970; the other one is used five milliseconds later.\<close>

definition sample_charge :: web_template where
  "sample_charge = \<lparr>wt_id = ''t'', wt_title = ''Dungeon'', wt_type = WCharge, wt_enabled = True, wt_sort = 0,
     wt_estimated_minutes = None, wt_max_stacks = Some (num 2), wt_recharge_hours = Some (num 1)\<rparr>"

definition web_sample :: web_db where
  "web_sample = \<lparr>wd_templates = [sample_charge], wd_completions = [], wd_durations = [],
     wd_charge_uses = [\<lparr>wy_id = 1, wy_character_id = ''c'', wy_template_id = ''t'', wy_used_at = 0\<rparr>],
     wd_settings = None, wd_next_duration = 1, wd_next_use = 2\<rparr>"

theorem web_charges_come_back_witness:
  "\<exists>status. of_nat (length (active_uses 5 ''c'' (web_use_charge (Some ''c'') status sample_charge 5 web_sample) sample_charge)) < (3 :: rat)
     \<and> num_lt (ci_available (charge_info_of 0 ''c'' web_sample sample_charge))
         (ci_available (charge_info_of 3600001 ''c'' web_sample sample_charge))"
proof -
  define status where "status = \<lparr>wz_daily_done = {}, wz_weekly_done = {}, wz_average = Map.empty,
    wz_charges = [''t'' \<mapsto> charge_info_of 0 ''c'' web_sample sample_charge]\<rparr>"
  have t: "charge_template sample_charge 2 3600000"
    unfolding charge_template_def by (intro exI [of _ 2] exI [of _ 1]) (simp add: sample_charge_def or_num_def num_def)
  have active: "active_uses 0 ''c'' web_sample sample_charge = wd_charge_uses web_sample"
    unfolding active_charge [OF t] by (simp add: web_sample_def sample_charge_def charge_uses_of_def)
  have due: "ci_next_recharge_at (charge_info_of 0 ''c'' web_sample sample_charge) = Some (Fin 3600000)"
    unfolding next_charge [OF t] by (simp add: active, simp add: web_sample_def)
  have status: "wz_charges status (wt_id sample_charge) = Some (charge_info_of 0 ''c'' web_sample sample_charge)"
    by (simp add: status_def sample_charge_def)
  have one: "length (active_uses 0 ''c'' web_sample sample_charge) = 1" unfolding active by (simp add: web_sample_def)
  have free: "\<not> num_le (ci_available (charge_info_of 0 ''c'' web_sample sample_charge)) (num 0)"
    unfolding available_positive [OF t] one by simp
  have late: "(0 :: int) \<le> 5" "''c'' \<noteq> []" by simp_all
  note shown = web_charges_come_back [OF t late status]
  have used: "web_use_charge (Some ''c'') status sample_charge 5 web_sample \<noteq> web_sample"
    using free status by (simp add: web_use_charge_def non_empty_def) (simp add: web_sample_def)
  from shown [THEN conjunct1, rule_format, OF used]
  have "of_nat (length (active_uses 5 ''c'' (web_use_charge (Some ''c'') status sample_charge 5 web_sample) sample_charge)) < (3 :: rat)"
    by simp
  moreover have "num_lt (ci_available (charge_info_of 0 ''c'' web_sample sample_charge))
      (ci_available (charge_info_of 3600001 ''c'' web_sample sample_charge))"
    by (rule shown [THEN conjunct2, THEN spec, THEN mp, OF due, THEN conjunct2, THEN mp, THEN spec, THEN mp])
      (simp_all add: one)
  ultimately show ?thesis by (intro exI [of _ status] conjI)
qed

text \<open>Undoing takes back the latest use.\<close>

lemma first_latest:
  assumes "order_by (\<lambda>a b. wy_used_at b \<le> wy_used_at a) us = y # ys" "x \<in> set us"
  shows "wy_used_at x \<le> wy_used_at y \<and> y \<in> set us"
proof -
  have "sorted_wrt (\<lambda>a b. wy_used_at b \<le> wy_used_at a) (order_by (\<lambda>a b. wy_used_at b \<le> wy_used_at a) us)"
    by (rule sorted_order_by) auto
  moreover have "x \<in> set (y # ys)" "y \<in> set us"
    using assms set_order_by [of "\<lambda>a b. wy_used_at b \<le> wy_used_at a" us] by auto
  ultimately show ?thesis by (auto simp: assms(1))
qed

lemma web_undo_reverts_use:
  assumes d': "d' = web_use_charge (Some c) status t now d" and "d' \<noteq> d" "c \<noteq> []"
    and new: "\<forall>u \<in> set (wd_charge_uses d). wy_used_at u < now \<and> wy_id u < wd_next_use d"
    and "0 < wd_next_use d"
  shows "wd_charge_uses (web_undo_charge (Some c) t d') = wd_charge_uses d"
proof -
  let ?u = "\<lparr>wy_id = wd_next_use d, wy_character_id = c, wy_template_id = wt_id t, wy_used_at = now\<rparr>"
  have uses: "wd_charge_uses d' = wd_charge_uses d @ [?u]"
    using assms(2,3) by (auto simp: d' web_use_charge_def non_empty_def split: option.splits if_splits)
  let ?us = "charge_uses_of c (wt_id t) d'"
  have mem: "?u \<in> set ?us" by (simp add: charge_uses_of_def uses)
  then obtain y ys where y: "order_by (\<lambda>a b. wy_used_at b \<le> wy_used_at a) ?us = y # ys"
    using set_order_by [of "\<lambda>a b. wy_used_at b \<le> wy_used_at a" ?us] by (cases "order_by (\<lambda>a b. wy_used_at b \<le> wy_used_at a) ?us") auto
  from first_latest [OF y mem] have "now \<le> wy_used_at y" "y \<in> set (wd_charge_uses d @ [?u])"
    by (auto simp: charge_uses_of_def uses)
  then have "y = ?u" using new by auto
  then have "web_undo_charge (Some c) t d' = d'\<lparr>wd_charge_uses := filter (\<lambda>u. wy_id u \<noteq> wd_next_use d) (wd_charge_uses d')\<rparr>"
    using assms(3,5) y by (simp add: web_undo_charge_def non_empty_def)
  moreover have "filter (\<lambda>u. wy_id u \<noteq> wd_next_use d) (wd_charge_uses d) = wd_charge_uses d"
    using new by (intro filter_True) auto
  ultimately show ?thesis by (simp add: uses)
qed

text \<open>The widget counts what was done for tasks that are switched off now, so it may show more done than there are.\<close>

lemma widget_shows_one_of_none:
  "widget_counts z now ''c'' (toggle_completion (Some ''c'') ''t'' (get_daily_period_key z now 0) True now
     (web_sample\<lparr>wd_templates := []\<rparr>)) = (1, 0)"
  by (simp add: widget_counts_def toggle_completion_def get_or_create_web_settings_def web_sample_def non_empty_def Let_def)

end
