(* ===== verification/NoticeServer.thy ===== *)
theory NoticeServer
  imports NoticeSync
begin

text \<open>
  The notices of the web application: the worker that synchronises them into the database of the server
  (\<open>apps/worker/src/notices/sync.ts\<close>, \<open>repo.ts\<close>, \<open>apps/worker/src/notices-sync.ts\<close>). The worker has its own copies of
  \<open>normalize.ts\<close> and \<open>diff.ts\<close>, which differ from those of the desktop application in comments only, and calls the same
  client of the board, so their models are shared. Of the package Prisma the code uses what its documentation says of
  \<open>findFirst\<close> and \<open>upsert\<close> on the tables of \<open>packages/db/prisma/schema.prisma\<close>.
\<close>

section \<open>The tables\<close>

record server_item =
  qi_id :: string
  qi_source :: notice_source
  qi_external_id :: string
  qi_url :: string
  qi_title :: string
  qi_published_at :: "int option"
  qi_created_at :: int
  qi_updated_at :: int

record server_snapshot =
  qs_id :: string
  qs_notice_item_id :: string
  qs_fetched_at :: int
  qs_content_hash :: string
  qs_normalized_text :: string

record server_diff =
  qd_id :: string
  qd_notice_item_id :: string
  qd_from_snapshot_id :: string
  qd_to_snapshot_id :: string
  qd_diff_json :: jsval
  qd_created_at :: int

text \<open>
  The tables, with the number of calls that the database has answered. The n-th call draws the id \<open>pe_id n\<close> and reads the
  clock \<open>pe_now n\<close>; \<open>pe_fault n\<close> is the error of a call that the database rejects.
\<close>

record server_tables =
  pz_items :: "server_item list"
  pz_snapshots :: "server_snapshot list"
  pz_diffs :: "server_diff list"
  pz_calls :: nat

record prisma_env =
  pe_id :: "nat \<Rightarrow> string"
  pe_now :: "nat \<Rightarrow> int"
  pe_fault :: "nat \<Rightarrow> err option"

definition empty_tables :: server_tables where
  "empty_tables = \<lparr>pz_items = [], pz_snapshots = [], pz_diffs = [], pz_calls = 0\<rparr>"

definition prisma_call :: "prisma_env \<Rightarrow> (string \<Rightarrow> int \<Rightarrow> (server_tables, 'a) op) \<Rightarrow> (server_tables, 'a) op" where
  "prisma_call en k s =
     (let n = pz_calls s; s' = s\<lparr>pz_calls := n + 1\<rparr> in
      case pe_fault en n of Some e \<Rightarrow> (Inl e, s') | None \<Rightarrow> k (pe_id en n) (pe_now en n) s')"

section \<open>The repository of the synchronisation\<close>

record snapshot_summary =
  sm_id :: string
  sm_content_hash :: string
  sm_normalized_text :: string

record 's notice_sync_repo =
  rp_find_latest_snapshot :: "notice_source \<Rightarrow> string \<Rightarrow> ('s, snapshot_summary option) op"
  rp_upsert_item :: "notice_source \<Rightarrow> string \<Rightarrow> string \<Rightarrow> string \<Rightarrow> int option \<Rightarrow> ('s, string) op"
  rp_upsert_snapshot :: "string \<Rightarrow> string \<Rightarrow> string \<Rightarrow> ('s, string) op"
  rp_upsert_diff :: "string \<Rightarrow> string \<Rightarrow> string \<Rightarrow> jsval \<Rightarrow> ('s, unit) op"

text \<open>\<open>orderBy: { k: "desc" }\<close> with \<open>findFirst\<close>; among rows with the same key the database may choose, here it is the oldest row.\<close>

definition latest_by :: "('r \<Rightarrow> int) \<Rightarrow> 'r list \<Rightarrow> 'r option" where
  "latest_by key rows = (case order_by (\<lambda>x y. key y \<le> key x) rows of [] \<Rightarrow> None | r # _ \<Rightarrow> Some r)"

definition snapshot_summary_of :: "server_snapshot \<Rightarrow> snapshot_summary" where
  "snapshot_summary_of r = \<lparr>sm_id = qs_id r, sm_content_hash = qs_content_hash r, sm_normalized_text = qs_normalized_text r\<rparr>"

definition item_has_key :: "notice_source \<Rightarrow> string \<Rightarrow> server_item \<Rightarrow> bool" where
  "item_has_key source external_id r \<longleftrightarrow> qi_source r = source \<and> qi_external_id r = external_id"

definition snapshots_of_key :: "notice_source \<Rightarrow> string \<Rightarrow> server_tables \<Rightarrow> server_snapshot list" where
  "snapshots_of_key source external_id s =
     filter (\<lambda>r. list_ex (\<lambda>i. qi_id i = qs_notice_item_id r \<and> item_has_key source external_id i) (pz_items s)) (pz_snapshots s)"

definition find_latest_snapshot ::
  "prisma_env \<Rightarrow> notice_source \<Rightarrow> string \<Rightarrow> (server_tables, snapshot_summary option) op" where
  "find_latest_snapshot en source external_id = prisma_call en (\<lambda>_ _. reading (\<lambda>s.
     ret (map_option snapshot_summary_of (latest_by qs_fetched_at (snapshots_of_key source external_id s)))))"

definition upsert_item ::
  "prisma_env \<Rightarrow> notice_source \<Rightarrow> string \<Rightarrow> string \<Rightarrow> string \<Rightarrow> int option \<Rightarrow> (server_tables, string) op" where
  "upsert_item en source external_id url title published_at = prisma_call en (\<lambda>uid now. reading (\<lambda>s.
     case find (item_has_key source external_id) (pz_items s) of
       Some r \<Rightarrow> and_then (modify (pz_items_update (update_where (item_has_key source external_id)
           (\<lambda>r. r\<lparr>qi_url := url, qi_title := title, qi_published_at := published_at, qi_updated_at := now\<rparr>))))
           (\<lambda>_. ret (qi_id r))
     | None \<Rightarrow>
         guard_else (\<not> list_ex (\<lambda>r. qi_id r = uid) (pz_items s)) (Constraint ''NoticeItem.id'')
           (and_then (modify (pz_items_update (\<lambda>t. t @ [\<lparr>qi_id = uid, qi_source = source, qi_external_id = external_id,
              qi_url = url, qi_title = title, qi_published_at = published_at, qi_created_at = now, qi_updated_at = now\<rparr>])))
              (\<lambda>_. ret uid))))"

definition upsert_server_snapshot :: "prisma_env \<Rightarrow> string \<Rightarrow> string \<Rightarrow> string \<Rightarrow> (server_tables, string) op" where
  "upsert_server_snapshot en item_id content_hash normalized_text = prisma_call en (\<lambda>uid now. reading (\<lambda>s.
     case find (\<lambda>r. qs_notice_item_id r = item_id \<and> qs_content_hash r = content_hash) (pz_snapshots s) of
       Some r \<Rightarrow> ret (qs_id r)
     | None \<Rightarrow>
         guard_else (list_ex (\<lambda>r. qi_id r = item_id) (pz_items s)) (Constraint ''NoticeSnapshot.noticeItemId'')
        (guard_else (\<not> list_ex (\<lambda>r. qs_id r = uid) (pz_snapshots s)) (Constraint ''NoticeSnapshot.id'')
           (and_then (modify (pz_snapshots_update (\<lambda>t. t @ [\<lparr>qs_id = uid, qs_notice_item_id = item_id, qs_fetched_at = now,
              qs_content_hash = content_hash, qs_normalized_text = normalized_text\<rparr>])))
              (\<lambda>_. ret uid)))))"

definition diff_has_key :: "string \<Rightarrow> string \<Rightarrow> server_diff \<Rightarrow> bool" where
  "diff_has_key from_id to_id r \<longleftrightarrow> qd_from_snapshot_id r = from_id \<and> qd_to_snapshot_id r = to_id"

definition upsert_server_diff :: "prisma_env \<Rightarrow> string \<Rightarrow> string \<Rightarrow> string \<Rightarrow> jsval \<Rightarrow> (server_tables, unit) op" where
  "upsert_server_diff en item_id from_id to_id diff = prisma_call en (\<lambda>uid now. reading (\<lambda>s.
     if list_ex (diff_has_key from_id to_id) (pz_diffs s)
     then modify (pz_diffs_update (update_where (diff_has_key from_id to_id) (\<lambda>r. r\<lparr>qd_diff_json := diff\<rparr>)))
     else guard_else (list_ex (\<lambda>r. qi_id r = item_id) (pz_items s)
             \<and> list_ex (\<lambda>r. qs_id r = from_id) (pz_snapshots s) \<and> list_ex (\<lambda>r. qs_id r = to_id) (pz_snapshots s))
             (Constraint ''NoticeDiff'')
         (guard_else (\<not> list_ex (\<lambda>r. qd_id r = uid) (pz_diffs s)) (Constraint ''NoticeDiff.id'')
            (modify (pz_diffs_update (\<lambda>t. t @ [\<lparr>qd_id = uid, qd_notice_item_id = item_id, qd_from_snapshot_id = from_id,
               qd_to_snapshot_id = to_id, qd_diff_json = diff, qd_created_at = now\<rparr>]))))))"

definition prisma_notice_sync_repo :: "prisma_env \<Rightarrow> server_tables notice_sync_repo" where
  "prisma_notice_sync_repo en = \<lparr>rp_find_latest_snapshot = find_latest_snapshot en, rp_upsert_item = upsert_item en,
     rp_upsert_snapshot = upsert_server_snapshot en, rp_upsert_diff = upsert_server_diff en\<rparr>"

section \<open>One synchronisation\<close>

record worker_options =
  ws_sources :: "notice_source list"
  ws_latest :: latest_options
  ws_dry_run :: bool

definition default_worker_options :: worker_options where
  "default_worker_options = \<lparr>ws_sources = [NOTICE, UPDATE],
     ws_latest = \<lparr>lo_max_pages = num 5, lo_page_size = 18, lo_include_pinned = True\<rparr>, ws_dry_run = False\<rparr>"

record worker_totals =
  wn_sources :: nat
  wn_metas_fetched :: nat
  wn_items_upserted :: nat
  wn_snapshots_upserted :: nat
  wn_diffs_upserted :: nat

definition line_diff_json :: "service \<Rightarrow> string \<Rightarrow> string \<Rightarrow> jsval" where
  "line_diff_json sv from to = Arr (map block_json (build_line_diff (sv_diff_lines sv) from to))"

definition worker_diff ::
  "service \<Rightarrow> 's notice_sync_repo \<Rightarrow> snapshot_summary option \<Rightarrow> string \<Rightarrow> string \<Rightarrow> string \<times> string \<Rightarrow> worker_totals \<Rightarrow>
   ('s, worker_totals) op" where
  "worker_diff sv repo latest item_id snapshot_id normalized t =
     (case latest of
        None \<Rightarrow> ret t
      | Some b \<Rightarrow>
          if sm_content_hash b = snd normalized then ret t
          else if sm_id b = snapshot_id then ret t
          else and_then (rp_upsert_diff repo item_id (sm_id b) snapshot_id
                 (line_diff_json sv (sm_normalized_text b) (fst normalized)))
                 (\<lambda>_. ret (t\<lparr>wn_diffs_upserted := wn_diffs_upserted t + 1\<rparr>)))"

definition worker_store ::
  "service \<Rightarrow> 's notice_sync_repo \<Rightarrow> notice_source \<Rightarrow> snapshot_summary option \<Rightarrow> article_detail \<Rightarrow> worker_totals \<Rightarrow>
   ('s, worker_totals) op" where
  "worker_store sv repo source latest detail t =
     (let h = sv_host sv;
          published_at = Option.bind (parse_iso_date h (or_else (am_published_at detail) (am_posted_at detail))) (parse_date h);
          normalized = normalize_and_hash_notice_html sv (ad_content_html detail) in
      and_then (rp_upsert_item repo source (am_id detail) (am_url detail) (am_title detail) published_at) (\<lambda>item_id.
      and_then (rp_upsert_snapshot repo item_id (snd normalized) (fst normalized)) (\<lambda>snapshot_id.
      worker_diff sv repo latest item_id snapshot_id normalized
        (t\<lparr>wn_items_upserted := wn_items_upserted t + 1, wn_snapshots_upserted := wn_snapshots_upserted t + 1\<rparr>))))"

definition worker_meta ::
  "service \<Rightarrow> 's notice_sync_repo \<Rightarrow> bool \<Rightarrow> notice_source \<Rightarrow> article_meta \<Rightarrow> worker_totals \<Rightarrow> ('s, worker_totals) op" where
  "worker_meta sv repo dry_run source m t =
     and_then (if dry_run then ret None else rp_find_latest_snapshot repo source (am_id m)) (\<lambda>latest.
       case fetch_article_detail (sv_http sv) (source_to_alias source) (am_id m) of
         Inl e \<Rightarrow> throw e
       | Inr detail \<Rightarrow> if dry_run then ret t else worker_store sv repo source latest detail t)"

definition worker_source ::
  "service \<Rightarrow> 's notice_sync_repo \<Rightarrow> worker_options \<Rightarrow> notice_source \<Rightarrow> worker_totals \<Rightarrow> ('s, worker_totals) op" where
  "worker_source sv repo opts source t =
     (case fetch_latest_article_metas (sv_http sv) (source_to_alias source) (ws_latest opts) of
        None \<Rightarrow> throw (IoError ''no answer'')
      | Some (Inl e) \<Rightarrow> throw e
      | Some (Inr metas) \<Rightarrow>
          for_acc metas (t\<lparr>wn_metas_fetched := wn_metas_fetched t + length metas\<rparr>)
            (worker_meta sv repo (ws_dry_run opts) source))"

definition sync_notices :: "service \<Rightarrow> 's notice_sync_repo \<Rightarrow> worker_options \<Rightarrow> ('s, worker_totals) op" where
  "sync_notices sv repo opts =
     for_acc (ws_sources opts)
       \<lparr>wn_sources = length (ws_sources opts), wn_metas_fetched = 0, wn_items_upserted = 0, wn_snapshots_upserted = 0,
        wn_diffs_upserted = 0\<rparr>
       (worker_source sv repo opts)"

section \<open>What the stored differences show\<close>

text \<open>
  \<open>right_diffs\<close>: the hash of a stored snapshot is that of its text, and a stored difference belongs to the item of both
  its snapshots, leads from the first to another text and is the difference of the two, up to a collision of the hash.
\<close>

definition right_diffs ::
  "service \<Rightarrow> (string \<Rightarrow> (string \<times> string \<times> string) option) \<Rightarrow> (string \<Rightarrow> string \<Rightarrow> (string \<times> jsval) option) \<Rightarrow> bool" where
  "right_diffs sv snaps df \<longleftrightarrow>
     (\<forall>k i h t. snaps k = Some (i, h, t) \<longrightarrow> h = sv_sha256 sv t)
     \<and> (\<forall>a b i j. df a b = Some (i, j) \<longrightarrow> (\<exists>ta tb t. snaps a = Some (i, sv_sha256 sv ta, ta)
          \<and> snaps b = Some (i, sv_sha256 sv tb, tb) \<and> sv_sha256 sv t = sv_sha256 sv tb
          \<and> sv_sha256 sv ta \<noteq> sv_sha256 sv tb \<and> j = line_diff_json sv ta t))"

lemma right_diffs_service: "right_diffs (sv\<lparr>sv_http := http\<rparr>) = right_diffs sv"
  by (intro ext) (simp add: right_diffs_def line_diff_json_def)

lemma right_diffsE:
  assumes "right_diffs sv snaps df" "df a b = Some (i, j)"
  obtains ta tb t where "snaps a = Some (i, sv_sha256 sv ta, ta)" "snaps b = Some (i, sv_sha256 sv tb, tb)"
    "sv_sha256 sv t = sv_sha256 sv tb" "sv_sha256 sv ta \<noteq> sv_sha256 sv tb" "j = line_diff_json sv ta t"
  using assms unfolding right_diffs_def by metis

lemma right_diffs_add_snapshot:
  assumes right: "right_diffs sv snaps df" and kept: "\<And>k v. snaps k = Some v \<Longrightarrow> snaps' k = Some v"
    and new: "\<And>k v. snaps' k = Some v \<Longrightarrow> snaps k = Some v \<or> v = (i, sv_sha256 sv t, t)"
  shows "right_diffs sv snaps' df"
  unfolding right_diffs_def
proof (intro conjI allI impI)
  fix k j h u assume "snaps' k = Some (j, h, u)"
  with new [OF this] right show "h = sv_sha256 sv u" by (auto simp: right_diffs_def)
next
  fix a b j v assume "df a b = Some (j, v)"
  from right_diffsE [OF right this] obtain ta tb t where "snaps a = Some (j, sv_sha256 sv ta, ta)"
    "snaps b = Some (j, sv_sha256 sv tb, tb)" "sv_sha256 sv t = sv_sha256 sv tb" "sv_sha256 sv ta \<noteq> sv_sha256 sv tb"
    "v = line_diff_json sv ta t" .
  with kept show "\<exists>ta tb t. snaps' a = Some (j, sv_sha256 sv ta, ta) \<and> snaps' b = Some (j, sv_sha256 sv tb, tb)
      \<and> sv_sha256 sv t = sv_sha256 sv tb \<and> sv_sha256 sv ta \<noteq> sv_sha256 sv tb \<and> v = line_diff_json sv ta t"
    by (intro exI conjI)
qed

lemma right_diffs_add_diff:
  assumes right: "right_diffs sv snaps df"
    and old: "\<And>a b v. df' a b = Some v \<Longrightarrow> df a b = Some v
      \<or> a = src \<and> b = dst \<and> snd v = line_diff_json sv ta t \<and> (fst v = i \<or> (\<exists>j. df a b = Some (fst v, j)))"
    and ends: "snaps src = Some (i, sv_sha256 sv ta, ta)" "snaps dst = Some (i, sv_sha256 sv tb, tb)"
      "sv_sha256 sv t = sv_sha256 sv tb" "sv_sha256 sv ta \<noteq> sv_sha256 sv tb"
  shows "right_diffs sv snaps df'"
proof -
  have "\<exists>ta tb t. snaps a = Some (i', sv_sha256 sv ta, ta) \<and> snaps b = Some (i', sv_sha256 sv tb, tb)
      \<and> sv_sha256 sv t = sv_sha256 sv tb \<and> sv_sha256 sv ta \<noteq> sv_sha256 sv tb \<and> j = line_diff_json sv ta t"
    if d: "df' a b = Some (i', j)" for a b i' j
  proof (cases "df a b = Some (i', j)")
    case True
    from right_diffsE [OF right this] show ?thesis by metis
  next
    case False
    with old [OF d] have new: "a = src" "b = dst" "j = line_diff_json sv ta t" "i' = i \<or> (\<exists>j. df src dst = Some (i', j))"
      by auto
    have "i' = i"
    proof (rule disjE [OF new(4)])
      assume "\<exists>j. df src dst = Some (i', j)"
      then obtain j' where "df src dst = Some (i', j')" by (elim exE)
      from right_diffsE [OF right this] ends(1) show "i' = i" by force
    qed
    with new ends show ?thesis by metis
  qed
  with right show ?thesis unfolding right_diffs_def by metis
qed

text \<open>
  What the synchronisation relies on of its repository: a lookup changes nothing and gives a snapshot of the item with the
  key; an item keeps its id; a snapshot is never changed; a difference is stored under its two snapshots.
\<close>

locale notice_repository =
  fixes repo :: "'s notice_sync_repo"
    and sound :: "'s \<Rightarrow> bool"
    and item_at :: "'s \<Rightarrow> notice_source \<Rightarrow> string \<Rightarrow> string option"
    and snapshot_at :: "'s \<Rightarrow> string \<Rightarrow> (string \<times> string \<times> string) option"
    and diff_at :: "'s \<Rightarrow> string \<Rightarrow> string \<Rightarrow> (string \<times> jsval) option"
  assumes finds: "\<lbrakk>sound s; rp_find_latest_snapshot repo source ext s = (r, s')\<rbrakk> \<Longrightarrow>
      sound s' \<and> item_at s' = item_at s \<and> snapshot_at s' = snapshot_at s \<and> diff_at s' = diff_at s
      \<and> (\<forall>b. r = Inr (Some b) \<longrightarrow> (\<exists>i. item_at s source ext = Some i
           \<and> snapshot_at s (sm_id b) = Some (i, sm_content_hash b, sm_normalized_text b)))"
    and upserts_item: "\<lbrakk>sound s; rp_upsert_item repo source ext url title published s = (p, s')\<rbrakk> \<Longrightarrow>
      sound s' \<and> snapshot_at s' = snapshot_at s \<and> diff_at s' = diff_at s
      \<and> (\<forall>src x i. item_at s src x = Some i \<longrightarrow> item_at s' src x = Some i)
      \<and> (\<forall>i. p = Inr i \<longrightarrow> item_at s' source ext = Some i)"
    and upserts_snapshot: "\<lbrakk>sound s; rp_upsert_snapshot repo item hash txt s = (q, s')\<rbrakk> \<Longrightarrow>
      sound s' \<and> diff_at s' = diff_at s \<and> (\<forall>k v. snapshot_at s k = Some v \<longrightarrow> snapshot_at s' k = Some v)
      \<and> (\<forall>k v. snapshot_at s' k = Some v \<longrightarrow> snapshot_at s k = Some v \<or> v = (item, hash, txt))
      \<and> (\<forall>k. q = Inr k \<longrightarrow> (\<exists>t. snapshot_at s' k = Some (item, hash, t)))"
    and upserts_diff: "\<lbrakk>sound s; rp_upsert_diff repo item from to json s = (u, s')\<rbrakk> \<Longrightarrow>
      sound s' \<and> snapshot_at s' = snapshot_at s
      \<and> (\<forall>a b v. diff_at s' a b = Some v \<longrightarrow> diff_at s a b = Some v
           \<or> a = from \<and> b = to \<and> snd v = json \<and> (fst v = item \<or> (\<exists>j. diff_at s a b = Some (fst v, j))))"
begin

definition right :: "service \<Rightarrow> 's \<Rightarrow> bool" where
  "right sv s \<longleftrightarrow> sound s \<and> right_diffs sv (snapshot_at s) (diff_at s)"

lemma worker_diff_right:
  assumes ok: "right sv s" and hash: "snd normalized = sv_sha256 sv (fst normalized)"
    and target: "snapshot_at s k = Some (i, snd normalized, t)"
    and start: "\<And>b. latest = Some b \<Longrightarrow> snapshot_at s (sm_id b) = Some (i, sm_content_hash b, sm_normalized_text b)"
  shows "right sv (snd (worker_diff sv repo latest i k normalized totals s))"
proof (cases "\<exists>b. latest = Some b \<and> sm_content_hash b \<noteq> snd normalized \<and> sm_id b \<noteq> k")
  case True
  then obtain b where b: "latest = Some b" "sm_content_hash b \<noteq> snd normalized" "sm_id b \<noteq> k" by blast
  have hashes: "sm_content_hash b = sv_sha256 sv (sm_normalized_text b)" "snd normalized = sv_sha256 sv t"
    using ok start [OF b(1)] target by (auto simp: right_def right_diffs_def)
  obtain u s' where run: "rp_upsert_diff repo i (sm_id b) k (line_diff_json sv (sm_normalized_text b) (fst normalized)) s = (u, s')"
    by force
  from ok have sound: "sound s" and base: "right_diffs sv (snapshot_at s) (diff_at s)" by (simp_all add: right_def)
  note law = upserts_diff [OF sound run]
  from law have old: "diff_at s a c = Some v \<or> a = sm_id b \<and> c = k
      \<and> snd v = line_diff_json sv (sm_normalized_text b) (fst normalized) \<and> (fst v = i \<or> (\<exists>j. diff_at s a c = Some (fst v, j)))"
    if "diff_at s' a c = Some v" for a c v
    using that by blast
  have "right_diffs sv (snapshot_at s) (diff_at s')"
    using start [OF b(1)] target b(2) hash hashes by (intro right_diffs_add_diff [OF base old, where tb = t]) simp_all
  with law have "right sv s'" by (simp add: right_def)
  moreover have "snd (worker_diff sv repo latest i k normalized totals s) = s'"
    using b run by (simp add: worker_diff_def and_then_def ret_def split: sum.split)
  ultimately show ?thesis by simp
next
  case False
  then have "snd (worker_diff sv repo latest i k normalized totals s) = s"
    by (auto simp: worker_diff_def ret_def split: option.split)
  with ok show ?thesis by simp
qed

lemma worker_store_right:
  assumes ok: "right sv s" and start: "\<And>b. latest = Some b \<Longrightarrow> \<exists>i. item_at s source (am_id detail) = Some i
      \<and> snapshot_at s (sm_id b) = Some (i, sm_content_hash b, sm_normalized_text b)"
  shows "right sv (snd (worker_store sv repo source latest detail totals s))"
proof -
  define n where "n = normalize_and_hash_notice_html sv (ad_content_html detail)"
  have hash: "snd n = sv_sha256 sv (fst n)" by (simp add: n_def normalize_and_hash_notice_html_def Let_def)
  define published where "published = Option.bind (parse_iso_date (sv_host sv)
      (or_else (am_published_at detail) (am_posted_at detail))) (parse_date (sv_host sv))"
  obtain r s1 where item: "rp_upsert_item repo source (am_id detail) (am_url detail) (am_title detail) published s = (r, s1)"
    by force
  note law1 = upserts_item [OF _ item]
  from ok law1 have ok1: "right sv s1" by (simp add: right_def)
  show ?thesis
  proof (cases r)
    case (Inl e)
    with item ok1 show ?thesis by (simp add: worker_store_def Let_def and_then_def published_def)
  next
    case (Inr i)
    obtain q s2 where snap: "rp_upsert_snapshot repo i (snd n) (fst n) s1 = (q, s2)" by force
    note law2 = upserts_snapshot [OF _ snap]
    have sound1: "sound s1" and right1: "right_diffs sv (snapshot_at s1) (diff_at s1)" using ok1 by (simp_all add: right_def)
    have "right_diffs sv (snapshot_at s2) (diff_at s1)"
      using law2 [OF sound1] unfolding hash by (intro right_diffs_add_snapshot [OF right1]) blast+
    with law2 [OF sound1] have ok2: "right sv s2" by (simp add: right_def)
    show ?thesis
    proof (cases q)
      case (Inl e)
      with Inr item snap ok2 show ?thesis by (simp add: worker_store_def Let_def and_then_def published_def n_def)
    next
      case (Inr k)
      have target: "\<exists>t. snapshot_at s2 k = Some (i, snd n, t)" using law2 [OF sound1] Inr by blast
      have begins: "snapshot_at s2 (sm_id b) = Some (i, sm_content_hash b, sm_normalized_text b)" if b: "latest = Some b" for b
      proof -
        from start [OF b] obtain j where j: "item_at s source (am_id detail) = Some j"
          "snapshot_at s (sm_id b) = Some (j, sm_content_hash b, sm_normalized_text b)" by (elim exE conjE)
        have "sound s" using ok by (simp add: right_def)
        note law = law1 [OF this]
        from law j(1) have "item_at s1 source (am_id detail) = Some j" by blast
        moreover from law \<open>r = Inr i\<close> have "item_at s1 source (am_id detail) = Some i" by blast
        moreover from law j(2) have "snapshot_at s1 (sm_id b) = Some (j, sm_content_hash b, sm_normalized_text b)" by simp
        moreover from law2 [OF sound1] this
        have "snapshot_at s2 (sm_id b) = Some (j, sm_content_hash b, sm_normalized_text b)" by blast
        ultimately show ?thesis by simp
      qed
      from target obtain t where "snapshot_at s2 k = Some (i, snd n, t)" by (elim exE)
      from worker_diff_right [OF ok2 hash this begins] \<open>r = Inr i\<close> Inr item snap
      show ?thesis by (simp add: worker_store_def Let_def and_then_def published_def n_def)
    qed
  qed
qed

lemma worker_meta_right:
  assumes "\<And>a i detail. fetch_article_detail (sv_http sv) a i = Inr detail \<Longrightarrow> am_id detail = i"
  shows "keeps (right sv) (worker_meta sv repo dry_run source m totals)"
proof (rule keepsI)
  fix s assume ok: "right sv s"
  obtain r s1 where latest: "(if dry_run then ret None else rp_find_latest_snapshot repo source (am_id m)) s = (r, s1)" by force
  have ok1: "right sv s1" and start: "\<And>b. r = Inr (Some b) \<Longrightarrow> \<exists>i. item_at s1 source (am_id m) = Some i
      \<and> snapshot_at s1 (sm_id b) = Some (i, sm_content_hash b, sm_normalized_text b)"
    using ok latest finds [of s source "am_id m" r s1] by (auto simp: right_def ret_def split: if_splits)
  have "right sv (snd (worker_store sv repo source b detail totals s1))"
    if "r = Inr b" "fetch_article_detail (sv_http sv) (source_to_alias source) (am_id m) = Inr detail" for b detail
    using that assms [OF that(2)] start by (intro worker_store_right [OF ok1]) simp
  with latest ok1 show "right sv (snd (worker_meta sv repo dry_run source m totals s))"
    by (simp add: worker_meta_def and_then_def throw_def ret_def split: sum.split)
qed

lemma sync_notices_right:
  assumes "\<And>a i detail. fetch_article_detail (sv_http sv) a i = Inr detail \<Longrightarrow> am_id detail = i"
  shows "keeps (right sv) (sync_notices sv repo opts)"
  unfolding sync_notices_def worker_source_def
  by (intro keeps_intro worker_meta_right) (rule assms)

end

section \<open>The tables are such a repository\<close>

definition tables_sound :: "server_tables \<Rightarrow> bool" where
  "tables_sound s \<longleftrightarrow> distinct (map (\<lambda>r. (qi_source r, qi_external_id r)) (pz_items s)) \<and> distinct (map qs_id (pz_snapshots s))
     \<and> distinct (map (\<lambda>r. (qd_from_snapshot_id r, qd_to_snapshot_id r)) (pz_diffs s))"

definition stored_item :: "server_tables \<Rightarrow> notice_source \<Rightarrow> string \<Rightarrow> string option" where
  "stored_item s source external_id = map_option qi_id (find (item_has_key source external_id) (pz_items s))"

definition stored_snapshot :: "server_tables \<Rightarrow> string \<Rightarrow> (string \<times> string \<times> string) option" where
  "stored_snapshot s k = map_option (\<lambda>r. (qs_notice_item_id r, qs_content_hash r, qs_normalized_text r))
     (find (\<lambda>r. qs_id r = k) (pz_snapshots s))"

definition stored_diff :: "server_tables \<Rightarrow> string \<Rightarrow> string \<Rightarrow> (string \<times> jsval) option" where
  "stored_diff s a b = map_option (\<lambda>r. (qd_notice_item_id r, qd_diff_json r)) (find (diff_has_key a b) (pz_diffs s))"

lemma find_by_key: "distinct (map f xs) \<Longrightarrow> x \<in> set xs \<Longrightarrow> find (\<lambda>r. f r = f x) xs = Some x"
  by (induction xs) (auto simp: image_iff)

lemma stored_item_row: "tables_sound s \<Longrightarrow> r \<in> set (pz_items s) \<Longrightarrow> stored_item s (qi_source r) (qi_external_id r) = Some (qi_id r)"
  using find_by_key [of "\<lambda>r. (qi_source r, qi_external_id r)" "pz_items s" r]
  by (simp add: stored_item_def tables_sound_def item_has_key_def [abs_def])

lemma stored_snapshot_row: "tables_sound s \<Longrightarrow> r \<in> set (pz_snapshots s) \<Longrightarrow>
    stored_snapshot s (qs_id r) = Some (qs_notice_item_id r, qs_content_hash r, qs_normalized_text r)"
  using find_by_key [of qs_id "pz_snapshots s" r] by (simp add: stored_snapshot_def tables_sound_def)

lemma stored_diff_row: "tables_sound s \<Longrightarrow> r \<in> set (pz_diffs s) \<Longrightarrow>
    stored_diff s (qd_from_snapshot_id r) (qd_to_snapshot_id r) = Some (qd_notice_item_id r, qd_diff_json r)"
  using find_by_key [of "\<lambda>r. (qd_from_snapshot_id r, qd_to_snapshot_id r)" "pz_diffs s" r]
  by (simp add: stored_diff_def tables_sound_def diff_has_key_def [abs_def])

lemma stored_snapshotD: "stored_snapshot s k = Some (i, h, t) \<Longrightarrow>
    \<exists>r \<in> set (pz_snapshots s). qs_id r = k \<and> qs_notice_item_id r = i \<and> qs_content_hash r = h \<and> qs_normalized_text r = t"
  by (auto simp: stored_snapshot_def dest!: find_SomeD)

lemma views_of_calls [simp]:
  "tables_sound (s\<lparr>pz_calls := n\<rparr>) = tables_sound s" "stored_item (s\<lparr>pz_calls := n\<rparr>) = stored_item s"
  "stored_snapshot (s\<lparr>pz_calls := n\<rparr>) = stored_snapshot s" "stored_diff (s\<lparr>pz_calls := n\<rparr>) = stored_diff s"
  by (auto simp: tables_sound_def stored_item_def stored_snapshot_def stored_diff_def fun_eq_iff)

lemma latest_by_in: "latest_by key rows = Some r \<Longrightarrow> r \<in> set rows"
proof -
  assume latest: "latest_by key rows = Some r"
  then obtain rs where "order_by (\<lambda>x y. key y \<le> key x) rows = r # rs" by (auto simp: latest_by_def split: list.splits)
  then have "r \<in> set (order_by (\<lambda>x y. key y \<le> key x) rows)" by (metis list.set_intros(1))
  then show ?thesis by simp
qed

text \<open>A call that the database rejects, and one that it answers.\<close>

lemma prisma_callE:
  assumes "prisma_call en k s = (r, s')"
  obtains e where "r = Inl e" "s' = s\<lparr>pz_calls := pz_calls s + 1\<rparr>"
  | "k (pe_id en (pz_calls s)) (pe_now en (pz_calls s)) (s\<lparr>pz_calls := pz_calls s + 1\<rparr>) = (r, s')"
  using assms by (auto simp: prisma_call_def Let_def split: option.splits)

lemma find_latest_snapshot_views:
  assumes sound: "tables_sound s" and run: "find_latest_snapshot en source ext s = (r, s')"
  shows "tables_sound s' \<and> stored_item s' = stored_item s \<and> stored_snapshot s' = stored_snapshot s \<and> stored_diff s' = stored_diff s
      \<and> (\<forall>b. r = Inr (Some b) \<longrightarrow> (\<exists>i. stored_item s source ext = Some i
           \<and> stored_snapshot s (sm_id b) = Some (i, sm_content_hash b, sm_normalized_text b)))"
  using run unfolding find_latest_snapshot_def
proof (cases rule: prisma_callE)
  case (1 e)
  with sound show ?thesis by simp
next
  case 2
  then have s': "s' = s\<lparr>pz_calls := pz_calls s + 1\<rparr>"
    and r: "r = Inr (map_option snapshot_summary_of (latest_by qs_fetched_at (snapshots_of_key source ext s)))"
    by (simp_all add: op_simps snapshots_of_key_def)
  have "\<exists>i. stored_item s source ext = Some i \<and> stored_snapshot s (sm_id b) = Some (i, sm_content_hash b, sm_normalized_text b)"
    if "r = Inr (Some b)" for b
  proof -
    from that r obtain x where x: "latest_by qs_fetched_at (snapshots_of_key source ext s) = Some x" "b = snapshot_summary_of x"
      by auto
    from latest_by_in [OF x(1)] obtain i where i: "i \<in> set (pz_items s)" "qi_id i = qs_notice_item_id x"
      "item_has_key source ext i" "x \<in> set (pz_snapshots s)"
      by (auto simp: snapshots_of_key_def list_ex_iff)
    with stored_item_row [OF sound i(1)] stored_snapshot_row [OF sound i(4)] x(2) show ?thesis
      by (simp add: item_has_key_def snapshot_summary_of_def)
  qed
  with sound s' show ?thesis by simp
qed

lemma upsert_item_views:
  assumes sound: "tables_sound s" and run: "upsert_item en source ext url title published s = (p, s')"
  shows "tables_sound s' \<and> stored_snapshot s' = stored_snapshot s \<and> stored_diff s' = stored_diff s
      \<and> (\<forall>src x i. stored_item s src x = Some i \<longrightarrow> stored_item s' src x = Some i)
      \<and> (\<forall>i. p = Inr i \<longrightarrow> stored_item s' source ext = Some i)"
  using run unfolding upsert_item_def
proof (cases rule: prisma_callE)
  case (1 e)
  with sound show ?thesis by simp
next
  case 2
  define now where "now = pe_now en (pz_calls s)"
  define f :: "server_item \<Rightarrow> server_item" where
    "f = (\<lambda>r. r\<lparr>qi_url := url, qi_title := title, qi_published_at := published, qi_updated_at := now\<rparr>)"
  have key: "qi_source (f r) = qi_source r" "qi_external_id (f r) = qi_external_id r" "qi_id (f r) = qi_id r" for r
    by (simp_all add: f_def)
  show ?thesis
  proof (cases "find (item_has_key source ext) (pz_items s)")
    case (Some r)
    with 2 have s': "s' = pz_items_update (update_where (item_has_key source ext) f) (s\<lparr>pz_calls := pz_calls s + 1\<rparr>)"
      and p: "p = Inr (qi_id r)"
      by (simp_all add: op_simps f_def now_def)
    have "map (\<lambda>r. (qi_source r, qi_external_id r)) (pz_items s') = map (\<lambda>r. (qi_source r, qi_external_id r)) (pz_items s)"
      by (simp add: s' update_where_def key)
    then have "tables_sound s'" using sound unfolding tables_sound_def by (simp add: s')
    moreover have "stored_item s' src x = stored_item s src x" for src x
      by (cases "find (item_has_key src x) (pz_items s)")
        (simp_all add: stored_item_def s' find_update_any item_has_key_def key)
    moreover have "stored_item s source ext = Some (qi_id r)" using Some by (simp add: stored_item_def)
    ultimately show ?thesis using p by (simp add: s' stored_snapshot_def stored_diff_def fun_eq_iff)
  next
    case None
    show ?thesis
    proof (cases "list_ex (\<lambda>r. qi_id r = pe_id en (pz_calls s)) (pz_items s)")
      case True
      with 2 None sound show ?thesis by (auto simp: op_simps)
    next
      case False
      define row where "row = \<lparr>qi_id = pe_id en (pz_calls s), qi_source = source, qi_external_id = ext, qi_url = url,
        qi_title = title, qi_published_at = published, qi_created_at = now, qi_updated_at = now\<rparr>"
      have s': "s' = pz_items_update (\<lambda>t. t @ [row]) (s\<lparr>pz_calls := pz_calls s + 1\<rparr>)" and p: "p = Inr (qi_id row)"
        using 2 None False by (simp_all add: op_simps row_def now_def)
      have "(source, ext) \<notin> (\<lambda>r. (qi_source r, qi_external_id r)) ` set (pz_items s)"
        using None by (auto simp: find_None_iff item_has_key_def)
      then have "tables_sound s'" using sound by (simp add: tables_sound_def s' row_def)
      moreover have "stored_item s' source ext = Some (qi_id row)"
        using None by (simp add: stored_item_def s' find_append item_has_key_def row_def)
      moreover have "stored_item s src x = Some i \<longrightarrow> stored_item s' src x = Some i" for src x i
        by (auto simp: stored_item_def s' find_append)
      ultimately show ?thesis using p by (simp add: s' stored_snapshot_def stored_diff_def fun_eq_iff)
    qed
  qed
qed

lemma upsert_server_snapshot_views:
  assumes sound: "tables_sound s" and run: "upsert_server_snapshot en item hash txt s = (q, s')"
  shows "tables_sound s' \<and> stored_diff s' = stored_diff s
      \<and> (\<forall>k v. stored_snapshot s k = Some v \<longrightarrow> stored_snapshot s' k = Some v)
      \<and> (\<forall>k v. stored_snapshot s' k = Some v \<longrightarrow> stored_snapshot s k = Some v \<or> v = (item, hash, txt))
      \<and> (\<forall>k. q = Inr k \<longrightarrow> (\<exists>t. stored_snapshot s' k = Some (item, hash, t)))"
  using run unfolding upsert_server_snapshot_def
proof (cases rule: prisma_callE)
  case (1 e)
  with sound show ?thesis by simp
next
  case 2
  let ?P = "\<lambda>r. qs_notice_item_id r = item \<and> qs_content_hash r = hash"
  show ?thesis
  proof (cases "find ?P (pz_snapshots s)")
    case (Some r)
    with 2 have s': "s' = s\<lparr>pz_calls := pz_calls s + 1\<rparr>" and q: "q = Inr (qs_id r)" by (simp_all add: op_simps)
    from find_SomeD [OF Some] stored_snapshot_row [OF sound, of r] sound show ?thesis by (simp add: s' q)
  next
    case None
    define row where "row = \<lparr>qs_id = pe_id en (pz_calls s), qs_notice_item_id = item, qs_fetched_at = pe_now en (pz_calls s),
      qs_content_hash = hash, qs_normalized_text = txt\<rparr>"
    show ?thesis
    proof (cases "list_ex (\<lambda>r. qi_id r = item) (pz_items s) \<and> \<not> list_ex (\<lambda>r. qs_id r = qs_id row) (pz_snapshots s)")
      case False
      with 2 None sound show ?thesis by (auto simp: op_simps row_def split: if_splits)
    next
      case True
      with 2 None have s': "s' = pz_snapshots_update (\<lambda>t. t @ [row]) (s\<lparr>pz_calls := pz_calls s + 1\<rparr>)" and q: "q = Inr (qs_id row)"
        by (simp_all add: op_simps row_def)
      have fresh: "find (\<lambda>r. qs_id r = qs_id row) (pz_snapshots s) = None"
        using True by (auto simp: find_None_iff list_ex_iff)
      have "qs_id row \<notin> qs_id ` set (pz_snapshots s)" using True by (auto simp: list_ex_iff)
      then have sound': "tables_sound s'" using sound by (simp add: tables_sound_def s')
      have views: "stored_snapshot s' k = (if k = qs_id row then Some (item, hash, txt) else stored_snapshot s k)" for k
        using fresh by (simp add: stored_snapshot_def s' find_append split: option.split) (simp add: row_def)
      have "stored_snapshot s (qs_id row) = None" using fresh by (simp add: stored_snapshot_def)
      moreover have "stored_diff s' = stored_diff s" by (simp add: stored_diff_def s' fun_eq_iff)
      ultimately show ?thesis using sound' q by (auto simp: views)
    qed
  qed
qed

lemma upsert_server_diff_views:
  assumes sound: "tables_sound s" and run: "upsert_server_diff en item src dst json s = (u, s')"
  shows "tables_sound s' \<and> stored_snapshot s' = stored_snapshot s
      \<and> (\<forall>a b v. stored_diff s' a b = Some v \<longrightarrow> stored_diff s a b = Some v
           \<or> a = src \<and> b = dst \<and> snd v = json \<and> (fst v = item \<or> (\<exists>j. stored_diff s a b = Some (fst v, j))))"
  using run unfolding upsert_server_diff_def
proof (cases rule: prisma_callE)
  case (1 e)
  with sound show ?thesis by simp
next
  case 2
  define f :: "server_diff \<Rightarrow> server_diff" where "f = (\<lambda>r. r\<lparr>qd_diff_json := json\<rparr>)"
  have key: "qd_from_snapshot_id (f r) = qd_from_snapshot_id r" "qd_to_snapshot_id (f r) = qd_to_snapshot_id r"
    "qd_notice_item_id (f r) = qd_notice_item_id r" "qd_diff_json (f r) = json" for r
    by (simp_all add: f_def)
  define row where "row = \<lparr>qd_id = pe_id en (pz_calls s), qd_notice_item_id = item, qd_from_snapshot_id = src,
    qd_to_snapshot_id = dst, qd_diff_json = json, qd_created_at = pe_now en (pz_calls s)\<rparr>"
  consider (update) "list_ex (diff_has_key src dst) (pz_diffs s)"
      "s' = pz_diffs_update (update_where (diff_has_key src dst) f) (s\<lparr>pz_calls := pz_calls s + 1\<rparr>)"
    | (create) "\<not> list_ex (diff_has_key src dst) (pz_diffs s)"
      "s' = pz_diffs_update (\<lambda>t. t @ [row]) (s\<lparr>pz_calls := pz_calls s + 1\<rparr>)"
    | (refused) "s' = s\<lparr>pz_calls := pz_calls s + 1\<rparr>"
    using 2 by (auto simp: op_simps f_def row_def split: if_splits)
  then show ?thesis
  proof cases
    case update
    have "map (\<lambda>r. (qd_from_snapshot_id r, qd_to_snapshot_id r)) (pz_diffs s') =
        map (\<lambda>r. (qd_from_snapshot_id r, qd_to_snapshot_id r)) (pz_diffs s)"
      by (simp add: update(2) update_where_def key)
    then have sound': "tables_sound s'" using sound unfolding tables_sound_def by (simp add: update(2))
    have "find (diff_has_key a b) (pz_diffs s') =
        map_option (\<lambda>r. if diff_has_key src dst r then f r else r) (find (diff_has_key a b) (pz_diffs s))" for a b
      by (simp add: update(2) find_update_any diff_has_key_def key)
    then have view: "stored_diff s' a b = map_option (\<lambda>r. (qd_notice_item_id r, if diff_has_key src dst r then json
        else qd_diff_json r)) (find (diff_has_key a b) (pz_diffs s))" for a b
      by (simp add: stored_diff_def option.map_comp comp_def key if_distrib cong: if_cong)
    have old: "stored_diff s a b = Some v \<or> a = src \<and> b = dst \<and> snd v = json
        \<and> (fst v = item \<or> (\<exists>j. stored_diff s a b = Some (fst v, j)))" if some: "stored_diff s' a b = Some v" for a b v
    proof -
      from some view obtain r where r: "find (diff_has_key a b) (pz_diffs s) = Some r"
        "v = (qd_notice_item_id r, if diff_has_key src dst r then json else qd_diff_json r)" by auto
      with find_SomeD [OF r(1)] show ?thesis by (auto simp: stored_diff_def diff_has_key_def)
    qed
    have "stored_snapshot s' = stored_snapshot s" by (simp add: stored_snapshot_def update(2) fun_eq_iff)
    with sound' old show ?thesis by (intro conjI allI impI)
  next
    case create
    then have "(src, dst) \<notin> (\<lambda>r. (qd_from_snapshot_id r, qd_to_snapshot_id r)) ` set (pz_diffs s)"
      by (auto simp: list_ex_iff diff_has_key_def)
    then have sound': "tables_sound s'" using sound by (simp add: tables_sound_def create(2) row_def)
    have old: "stored_diff s a b = Some v \<or> a = src \<and> b = dst \<and> snd v = json
        \<and> (fst v = item \<or> (\<exists>j. stored_diff s a b = Some (fst v, j)))" if "stored_diff s' a b = Some v" for a b v
      using that
      by (auto simp: stored_diff_def create(2) find_append diff_has_key_def row_def split: option.splits if_splits)
    have "stored_snapshot s' = stored_snapshot s" by (simp add: stored_snapshot_def create(2) fun_eq_iff)
    with sound' old show ?thesis by (intro conjI allI impI)
  next
    case refused
    with sound show ?thesis by simp
  qed
qed

interpretation pr: notice_repository "prisma_notice_sync_repo en" tables_sound stored_item stored_snapshot stored_diff for en
proof (unfold_locales, goal_cases)
  case (1 s source ext r s')
  then show ?case using find_latest_snapshot_views [of s en source ext r s'] by (simp add: prisma_notice_sync_repo_def)
next
  case (2 s source ext url title published p s')
  then show ?case using upsert_item_views [of s en source ext url title published p s'] by (simp add: prisma_notice_sync_repo_def)
next
  case (3 s item hash tx q s')
  then show ?case using upsert_server_snapshot_views [of s en item hash tx q s'] by (simp add: prisma_notice_sync_repo_def)
next
  case (4 s item src dst json u s')
  then show ?case using upsert_server_diff_views [of s en item src dst json u s'] by (simp add: prisma_notice_sync_repo_def)
qed

end
