(* ===== verification/NoticeApi.thy ===== *)
theory NoticeApi
  imports NoticeServer DataPageFacts
begin

text \<open>
  The interface of the server to the stored notices (\<open>apps/api/src/routes/notices.ts\<close>), the two pages of the web
  application that show them (\<open>packages/modules/notices/pages/feed.tsx\<close>, \<open>diff.tsx\<close>), and the command line of the worker
  (\<open>apps/worker/src/notices-sync.ts\<close>). The database and the network between server and page answer; what the pages do
  with a failed request is modelled.
\<close>

section \<open>The routes\<close>

record list_query =
  lq_source :: "string option"
  lq_q :: "string option"
  lq_page :: int
  lq_page_size :: int

text \<open>
  \<open>ae_list_query\<close> is what zod's \<open>parse\<close> makes of the parameters with the declared schema, \<open>ae_contains title q\<close> whether the
  database finds \<open>q\<close> in \<open>title\<close> in the mode \<open>insensitive\<close>.
\<close>

record api_env =
  ae_lower :: "string \<Rightarrow> string"
  ae_list_query :: "(string \<times> string) list \<Rightarrow> err + list_query"
  ae_contains :: "string \<Rightarrow> string \<Rightarrow> bool"

datatype 'a api_answer = Answer 'a | NotFound | Failed err

definition parse_notice_source :: "api_env \<Rightarrow> string option \<Rightarrow> notice_source option" where
  "parse_notice_source ae value =
     (let v = map_option (ae_lower ae) value in
      if v = Some ''notice'' then Some NOTICE else if v = Some ''update'' then Some UPDATE else None)"

text \<open>
  \<open>orderBy: [{ publishedAt: "desc" }, { updatedAt: "desc" }]\<close>: PostgreSQL puts missing values first in a descending order.
\<close>

definition published_desc :: "server_item \<Rightarrow> server_item \<Rightarrow> bool" where
  "published_desc x y =
     (case (qi_published_at x, qi_published_at y) of
        (None, None) \<Rightarrow> qi_updated_at y \<le> qi_updated_at x
      | (None, Some _) \<Rightarrow> True
      | (Some _, None) \<Rightarrow> False
      | (Some a, Some b) \<Rightarrow> b < a \<or> a = b \<and> qi_updated_at y \<le> qi_updated_at x)"

definition matching_items :: "api_env \<Rightarrow> list_query \<Rightarrow> server_tables \<Rightarrow> server_item list" where
  "matching_items ae q s =
     filter (\<lambda>r. (case parse_notice_source ae (lq_source q) of None \<Rightarrow> True | Some src \<Rightarrow> qi_source r = src)
       \<and> (case trimmed_opt (lq_q q) of None \<Rightarrow> True | Some x \<Rightarrow> ae_contains ae (qi_title r) x)) (pz_items s)"

record notice_list_answer =
  an_page :: int
  an_page_size :: int
  an_total :: nat
  an_items :: "server_item list"

definition list_notices_route :: "api_env \<Rightarrow> (string \<times> string) list \<Rightarrow> server_tables \<Rightarrow> notice_list_answer api_answer" where
  "list_notices_route ae params s =
     (case ae_list_query ae params of
        Inl e \<Rightarrow> Failed e
      | Inr q \<Rightarrow>
          (let rows = matching_items ae q s; skip = (lq_page q - 1) * lq_page_size q in
           Answer \<lparr>an_page = lq_page q, an_page_size = lq_page_size q, an_total = length rows,
             an_items = take (nat (lq_page_size q)) (drop (nat skip) (order_by published_desc rows))\<rparr>))"

definition find_item :: "string \<Rightarrow> server_tables \<Rightarrow> server_item option" where
  "find_item i s = find (\<lambda>r. qi_id r = i) (pz_items s)"

text \<open>An empty id is refused by the schema of the parameters.\<close>

definition get_notice_route :: "string \<Rightarrow> server_tables \<Rightarrow> (server_item \<times> server_snapshot option) api_answer" where
  "get_notice_route i s =
     (if i = [] then Failed (Thrown ''too_small'')
      else case find_item i s of
        None \<Rightarrow> NotFound
      | Some item \<Rightarrow> Answer (item, latest_by qs_fetched_at (filter (\<lambda>r. qs_notice_item_id r = i) (pz_snapshots s))))"

definition find_snapshot :: "string \<Rightarrow> server_tables \<Rightarrow> server_snapshot option" where
  "find_snapshot k s = find (\<lambda>r. qs_id r = k) (pz_snapshots s)"

definition get_diff_route ::
  "string \<Rightarrow> server_tables \<Rightarrow> (server_diff \<times> server_snapshot option \<times> server_snapshot option) option api_answer" where
  "get_diff_route i s =
     (if i = [] then Failed (Thrown ''too_small'')
      else if find_item i s = None then NotFound
      else Answer (map_option (\<lambda>r. (r, find_snapshot (qd_from_snapshot_id r) s, find_snapshot (qd_to_snapshot_id r) s))
        (latest_by qd_created_at (filter (\<lambda>r. qd_notice_item_id r = i) (pz_diffs s)))))"

section \<open>The feed\<close>

text \<open>The parameters of the request for the list.\<close>

definition web_feed_params :: "notice_source option \<Rightarrow> string \<Rightarrow> int \<Rightarrow> (string \<times> string) list" where
  "web_feed_params source q page = [(''page'', show_nat (nat page)), (''pageSize'', ''20'')]
     @ (case source of None \<Rightarrow> [] | Some s \<Rightarrow> [(''source'', case s of NOTICE \<Rightarrow> ''notice'' | UPDATE \<Rightarrow> ''update'')])
     @ (if trim q = [] then [] else [(''q'', trim q)])"

text \<open>\<open>Math.max(1, Math.ceil(total / pageSize))\<close>, for the sizes that the server answers with.\<close>

definition web_total_pages :: "notice_list_answer option \<Rightarrow> int" where
  "web_total_pages d =
     (case d of None \<Rightarrow> 1 | Some a \<Rightarrow> max 1 \<lceil>of_nat (an_total a) / (of_int (an_page_size a) :: rat)\<rceil>)"

record web_feed =
  wf_source :: "notice_source option"
  wf_q_input :: string
  wf_q :: string
  wf_page :: int
  wf_data :: "notice_list_answer option"
  wf_error :: "string option"
  wf_loading :: bool

definition feed_url :: "web_feed \<Rightarrow> (string \<times> string) list" where
  "feed_url f = web_feed_params (wf_source f) (wf_q f) (wf_page f)"

text \<open>
  The effect that depends on the address: when it changes, the request in flight is aborted and a new one is sent. The
  answer of an aborted request is ignored, so only the last request can be answered.
\<close>

definition refetch :: "web_feed \<Rightarrow> web_feed \<Rightarrow> web_feed" where
  "refetch before f = (if feed_url f = feed_url before then f else f\<lparr>wf_loading := True, wf_error := None\<rparr>)"

definition mounted_feed :: web_feed where
  "mounted_feed = \<lparr>wf_source = None, wf_q_input = [], wf_q = [], wf_page = 1, wf_data = None, wf_error = None, wf_loading = True\<rparr>"

definition choose_source :: "notice_source option \<Rightarrow> web_feed \<Rightarrow> web_feed" where
  "choose_source source f = refetch f (f\<lparr>wf_source := source, wf_page := 1\<rparr>)"

definition type_query :: "string \<Rightarrow> web_feed \<Rightarrow> web_feed" where
  "type_query q f = f\<lparr>wf_q_input := q\<rparr>"

definition search_clicked :: "web_feed \<Rightarrow> web_feed" where
  "search_clicked f = refetch f (f\<lparr>wf_q := wf_q_input f, wf_page := 1\<rparr>)"

definition prev_clicked :: "web_feed \<Rightarrow> web_feed" where
  "prev_clicked f = (if wf_page f \<le> 1 \<or> wf_loading f then f else refetch f (f\<lparr>wf_page := max 1 (wf_page f - 1)\<rparr>))"

definition next_clicked :: "web_feed \<Rightarrow> web_feed" where
  "next_clicked f =
     (let n = web_total_pages (wf_data f) in
      if wf_page f \<ge> n \<or> wf_loading f then f else refetch f (f\<lparr>wf_page := min n (wf_page f + 1)\<rparr>))"

definition feed_answered :: "string + notice_list_answer \<Rightarrow> web_feed \<Rightarrow> web_feed" where
  "feed_answered r f =
     (case r of
        Inl e \<Rightarrow> f\<lparr>wf_error := Some e, wf_data := None, wf_loading := False\<rparr>
      | Inr a \<Rightarrow> f\<lparr>wf_data := Some a, wf_loading := False\<rparr>)"

section \<open>The difference of a notice\<close>

text \<open>\<open>asBlocks\<close>: anything that is not a list of blocks is refused as a whole.\<close>

definition web_as_blocks :: "jsval \<Rightarrow> diff_block list option" where
  "web_as_blocks = read_array (\<lambda>b.
     case (as_block_type (field b ''type''), read_array str_of (field b ''lines'')) of
       (Some ty, Some ls) \<Rightarrow> Some \<lparr>bl_type = ty, bl_lines = ls\<rparr>
     | _ \<Rightarrow> None)"

datatype diff_view = MissingId | LoadFailed string | NoDiff | BadShape | Blocks "diff_block list"

text \<open>
  Both requests must succeed; a missing notice fails with its own message. If both fail the page shows the error that comes
  first, here that of the notice.
\<close>

definition answer_or_error :: "'a api_answer \<Rightarrow> string + 'a" where
  "answer_or_error r = (case r of Answer x \<Rightarrow> Inr x | NotFound \<Rightarrow> Inl ''not_found''
     | Failed e \<Rightarrow> Inl ''API error: 500 Internal Server Error'')"

definition web_diff_view :: "string option \<Rightarrow> server_tables \<Rightarrow> diff_view" where
  "web_diff_view notice_id s =
     (case non_empty notice_id of
        None \<Rightarrow> MissingId
      | Some i \<Rightarrow>
          (case (answer_or_error (get_notice_route i s), answer_or_error (get_diff_route i s)) of
             (Inl e, _) \<Rightarrow> LoadFailed e
           | (_, Inl e) \<Rightarrow> LoadFailed e
           | (Inr _, Inr None) \<Rightarrow> NoDiff
           | (Inr _, Inr (Some (d, _, _))) \<Rightarrow>
               (case web_as_blocks (qd_diff_json d) of None \<Rightarrow> BadShape | Some bs \<Rightarrow> Blocks bs)))"

section \<open>The command line of the worker\<close>

text \<open>An argument is \<open>None\<close> when it stands alone (\<open>true\<close>) and otherwise has the text that follows it.\<close>

fun parse_args :: "string list \<Rightarrow> (string \<rightharpoonup> string option) \<Rightarrow> (string \<rightharpoonup> string option)" where
  "parse_args [] args = args"
| "parse_args (token # rest) args =
     (if token = ''--'' \<or> \<not> starts_with token ''--'' then parse_args rest args
      else case rest of
        [] \<Rightarrow> args(drop 2 token \<mapsto> None)
      | value # rest' \<Rightarrow>
          if value = [] \<or> starts_with value ''--'' then parse_args rest (args(drop 2 token \<mapsto> None))
          else parse_args rest' (args(drop 2 token \<mapsto> Some value)))"

text \<open>\<open>Number(v)\<close> of a text is the parameter; \<open>Number(true)\<close> is 1.\<close>

definition number_arg :: "(string \<Rightarrow> jsnum) \<Rightarrow> jsnum \<Rightarrow> string option option \<Rightarrow> jsnum" where
  "number_arg to_number dflt a =
     (let n = (case a of None \<Rightarrow> dflt | Some None \<Rightarrow> num 1 | Some (Some v) \<Rightarrow> to_number v) in
      if is_finite n \<and> num_lt (num 0) n then n else dflt)"

record command_options =
  co_sources :: "notice_source list"
  co_max_pages :: jsnum
  co_page_size :: jsnum
  co_include_pinned :: bool
  co_dry_run :: bool

definition command_options :: "(string \<Rightarrow> string) \<Rightarrow> (string \<Rightarrow> jsnum) \<Rightarrow> string list \<Rightarrow> command_options" where
  "command_options lower to_number argv =
     (let args = parse_args argv Map.empty;
          source = lower (case args ''source'' of None \<Rightarrow> ''all'' | Some None \<Rightarrow> ''true'' | Some (Some v) \<Rightarrow> v) in
      \<lparr>co_sources = (if source = ''notice'' then [NOTICE] else if source = ''update'' then [UPDATE] else [NOTICE, UPDATE]),
       co_max_pages = number_arg to_number (num 5) (args ''maxPages''),
       co_page_size = number_arg to_number (num 18) (args ''pageSize''),
       co_include_pinned = (args ''noPinned'' = None),
       co_dry_run = (args ''dryRun'' \<noteq> None)\<rparr>)"

end
