(* ===== verification/NoticeServerFacts.thy ===== *)
theory NoticeServerFacts
  imports NoticeServer
begin

text \<open>
  What any sequence of synchronisations leaves in the database of the server, whatever the board answers and whichever
  calls fail, and two consequences of how the latest snapshot is chosen.
\<close>

section \<open>Any sequence of synchronisations\<close>

definition sync_runs :: "service \<Rightarrow> prisma_env \<Rightarrow> (http \<times> worker_options) list \<Rightarrow> server_tables" where
  "sync_runs sv en runs = foldl (\<lambda>s (http, opts).
     snd (sync_notices (sv\<lparr>sv_http := http\<rparr>) (prisma_notice_sync_repo en) opts s)) empty_tables runs"

text \<open>The board answers a request for an article with that article.\<close>

definition answers_what_is_asked :: "http \<Rightarrow> bool" where
  "answers_what_is_asked http \<longleftrightarrow> (\<forall>a i detail. fetch_article_detail http a i = Inr detail \<longrightarrow> am_id detail = i)"

lemma sync_runs_right:
  assumes "\<forall>(http, opts) \<in> set runs. answers_what_is_asked http"
  shows "pr.right sv (sync_runs sv en runs)"
  using assms
proof (induction runs rule: rev_induct)
  case Nil
  show ?case
    unfolding pr.right_def
    by (simp add: sync_runs_def tables_sound_def right_diffs_def stored_snapshot_def stored_diff_def empty_tables_def)
next
  case (snoc run runs)
  obtain http opts where run: "run = (http, opts)" by force
  have service: "pr.right (sv\<lparr>sv_http := http\<rparr>) = pr.right sv"
    by (intro ext) (simp add: pr.right_def right_diffs_service)
  have "keeps (pr.right (sv\<lparr>sv_http := http\<rparr>)) (sync_notices (sv\<lparr>sv_http := http\<rparr>) (prisma_notice_sync_repo en) opts)"
    using snoc.prems by (intro pr.sync_notices_right) (simp add: answers_what_is_asked_def run)
  from keepsD [OF this [unfolded service] snoc.IH] snoc.prems show ?case by (simp add: sync_runs_def run)
qed

text \<open>Every difference in the database of the server is the difference of its two snapshots.\<close>

lemma stored_diffs_are_differences:
  assumes runs: "\<forall>(http, opts) \<in> set runs. answers_what_is_asked http"
    and x: "x \<in> set (pz_diffs (sync_runs sv en runs))"
  shows "\<exists>a \<in> set (pz_snapshots (sync_runs sv en runs)). \<exists>b \<in> set (pz_snapshots (sync_runs sv en runs)). \<exists>t.
      qs_id a = qd_from_snapshot_id x \<and> qs_id b = qd_to_snapshot_id x
      \<and> qs_notice_item_id a = qd_notice_item_id x \<and> qs_notice_item_id b = qd_notice_item_id x
      \<and> sv_sha256 sv (qs_normalized_text a) \<noteq> sv_sha256 sv (qs_normalized_text b)
      \<and> sv_sha256 sv t = sv_sha256 sv (qs_normalized_text b) \<and> qd_diff_json x = line_diff_json sv (qs_normalized_text a) t"
proof -
  have "pr.right sv (sync_runs sv en runs)" by (rule sync_runs_right [OF runs])
  then have sound: "tables_sound (sync_runs sv en runs)"
    and right: "right_diffs sv (stored_snapshot (sync_runs sv en runs)) (stored_diff (sync_runs sv en runs))"
    by (simp_all add: pr.right_def)
  from right_diffsE [OF right stored_diff_row [OF sound x]] obtain ta tb t where
    ends: "stored_snapshot (sync_runs sv en runs) (qd_from_snapshot_id x) = Some (qd_notice_item_id x, sv_sha256 sv ta, ta)"
      "stored_snapshot (sync_runs sv en runs) (qd_to_snapshot_id x) = Some (qd_notice_item_id x, sv_sha256 sv tb, tb)"
    and texts: "sv_sha256 sv t = sv_sha256 sv tb" "sv_sha256 sv ta \<noteq> sv_sha256 sv tb" "qd_diff_json x = line_diff_json sv ta t" .
  from stored_snapshotD [OF ends(1)] obtain a where a: "a \<in> set (pz_snapshots (sync_runs sv en runs))"
    "qs_id a = qd_from_snapshot_id x" "qs_notice_item_id a = qd_notice_item_id x" "qs_normalized_text a = ta" by blast
  from stored_snapshotD [OF ends(2)] obtain b where b: "b \<in> set (pz_snapshots (sync_runs sv en runs))"
    "qs_id b = qd_to_snapshot_id x" "qs_notice_item_id b = qd_notice_item_id x" "qs_normalized_text b = tb" by blast
  show ?thesis using a b texts by (intro bexI [OF _ a(1)] bexI [OF _ b(1)] exI [of _ t] conjI) simp_all
qed

section \<open>A board whose article changes\<close>

definition sample_board :: "string \<Rightarrow> http" where
  "sample_board html url = Inr \<lparr>rs_ok = True, rs_status = 200, rs_status_text = ''OK'', rs_json = Inr (Obj
     ([(''contentList'', Arr [Obj [(''id'', Str ''7''), (''title'', Str ''Patch'')]]), (''hasMore'', Bool False)]
      @ (if url = api_base @ ''/notice_ko/article/7'' then [(''article'', Obj
           [(''contentMeta'', Obj [(''id'', Str ''7''), (''title'', Str ''Patch'')]),
            (''content'', Obj [(''content'', Str html)])])] else [])))\<rparr>"

definition sample_worker :: service where
  "sample_worker = \<lparr>sv_http = sample_board [], sv_host = \<lparr>tz = fixed_zone 0, parse_date = (\<lambda>s. None)\<rparr>,
     sv_html_text = (\<lambda>s. s), sv_sha256 = (\<lambda>s. s),
     sv_diff_lines = (\<lambda>a b. [\<lparr>cg_added = False, cg_removed = True, cg_value = a\<rparr>,
        \<lparr>cg_added = True, cg_removed = False, cg_value = b\<rparr>])\<rparr>"

definition sample_prisma :: prisma_env where
  "sample_prisma = \<lparr>pe_id = (\<lambda>n. replicate n (CHR ''i'')), pe_now = int, pe_fault = (\<lambda>n. None)\<rparr>"

definition sample_options :: worker_options where
  "sample_options = \<lparr>ws_sources = [NOTICE], ws_latest = \<lparr>lo_max_pages = num 1, lo_page_size = 18, lo_include_pinned = False\<rparr>,
     ws_dry_run = False\<rparr>"

definition sample_meta :: article_meta where
  "sample_meta = \<lparr>am_id = ''7'', am_title = ''Patch'', am_url = build_fallback_url NoticeKo ''7'', am_posted_at = None,
     am_updated_at = None, am_published_at = None\<rparr>"

definition sample_step :: "server_tables \<Rightarrow> string \<Rightarrow> server_tables" where
  "sample_step s html = snd (worker_meta (sample_worker\<lparr>sv_http := sample_board html\<rparr>) (prisma_notice_sync_repo sample_prisma) False
     NOTICE sample_meta \<lparr>wn_sources = 1, wn_metas_fetched = 1, wn_items_upserted = 0, wn_snapshots_upserted = 0,
       wn_diffs_upserted = 0\<rparr> s)"

definition sample_runs :: "string list \<Rightarrow> (http \<times> worker_options) list" where
  "sample_runs htmls = map (\<lambda>html. (sample_board html, sample_options)) htmls"

lemma sample_listed: "to_meta a (Obj [(''id'', Str ''7''), (''title'', Str ''Patch'')]) =
    Some (sample_meta\<lparr>am_url := build_fallback_url a ''7''\<rparr>)"
  by (simp add: to_meta_def sample_meta_def non_empty_def build_article_url_def split: option.split)

lemma sample_pages:
  "fetch_latest_article_metas (sample_board html) NoticeKo (ws_latest sample_options) = Some (Inr [sample_meta])"
  by (simp add: fetch_latest_article_metas_def sample_options_def fetch_pages.simps fetch_more_article_metas_def
      fetch_json_def sample_board_def property_def map_filter_def set_meta_def sample_listed) (simp add: sample_meta_def)

lemma sample_runs_eq: "sync_runs sample_worker sample_prisma (sample_runs htmls) = foldl sample_step empty_tables htmls"
proof -
  have one: "snd (sync_notices (sample_worker\<lparr>sv_http := sample_board html\<rparr>) (prisma_notice_sync_repo sample_prisma)
      sample_options s) = sample_step s html" for html s
    using sample_pages [of html]
    by (simp add: sync_notices_def worker_source_def source_to_alias_def sample_step_def and_then_apply ret_apply
        sample_options_def split: sum.split)
  have "foldl (\<lambda>s (http, opts). snd (sync_notices (sample_worker\<lparr>sv_http := http\<rparr>) (prisma_notice_sync_repo sample_prisma) opts s))
      s (sample_runs htmls) = foldl sample_step s htmls" for s
    by (induction htmls arbitrary: s) (simp_all add: sample_runs_def one)
  then show ?thesis by (simp add: sync_runs_def)
qed

lemma sample_board_answers: "answers_what_is_asked (sample_board html)"
proof -
  have "am_id detail = i" if "fetch_article_detail (sample_board html) a i = Inr detail" for a i detail
  proof (cases "api_base @ ''/'' @ alias_text a @ ''/article/'' @ i = api_base @ ''/notice_ko/article/7''")
    case True
    then have "i = ''7''" "a = NoticeKo" by (cases a; simp add: alias_text_def)+
    with that show ?thesis
      by (auto simp: fetch_article_detail_def fetch_json_def sample_board_def property_def sample_listed sample_meta_def
          article_meta.defs article_detail.defs alias_text_def)
  next
    case False
    with that show ?thesis
      by (auto simp: fetch_article_detail_def fetch_json_def sample_board_def property_def to_meta_def split: if_splits)
  qed
  then show ?thesis by (simp add: answers_what_is_asked_def)
qed

lemma sample_detail: "fetch_article_detail (sample_board html) NoticeKo ''7'' =
    Inr (article_meta.extend sample_meta (article_detail.fields html))"
  by (simp add: fetch_article_detail_def fetch_json_def sample_board_def property_def sample_listed alias_text_def)
    (simp add: sample_meta_def)

text \<open>A text of one printable character is already in the form to which texts are brought.\<close>

lemma one_letter_text:
  assumes c: "graphic c" "c \<noteq> CHR ''<''" and html: "sv_html_text sv = (\<lambda>s. s)"
  shows "normalize_notice_html_to_text sv [c] = [c]"
proof -
  have plain: "c \<noteq> newline" "c \<noteq> cr" "\<not> is_blank c" "c \<noteq> byte 0xc2"
    using c(1) by (auto simp: graphic_def cr_def is_blank_def byte_def)
  have "trim_end [c] = [c]"
    unfolding trim_end_def
  proof (subst strip_with_id)
    fix w assume "w \<in> set (map rev ws_seqs)"
    then obtain v where v: "v \<in> set ws_seqs" "w = rev v" by auto
    show "\<not> prefix w (rev [c])"
    proof
      assume "prefix w (rev [c])"
      with v ws_seqs_nonempty [OF v(1)] have "v = [c]" by (auto simp: prefix_def Cons_eq_append_conv)
      with ws_seqs_not_graphic [OF v(1)] c(1) show False by simp
    qed
  qed simp
  moreover have "trim [c] = [c]" using c(1) by (simp add: trim_graphic)
  moreover have "replace_breaks [c] = [c]" using c(2) by (simp add: after_break_def)
  moreover have "replace_all (utf8 [0xa0]) '' '' [c] = [c]"
    using plain(4) by (intro replace_all_absent) (simp_all add: utf8_def)
  ultimately show ?thesis
    using plain by (simp add: normalize_notice_html_to_text_def html normalized normalize_whitespace_def)
qed

lemma sample_texts:
  "normalize_and_hash_notice_html (sample_worker\<lparr>sv_http := h\<rparr>) ''A'' = (''A'', ''A'')"
  "normalize_and_hash_notice_html (sample_worker\<lparr>sv_http := h\<rparr>) ''B'' = (''B'', ''B'')"
  by (simp_all add: normalize_and_hash_notice_html_def Let_def one_letter_text graphic_def sample_worker_def)

definition sample_item :: "int \<Rightarrow> server_item" where
  "sample_item now = \<lparr>qi_id = ''i'', qi_source = NOTICE, qi_external_id = ''7'', qi_url = build_fallback_url NoticeKo ''7'',
     qi_title = ''Patch'', qi_published_at = None, qi_created_at = 1, qi_updated_at = now\<rparr>"

definition sample_snapshot :: "string \<Rightarrow> int \<Rightarrow> string \<Rightarrow> server_snapshot" where
  "sample_snapshot i now t = \<lparr>qs_id = i, qs_notice_item_id = ''i'', qs_fetched_at = now, qs_content_hash = t, qs_normalized_text = t\<rparr>"

definition sample_diff :: "string \<Rightarrow> int \<Rightarrow> string \<Rightarrow> string \<Rightarrow> string \<Rightarrow> string \<Rightarrow> server_diff" where
  "sample_diff i now a b t u = \<lparr>qd_id = i, qd_notice_item_id = ''i'', qd_from_snapshot_id = a, qd_to_snapshot_id = b,
     qd_diff_json = line_diff_json sample_worker t u, qd_created_at = now\<rparr>"

lemma sample_line_diff: "line_diff_json (sample_worker\<lparr>sv_http := h\<rparr>) = line_diff_json sample_worker"
  by (intro ext) (simp add: line_diff_json_def)

lemma sample_host: "Option.bind x (parse_date (sv_host sample_worker)) = None"
  by (cases x) (simp_all add: sample_worker_def)

lemma sample_detail_fields:
  "am_id (article_meta.extend sample_meta (article_detail.fields html)) = ''7''"
  "am_url (article_meta.extend sample_meta (article_detail.fields html)) = build_fallback_url NoticeKo ''7''"
  "am_title (article_meta.extend sample_meta (article_detail.fields html)) = ''Patch''"
  "ad_content_html (article_meta.extend sample_meta (article_detail.fields html)) = html"
  "am_id sample_meta = ''7''"
  by (simp_all add: article_meta.defs article_detail.defs sample_meta_def)

lemmas sample_run = sample_step_def worker_meta_def worker_store_def worker_diff_def prisma_notice_sync_repo_def
  find_latest_snapshot_def upsert_item_def upsert_server_snapshot_def upsert_server_diff_def prisma_call_def
  sample_prisma_def source_to_alias_def sample_detail sample_texts sample_line_diff sample_host sample_detail_fields op_simps
  snapshots_of_key_def item_has_key_def diff_has_key_def latest_by_def snapshot_summary_of_def update_where_def
  sample_item_def sample_snapshot_def sample_diff_def Let_def

lemma first_text: "sample_step empty_tables ''A'' = \<lparr>pz_items = [sample_item 1], pz_snapshots = [sample_snapshot ''ii'' 2 ''A''],
    pz_diffs = [], pz_calls = 3\<rparr>"
  by (simp add: sample_run empty_tables_def order_by_def)

lemma replicates: "replicate 5 x = [x, x, x, x, x]" "replicate 6 x = [x, x, x, x, x, x]"
  "replicate 10 x = [x, x, x, x, x, x, x, x, x, x]"
  by (simp_all add: numeral_eq_Suc)

lemma second_text: "foldl sample_step empty_tables [''A'', ''B''] = \<lparr>pz_items = [sample_item 4],
    pz_snapshots = [sample_snapshot ''ii'' 2 ''A'', sample_snapshot ''iiiii'' 5 ''B''],
    pz_diffs = [sample_diff ''iiiiii'' 6 ''ii'' ''iiiii'' ''A'' ''B''], pz_calls = 7\<rparr>"
proof -
  have "foldl sample_step empty_tables [''A'', ''B''] = sample_step \<lparr>pz_items = [sample_item 1],
      pz_snapshots = [sample_snapshot ''ii'' 2 ''A''], pz_diffs = [], pz_calls = 3\<rparr> ''B''"
    by (simp add: first_text)
  also have "\<dots> = \<lparr>pz_items = [sample_item 4],
    pz_snapshots = [sample_snapshot ''ii'' 2 ''A'', sample_snapshot ''iiiii'' 5 ''B''],
    pz_diffs = [sample_diff ''iiiiii'' 6 ''ii'' ''iiiii'' ''A'' ''B''], pz_calls = 7\<rparr>"
    by (simp add: sample_run order_by_def replicates)
  finally show ?thesis .
qed

section \<open>A text that comes back\<close>

text \<open>
  When the board takes a change back, the snapshot with the old text exists and keeps its time, so the snapshot with the
  withdrawn text stays the latest one. The next change is shown as the difference to the withdrawn text.
\<close>

lemma withdrawn_text_stays_latest:
  "map_option qs_normalized_text (latest_by qs_fetched_at (snapshots_of_key NOTICE ''7''
       (sync_runs sample_worker sample_prisma (sample_runs [''A'', ''B'', ''A''])))) = Some ''B''"
proof -
  have "foldl sample_step empty_tables [''A'', ''B'', ''A''] = sample_step \<lparr>pz_items = [sample_item 4],
      pz_snapshots = [sample_snapshot ''ii'' 2 ''A'', sample_snapshot ''iiiii'' 5 ''B''],
      pz_diffs = [sample_diff ''iiiiii'' 6 ''ii'' ''iiiii'' ''A'' ''B''], pz_calls = 7\<rparr> ''A''"
    using second_text by simp
  also have "\<dots> = \<lparr>pz_items = [sample_item 8],
      pz_snapshots = [sample_snapshot ''ii'' 2 ''A'', sample_snapshot ''iiiii'' 5 ''B''],
      pz_diffs = [sample_diff ''iiiiii'' 6 ''ii'' ''iiiii'' ''A'' ''B'', sample_diff ''iiiiiiiiii'' 10 ''iiiii'' ''ii'' ''B'' ''A''],
      pz_calls = 11\<rparr>"
    by (simp add: sample_run order_by_def replicates)
  finally show ?thesis
    unfolding sample_runs_eq by (simp add: sample_run order_by_def)
qed

end
