(* ===== verification/NoticeApiFacts.thy ===== *)
theory NoticeApiFacts
  imports NoticeApi NoticeServerFacts
begin

text \<open>
  From the worker to the page: what the pages of the web application show of the stored notices.
\<close>

section \<open>The page of a difference\<close>

lemma web_as_blocks_read: "web_as_blocks (line_diff_json sv a b) = Some (build_line_diff (sv_diff_lines sv) a b)"
proof -
  have "web_as_blocks = as_blocks" by (simp add: web_as_blocks_def as_blocks_def)
  then show ?thesis by (simp add: line_diff_json_def blocks_read)
qed

lemma latest_by_None: "latest_by key rows = None \<longleftrightarrow> rows = []"
proof -
  have "order_by (\<lambda>x y. key y \<le> key x) rows = [] \<longleftrightarrow> rows = []" by (metis length_0_conv length_order_by)
  then show ?thesis by (cases "order_by (\<lambda>x y. key y \<le> key x) rows") (simp_all add: latest_by_def)
qed

lemma find_item_stored: "r \<in> set (pz_items s) \<Longrightarrow> \<exists>q. find_item (qi_id r) s = Some q"
  by (cases "find_item (qi_id r) s") (auto simp: find_item_def find_None_iff)

text \<open>What the page makes of the stored differences of a notice.\<close>

lemma diff_view_stored:
  assumes "r \<in> set (pz_items s)" "qi_id r = i" "i \<noteq> []"
  shows "web_diff_view (Some i) s = (case latest_by qd_created_at (filter (\<lambda>x. qd_notice_item_id x = i) (pz_diffs s)) of
      None \<Rightarrow> NoDiff
    | Some d \<Rightarrow> (case web_as_blocks (qd_diff_json d) of None \<Rightarrow> BadShape | Some bs \<Rightarrow> Blocks bs))"
  using find_item_stored [OF assms(1)] assms(2,3)
  by (auto simp: web_diff_view_def non_empty_def get_notice_route_def get_diff_route_def answer_or_error_def split: option.split)

text \<open>
  C27. The page of a stored notice shows what changed: after any synchronisations it says that there is no difference
  exactly if none is stored for the notice, and otherwise shows the difference between two of the notice's own snapshots
  with different texts (for the second text up to a collision of the hash), never an error.
\<close>

theorem web_page_shows_change:
  assumes runs: "\<forall>(http, opts) \<in> set runs. answers_what_is_asked http"
    and item: "r \<in> set (pz_items (sync_runs sv en runs))" "qi_id r \<noteq> []"
  shows "if \<exists>x \<in> set (pz_diffs (sync_runs sv en runs)). qd_notice_item_id x = qi_id r
    then \<exists>a \<in> set (pz_snapshots (sync_runs sv en runs)). \<exists>b \<in> set (pz_snapshots (sync_runs sv en runs)). \<exists>t.
      web_diff_view (Some (qi_id r)) (sync_runs sv en runs) = Blocks (build_line_diff (sv_diff_lines sv) (qs_normalized_text a) t)
      \<and> qs_notice_item_id a = qi_id r \<and> qs_notice_item_id b = qi_id r
      \<and> qs_normalized_text a \<noteq> qs_normalized_text b \<and> sv_sha256 sv t = sv_sha256 sv (qs_normalized_text b)
    else web_diff_view (Some (qi_id r)) (sync_runs sv en runs) = NoDiff"
proof -
  let ?s = "sync_runs sv en runs"
  let ?mine = "filter (\<lambda>x. qd_notice_item_id x = qi_id r) (pz_diffs ?s)"
  note view = diff_view_stored [OF item(1) refl item(2)]
  show ?thesis
  proof (cases "latest_by qd_created_at ?mine")
    case None
    then have "\<not> (\<exists>x \<in> set (pz_diffs ?s). qd_notice_item_id x = qi_id r)" by (auto simp: latest_by_None filter_empty_conv)
    with None show ?thesis by (simp add: view)
  next
    case (Some d)
    then have d: "d \<in> set (pz_diffs ?s)" "qd_notice_item_id d = qi_id r" using latest_by_in by fastforce+
    from stored_diffs_are_differences [OF runs d(1)] obtain a b t where
      a: "a \<in> set (pz_snapshots ?s)" "qs_notice_item_id a = qi_id r"
      and b: "b \<in> set (pz_snapshots ?s)" "qs_notice_item_id b = qi_id r"
      and texts: "sv_sha256 sv t = sv_sha256 sv (qs_normalized_text b)"
        "sv_sha256 sv (qs_normalized_text a) \<noteq> sv_sha256 sv (qs_normalized_text b)"
        "qd_diff_json d = line_diff_json sv (qs_normalized_text a) t"
      by (auto simp: d(2))
    have shown: "web_diff_view (Some (qi_id r)) ?s = Blocks (build_line_diff (sv_diff_lines sv) (qs_normalized_text a) t)"
      by (simp add: view Some texts(3) web_as_blocks_read)
    have "qs_normalized_text a \<noteq> qs_normalized_text b" using texts(2) by auto
    moreover have "\<exists>x \<in> set (pz_diffs ?s). qd_notice_item_id x = qi_id r" using d by blast
    ultimately show ?thesis using a b texts(1) shown
      by (simp only: if_True) (intro bexI [OF _ a(1)] bexI [OF _ b(1)] exI [of _ t] conjI, simp_all)
  qed
qed

theorem web_page_shows_change_witness:
  "\<exists>u t. web_diff_view (Some ''i'') (sync_runs sample_worker sample_prisma (sample_runs [''A'', ''B''])) =
     Blocks (build_line_diff (sv_diff_lines sample_worker) u t)"
proof -
  let ?s = "sync_runs sample_worker sample_prisma (sample_runs [''A'', ''B''])"
  have runs: "\<forall>(http, opts) \<in> set (sample_runs [''A'', ''B'']). answers_what_is_asked http"
    by (simp add: sample_runs_def sample_board_answers)
  have rows: "sample_item 4 \<in> set (pz_items ?s)" "\<exists>x \<in> set (pz_diffs ?s). qd_notice_item_id x = qi_id (sample_item 4)"
    unfolding sample_runs_eq second_text by (simp_all add: sample_item_def sample_diff_def)
  have id: "qi_id (sample_item 4) = ''i''" by (simp add: sample_item_def)
  then have "qi_id (sample_item 4) \<noteq> []" by simp
  from web_page_shows_change [OF runs rows(1) this, unfolded if_P [OF rows(2)]]
  show ?thesis unfolding id by (elim bexE exE conjE) (rule exI, rule exI)
qed

section \<open>The feed\<close>

text \<open>The pages of the list in turn are the list, for every size that the schema of the parameters allows.\<close>

lemma route_pages:
  assumes "\<And>p. 1 \<le> p \<Longrightarrow> ae_list_query ae (params p) = Inr (q\<lparr>lq_page := p, lq_page_size := n\<rparr>)" and "1 \<le> n"
  shows "concat (map (\<lambda>i. case list_notices_route ae (params (int i + 1)) s of Answer a \<Rightarrow> an_items a | _ \<Rightarrow> []) [0..<k]) =
    take (nat n * k) (order_by published_desc (matching_items ae q s))"
proof -
  have "(case list_notices_route ae (params (int i + 1)) s of Answer a \<Rightarrow> an_items a | _ \<Rightarrow> []) =
      take (nat n) (drop (nat n * i) (order_by published_desc (matching_items ae q s)))" for i
    using assms(2) by (simp add: list_notices_route_def assms(1) Let_def matching_items_def nat_mult_distrib mult.commute)
  then show ?thesis by (simp add: concat_pages)
qed

text \<open>Notices without a date come before all others.\<close>

lemma undated_first:
  assumes "order_by published_desc rows = xs @ x # ys" "qi_published_at x = None" "y \<in> set xs"
  shows "qi_published_at y = None"
proof -
  have "sorted_wrt published_desc (order_by published_desc rows)"
    by (rule sorted_order_by) (auto simp: published_desc_def split: option.splits)
  with assms have "published_desc y x" by (simp add: sorted_wrt_append)
  with assms(2) show ?thesis by (simp add: published_desc_def split: option.splits)
qed

text \<open>The states of the feed while the server answers the request \<open>u\<close> with \<open>api u\<close>.\<close>

inductive feed_run :: "((string \<times> string) list \<Rightarrow> string + notice_list_answer) \<Rightarrow> web_feed \<Rightarrow> bool" for api where
  mounted: "feed_run api mounted_feed"
| source: "feed_run api f \<Longrightarrow> feed_run api (choose_source source f)"
| typed: "feed_run api f \<Longrightarrow> feed_run api (type_query q f)"
| searched: "feed_run api f \<Longrightarrow> feed_run api (search_clicked f)"
| prev: "feed_run api f \<Longrightarrow> feed_run api (prev_clicked f)"
| forth: "feed_run api f \<Longrightarrow> feed_run api (next_clicked f)"
| answered: "feed_run api f \<Longrightarrow> wf_loading f \<Longrightarrow> feed_run api (feed_answered (api (feed_url f)) f)"

definition feed_ok :: "((string \<times> string) list \<Rightarrow> string + notice_list_answer) \<Rightarrow> web_feed \<Rightarrow> bool" where
  "feed_ok api f \<longleftrightarrow> (if wf_loading f then wf_error f = None
     else case api (feed_url f) of
       Inl e \<Rightarrow> wf_error f = Some e \<and> wf_data f = None
     | Inr a \<Rightarrow> wf_error f = None \<and> wf_data f = Some a)"

lemma refetch_ok:
  "feed_ok api f \<Longrightarrow> wf_loading g = wf_loading f \<Longrightarrow> wf_error g = wf_error f \<Longrightarrow> wf_data g = wf_data f \<Longrightarrow>
   feed_ok api (refetch f g)"
  by (auto simp: feed_ok_def refetch_def split: sum.splits if_splits)

text \<open>
  When the feed is not loading, it shows the server's answer to the request for exactly the source, the text and the page
  that are selected, whatever was clicked in which order and however late answers came.
\<close>

lemma settled_feed_is_current: "feed_run api f \<Longrightarrow> feed_ok api f"
proof (induction rule: feed_run.induct)
  case mounted
  show ?case by (simp add: feed_ok_def mounted_feed_def)
next
  case (typed f q)
  then show ?case by (auto simp: feed_ok_def type_query_def feed_url_def split: sum.splits if_splits)
next
  case (answered f)
  then show ?case by (simp add: feed_ok_def feed_answered_def feed_url_def split: sum.split)
qed (auto simp: choose_source_def search_clicked_def prev_clicked_def next_clicked_def Let_def intro: refetch_ok)

section \<open>The worker's command\<close>

text \<open>Whatever is given on the command line, the number of pages is finite, so that fetching the list ends.\<close>

lemma number_arg_finite: "is_finite dflt \<Longrightarrow> is_finite (number_arg to_number dflt a)"
  by (simp add: number_arg_def Let_def)

lemma command_fetch_ends:
  "\<exists>r. fetch_latest_article_metas http a \<lparr>lo_max_pages = co_max_pages (command_options lower to_number argv),
     lo_page_size = n, lo_include_pinned = co_include_pinned (command_options lower to_number argv)\<rparr> = Some r"
proof -
  have "is_finite (co_max_pages (command_options lower to_number argv))"
    by (simp add: command_options_def Let_def number_arg_finite)
  then obtain x where "co_max_pages (command_options lower to_number argv) = Fin x"
    by (cases "co_max_pages (command_options lower to_number argv)") simp_all
  moreover have "\<exists>r. fetch_pages http a (Fin x) n 0 ''0'' ms = Some r" for ms by (rule fetch_pages_ends)
  ultimately show ?thesis
    by (auto simp: fetch_latest_article_metas_def split: sum.split)
qed

end
