(* ===== verification/Spec2Isabelle.thy ===== *)
theory Spec2Isabelle
  imports BackupRoundtrip NoticeSyncFacts Scheduler MainProcess Overlay Recommend PageFacts FeedFacts LootForms Router LifecycleFacts WebPlanner NoticeApiFacts
begin

text \<open>
  AION2 Hub is a desktop companion for a game (Electron, TypeScript). Its main process keeps one SQLite
  database per user (sql.js, in memory, written to a file), answers the IPC requests of the renderer, fetches the
  publisher's notices in the background and shows an overlay window. The renderer's pages read the answers. A web
  application in the same repository shares some of the modules. This development models the code below and
  proves what makes it correct; paths are below \<open>src/apps/desktop/src\<close> unless they begin with
  \<open>packages/\<close>.

  \<^bold>\<open>Parts, and where they are modelled.\<close>

  \<^item> \<open>Prelude\<close>, \<open>JsValue\<close>, \<open>DateTime\<close>, \<open>IsoOrder\<close>: the language. An operation that
    may throw is a function from a state to an error or a result, with the state that is left behind: a thrown error
    undoes nothing. Text is the list of its UTF-8 bytes. A value of type \<open>unknown\<close> is a \<open>jsval\<close>.
    Dates are milliseconds since 1970 with ECMAScript's calendar arithmetic; \<open>tz\<close> of the host is the local
    time offset. \<open>IsoOrder\<close> shows that texts of \<open>toISOString\<close> are ordered as their instants are,
    which the queries of the storage code rely on, for the years 0 to 9999.
  \<^item> \<open>Schema\<close>, \<open>Statements\<close>, \<open>Tables\<close> (\<open>main/storage/schema.ts\<close>, \<open>sql.ts\<close>): the
    20 tables as lists of records in insertion order, with their keys, unique constraints, NOT NULL columns, checks and
    foreign keys; INSERT with its conflict clauses, UPDATE and DELETE with CASCADE and SET NULL. \<open>statement\<close>
    is the inductive predicate of all statements that the code runs; \<open>db_invariant\<close> is the interface of a
    property that they keep, interpreted on the keys, on the references and on the default settings.
  \<^item> \<open>Characters\<close>, \<open>Planner\<close>, \<open>BuildScore\<close>, \<open>Economy\<close>, \<open>Loot\<close>, \<open>Notices\<close>,
    \<open>BackupExport\<close>, \<open>BackupImport\<close>: the storage domains \<open>main/storage/domains/*.ts\<close>, one definition per
    exported function, with its SQL, its defaults and its errors. \<open>Characters\<close> also has \<open>init\<close>,
    \<open>ensureDefaults\<close>, \<open>openDesktopDb\<close> and \<open>persist\<close> of \<open>main/storage/db.ts\<close>.
  \<^item> \<open>Period\<close> (\<open>main/planner/period.ts\<close>, \<open>renderer/src/planner/reset.ts\<close>,
    \<open>packages/modules/planner/lib/period.ts\<close>, \<open>resolveWeeklyStartLocal\<close>): the reset periods, four times.
  \<^item> \<open>LineDiff\<close>, \<open>NoticeFetch\<close>, \<open>NoticeSync\<close>, \<open>Scheduler\<close> (\<open>main/notices/*.ts\<close>,
    \<open>packages/notices-client/src\<close>, \<open>main/scheduler.ts\<close>): fetching, normalising and storing the notices with
    their differences; when a synchronisation runs.
  \<^item> \<open>Session\<close>, \<open>Handlers\<close>, \<open>MainProcess\<close> (\<open>main/ipcHandlers/*.ts\<close>, \<open>main/ipc.ts\<close>,
    \<open>main/storage/db.ts\<close>): a \<open>session\<close> is the open database and its file; \<open>handle\<close> answers a
    request; \<open>reachable\<close> are the states of the running process under any interleaving of requests, steps of a
    synchronisation, crashes and restarts.
  \<^item> \<open>Windows\<close>, \<open>Foreground\<close>, \<open>Overlay\<close> (\<open>main/index.ts\<close>, \<open>main/overlay/*.ts\<close>): the saved
    places of the windows, the output of the watcher process, the overlay window as a step relation over its events.
  \<^item> \<open>PlannerPages\<close>, \<open>ScorePages\<close>, \<open>Recommend\<close> (\<open>renderer/src/pages/*/model.ts\<close>,
    \<open>renderer/src/planner\<close>, \<open>renderer/src/buildScore\<close>, \<open>packages/modules/planner/lib/recommend.ts\<close>):
    how the planner and build score pages read answers, the timer, the score, its presets and the recommendation of tasks.
  \<^item> \<open>DataPages\<close>, \<open>LootForms\<close>, \<open>Router\<close> (\<open>renderer/src/FeedPage.tsx\<close>, \<open>DiffPage.tsx\<close>, \<open>App.tsx\<close>,
    \<open>router.ts\<close>, \<open>pages/EconomyPage.tsx\<close>, \<open>LootLogbookPage.tsx\<close>, \<open>PlannerStatsPage.tsx\<close>,
    \<open>overlay/OverlayLootQuickLog.tsx\<close>): the objects that the main process sends and what the other pages make of them,
    the two forms that record a loot run, and the routes and the links that lead to them.
  \<^item> \<open>Lifecycle\<close> (\<open>main/index.ts\<close> from \<open>createWindow\<close> to \<open>will-quit\<close>, \<open>ipcHandlers/appHandlers.ts\<close>): the app
    as a whole, a step relation \<open>app_step\<close> over the events of the main window, the overlay, the scheduler and the
    requests, until the process ends.
  \<^item> \<open>WebStore\<close> (\<open>apps/web/lib/charactersStore.ts\<close>, \<open>moduleToggleStore.ts\<close>, \<open>packages/core/src\<close>,
    \<open>packages/modules/planner/lib/hubCharacters.ts\<close>): the shell of the web application, its characters and modules in the
    storage of the browser and the cache of loaded pages. \<open>WebPlanner\<close> (\<open>packages/modules/planner\<close>): the planner of the
    web application, its tables, the operations of its pages and its widget.
  \<^item> \<open>NoticeServer\<close>, \<open>NoticeApi\<close> (\<open>apps/worker/src/notices\<close>, \<open>apps/worker/src/notices-sync.ts\<close>,
    \<open>apps/api/src/routes/notices.ts\<close>, \<open>packages/modules/notices/pages\<close>): the worker that synchronises the notices into the
    database of the server, over the interface \<open>NoticeSyncRepo\<close>, the routes that read them and the two pages that show them.
    The locale \<open>notice_repository\<close> is the contract of that interface, interpreted on the repository over the tables.

  \<^bold>\<open>What is shown.\<close>

  \<^item> \<open>Period\<close>: the daily and the weekly key change exactly at the resets; the countdown of the renderer ends at
    the change of the key; the loot report and the planner mean the same week. These theorems are for zones with a
    constant offset (\<open>steady_zone\<close>). With daylight saving time they can fail: \<open>countdown_misses_reset_after_gap\<close> is a
    zone and a day on which the countdown ends an hour after the key has changed.
  \<^item> \<open>PlannerFacts\<close>, \<open>Presets\<close>, \<open>Charges\<close>: completions show in the overview, server settings override
    the default, templates reach every character, presets merge without duplicates, a spent charge comes back at the
    instant that the overview announces, and undoing a use restores the database.
  \<^item> \<open>LootRuns\<close>, \<open>LootFacts\<close>, \<open>Economy\<close>: a run is stored whole or not at all and found again as entered;
    the report is the sum of its rows at the newest prices; a price raises exactly the alerts that are due.
  \<^item> \<open>BackupRows\<close>, \<open>BackupFile\<close>, \<open>BackupRoundtrip\<close>: an import that fails changes nothing, and the backup of a
    database gives its user data back in a new installation, or in one that enforces foreign keys (\<open>replaceable\<close>): all of it
    if the database is consistent (\<open>kept_all\<close>), otherwise without the rows that name what is gone (\<open>kept\<close>). The rows must
    be as the handlers write them (\<open>rows_ready\<close>); a backup does not repair what an edited file brought in.
  \<^item> \<open>BuildScoreFacts\<close>, \<open>PageFacts\<close>: stored scores are read back; every answer passes the check of the page that
    asked, apart from rows without an id or a name, which the pages leave out or refuse (\<open>understood\<close>); a preset of the user decides which stats count.
  \<^item> \<open>Notices\<close>, \<open>NoticeSyncFacts\<close>, \<open>NoticeFetch\<close>, \<open>LineDiff\<close>, \<open>Scheduler\<close>: pages partition the list; a
    second synchronisation fetches only the articles without any date; fetching ends; a difference shows both versions; one run at a time.
  \<^item> \<open>HandlerFacts\<close>, \<open>MainProcess\<close>: the interface \<open>session_invariant\<close> lifts an invariant of the statements to
    all handlers, and \<open>process_invariant\<close> to all reachable states; what an answered request has changed is in the file.
  \<^item> \<open>DataPageFacts\<close>, \<open>FeedFacts\<close>, \<open>LootForms\<close>, \<open>Router\<close>: reading undoes sending; turning the pages of the feed shows
    every notice once; what is entered in the form of the logbook is what its run shows; a link opens the notice it names.
  \<^item> \<open>LifecycleFacts\<close>: the first closing of the main window ends the app if the file can be written, under every
    interleaving in which the window is not asked for again (\<open>reopened_window_stays\<close> shows that this is needed); an
    overlay window keeps it running after a quit.
  \<^item> \<open>WebStore\<close>, \<open>WebPlanner\<close>: the stored characters keep distinct ids and names under every operation; one page has at
    most one load at a time, and a failed one can be repeated; the charges of the web planner come back, and a use
    leaves no more of them recharging than the template has if the page shows the stored uses (\<open>two_clicks_overdraw\<close>: a
    second click before the page has read them again overdraws); its toggle shows, an undo reverts the last use, and its
    saved settings are in range.
  \<^item> \<open>NoticeServerFacts\<close>, \<open>NoticeApiFacts\<close>: after any synchronisations, also failed ones, every stored difference is that of
    two snapshots of its notice and the page shows it; the feed shows the answer to what is selected.
  \<^item> \<open>Recommend\<close>, \<open>Windows\<close>, \<open>Foreground\<close>, \<open>Overlay\<close>: no other selection has more tasks than the recommended
    one; a saved window place is restored; lines are found however the output is cut; the overlay shows when it should.

  \<^bold>\<open>Defects that the model shows.\<close> \<open>opened_db_never_cascades\<close>: sql.js reopens the
  connection at every export, which turns foreign keys off after the start, so no delete cascades and nothing is
  cleared by a later import (\<open>import_without_foreign_keys_keeps_completions\<close>).
  \<open>notice_search_always_fails\<close> and \<open>item_search_always_fails\<close>: the escape text of a text
  search is two characters long, which \<open>sql_like\<close>, the model of SQLite's LIKE, rejects at the first row; with one
  backslash it would find the text (\<open>like_finds_text\<close>). \<open>unreadable_file_is_replaced\<close>: a file that cannot be read at the start
  is overwritten. \<open>overlay_holds_app_open\<close>: a quit is cancelled by the overlay window for good. The form
  of the logbook accepts amounts below one, which are then left out (\<open>submitted_run_is_shown\<close> says which
  are kept). A charge of the web planner comes back one millisecond after the instant that its page announces, and its
  widget may show more tasks done than there are (\<open>widget_shows_one_of_none\<close>). A text of a notice that
  comes back stays behind the withdrawn one (\<open>withdrawn_text_stays_latest\<close>), and the web list puts
  notices without a date first (\<open>undated_first\<close>). A window below 300 by 200 is saved but not restored (\<open>window_place_is_restored\<close>), and a request for the
  overview of a deleted character unsets the active one (\<open>deleted_character_is_gone\<close>). Whether export keeps the pragmas is the field
  \<open>export_keeps_pragmas\<close> of a database, so both behaviours are covered.

  \<^bold>\<open>Parameters and bounds.\<close> Code that is not in the repository is a parameter: the validation of zod
  (\<open>en_safe_parse\<close>), \<open>Date.parse\<close>, \<open>toLowerCase\<close> and the time zone of the host, random ids and clock readings, the text
  that cheerio extracts, the SHA-256 hash, \<open>diffLines\<close>, the HTTP answers of the board, the file picker, the displays of
  Electron, \<open>JSON.parse\<close> and \<open>JSON.stringify\<close> of the window state and of the browser's storage. The tables of Dexie and of Prisma do what their
  documentation says; any call of Prisma may fail. Theorems name as hypotheses what they need of them, and
  their witnesses use concrete functions. Numbers are rationals with infinities and NaN, so the rounding of doubles is not
  modelled. The limits of the code are kept: at most 50 notices per page, 500 rows per list, 240 minutes per task. The
  loop over the pages of the board is a \<open>partial_function\<close>, and \<open>fetch_latest_ends\<close> shows that it returns.
  A handler touches the database only before its first \<open>await\<close> or after that of \<open>persist\<close>, so a handler is one step.

  \<^bold>\<open>Not modelled.\<close> The React components (markup and component state around the modelled functions), the preload bridge and
  the delegating methods of the class \<open>DesktopDb\<close>, logging, the choice of the data directory, the boot sequence up to the
  first window, error pages, texts for display; the start of the API server and the demonstration queue of the worker.
\<close>

end
